(* ===== verification/Prelude.thy ===== *)
theory Prelude
  imports Main "HOL-Library.Char_ord" "HOL-Library.List_Lexorder"
begin

text \<open>
  Shared vocabulary of the development: results with errors, state-and-exception computations,
  searches in lists, and strings with their JavaScript operations.

  A JavaScript string is its list of UTF-16 code units. The model covers units below 256
  (Latin-1), one \<^typ>\<open>char\<close> each, so \<open>length\<close> is JavaScript's \<open>length\<close> and
  \<open>utf8_length\<close> is the size \<open>TextEncoder\<close> gives. A JavaScript object is the association
  list of its own enumerable properties in enumeration order; accessor properties and cyclic
  values are outside the model.
\<close>

named_theorems outcome_simps \<open>evaluation of results and of state-and-exception steps\<close>
named_theorems string_simps \<open>evaluation of string helpers\<close>

section \<open>Results\<close>

text \<open>\<open>Inl e\<close> is a thrown error, \<open>Inr v\<close> a returned value.\<close>

type_synonym ('e, 'a) outcome = "'e + 'a"

definition bindE :: "('e, 'a) outcome \<Rightarrow> ('a \<Rightarrow> ('e, 'b) outcome) \<Rightarrow> ('e, 'b) outcome" where
  "bindE r f = (case r of Inl e \<Rightarrow> Inl e | Inr a \<Rightarrow> f a)"

lemma bindE_simps [simp, outcome_simps]:
  "bindE (Inl e) f = Inl e"
  "bindE (Inr a) f = f a"
  by (simp_all add: bindE_def)

lemma bindE_Inr: "bindE r f = Inr b \<longleftrightarrow> (\<exists>a. r = Inr a \<and> f a = Inr b)"
  by (cases r) auto

lemma bindE_Inl: "bindE r f = Inl e \<longleftrightarrow> r = Inl e \<or> (\<exists>a. r = Inr a \<and> f a = Inl e)"
  by (cases r) auto

definition guardE :: "bool \<Rightarrow> 'e \<Rightarrow> ('e, unit) outcome" where
  "guardE ok e = (if ok then Inr () else Inl e)"

lemma guardE_simps [simp, outcome_simps]:
  "guardE True e = Inr ()"
  "guardE False e = Inl e"
  "(guardE b e = Inr u) = b"
  "(guardE b e = Inl e') = (\<not> b \<and> e' = e)"
  by (auto simp: guardE_def)

text \<open>A loop that stops at the first error: \<open>for (x of xs) ...\<close> with a body that may throw.\<close>

fun mapE :: "('a \<Rightarrow> ('e, 'b) outcome) \<Rightarrow> 'a list \<Rightarrow> ('e, 'b list) outcome" where
  "mapE f [] = Inr []"
| "mapE f (x # xs) = bindE (f x) (\<lambda>y. bindE (mapE f xs) (\<lambda>ys. Inr (y # ys)))"

lemma mapE_Inr:
  "mapE f xs = Inr ys \<longleftrightarrow> list_all2 (\<lambda>x y. f x = Inr y) xs ys"
  by (induction xs arbitrary: ys) (auto simp: bindE_Inr list_all2_Cons1)

lemma mapE_Inl: "mapE f xs = Inl e \<Longrightarrow> \<exists>x \<in> set xs. f x = Inl e"
  by (induction xs) (auto simp: bindE_Inl)

lemma mapE_length: "mapE f xs = Inr ys \<Longrightarrow> length ys = length xs"
  by (simp add: mapE_Inr list_all2_lengthD)

lemma mapE_total: "(\<And>x. x \<in> set xs \<Longrightarrow> f x = Inr (g x)) \<Longrightarrow> mapE f xs = Inr (map g xs)"
  by (induction xs) auto

text \<open>\<open>xs.some(f)\<close> with a test that may throw: it stops at the first element that holds.\<close>

fun someE :: "('a \<Rightarrow> ('e, bool) outcome) \<Rightarrow> 'a list \<Rightarrow> ('e, bool) outcome" where
  "someE f [] = Inr False"
| "someE f (x # xs) = bindE (f x) (\<lambda>b. if b then Inr True else someE f xs)"

lemma find_Some_in: "List.find P xs = Some x \<Longrightarrow> x \<in> set xs \<and> P x"
  by (induction xs) (auto split: if_splits)

lemma find_map: "List.find P (map f xs) = map_option f (List.find (\<lambda>x. P (f x)) xs)"
  by (induction xs) auto

lemma find_append: "List.find P (xs @ ys) = (case List.find P xs of None \<Rightarrow> List.find P ys | Some x \<Rightarrow> Some x)"
  by (induction xs) auto

lemma find_None: "List.find P xs = None \<longleftrightarrow> (\<forall>x \<in> set xs. \<not> P x)"
  by (induction xs) auto

lemma find_update:
  assumes "\<And>r. key (f r) = key r"
  shows "List.find (\<lambda>x. key x = i) (map (\<lambda>r. if key r = j then f r else r) rs) =
    (if i = j then map_option f (List.find (\<lambda>x. key x = i) rs) else List.find (\<lambda>x. key x = i) rs)"
  using assms by (induction rs) auto

lemma find_distinct:
  "distinct (map key rs) \<Longrightarrow> r \<in> set rs \<Longrightarrow> List.find (\<lambda>x. key x = key r) rs = Some r"
  by (induction rs) (auto simp: image_iff)

lemma length_filter_mono: "(\<And>x. P x \<Longrightarrow> Q x) \<Longrightarrow> length (filter P xs) \<le> length (filter Q xs)"
  by (induction xs) (auto simp: le_SucI)

lemma list_all2_in_set2:
  "list_all2 P xs ys \<Longrightarrow> y \<in> set ys \<Longrightarrow> \<exists>x \<in> set xs. P x y"
  by (metis in_set_conv_nth list_all2_conv_all_nth)

lemma mapE_in: "mapE f xs = Inr ys \<Longrightarrow> y \<in> set ys \<Longrightarrow> \<exists>x \<in> set xs. f x = Inr y"
  unfolding mapE_Inr by (rule list_all2_in_set2)

section \<open>State and exceptions\<close>

text \<open>
  An \<open>async\<close> function that mutates the state \<open>'s\<close> and may throw. A throw keeps the
  mutations made before it, as in the source.
\<close>

type_synonym ('s, 'e, 'a) step = "'s \<Rightarrow> ('e, 'a) outcome \<times> 's"

definition bindS :: "('s, 'e, 'a) step \<Rightarrow> ('a \<Rightarrow> ('s, 'e, 'b) step) \<Rightarrow> ('s, 'e, 'b) step" where
  "bindS m f s = (case m s of (Inl e, s') \<Rightarrow> (Inl e, s') | (Inr a, s') \<Rightarrow> f a s')"

definition returnS :: "'a \<Rightarrow> ('s, 'e, 'a) step" where
  "returnS a s = (Inr a, s)"

definition throwS :: "'e \<Rightarrow> ('s, 'e, 'a) step" where
  "throwS e s = (Inl e, s)"

definition liftS :: "('e, 'a) outcome \<Rightarrow> ('s, 'e, 'a) step" where
  "liftS r s = (r, s)"

definition updS :: "('s \<Rightarrow> 's) \<Rightarrow> ('s, 'e, unit) step" where
  "updS f s = (Inr (), f s)"

lemma step_simps [simp, outcome_simps]:
  "returnS a s = (Inr a, s)"
  "throwS e s = (Inl e, s)"
  "liftS r s = (r, s)"
  "updS f s = (Inr (), f s)"
  by (simp_all add: returnS_def throwS_def liftS_def updS_def)

lemma bindS_Inr:
  "bindS m f s = (Inr b, t) \<longleftrightarrow> (\<exists>a s'. m s = (Inr a, s') \<and> f a s' = (Inr b, t))"
  by (auto simp: bindS_def split: sum.splits prod.splits)

lemma bindS_Inl:
  "bindS m f s = (Inl e, t) \<longleftrightarrow>
     m s = (Inl e, t) \<or> (\<exists>a s'. m s = (Inr a, s') \<and> f a s' = (Inl e, t))"
  by (auto simp: bindS_def split: sum.splits prod.splits)

section \<open>Strings\<close>

definition code :: "char \<Rightarrow> nat" where
  "code c = of_char c"

definition startsWith :: "string \<Rightarrow> string \<Rightarrow> bool" where
  "startsWith s p \<longleftrightarrow> take (length p) s = p"

definition endsWith :: "string \<Rightarrow> string \<Rightarrow> bool" where
  "endsWith s p \<longleftrightarrow> drop (length s - length p) s = p"

fun str_includes :: "string \<Rightarrow> string \<Rightarrow> bool" where
  "str_includes [] p \<longleftrightarrow> p = []"
| "str_includes (c # s) p \<longleftrightarrow> startsWith (c # s) p \<or> str_includes s p"

text \<open>\<open>s.split(d)\<close> for a one-character separator.\<close>

fun split_on :: "char \<Rightarrow> string \<Rightarrow> string list" where
  "split_on d [] = [[]]"
| "split_on d (c # s) =
     (if c = d then [] # split_on d s
      else (case split_on d s of [] \<Rightarrow> [[c]] | w # ws \<Rightarrow> (c # w) # ws))"

lemma split_on_nonempty: "split_on d s \<noteq> []"
  by (induction s) (auto split: list.splits)

lemma split_on_no_sep: "w \<in> set (split_on d s) \<Longrightarrow> d \<notin> set w"
proof (induction s arbitrary: w)
  case (Cons c s)
  then show ?case
    using split_on_nonempty [of d s] by (cases "split_on d s") (auto split: if_splits)
qed simp

fun join :: "string \<Rightarrow> string list \<Rightarrow> string" where
  "join d [] = []"
| "join d [w] = w"
| "join d (w # ws) = w @ d @ join d ws"

lemma join_split_on: "join [d] (split_on d s) = s"
proof (induction s)
  case (Cons c s)
  then show ?case
    using split_on_nonempty [of d s] by (cases "split_on d s"; cases "tl (split_on d s)") auto
qed simp

lemma split_on_plain: "d \<notin> set w \<Longrightarrow> split_on d w = [w]"
  by (induction w) auto

lemma split_on_append: "d \<notin> set w \<Longrightarrow> split_on d (w @ d # s) = w # split_on d s"
  by (induction w) auto

lemma split_on_join: "ws \<noteq> [] \<Longrightarrow> \<forall>w \<in> set ws. d \<notin> set w \<Longrightarrow> split_on d (join [d] ws) = ws"
  by (induction ws rule: induct_list012) (simp_all add: split_on_plain split_on_append)

text \<open>White space as \<open>trim\<close> removes it, restricted to Latin-1.\<close>

definition is_space :: "char \<Rightarrow> bool" where
  "is_space c \<longleftrightarrow> code c \<in> {9, 10, 11, 12, 13, 32, 160}"

definition trim :: "string \<Rightarrow> string" where
  "trim s = rev (dropWhile is_space (rev (dropWhile is_space s)))"

definition is_digit :: "char \<Rightarrow> bool" where
  "is_digit c \<longleftrightarrow> 48 \<le> code c \<and> code c \<le> 57"

definition is_lower :: "char \<Rightarrow> bool" where
  "is_lower c \<longleftrightarrow> 97 \<le> code c \<and> code c \<le> 122"

definition is_upper :: "char \<Rightarrow> bool" where
  "is_upper c \<longleftrightarrow> 65 \<le> code c \<and> code c \<le> 90"

definition is_alnum :: "char \<Rightarrow> bool" where
  "is_alnum c \<longleftrightarrow> is_digit c \<or> is_lower c \<or> is_upper c"

definition is_control :: "char \<Rightarrow> bool" where
  "is_control c \<longleftrightarrow> code c \<le> 31 \<or> code c = 127"

definition has_line_break :: "string \<Rightarrow> bool" where
  "has_line_break s \<longleftrightarrow> (\<exists>c \<in> set s. code c = 13 \<or> code c = 10)"

text \<open>
  \<open>toLowerCase\<close> maps ASCII capitals and the Latin-1 capitals 192 to 222 except 215;
  \<open>toUpperCase\<close> is the converse on the letters whose capital is Latin-1 (the sharp s, the
  micro sign and y with diaeresis, whose capitals lie outside, are left as they are).
\<close>

definition lower_char :: "char \<Rightarrow> char" where
  "lower_char c =
     (if is_upper c \<or> 192 \<le> code c \<and> code c \<le> 222 \<and> code c \<noteq> 215
      then char_of (code c + 32) else c)"

definition upper_char :: "char \<Rightarrow> char" where
  "upper_char c =
     (if is_lower c \<or> 224 \<le> code c \<and> code c \<le> 254 \<and> code c \<noteq> 247
      then char_of (code c - 32) else c)"

definition toLowerCase :: "string \<Rightarrow> string" where
  "toLowerCase s = List.map lower_char s"

definition toUpperCase :: "string \<Rightarrow> string" where
  "toUpperCase s = List.map upper_char s"

definition utf8_length :: "string \<Rightarrow> nat" where
  "utf8_length s = sum_list (List.map (\<lambda>c. if code c < 128 then 1 else 2) s)"

lemma length_le_utf8_length: "length s \<le> utf8_length s"
  by (induction s) (auto simp: utf8_length_def)

text \<open>Decimal rendering of integers, as \<open>String(n)\<close> gives it below \<open>10 ^ 21\<close>.\<close>

fun show_nat :: "nat \<Rightarrow> string" where
  "show_nat n = (if n < 10 then [char_of (48 + n)] else show_nat (n div 10) @ [char_of (48 + n mod 10)])"

declare show_nat.simps [simp del]

definition show_int :: "int \<Rightarrow> string" where
  "show_int i = (if i < 0 then CHR ''-'' # show_nat (nat (- i)) else show_nat (nat i))"

end
