(* ===== verification/JsValue.thy ===== *)
theory JsValue
  imports Prelude
begin

text \<open>
  JavaScript values of type \<open>unknown\<close>, as the components receive them at their boundaries, with
  the language's own operations on them: \<open>typeof\<close>, property reads (which see the members of
  \<open>Object.prototype\<close>), own keys, JSON string quoting and ISO dates.

  A finite number is an integer or a decimal \<open>m / 10 ^ k\<close> (\<open>NDec m k\<close>, \<open>0 < k\<close>,
  \<open>10\<close> not dividing \<open>m\<close>), which covers every double by its shortest decimal rendering;
  integers are read below \<open>10 ^ 21\<close>, where that rendering is the plain one. Values are trees:
  cyclic values are outside the model. Objects carry the kind of their prototype.
\<close>

datatype jsnum = NInt int | NDec int nat | NaN | PosInf | NegInf

datatype obj_kind =
    PlainObj      \<comment> \<open>prototype \<open>Object.prototype\<close>, string keys only\<close>
  | NullProto     \<comment> \<open>prototype \<open>null\<close>, string keys only\<close>
  | SymbolKeyed   \<comment> \<open>prototype \<open>Object.prototype\<close>, at least one symbol key\<close>
  | ForeignProto  \<comment> \<open>any other prototype: class instances, maps, wrappers\<close>

datatype jsval =
    JUndef
  | JNull
  | JBool bool
  | JNum jsnum
  | JStr string
  | JBigInt int
  | JSymbol string
  | JFun string
  | JDate "int option"  \<comment> \<open>milliseconds since the epoch, or an invalid date\<close>
  | JArr "jsval list"
  | JObj obj_kind "(string \<times> jsval) list"

definition max_safe_integer :: int where
  "max_safe_integer = 9007199254740991"

definition is_safe_integer :: "int \<Rightarrow> bool" where
  "is_safe_integer i \<longleftrightarrow> - max_safe_integer \<le> i \<and> i \<le> max_safe_integer"

fun num_is_finite :: "jsnum \<Rightarrow> bool" where
  "num_is_finite (NInt _) = True"
| "num_is_finite (NDec _ _) = True"
| "num_is_finite _ = False"

fun is_string :: "jsval \<Rightarrow> bool" where
  "is_string (JStr _) = True"
| "is_string _ = False"

text \<open>\<open>typeof value === "object" && value !== null && !Array.isArray(value)\<close>\<close>

fun isRecord :: "jsval \<Rightarrow> bool" where
  "isRecord (JObj _ _) = True"
| "isRecord (JDate _) = True"
| "isRecord _ = False"

fun js_typeof :: "jsval \<Rightarrow> string" where
  "js_typeof JUndef = ''undefined''"
| "js_typeof (JBool _) = ''boolean''"
| "js_typeof (JNum _) = ''number''"
| "js_typeof (JStr _) = ''string''"
| "js_typeof (JBigInt _) = ''bigint''"
| "js_typeof (JSymbol _) = ''symbol''"
| "js_typeof (JFun _) = ''function''"
| "js_typeof _ = ''object''"

text \<open>The members every ordinary object inherits from \<open>Object.prototype\<close>.\<close>

definition object_prototype_keys :: "string list" where
  "object_prototype_keys =
     [''constructor'', ''__defineGetter__'', ''__defineSetter__'', ''hasOwnProperty'',
      ''__lookupGetter__'', ''__lookupSetter__'', ''isPrototypeOf'', ''propertyIsEnumerable'',
      ''toString'', ''valueOf'', ''__proto__'', ''toLocaleString'']"

definition inherited_value :: "string \<Rightarrow> jsval" where
  "inherited_value k =
     (if k = ''__proto__'' then JObj NullProto []
      else if k \<in> set object_prototype_keys then JFun k else JUndef)"

text \<open>\<open>o[k]\<close>: an own property, else an inherited member, else \<open>undefined\<close>.\<close>

definition record_get :: "(string \<times> jsval) list \<Rightarrow> string \<Rightarrow> jsval" where
  "record_get fs k = (case map_of fs k of Some v \<Rightarrow> v | None \<Rightarrow> inherited_value k)"

fun js_get :: "jsval \<Rightarrow> string \<Rightarrow> jsval" where
  "js_get (JObj NullProto fs) k = (case map_of fs k of Some v \<Rightarrow> v | None \<Rightarrow> JUndef)"
| "js_get (JObj _ fs) k = record_get fs k"
| "js_get _ k = inherited_value k"

text \<open>\<open>Object.keys(o)\<close> and \<open>Object.prototype.hasOwnProperty.call(o, k)\<close>\<close>

fun own_entries :: "jsval \<Rightarrow> (string \<times> jsval) list" where
  "own_entries (JObj _ fs) = fs"
| "own_entries _ = []"

definition own_keys :: "jsval \<Rightarrow> string list" where
  "own_keys v = List.map fst (own_entries v)"

definition has_own :: "jsval \<Rightarrow> string \<Rightarrow> bool" where
  "has_own v k \<longleftrightarrow> k \<in> set (own_keys v)"

lemma record_get_own: "map_of fs k = Some v \<Longrightarrow> record_get fs k = v"
  by (simp add: record_get_def)

lemma record_get_missing:
  "map_of fs k = None \<Longrightarrow> k \<notin> set object_prototype_keys \<Longrightarrow> record_get fs k = JUndef"
  by (auto simp: record_get_def inherited_value_def object_prototype_keys_def)

text \<open>\<open>o[k] = v\<close> on an object under construction: overwrite in place or append.\<close>

fun obj_set :: "(string \<times> 'v) list \<Rightarrow> string \<Rightarrow> 'v \<Rightarrow> (string \<times> 'v) list" where
  "obj_set [] k v = [(k, v)]"
| "obj_set ((k', v') # fs) k v = (if k' = k then (k, v) # fs else (k', v') # obj_set fs k v)"

lemma map_of_obj_set [simp]: "map_of (obj_set fs k v) = (map_of fs)(k \<mapsto> v)"
  by (induction fs) auto

lemma set_obj_set_keys: "fst ` set (obj_set fs k v) = insert k (fst ` set fs)"
  by (induction fs k v rule: obj_set.induct) (simp_all add: insert_commute)

lemma distinct_obj_set: "distinct (List.map fst fs) \<Longrightarrow> distinct (List.map fst (obj_set fs k v))"
  by (induction fs k v rule: obj_set.induct) (auto simp: set_obj_set_keys)

text \<open>\<open>o[k] = v\<close> with a primitive \<open>v\<close>: the key \<open>__proto__\<close> makes no own property.\<close>

definition assign_primitive :: "(string \<times> 'v) list \<Rightarrow> string \<Rightarrow> 'v \<Rightarrow> (string \<times> 'v) list" where
  "assign_primitive fs k v = (if k = ''__proto__'' then fs else obj_set fs k v)"

section \<open>JSON rendering of primitives\<close>

definition hex_digit :: "nat \<Rightarrow> char" where
  "hex_digit n = (if n < 10 then char_of (48 + n) else char_of (87 + n))"

definition json_escape :: "char \<Rightarrow> string" where
  "json_escape c =
     (if code c = 34 then [CHR 0x5C, CHR 0x22]
      else if code c = 92 then [CHR 0x5C, CHR 0x5C]
      else if code c = 8 then [CHR 0x5C, CHR ''b'']
      else if code c = 9 then [CHR 0x5C, CHR ''t'']
      else if code c = 10 then [CHR 0x5C, CHR ''n'']
      else if code c = 12 then [CHR 0x5C, CHR ''f'']
      else if code c = 13 then [CHR 0x5C, CHR ''r'']
      else if code c < 32 then
        [CHR 0x5C, CHR ''u'', CHR ''0'', CHR ''0'', hex_digit (code c div 16), hex_digit (code c mod 16)]
      else [c])"

definition json_quote :: "string \<Rightarrow> string" where
  "json_quote s = [CHR 0x22] @ concat (List.map json_escape s) @ [CHR 0x22]"

definition pad_left :: "nat \<Rightarrow> string \<Rightarrow> string" where
  "pad_left n s = replicate (n - length s) (CHR ''0'') @ s"

fun json_number :: "jsnum \<Rightarrow> string" where
  "json_number (NInt i) = show_int i"
| "json_number (NDec m k) =
     (let ds = pad_left (Suc k) (show_nat (nat \<bar>m\<bar>))
      in (if m < 0 then ''-'' else []) @ take (length ds - k) ds @ ''.'' @ drop (length ds - k) ds)"
| "json_number _ = ''null''"

section \<open>ISO dates\<close>

text \<open>
  \<open>Date.prototype.toISOString\<close> for the years 0 to 9999: the proleptic Gregorian calendar, from
  the number of days since 1970-01-01.
\<close>

definition civil_from_days :: "int \<Rightarrow> int \<times> int \<times> int" where
  "civil_from_days days =
     (let z = days + 719468;
          era = z div 146097;
          doe = z mod 146097;
          yoe = (doe - doe div 1460 + doe div 36524 - doe div 146096) div 365;
          doy = doe - (365 * yoe + yoe div 4 - yoe div 100);
          mp = (5 * doy + 2) div 153;
          d = doy - (153 * mp + 2) div 5 + 1;
          m = (if mp < 10 then mp + 3 else mp - 9);
          y = yoe + era * 400 + (if m \<le> 2 then 1 else 0)
      in (y, m, d))"

definition ms_per_day :: int where
  "ms_per_day = 86400000"

definition pad_int :: "nat \<Rightarrow> int \<Rightarrow> string" where
  "pad_int n i = pad_left n (show_nat (nat i))"

definition iso_date :: "int \<Rightarrow> string" where
  "iso_date ms =
     (case civil_from_days (ms div ms_per_day) of
        (y, m, d) \<Rightarrow> pad_int 4 y @ ''-'' @ pad_int 2 m @ ''-'' @ pad_int 2 d)"

definition toISOString :: "int \<Rightarrow> string" where
  "toISOString ms =
     (let t = ms mod ms_per_day in
      iso_date ms @ ''T'' @ pad_int 2 (t div 3600000) @ '':'' @ pad_int 2 (t div 60000 mod 60)
      @ '':'' @ pad_int 2 (t div 1000 mod 60) @ ''.'' @ pad_int 3 (t mod 1000) @ ''Z'')"

section \<open>Rendering lemmas\<close>

lemma code_eq_iff [simp]: "code c = code d \<longleftrightarrow> c = d"
  by (simp add: code_def)

lemma code_char_of: "code (char_of n) = n mod 256"
  by (simp add: code_def)

lemma show_nat_digits: "c \<in> set (show_nat n) \<Longrightarrow> is_digit c"
proof (induction n rule: show_nat.induct)
  case (1 n)
  show ?case
  proof (cases "n < 10")
    case True
    with 1(2) show ?thesis
      by (subst (asm) show_nat.simps) (auto simp: is_digit_def code_char_of)
  next
    case False
    with 1(2) consider "c \<in> set (show_nat (n div 10))" | "c = char_of (48 + n mod 10)"
      by (subst (asm) show_nat.simps) auto
    then show ?thesis
    proof cases
      case 1
      with False "1.IH" show ?thesis by simp
    next
      case 2
      have "48 + n mod 10 < 256" by simp
      with 2 show ?thesis by (simp add: is_digit_def code_char_of)
    qed
  qed
qed

text \<open>Reading a decimal back, which makes the rendering injective.\<close>

definition read_nat :: "string \<Rightarrow> nat" where
  "read_nat s = foldl (\<lambda>n c. 10 * n + (code c - 48)) 0 s"

lemma read_show_nat: "read_nat (show_nat n) = n"
proof (induction n rule: show_nat.induct)
  case (1 n)
  show ?case
  proof (cases "n < 10")
    case True
    then show ?thesis by (subst show_nat.simps) (simp add: read_nat_def code_char_of)
  next
    case False
    with 1 have IH: "read_nat (show_nat (n div 10)) = n div 10" by simp
    have "48 + n mod 10 < 256" by simp
    with False IH show ?thesis
      by (subst show_nat.simps) (simp add: read_nat_def code_char_of)
  qed
qed

lemma show_nat_inj [simp]: "show_nat m = show_nat n \<longleftrightarrow> m = n"
  by (metis read_show_nat)

lemma show_nat_nonempty [simp]: "show_nat n \<noteq> []"
  by (subst show_nat.simps) simp

section \<open>Quoting is unambiguous\<close>

lemma code_less: "code c < 256"
  by (simp add: code_def)

lemma code_CHR [simp]: "code (CHR 0x5C) = 92" "code (CHR 0x22) = 34"
  by (simp_all add: code_def)

lemma char_eq_code: "c = d \<longleftrightarrow> code c = code d"
  by simp

lemma hex_digit_inj: "m < 16 \<Longrightarrow> n < 16 \<Longrightarrow> hex_digit m = hex_digit n \<Longrightarrow> m = n"
  by (auto simp: hex_digit_def char_eq_code code_char_of simp del: code_eq_iff split: if_splits)

lemma json_escape_nonempty: "json_escape c \<noteq> [] \<and> hd (json_escape c) \<noteq> CHR 0x22"
  by (auto simp: json_escape_def char_eq_code simp del: code_eq_iff)

text \<open>No escape sequence is a proper prefix of another.\<close>

definition short_escapes :: "(nat \<times> char) set" where
  "short_escapes = {(34, CHR 0x22), (92, CHR 0x5C), (8, CHR ''b''), (9, CHR ''t''), (10, CHR ''n''),
     (12, CHR ''f''), (13, CHR ''r'')}"

lemma short_escapes_inj: "(m, k) \<in> short_escapes \<Longrightarrow> (n, k) \<in> short_escapes \<Longrightarrow> m = n"
  by (auto simp: short_escapes_def)

lemma short_escapes_u: "(m, k) \<in> short_escapes \<Longrightarrow> k \<noteq> CHR ''u''"
  by (auto simp: short_escapes_def)

lemma json_escape_cases:
  obtains (plain) "json_escape c = [c]" "c \<noteq> CHR 0x5C"
  | (short) k where "json_escape c = [CHR 0x5C, k]" "(code c, k) \<in> short_escapes"
  | (hex) "json_escape c = [CHR 0x5C, CHR ''u'', CHR ''0'', CHR ''0'', hex_digit (code c div 16), hex_digit (code c mod 16)]"
      "code c < 32"
proof -
  consider "code c = 34" | "code c = 92" | "code c = 8" | "code c = 9" | "code c = 10" | "code c = 12"
    | "code c = 13" | "code c \<notin> {34, 92, 8, 9, 10, 12, 13}" by blast
  then show thesis
  proof cases
    case 8
    then have "c \<noteq> CHR 0x5C" by auto
    with 8 show thesis using plain hex by (cases "code c < 32") (auto simp: json_escape_def)
  qed (auto intro!: short simp: json_escape_def short_escapes_def)
qed

lemma json_escape_prefix_free:
  assumes "json_escape c @ u = json_escape d @ v"
  shows "c = d \<and> u = v"
proof (cases c rule: json_escape_cases)
  case plain
  then show ?thesis using assms by (cases d rule: json_escape_cases) auto
next
  case (short k)
  then show ?thesis
  proof (cases d rule: json_escape_cases)
    case short': (short k')
    then have "k = k'" "u = v" using assms short by simp_all
    then have "code c = code d" using short_escapes_inj short(2) short'(2) by blast
    then show ?thesis using \<open>u = v\<close> by simp
  qed (use assms short short_escapes_u in auto)
next
  case hex
  then show ?thesis
  proof (cases d rule: json_escape_cases)
    case hex': hex
    then have "hex_digit (code c div 16) = hex_digit (code d div 16)"
      "hex_digit (code c mod 16) = hex_digit (code d mod 16)" "u = v"
      using assms hex by auto
    moreover from this have "code c div 16 = code d div 16" "code c mod 16 = code d mod 16"
      using hex_digit_inj hex hex' by auto
    ultimately show ?thesis by (metis char_eq_code div_mult_mod_eq)
  qed (use assms hex short_escapes_u in auto)
qed

lemma quote_unique:
  "concat (List.map json_escape s) @ CHR 0x22 # x = concat (List.map json_escape t) @ CHR 0x22 # y \<Longrightarrow>
     s = t \<and> x = y"
proof (induction s arbitrary: t)
  case Nil
  then show ?case using json_escape_nonempty [of "hd t"] by (cases t) (auto simp: Cons_eq_append_conv neq_Nil_conv)
next
  case (Cons c s)
  show ?case
  proof (cases t)
    case Nil
    then show ?thesis using Cons.prems json_escape_nonempty [of c] by (cases "json_escape c") auto
  next
    case (Cons d t')
    then have "json_escape c @ (concat (List.map json_escape s) @ CHR 0x22 # x)
        = json_escape d @ (concat (List.map json_escape t') @ CHR 0x22 # y)"
      using Cons.prems by simp
    from json_escape_prefix_free [OF this] Cons.IH [of t'] Cons show ?thesis by blast
  qed
qed

lemma json_quote_unique: "json_quote s @ x = json_quote t @ y \<Longrightarrow> s = t \<and> x = y"
  using quote_unique [of s x t y] by (simp add: json_quote_def)

lemma json_quote_inj [simp]: "json_quote s = json_quote t \<longleftrightarrow> s = t"
  using json_quote_unique [of s "[]" t "[]"] by auto

end
