(* ===== verification/Contracts.thy ===== *)
theory Contracts
  imports JsValue
begin

text \<open>
  \<open>packages/manifest/src/contracts.ts\<close>: hook types, failure policies, stable error codes and
  the configurations a hook may have. Functions that check their argument at run time take the
  raw tag (a string), as an untyped caller passes it.
\<close>

datatype HookType = Event | Transform | Policy

datatype FailurePolicy = FailClosed | UseOriginal | RecordOnly

datatype HookErrorCode =
    input_invalid | snapshot_unavailable | snapshot_integrity_failed | plugin_artifact_invalid
  | plugin_timeout | plugin_memory_exceeded | plugin_subrequest_exceeded | plugin_result_invalid
  | capability_denied | capability_failed | egress_denied | destination_unavailable
  | evidence_unavailable | runtime_unavailable

definition hookTypes :: "HookType list" where
  "hookTypes = [Event, Transform, Policy]"

fun hook_type_tag :: "HookType \<Rightarrow> string" where
  "hook_type_tag Event = ''event''"
| "hook_type_tag Transform = ''transform''"
| "hook_type_tag Policy = ''policy''"

definition failurePolicies :: "FailurePolicy list" where
  "failurePolicies = [FailClosed, UseOriginal, RecordOnly]"

fun failure_policy_tag :: "FailurePolicy \<Rightarrow> string" where
  "failure_policy_tag FailClosed = ''fail-closed''"
| "failure_policy_tag UseOriginal = ''use-original''"
| "failure_policy_tag RecordOnly = ''record-only''"

fun allowedFailurePolicies :: "HookType \<Rightarrow> FailurePolicy list" where
  "allowedFailurePolicies Event = [RecordOnly]"
| "allowedFailurePolicies Transform = [FailClosed, UseOriginal]"
| "allowedFailurePolicies Policy = [FailClosed]"

fun defaultFailurePolicies :: "HookType \<Rightarrow> FailurePolicy" where
  "defaultFailurePolicies Event = RecordOnly"
| "defaultFailurePolicies Transform = FailClosed"
| "defaultFailurePolicies Policy = FailClosed"

definition hookErrorCodes :: "string list" where
  "hookErrorCodes =
     [''input_invalid'', ''snapshot_unavailable'', ''snapshot_integrity_failed'',
      ''plugin_artifact_invalid'', ''plugin_timeout'', ''plugin_memory_exceeded'',
      ''plugin_subrequest_exceeded'', ''plugin_result_invalid'', ''capability_denied'',
      ''capability_failed'', ''egress_denied'', ''destination_unavailable'',
      ''evidence_unavailable'', ''runtime_unavailable'']"

text \<open>The type guard \<open>isHookType\<close>: on a string tag, the hook type it names.\<close>

definition parse_hook_type :: "string \<Rightarrow> HookType option" where
  "parse_hook_type s = List.find (\<lambda>t. hook_type_tag t = s) hookTypes"

definition isHookType :: "jsval \<Rightarrow> bool" where
  "isHookType v = (case v of JStr s \<Rightarrow> parse_hook_type s \<noteq> None | _ \<Rightarrow> False)"

definition isHookErrorCode :: "jsval \<Rightarrow> bool" where
  "isHookErrorCode v = (case v of JStr s \<Rightarrow> s \<in> set hookErrorCodes | _ \<Rightarrow> False)"

definition parse_failure_policy :: "string \<Rightarrow> FailurePolicy option" where
  "parse_failure_policy s = List.find (\<lambda>p. failure_policy_tag p = s) failurePolicies"

definition defaultFailurePolicyForHookType :: "string \<Rightarrow> (HookErrorCode, FailurePolicy) outcome" where
  "defaultFailurePolicyForHookType ty =
     (case parse_hook_type ty of
        None \<Rightarrow> Inl input_invalid
      | Some t \<Rightarrow> Inr (defaultFailurePolicies t))"

definition isAllowedFailurePolicy :: "string \<Rightarrow> string \<Rightarrow> bool" where
  "isAllowedFailurePolicy ty pol =
     (case (parse_hook_type ty, parse_failure_policy pol) of
        (Some t, Some p) \<Rightarrow> p \<in> set (allowedFailurePolicies t)
      | _ \<Rightarrow> False)"

definition isValidHookConfiguration :: "string \<Rightarrow> string \<Rightarrow> string \<Rightarrow> bool" where
  "isValidHookConfiguration name ty pol \<longleftrightarrow>
     isAllowedFailurePolicy ty pol \<and>
     (name \<noteq> ''webhook.outbound'' \<or> (ty = ''transform'' \<and> pol = ''fail-closed''))"

section \<open>Tags and their parsers agree\<close>

lemma parse_hook_type_tag [simp]: "parse_hook_type (hook_type_tag t) = Some t"
  by (cases t) (simp_all add: parse_hook_type_def hookTypes_def)

lemma parse_failure_policy_tag [simp]: "parse_failure_policy (failure_policy_tag p) = Some p"
  by (cases p) (simp_all add: parse_failure_policy_def failurePolicies_def)

lemma parse_hook_type_Some: "parse_hook_type s = Some t \<longleftrightarrow> s = hook_type_tag t"
proof
  assume "parse_hook_type s = Some t"
  then show "s = hook_type_tag t"
    by (simp add: parse_hook_type_def hookTypes_def split: if_splits)
qed simp

lemma parse_failure_policy_Some: "parse_failure_policy s = Some p \<longleftrightarrow> s = failure_policy_tag p"
proof
  assume "parse_failure_policy s = Some p"
  then show "s = failure_policy_tag p"
    by (simp add: parse_failure_policy_def failurePolicies_def split: if_splits)
qed simp

lemma hook_type_tag_inj [simp]: "hook_type_tag t = hook_type_tag u \<longleftrightarrow> t = u"
  by (metis option.inject parse_hook_type_tag)

lemma failure_policy_tag_inj [simp]: "failure_policy_tag p = failure_policy_tag q \<longleftrightarrow> p = q"
  by (metis option.inject parse_failure_policy_tag)

lemma allowed_tag [simp]:
  "isAllowedFailurePolicy (hook_type_tag t) (failure_policy_tag p) \<longleftrightarrow>
     p \<in> set (allowedFailurePolicies t)"
  by (simp add: isAllowedFailurePolicy_def)

lemma default_policy_allowed: "defaultFailurePolicies t \<in> set (allowedFailurePolicies t)"
  by (cases t) simp_all

lemma allowed_cases:
  "isAllowedFailurePolicy ty pol \<longleftrightarrow>
     (\<exists>t p. ty = hook_type_tag t \<and> pol = failure_policy_tag p \<and> p \<in> set (allowedFailurePolicies t))"
  by (auto simp: isAllowedFailurePolicy_def parse_hook_type_Some parse_failure_policy_Some
      split: option.splits)

end
