(* ===== verification/Manifest.thy ===== *)
theory Manifest
  imports Contracts
begin

text \<open>
  \<open>packages/manifest/src/schema.ts\<close> and \<open>index.ts\<close>: the manifest structure with the refinements
  the schema adds to it, configuration validation, and the substitution of \<open>$config.<key>\<close>
  references in capability grants, with the reference finder of
  \<open>packages/control-plane/src/admin-installations.ts\<close> that must agree with it.

  The schema library (\<open>zod\<close>) and the version library (\<open>semver\<close>) are parameters: \<open>safeParse\<close>
  functions from an unknown value to issues or a typed value, and \<open>validRange\<close>.
\<close>

record ValidationIssue =
  issue_path :: string
  issue_message :: string

type_synonym 'a validation = "(ValidationIssue list, 'a) outcome"

section \<open>Patterns of the schema\<close>

definition numeric_identifier :: "string \<Rightarrow> bool" where
  "numeric_identifier s \<longleftrightarrow> s = ''0'' \<or> (s \<noteq> [] \<and> list_all is_digit s \<and> hd s \<noteq> CHR ''0'')"

definition semverPattern :: "string \<Rightarrow> bool" where
  "semverPattern s =
     (let core = takeWhile (\<lambda>c. c \<noteq> CHR ''-'') s; rest = dropWhile (\<lambda>c. c \<noteq> CHR ''-'') s in
      (let parts = split_on CHR ''.'' core in length parts = 3 \<and> list_all numeric_identifier parts) \<and>
      (rest = [] \<or>
       (tl rest \<noteq> [] \<and> list_all (\<lambda>c. is_alnum c \<or> c = CHR ''.'' \<or> c = CHR ''-'') (tl rest))))"

definition capabilityKeyPattern :: "string \<Rightarrow> bool" where
  "capabilityKeyPattern s =
     (let parts = split_on CHR ''.'' s in
      2 \<le> length parts \<and>
      list_all (\<lambda>p. p \<noteq> [] \<and> list_all (\<lambda>c. is_lower c \<or> is_digit c) p) parts \<and>
      is_lower (hd (hd parts)))"

definition manifestNamePattern :: "string \<Rightarrow> bool" where
  "manifestNamePattern s \<longleftrightarrow>
     s \<noteq> [] \<and> is_lower (hd s) \<and> list_all (\<lambda>c. is_lower c \<or> is_digit c \<or> c = CHR ''-'') s"

text \<open>\<open>configReferencePattern.exec(value)?.[1]\<close>\<close>

definition configReference :: "string \<Rightarrow> string option" where
  "configReference s =
     (let key = drop 8 s in
      if startsWith s ''$config.'' \<and> key \<noteq> [] \<and>
         list_all (\<lambda>c. is_alnum c \<or> c = CHR ''_'') key \<and> \<not> is_digit (hd key)
      then Some key else None)"

section \<open>Hooks\<close>

record HookSpec =
  hook_name :: string
  hook_type :: HookType
  hook_timeoutMs :: int
  hook_schemaVersionRange :: string
  hook_priority :: "int option"
  hook_failurePolicy :: "FailurePolicy option"

text \<open>The branch of the discriminated union that the hook's type selects.\<close>

definition hookShape :: "(string \<Rightarrow> bool) \<Rightarrow> HookSpec \<Rightarrow> bool" where
  "hookShape validRange h \<longleftrightarrow>
     hook_name h \<noteq> [] \<and> 0 < hook_timeoutMs h \<and> validRange (hook_schemaVersionRange h) \<and>
     (case hook_type h of
        Event \<Rightarrow> hook_failurePolicy h \<in> {None, Some RecordOnly}
      | Transform \<Rightarrow> hook_failurePolicy h \<in> {None, Some FailClosed, Some UseOriginal}
      | Policy \<Rightarrow> hook_failurePolicy h \<in> {None, Some FailClosed})"

definition effectivePolicy :: "HookSpec \<Rightarrow> FailurePolicy" where
  "effectivePolicy h =
     (case hook_failurePolicy h of None \<Rightarrow> defaultFailurePolicies (hook_type h) | Some p \<Rightarrow> p)"

definition hookIssues :: "HookSpec \<Rightarrow> ValidationIssue list" where
  "hookIssues h =
     (let ty = hook_type_tag (hook_type h); pol = failure_policy_tag (effectivePolicy h) in
      (if \<not> isAllowedFailurePolicy ty pol
       then [\<lparr>issue_path = ''failurePolicy'',
              issue_message = ''failurePolicy is not allowed for '' @ ty @ '' hooks''\<rparr>] else []) @
      (if \<not> isValidHookConfiguration (hook_name h) ty pol then
         (if hook_name h = ''webhook.outbound'' \<and> ty \<noteq> ''transform''
          then [\<lparr>issue_path = ''type'', issue_message = ''webhook.outbound must be a transform hook''\<rparr>]
          else if hook_name h = ''webhook.outbound''
          then [\<lparr>issue_path = ''failurePolicy'', issue_message = ''webhook.outbound must use fail-closed''\<rparr>]
          else [])
       else []))"

section \<open>Configuration schema and manifest\<close>

datatype config_type = CString | CNumber | CBoolean

fun config_type_tag :: "config_type \<Rightarrow> string" where
  "config_type_tag CString = ''string''"
| "config_type_tag CNumber = ''number''"
| "config_type_tag CBoolean = ''boolean''"

record ConfigField =
  field_type :: config_type
  field_default :: "jsval option"

definition configFieldSchema :: "ConfigField \<Rightarrow> bool" where
  "configFieldSchema f \<longleftrightarrow>
     (case field_default f of None \<Rightarrow> True | Some v \<Rightarrow> js_typeof v = config_type_tag (field_type f))"

record ConfigSchema =
  cfg_properties :: "(string \<times> ConfigField) list"
  cfg_required :: "string list"

definition configSchemaSpec :: "ConfigSchema \<Rightarrow> bool" where
  "configSchemaSpec s \<longleftrightarrow>
     distinct (List.map fst (cfg_properties s)) \<and>
     (\<forall>(n, f) \<in> set (cfg_properties s). n \<noteq> [] \<and> n \<noteq> ''__proto__'' \<and> configFieldSchema f) \<and>
     (\<forall>n \<in> set (cfg_required s). n \<noteq> [])"

datatype Egress = EgressDeny | EgressAllowlist "string list"

record Manifest =
  mf_name :: string
  mf_version :: string
  mf_hooks :: "HookSpec list"
  mf_capabilities :: "(string \<times> jsval) list"
  mf_configSchema :: ConfigSchema
  mf_egress :: Egress
  mf_cpuMs :: int
  mf_timeoutMs :: int

definition manifestSchema :: "(string \<Rightarrow> bool) \<Rightarrow> Manifest \<Rightarrow> bool" where
  "manifestSchema validRange m \<longleftrightarrow>
     manifestNamePattern (mf_name m) \<and>
     semverPattern (mf_version m) \<and>
     mf_hooks m \<noteq> [] \<and>
     list_all (hookShape validRange) (mf_hooks m) \<and>
     list_all (\<lambda>h. hookIssues h = []) (mf_hooks m) \<and>
     card (set (List.map hook_name (mf_hooks m))) = length (mf_hooks m) \<and>
     list_all (\<lambda>(k, v). capabilityKeyPattern k \<and> isRecord v) (mf_capabilities m) \<and>
     configSchemaSpec (mf_configSchema m) \<and>
     (case mf_egress m of EgressDeny \<Rightarrow> True | EgressAllowlist hs \<Rightarrow> hs \<noteq> [] \<and> list_all (\<lambda>h. h \<noteq> []) hs) \<and>
     0 < mf_cpuMs m \<and> 0 < mf_timeoutMs m"

text \<open>
  \<open>manifestSchema.safeParse\<close>: the library decodes the structure (the parameter \<open>decode\<close>), then
  the schema's own conditions decide; \<open>issues\<close> gives the library's issues for a rejected value.
\<close>

definition parseManifest ::
  "(jsval \<Rightarrow> Manifest option) \<Rightarrow> (jsval \<Rightarrow> ValidationIssue list) \<Rightarrow> (string \<Rightarrow> bool) \<Rightarrow>
   jsval \<Rightarrow> Manifest validation" where
  "parseManifest decode issues validRange input =
     (case decode input of
        None \<Rightarrow> Inl (issues input)
      | Some m \<Rightarrow> if manifestSchema validRange m then Inr m else Inl (issues input))"

section \<open>Configuration values\<close>

definition isConfigPrimitiveOfType :: "jsval \<Rightarrow> config_type \<Rightarrow> bool" where
  "isConfigPrimitiveOfType v t \<longleftrightarrow> js_typeof v = config_type_tag t"

type_synonym config = "(string \<times> jsval) list"

text \<open>One turn of the loop over \<open>Object.entries(schema.properties)\<close>.\<close>

definition validateConfigField ::
  "ConfigSchema \<Rightarrow> config \<Rightarrow> string \<times> ConfigField \<Rightarrow>
   config \<times> ValidationIssue list \<Rightarrow> config \<times> ValidationIssue list" where
  "validateConfigField schema input nf acc =
     (case nf of (name, field) \<Rightarrow> case acc of (cfg, errors) \<Rightarrow>
      let provided = record_get input name in
      if provided = JUndef then
        if name \<in> set (cfg_required schema) then
          (cfg, errors @ [\<lparr>issue_path = name, issue_message = ''required config value is missing''\<rparr>])
        else (case field_default field of
                None \<Rightarrow> (cfg, errors)
              | Some d \<Rightarrow> (obj_set cfg name d, errors))
      else if \<not> isConfigPrimitiveOfType provided (field_type field) then
        (cfg, errors @ [\<lparr>issue_path = name,
           issue_message = ''expected '' @ config_type_tag (field_type field)
             @ '', received '' @ js_typeof provided\<rparr>])
      else (obj_set cfg name provided, errors))"

definition unknownKeyIssues :: "ConfigSchema \<Rightarrow> config \<Rightarrow> ValidationIssue list" where
  "unknownKeyIssues schema input =
     List.map (\<lambda>k. \<lparr>issue_path = k, issue_message = ''unknown config key''\<rparr>)
       (filter (\<lambda>k. k \<notin> set (List.map fst (cfg_properties schema)) \<and> k \<notin> set object_prototype_keys)
          (List.map fst input))"

definition validateConfig ::
  "(jsval \<Rightarrow> ConfigSchema validation) \<Rightarrow> (jsval \<Rightarrow> config validation) \<Rightarrow>
   jsval \<Rightarrow> jsval \<Rightarrow> config validation" where
  "validateConfig schemaParse recordParse schemaInput configInput =
     bindE (schemaParse schemaInput) (\<lambda>schema.
     bindE (recordParse configInput) (\<lambda>input.
       let (cfg, errs) = fold (validateConfigField schema input) (cfg_properties schema) ([], []);
           errors = errs @ unknownKeyIssues schema input
       in if errors \<noteq> [] then Inl errors else Inr cfg))"

section \<open>Grant resolution\<close>

text \<open>
  Assignment \<open>output[key] = v\<close> under construction: the key \<open>__proto__\<close> makes no own property
  but replaces the prototype when \<open>v\<close> is an object or \<open>null\<close>.
\<close>

definition assign_key :: "obj_kind \<times> (string \<times> jsval) list \<Rightarrow> string \<Rightarrow> jsval
    \<Rightarrow> obj_kind \<times> (string \<times> jsval) list" where
  "assign_key o' k v =
     (case o' of (kind, fs) \<Rightarrow>
      if k = ''__proto__'' then
        ((if v = JNull then NullProto
          else if js_typeof v \<in> {''object'', ''function''} then ForeignProto else kind), fs)
      else (kind, obj_set fs k v))"

definition resolveReference ::
  "config \<Rightarrow> string \<Rightarrow> string \<Rightarrow> ValidationIssue list \<Rightarrow> jsval \<times> ValidationIssue list" where
  "resolveReference cfg path value errors =
     (case configReference value of
        None \<Rightarrow> (JStr value, errors)
      | Some key \<Rightarrow>
          (let resolved = record_get cfg key in
           if resolved = JUndef
           then (JStr value, errors @ [\<lparr>issue_path = path,
                   issue_message = ''config reference '' @ value @ '' is not defined''\<rparr>])
           else (resolved, errors)))"

fun resolveGrantValue :: "config \<Rightarrow> string \<Rightarrow> jsval \<Rightarrow> ValidationIssue list \<Rightarrow> jsval \<times> ValidationIssue list"
and resolveGrantItems :: "config \<Rightarrow> string \<Rightarrow> nat \<Rightarrow> jsval list \<Rightarrow> ValidationIssue list
      \<Rightarrow> jsval list \<times> ValidationIssue list"
and resolveGrantFields :: "config \<Rightarrow> string \<Rightarrow> (string \<times> jsval) list \<Rightarrow>
      obj_kind \<times> (string \<times> jsval) list \<Rightarrow> ValidationIssue list
      \<Rightarrow> (obj_kind \<times> (string \<times> jsval) list) \<times> ValidationIssue list" where
  "resolveGrantValue cfg path (JStr s) errors = resolveReference cfg path s errors"
| "resolveGrantValue cfg path (JArr xs) errors =
     (case resolveGrantItems cfg path 0 xs errors of (ys, e) \<Rightarrow> (JArr ys, e))"
| "resolveGrantValue cfg path (JObj _ fs) errors =
     (case resolveGrantFields cfg path fs (PlainObj, []) errors of ((k, gs), e) \<Rightarrow> (JObj k gs, e))"
| "resolveGrantValue cfg path (JDate _) errors = (JObj PlainObj [], errors)"
| "resolveGrantValue cfg path v errors = (v, errors)"
| "resolveGrantItems cfg path i [] errors = ([], errors)"
| "resolveGrantItems cfg path i (x # xs) errors =
     (case resolveGrantValue cfg (path @ ''.'' @ show_nat i) x errors of (y, e) \<Rightarrow>
      case resolveGrantItems cfg path (Suc i) xs e of (ys, e') \<Rightarrow> (y # ys, e'))"
| "resolveGrantFields cfg path [] out errors = (out, errors)"
| "resolveGrantFields cfg path ((k, v) # fs) out errors =
     (case resolveGrantValue cfg (path @ ''.'' @ k) v errors of (w, e) \<Rightarrow>
      resolveGrantFields cfg path fs (assign_key out k w) e)"

fun resolveGrantEntries :: "config \<Rightarrow> (string \<times> jsval) list \<Rightarrow>
      obj_kind \<times> (string \<times> jsval) list \<Rightarrow> ValidationIssue list
      \<Rightarrow> (obj_kind \<times> (string \<times> jsval) list) \<times> ValidationIssue list" where
  "resolveGrantEntries cfg [] out errors = (out, errors)"
| "resolveGrantEntries cfg ((capability, grant) # rest) out errors =
     (case resolveGrantValue cfg capability grant errors of (w, e) \<Rightarrow>
      resolveGrantEntries cfg rest (if isRecord w then assign_key out capability w else out) e)"

definition resolveGrants :: "(string \<times> jsval) list \<Rightarrow> config \<Rightarrow> ((string \<times> jsval) list) validation" where
  "resolveGrants capabilities cfg =
     (case resolveGrantEntries cfg capabilities (PlainObj, []) [] of ((_, resolved), errors) \<Rightarrow>
      if errors \<noteq> [] then Inl errors else Inr resolved)"

section \<open>Reference discovery (control plane)\<close>

text \<open>\<open>visit(value, found)\<close>, with \<open>found\<close> the set of keys.\<close>

fun visit :: "jsval \<Rightarrow> string set \<Rightarrow> string set" where
  "visit (JStr s) found =
     (case configReference s of Some key \<Rightarrow> insert key found | None \<Rightarrow> found)"
| "visit (JArr xs) found = fold visit xs found"
| "visit (JObj _ fs) found = fold (\<lambda>f. visit (snd f)) fs found"
| "visit _ found = found"

definition findConfigReferences :: "jsval \<Rightarrow> string list" where
  "findConfigReferences v = sorted_list_of_set (visit v {})"

section \<open>Hooks of an accepted manifest\<close>

lemma hookIssues_empty:
  "hookIssues h = [] \<longleftrightarrow>
     isValidHookConfiguration (hook_name h) (hook_type_tag (hook_type h))
       (failure_policy_tag (effectivePolicy h))"
  by (cases "hook_type h"; cases "effectivePolicy h")
     (auto simp: hookIssues_def isValidHookConfiguration_def isAllowedFailurePolicy_def Let_def
       parse_hook_type_def hookTypes_def parse_failure_policy_def failurePolicies_def)

lemma hookShape_policy_allowed:
  "hookShape vr h \<Longrightarrow> effectivePolicy h \<in> set (allowedFailurePolicies (hook_type h))"
  by (cases "hook_type h") (auto simp: hookShape_def effectivePolicy_def)

lemma hookShape_issue_is_outbound:
  "hookShape vr h \<Longrightarrow> hookIssues h \<noteq> [] \<Longrightarrow>
     hook_name h = ''webhook.outbound'' \<and> (hook_type h, effectivePolicy h) \<noteq> (Transform, FailClosed)"
  using hookShape_policy_allowed [of vr h]
  by (auto simp: hookIssues_empty isValidHookConfiguration_def allowed_tag)

lemma card_names_distinct: "card (set xs) = length xs \<longleftrightarrow> distinct xs"
  by (metis card_distinct distinct_card)

section \<open>Configuration validation\<close>

text \<open>What one declared property contributes: its value, or the issue raised for it.\<close>

definition configValue :: "config \<Rightarrow> string \<times> ConfigField \<Rightarrow> jsval option" where
  "configValue input nf =
     (if record_get input (fst nf) = JUndef then field_default (snd nf)
      else Some (record_get input (fst nf)))"

definition configFieldValid :: "ConfigSchema \<Rightarrow> config \<Rightarrow> string \<times> ConfigField \<Rightarrow> bool" where
  "configFieldValid schema input nf \<longleftrightarrow>
     (if record_get input (fst nf) = JUndef then fst nf \<notin> set (cfg_required schema)
      else isConfigPrimitiveOfType (record_get input (fst nf)) (field_type (snd nf)))"

definition configFieldIssue :: "ConfigSchema \<Rightarrow> config \<Rightarrow> string \<times> ConfigField \<Rightarrow> ValidationIssue" where
  "configFieldIssue schema input nf =
     (if record_get input (fst nf) = JUndef
      then \<lparr>issue_path = fst nf, issue_message = ''required config value is missing''\<rparr>
      else \<lparr>issue_path = fst nf,
             issue_message = ''expected '' @ config_type_tag (field_type (snd nf))
               @ '', received '' @ js_typeof (record_get input (fst nf))\<rparr>)"

lemma validateConfigField_cases:
  "validateConfigField schema input nf (cfg, errs) =
     (if configFieldValid schema input nf
      then ((case configValue input nf of None \<Rightarrow> cfg | Some v \<Rightarrow> obj_set cfg (fst nf) v), errs)
      else (cfg, errs @ [configFieldIssue schema input nf]))"
  by (cases nf) (simp add: validateConfigField_def configFieldValid_def configValue_def
      configFieldIssue_def Let_def split: option.split)

lemma validateConfig_loop:
  "fold (validateConfigField schema input) ps (cfg, errs) =
     (fold (\<lambda>nf c. if configFieldValid schema input nf
                    then (case configValue input nf of None \<Rightarrow> c | Some v \<Rightarrow> obj_set c (fst nf) v)
                    else c) ps cfg,
      errs @ List.map (configFieldIssue schema input)
        (filter (\<lambda>nf. \<not> configFieldValid schema input nf) ps))"
  by (induction ps arbitrary: cfg errs) (simp_all add: validateConfigField_cases)

lemma map_of_config_fold:
  "distinct (List.map fst ps) \<Longrightarrow> \<forall>nf \<in> set ps. valid nf \<Longrightarrow>
   map_of (fold (\<lambda>nf c. if valid nf then (case value nf of None \<Rightarrow> c | Some v \<Rightarrow> obj_set c (fst nf) v)
                         else c) ps cfg) k =
     (case map_of ps k of None \<Rightarrow> map_of cfg k
      | Some f \<Rightarrow> (case value (k, f) of None \<Rightarrow> map_of cfg k | Some v \<Rightarrow> Some v))"
proof (induction ps arbitrary: cfg)
  case (Cons nf ps)
  then have "map_of ps (fst nf) = None" by (simp add: map_of_eq_None_iff)
  with Cons show ?case by (cases nf) (auto split: option.splits)
qed simp

lemma validateConfig_Inr:
  assumes "schemaParse si = Inr schema" "recordParse ci = Inr input"
  shows "validateConfig schemaParse recordParse si ci = Inr cfg \<longleftrightarrow>
    (\<forall>nf \<in> set (cfg_properties schema). configFieldValid schema input nf) \<and>
    unknownKeyIssues schema input = [] \<and>
    cfg = fst (fold (validateConfigField schema input) (cfg_properties schema) ([], []))"
  using assms
  by (auto simp: validateConfig_def validateConfig_loop filter_empty_conv)

lemma unknownKeyIssues_empty:
  "unknownKeyIssues schema input = [] \<longleftrightarrow>
     fst ` set input \<subseteq> fst ` set (cfg_properties schema) \<union> set object_prototype_keys"
  by (auto simp: unknownKeyIssues_def filter_empty_conv)

lemma validateConfig_value:
  assumes "schemaParse si = Inr schema" "recordParse ci = Inr input" "configSchemaSpec schema"
    and "validateConfig schemaParse recordParse si ci = Inr cfg"
  shows "map_of cfg k =
    (case map_of (cfg_properties schema) k of None \<Rightarrow> None | Some f \<Rightarrow> configValue input (k, f))"
proof -
  have valid: "\<forall>nf \<in> set (cfg_properties schema). configFieldValid schema input nf"
    and cfg: "cfg = fst (fold (validateConfigField schema input) (cfg_properties schema) ([], []))"
    using assms validateConfig_Inr by blast+
  have d: "distinct (List.map fst (cfg_properties schema))"
    using assms(3) by (simp add: configSchemaSpec_def)
  show ?thesis
    unfolding cfg validateConfig_loop fst_conv map_of_config_fold [OF d valid]
    by (simp split: option.splits)
qed

section \<open>References and their resolution\<close>

lemma fold_collect:
  assumes "\<And>x F. x \<in> set xs \<Longrightarrow> f x F = F \<union> g x"
  shows "fold f xs F = F \<union> (\<Union>x \<in> set xs. g x)"
  using assms by (induction xs arbitrary: F) (simp_all add: Un_assoc)

lemma visit_union: "visit v F = F \<union> visit v {}"
proof (induction v arbitrary: F)
  case (JArr xs)
  then have step: "fold visit xs G = G \<union> (\<Union>x \<in> set xs. visit x {})" for G
    by (rule fold_collect)
  show ?case unfolding visit.simps step [of F] step [of "{}"] by simp
next
  case (JObj kd fs)
  have "visit (snd f) G = G \<union> visit (snd f) {}" if "f \<in> set fs" for f G
    by (rule JObj [OF that]) (cases f; simp)
  then have step: "fold (\<lambda>f. visit (snd f)) fs G = G \<union> (\<Union>f \<in> set fs. visit (snd f) {})" for G
    by (rule fold_collect)
  show ?case unfolding visit.simps step [of F] step [of "{}"] by simp
qed (simp_all split: option.split)

lemma visit_items: "fold visit xs F = F \<union> (\<Union>x \<in> set xs. visit x {})"
  by (rule fold_collect) (rule visit_union)

lemma visit_fields: "fold (\<lambda>f. visit (snd f)) fs F = F \<union> (\<Union>f \<in> set fs. visit (snd f) {})"
  by (rule fold_collect) (rule visit_union)

lemma visit_finite: "finite (visit v {})"
proof (induction v)
  case (JObj kd fs)
  then have "finite (visit (snd f) {})" if "f \<in> set fs" for f
    using that by (cases f) simp
  then show ?case by (simp add: visit_fields)
qed (simp_all add: visit_items split: option.split)

lemma set_findConfigReferences: "set (findConfigReferences v) = visit v {}"
  by (simp add: findConfigReferences_def visit_finite)

definition defined_in :: "config \<Rightarrow> string set \<Rightarrow> bool" where
  "defined_in cfg keys \<longleftrightarrow> (\<forall>k \<in> keys. record_get cfg k \<noteq> JUndef)"

lemma defined_in_simps [simp]:
  "defined_in cfg {}"
  "defined_in cfg (insert k K) \<longleftrightarrow> record_get cfg k \<noteq> JUndef \<and> defined_in cfg K"
  "defined_in cfg (K \<union> L) \<longleftrightarrow> defined_in cfg K \<and> defined_in cfg L"
  by (auto simp: defined_in_def)

text \<open>Errors are appended, and some are appended exactly when a visited key is undefined.\<close>

lemma resolveGrant_errors:
  "\<exists>es. snd (resolveGrantValue cfg p v errs) = errs @ es \<and> (es = [] \<longleftrightarrow> defined_in cfg (visit v {}))"
  "\<exists>es. snd (resolveGrantItems cfg p i xs errs) = errs @ es \<and>
     (es = [] \<longleftrightarrow> defined_in cfg (\<Union>x \<in> set xs. visit x {}))"
  "\<exists>es. snd (resolveGrantFields cfg p fs out errs) = errs @ es \<and>
     (es = [] \<longleftrightarrow> defined_in cfg (\<Union>f \<in> set fs. visit (snd f) {}))"
proof (induction cfg p v errs and cfg p i xs errs and cfg p fs out errs
    rule: resolveGrantValue_resolveGrantItems_resolveGrantFields.induct)
  case (1 cfg path s errors)
  then show ?case by (auto simp: resolveReference_def Let_def split: option.splits)
next
  case (2 cfg path xs errors)
  then show ?case by (simp add: visit_items split: prod.splits) auto
next
  case (3 cfg path k fs errors)
  then show ?case by (simp add: visit_fields split: prod.splits) auto
next
  case (7 cfg path i x xs errors)
  obtain y e where v: "resolveGrantValue cfg (path @ ''.'' @ show_nat i) x errors = (y, e)"
    by fastforce
  obtain ys e' where r: "resolveGrantItems cfg path (Suc i) xs e = (ys, e')"
    by fastforce
  from 7(1) v obtain a where "e = errors @ a" "a = [] \<longleftrightarrow> defined_in cfg (visit x {})" by auto
  moreover from 7(2) [OF v [symmetric]] r obtain b where
    "e' = e @ b" "b = [] \<longleftrightarrow> defined_in cfg (\<Union>x \<in> set xs. visit x {})" by auto
  ultimately show ?case using v r by (intro exI [of _ "a @ b"]) simp
next
  case (9 cfg path k v fs out errors)
  obtain w e where v: "resolveGrantValue cfg (path @ ''.'' @ k) v errors = (w, e)"
    by fastforce
  obtain o' e' where r: "resolveGrantFields cfg path fs (assign_key out k w) e = (o', e')"
    by fastforce
  from 9(1) v obtain a where "e = errors @ a" "a = [] \<longleftrightarrow> defined_in cfg (visit v {})" by auto
  moreover from 9(2) [OF v [symmetric]] r obtain b where
    "e' = e @ b" "b = [] \<longleftrightarrow> defined_in cfg (\<Union>f \<in> set fs. visit (snd f) {})" by auto
  ultimately show ?case using v r by (intro exI [of _ "a @ b"]) simp
qed simp_all

lemma resolveGrantEntries_errors:
  "\<exists>es. snd (resolveGrantEntries cfg gs out errs) = errs @ es \<and>
     (es = [] \<longleftrightarrow> (\<forall>g \<in> set gs. defined_in cfg (visit (snd g) {})))"
proof (induction cfg gs out errs rule: resolveGrantEntries.induct)
  case (2 cfg c g rest out errors)
  obtain w e where v: "resolveGrantValue cfg c g errors = (w, e)" by fastforce
  obtain a where "e = errors @ a" "a = [] \<longleftrightarrow> defined_in cfg (visit g {})"
    using resolveGrant_errors(1) [of cfg c g errors] v by auto
  moreover obtain b where
    "snd (resolveGrantEntries cfg rest (if isRecord w then assign_key out c w else out) e) = e @ b"
    "b = [] \<longleftrightarrow> (\<forall>g \<in> set rest. defined_in cfg (visit (snd g) {}))"
    using 2 [OF v [symmetric]] by blast
  ultimately show ?case using v by (intro exI [of _ "a @ b"]) simp
qed simp

lemma resolveGrants_succeeds:
  "(\<exists>r. resolveGrants caps cfg = Inr r) \<longleftrightarrow> (\<forall>g \<in> set caps. defined_in cfg (visit (snd g) {}))"
  using resolveGrantEntries_errors [of cfg caps "(PlainObj, [])" "[]"]
  by (auto simp: resolveGrants_def split: prod.splits)

text \<open>
  The substitution the walk computes, on values with the shape \<open>JSON.parse\<close> gives: keys
  distinct and none of them \<open>__proto__\<close>.
\<close>

fun substitute :: "config \<Rightarrow> jsval \<Rightarrow> jsval" where
  "substitute cfg (JStr s) =
     (case configReference s of None \<Rightarrow> JStr s
      | Some k \<Rightarrow> if record_get cfg k = JUndef then JStr s else record_get cfg k)"
| "substitute cfg (JArr xs) = JArr (List.map (substitute cfg) xs)"
| "substitute cfg (JObj _ fs) = JObj PlainObj (List.map (\<lambda>f. (fst f, substitute cfg (snd f))) fs)"
| "substitute cfg (JDate _) = JObj PlainObj []"
| "substitute cfg v = v"

definition plain_keys :: "(string \<times> 'v) list \<Rightarrow> bool" where
  "plain_keys fs \<longleftrightarrow> distinct (List.map fst fs) \<and> ''__proto__'' \<notin> fst ` set fs"

fun plain_value :: "jsval \<Rightarrow> bool" where
  "plain_value (JArr xs) = list_all plain_value xs"
| "plain_value (JObj _ fs) = (plain_keys fs \<and> list_all (\<lambda>f. plain_value (snd f)) fs)"
| "plain_value _ = True"

lemma obj_set_fresh: "k \<notin> fst ` set fs \<Longrightarrow> obj_set fs k v = fs @ [(k, v)]"
  by (induction fs k v rule: obj_set.induct) auto

lemma resolveGrant_value:
  "plain_value v \<Longrightarrow> fst (resolveGrantValue cfg p v errs) = substitute cfg v"
  "list_all plain_value xs \<Longrightarrow> fst (resolveGrantItems cfg p i xs errs) = List.map (substitute cfg) xs"
  "plain_keys (snd out @ fs) \<Longrightarrow> list_all (\<lambda>f. plain_value (snd f)) fs \<Longrightarrow>
     fst (resolveGrantFields cfg p fs out errs) =
       (fst out, snd out @ List.map (\<lambda>f. (fst f, substitute cfg (snd f))) fs)"
proof (induction cfg p v errs and cfg p i xs errs and cfg p fs out errs
    rule: resolveGrantValue_resolveGrantItems_resolveGrantFields.induct)
  case (1 cfg path s errors)
  then show ?case by (simp add: resolveReference_def Let_def split: option.split)
next
  case (7 cfg path i x xs errors)
  then show ?case by (cases "resolveGrantValue cfg (path @ ''.'' @ show_nat i) x errors")
      (auto split: prod.split)
next
  case (9 cfg path k v fs out errors)
  obtain w e where v: "resolveGrantValue cfg (path @ ''.'' @ k) v errors = (w, e)" by fastforce
  have w: "w = substitute cfg v" using 9(1,4) v by simp
  have "k \<noteq> ''__proto__''" "k \<notin> fst ` set (snd out)"
    using 9(3) by (auto simp: plain_keys_def)
  then have out: "assign_key out k w = (fst out, snd out @ [(k, w)])"
    by (cases out) (simp add: assign_key_def obj_set_fresh)
  have "plain_keys (snd (assign_key out k w) @ fs)"
    using 9(3) by (auto simp: out plain_keys_def)
  from 9(2) [OF v [symmetric] this] 9(4) v out [unfolded w] w show ?case
    by simp
qed (auto split: prod.split)

lemma resolveGrantEntries_value:
  "plain_keys (snd out @ gs) \<Longrightarrow> list_all (\<lambda>g. plain_value (snd g)) gs \<Longrightarrow>
   fst (resolveGrantEntries cfg gs out errs) =
     (fst out, snd out @ filter (\<lambda>g. isRecord (snd g)) (List.map (\<lambda>g. (fst g, substitute cfg (snd g))) gs))"
proof (induction cfg gs out errs rule: resolveGrantEntries.induct)
  case (2 cfg c g rest out errors)
  obtain w e where v: "resolveGrantValue cfg c g errors = (w, e)" by fastforce
  have w: "w = substitute cfg g" using resolveGrant_value(1) [of g cfg c errors] 2(3) v by simp
  define out' where "out' = (if isRecord w then assign_key out c w else out)"
  have "c \<noteq> ''__proto__''" "c \<notin> fst ` set (snd out)"
    using 2(2) by (auto simp: plain_keys_def)
  then have out: "out' = (if isRecord w then (fst out, snd out @ [(c, w)]) else out)"
    by (cases out) (simp add: assign_key_def obj_set_fresh out'_def)
  have "plain_keys (snd out' @ rest)"
    using 2(2) by (auto simp: out plain_keys_def)
  moreover have "resolveGrantEntries cfg ((c, g) # rest) out errors = resolveGrantEntries cfg rest out' e"
    by (simp add: v out'_def)
  moreover have "list_all (\<lambda>g. plain_value (snd g)) rest" using 2(3) by simp
  ultimately show ?case
    using 2(1) [OF v [symmetric], folded out'_def] by (simp add: out flip: w)
qed simp

lemma resolveGrants_value:
  assumes "plain_keys caps" "list_all (\<lambda>g. plain_value (snd g)) caps"
    and "resolveGrants caps cfg = Inr r"
  shows "r = filter (\<lambda>g. isRecord (snd g)) (List.map (\<lambda>g. (fst g, substitute cfg (snd g))) caps)"
  using resolveGrantEntries_value [of "(PlainObj, [])" caps cfg "[]"] assms
  by (auto simp: resolveGrants_def split: prod.splits if_splits)

section \<open>Properties\<close>


definition example_hook :: HookSpec where
  "example_hook = \<lparr>hook_name = ''webhook.outbound'', hook_type = Transform, hook_timeoutMs = 50,
     hook_schemaVersionRange = ''1.x'', hook_priority = None, hook_failurePolicy = None\<rparr>"

definition example_manifest :: Manifest where
  "example_manifest = \<lparr>mf_name = ''notify'', mf_version = ''1.0.0'', mf_hooks = [example_hook],
     mf_capabilities = [(''kv.read'', JObj PlainObj [])],
     mf_configSchema = \<lparr>cfg_properties = [], cfg_required = []\<rparr>,
     mf_egress = EgressDeny, mf_cpuMs = 10, mf_timeoutMs = 100\<rparr>"

lemma example_manifest_accepted:
  "parseManifest (\<lambda>_. Some example_manifest) (\<lambda>_. []) (\<lambda>_. True) JNull = Inr example_manifest"
  by code_simp


definition config_conforms :: "ConfigSchema \<Rightarrow> config \<Rightarrow> bool" where
  "config_conforms schema cfg \<longleftrightarrow>
     (\<forall>k v. map_of cfg k = Some v \<longrightarrow>
        (\<exists>f. map_of (cfg_properties schema) k = Some f \<and> isConfigPrimitiveOfType v (field_type f))) \<and>
     (\<forall>k \<in> set (cfg_required schema). k \<in> fst ` set (cfg_properties schema) \<longrightarrow> map_of cfg k \<noteq> None)"

lemma config_conforms_validated:
  assumes "configSchemaSpec schema"
    and "\<forall>nf \<in> set (cfg_properties schema). configFieldValid schema input nf"
    and "\<And>k. map_of cfg k = (case map_of (cfg_properties schema) k of None \<Rightarrow> None
               | Some f \<Rightarrow> configValue input (k, f))"
  shows "config_conforms schema cfg"
proof -
  have "isConfigPrimitiveOfType v (field_type f)"
    if "map_of (cfg_properties schema) k = Some f" "configValue input (k, f) = Some v" for k f v
  proof -
    have "(k, f) \<in> set (cfg_properties schema)" using that(1) by (rule map_of_SomeD)
    then have "configFieldSchema f" "configFieldValid schema input (k, f)"
      using assms(1,2) by (auto simp: configSchemaSpec_def)
    then show ?thesis using that(2)
      by (auto simp: configFieldSchema_def configFieldValid_def configValue_def
          isConfigPrimitiveOfType_def split: if_splits)
  qed
  moreover have "configValue input (k, f) \<noteq> None"
    if "k \<in> set (cfg_required schema)" "map_of (cfg_properties schema) k = Some f" for k f
    using that(1) assms(2) map_of_SomeD [OF that(2)]
    by (auto simp: configFieldValid_def configValue_def)
  ultimately show ?thesis
    by (auto simp: config_conforms_def assms(3) map_of_eq_None_iff split: option.splits)
qed

text \<open>
  C12: configuration validation. For a schema that satisfies its own conditions, an accepted
  configuration has exactly the declared keys that were supplied or have a default, each at the
  declared type, with every declared required key present; a rejected one reports every field that
  is missing or mistyped and every unknown key, in order, and nothing else.
\<close>

theorem validateConfig_correct:
  assumes "schemaParse si = Inr schema" "recordParse ci = Inr input" "configSchemaSpec schema"
  shows "case validateConfig schemaParse recordParse si ci of
      Inr cfg \<Rightarrow> config_conforms schema cfg \<and>
        (\<forall>k. map_of cfg k = (case map_of (cfg_properties schema) k of None \<Rightarrow> None
               | Some f \<Rightarrow> configValue input (k, f)))
    | Inl errors \<Rightarrow> errors \<noteq> [] \<and>
        errors = List.map (configFieldIssue schema input)
            (filter (\<lambda>nf. \<not> configFieldValid schema input nf) (cfg_properties schema)) @
          unknownKeyIssues schema input"
proof (cases "validateConfig schemaParse recordParse si ci")
  case (Inl errors)
  then show ?thesis
    using assms by (auto simp: validateConfig_def validateConfig_loop Let_def split: if_splits)
next
  case (Inr cfg)
  then have "\<forall>nf \<in> set (cfg_properties schema). configFieldValid schema input nf"
    using validateConfig_Inr assms(1,2) by blast
  then show ?thesis
    using Inr config_conforms_validated [OF assms(3)] validateConfig_value [OF assms Inr] by simp
qed

definition example_schema :: ConfigSchema where
  "example_schema = \<lparr>cfg_properties =
     [(''channel'', \<lparr>field_type = CString, field_default = None\<rparr>),
      (''retries'', \<lparr>field_type = CNumber, field_default = Some (JNum (NInt 3))\<rparr>)],
     cfg_required = [''channel'']\<rparr>"

theorem validateConfig_correct_witness:
  "validateConfig (\<lambda>_. Inr example_schema) (\<lambda>_. Inr [(''channel'', JStr ''ops'')]) JNull JNull =
     Inr [(''channel'', JStr ''ops''), (''retries'', JNum (NInt 3))] \<and>
   config_conforms example_schema [(''channel'', JStr ''ops''), (''retries'', JNum (NInt 3))]"
proof -
  have e: "validateConfig (\<lambda>_. Inr example_schema) (\<lambda>_. Inr [(''channel'', JStr ''ops'')]) JNull JNull =
     Inr [(''channel'', JStr ''ops''), (''retries'', JNum (NInt 3))]"
    by code_simp
  have "configSchemaSpec example_schema" by code_simp
  then show ?thesis
    using validateConfig_correct [of "\<lambda>_. Inr example_schema" JNull example_schema
        "\<lambda>_. Inr [(''channel'', JStr ''ops'')]" JNull "[(''channel'', JStr ''ops'')]"] e
    by simp
qed

text \<open>
  C11: resolution and discovery of configuration references agree. Resolving the grants of a
  manifest succeeds exactly when every key that the installation screen lists as a reference of a
  grant has a value in the configuration.
\<close>

theorem resolveGrants_iff_references_defined:
  "(\<exists>r. resolveGrants caps cfg = Inr r) \<longleftrightarrow>
     (\<forall>g \<in> set caps. \<forall>k \<in> set (findConfigReferences (snd g)). record_get cfg k \<noteq> JUndef)"
  by (simp add: resolveGrants_succeeds defined_in_def set_findConfigReferences)

definition example_grants :: "(string \<times> jsval) list" where
  "example_grants = [(''slack.send'', JObj PlainObj [(''channels'', JArr [JStr ''$config.channel''])])]"

theorem resolveGrants_iff_references_defined_witness:
  "findConfigReferences (snd (hd example_grants)) = [''channel''] \<and>
   \<not> (\<exists>r. resolveGrants example_grants [] = Inr r)"
proof -
  have "findConfigReferences (snd (hd example_grants)) = [''channel'']" by code_simp
  moreover have "record_get [] ''channel'' = JUndef" by code_simp
  ultimately show ?thesis
    using resolveGrants_iff_references_defined [of example_grants "[]"]
    by (simp add: example_grants_def)
qed

text \<open>
  Successful resolution is substitution. On grants as \<open>JSON.parse\<close> gives them, the resolved
  grants are the grants with each \<open>$config.<key>\<close> string replaced by the configured value, at any
  depth, in the same order, and nothing else changed.
\<close>

theorem resolveGrants_substitutes:
  assumes "plain_keys caps" "list_all (\<lambda>g. isRecord (snd g) \<and> plain_value (snd g)) caps"
    and "resolveGrants caps cfg = Inr r"
  shows "r = List.map (\<lambda>g. (fst g, substitute cfg (snd g))) caps"
proof -
  have "isRecord (substitute cfg v) = isRecord v" if "isRecord v" for v
    using that by (cases v) simp_all
  then have "filter (\<lambda>g. isRecord (snd g)) (List.map (\<lambda>g. (fst g, substitute cfg (snd g))) caps)
      = List.map (\<lambda>g. (fst g, substitute cfg (snd g))) caps"
    using assms(2) by (auto simp: list_all_iff filter_id_conv)
  moreover have "list_all (\<lambda>g. plain_value (snd g)) caps"
    using assms(2) by (simp add: list_all_iff)
  ultimately show ?thesis
    using resolveGrants_value [OF assms(1) _ assms(3)] by simp
qed

theorem resolveGrants_substitutes_witness:
  "resolveGrants example_grants [(''channel'', JStr ''ops'')] =
     Inr (List.map (\<lambda>g. (fst g, substitute [(''channel'', JStr ''ops'')] (snd g))) example_grants)"
proof -
  have "resolveGrants example_grants [(''channel'', JStr ''ops'')] =
    Inr [(''slack.send'', JObj PlainObj [(''channels'', JArr [JStr ''ops''])])]" by code_simp
  moreover have "plain_keys example_grants" by code_simp
  moreover have "list_all (\<lambda>g. isRecord (snd g) \<and> plain_value (snd g)) example_grants" by code_simp
  ultimately show ?thesis
    using resolveGrants_substitutes by fastforce
qed

text \<open>
  Names of \<open>Object.prototype\<close> members count as defined configuration keys, and as declared
  properties: the reads \<open>config[key]\<close> and \<open>name in schema.properties\<close> are not own-property reads.
\<close>

lemma resolveGrants_inherited_reference:
  "resolveGrants [(''slack.send'', JObj PlainObj [(''channels'', JStr ''$config.toString'')])] [] =
     Inr [(''slack.send'', JObj PlainObj [(''channels'', JFun ''toString'')])]"
  by code_simp

lemma validateConfig_inherited_key:
  "validateConfig (\<lambda>_. Inr \<lparr>cfg_properties = [], cfg_required = []\<rparr>)
     (\<lambda>_. Inr [(''toString'', JStr ''x'')]) JNull JNull = Inr []"
  by code_simp

end
