(* ===== verification/HostSdk.thy ===== *)
theory HostSdk
  imports Manifest "HOL-Library.Multiset"
begin

text \<open>
  \<open>packages/host-sdk/src/index.ts\<close>: hook definitions, execution planning, versioned payload
  routing, transform chains and the retry policy. The plugin (\<open>execute\<close>), schema adapters and the
  version library (\<open>valid\<close>, \<open>validRange\<close>, \<open>maxSatisfying\<close>) are parameters; \<open>execute\<close> runs in the
  caller's state \<open>'s\<close> and may throw.
\<close>

section \<open>Data\<close>

datatype HookFailureKind = handler_error | timeout | budget_exceeded

datatype ExecutionMode = Parallel | Serial

text \<open>What the host functions throw: a contract error with its stable code, or anything else.\<close>

datatype thrown = HookContractError HookErrorCode | OtherThrown jsval

record HookDefinition =
  hd_type :: string
  hd_name :: string
  hd_failurePolicy :: "string option"
  hd_budgetMs :: "int option"
  hd_timeoutMs :: "int option"
  hd_priority :: "int option"

datatype HookRunError =
    HookPayloadError string "ValidationIssue list"  \<comment> \<open>code \<open>input_invalid\<close>\<close>
  | HookExecutionError string                       \<comment> \<open>code \<open>plugin_result_invalid\<close>\<close>

record Installation =
  in_id :: string
  in_tenantId :: string
  in_pluginId :: string
  in_enabled :: bool
  in_priority :: int
  in_hooks :: "string list"
  in_hookSchemaRanges :: "(string \<times> string) list"

record VersionedHookSchema =
  vs_version :: string
  vs_payloadSchema :: "jsval \<Rightarrow> jsval option"
  vs_project :: "jsval \<Rightarrow> jsval option"

record RoutedHookPayload =
  rp_installationId :: string
  rp_pluginId :: string
  rp_schemaVersion :: string
  rp_payload :: jsval

record ExecutionStep =
  st_installationId :: string
  st_pluginId :: string
  st_priority :: int

record ExecutionPlan =
  pl_hookName :: string
  pl_hookType :: string
  pl_failurePolicy :: string
  pl_mode :: ExecutionMode
  pl_steps :: "ExecutionStep list"

record HookRetryPolicy =
  ry_hookType :: string
  ry_failurePolicy :: FailurePolicy
  ry_retry :: bool
  ry_maxAttempts :: nat

datatype ('e, 'r) HookRetryRunResult =
    RetryOk 'r nat
  | RetryFailed 'e nat FailurePolicy

section \<open>Definitions and plans\<close>

definition default_policy_tag :: "string \<Rightarrow> string" where
  "default_policy_tag ty =
     (case parse_hook_type ty of None \<Rightarrow> [] | Some t \<Rightarrow> failure_policy_tag (defaultFailurePolicies t))"

definition checkHookConfiguration ::
  "string \<Rightarrow> string \<Rightarrow> string option \<Rightarrow> (thrown, string) outcome" where
  "checkHookConfiguration name ty pol =
     (if parse_hook_type ty = None then Inl (HookContractError input_invalid)
      else let failurePolicy = (case pol of Some p \<Rightarrow> p | None \<Rightarrow> default_policy_tag ty) in
        if \<not> isValidHookConfiguration name ty failurePolicy then Inl (HookContractError input_invalid)
        else Inr failurePolicy)"

definition defineHooks :: "HookDefinition list \<Rightarrow> (thrown, HookDefinition list) outcome" where
  "defineHooks hooks =
     mapE (\<lambda>hook. bindE (checkHookConfiguration (hd_name hook) (hd_type hook) (hd_failurePolicy hook))
       (\<lambda>p. Inr (hook\<lparr>hd_failurePolicy := Some p\<rparr>))) hooks"

definition runHook ::
  "HookDefinition \<Rightarrow> (jsval \<Rightarrow> (ValidationIssue list, 'p) outcome) \<Rightarrow> jsval \<Rightarrow>
   ('p \<Rightarrow> ('s, 'e, 'r) step) \<Rightarrow> 's \<Rightarrow> (HookRunError, 'r) outcome \<times> 's" where
  "runHook hook safeParse payload execute s =
     (case safeParse payload of
        Inl issues \<Rightarrow> (Inl (HookPayloadError (hd_name hook) issues), s)
      | Inr p \<Rightarrow>
          (case execute p s of
             (Inr v, s') \<Rightarrow> (Inr v, s')
           | (Inl _, s') \<Rightarrow> (Inl (HookExecutionError (hd_name hook)), s')))"

definition subscribed :: "string \<Rightarrow> Installation \<Rightarrow> bool" where
  "subscribed hookName i \<longleftrightarrow> in_enabled i \<and> hookName \<in> set (in_hooks i)"

definition executionStep :: "Installation \<Rightarrow> ExecutionStep" where
  "executionStep i = \<lparr>st_installationId = in_id i, st_pluginId = in_pluginId i, st_priority = in_priority i\<rparr>"

definition planExecution ::
  "string \<Rightarrow> string \<Rightarrow> string option \<Rightarrow> Installation list \<Rightarrow> (thrown, ExecutionPlan) outcome" where
  "planExecution hookName hookType pol installations =
     bindE (checkHookConfiguration hookName hookType pol) (\<lambda>failurePolicy.
       let steps = List.map executionStep (filter (subscribed hookName) installations) in
       if hookType = ''transform'' \<and> length steps \<noteq> 1 then Inl (HookContractError input_invalid)
       else if hookType = ''event'' then
         Inr \<lparr>pl_hookName = hookName, pl_hookType = hookType, pl_failurePolicy = failurePolicy,
              pl_mode = Parallel, pl_steps = steps\<rparr>
       else
         Inr \<lparr>pl_hookName = hookName, pl_hookType = hookType, pl_failurePolicy = failurePolicy,
              pl_mode = Serial, pl_steps = sort_key st_priority steps\<rparr>)"

section \<open>Payload routing\<close>

text \<open>\<open>schemasByVersion\<close> is filled in publication order; an error carries its message.\<close>

fun publishSchemas ::
  "(string \<Rightarrow> bool) \<Rightarrow> string \<Rightarrow> VersionedHookSchema list \<Rightarrow> (string \<times> VersionedHookSchema) list \<Rightarrow>
   (string, (string \<times> VersionedHookSchema) list) outcome" where
  "publishSchemas semver_valid hookName [] byVersion = Inr byVersion"
| "publishSchemas semver_valid hookName (schema # rest) byVersion =
     (if \<not> semver_valid (vs_version schema) then
        Inl (''published '' @ hookName @ '' schema version '' @ vs_version schema @ '' is invalid'')
      else if map_of byVersion (vs_version schema) \<noteq> None then
        Inl (''published '' @ hookName @ '' schema version '' @ vs_version schema @ '' is duplicated'')
      else publishSchemas semver_valid hookName rest (obj_set byVersion (vs_version schema) schema))"

definition runAdapter :: "string \<Rightarrow> jsval \<Rightarrow> string \<Rightarrow> VersionedHookSchema \<Rightarrow> (string, jsval) outcome" where
  "runAdapter hookName payload version schema =
     (case vs_project schema payload of
        None \<Rightarrow> Inl (''schema adapter failed for '' @ hookName @ ''@'' @ version)
      | Some projected \<Rightarrow>
          (case vs_payloadSchema schema projected of
             None \<Rightarrow> Inl (''schema adapter produced an invalid '' @ hookName @ ''@'' @ version @ '' payload'')
           | Some data \<Rightarrow> Inr data))"

text \<open>\<open>projectPayload\<close> with its per-call cache \<open>payloadsByVersion\<close>.\<close>

definition projectPayload ::
  "string \<Rightarrow> jsval \<Rightarrow> string \<Rightarrow> VersionedHookSchema \<Rightarrow> ((string \<times> jsval) list, string, jsval) step" where
  "projectPayload hookName payload version schema cache =
     (case map_of cache version of
        Some v \<Rightarrow> (Inr v, cache)
      | None \<Rightarrow>
          (case runAdapter hookName payload version schema of
             Inl e \<Rightarrow> (Inl e, cache)
           | Inr data \<Rightarrow> (Inr data, obj_set cache version data)))"

definition selectVersion ::
  "(string \<Rightarrow> bool) \<Rightarrow> (string list \<Rightarrow> string \<Rightarrow> string option) \<Rightarrow> string \<Rightarrow>
   (string \<times> VersionedHookSchema) list \<Rightarrow> Installation \<Rightarrow> (string, string \<times> VersionedHookSchema) outcome" where
  "selectVersion validRange maxSatisfying hookName byVersion i =
     (case map_of (in_hookSchemaRanges i) hookName of
        None \<Rightarrow> Inl (''installation '' @ in_id i @ '' has no valid '' @ hookName @ '' schema range'')
      | Some rng \<Rightarrow>
          if \<not> validRange rng then
            Inl (''installation '' @ in_id i @ '' has no valid '' @ hookName @ '' schema range'')
          else (case maxSatisfying (List.map fst byVersion) rng of
             None \<Rightarrow> Inl (''installation '' @ in_id i @ '' has no compatible '' @ hookName
                          @ '' schema for range '' @ rng)
           | Some version \<Rightarrow>
               (case map_of byVersion version of
                  None \<Rightarrow> Inl (''published '' @ hookName @ '' schema '' @ version @ '' could not be resolved'')
                | Some schema \<Rightarrow> Inr (version, schema))))"

fun routeInstallations ::
  "(string \<Rightarrow> bool) \<Rightarrow> (string list \<Rightarrow> string \<Rightarrow> string option) \<Rightarrow> string \<Rightarrow> jsval \<Rightarrow>
   (string \<times> VersionedHookSchema) list \<Rightarrow> Installation list \<Rightarrow>
   ((string \<times> jsval) list, string, RoutedHookPayload list) step" where
  "routeInstallations vr mx hookName payload byVersion [] = returnS []"
| "routeInstallations vr mx hookName payload byVersion (i # rest) =
     bindS (liftS (selectVersion vr mx hookName byVersion i)) (\<lambda>(version, schema).
     bindS (projectPayload hookName payload version schema) (\<lambda>data.
     bindS (routeInstallations vr mx hookName payload byVersion rest) (\<lambda>routed.
       returnS (\<lparr>rp_installationId = in_id i, rp_pluginId = in_pluginId i,
                rp_schemaVersion = version, rp_payload = data\<rparr> # routed))))"

definition routeHookPayloads ::
  "(string \<Rightarrow> bool) \<Rightarrow> (string \<Rightarrow> bool) \<Rightarrow> (string list \<Rightarrow> string \<Rightarrow> string option) \<Rightarrow> string \<Rightarrow> jsval \<Rightarrow>
   Installation list \<Rightarrow> VersionedHookSchema list \<Rightarrow> (string, RoutedHookPayload list) outcome" where
  "routeHookPayloads semver_valid vr mx hookName payload installations schemas =
     bindE (publishSchemas semver_valid hookName schemas []) (\<lambda>byVersion.
       fst (routeInstallations vr mx hookName payload byVersion
              (filter (subscribed hookName) installations) []))"

section \<open>Transform chains\<close>

definition isCanonicalTransformResult :: "jsval \<Rightarrow> bool" where
  "isCanonicalTransformResult v =
     (case v of
        JObj kind fs \<Rightarrow>
          kind \<in> {PlainObj, NullProto} \<and>
          (let names = List.map fst fs in
           length names = 2 \<and> ''status'' \<in> set names \<and> ''output'' \<in> set names) \<and>
          map_of fs ''status'' = Some (JStr ''transformed'') \<and>
          (case map_of fs ''output'' of None \<Rightarrow> False | Some out \<Rightarrow> out \<noteq> JUndef)
      | _ \<Rightarrow> False)"

definition transformOutput :: "jsval \<Rightarrow> jsval" where
  "transformOutput v = js_get v ''output''"

fun transformLoop ::
  "string \<Rightarrow> jsval \<Rightarrow> (ExecutionStep \<Rightarrow> jsval \<Rightarrow> ('s, thrown, jsval) step) \<Rightarrow>
   ExecutionStep list \<Rightarrow> jsval \<Rightarrow> ('s, thrown, jsval) step" where
  "transformLoop pol initialPayload execute [] payload s = (Inr payload, s)"
| "transformLoop pol initialPayload execute (st # rest) payload s =
     (case execute st payload s of
        (Inl err, s') \<Rightarrow>
          if pol = ''use-original'' then (Inr initialPayload, s')
          else (case err of
                  HookContractError c \<Rightarrow> (Inl (HookContractError c), s')
                | _ \<Rightarrow> (Inl (HookContractError plugin_result_invalid), s'))
      | (Inr result, s') \<Rightarrow>
          if \<not> isCanonicalTransformResult result then
            (if pol = ''use-original'' then (Inr initialPayload, s')
             else (Inl (HookContractError plugin_result_invalid), s'))
          else transformLoop pol initialPayload execute rest (transformOutput result) s')"

definition runTransformChain ::
  "ExecutionPlan \<Rightarrow> jsval \<Rightarrow> (ExecutionStep \<Rightarrow> jsval \<Rightarrow> ('s, thrown, jsval) step) \<Rightarrow>
   ('s, thrown, jsval) step" where
  "runTransformChain plan initialPayload execute s =
     (if pl_hookType plan \<noteq> ''transform'' then (Inl (HookContractError input_invalid), s)
      else transformLoop (pl_failurePolicy plan) initialPayload execute (pl_steps plan) initialPayload s)"

section \<open>Retries\<close>

definition retryPolicyForHookType :: "string \<Rightarrow> (thrown, HookRetryPolicy) outcome" where
  "retryPolicyForHookType ty =
     (case parse_hook_type ty of
        None \<Rightarrow> Inl (HookContractError input_invalid)
      | Some t \<Rightarrow> Inr \<lparr>ry_hookType = ty, ry_failurePolicy = defaultFailurePolicies t,
           ry_retry = (ty = ''event''), ry_maxAttempts = (if ty = ''event'' then 2 else 1)\<rparr>)"

definition shouldRetryHookFailure :: "string \<Rightarrow> HookFailureKind \<Rightarrow> nat \<Rightarrow> (thrown, bool) outcome" where
  "shouldRetryHookFailure ty failure attempt =
     bindE (retryPolicyForHookType ty) (\<lambda>p. Inr (ry_retry p \<and> attempt < ry_maxAttempts p))"

text \<open>
  The attempt loop. The error of the plugin (\<open>'e\<close>) and the errors the host throws are kept apart:
  \<open>Inl\<close> is a throw out of \<open>runWithRetryPolicy\<close>, \<open>RetryFailed\<close> a reported failure.
\<close>

function retryLoop ::
  "HookRetryPolicy \<Rightarrow> HookFailureKind \<Rightarrow> (nat \<Rightarrow> ('s, 'e, 'r) step) \<Rightarrow> nat \<Rightarrow>
   's \<Rightarrow> (thrown, ('e, 'r) HookRetryRunResult) outcome \<times> 's" where
  "retryLoop pol failure execute attempt s =
     (if attempt \<le> ry_maxAttempts pol then
        (case execute attempt s of
           (Inr v, s') \<Rightarrow> (Inr (RetryOk v attempt), s')
         | (Inl err, s') \<Rightarrow>
             (case shouldRetryHookFailure (ry_hookType pol) failure attempt of
                Inl e \<Rightarrow> (Inl e, s')
              | Inr again \<Rightarrow>
                  if again then retryLoop pol failure execute (Suc attempt) s'
                  else (Inr (RetryFailed err attempt (ry_failurePolicy pol)), s')))
      else (Inl (OtherThrown (JStr (''retry policy exhausted without a result for '' @ ry_hookType pol))), s))"
  by pat_completeness auto
termination by (relation "measure (\<lambda>(p, _, _, a, _). Suc (ry_maxAttempts p) - a)") auto

declare retryLoop.simps [simp del]

definition runWithRetryPolicy ::
  "string \<Rightarrow> (nat \<Rightarrow> ('s, 'e, 'r) step) \<Rightarrow> HookFailureKind option \<Rightarrow>
   's \<Rightarrow> (thrown, ('e, 'r) HookRetryRunResult) outcome \<times> 's" where
  "runWithRetryPolicy ty execute failureKind s =
     (case retryPolicyForHookType ty of
        Inl e \<Rightarrow> (Inl e, s)
      | Inr pol \<Rightarrow> retryLoop pol (case failureKind of None \<Rightarrow> handler_error | Some f \<Rightarrow> f) execute 1 s)"

section \<open>Hook configuration lemmas\<close>

lemma default_policy_tag_tag [simp]:
  "default_policy_tag (hook_type_tag t) = failure_policy_tag (defaultFailurePolicies t)"
  by (simp add: default_policy_tag_def)

lemma checkHookConfiguration_Inr:
  "checkHookConfiguration name ty pol = Inr p \<longleftrightarrow>
     p = (case pol of Some q \<Rightarrow> q | None \<Rightarrow> default_policy_tag ty) \<and> isValidHookConfiguration name ty p"
  by (auto simp: checkHookConfiguration_def isValidHookConfiguration_def isAllowedFailurePolicy_def Let_def)

lemma checkHookConfiguration_Inl:
  "checkHookConfiguration name ty pol = Inl e \<Longrightarrow> e = HookContractError input_invalid"
  by (auto simp: checkHookConfiguration_def Let_def split: if_splits)

section \<open>Routing lemmas\<close>

definition routeInstallation ::
  "(string \<Rightarrow> bool) \<Rightarrow> (string list \<Rightarrow> string \<Rightarrow> string option) \<Rightarrow> string \<Rightarrow> jsval \<Rightarrow>
   (string \<times> VersionedHookSchema) list \<Rightarrow> Installation \<Rightarrow> (string, RoutedHookPayload) outcome" where
  "routeInstallation vr mx hookName payload byVersion i =
     bindE (selectVersion vr mx hookName byVersion i) (\<lambda>(version, schema).
     bindE (runAdapter hookName payload version schema) (\<lambda>data.
       Inr \<lparr>rp_installationId = in_id i, rp_pluginId = in_pluginId i,
            rp_schemaVersion = version, rp_payload = data\<rparr>))"

definition cache_ok ::
  "string \<Rightarrow> jsval \<Rightarrow> (string \<times> VersionedHookSchema) list \<Rightarrow> (string \<times> jsval) list \<Rightarrow> bool" where
  "cache_ok hookName payload byVersion cache \<longleftrightarrow>
     (\<forall>v d. map_of cache v = Some d \<longrightarrow>
        (\<exists>schema. map_of byVersion v = Some schema \<and> runAdapter hookName payload v schema = Inr d))"

lemma projectPayload_cached:
  assumes "cache_ok hookName payload byVersion cache" "map_of byVersion v = Some schema"
  shows "fst (projectPayload hookName payload v schema cache) = runAdapter hookName payload v schema \<and>
    cache_ok hookName payload byVersion (snd (projectPayload hookName payload v schema cache))"
proof (cases "map_of cache v")
  case (Some d)
  then have "runAdapter hookName payload v schema = Inr d"
    using assms unfolding cache_ok_def by (metis option.inject)
  then show ?thesis using assms Some by (simp add: projectPayload_def)
next
  case None
  then show ?thesis
    using assms by (cases "runAdapter hookName payload v schema") (auto simp: projectPayload_def cache_ok_def)
qed

lemma selectVersion_Inr:
  "selectVersion vr mx hookName byVersion i = Inr (v, schema) \<longleftrightarrow>
     (\<exists>rng. map_of (in_hookSchemaRanges i) hookName = Some rng \<and> vr rng \<and>
        mx (List.map fst byVersion) rng = Some v \<and> map_of byVersion v = Some schema)"
  by (auto simp: selectVersion_def split: option.splits)

lemma routeInstallations_uncached:
  "cache_ok hookName payload byVersion cache \<Longrightarrow>
     fst (routeInstallations vr mx hookName payload byVersion is cache) =
       mapE (routeInstallation vr mx hookName payload byVersion) is"
proof (induction "is" arbitrary: cache)
  case (Cons i rest)
  show ?case
  proof (cases "selectVersion vr mx hookName byVersion i")
    case (Inr vs)
    obtain v schema where vs: "vs = (v, schema)" by fastforce
    have "map_of byVersion v = Some schema"
      using Inr vs selectVersion_Inr by blast
    then obtain r cache' where p: "projectPayload hookName payload v schema cache = (r, cache')"
      and r: "r = runAdapter hookName payload v schema" and ok: "cache_ok hookName payload byVersion cache'"
      using projectPayload_cached [OF Cons.prems] by (metis prod.collapse)
    show ?thesis
    proof (cases r)
      case (Inr data)
      obtain rs t where "routeInstallations vr mx hookName payload byVersion rest cache' = (rs, t)"
        by fastforce
      moreover from this have "rs = mapE (routeInstallation vr mx hookName payload byVersion) rest"
        using Cons.IH [OF ok] by simp
      moreover have "routeInstallation vr mx hookName payload byVersion i =
          Inr \<lparr>rp_installationId = in_id i, rp_pluginId = in_pluginId i,
               rp_schemaVersion = v, rp_payload = data\<rparr>"
        using \<open>selectVersion vr mx hookName byVersion i = Inr vs\<close> vs r [symmetric] Inr
        by (simp add: routeInstallation_def)
      ultimately show ?thesis
        using \<open>selectVersion vr mx hookName byVersion i = Inr vs\<close> vs p Inr
        by (auto simp: bindS_def split: sum.split)
    next
      case (Inl e)
      then show ?thesis
        using \<open>selectVersion vr mx hookName byVersion i = Inr vs\<close> vs p r
        by (simp add: routeInstallation_def bindS_def)
    qed
  qed (simp add: routeInstallation_def bindS_def)
qed simp

lemma routeHookPayloads_uncached:
  "routeHookPayloads ok vr mx hookName payload installations schemas =
     bindE (publishSchemas ok hookName schemas []) (\<lambda>byVersion.
       mapE (routeInstallation vr mx hookName payload byVersion)
         (filter (subscribed hookName) installations))"
  by (simp add: routeHookPayloads_def routeInstallations_uncached cache_ok_def)

lemma publishSchemas_distinct:
  "publishSchemas ok hookName schemas acc = Inr byVersion \<Longrightarrow> distinct (List.map fst acc) \<Longrightarrow>
     distinct (List.map fst byVersion)"
  by (induction ok hookName schemas acc rule: publishSchemas.induct)
     (auto simp: distinct_obj_set split: if_splits)

lemma publishSchemas_Inr:
  "publishSchemas ok hookName schemas acc = Inr byVersion \<Longrightarrow>
     byVersion = acc @ List.map (\<lambda>sc. (vs_version sc, sc)) schemas \<and>
     (\<forall>sc \<in> set schemas. ok (vs_version sc))"
proof (induction ok hookName schemas acc rule: publishSchemas.induct)
  case (2 ok hookName sc rest acc)
  then have ok: "ok (vs_version sc)" and fresh: "map_of acc (vs_version sc) = None"
    by (auto split: if_splits)
  then have "obj_set acc (vs_version sc) sc = acc @ [(vs_version sc, sc)]"
    by (simp add: obj_set_fresh map_of_eq_None_iff)
  with 2 ok fresh show ?case by simp
qed simp

section \<open>Chain and retry lemmas\<close>

text \<open>The composition of all steps, defined only when each returns a canonical result.\<close>

fun chainAll ::
  "(ExecutionStep \<Rightarrow> jsval \<Rightarrow> ('s, thrown, jsval) step) \<Rightarrow> ExecutionStep list \<Rightarrow> jsval \<Rightarrow> 's \<Rightarrow>
   (jsval \<times> 's) option" where
  "chainAll execute [] payload s = Some (payload, s)"
| "chainAll execute (st # rest) payload s =
     (case execute st payload s of
        (Inl _, _) \<Rightarrow> None
      | (Inr result, s') \<Rightarrow>
          if isCanonicalTransformResult result
          then chainAll execute rest (transformOutput result) s' else None)"

lemma transformLoop_all:
  "chainAll execute steps payload s = Some (q, t) \<Longrightarrow>
     transformLoop pol initial execute steps payload s = (Inr q, t)"
  by (induction execute steps payload s rule: chainAll.induct)
     (auto split: prod.splits sum.splits if_splits)

lemma transformLoop_use_original:
  "chainAll execute steps payload s = None \<Longrightarrow>
     fst (transformLoop ''use-original'' initial execute steps payload s) = Inr initial"
  by (induction execute steps payload s rule: chainAll.induct)
     (auto split: prod.splits sum.splits if_splits)

lemma transformLoop_fail_closed:
  "chainAll execute steps payload s = None \<Longrightarrow> pol \<noteq> ''use-original'' \<Longrightarrow>
     \<exists>c. fst (transformLoop pol initial execute steps payload s) = Inl (HookContractError c)"
  by (induction execute steps payload s rule: chainAll.induct)
     (auto split: prod.splits sum.splits if_splits thrown.splits)

lemma retryPolicy_tag [simp]:
  "retryPolicyForHookType (hook_type_tag t) =
     Inr \<lparr>ry_hookType = hook_type_tag t, ry_failurePolicy = defaultFailurePolicies t,
          ry_retry = (t = Event), ry_maxAttempts = (if t = Event then 2 else 1)\<rparr>"
  by (cases t) (simp_all add: retryPolicyForHookType_def parse_hook_type_def hookTypes_def)

lemma shouldRetry_tag [simp]:
  "shouldRetryHookFailure (hook_type_tag t) failure attempt = Inr (t = Event \<and> attempt < 2)"
  by (auto simp: shouldRetryHookFailure_def)

lemmas event_retry [simp] = retryPolicy_tag [of Event, simplified] shouldRetry_tag [of Event, simplified]

section \<open>Properties\<close>

text \<open>
  Defined hooks are valid configurations under an explicit failure policy, every other field
  as given, and defining them again changes nothing.
\<close>

theorem defineHooks_valid:
  assumes "defineHooks hooks = Inr defined"
  shows "list_all2 (\<lambda>h d. \<exists>p. d = h\<lparr>hd_failurePolicy := Some p\<rparr> \<and>
           isValidHookConfiguration (hd_name d) (hd_type d) p) hooks defined \<and>
         defineHooks defined = Inr defined"
proof -
  have *: "list_all2 (\<lambda>h d. \<exists>p. checkHookConfiguration (hd_name h) (hd_type h) (hd_failurePolicy h) = Inr p \<and>
      d = h\<lparr>hd_failurePolicy := Some p\<rparr>) hooks defined"
    using assms unfolding defineHooks_def mapE_Inr
    by (rule list_all2_mono) (auto simp: bindE_Inr)
  then have v: "list_all2 (\<lambda>h d. \<exists>p. d = h\<lparr>hd_failurePolicy := Some p\<rparr> \<and>
      isValidHookConfiguration (hd_name d) (hd_type d) p) hooks defined"
    by (rule list_all2_mono) (auto simp: checkHookConfiguration_Inr)
  then have "\<forall>d \<in> set defined. \<exists>p. hd_failurePolicy d = Some p \<and>
      isValidHookConfiguration (hd_name d) (hd_type d) p"
    by (fastforce dest: list_all2_in_set2)
  then have "\<forall>d \<in> set defined. bindE (checkHookConfiguration (hd_name d) (hd_type d) (hd_failurePolicy d))
       (\<lambda>p. Inr (d\<lparr>hd_failurePolicy := Some p\<rparr>)) = Inr (id d)"
    by (auto simp: checkHookConfiguration_Inr bindE_Inr)
  then have "defineHooks defined = Inr defined"
    unfolding defineHooks_def by (subst mapE_total [of _ _ id]) auto
  with v show ?thesis by blast
qed

definition example_hook_def :: HookDefinition where
  "example_hook_def = \<lparr>hd_type = ''transform'', hd_name = ''webhook.outbound'', hd_failurePolicy = None,
     hd_budgetMs = Some 50, hd_timeoutMs = None, hd_priority = None\<rparr>"

theorem defineHooks_valid_witness:
  "defineHooks [example_hook_def\<lparr>hd_failurePolicy := Some ''fail-closed''\<rparr>] =
     Inr [example_hook_def\<lparr>hd_failurePolicy := Some ''fail-closed''\<rparr>]"
proof -
  have "defineHooks [example_hook_def] = Inr [example_hook_def\<lparr>hd_failurePolicy := Some ''fail-closed''\<rparr>]"
    by code_simp
  then show ?thesis by (rule conjunct2 [OF defineHooks_valid])
qed

text \<open>
  An execution plan runs exactly the enabled installations subscribed to the hook. An event
  plan is parallel in installation order; a blocking plan is serial, ordered by priority with ties
  in installation order; a transform has exactly one step; the failure policy is valid for the hook.
\<close>

theorem planExecution_correct:
  assumes "planExecution hookName hookType pol installations = Inr plan"
  shows "isValidHookConfiguration hookName hookType (pl_failurePolicy plan) \<and>
    mset (pl_steps plan) = image_mset executionStep (filter_mset (subscribed hookName) (mset installations)) \<and>
    (if hookType = ''event''
     then pl_mode plan = Parallel \<and>
       pl_steps plan = List.map executionStep (filter (subscribed hookName) installations)
     else pl_mode plan = Serial \<and> sorted (List.map st_priority (pl_steps plan)) \<and>
       (\<forall>p. filter (\<lambda>st. st_priority st = p) (pl_steps plan) =
            filter (\<lambda>st. st_priority st = p)
              (List.map executionStep (filter (subscribed hookName) installations)))) \<and>
    (hookType = ''transform'' \<longrightarrow> length (pl_steps plan) = 1)"
  using assms
  by (auto simp: planExecution_def bindE_Inr checkHookConfiguration_Inr Let_def sort_key_stable
      split: if_splits)

definition example_installation :: "string \<Rightarrow> int \<Rightarrow> bool \<Rightarrow> Installation" where
  "example_installation i p e = \<lparr>in_id = i, in_tenantId = ''t'', in_pluginId = ''p'', in_enabled = e,
     in_priority = p, in_hooks = [''order.check''],
     in_hookSchemaRanges = [(''order.check'', ''1.x'')]\<rparr>"

definition example_installations :: "Installation list" where
  "example_installations = [example_installation ''a'' 20 True, example_installation ''b'' 5 False,
     example_installation ''c'' 10 True]"

definition example_plan :: ExecutionPlan where
  "example_plan = \<lparr>pl_hookName = ''order.check'', pl_hookType = ''policy'', pl_failurePolicy = ''fail-closed'',
     pl_mode = Serial, pl_steps = [executionStep (example_installation ''c'' 10 True),
       executionStep (example_installation ''a'' 20 True)]\<rparr>"

theorem planExecution_correct_witness:
  "sorted (List.map st_priority (pl_steps example_plan)) \<and> length (pl_steps example_plan) = 2"
proof -
  have "planExecution ''order.check'' ''policy'' None example_installations = Inr example_plan"
    by code_simp
  from planExecution_correct [OF this] show ?thesis by (simp add: example_plan_def)
qed

text \<open>
  Payload routing. The per-call cache is unobservable: the result is that of publishing the
  schemas and then selecting, projecting and parsing for each subscribed installation on its own.
\<close>

theorem routeHookPayloads_cache_transparent:
  "routeHookPayloads ok vr mx hookName payload installations schemas =
     bindE (publishSchemas ok hookName schemas []) (\<lambda>byVersion.
       mapE (routeInstallation vr mx hookName payload byVersion)
         (filter (subscribed hookName) installations))"
  by (rule routeHookPayloads_uncached)

text \<open>
  Every routed payload has a compatible schema. Given a version library whose choice is a
  published version inside the range, each subscribed installation gets, in order, one payload: the
  output of the adapter and schema of a published version that satisfies its declared range.
\<close>

definition routed_correctly ::
  "(string \<Rightarrow> string \<Rightarrow> bool) \<Rightarrow> string \<Rightarrow> jsval \<Rightarrow> VersionedHookSchema list \<Rightarrow> Installation \<Rightarrow>
   RoutedHookPayload \<Rightarrow> bool" where
  "routed_correctly satisfies hookName payload schemas i r \<longleftrightarrow>
     rp_installationId r = in_id i \<and> rp_pluginId r = in_pluginId i \<and>
     (\<exists>rng. map_of (in_hookSchemaRanges i) hookName = Some rng \<and> satisfies (rp_schemaVersion r) rng) \<and>
     (\<exists>schema \<in> set schemas. vs_version schema = rp_schemaVersion r \<and>
        runAdapter hookName payload (rp_schemaVersion r) schema = Inr (rp_payload r))"

theorem routeHookPayloads_compatible:
  assumes "\<And>vs rng v. mx vs rng = Some v \<Longrightarrow> v \<in> set vs \<and> satisfies v rng"
    and "routeHookPayloads ok vr mx hookName payload installations schemas = Inr routed"
  shows "list_all2 (routed_correctly satisfies hookName payload schemas)
    (filter (subscribed hookName) installations) routed"
proof -
  obtain byVersion where pub: "publishSchemas ok hookName schemas [] = Inr byVersion"
    and routed: "mapE (routeInstallation vr mx hookName payload byVersion)
      (filter (subscribed hookName) installations) = Inr routed"
    using assms(2) by (auto simp: routeHookPayloads_uncached bindE_Inr)
  have bv: "byVersion = List.map (\<lambda>sc. (vs_version sc, sc)) schemas"
    using publishSchemas_Inr [OF pub] by simp
  from routed show ?thesis unfolding mapE_Inr
  proof (rule list_all2_mono)
    fix i r
    assume "routeInstallation vr mx hookName payload byVersion i = Inr r"
    then obtain v schema rng where "map_of (in_hookSchemaRanges i) hookName = Some rng"
      and v: "mx (List.map fst byVersion) rng = Some v" and "map_of byVersion v = Some schema"
      and "runAdapter hookName payload v schema = Inr (rp_payload r)" "rp_schemaVersion r = v"
      and "rp_installationId r = in_id i" "rp_pluginId r = in_pluginId i"
      by (auto simp: routeInstallation_def bindE_Inr selectVersion_Inr)
    then show "routed_correctly satisfies hookName payload schemas i r"
      using assms(1) [OF v] map_of_SomeD [of byVersion v schema]
      by (auto simp: routed_correctly_def bv)
  qed
qed

definition example_max :: "string list \<Rightarrow> string \<Rightarrow> string option" where
  "example_max vs rng = List.find (\<lambda>v. take 1 v = take 1 rng) vs"

definition example_schemas :: "VersionedHookSchema list" where
  "example_schemas = [\<lparr>vs_version = ''1.2.0'', vs_payloadSchema = Some, vs_project = Some\<rparr>,
     \<lparr>vs_version = ''2.0.0'', vs_payloadSchema = Some, vs_project = (\<lambda>_. None)\<rparr>]"

theorem routeHookPayloads_compatible_witness:
  "\<exists>routed. routeHookPayloads (\<lambda>_. True) (\<lambda>_. True) example_max ''order.check'' (JStr ''x'')
       example_installations example_schemas = Inr routed \<and>
     list_all2 (routed_correctly (\<lambda>v rng. take 1 v = take 1 rng) ''order.check'' (JStr ''x'') example_schemas)
       (filter (subscribed ''order.check'') example_installations) routed"
proof -
  have ex: "routeHookPayloads (\<lambda>_. True) (\<lambda>_. True) example_max ''order.check'' (JStr ''x'')
       example_installations example_schemas =
    Inr [\<lparr>rp_installationId = ''a'', rp_pluginId = ''p'', rp_schemaVersion = ''1.2.0'', rp_payload = JStr ''x''\<rparr>,
         \<lparr>rp_installationId = ''c'', rp_pluginId = ''p'', rp_schemaVersion = ''1.2.0'', rp_payload = JStr ''x''\<rparr>]"
    by code_simp
  have mx: "v \<in> set vs \<and> take 1 v = take 1 rng" if "example_max vs rng = Some v" for vs rng v
    using that by (auto simp: example_max_def find_Some_iff in_set_conv_nth)
  show ?thesis
    using routeHookPayloads_compatible [of example_max "\<lambda>v rng. take 1 v = take 1 rng", OF mx ex] ex
    by blast
qed

text \<open>
  C10: transform chains never let a partial result out. When every step returns a canonical result
  the chain is their composition; otherwise it yields the original payload under
  \<open>use-original\<close>, and throws a contract error under any other policy.
\<close>

theorem runTransformChain_all_or_nothing:
  assumes "pl_hookType plan = ''transform''"
  shows "case chainAll execute (pl_steps plan) payload s of
      Some (q, t) \<Rightarrow> runTransformChain plan payload execute s = (Inr q, t)
    | None \<Rightarrow>
        (if pl_failurePolicy plan = ''use-original''
         then fst (runTransformChain plan payload execute s) = Inr payload
         else \<exists>c. fst (runTransformChain plan payload execute s) = Inl (HookContractError c))"
  using assms transformLoop_fail_closed [of execute "pl_steps plan" payload s "pl_failurePolicy plan" payload]
  by (auto simp: runTransformChain_def transformLoop_all transformLoop_use_original split: option.split)

definition example_transform_plan :: ExecutionPlan where
  "example_transform_plan = \<lparr>pl_hookName = ''x'', pl_hookType = ''transform'', pl_failurePolicy = ''use-original'',
     pl_mode = Serial, pl_steps = [executionStep (example_installation ''c'' 10 True)]\<rparr>"

theorem runTransformChain_all_or_nothing_witness:
  "fst (runTransformChain example_transform_plan (JStr ''p'') (\<lambda>_ _ s. (Inr (JStr ''not canonical''), s)) ())
     = Inr (JStr ''p'')"
proof -
  have "chainAll (\<lambda>_ _ s. (Inr (JStr ''not canonical''), s)) (pl_steps example_transform_plan) (JStr ''p'') () = None"
    by code_simp
  moreover have "pl_hookType example_transform_plan = ''transform''"
    "pl_failurePolicy example_transform_plan = ''use-original''" by code_simp+
  ultimately show ?thesis
    using runTransformChain_all_or_nothing [where plan = example_transform_plan and s = "()"
        and execute = "\<lambda>_ _ s. (Inr (JStr ''not canonical''), s)" and payload = "JStr ''p''"]
    by simp
qed

text \<open>
  C15: retries are bounded. An event hook is attempted at most twice and the second time only after
  the first threw; a blocking hook is attempted once; the attempt count is exact and the loop always
  returns a result, never the exhaustion error.
\<close>

theorem runWithRetryPolicy_bounded:
  "runWithRetryPolicy (hook_type_tag t) execute failureKind s =
     (case execute 1 s of
        (Inr v, s1) \<Rightarrow> (Inr (RetryOk v 1), s1)
      | (Inl e1, s1) \<Rightarrow>
          (if t = Event then
             (case execute 2 s1 of
                (Inr v, s2) \<Rightarrow> (Inr (RetryOk v 2), s2)
              | (Inl e2, s2) \<Rightarrow> (Inr (RetryFailed e2 2 RecordOnly), s2))
           else (Inr (RetryFailed e1 1 FailClosed), s1)))"
proof -
  have d: "t \<noteq> Event \<Longrightarrow> defaultFailurePolicies t = FailClosed" by (cases t) simp_all
  show ?thesis
    by (simp add: runWithRetryPolicy_def retryLoop.simps [where attempt = "Suc 0"]
        retryLoop.simps [where attempt = "Suc (Suc 0)"] d numeral_2_eq_2 split: prod.split sum.split)
qed

end
