(* ===== verification/WebUrl.thy ===== *)
theory WebUrl
  imports JsValue
begin

text \<open>
  URLs as the runtime's \<open>URL\<close> class presents them, and the address tests of
  \<open>packages/proxy/src/index.ts\<close> and \<open>packages/capabilities/src/index.ts\<close>. The parser itself
  (\<open>new URL(value)\<close>, \<open>new URL(location, base)\<close>) belongs to the host runtime and is a parameter of
  the definitions that use it; every theorem holds for any parser.
\<close>

record URL =
  url_href :: string
  url_protocol :: string
  url_username :: string
  url_password :: string
  url_hostname :: string
  url_origin :: string
  url_pathname :: string
  url_search :: string
  url_hash :: string

type_synonym url_parser = "string \<Rightarrow> URL option"
type_synonym url_resolver = "string \<Rightarrow> URL \<Rightarrow> URL option"

text \<open>\<open>url.hash = ""\<close>: the fragment and its delimiter leave the serialization.\<close>

definition clear_hash :: "URL \<Rightarrow> URL" where
  "clear_hash u = u\<lparr>url_hash := [], url_href := takeWhile (\<lambda>c. c \<noteq> CHR ''#'') (url_href u)\<rparr>"

section \<open>\<open>Number(s)\<close> on host name labels\<close>

text \<open>
  \<open>Some n\<close> when \<open>Number(s)\<close> is the integer \<open>n\<close>, \<open>None\<close> when it is \<open>NaN\<close>, infinite or not
  integral. Decimal literals are read exactly, so the result is the language's for literals that
  a double represents exactly.
\<close>

definition digit_value :: "char \<Rightarrow> nat option" where
  "digit_value c =
     (if is_digit c then Some (code c - 48)
      else if is_lower c then Some (code c - 87)
      else if is_upper c then Some (code c - 55) else None)"

fun read_radix :: "nat \<Rightarrow> string \<Rightarrow> nat \<Rightarrow> nat option" where
  "read_radix b [] acc = Some acc"
| "read_radix b (c # s) acc =
     (case digit_value c of
        None \<Rightarrow> None
      | Some d \<Rightarrow> if d < b then read_radix b s (b * acc + d) else None)"

definition split_sign :: "string \<Rightarrow> bool \<times> string" where
  "split_sign s =
     (if startsWith s ''-'' then (True, tl s) else if startsWith s ''+'' then (False, tl s) else (False, s))"

definition read_exponent :: "string \<Rightarrow> int option" where
  "read_exponent s =
     (if s = [] then Some 0
      else if hd s = CHR ''e'' \<or> hd s = CHR ''E'' then
        (case split_sign (tl s) of (neg, ds) \<Rightarrow>
           if ds \<noteq> [] \<and> list_all is_digit ds
           then Some (if neg then - int (read_nat ds) else int (read_nat ds)) else None)
      else None)"

definition read_decimal :: "string \<Rightarrow> int option" where
  "read_decimal s =
     (case split_sign s of (neg, r) \<Rightarrow>
      let ip = takeWhile is_digit r;
          r1 = dropWhile is_digit r;
          fp = (if startsWith r1 ''.'' then takeWhile is_digit (tl r1) else []);
          r2 = (if startsWith r1 ''.'' then dropWhile is_digit (tl r1) else r1)
      in if ip @ fp = [] then None
         else (case read_exponent r2 of
                 None \<Rightarrow> None
               | Some e \<Rightarrow>
                   let m = int (read_nat (ip @ fp)); k = e - int (length fp);
                       v = (if 0 \<le> k then Some (m * 10 ^ nat k)
                            else if 10 ^ nat (- k) dvd m then Some (m div 10 ^ nat (- k)) else None)
                   in if neg then map_option uminus v else v))"

definition js_integer :: "string \<Rightarrow> int option" where
  "js_integer s0 =
     (let s = trim s0; radix = (\<lambda>b. if drop 2 s = [] then None else map_option int (read_radix b (drop 2 s) 0)) in
      if s = [] then Some 0
      else if startsWith s ''0x'' \<or> startsWith s ''0X'' then radix 16
      else if startsWith s ''0o'' \<or> startsWith s ''0O'' then radix 8
      else if startsWith s ''0b'' \<or> startsWith s ''0B'' then radix 2
      else read_decimal s)"

definition is_octet :: "int \<Rightarrow> bool" where
  "is_octet n \<longleftrightarrow> 0 \<le> n \<and> n \<le> 255"

text \<open>The four octets of a host name of four labels that all read as octets.\<close>

definition ipv4_octets :: "string \<Rightarrow> int list option" where
  "ipv4_octets hostname =
     (let parts = split_on CHR ''.'' hostname; octets = List.map js_integer parts in
      if length parts \<noteq> 4 then None
      else if list_all (\<lambda>n. case n of None \<Rightarrow> False | Some i \<Rightarrow> is_octet i) octets
      then Some (List.map the octets) else None)"

lemma ipv4_octets_length: "ipv4_octets h = Some os \<Longrightarrow> length os = 4"
  by (auto simp: ipv4_octets_def Let_def split: if_splits)

text \<open>\<open>replace(/^\[/, "").replace(/\]$/, "")\<close>\<close>

definition strip_brackets :: "string \<Rightarrow> string" where
  "strip_brackets h =
     (let h1 = (if startsWith h ''['' then tl h else h) in
      if endsWith h1 '']'' \<and> h1 \<noteq> [] then butlast h1 else h1)"

section \<open>Public addresses, as the proxy tests them\<close>

definition isPrivateIpv4 :: "string \<Rightarrow> bool" where
  "isPrivateIpv4 hostname =
     (case ipv4_octets hostname of
        None \<Rightarrow> False
      | Some os \<Rightarrow>
          let first = os ! 0; second = os ! 1 in
          first = 0 \<or> first = 10 \<or> first = 127 \<or>
          (first = 169 \<and> second = 254) \<or>
          (first = 172 \<and> 16 \<le> second \<and> second \<le> 31) \<or>
          (first = 192 \<and> second = 168))"

definition isPrivateIpv6 :: "string \<Rightarrow> bool" where
  "isPrivateIpv6 hostname =
     (let normalized = strip_brackets hostname in
      normalized = ''::1'' \<or> startsWith normalized ''fc'' \<or> startsWith normalized ''fd'' \<or>
      startsWith normalized ''fe80:'')"

definition isPublicHttpUrl :: "URL \<Rightarrow> bool" where
  "isPublicHttpUrl url \<longleftrightarrow>
     (url_protocol url = ''https:'' \<or> url_protocol url = ''http:'') \<and>
     (let hostname = toLowerCase (url_hostname url) in
      hostname \<noteq> ''localhost'' \<and> hostname \<noteq> ''127.0.0.1'' \<and> \<not> isPrivateIpv6 hostname \<and>
      \<not> isPrivateIpv4 hostname)"

section \<open>Public addresses, as the HTTP capability tests them\<close>

definition reservedHostname :: "string \<Rightarrow> bool" where
  "reservedHostname hostname \<longleftrightarrow>
     hostname = ''localhost'' \<or> endsWith hostname ''.localhost'' \<or> endsWith hostname ''.local'' \<or>
     endsWith hostname ''.home.arpa'' \<or> hostname = ''metadata.google.internal'' \<or>
     hostname = ''::'' \<or> hostname = ''::1'' \<or> startsWith hostname ''fc'' \<or> startsWith hostname ''fd'' \<or>
     startsWith hostname ''fe8'' \<or> startsWith hostname ''fe9'' \<or> startsWith hostname ''fea'' \<or>
     startsWith hostname ''feb'' \<or> startsWith hostname ''::ffff:'' \<or>
     startsWith hostname ''2001:db8:'' \<or> startsWith hostname ''ff''"

definition reservedOctets :: "int list \<Rightarrow> bool" where
  "reservedOctets os \<longleftrightarrow>
     (let first = os ! 0; second = os ! 1 in
      first = 0 \<or> first = 10 \<or> (first = 100 \<and> 64 \<le> second \<and> second \<le> 127) \<or> first = 127 \<or>
      (first = 169 \<and> second = 254) \<or> (first = 172 \<and> 16 \<le> second \<and> second \<le> 31) \<or>
      (first = 192 \<and> second = 0) \<or> (first = 192 \<and> second = 168) \<or>
      (first = 198 \<and> (second = 18 \<or> second = 19)) \<or>
      (first = 198 \<and> second = 51 \<and> os ! 2 = 100) \<or>
      (first = 203 \<and> second = 0 \<and> os ! 2 = 113) \<or> 224 \<le> first)"

definition isPublicHttpDestination :: "URL \<Rightarrow> bool" where
  "isPublicHttpDestination url \<longleftrightarrow>
     (url_protocol url = ''https:'' \<or> url_protocol url = ''http:'') \<and>
     (let hostname = strip_brackets (toLowerCase (url_hostname url)) in
      \<not> reservedHostname hostname \<and>
      (case ipv4_octets hostname of None \<Rightarrow> True | Some os \<Rightarrow> \<not> reservedOctets os))"

text \<open>The capability's test is the stricter one on IPv4 hosts.\<close>

lemma reservedOctets_private:
  "isPrivateIpv4 h \<Longrightarrow> \<exists>os. ipv4_octets h = Some os \<and> reservedOctets os"
  by (auto simp: isPrivateIpv4_def reservedOctets_def Let_def split: option.splits)

text \<open>
  The proxy's list of private IPv6 forms is shorter: an IPv4-mapped loopback address, the
  unspecified address and link-local addresses outside \<open>fe80:\<close> count as public there.
\<close>

definition url_of_host :: "string \<Rightarrow> URL" where
  "url_of_host h = \<lparr>url_href = ''https://'' @ h @ ''/'', url_protocol = ''https:'', url_username = [],
     url_password = [], url_hostname = h, url_origin = ''https://'' @ h, url_pathname = ''/'',
     url_search = [], url_hash = []\<rparr>"

lemma proxy_mapped_loopback_public:
  "isPublicHttpUrl (url_of_host ''[::ffff:7f00:1]'')"
  "\<not> isPublicHttpDestination (url_of_host ''[::ffff:7f00:1]'')"
  by code_simp+

lemma proxy_unspecified_public:
  "isPublicHttpUrl (url_of_host ''[::]'')"
  "isPublicHttpUrl (url_of_host ''[fe90::1]'')"
  by code_simp+

end
