(* ===== verification/Proxy.thy ===== *)
theory Proxy
  imports HostSdk WebUrl
begin

text \<open>
  \<open>packages/proxy/src/index.ts\<close>: the destination mapping store and the webhook proxy that
  transforms a request through the tenant's plugin and forwards it. The URL parser is a parameter;
  the world is the caller's state plus the list of requests handed to \<open>forward\<close>.
\<close>

record ProxyWebhookRequest =
  rq_path :: string
  rq_method :: string
  rq_headers :: "(string \<times> string) list"
  rq_body :: jsval

record ProxyMapping =
  pm_inboundPath :: string
  pm_tenantId :: string
  pm_destinationUrl :: string
  pm_transformHookName :: string
  pm_hookType :: "string option"

record ProxyForwardRequest =
  fw_destinationUrl :: string
  fw_method :: string
  fw_headers :: "(string \<times> string) list"
  fw_body :: jsval

record WebhookProxyResult =
  wr_tenantId :: string
  wr_destinationUrl :: string
  wr_transformed :: bool
  wr_skipped :: bool
  wr_forwardResponse :: jsval

datatype proxy_error = ProxyContractError HookErrorCode | ProxyOther jsval

type_synonym mapping_store = "(string \<times> ProxyMapping) list"

section \<open>The mapping store\<close>

definition parseDestinationUrl :: "url_parser \<Rightarrow> string \<Rightarrow> (proxy_error, URL) outcome" where
  "parseDestinationUrl parseURL destinationUrl =
     (case parseURL destinationUrl of None \<Rightarrow> Inl (ProxyContractError input_invalid) | Some u \<Rightarrow> Inr u)"

definition normalizeAllowedOrigin :: "url_parser \<Rightarrow> string \<Rightarrow> (proxy_error, string) outcome" where
  "normalizeAllowedOrigin parseURL origin = bindE (parseDestinationUrl parseURL origin) (\<lambda>u. Inr (url_origin u))"

definition validateProxyMapping ::
  "url_parser \<Rightarrow> ProxyMapping \<Rightarrow> string list \<Rightarrow> (proxy_error, unit) outcome" where
  "validateProxyMapping parseURL m allowedDestinationOrigins =
     (if \<not> startsWith (pm_inboundPath m) ''/'' \<or> pm_transformHookName m \<noteq> ''webhook.outbound'' \<or>
         (pm_hookType m \<noteq> None \<and> pm_hookType m \<noteq> Some ''transform'')
      then Inl (ProxyContractError input_invalid)
      else bindE (parseDestinationUrl parseURL (pm_destinationUrl m)) (\<lambda>destination.
        if \<not> isPublicHttpUrl destination then Inl (ProxyContractError input_invalid)
        else if url_origin destination \<notin> set allowedDestinationOrigins
        then Inl (ProxyContractError input_invalid)
        else Inr ()))"

text \<open>\<open>createInMemoryProxyMappingStore\<close>: the allowed origins are normalised once, at creation.\<close>

definition createInMemoryProxyMappingStore ::
  "url_parser \<Rightarrow> string list \<Rightarrow> (proxy_error, string list \<times> mapping_store) outcome" where
  "createInMemoryProxyMappingStore parseURL allowedDestinationOrigins =
     bindE (mapE (normalizeAllowedOrigin parseURL) allowedDestinationOrigins) (\<lambda>origins. Inr (origins, []))"

definition upsertProxyMapping ::
  "url_parser \<Rightarrow> string list \<Rightarrow> ProxyMapping \<Rightarrow> (mapping_store, proxy_error, ProxyMapping) step" where
  "upsertProxyMapping parseURL allowedOrigins m s =
     (case validateProxyMapping parseURL m allowedOrigins of
        Inl e \<Rightarrow> (Inl e, s)
      | Inr _ \<Rightarrow> (Inr m, obj_set s (pm_inboundPath m) m))"

definition findProxyMappingByPath :: "mapping_store \<Rightarrow> string \<Rightarrow> ProxyMapping option" where
  "findProxyMappingByPath s path = map_of s path"

definition deleteProxyMapping :: "string \<Rightarrow> mapping_store \<Rightarrow> bool \<times> mapping_store" where
  "deleteProxyMapping inboundPath s =
     (map_of s inboundPath \<noteq> None, filter (\<lambda>e. fst e \<noteq> inboundPath) s)"

definition listProxyMappings :: "mapping_store \<Rightarrow> ProxyMapping list" where
  "listProxyMappings s = List.map snd s"

section \<open>The webhook proxy\<close>

record 'w proxy_world =
  pw_world :: 'w
  pw_forwarded :: "ProxyForwardRequest list"

definition in_world :: "('w, 'e, 'a) step \<Rightarrow> ('w proxy_world, 'e, 'a) step" where
  "in_world m s = (case m (pw_world s) of (r, w) \<Rightarrow> (r, s\<lparr>pw_world := w\<rparr>))"

definition forwardRequest ::
  "(ProxyForwardRequest \<Rightarrow> ('w, proxy_error, jsval) step) \<Rightarrow> ProxyForwardRequest \<Rightarrow>
   ('w proxy_world, proxy_error, jsval) step" where
  "forwardRequest fw req s = in_world (fw req) (s\<lparr>pw_forwarded := pw_forwarded s @ [req]\<rparr>)"

definition proxyErrorOf :: "thrown \<Rightarrow> proxy_error" where
  "proxyErrorOf e =
     (case e of HookContractError c \<Rightarrow> ProxyContractError c
      | OtherThrown _ \<Rightarrow> ProxyContractError plugin_result_invalid)"

definition mapErr :: "('e \<Rightarrow> 'f) \<Rightarrow> ('s, 'e, 'a) step \<Rightarrow> ('s, 'f, 'a) step" where
  "mapErr f m s = (case m s of (Inl e, t) \<Rightarrow> (Inl (f e), t) | (Inr a, t) \<Rightarrow> (Inr a, t))"

text \<open>The \<open>try\<close> block: plan the hook, run the chain, translate what is thrown.\<close>

definition transformBody ::
  "ProxyMapping \<Rightarrow> Installation list \<Rightarrow> (ExecutionStep \<Rightarrow> jsval \<Rightarrow> ('w, thrown, jsval) step) \<Rightarrow> jsval \<Rightarrow>
   ('w, proxy_error, jsval \<times> bool) step" where
  "transformBody m installations executeTransform body =
     mapErr proxyErrorOf
       (bindS (liftS (planExecution (pm_transformHookName m)
                (case pm_hookType m of None \<Rightarrow> ''transform'' | Some t \<Rightarrow> t) None installations)) (\<lambda>plan.
        bindS (runTransformChain plan body executeTransform) (\<lambda>body'.
        returnS (body', 0 < length (pl_steps plan)))))"

definition handleWebhookProxy ::
  "('w \<Rightarrow> string \<Rightarrow> ProxyMapping option) \<Rightarrow> (string \<Rightarrow> string \<Rightarrow> ('w, proxy_error, Installation list) step) \<Rightarrow>
   (ExecutionStep \<Rightarrow> jsval \<Rightarrow> ('w, thrown, jsval) step) \<Rightarrow>
   (ProxyForwardRequest \<Rightarrow> ('w, proxy_error, jsval) step) \<Rightarrow> ProxyWebhookRequest \<Rightarrow>
   ('w proxy_world, proxy_error, WebhookProxyResult) step" where
  "handleWebhookProxy findMapping resolveInstallations executeTransform fw request s =
     (case findMapping (pw_world s) (rq_path request) of
        None \<Rightarrow> (Inl (ProxyContractError input_invalid), s)
      | Some m \<Rightarrow>
          if pm_hookType m \<noteq> None \<and> pm_hookType m \<noteq> Some ''transform''
          then (Inl (ProxyContractError input_invalid), s)
          else if pm_transformHookName m \<noteq> ''webhook.outbound''
          then (Inl (ProxyContractError input_invalid), s)
          else
            bindS (in_world (resolveInstallations (pm_tenantId m) (pm_transformHookName m))) (\<lambda>installations.
            bindS (in_world (transformBody m installations executeTransform (rq_body request))) (\<lambda>(body, transformed).
            bindS (forwardRequest fw \<lparr>fw_destinationUrl = pm_destinationUrl m, fw_method = rq_method request,
                     fw_headers = rq_headers request, fw_body = body\<rparr>) (\<lambda>response.
            returnS \<lparr>wr_tenantId = pm_tenantId m, wr_destinationUrl = pm_destinationUrl m,
                     wr_transformed = transformed, wr_skipped = False, wr_forwardResponse = response\<rparr>))) s)"

section \<open>What may be forwarded\<close>

lemma validateProxyMapping_Inr:
  "validateProxyMapping parseURL m allowed = Inr () \<longleftrightarrow>
     startsWith (pm_inboundPath m) ''/'' \<and> pm_transformHookName m = ''webhook.outbound'' \<and>
     (pm_hookType m = None \<or> pm_hookType m = Some ''transform'') \<and>
     (\<exists>u. parseURL (pm_destinationUrl m) = Some u \<and> isPublicHttpUrl u \<and> url_origin u \<in> set allowed)"
  by (auto simp: validateProxyMapping_def parseDestinationUrl_def split: option.splits if_splits)

lemma transform_plan:
  assumes "planExecution hookName ''transform'' None installations = Inr plan"
  shows "pl_hookType plan = ''transform'' \<and> pl_failurePolicy plan = ''fail-closed'' \<and>
    length (pl_steps plan) = 1"
  using assms default_policy_tag_tag [of Transform]
  by (auto simp: planExecution_def bindE_Inr checkHookConfiguration_Inr Let_def split: if_splits)

lemma single_step_chain:
  assumes "pl_hookType plan = ''transform''" "pl_failurePolicy plan = ''fail-closed''" "pl_steps plan = [st]"
  shows "runTransformChain plan body execute w = (Inr out, w') \<longleftrightarrow>
    (\<exists>result. execute st body w = (Inr result, w') \<and> isCanonicalTransformResult result \<and>
       out = transformOutput result)"
  using assms by (auto simp: runTransformChain_def split: prod.splits sum.splits thrown.splits)

lemma transformBody_Inr:
  assumes "pm_transformHookName m = ''webhook.outbound''"
    and "pm_hookType m = None \<or> pm_hookType m = Some ''transform''"
    and "transformBody m installations execute body w = (Inr (out, flag), w')"
  shows "flag \<and> (\<exists>i result. filter (subscribed ''webhook.outbound'') installations = [i] \<and>
      execute (executionStep i) body w = (Inr result, w') \<and> isCanonicalTransformResult result \<and>
      out = transformOutput result)"
proof -
  have ty: "(case pm_hookType m of None \<Rightarrow> ''transform'' | Some t \<Rightarrow> t) = ''transform''"
    using assms(2) by auto
  obtain plan where plan: "planExecution ''webhook.outbound'' ''transform'' None installations = Inr plan"
    and run: "runTransformChain plan body execute w = (Inr out, w')" and flag: "flag = (0 < length (pl_steps plan))"
    using assms(3) unfolding transformBody_def mapErr_def ty assms(1)
    by (auto simp: bindS_Inr split: prod.splits sum.splits)
  have steps: "mset (pl_steps plan) = image_mset executionStep
      (filter_mset (subscribed ''webhook.outbound'') (mset installations))"
    using planExecution_correct [OF plan] by blast
  have "length (pl_steps plan) = 1" using transform_plan [OF plan] by blast
  moreover have "length (pl_steps plan) = length (filter (subscribed ''webhook.outbound'') installations)"
    using arg_cong [OF steps, of size] by (simp flip: mset_filter)
  ultimately obtain i where i: "filter (subscribed ''webhook.outbound'') installations = [i]"
    by (auto simp: length_Suc_conv)
  have "mset (pl_steps plan) = {#executionStep i#}"
    using steps i by (simp flip: mset_filter)
  then have "pl_steps plan = [executionStep i]" by simp
  then show ?thesis
    using run flag transform_plan [OF plan] i single_step_chain [of plan "executionStep i" body execute w out w']
    by auto
qed

text \<open>A request is forwarded after one plugin step returned a canonical result, or not at all.\<close>

definition forwards ::
  "('w \<Rightarrow> string \<Rightarrow> ProxyMapping option) \<Rightarrow> (string \<Rightarrow> string \<Rightarrow> ('w, proxy_error, Installation list) step) \<Rightarrow>
   (ExecutionStep \<Rightarrow> jsval \<Rightarrow> ('w, thrown, jsval) step) \<Rightarrow> ProxyWebhookRequest \<Rightarrow> 'w \<Rightarrow>
   ProxyForwardRequest \<Rightarrow> bool" where
  "forwards findMapping resolve execute request w req \<longleftrightarrow>
     (\<exists>m insts w1 i result w2.
        findMapping w (rq_path request) = Some m \<and>
        resolve (pm_tenantId m) ''webhook.outbound'' w = (Inr insts, w1) \<and>
        filter (subscribed ''webhook.outbound'') insts = [i] \<and>
        execute (executionStep i) (rq_body request) w1 = (Inr result, w2) \<and>
        isCanonicalTransformResult result \<and>
        req = \<lparr>fw_destinationUrl = pm_destinationUrl m, fw_method = rq_method request,
               fw_headers = rq_headers request, fw_body = transformOutput result\<rparr>)"

lemma bind_in_world:
  assumes "bindS (in_world a) f s = (r, t)"
  shows "(\<exists>e. r = Inl e \<and> pw_forwarded t = pw_forwarded s) \<or>
    (\<exists>x w. a (pw_world s) = (Inr x, w) \<and> f x (s\<lparr>pw_world := w\<rparr>) = (r, t))"
  using assms by (auto simp: bindS_def in_world_def split: prod.splits sum.splits)

lemma forward_last:
  assumes "bindS (forwardRequest fw req) (\<lambda>response. returnS (f response)) s = (r, t)"
  shows "pw_forwarded t = pw_forwarded s @ [req]"
  using assms by (auto simp: bindS_def forwardRequest_def in_world_def split: prod.splits sum.splits)

lemma handleWebhookProxy_forwards:
  assumes "handleWebhookProxy findMapping resolve execute fw request s = (r, t)"
  shows "(\<exists>e. r = Inl e \<and> pw_forwarded t = pw_forwarded s) \<or>
    (\<exists>req. pw_forwarded t = pw_forwarded s @ [req] \<and>
       forwards findMapping resolve execute request (pw_world s) req)"
proof (cases "\<exists>m. findMapping (pw_world s) (rq_path request) = Some m \<and>
    pm_transformHookName m = ''webhook.outbound'' \<and>
    (pm_hookType m = None \<or> pm_hookType m = Some ''transform'')")
  case False
  then show ?thesis
    using assms by (auto simp: handleWebhookProxy_def split: option.splits if_splits)
next
  case True
  then obtain m where m: "findMapping (pw_world s) (rq_path request) = Some m"
    and name: "pm_transformHookName m = ''webhook.outbound''"
    and ty: "pm_hookType m = None \<or> pm_hookType m = Some ''transform''" by blast
  define last where "last = (\<lambda>(body, transformed).
      bindS (forwardRequest fw \<lparr>fw_destinationUrl = pm_destinationUrl m, fw_method = rq_method request,
               fw_headers = rq_headers request, fw_body = body\<rparr>) (\<lambda>response.
      returnS \<lparr>wr_tenantId = pm_tenantId m, wr_destinationUrl = pm_destinationUrl m,
               wr_transformed = transformed, wr_skipped = False, wr_forwardResponse = response\<rparr>))"
  have "bindS (in_world (resolve (pm_tenantId m) ''webhook.outbound'')) (\<lambda>installations.
      bindS (in_world (transformBody m installations execute (rq_body request))) last) s = (r, t)"
    using assms m name ty by (auto simp: handleWebhookProxy_def last_def)
  then consider "\<exists>e. r = Inl e \<and> pw_forwarded t = pw_forwarded s"
    | insts w1 where "resolve (pm_tenantId m) ''webhook.outbound'' (pw_world s) = (Inr insts, w1)"
      "bindS (in_world (transformBody m insts execute (rq_body request))) last (s\<lparr>pw_world := w1\<rparr>) = (r, t)"
    using bind_in_world by blast
  then show ?thesis
  proof cases
    case 2
    then consider "\<exists>e. r = Inl e \<and> pw_forwarded t = pw_forwarded s"
      | body flag w2 where "transformBody m insts execute (rq_body request) w1 = (Inr (body, flag), w2)"
        "last (body, flag) (s\<lparr>pw_world := w2\<rparr>) = (r, t)"
      using bind_in_world [OF 2(2)] by fastforce
    then show ?thesis
    proof cases
      case B: 2
      have "pw_forwarded t = pw_forwarded s @ [\<lparr>fw_destinationUrl = pm_destinationUrl m,
          fw_method = rq_method request, fw_headers = rq_headers request, fw_body = body\<rparr>]"
        using forward_last [OF B(2) [unfolded last_def prod.case]] by simp
      moreover have "forwards findMapping resolve execute request (pw_world s)
          \<lparr>fw_destinationUrl = pm_destinationUrl m, fw_method = rq_method request,
           fw_headers = rq_headers request, fw_body = body\<rparr>"
        using transformBody_Inr [OF name ty B(1)] m 2(1) unfolding forwards_def by auto
      ultimately show ?thesis by blast
    qed blast
  qed blast
qed

section \<open>The store interface\<close>

text \<open>
  What the proxy relies on: every mapping it can find was validated, and the administrative
  operations keep it so. The laws are those of a map with validated values.
\<close>

locale proxy_mapping_store =
  fixes find :: "'s \<Rightarrow> string \<Rightarrow> ProxyMapping option"
    and upsert :: "ProxyMapping \<Rightarrow> 's \<Rightarrow> (proxy_error, ProxyMapping) outcome \<times> 's"
    and delete :: "string \<Rightarrow> 's \<Rightarrow> bool \<times> 's"
    and valid :: "ProxyMapping \<Rightarrow> bool"
    and inv :: "'s \<Rightarrow> bool"
  assumes find_valid: "inv s \<Longrightarrow> find s p = Some m \<Longrightarrow> valid m \<and> pm_inboundPath m = p"
    and upsert_ok: "inv s \<Longrightarrow> valid m \<Longrightarrow>
      \<exists>s'. upsert m s = (Inr m, s') \<and> inv s' \<and> find s' = (find s)(pm_inboundPath m \<mapsto> m)"
    and upsert_rejects: "\<not> valid m \<Longrightarrow> \<exists>e. upsert m s = (Inl e, s)"
    and delete_law: "inv s \<Longrightarrow>
      \<exists>s'. delete p s = (find s p \<noteq> None, s') \<and> inv s' \<and> find s' = (find s)(p := None)"

datatype admin_op = UpsertMapping ProxyMapping | DeleteMapping string

fun runAdmin ::
  "(ProxyMapping \<Rightarrow> 's \<Rightarrow> (proxy_error, ProxyMapping) outcome \<times> 's) \<Rightarrow> (string \<Rightarrow> 's \<Rightarrow> bool \<times> 's) \<Rightarrow>
   admin_op list \<Rightarrow> 's \<Rightarrow> 's" where
  "runAdmin upsert delete [] s = s"
| "runAdmin upsert delete (UpsertMapping m # ops) s = runAdmin upsert delete ops (snd (upsert m s))"
| "runAdmin upsert delete (DeleteMapping p # ops) s = runAdmin upsert delete ops (snd (delete p s))"

text \<open>The specification of the same run on an abstract map.\<close>

fun adminSpec ::
  "(ProxyMapping \<Rightarrow> bool) \<Rightarrow> admin_op list \<Rightarrow> (string \<Rightarrow> ProxyMapping option) \<Rightarrow>
   (string \<Rightarrow> ProxyMapping option)" where
  "adminSpec valid [] f = f"
| "adminSpec valid (UpsertMapping m # ops) f =
     adminSpec valid ops (if valid m then f(pm_inboundPath m \<mapsto> m) else f)"
| "adminSpec valid (DeleteMapping p # ops) f = adminSpec valid ops (f(p := None))"

context proxy_mapping_store
begin

lemma upsert_inv: "inv s \<Longrightarrow> inv (snd (upsert m s))"
  using upsert_ok [of s m] upsert_rejects [of m s] by (cases "valid m") auto

lemma upsert_find:
  "inv s \<Longrightarrow> find (snd (upsert m s)) = (if valid m then (find s)(pm_inboundPath m \<mapsto> m) else find s)"
  using upsert_ok [of s m] upsert_rejects [of m s] by (cases "valid m") auto

lemma delete_find: "inv s \<Longrightarrow> inv (snd (delete p s)) \<and> find (snd (delete p s)) = (find s)(p := None)"
  using delete_law [of s p] by auto

lemma runAdmin_refines:
  "inv s \<Longrightarrow> inv (runAdmin upsert delete ops s) \<and>
     find (runAdmin upsert delete ops s) = adminSpec valid ops (find s)"
proof (induction ops arbitrary: s)
  case (Cons op ops)
  show ?case
  proof (cases op)
    case (UpsertMapping m)
    then show ?thesis
      using Cons.IH [OF upsert_inv [OF Cons.prems, of m]] upsert_find [OF Cons.prems, of m] by simp
  next
    case (DeleteMapping p)
    note d = delete_find [OF Cons.prems, of p]
    show ?thesis
      using Cons.IH [OF conjunct1 [OF d]]
      by (simp only: DeleteMapping runAdmin.simps adminSpec.simps conjunct2 [OF d])
  qed
qed simp

lemma found_valid:
  "inv s \<Longrightarrow> find (runAdmin upsert delete ops s) p = Some m \<Longrightarrow> valid m"
  using runAdmin_refines find_valid by blast

end

definition mappingAllowed :: "url_parser \<Rightarrow> string list \<Rightarrow> ProxyMapping \<Rightarrow> bool" where
  "mappingAllowed parseURL allowed m \<longleftrightarrow> validateProxyMapping parseURL m allowed = Inr ()"

definition mapping_store_inv :: "url_parser \<Rightarrow> string list \<Rightarrow> mapping_store \<Rightarrow> bool" where
  "mapping_store_inv parseURL allowed s \<longleftrightarrow>
     (\<forall>p m. map_of s p = Some m \<longrightarrow> mappingAllowed parseURL allowed m \<and> pm_inboundPath m = p)"

interpretation in_memory: proxy_mapping_store findProxyMappingByPath "upsertProxyMapping parseURL allowed"
  deleteProxyMapping "mappingAllowed parseURL allowed" "mapping_store_inv parseURL allowed"
  for parseURL allowed
proof
  fix s p m
  assume "mapping_store_inv parseURL allowed s" "findProxyMappingByPath s p = Some m"
  then show "mappingAllowed parseURL allowed m \<and> pm_inboundPath m = p"
    by (simp add: mapping_store_inv_def findProxyMappingByPath_def)
next
  fix s m
  assume "mapping_store_inv parseURL allowed s" "mappingAllowed parseURL allowed m"
  then show "\<exists>s'. upsertProxyMapping parseURL allowed m s = (Inr m, s') \<and>
      mapping_store_inv parseURL allowed s' \<and>
      findProxyMappingByPath s' = (findProxyMappingByPath s)(pm_inboundPath m \<mapsto> m)"
    by (auto simp: upsertProxyMapping_def mapping_store_inv_def mappingAllowed_def
        findProxyMappingByPath_def fun_eq_iff)
next
  fix m and s :: mapping_store
  assume "\<not> mappingAllowed parseURL allowed m"
  then show "\<exists>e. upsertProxyMapping parseURL allowed m s = (Inl e, s)"
    by (auto simp: upsertProxyMapping_def mappingAllowed_def split: sum.split)
next
  fix s p
  assume inv: "mapping_store_inv parseURL allowed s"
  have del: "map_of (filter (\<lambda>e. fst e \<noteq> p) s) = (map_of s)(p := None)"
    by (induction s) auto
  show "\<exists>s'. deleteProxyMapping p s = (findProxyMappingByPath s p \<noteq> None, s') \<and>
      mapping_store_inv parseURL allowed s' \<and>
      findProxyMappingByPath s' = (findProxyMappingByPath s)(p := None)"
    using inv by (auto simp: deleteProxyMapping_def mapping_store_inv_def findProxyMappingByPath_def del fun_eq_iff
        split: if_splits)
qed

section \<open>Properties\<close>

text \<open>
  C9: the proxy forwards only what a plugin transformed. A call forwards at most one request; when
  it does, exactly one enabled installation of the mapped tenant was subscribed to
  \<open>webhook.outbound\<close>, its canonical result is the forwarded body, and the destination is the mapped
  one; when nothing is forwarded the call has failed.
\<close>

theorem handleWebhookProxy_forwards_transformed:
  assumes "handleWebhookProxy findMapping resolve execute fw request s = (r, t)"
  shows "(\<exists>e. r = Inl e \<and> pw_forwarded t = pw_forwarded s) \<or>
    (\<exists>req. pw_forwarded t = pw_forwarded s @ [req] \<and>
       forwards findMapping resolve execute request (pw_world s) req)"
  by (rule handleWebhookProxy_forwards [OF assms])

definition example_mapping :: ProxyMapping where
  "example_mapping = \<lparr>pm_inboundPath = ''/hook'', pm_tenantId = ''t'', pm_destinationUrl = ''https://a.example'',
     pm_transformHookName = ''webhook.outbound'', pm_hookType = None\<rparr>"

definition example_request :: ProxyWebhookRequest where
  "example_request = \<lparr>rq_path = ''/hook'', rq_method = ''POST'', rq_headers = [], rq_body = JStr ''in''\<rparr>"

definition example_outbound :: Installation where
  "example_outbound = \<lparr>in_id = ''i'', in_tenantId = ''t'', in_pluginId = ''p'', in_enabled = True,
     in_priority = 0, in_hooks = [''webhook.outbound''], in_hookSchemaRanges = []\<rparr>"

definition example_result :: jsval where
  "example_result = JObj PlainObj [(''status'', JStr ''transformed''), (''output'', JStr ''out'')]"

definition example_proxy_run :: "(proxy_error, WebhookProxyResult) outcome \<times> unit proxy_world" where
  "example_proxy_run =
     handleWebhookProxy (\<lambda>_ p. if p = ''/hook'' then Some example_mapping else None)
       (\<lambda>_ _ w. (Inr [example_outbound], w)) (\<lambda>_ _ w. (Inr example_result, w))
       (\<lambda>_ w. (Inr (JNum (NInt 200)), w)) example_request \<lparr>pw_world = (), pw_forwarded = []\<rparr>"

theorem handleWebhookProxy_forwards_transformed_witness:
  "\<exists>req. pw_forwarded (snd example_proxy_run) = [req] \<and> fw_body req = JStr ''out'' \<and>
     forwards (\<lambda>_ p. if p = ''/hook'' then Some example_mapping else None)
       (\<lambda>_ _ w. (Inr [example_outbound], w)) (\<lambda>_ _ w. (Inr example_result, w)) example_request () req"
proof -
  have run: "List.map fw_body (pw_forwarded (snd example_proxy_run)) = [JStr ''out'']"
    by code_simp
  obtain r t where e: "example_proxy_run = (r, t)" by fastforce
  have "List.map fw_body (pw_forwarded t) = [JStr ''out'']" using run unfolding e snd_conv .
  with handleWebhookProxy_forwards_transformed [OF e [unfolded example_proxy_run_def]]
  show ?thesis by (auto simp: e)
qed

text \<open>
  The mapping store refines a map. After any sequence of administrative operations on a new
  store, lookups answer as the map that accepted exactly the valid upserts, and every mapping found
  is valid for its path: a public HTTP destination whose origin is on the allowed list, for the
  outbound transform hook.
\<close>

theorem mapping_store_refines:
  assumes "createInMemoryProxyMappingStore parseURL origins = Inr (allowed, st0)"
  shows "findProxyMappingByPath
      (runAdmin (upsertProxyMapping parseURL allowed) deleteProxyMapping ops st0) =
        adminSpec (mappingAllowed parseURL allowed) ops Map.empty \<and>
    (\<forall>p m. findProxyMappingByPath
        (runAdmin (upsertProxyMapping parseURL allowed) deleteProxyMapping ops st0) p = Some m \<longrightarrow>
      pm_inboundPath m = p \<and> startsWith p ''/'' \<and> pm_transformHookName m = ''webhook.outbound'' \<and>
      (\<exists>u. parseURL (pm_destinationUrl m) = Some u \<and> isPublicHttpUrl u \<and>
         (\<exists>o' v. o' \<in> set origins \<and> parseURL o' = Some v \<and> url_origin u = url_origin v)))"
proof -
  have st0: "st0 = []"
    and allowed: "\<And>org. org \<in> set allowed \<Longrightarrow> \<exists>o' v. o' \<in> set origins \<and> parseURL o' = Some v \<and> org = url_origin v"
    using assms by (auto simp: createInMemoryProxyMappingStore_def bindE_Inr mapE_Inr normalizeAllowedOrigin_def
        parseDestinationUrl_def split: option.splits dest!: list_all2_in_set2)
  have inv: "mapping_store_inv parseURL allowed st0" by (simp add: st0 mapping_store_inv_def)
  have empty: "findProxyMappingByPath st0 = Map.empty"
    by (simp add: st0 findProxyMappingByPath_def fun_eq_iff)
  note ref = in_memory.runAdmin_refines [OF inv, of ops]
  show ?thesis
  proof (intro conjI allI impI)
    show "findProxyMappingByPath (runAdmin (upsertProxyMapping parseURL allowed) deleteProxyMapping ops st0) =
        adminSpec (mappingAllowed parseURL allowed) ops Map.empty"
      using ref by (simp add: empty)
  next
    fix p m
    assume "findProxyMappingByPath
      (runAdmin (upsertProxyMapping parseURL allowed) deleteProxyMapping ops st0) p = Some m"
    then have "mappingAllowed parseURL allowed m \<and> pm_inboundPath m = p"
      using in_memory.find_valid ref by blast
    moreover from this have "\<exists>u. parseURL (pm_destinationUrl m) = Some u \<and> isPublicHttpUrl u \<and>
        url_origin u \<in> set allowed"
      by (simp add: mappingAllowed_def validateProxyMapping_Inr)
    ultimately show "pm_inboundPath m = p" "startsWith p ''/''" "pm_transformHookName m = ''webhook.outbound''"
      "\<exists>u. parseURL (pm_destinationUrl m) = Some u \<and> isPublicHttpUrl u \<and>
         (\<exists>o' v. o' \<in> set origins \<and> parseURL o' = Some v \<and> url_origin u = url_origin v)"
      using allowed by (auto simp: mappingAllowed_def validateProxyMapping_Inr)
  qed
qed

definition example_parse :: url_parser where
  "example_parse s = (if s = ''https://a.example'' then Some (url_of_host ''a.example'') else None)"

theorem mapping_store_refines_witness:
  "findProxyMappingByPath
     (runAdmin (upsertProxyMapping example_parse [''https://a.example'']) deleteProxyMapping
        [UpsertMapping example_mapping, UpsertMapping (example_mapping\<lparr>pm_inboundPath := ''nope''\<rparr>)] []) =
   adminSpec (mappingAllowed example_parse [''https://a.example''])
     [UpsertMapping example_mapping, UpsertMapping (example_mapping\<lparr>pm_inboundPath := ''nope''\<rparr>)] Map.empty"
proof -
  have "createInMemoryProxyMappingStore example_parse [''https://a.example''] = Inr ([''https://a.example''], [])"
    by code_simp
  from mapping_store_refines [OF this] show ?thesis by blast
qed

end
