(* ===== verification/PluginSdk.thy ===== *)
theory PluginSdk
  imports HostSdk
begin

text \<open>
  \<open>packages/plugin-sdk/src/index.ts\<close>: the dispatcher a plugin artifact exposes. It selects the
  declared hook, calls the plugin's own handler and lets only a canonical result of the declared
  hook type out. The manifest's hook types are unknown values, as a mutated manifest can hold.
\<close>

datatype PluginDispatchError = plugin_artifact_invalid_error | plugin_result_invalid_error

type_synonym dispatch_result = "(PluginDispatchError, jsval) outcome"

text \<open>An own property of the handlers object: a function, or any other value.\<close>

datatype ('s, 'e) handler_slot = HandlerFn "jsval \<Rightarrow> ('s, 'e, jsval) step" | NotFunction jsval

definition plainPrototype :: "obj_kind \<Rightarrow> bool" where
  "plainPrototype kind \<longleftrightarrow> kind \<in> {PlainObj, NullProto}"

definition isRecordWithKeys :: "jsval \<Rightarrow> string list \<Rightarrow> bool" where
  "isRecordWithKeys v keys =
     (case v of
        JObj kind fs \<Rightarrow>
          plainPrototype kind \<and> length (List.map fst fs) = length keys \<and>
          list_all (\<lambda>k. k \<in> set (List.map fst fs)) keys
      | _ \<Rightarrow> False)"

definition isEventResult :: "jsval \<Rightarrow> bool" where
  "isEventResult v \<longleftrightarrow> isRecordWithKeys v [''status''] \<and> js_get v ''status'' = JStr ''accepted''"

definition isTransformResult :: "jsval \<Rightarrow> bool" where
  "isTransformResult v \<longleftrightarrow>
     isRecordWithKeys v [''status'', ''output''] \<and> js_get v ''status'' = JStr ''transformed'' \<and>
     js_get v ''output'' \<noteq> JUndef"

definition reasonCodePattern :: "string \<Rightarrow> bool" where
  "reasonCodePattern s \<longleftrightarrow>
     s \<noteq> [] \<and> is_lower (hd s) \<and> length s \<le> 64 \<and>
     list_all (\<lambda>c. is_lower c \<or> is_digit c \<or> c \<in> set ''._-'') (tl s)"

definition isPolicyResult :: "jsval \<Rightarrow> bool" where
  "isPolicyResult v \<longleftrightarrow>
     isRecordWithKeys v [''decision'', ''reasonCode''] \<and>
     (js_get v ''decision'' = JStr ''allow'' \<or> js_get v ''decision'' = JStr ''deny'') \<and>
     (case js_get v ''reasonCode'' of JStr s \<Rightarrow> reasonCodePattern s | _ \<Rightarrow> False)"

definition validateHookReturn :: "jsval \<Rightarrow> jsval \<Rightarrow> dispatch_result" where
  "validateHookReturn ty v =
     (if ty = JStr ''event'' then (if isEventResult v then Inr v else Inl plugin_result_invalid_error)
      else if ty = JStr ''transform'' then
        (if isTransformResult v then Inr v else Inl plugin_result_invalid_error)
      else if ty \<noteq> JStr ''policy'' then Inl plugin_result_invalid_error
      else if isPolicyResult v then Inr v else Inl plugin_result_invalid_error)"

definition dispatchPlugin ::
  "(string \<times> jsval) list \<Rightarrow> (string \<times> ('s, 'e) handler_slot) list \<Rightarrow> string \<Rightarrow> jsval \<Rightarrow>
   's \<Rightarrow> dispatch_result \<times> 's" where
  "dispatchPlugin hooks handlers hookName payload s =
     (case List.find (\<lambda>h. fst h = hookName) hooks of
        None \<Rightarrow> (Inl plugin_artifact_invalid_error, s)
      | Some (_, hookType) \<Rightarrow>
          if \<not> isHookType hookType then (Inl plugin_artifact_invalid_error, s)
          else (case map_of handlers hookName of
             Some (HandlerFn handler) \<Rightarrow>
               (case handler payload s of
                  (Inl _, s') \<Rightarrow> (Inl plugin_result_invalid_error, s')
                | (Inr v, s') \<Rightarrow> (validateHookReturn hookType v, s'))
           | _ \<Rightarrow> (Inl plugin_artifact_invalid_error, s)))"

section \<open>The plugin's checks and the host's\<close>

lemma js_get_own:
  "plainPrototype kind \<Longrightarrow> map_of fs k = Some v \<Longrightarrow> js_get (JObj kind fs) k = v"
  by (cases kind) (auto simp: plainPrototype_def record_get_def)

lemma transformResult_iff_canonical: "isTransformResult v = isCanonicalTransformResult v"
proof (cases v)
  case (JObj kind fs)
  show ?thesis
  proof (cases "plainPrototype kind \<and> length fs = 2 \<and> ''status'' \<in> fst ` set fs \<and> ''output'' \<in> fst ` set fs")
    case True
    then obtain x y where "map_of fs ''status'' = Some x" "map_of fs ''output'' = Some y"
      by (metis map_of_eq_None_iff not_None_eq)
    then show ?thesis
      using True JObj js_get_own [of kind fs]
      by (auto simp: isTransformResult_def isCanonicalTransformResult_def isRecordWithKeys_def
          plainPrototype_def Let_def)
  next
    case False
    then show ?thesis
      using JObj
      by (auto simp: isTransformResult_def isCanonicalTransformResult_def isRecordWithKeys_def
          plainPrototype_def Let_def)
  qed
qed (simp_all add: isTransformResult_def isCanonicalTransformResult_def isRecordWithKeys_def)

fun canonicalFor :: "HookType \<Rightarrow> jsval \<Rightarrow> bool" where
  "canonicalFor Event v = isEventResult v"
| "canonicalFor Transform v = isTransformResult v"
| "canonicalFor Policy v = isPolicyResult v"

lemma validateHookReturn_tag:
  "validateHookReturn (JStr (hook_type_tag t)) v =
     (if canonicalFor t v then Inr v else Inl plugin_result_invalid_error)"
  by (cases t) (simp_all add: validateHookReturn_def)

lemma isHookType_tag: "isHookType ty \<longleftrightarrow> (\<exists>t. ty = JStr (hook_type_tag t))"
  by (auto simp: isHookType_def parse_hook_type_Some split: jsval.splits)

section \<open>Properties\<close>

text \<open>
  Dispatch lets out only canonical results. A successful dispatch ran the plugin's own handler
  for a declared hook of a known type, and its value is what the handler returned, canonical for
  that type.
\<close>

theorem dispatchPlugin_canonical:
  assumes "dispatchPlugin hooks handlers hookName payload s = (Inr v, s')"
  shows "\<exists>t handler. (hookName, JStr (hook_type_tag t)) \<in> set hooks \<and>
    map_of handlers hookName = Some (HandlerFn handler) \<and> handler payload s = (Inr v, s') \<and>
    canonicalFor t v"
proof -
  obtain ty where f: "List.find (\<lambda>h. fst h = hookName) hooks = Some (hookName, ty)"
    and ty: "isHookType ty"
    using assms by (fastforce simp: dispatchPlugin_def split: option.splits if_splits dest: find_Some_in)
  then obtain t where t: "ty = JStr (hook_type_tag t)" by (auto simp: isHookType_tag)
  have "(hookName, ty) \<in> set hooks"
    using find_Some_in [OF f] by simp
  then show ?thesis
    using assms f ty t
    by (fastforce simp: dispatchPlugin_def validateHookReturn_tag
        split: option.splits handler_slot.splits prod.splits sum.splits if_splits)
qed

theorem dispatchPlugin_canonical_witness:
  "dispatchPlugin [(''order.check'', JStr ''policy'')]
     [(''order.check'', HandlerFn (\<lambda>p s. (Inr (JObj PlainObj [(''decision'', JStr ''deny''),
         (''reasonCode'', JStr ''amount.limit'')]), s)))] ''order.check'' JNull () =
     (Inr (JObj PlainObj [(''decision'', JStr ''deny''), (''reasonCode'', JStr ''amount.limit'')]), ()) \<and>
   isPolicyResult (JObj PlainObj [(''decision'', JStr ''deny''), (''reasonCode'', JStr ''amount.limit'')])"
proof -
  have e: "dispatchPlugin [(''order.check'', JStr ''policy'')]
     [(''order.check'', HandlerFn (\<lambda>p s. (Inr (JObj PlainObj [(''decision'', JStr ''deny''),
         (''reasonCode'', JStr ''amount.limit'')]), s)))] ''order.check'' JNull () =
     (Inr (JObj PlainObj [(''decision'', JStr ''deny''), (''reasonCode'', JStr ''amount.limit'')]), ())"
    by code_simp
  obtain t where "hook_type_tag t = ''policy''"
    "canonicalFor t (JObj PlainObj [(''decision'', JStr ''deny''), (''reasonCode'', JStr ''amount.limit'')])"
    using dispatchPlugin_canonical [OF e] by auto
  then show ?thesis using e by (cases t) auto
qed

text \<open>
  What a plugin may return from a transform is what the host accepts: the plugin-side check
  and the host-side check of the chain are the same predicate.
\<close>

theorem transform_results_agree:
  "validateHookReturn (JStr ''transform'') v = Inr v \<longleftrightarrow> isCanonicalTransformResult v"
  using validateHookReturn_tag [of Transform v] by (simp add: transformResult_iff_canonical)

end
