(* ===== verification/CapInput.thy ===== *)
theory CapInput
  imports WebUrl
begin

text \<open>
  \<open>packages/capabilities/src/index.ts\<close>, the input side: what each capability accepts from a plugin
  (\<open>parse...Input\<close>), and how the values of a grant are normalised. Inputs and grants are unknown
  values; a grant that is \<open>null\<close>, or a grant entry without the string methods the code calls on it,
  raises the language's \<open>TypeError\<close>.
\<close>

datatype rotation_code =
    provider_credentials_rejected | provider_invocation_failed
  | provider_token_snapshot_invalid | provider_token_source_unavailable

datatype cap_error =
    CapabilityDeniedError string
  | CapabilityInputError string      \<comment> \<open>a subclass of \<open>CapabilityDeniedError\<close>\<close>
  | CapabilityJournalConflictError string
  | CapabilityProviderError string
  | ProviderTokenRotationError rotation_code
  | ProviderCredentialRejectedError
  | PlainError string
  | ForeignError jsval

abbreviation TypeError :: cap_error where
  "TypeError \<equiv> PlainError ''TypeError''"

fun is_denied_error :: "cap_error \<Rightarrow> bool" where
  "is_denied_error (CapabilityDeniedError _) = True"
| "is_denied_error (CapabilityInputError _) = True"
| "is_denied_error _ = False"

fun is_input_error :: "cap_error \<Rightarrow> bool" where
  "is_input_error (CapabilityInputError _) = True"
| "is_input_error _ = False"

type_synonym 'a cap = "(cap_error, 'a) outcome"

section \<open>Shared checks\<close>

definition isClosedRecord :: "jsval \<Rightarrow> string list \<Rightarrow> bool" where
  "isClosedRecord v allowedKeys \<longleftrightarrow> isRecord v \<and> list_all (\<lambda>k. k \<in> set allowedKeys) (own_keys v)"

definition hasControlCharacter :: "string \<Rightarrow> bool" where
  "hasControlCharacter s \<longleftrightarrow> list_ex is_control s"

text \<open>\<open>grant.field\<close> and \<open>value === undefined ? [] : [value].flat()\<close>\<close>

definition grantField :: "jsval \<Rightarrow> string \<Rightarrow> jsval cap" where
  "grantField grant field = (if grant = JNull \<or> grant = JUndef then Inl TypeError else Inr (js_get grant field))"

fun grantValues :: "jsval \<Rightarrow> jsval list" where
  "grantValues JUndef = []"
| "grantValues (JArr xs) = xs"
| "grantValues v = [v]"

text \<open>\<open>entry.length === 0\<close>, or the error of reading a property of \<open>null\<close> or \<open>undefined\<close>.\<close>

fun lengthIsZero :: "jsval \<Rightarrow> bool cap" where
  "lengthIsZero JUndef = Inl TypeError"
| "lengthIsZero JNull = Inl TypeError"
| "lengthIsZero (JStr s) = Inr (s = [])"
| "lengthIsZero (JArr xs) = Inr (xs = [])"
| "lengthIsZero v = Inr (js_get v ''length'' = JNum (NInt 0))"

fun asString :: "jsval \<Rightarrow> string cap" where
  "asString (JStr s) = Inr s"
| "asString _ = Inl TypeError"

fun distinct_first :: "'a list \<Rightarrow> 'a list" where
  "distinct_first [] = []"
| "distinct_first (x # xs) = x # filter (\<lambda>y. y \<noteq> x) (distinct_first xs)"

lemma set_distinct_first [simp]: "set (distinct_first xs) = set xs"
  by (induction xs) auto

lemma distinct_distinct_first [simp]: "distinct (distinct_first xs)"
  by (induction xs) auto

section \<open>Slack\<close>

definition parseSlackSendInput :: "jsval \<Rightarrow> (string \<times> string) cap" where
  "parseSlackSendInput input =
     (case (isRecord input, js_get input ''channel'', js_get input ''text'') of
        (True, JStr channel, JStr txt) \<Rightarrow> Inr (channel, txt)
      | _ \<Rightarrow> Inl (CapabilityInputError ''slack.send requires channel and text''))"

section \<open>GitHub\<close>

record GitHubIssueCreateRequest =
  gh_repository :: string
  gh_title :: string
  gh_body :: "string option"

definition githubOwnerPattern :: "string \<Rightarrow> bool" where
  "githubOwnerPattern s \<longleftrightarrow>
     s \<noteq> [] \<and> length s \<le> 39 \<and> is_alnum (hd s) \<and> is_alnum (last s) \<and>
     list_all (\<lambda>c. is_alnum c \<or> c = CHR ''-'') s"

definition githubRepositoryPattern :: "string \<Rightarrow> bool" where
  "githubRepositoryPattern s \<longleftrightarrow>
     1 \<le> length s \<and> length s \<le> 100 \<and> list_all (\<lambda>c. is_alnum c \<or> c \<in> set ''._-'') s"

definition githubRepositoryValid :: "string \<Rightarrow> bool" where
  "githubRepositoryValid v \<longleftrightarrow>
     (case split_on CHR ''/'' v of
        owner # repository # extra \<Rightarrow>
          githubOwnerPattern owner \<and> repository \<noteq> ''.'' \<and> repository \<noteq> ''..'' \<and>
          githubRepositoryPattern repository \<and> extra = []
      | _ \<Rightarrow> False)"

definition validateGitHubRepository :: "string \<Rightarrow> (string \<Rightarrow> cap_error) \<Rightarrow> unit cap" where
  "validateGitHubRepository v err = guardE (githubRepositoryValid v) (err ''github.issue.create repository is invalid'')"

definition parseGitHubIssueCreateInput :: "jsval \<Rightarrow> GitHubIssueCreateRequest cap" where
  "parseGitHubIssueCreateInput input =
     (if \<not> isClosedRecord input [''repository'', ''title'', ''body''] then
        (if isRecord input
         then Inl (CapabilityInputError ''github.issue.create contains unsupported input fields'')
         else Inl (CapabilityInputError ''github.issue.create requires repository and title''))
      else
        (case (js_get input ''repository'', js_get input ''title'') of
           (JStr repository, JStr title) \<Rightarrow>
             if title = [] then Inl (CapabilityInputError ''github.issue.create requires repository and title'')
             else bindE (validateGitHubRepository repository CapabilityInputError) (\<lambda>_.
               let tooLarge = Inl (CapabilityInputError ''github.issue.create input exceeds size limits'') in
               if 256 < length title then tooLarge
               else (case js_get input ''body'' of
                       JUndef \<Rightarrow> Inr \<lparr>gh_repository = repository, gh_title = title, gh_body = None\<rparr>
                     | JStr body \<Rightarrow>
                         if 65536 < length body then tooLarge
                         else Inr \<lparr>gh_repository = repository, gh_title = title, gh_body = Some body\<rparr>
                     | _ \<Rightarrow> tooLarge))
         | _ \<Rightarrow> Inl (CapabilityInputError ''github.issue.create requires repository and title'')))"

definition normalizeGitHubRepositoryGrant :: "jsval \<Rightarrow> string list cap" where
  "normalizeGitHubRepositoryGrant v =
     (let repositories = grantValues v in
      if repositories = [] \<or> \<not> distinct repositories
      then Inl (CapabilityDeniedError ''github.issue.create has an invalid repository grant'')
      else mapE (\<lambda>r. bindE (asString r) (\<lambda>s.
             bindE (validateGitHubRepository s CapabilityDeniedError) (\<lambda>_. Inr s))) repositories)"

definition normalizeGitHubIssueCreateResult :: "jsval \<Rightarrow> string \<Rightarrow> jsval cap" where
  "normalizeGitHubIssueCreateResult v repository =
     (let invalid = Inl (PlainError ''invalid GitHub issue result'') in
      if \<not> isClosedRecord v [''number'', ''url''] then invalid
      else (case (js_get v ''number'', js_get v ''url'') of
              (JNum (NInt n), JStr url) \<Rightarrow>
                if is_safe_integer n \<and> 0 < n \<and>
                   url = ''https://github.com/'' @ repository @ ''/issues/'' @ show_int n
                then Inr (JObj PlainObj [(''number'', JNum (NInt n)), (''url'', JStr url)])
                else invalid
            | _ \<Rightarrow> invalid))"

section \<open>Approvals and invoices\<close>

record ApprovalRequest =
  ar_role :: string
  ar_subject :: jsval
  ar_resumeHook :: string
  ar_expiresAt :: int

text \<open>\<open>new Date(text).getTime()\<close> is the runtime's date parser, a parameter: \<open>None\<close> for \<open>NaN\<close>.\<close>

definition parseApprovalRequestInput :: "(string \<Rightarrow> int option) \<Rightarrow> jsval \<Rightarrow> ApprovalRequest cap" where
  "parseApprovalRequestInput parseDate input =
     (case (isRecord input, js_get input ''role'', isRecord (js_get input ''subject''),
            js_get input ''resumeHook'', js_get input ''expiresAt'') of
        (True, JStr role, True, JStr resumeHook, JStr expires) \<Rightarrow>
          (case parseDate expires of
             None \<Rightarrow> Inl (CapabilityInputError ''approvals.request expiresAt must be an ISO timestamp'')
           | Some ms \<Rightarrow> Inr \<lparr>ar_role = role, ar_subject = js_get input ''subject'',
                           ar_resumeHook = resumeHook, ar_expiresAt = ms\<rparr>)
      | _ \<Rightarrow> Inl (CapabilityInputError ''approvals.request requires role, subject, resumeHook, and expiresAt''))"

definition parseInvoiceReadInput :: "jsval \<Rightarrow> (string option \<times> string) cap" where
  "parseInvoiceReadInput input =
     (case (isRecord input, js_get input ''invoiceId'') of
        (True, JStr invoiceId) \<Rightarrow>
          (case js_get input ''tenantId'' of
             JUndef \<Rightarrow> Inr (None, invoiceId)
           | JStr t \<Rightarrow> Inr (Some t, invoiceId)
           | _ \<Rightarrow> Inl (CapabilityInputError ''invoice.read tenantId must be a string''))
      | _ \<Rightarrow> Inl (CapabilityInputError ''invoice.read requires invoiceId''))"

section \<open>Key-value state\<close>

datatype KvStateInput = KvGet string | KvPut string jsval | KvDelete string

fun kv_key :: "KvStateInput \<Rightarrow> string" where
  "kv_key (KvGet k) = k"
| "kv_key (KvPut k _) = k"
| "kv_key (KvDelete k) = k"

fun kv_operation :: "KvStateInput \<Rightarrow> string" where
  "kv_operation (KvGet _) = ''get''"
| "kv_operation (KvPut _ _) = ''put''"
| "kv_operation (KvDelete _) = ''delete''"

definition kv_max_depth :: nat where
  "kv_max_depth = 32"

text \<open>
  \<open>assertKvStateJsonValue\<close> with the number of levels left, \<open>32 - depth\<close>. Values are trees, so the
  cycle test of the source is always false here.
\<close>

fun kvJsonValue :: "nat \<Rightarrow> jsval \<Rightarrow> unit cap"
and kvJsonItems :: "nat \<Rightarrow> jsval list \<Rightarrow> unit cap"
and kvJsonFields :: "nat \<Rightarrow> (string \<times> jsval) list \<Rightarrow> unit cap" where
  "kvJsonValue d JNull = Inr ()"
| "kvJsonValue d (JStr _) = Inr ()"
| "kvJsonValue d (JBool _) = Inr ()"
| "kvJsonValue d (JNum n) =
     guardE (num_is_finite n) (CapabilityInputError ''kv.state value must contain finite numbers'')"
| "kvJsonValue d (JArr xs) =
     (case d of 0 \<Rightarrow> Inl (CapabilityInputError ''kv.state value is too deeply nested or cyclic'')
      | Suc d' \<Rightarrow> kvJsonItems d' xs)"
| "kvJsonValue d (JObj kind fs) =
     (case d of 0 \<Rightarrow> Inl (CapabilityInputError ''kv.state value is too deeply nested or cyclic'')
      | Suc d' \<Rightarrow>
          if kind = ForeignProto
          then Inl (CapabilityInputError ''kv.state value must contain only arrays and plain objects'')
          else if kind = SymbolKeyed
          then Inl (CapabilityInputError ''kv.state value must not contain symbol keys'')
          else kvJsonFields d' fs)"
| "kvJsonValue d (JDate _) =
     (if d = 0 then Inl (CapabilityInputError ''kv.state value is too deeply nested or cyclic'')
      else Inl (CapabilityInputError ''kv.state value must contain only arrays and plain objects''))"
| "kvJsonValue d _ = Inl (CapabilityInputError ''kv.state value must be JSON-compatible'')"
| "kvJsonItems d [] = Inr ()"
| "kvJsonItems d (x # xs) = bindE (kvJsonValue d x) (\<lambda>_. kvJsonItems d xs)"
| "kvJsonFields d [] = Inr ()"
| "kvJsonFields d ((k, v) # fs) = bindE (kvJsonValue d v) (\<lambda>_. kvJsonFields d fs)"

definition assertKvStateJsonValue :: "jsval \<Rightarrow> unit cap" where
  "assertKvStateJsonValue v = kvJsonValue kv_max_depth v"

definition parseKvStateInput :: "jsval \<Rightarrow> KvStateInput cap" where
  "parseKvStateInput input =
     (if \<not> isRecord input then Inl (CapabilityInputError ''kv.state requires operation and key'')
      else if list_ex (\<lambda>k. k \<notin> {''operation'', ''key'', ''value''}) (own_keys input)
      then Inl (CapabilityInputError ''kv.state contains unsupported input fields'')
      else (case (js_get input ''operation'', js_get input ''key'') of
        (JStr operation, JStr key) \<Rightarrow>
          if operation \<notin> {''get'', ''put'', ''delete''} \<or> key = [] \<or> hasControlCharacter key
          then Inl (CapabilityInputError ''kv.state requires a valid operation and key'')
          else if operation = ''put'' then
            (if \<not> has_own input ''value'' then Inl (CapabilityInputError ''kv.state put requires a value'')
             else bindE (assertKvStateJsonValue (js_get input ''value'')) (\<lambda>_.
                    Inr (KvPut key (js_get input ''value''))))
          else if has_own input ''value''
          then Inl (CapabilityInputError (''kv.state '' @ operation @ '' must not include a value''))
          else Inr (if operation = ''get'' then KvGet key else KvDelete key)
      | _ \<Rightarrow> Inl (CapabilityInputError ''kv.state requires a valid operation and key'')))"

definition kvGrantEntryInvalid :: "bool \<Rightarrow> jsval \<Rightarrow> bool" where
  "kvGrantEntryInvalid isOperation e =
     (case e of
        JStr s \<Rightarrow> s = [] \<or> hasControlCharacter s \<or> (isOperation \<and> s \<notin> {''get'', ''put'', ''delete''})
      | _ \<Rightarrow> True)"

definition normalizeKvStateGrantValues :: "jsval \<Rightarrow> bool \<Rightarrow> string list cap" where
  "normalizeKvStateGrantValues v isOperation =
     (let values = grantValues v in
      if list_ex (kvGrantEntryInvalid isOperation) values
      then Inl (CapabilityDeniedError (''kv.state has an invalid ''
             @ (if isOperation then ''operation'' else ''key prefix'') @ '' grant''))
      else bindE (mapE asString values) (\<lambda>ss. Inr (distinct_first ss)))"

end
