(* ===== verification/CapWebInput.thy ===== *)
theory CapWebInput
  imports CapInput
begin

text \<open>
  \<open>packages/capabilities/src/index.ts\<close>, the inputs and grants of \<open>email.send\<close> and \<open>http.fetch\<close>:
  addresses, templates and their placeholders, methods, header names, origins and destinations.
\<close>

section \<open>Email addresses\<close>

definition isValidEmailDomain :: "string \<Rightarrow> bool" where
  "isValidEmailDomain domain \<longleftrightarrow>
     domain \<noteq> [] \<and> length domain \<le> 253 \<and>
     list_all (\<lambda>label. label \<noteq> [] \<and> length label \<le> 63 \<and>
                list_all (\<lambda>c. is_lower c \<or> is_digit c \<or> c = CHR ''-'') label \<and>
                \<not> startsWith label ''-'' \<and> \<not> endsWith label ''-'')
       (split_on CHR ''.'' domain)"

definition emailLocalPattern :: "string \<Rightarrow> bool" where
  "emailLocalPattern s \<longleftrightarrow> s \<noteq> [] \<and>
     list_all (\<lambda>c. is_alnum c \<or> c \<in> set (''.!#$%&*+/=?^_`{|}~-'' @ [CHR 0x27])) s"

definition emailRecipientDomain :: "string \<Rightarrow> string cap" where
  "emailRecipientDomain address =
     (let bad = Inl (CapabilityInputError ''email.send requires a valid recipient email address'') in
      if trim address \<noteq> address \<or> has_line_break address \<or> 254 < length address then bad
      else case split_on CHR ''@'' address of
        [local, host] \<Rightarrow>
          let domain = toLowerCase host in
          if local = [] then bad
          else if 64 < length local \<or> \<not> emailLocalPattern local \<or> startsWith local ''.'' \<or>
                  endsWith local ''.'' \<or> str_includes local ''..'' \<or> \<not> isValidEmailDomain domain
          then bad
          else Inr domain
      | _ \<Rightarrow> bad)"

definition variableNamePattern :: "string \<Rightarrow> bool" where
  "variableNamePattern s \<longleftrightarrow>
     s \<noteq> [] \<and> \<not> is_digit (hd s) \<and> list_all (\<lambda>c. is_alnum c \<or> c = CHR ''_'') s"

record EmailSendInput =
  em_to :: string
  em_template :: string
  em_variables :: "(string \<times> string) list"

fun emailVariables :: "(string \<times> jsval) list \<Rightarrow> (string \<times> string) list \<Rightarrow> ((string \<times> string) list) cap" where
  "emailVariables [] acc = Inr acc"
| "emailVariables ((name, v) # rest) acc =
     (case v of
        JStr s \<Rightarrow>
          if variableNamePattern name then emailVariables rest (obj_set acc name s)
          else Inl (CapabilityInputError ''email.send variables must be named string values'')
      | _ \<Rightarrow> Inl (CapabilityInputError ''email.send variables must be named string values''))"

definition parseEmailSendInput :: "jsval \<Rightarrow> EmailSendInput cap" where
  "parseEmailSendInput input =
     (let missing = Inl (CapabilityInputError ''email.send requires to, template, and variables'') in
      if \<not> isRecord input then missing
      else if list_ex (\<lambda>k. k \<notin> {''to'', ''template'', ''variables''}) (own_keys input)
      then Inl (CapabilityInputError ''email.send contains unsupported input fields'')
      else (case (js_get input ''to'', js_get input ''template'') of
        (JStr to, JStr tmpl) \<Rightarrow>
          if tmpl = [] \<or> \<not> isRecord (js_get input ''variables'') then missing
          else bindE (emailRecipientDomain to) (\<lambda>_.
               bindE (emailVariables (own_entries (js_get input ''variables'')) []) (\<lambda>vars.
               Inr \<lparr>em_to = to, em_template = tmpl, em_variables = vars\<rparr>))
      | _ \<Rightarrow> missing))"

definition normalizeEmailGrantValues :: "jsval \<Rightarrow> bool \<Rightarrow> jsval list cap" where
  "normalizeEmailGrantValues v isTemplate =
     (let values = grantValues v;
          kind = (if isTemplate then ''template'' else ''recipient domain'') in
      bindE (someE lengthIsZero values) (\<lambda>emptyEntry.
        if emptyEntry then Inl (CapabilityDeniedError (''email.send has an invalid '' @ kind @ '' grant''))
        else if isTemplate then Inr values
        else bindE (mapE asString values) (\<lambda>ss.
          let normalized = List.map toLowerCase ss in
          if list_ex (\<lambda>d. \<not> isValidEmailDomain d) normalized
          then Inl (CapabilityDeniedError ''email.send has an invalid recipient domain grant'')
          else Inr (List.map JStr normalized))))"

section \<open>Email templates\<close>

text \<open>
  A template source is scanned once, left to right, for \<open>{{name}}\<close>: literal characters and
  placeholders. A failed match at a position keeps its first character as a literal, as a global
  regular-expression replacement does.
\<close>

datatype template_piece = Literal char | Placeholder string

definition is_name_char :: "char \<Rightarrow> bool" where
  "is_name_char c \<longleftrightarrow> is_alnum c \<or> c = CHR ''_''"

definition placeholderAt :: "string \<Rightarrow> (string \<times> string) option" where
  "placeholderAt s =
     (if startsWith s ''{{'' then
        (let name = takeWhile is_name_char (drop 2 s); rest = dropWhile is_name_char (drop 2 s) in
         if variableNamePattern name \<and> startsWith rest ''}}'' then Some (name, drop 2 rest) else None)
      else None)"

lemma length_dropWhile_less: "length (dropWhile P s) \<le> length s"
  by (simp add: length_dropWhile_le)

lemma placeholderAt_shorter: "placeholderAt s = Some (n, r) \<Longrightarrow> length r < length s"
proof -
  assume "placeholderAt s = Some (n, r)"
  then have r: "r = drop 2 (dropWhile is_name_char (drop 2 s))" and "startsWith s ''{{''"
    by (auto simp: placeholderAt_def Let_def split: if_splits)
  then have "2 \<le> length s" by (auto simp: startsWith_def take_eq_Nil) (metis length_take min.cobounded1 length_Cons list.size(3) One_nat_def Suc_1)
  moreover have "length (dropWhile is_name_char (drop 2 s)) \<le> length s - 2"
    using length_dropWhile_le [of is_name_char "drop 2 s"] by simp
  ultimately show "length r < length s" by (simp add: r)
qed

function templatePieces :: "string \<Rightarrow> template_piece list" where
  "templatePieces s =
     (case s of [] \<Rightarrow> []
      | c # cs \<Rightarrow>
          (case placeholderAt s of
             Some (name, rest) \<Rightarrow> Placeholder name # templatePieces rest
           | None \<Rightarrow> Literal c # templatePieces cs))"
  by pat_completeness auto
termination
  by (relation "measure length") (auto dest: placeholderAt_shorter)

declare templatePieces.simps [simp del]

record EmailTemplate =
  et_subject :: string
  et_text :: string

definition withoutPlaceholders :: "string \<Rightarrow> string" where
  "withoutPlaceholders s =
     concat (List.map (\<lambda>p. case p of Literal c \<Rightarrow> [c] | Placeholder _ \<Rightarrow> []) (templatePieces s))"

definition validateEmailTemplate :: "string \<Rightarrow> EmailTemplate \<Rightarrow> unit cap" where
  "validateEmailTemplate name t =
     (if name = [] \<or> et_subject t = [] \<or> et_text t = []
      then Inl (PlainError (''email template '' @ name @ '' must define subject and text''))
      else if list_ex (\<lambda>source. str_includes (withoutPlaceholders source) ''{{'' \<or>
                                str_includes (withoutPlaceholders source) ''}}'') [et_subject t, et_text t]
      then Inl (PlainError (''email template '' @ name @ '' contains an invalid placeholder''))
      else Inr ())"

definition placeholders :: "string \<Rightarrow> string list" where
  "placeholders s = concat (List.map (\<lambda>p. case p of Literal _ \<Rightarrow> [] | Placeholder n \<Rightarrow> [n]) (templatePieces s))"

definition renderSource :: "(string \<times> string) list \<Rightarrow> string \<Rightarrow> string" where
  "renderSource vars s =
     concat (List.map (\<lambda>p. case p of Literal c \<Rightarrow> [c]
               | Placeholder n \<Rightarrow> (case map_of vars n of Some v \<Rightarrow> v | None \<Rightarrow> [])) (templatePieces s))"

record EmailDelivery =
  dl_to :: string
  dl_subject :: string
  dl_text :: string

definition renderEmailTemplate :: "EmailSendInput \<Rightarrow> EmailTemplate \<Rightarrow> EmailDelivery cap" where
  "renderEmailTemplate request t =
     (let required = distinct_first (placeholders (et_subject t) @ placeholders (et_text t));
          given = List.map fst (em_variables request) in
      case List.find (\<lambda>n. n \<notin> set given) required of
        Some n \<Rightarrow> Inl (CapabilityInputError (''email.send variable '' @ n @ '' is required''))
      | None \<Rightarrow>
          (case List.find (\<lambda>n. n \<notin> set required) given of
             Some n \<Rightarrow> Inl (CapabilityInputError (''email.send variable '' @ n @ '' is not used by the template''))
           | None \<Rightarrow>
               (let subject = renderSource (em_variables request) (et_subject t) in
                if has_line_break subject
                then Inl (CapabilityInputError ''email.send rendered subject must not contain line breaks'')
                else Inr \<lparr>dl_to = em_to request, dl_subject = subject,
                         dl_text = renderSource (em_variables request) (et_text t)\<rparr>)))"

section \<open>HTTP methods and headers\<close>

definition pluginForbiddenHttpHeaders :: "string list" where
  "pluginForbiddenHttpHeaders =
     [''authorization'', ''connection'', ''content-length'', ''cookie'', ''host'', ''proxy-authorization'',
      ''te'', ''trailer'', ''transfer-encoding'', ''upgrade'']"

definition supportedHttpMethods :: "string list" where
  "supportedHttpMethods = [''DELETE'', ''GET'', ''HEAD'', ''OPTIONS'', ''PATCH'', ''POST'', ''PUT'']"

definition headerNamePattern :: "string \<Rightarrow> bool" where
  "headerNamePattern s \<longleftrightarrow> s \<noteq> [] \<and>
     list_all (\<lambda>c. c \<in> set (''!#$%&*+.^_`|~-'' @ [CHR 0x27]) \<or> is_digit c \<or> is_lower c) s"

definition normalizeHttpHeaderName :: "string \<Rightarrow> string cap" where
  "normalizeHttpHeaderName name =
     (let normalized = toLowerCase name in
      if \<not> headerNamePattern normalized
      then Inl (CapabilityInputError (''http.fetch header '' @ name @ '' is invalid'')) else Inr normalized)"

definition isRoutingHttpHeader :: "string \<Rightarrow> bool" where
  "isRoutingHttpHeader name \<longleftrightarrow>
     name \<in> set pluginForbiddenHttpHeaders \<or> startsWith name ''proxy-'' \<or> startsWith name ''sec-'' \<or>
     startsWith name ''cf-'' \<or> startsWith name ''x-forwarded-''"

definition isUnsafeCredentialHeader :: "string \<Rightarrow> bool" where
  "isUnsafeCredentialHeader name \<longleftrightarrow>
     name \<in> {''connection'', ''content-length'', ''host'', ''te'', ''trailer'', ''transfer-encoding'', ''upgrade''} \<or>
     startsWith name ''proxy-'' \<or> startsWith name ''sec-'' \<or> startsWith name ''cf-'' \<or>
     startsWith name ''x-forwarded-''"

record HttpFetchInput =
  hf_url :: string
  hf_method :: string
  hf_headers :: "(string \<times> string) list"
  hf_body :: "string option"

fun httpHeaders :: "(string \<times> jsval) list \<Rightarrow> (string \<times> string) list \<Rightarrow> ((string \<times> string) list) cap" where
  "httpHeaders [] acc = Inr acc"
| "httpHeaders ((rawName, v) # rest) acc =
     (case v of
        JStr s \<Rightarrow>
          if has_line_break s then Inl (CapabilityInputError ''http.fetch headers must contain string values'')
          else bindE (normalizeHttpHeaderName rawName) (\<lambda>name.
            if isRoutingHttpHeader name
            then Inl (CapabilityInputError (''http.fetch header '' @ name @ '' cannot be supplied by the plugin''))
            else if map_of acc name \<noteq> None
            then Inl (CapabilityInputError (''http.fetch header '' @ name @ '' is duplicated''))
            else httpHeaders rest (obj_set acc name s))
      | _ \<Rightarrow> Inl (CapabilityInputError ''http.fetch headers must contain string values''))"

definition parseHttpFetchInput :: "jsval \<Rightarrow> HttpFetchInput cap" where
  "parseHttpFetchInput input =
     (let missing = Inl (CapabilityInputError ''http.fetch requires url and method'');
          headersV = js_get input ''headers''; bodyV = js_get input ''body'' in
      if \<not> isRecord input then missing
      else if list_ex (\<lambda>k. k \<notin> {''url'', ''method'', ''headers'', ''body''}) (own_keys input)
      then Inl (CapabilityInputError ''http.fetch contains unsupported input fields'')
      else (case (js_get input ''url'', js_get input ''method'') of
        (JStr url, JStr method0) \<Rightarrow>
          if (headersV \<noteq> JUndef \<and> \<not> isRecord headersV) \<or> (bodyV \<noteq> JUndef \<and> \<not> is_string bodyV)
          then missing
          else let method = toUpperCase method0 in
            if method \<notin> set supportedHttpMethods
            then Inl (CapabilityInputError ''http.fetch method is invalid'')
            else if (method = ''GET'' \<or> method = ''HEAD'') \<and> bodyV \<noteq> JUndef
            then Inl (CapabilityInputError (''http.fetch '' @ method @ '' requests must not include a body''))
            else bindE (httpHeaders (own_entries headersV) []) (\<lambda>headers.
              Inr \<lparr>hf_url = url, hf_method = method, hf_headers = headers,
                   hf_body = (case bodyV of JStr b \<Rightarrow> Some b | _ \<Rightarrow> None)\<rparr>)
      | _ \<Rightarrow> missing))"

definition normalizeHttpGrantValues ::
  "jsval \<Rightarrow> bool \<Rightarrow> (string \<Rightarrow> string cap) \<Rightarrow> string list cap" where
  "normalizeHttpGrantValues v isMethod norm1 =
     (let values = grantValues v;
          bad = Inl (CapabilityDeniedError (''http.fetch has an invalid ''
                  @ (if isMethod then ''method'' else ''request header'') @ '' grant'')) in
      if list_ex (\<lambda>e. case e of JStr s \<Rightarrow> s = [] | _ \<Rightarrow> True) values then bad
      else (case bindE (mapE asString values) (mapE norm1) of
              Inl _ \<Rightarrow> bad
            | Inr normalized \<Rightarrow>
                if (isMethod \<and> list_ex (\<lambda>m. m \<notin> set supportedHttpMethods) normalized) \<or>
                   (\<not> isMethod \<and> list_ex isRoutingHttpHeader normalized)
                then bad else Inr (distinct_first normalized)))"

section \<open>HTTP origins and destinations\<close>

datatype origin_source = CredentialSource | GrantSource | ProviderSource

fun origin_source_tag :: "origin_source \<Rightarrow> string" where
  "origin_source_tag CredentialSource = ''credential''"
| "origin_source_tag GrantSource = ''grant''"
| "origin_source_tag ProviderSource = ''provider''"

definition httpOriginConfigurationError :: "origin_source \<Rightarrow> string \<Rightarrow> cap_error" where
  "httpOriginConfigurationError source v =
     (let message = ''http.fetch '' @ origin_source_tag source @ '' origin '' @ v @ '' is invalid'' in
      if source = GrantSource then CapabilityDeniedError message else PlainError message)"

definition exactOrigin :: "URL \<Rightarrow> bool" where
  "exactOrigin url \<longleftrightarrow>
     url_username url = [] \<and> url_password url = [] \<and> url_pathname url = ''/'' \<and>
     url_search url = [] \<and> url_hash url = [] \<and> isPublicHttpDestination url"

text \<open>\<open>String(entry)\<close> of a non-string entry only names it in the message: \<open>show\<close> is a parameter.\<close>

definition normalizeHttpOrigins ::
  "url_parser \<Rightarrow> (jsval \<Rightarrow> string) \<Rightarrow> jsval \<Rightarrow> origin_source \<Rightarrow> string list cap" where
  "normalizeHttpOrigins parseURL show_value v source =
     bindE (mapE (\<lambda>entry. case entry of
         JStr s \<Rightarrow>
           (case parseURL s of
              None \<Rightarrow> Inl (httpOriginConfigurationError source s)
            | Some url \<Rightarrow> if exactOrigin url then Inr (url_origin url)
                          else Inl (httpOriginConfigurationError source s))
       | _ \<Rightarrow> Inl (httpOriginConfigurationError source (show_value entry))) (grantValues v))
       (\<lambda>origins. Inr (distinct_first origins))"

definition parseHttpFetchUrl :: "url_parser \<Rightarrow> string \<Rightarrow> URL cap" where
  "parseHttpFetchUrl parseURL v =
     (case parseURL v of
        None \<Rightarrow> Inl (CapabilityInputError ''http.fetch requires a valid URL'')
      | Some url \<Rightarrow>
          if url_username url \<noteq> [] \<or> url_password url \<noteq> []
          then Inl (CapabilityInputError ''http.fetch URL must not contain credentials'')
          else Inr (clear_hash url))"

definition assertHttpFetchDestination :: "URL \<Rightarrow> string list \<Rightarrow> unit cap" where
  "assertHttpFetchDestination destination allowedOrigins =
     (if \<not> isPublicHttpDestination destination
      then Inl (CapabilityDeniedError (''http.fetch destination '' @ url_origin destination @ '' is not public''))
      else if url_origin destination \<notin> set allowedOrigins
      then Inl (CapabilityDeniedError (''http.fetch origin '' @ url_origin destination @ '' is outside granted scope''))
      else Inr ())"

end
