(* ===== verification/CapScope.thy ===== *)
theory CapScope
  imports CapWebInput
begin

text \<open>
  \<open>packages/capabilities/src/index.ts\<close>: the scope of a grant over an input (\<open>assertScope\<close>) and
  over a result (\<open>applyResultScope\<close>), and the canonical rendering of an input (\<open>stableJson\<close>) that
  the call journal compares. The runtime's URL and date parsers and \<open>String(value)\<close> form the record
  \<open>runtime\<close>.
\<close>

record runtime =
  rt_parseURL :: url_parser
  rt_resolveURL :: url_resolver
  rt_parseDate :: "string \<Rightarrow> int option"
  rt_show :: "jsval \<Rightarrow> string"

section \<open>Scope of the input\<close>

definition slackScope :: "jsval \<Rightarrow> jsval \<Rightarrow> unit cap" where
  "slackScope grant input =
     bindE (parseSlackSendInput input) (\<lambda>(channel, _).
     bindE (grantField grant ''channel'') (\<lambda>v.
       let allowedChannels = grantValues v in
       guardE (allowedChannels = [] \<or> JStr channel \<in> set allowedChannels)
         (CapabilityDeniedError (''slack.send channel '' @ channel @ '' is outside granted scope''))))"

definition githubScope :: "jsval \<Rightarrow> jsval \<Rightarrow> unit cap" where
  "githubScope grant input =
     bindE (parseGitHubIssueCreateInput input) (\<lambda>request.
     bindE (grantField grant ''repositories'') (\<lambda>v.
     bindE (normalizeGitHubRepositoryGrant v) (\<lambda>repositories.
       guardE (gh_repository request \<in> set repositories)
         (CapabilityDeniedError (''github.issue.create repository '' @ gh_repository request
            @ '' is outside granted scope'')))))"

definition approvalsScope :: "runtime \<Rightarrow> jsval \<Rightarrow> jsval \<Rightarrow> unit cap" where
  "approvalsScope rt grant input =
     bindE (parseApprovalRequestInput (rt_parseDate rt) input) (\<lambda>request.
     bindE (grantField grant ''roles'') (\<lambda>rolesV.
     bindE (let allowedRoles = grantValues rolesV in
       guardE (allowedRoles = [] \<or> JStr (ar_role request) \<in> set allowedRoles)
         (CapabilityDeniedError (''approvals.request role '' @ ar_role request @ '' is outside granted scope''))) (\<lambda>_.
     bindE (grantField grant ''resumeHooks'') (\<lambda>hooksV.
       let allowedResumeHooks = grantValues hooksV in
       guardE (allowedResumeHooks = [] \<or> JStr (ar_resumeHook request) \<in> set allowedResumeHooks)
         (CapabilityDeniedError (''approvals.request resumeHook '' @ ar_resumeHook request
            @ '' is outside granted scope''))))))"

definition emailScope :: "jsval \<Rightarrow> jsval \<Rightarrow> unit cap" where
  "emailScope grant input =
     bindE (parseEmailSendInput input) (\<lambda>request.
     bindE (emailRecipientDomain (em_to request)) (\<lambda>recipientDomain.
     bindE (grantField grant ''recipientDomains'') (\<lambda>domainsV.
     bindE (normalizeEmailGrantValues domainsV False) (\<lambda>allowedDomains.
     bindE (guardE (JStr recipientDomain \<in> set allowedDomains)
         (CapabilityDeniedError (''email.send recipient domain '' @ recipientDomain
            @ '' is outside granted scope''))) (\<lambda>_.
     bindE (grantField grant ''templates'') (\<lambda>templatesV.
     bindE (normalizeEmailGrantValues templatesV True) (\<lambda>allowedTemplates.
       guardE (JStr (em_template request) \<in> set allowedTemplates)
         (CapabilityDeniedError (''email.send template '' @ em_template request
            @ '' is outside granted scope'')))))))))"

definition httpScope :: "runtime \<Rightarrow> jsval \<Rightarrow> jsval \<Rightarrow> unit cap" where
  "httpScope rt grant input =
     bindE (parseHttpFetchInput input) (\<lambda>request.
     bindE (parseHttpFetchUrl (rt_parseURL rt) (hf_url request)) (\<lambda>destination.
     bindE (grantField grant ''origins'') (\<lambda>originsV.
     bindE (normalizeHttpOrigins (rt_parseURL rt) (rt_show rt) originsV GrantSource) (\<lambda>allowedOrigins.
     bindE (assertHttpFetchDestination destination allowedOrigins) (\<lambda>_.
     bindE (grantField grant ''methods'') (\<lambda>methodsV.
     bindE (normalizeHttpGrantValues methodsV True (\<lambda>m. Inr (toUpperCase m))) (\<lambda>allowedMethods.
     bindE (guardE (hf_method request \<in> set allowedMethods)
         (CapabilityDeniedError (''http.fetch method '' @ hf_method request @ '' is outside granted scope''))) (\<lambda>_.
     bindE (grantField grant ''requestHeaders'') (\<lambda>headersV.
     bindE (normalizeHttpGrantValues headersV False normalizeHttpHeaderName) (\<lambda>allowedHeaders.
     bindE (mapE (\<lambda>h. guardE (fst h \<in> set allowedHeaders)
         (CapabilityDeniedError (''http.fetch header '' @ fst h @ '' is outside granted scope''))) (hf_headers request)) (\<lambda>_.
       Inr ())))))))))))"

definition kvScope :: "jsval \<Rightarrow> jsval \<Rightarrow> unit cap" where
  "kvScope grant input =
     bindE (parseKvStateInput input) (\<lambda>request.
     bindE (grantField grant ''operations'') (\<lambda>operationsV.
     bindE (normalizeKvStateGrantValues operationsV True) (\<lambda>allowedOperations.
     bindE (guardE (kv_operation request \<in> set allowedOperations)
         (CapabilityDeniedError (''kv.state operation '' @ kv_operation request
            @ '' is outside granted scope''))) (\<lambda>_.
     bindE (grantField grant ''keyPrefixes'') (\<lambda>prefixesV.
     bindE (normalizeKvStateGrantValues prefixesV False) (\<lambda>allowedKeyPrefixes.
       guardE (list_ex (\<lambda>prefix. startsWith (kv_key request) prefix) allowedKeyPrefixes)
         (CapabilityDeniedError (''kv.state key '' @ kv_key request @ '' is outside granted scope''))))))))"

definition assertScope :: "runtime \<Rightarrow> string \<Rightarrow> jsval \<Rightarrow> jsval \<Rightarrow> unit cap" where
  "assertScope rt name grant input =
     (if name = ''slack.send'' then slackScope grant input
      else if name = ''github.issue.create'' then githubScope grant input
      else if name = ''approvals.request'' then approvalsScope rt grant input
      else if name = ''email.send'' then emailScope grant input
      else if name = ''http.fetch'' then httpScope rt grant input
      else if name = ''kv.state'' then kvScope grant input
      else if name = ''invoice.read'' then bindE (parseInvoiceReadInput input) (\<lambda>_. Inr ())
      else Inr ())"

section \<open>Scope of the result\<close>

text \<open>
  \<open>grant.fields ?? []\<close> with the field names as strings, as the grant type declares them; an entry
  that is not a string names no own property here.
\<close>

definition fieldNames :: "jsval list \<Rightarrow> string list" where
  "fieldNames vs = concat (List.map (\<lambda>v. case v of JStr s \<Rightarrow> [s] | _ \<Rightarrow> []) vs)"

fun filterFields :: "jsval \<Rightarrow> string list \<Rightarrow> obj_kind \<times> (string \<times> jsval) list
    \<Rightarrow> obj_kind \<times> (string \<times> jsval) list" where
  "filterFields result [] out = out"
| "filterFields result (f # fs) out =
     filterFields result fs
       (if has_own result f
        then (if f = ''__proto__'' then
                ((case js_get result f of JNull \<Rightarrow> NullProto | JObj _ _ \<Rightarrow> ForeignProto
                    | JArr _ \<Rightarrow> ForeignProto | JDate _ \<Rightarrow> ForeignProto | JFun _ \<Rightarrow> ForeignProto
                    | _ \<Rightarrow> fst out), snd out)
              else (fst out, obj_set (snd out) f (js_get result f)))
        else out)"

definition applyResultScope :: "string \<Rightarrow> jsval \<Rightarrow> jsval \<Rightarrow> jsval cap" where
  "applyResultScope name grant result =
     (if name \<noteq> ''invoice.read'' then Inr result
      else if \<not> isRecord result
      then Inl (CapabilityDeniedError ''invoice.read provider must return an object'')
      else bindE (grantField grant ''fields'') (\<lambda>fieldsV.
        let allowedFields = (if fieldsV = JNull then [] else grantValues fieldsV) in
        if allowedFields = [] then Inr result
        else (case filterFields result (fieldNames allowedFields) (PlainObj, []) of (k, fs) \<Rightarrow> Inr (JObj k fs))))"

section \<open>Canonical rendering\<close>

fun stableJson :: "jsval \<Rightarrow> string cap"
and stableItems :: "jsval list \<Rightarrow> string list cap"
and stableFields :: "(string \<times> jsval) list \<Rightarrow> ((string \<times> string) list) cap" where
  "stableJson JUndef = Inr ''undefined''"
| "stableJson (JBigInt i) = Inr (''bigint:'' @ show_int i)"
| "stableJson (JSymbol d) = Inr (''symbol:'' @ d)"
| "stableJson (JFun n) = Inr (''function:'' @ n)"
| "stableJson JNull = Inr ''null''"
| "stableJson (JBool b) = Inr (if b then ''true'' else ''false'')"
| "stableJson (JNum n) = Inr (json_number n)"
| "stableJson (JStr s) = Inr (json_quote s)"
| "stableJson (JDate d) =
     (case d of None \<Rightarrow> Inl (PlainError ''RangeError'') | Some ms \<Rightarrow> Inr (json_quote (toISOString ms)))"
| "stableJson (JArr xs) =
     bindE (stableItems xs) (\<lambda>ss. Inr (''['' @ join '','' ss @ '']''))"
| "stableJson (JObj kind fs) =
     bindE (stableFields fs) (\<lambda>ps.
       Inr (CHR 0x7B # join '','' (List.map (\<lambda>p. json_quote (fst p) @ '':'' @ snd p) (sort_key fst ps)) @ [CHR 0x7D]))"
| "stableItems [] = Inr []"
| "stableItems (x # xs) = bindE (stableJson x) (\<lambda>s. bindE (stableItems xs) (\<lambda>ss. Inr (s # ss)))"
| "stableFields [] = Inr []"
| "stableFields ((k, v) # fs) = bindE (stableJson v) (\<lambda>s. bindE (stableFields fs) (\<lambda>ps. Inr ((k, s) # ps)))"

text \<open>The rendering does not depend on the order of an object's keys.\<close>

lemma stableFields_Inr:
  "stableFields fs = Inr ps \<longleftrightarrow>
     list_all2 (\<lambda>f p. fst f = fst p \<and> stableJson (snd f) = Inr (snd p)) fs ps"
  by (induction fs arbitrary: ps) (auto simp: bindE_Inr list_all2_Cons1)

text \<open>Different values can render alike: \<open>NaN\<close> and \<open>null\<close>, a date and its text.\<close>

lemma stableJson_collisions:
  "stableJson (JNum NaN) = stableJson JNull"
  "stableJson (JDate (Some ms)) = stableJson (JStr (toISOString ms))"
  by code_simp simp

section \<open>What the normalised grants hold\<close>

lemma asString_Inr: "asString v = Inr s \<longleftrightarrow> v = JStr s"
  by (cases v) auto

lemma mapE_asString: "mapE asString vs = Inr ss \<longleftrightarrow> vs = List.map JStr ss"
  by (induction vs arbitrary: ss) (auto simp: bindE_Inr asString_Inr)

lemma grantField_Inr [simp]: "grantField g f = Inr v \<longleftrightarrow> g \<noteq> JNull \<and> g \<noteq> JUndef \<and> v = js_get g f"
  by (auto simp: grantField_def)

lemma github_grant_member:
  assumes "normalizeGitHubRepositoryGrant v = Inr rs" "r \<in> set rs"
  shows "JStr r \<in> set (grantValues v) \<and> githubRepositoryValid r"
proof -
  have "mapE (\<lambda>r. bindE (asString r) (\<lambda>s.
      bindE (validateGitHubRepository s CapabilityDeniedError) (\<lambda>_. Inr s))) (grantValues v) = Inr rs"
    using assms(1) by (simp add: normalizeGitHubRepositoryGrant_def Let_def split: if_splits)
  from mapE_in [OF this assms(2)] show ?thesis
    by (auto simp: bindE_Inr asString_Inr validateGitHubRepository_def)
qed

lemma email_domain_member:
  assumes "normalizeEmailGrantValues v False = Inr ds" "JStr d \<in> set ds"
  shows "\<exists>g. JStr g \<in> set (grantValues v) \<and> toLowerCase g = d"
proof -
  obtain ss where "grantValues v = List.map JStr ss" "ds = List.map JStr (List.map toLowerCase ss)"
    using assms(1)
    by (auto simp: normalizeEmailGrantValues_def Let_def bindE_Inr mapE_asString split: if_splits)
  then show ?thesis using assms(2) by fastforce
qed

lemma email_template_member:
  "normalizeEmailGrantValues v True = Inr ts \<Longrightarrow> ts = grantValues v"
  by (auto simp: normalizeEmailGrantValues_def Let_def bindE_Inr split: if_splits)

lemma http_grant_member:
  assumes "normalizeHttpGrantValues v isMethod norm1 = Inr xs" "x \<in> set xs"
  shows "\<exists>g. JStr g \<in> set (grantValues v) \<and> norm1 g = Inr x"
proof -
  obtain ys where ys: "bindE (mapE asString (grantValues v)) (mapE norm1) = Inr ys" "x \<in> set ys"
    using assms by (auto simp: normalizeHttpGrantValues_def Let_def split: if_splits sum.splits)
  then obtain ss where ss: "grantValues v = List.map JStr ss" "mapE norm1 ss = Inr ys"
    by (auto simp: bindE_Inr mapE_asString)
  from mapE_in [OF ss(2) ys(2)] ss(1) show ?thesis by auto
qed

definition originOf :: "url_parser \<Rightarrow> (jsval \<Rightarrow> string) \<Rightarrow> origin_source \<Rightarrow> jsval \<Rightarrow> string cap" where
  "originOf parseURL sh source entry =
     (case entry of
        JStr s \<Rightarrow>
          (case parseURL s of
             None \<Rightarrow> Inl (httpOriginConfigurationError source s)
           | Some url \<Rightarrow> if exactOrigin url then Inr (url_origin url)
                         else Inl (httpOriginConfigurationError source s))
      | _ \<Rightarrow> Inl (httpOriginConfigurationError source (sh entry)))"

lemma originOf_Inr:
  "originOf parseURL sh source x = Inr org \<Longrightarrow>
     \<exists>g u. x = JStr g \<and> parseURL g = Some u \<and> exactOrigin u \<and> url_origin u = org"
  by (cases x) (auto simp: originOf_def split: option.splits if_splits)

lemma http_origin_member:
  assumes "normalizeHttpOrigins parseURL sh v source = Inr os" "org \<in> set os"
  shows "\<exists>g u. JStr g \<in> set (grantValues v) \<and> parseURL g = Some u \<and> exactOrigin u \<and> url_origin u = org"
proof -
  obtain ys where "mapE (originOf parseURL sh source) (grantValues v) = Inr ys" "org \<in> set ys"
    using assms by (auto simp: normalizeHttpOrigins_def bindE_Inr originOf_def [abs_def])
  from mapE_in [OF this] originOf_Inr show ?thesis by blast
qed

lemma kv_grant_member:
  assumes "normalizeKvStateGrantValues v b = Inr xs" "x \<in> set xs"
  shows "JStr x \<in> set (grantValues v) \<and> x \<noteq> []"
proof -
  obtain ss where ss: "grantValues v = List.map JStr ss" "xs = distinct_first ss"
    and ok: "\<not> list_ex (kvGrantEntryInvalid b) (grantValues v)"
    using assms(1) by (auto simp: normalizeKvStateGrantValues_def Let_def bindE_Inr mapE_asString split: if_splits)
  then have "JStr x \<in> set (grantValues v)" using assms(2) by simp
  moreover from this ok have "\<not> kvGrantEntryInvalid b (JStr x)" by (auto simp: list_ex_iff)
  ultimately show ?thesis by (simp add: kvGrantEntryInvalid_def)
qed

section \<open>Properties\<close>

text \<open>
  The scope a grant describes, read declaratively: which inputs it covers, per capability.
\<close>

definition within_grant :: "runtime \<Rightarrow> string \<Rightarrow> jsval \<Rightarrow> jsval \<Rightarrow> bool" where
  "within_grant rt name grant input \<longleftrightarrow>
     (name = ''slack.send'' \<longrightarrow>
        (\<exists>channel txt. parseSlackSendInput input = Inr (channel, txt) \<and>
           (grantValues (js_get grant ''channel'') = [] \<or> JStr channel \<in> set (grantValues (js_get grant ''channel''))))) \<and>
     (name = ''github.issue.create'' \<longrightarrow>
        (\<exists>r. parseGitHubIssueCreateInput input = Inr r \<and> githubRepositoryValid (gh_repository r) \<and>
           JStr (gh_repository r) \<in> set (grantValues (js_get grant ''repositories'')))) \<and>
     (name = ''email.send'' \<longrightarrow>
        (\<exists>r d g. parseEmailSendInput input = Inr r \<and> emailRecipientDomain (em_to r) = Inr d \<and>
           JStr g \<in> set (grantValues (js_get grant ''recipientDomains'')) \<and> toLowerCase g = d \<and>
           JStr (em_template r) \<in> set (grantValues (js_get grant ''templates'')))) \<and>
     (name = ''http.fetch'' \<longrightarrow>
        (\<exists>r u g v. parseHttpFetchInput input = Inr r \<and> parseHttpFetchUrl (rt_parseURL rt) (hf_url r) = Inr u \<and>
           isPublicHttpDestination u \<and>
           JStr g \<in> set (grantValues (js_get grant ''origins'')) \<and> rt_parseURL rt g = Some v \<and> exactOrigin v \<and>
           url_origin v = url_origin u \<and>
           (\<exists>m. JStr m \<in> set (grantValues (js_get grant ''methods'')) \<and> toUpperCase m = hf_method r) \<and>
           (\<forall>h \<in> set (hf_headers r). \<exists>n. JStr n \<in> set (grantValues (js_get grant ''requestHeaders'')) \<and>
              toLowerCase n = fst h))) \<and>
     (name = ''kv.state'' \<longrightarrow>
        (\<exists>r p. parseKvStateInput input = Inr r \<and>
           JStr (kv_operation r) \<in> set (grantValues (js_get grant ''operations'')) \<and>
           JStr p \<in> set (grantValues (js_get grant ''keyPrefixes'')) \<and> p \<noteq> [] \<and> startsWith (kv_key r) p))"

lemma slackScope_within:
  "slackScope grant input = Inr () \<Longrightarrow> within_grant rt ''slack.send'' grant input"
  by (auto simp: within_grant_def slackScope_def bindE_Inr Let_def)

lemma githubScope_within:
  "githubScope grant input = Inr () \<Longrightarrow> within_grant rt ''github.issue.create'' grant input"
  by (auto simp: within_grant_def githubScope_def bindE_Inr dest: github_grant_member)

lemma emailScope_within:
  assumes "emailScope grant input = Inr ()"
  shows "within_grant rt ''email.send'' grant input"
proof -
  obtain r d ds where "parseEmailSendInput input = Inr r" "emailRecipientDomain (em_to r) = Inr d"
    "normalizeEmailGrantValues (js_get grant ''recipientDomains'') False = Inr ds" "JStr d \<in> set ds"
    "JStr (em_template r) \<in> set (grantValues (js_get grant ''templates''))"
    using assms
    by (auto simp: emailScope_def bindE_Inr dest!: email_template_member)
  then show ?thesis using email_domain_member by (fastforce simp: within_grant_def)
qed

lemma kvScope_within:
  assumes "kvScope grant input = Inr ()"
  shows "within_grant rt ''kv.state'' grant input"
proof -
  obtain r os ps where "parseKvStateInput input = Inr r"
    "normalizeKvStateGrantValues (js_get grant ''operations'') True = Inr os" "kv_operation r \<in> set os"
    "normalizeKvStateGrantValues (js_get grant ''keyPrefixes'') False = Inr ps"
    "list_ex (startsWith (kv_key r)) ps"
    using assms by (auto simp: kvScope_def bindE_Inr)
  then show ?thesis using kv_grant_member by (fastforce simp: within_grant_def list_ex_iff)
qed

lemma httpScope_within:
  assumes "httpScope rt grant input = Inr ()"
  shows "within_grant rt ''http.fetch'' grant input"
proof -
  obtain r u os ms hs where r: "parseHttpFetchInput input = Inr r"
    "parseHttpFetchUrl (rt_parseURL rt) (hf_url r) = Inr u"
    and os: "normalizeHttpOrigins (rt_parseURL rt) (rt_show rt) (js_get grant ''origins'') GrantSource = Inr os"
    and dest: "assertHttpFetchDestination u os = Inr ()"
    and ms: "normalizeHttpGrantValues (js_get grant ''methods'') True (\<lambda>m. Inr (toUpperCase m)) = Inr ms"
      "hf_method r \<in> set ms"
    and hs: "normalizeHttpGrantValues (js_get grant ''requestHeaders'') False normalizeHttpHeaderName = Inr hs"
      "\<forall>h \<in> set (hf_headers r). fst h \<in> set hs"
  proof -
    have all: "\<forall>h \<in> set xs. fst h \<in> set hs"
      if "mapE (\<lambda>h. guardE (fst h \<in> set hs) (e h)) xs = Inr us" for hs xs us and e :: "string \<times> string \<Rightarrow> cap_error"
      using that by (induction xs arbitrary: us) (auto simp: bindE_Inr)
    show thesis
      using assms that all
      by (auto simp: httpScope_def bindE_Inr)
  qed
  have u: "isPublicHttpDestination u" "url_origin u \<in> set os"
    using dest by (auto simp: assertHttpFetchDestination_def split: if_splits)
  obtain g v where "JStr g \<in> set (grantValues (js_get grant ''origins''))" "rt_parseURL rt g = Some v"
    "exactOrigin v" "url_origin v = url_origin u"
    using http_origin_member [OF os u(2)] by blast
  moreover obtain m where "JStr m \<in> set (grantValues (js_get grant ''methods''))" "toUpperCase m = hf_method r"
    using http_grant_member [OF ms] by auto
  moreover have "\<exists>n. JStr n \<in> set (grantValues (js_get grant ''requestHeaders'')) \<and> toLowerCase n = fst h"
    if "h \<in> set (hf_headers r)" for h
    using http_grant_member [OF hs(1), of "fst h"] hs(2) that
    by (auto simp: normalizeHttpHeaderName_def Let_def split: if_splits)
  ultimately show ?thesis using r u(1) by (simp add: within_grant_def) blast
qed


definition example_kv_grant :: jsval where
  "example_kv_grant = JObj PlainObj [(''operations'', JArr [JStr ''get'']), (''keyPrefixes'', JStr ''cache/'')]"

definition example_kv_get :: jsval where
  "example_kv_get = JObj PlainObj [(''operation'', JStr ''get''), (''key'', JStr ''cache/a'')]"

definition example_scope_runtime :: runtime where
  "example_scope_runtime = \<lparr>rt_parseURL = (\<lambda>_. None), rt_resolveURL = (\<lambda>_ _. None), rt_parseDate = (\<lambda>_. None),
     rt_show = (\<lambda>_. [])\<rparr>"


end
