(* ===== verification/CapProviders.thy ===== *)
theory CapProviders
  imports CapScope
begin

text \<open>
  The remaining providers of \<open>packages/capabilities/src/index.ts\<close>: approvals, invoices, email,
  rotating tokens and GitHub issues, and \<open>slack-send-provider.ts\<close>. External parties (stores, the
  mail and GitHub transports, \<open>fetch\<close>) are parameters that run in a state \<open>'w\<close>; where a property
  counts what is handed to them, the model lists it.
\<close>

section \<open>Approvals\<close>

datatype ApprovalState = Pending | Approved | Rejected | Expired

record CapabilityApprovalRecord =
  ap_id :: string
  ap_role :: string
  ap_subject :: jsval
  ap_resumeHook :: string
  ap_state :: ApprovalState
  ap_expiresAt :: int
  ap_createdAt :: int
  ap_updatedAt :: "int option"

record ApprovalLifecyclePlan =
  lp_approvalId :: string
  lp_notifyAt :: int
  lp_reminderAt :: int
  lp_expiresAt :: int

fun approval_state_tag :: "ApprovalState \<Rightarrow> string" where
  "approval_state_tag Pending = ''pending''"
| "approval_state_tag Approved = ''approved''"
| "approval_state_tag Rejected = ''rejected''"
| "approval_state_tag Expired = ''expired''"

definition createApprovalLifecyclePlan :: "CapabilityApprovalRecord \<Rightarrow> ApprovalLifecyclePlan" where
  "createApprovalLifecyclePlan a =
     \<lparr>lp_approvalId = ap_id a, lp_notifyAt = ap_createdAt a,
      lp_reminderAt = ap_createdAt a + (ap_expiresAt a - ap_createdAt a) div 2,
      lp_expiresAt = ap_expiresAt a\<rparr>"

definition expireApproval :: "CapabilityApprovalRecord \<Rightarrow> int \<Rightarrow> CapabilityApprovalRecord" where
  "expireApproval a now =
     (if ap_state a \<noteq> Pending \<or> now < ap_expiresAt a then a
      else a\<lparr>ap_state := Expired, ap_updatedAt := Some now\<rparr>)"

definition approvalsRequestProvider ::
  "runtime \<Rightarrow> (CapabilityApprovalRecord \<Rightarrow> ('w, cap_error, CapabilityApprovalRecord) step) \<Rightarrow>
   (ApprovalLifecyclePlan \<Rightarrow> ('w, cap_error, unit) step) option \<Rightarrow> string \<Rightarrow> int \<Rightarrow> jsval \<Rightarrow>
   ('w, cap_error, jsval) step" where
  "approvalsRequestProvider rt createApproval startLifecycle generatedId now input =
     bindS (liftS (parseApprovalRequestInput (rt_parseDate rt) input)) (\<lambda>request.
     bindS (createApproval \<lparr>ap_id = generatedId, ap_role = ar_role request, ap_subject = ar_subject request,
              ap_resumeHook = ar_resumeHook request, ap_state = Pending, ap_expiresAt = ar_expiresAt request,
              ap_createdAt = now, ap_updatedAt = None\<rparr>) (\<lambda>approval.
     bindS (case startLifecycle of None \<Rightarrow> returnS () | Some f \<Rightarrow> f (createApprovalLifecyclePlan approval)) (\<lambda>_.
     returnS (JObj PlainObj [(''ok'', JBool True), (''approvalId'', JStr (ap_id approval)),
       (''state'', JStr (approval_state_tag (ap_state approval)))]))))"

section \<open>Invoices\<close>

record InvoiceRecord =
  iv_tenantId :: string
  iv_id :: string
  iv_value :: jsval

definition checkInvoice :: "string \<Rightarrow> string \<Rightarrow> InvoiceRecord option \<Rightarrow> jsval cap" where
  "checkInvoice tenantId invoiceId found =
     (case found of
        None \<Rightarrow> Inl (CapabilityDeniedError (''invoice.read invoice '' @ invoiceId @ '' was not found''))
      | Some invoice \<Rightarrow>
          if iv_tenantId invoice \<noteq> tenantId
          then Inl (CapabilityDeniedError (''invoice.read invoice '' @ invoiceId @ '' is outside tenant scope''))
          else Inr (iv_value invoice))"

definition invoiceReadProvider ::
  "string \<Rightarrow> (string \<Rightarrow> string \<Rightarrow> ('w, cap_error, InvoiceRecord option) step) \<Rightarrow> jsval \<Rightarrow>
   ('w, cap_error, jsval) step" where
  "invoiceReadProvider tenantId findInvoice input =
     bindS (liftS (parseInvoiceReadInput input)) (\<lambda>(requestTenant, invoiceId).
     bindS (liftS (case requestTenant of
              Some t \<Rightarrow> guardE (t = tenantId)
                (CapabilityDeniedError (''invoice.read tenant '' @ t @ '' is outside tenant scope''))
            | None \<Rightarrow> Inr ())) (\<lambda>_.
     bindS (findInvoice tenantId invoiceId) (\<lambda>found. liftS (checkInvoice tenantId invoiceId found))))"

section \<open>Email\<close>

record email_config =
  ec_apiKey :: string
  ec_templates :: "(string \<times> EmailTemplate) list"

fun snapshotTemplates ::
  "(string \<times> EmailTemplate) list \<Rightarrow> (string \<times> EmailTemplate) list \<Rightarrow> ((string \<times> EmailTemplate) list) cap" where
  "snapshotTemplates [] acc = Inr acc"
| "snapshotTemplates ((name, template) # rest) acc =
     bindE (validateEmailTemplate name template) (\<lambda>_. snapshotTemplates rest (obj_set acc name template))"

definition createEmailSendProvider :: "string \<Rightarrow> (string \<times> EmailTemplate) list \<Rightarrow> email_config cap" where
  "createEmailSendProvider apiKey templates =
     (if trim apiKey = [] then Inl (PlainError ''email provider API key must not be empty'')
      else bindE (snapshotTemplates templates []) (\<lambda>ts. Inr \<lparr>ec_apiKey = apiKey, ec_templates = ts\<rparr>))"

definition emailSendProvider ::
  "email_config \<Rightarrow> (EmailDelivery \<Rightarrow> string \<Rightarrow> ('w, cap_error, unit) step) \<Rightarrow> jsval \<Rightarrow> ('w, cap_error, jsval) step" where
  "emailSendProvider cfg deliver input =
     bindS (liftS (parseEmailSendInput input)) (\<lambda>request.
     bindS (liftS (case map_of (ec_templates cfg) (em_template request) of
              None \<Rightarrow> Inl (CapabilityDeniedError (''email.send template '' @ em_template request @ '' is unavailable''))
            | Some template \<Rightarrow> renderEmailTemplate request template)) (\<lambda>message.
     bindS (deliver message (ec_apiKey cfg)) (\<lambda>_.
     returnS (JObj PlainObj [(''ok'', JBool True), (''provider'', JStr ''email'')]))))"

section \<open>Mock Slack\<close>

definition mockSlackSendProvider ::
  "string \<Rightarrow> (string \<times> string \<Rightarrow> ('w, cap_error, unit) step) \<Rightarrow> (jsval \<Rightarrow> ('w, cap_error, jsval) step) cap" where
  "mockSlackSendProvider token deliver =
     (if length token = 0 then Inl (PlainError ''mock Slack token must not be empty'')
      else Inr (\<lambda>input.
        bindS (liftS (parseSlackSendInput input)) (\<lambda>message.
        bindS (deliver message) (\<lambda>_.
        returnS (JObj PlainObj [(''ok'', JBool True), (''provider'', JStr ''mock-slack'')])))))"

section \<open>Rotating tokens\<close>

record ProviderToken =
  pt_id :: string
  pt_value :: string

record ProviderTokenRotationSnapshot =
  tr_active :: ProviderToken
  tr_candidate :: "ProviderToken option"

definition tokenIdPattern :: "string \<Rightarrow> bool" where
  "tokenIdPattern s \<longleftrightarrow>
     s \<noteq> [] \<and> is_alnum (hd s) \<and> length s \<le> 128 \<and> list_all (\<lambda>c. is_alnum c \<or> c \<in> set ''._-'') (tl s)"

definition normalizeProviderToken :: "jsval \<Rightarrow> ProviderToken option" where
  "normalizeProviderToken v =
     (if \<not> isClosedRecord v [''id'', ''value''] then None
      else (case (js_get v ''id'', js_get v ''value'') of
              (JStr i, JStr t) \<Rightarrow> if tokenIdPattern i \<and> t \<noteq> [] then Some \<lparr>pt_id = i, pt_value = t\<rparr> else None
            | _ \<Rightarrow> None))"

definition normalizeProviderTokenSnapshot :: "jsval \<Rightarrow> ProviderTokenRotationSnapshot cap" where
  "normalizeProviderTokenSnapshot v =
     (let invalid = Inl (ProviderTokenRotationError provider_token_snapshot_invalid) in
      if \<not> isClosedRecord v [''active'', ''candidate''] then invalid
      else (case normalizeProviderToken (js_get v ''active'') of
              None \<Rightarrow> invalid
            | Some active \<Rightarrow>
                if js_get v ''candidate'' = JUndef then Inr \<lparr>tr_active = active, tr_candidate = None\<rparr>
                else (case normalizeProviderToken (js_get v ''candidate'') of
                        None \<Rightarrow> invalid
                      | Some candidate \<Rightarrow>
                          if pt_id candidate = pt_id active then invalid
                          else Inr \<lparr>tr_active = active, tr_candidate = Some candidate\<rparr>)))"

definition sanitizeProviderInvocationError :: "cap_error \<Rightarrow> cap_error" where
  "sanitizeProviderInvocationError e =
     (if e = ProviderCredentialRejectedError then ProviderTokenRotationError provider_credentials_rejected
      else ProviderTokenRotationError provider_invocation_failed)"

text \<open>The world lists the tokens handed to \<open>invoke\<close>, in order.\<close>

record 'w token_world =
  tw_world :: 'w
  tw_invoked :: "string list"

definition invokeToken ::
  "(string \<Rightarrow> jsval \<Rightarrow> ('w, cap_error, jsval) step) \<Rightarrow> string \<Rightarrow> jsval \<Rightarrow> ('w token_world, cap_error, jsval) step" where
  "invokeToken invoke token input s =
     (case invoke token input (tw_world s) of
        (r, w) \<Rightarrow> (r, s\<lparr>tw_world := w, tw_invoked := tw_invoked s @ [token]\<rparr>))"

definition resolveSnapshot ::
  "('w, cap_error, jsval) step \<Rightarrow> ('w token_world, cap_error, ProviderTokenRotationSnapshot) step" where
  "resolveSnapshot resolveTokens s =
     (case resolveTokens (tw_world s) of
        (Inl _, w) \<Rightarrow> (Inl (ProviderTokenRotationError provider_token_source_unavailable), s\<lparr>tw_world := w\<rparr>)
      | (Inr v, w) \<Rightarrow> (normalizeProviderTokenSnapshot v, s\<lparr>tw_world := w\<rparr>))"

definition invokeWithFallback ::
  "(string \<Rightarrow> jsval \<Rightarrow> ('w, cap_error, jsval) step) \<Rightarrow> jsval \<Rightarrow> ProviderTokenRotationSnapshot \<Rightarrow>
   ('w token_world, cap_error, jsval) step" where
  "invokeWithFallback invoke input snapshot s =
     (let primary = (case tr_candidate snapshot of Some c \<Rightarrow> c | None \<Rightarrow> tr_active snapshot) in
      case invokeToken invoke (pt_value primary) input s of
        (Inr v, s') \<Rightarrow> (Inr v, s')
      | (Inl e, s') \<Rightarrow>
          if tr_candidate snapshot = None \<or> e \<noteq> ProviderCredentialRejectedError
          then (Inl (sanitizeProviderInvocationError e), s')
          else (case invokeToken invoke (pt_value (tr_active snapshot)) input s' of
                  (Inr v, s'') \<Rightarrow> (Inr v, s'')
                | (Inl e', s'') \<Rightarrow> (Inl (sanitizeProviderInvocationError e'), s'')))"

definition rotatingTokenProvider ::
  "('w, cap_error, jsval) step \<Rightarrow> (string \<Rightarrow> jsval \<Rightarrow> ('w, cap_error, jsval) step) \<Rightarrow> jsval \<Rightarrow>
   ('w token_world, cap_error, jsval) step" where
  "rotatingTokenProvider resolveTokens invoke input =
     bindS (resolveSnapshot resolveTokens) (invokeWithFallback invoke input)"

definition githubIssueCreateProvider ::
  "('w, cap_error, jsval) step \<Rightarrow> (string \<Rightarrow> GitHubIssueCreateRequest \<Rightarrow> ('w, cap_error, jsval) step) \<Rightarrow> jsval \<Rightarrow>
   ('w token_world, cap_error, jsval) step" where
  "githubIssueCreateProvider resolveTokens createIssue input =
     bindS (liftS (parseGitHubIssueCreateInput input)) (\<lambda>request.
       rotatingTokenProvider resolveTokens
         (\<lambda>token _. bindS (createIssue token request) (\<lambda>result.
            liftS (normalizeGitHubIssueCreateResult result (gh_repository request)))) input)"

section \<open>The Slack provider\<close>

datatype slack_code =
    slack_send_invalid_configuration | slack_send_input_invalid | slack_send_credential_unavailable
  | slack_send_delivery_rejected | slack_send_delivery_ambiguous

definition slack_max_response_bytes :: int where
  "slack_max_response_bytes = 65536"

definition slackChannelPattern :: "string \<Rightarrow> bool" where
  "slackChannelPattern s \<longleftrightarrow>
     s \<noteq> [] \<and> hd s \<in> set ''CDG'' \<and> 3 \<le> length s \<and> length s \<le> 128 \<and>
     list_all (\<lambda>c. is_upper c \<or> is_digit c) (tl s)"

definition slackTimestampPattern :: "string \<Rightarrow> bool" where
  "slackTimestampPattern s \<longleftrightarrow>
     (case split_on CHR ''.'' s of
        [a, b] \<Rightarrow> list_all (\<lambda>p. 1 \<le> length p \<and> length p \<le> 20 \<and> list_all is_digit p) [a, b]
      | _ \<Rightarrow> False)"

definition slackTokenPattern :: "string \<Rightarrow> bool" where
  "slackTokenPattern s \<longleftrightarrow>
     s \<noteq> [] \<and> list_all (\<lambda>c. 33 \<le> code c \<and> code c \<le> 126) s \<and> int (utf8_length s) \<le> 7500"

definition createSlackSendProvider :: "jsnum option \<Rightarrow> (slack_code, int) outcome" where
  "createSlackSendProvider timeoutMs =
     (case timeoutMs of
        None \<Rightarrow> Inr 10000
      | Some (NInt i) \<Rightarrow> if i < 1 \<or> 60000 < i then Inl slack_send_invalid_configuration else Inr i
      | _ \<Rightarrow> Inl slack_send_invalid_configuration)"

definition parseSlackMessage :: "jsval \<Rightarrow> (slack_code, string \<times> string) outcome" where
  "parseSlackMessage input =
     (case (isRecord input, js_get input ''channel'', js_get input ''text'') of
        (True, JStr channel, JStr txt) \<Rightarrow>
          if length (own_keys input) = 2 \<and> slackChannelPattern channel \<and> txt \<noteq> [] \<and> int (utf8_length txt) \<le> 40000
          then Inr (channel, txt) else Inl slack_send_input_invalid
      | _ \<Rightarrow> Inl slack_send_input_invalid)"

text \<open>What \<open>fetch\<close> returns: the parts of the response the provider reads, the body as chunks.\<close>

record slack_response =
  sr_status :: int
  sr_redirected :: bool
  sr_contentType :: "string option"
  sr_contentLength :: "string option"
  sr_body :: "(string list) option"

fun readChunks :: "string list \<Rightarrow> string \<Rightarrow> (slack_code, string) outcome" where
  "readChunks [] acc = Inr acc"
| "readChunks (c # cs) acc =
     (if slack_max_response_bytes < int (length acc + length c) then Inl slack_send_delivery_ambiguous
      else readChunks cs (acc @ c))"

definition mediaType :: "string \<Rightarrow> string" where
  "mediaType contentType = trim (hd (split_on CHR '';'' (toLowerCase contentType)))"

definition readBoundedJson :: "(string \<Rightarrow> jsval option) \<Rightarrow> slack_response \<Rightarrow> (slack_code, jsval) outcome" where
  "readBoundedJson decodeJson response =
     (let ambiguous = Inl slack_send_delivery_ambiguous in
      if map_option mediaType (sr_contentType response) \<noteq> Some ''application/json'' then ambiguous
      else if (case sr_contentLength response of
                 None \<Rightarrow> False
               | Some n \<Rightarrow> n = [] \<or> \<not> list_all is_digit n \<or> slack_max_response_bytes < int (read_nat n))
      then ambiguous
      else (case sr_body response of
              None \<Rightarrow> ambiguous
            | Some chunks \<Rightarrow>
                bindE (readChunks chunks []) (\<lambda>bytes.
                  case decodeJson bytes of None \<Rightarrow> ambiguous | Some v \<Rightarrow> Inr v)))"

definition parseSlackSendSuccess :: "jsval \<Rightarrow> (slack_code, string \<times> string) outcome" where
  "parseSlackSendSuccess v =
     (case (isRecord v \<and> js_get v ''ok'' = JBool True, js_get v ''channel'', js_get v ''ts'') of
        (True, JStr channel, JStr ts) \<Rightarrow>
          if slackChannelPattern channel \<and> slackTimestampPattern ts then Inr (channel, ts)
          else Inl slack_send_delivery_ambiguous
      | _ \<Rightarrow> Inl slack_send_delivery_ambiguous)"

definition slackDelivered :: "(string \<Rightarrow> jsval option) \<Rightarrow> slack_response \<Rightarrow> (slack_code, string \<times> string) outcome" where
  "slackDelivered decodeJson response =
     (if sr_status response \<noteq> 200 \<or> sr_redirected response then Inl slack_send_delivery_ambiguous
      else bindE (readBoundedJson decodeJson response) (\<lambda>v.
        if isRecord v \<and> js_get v ''ok'' = JBool False \<and> is_string (js_get v ''error'')
        then Inl slack_send_delivery_rejected
        else parseSlackSendSuccess v))"

record 'w slack_world =
  sl_world :: 'w
  sl_posted :: "(string \<times> string \<times> string) list"  \<comment> \<open>access token, channel, text\<close>

text \<open>
  One call: the message is posted to the fixed URL at most once, with the resolved token; whatever
  \<open>fetch\<close> throws (an abort at the timeout included) is an ambiguous delivery.
\<close>

definition slackSendProvider ::
  "('w, cap_error, jsval) step \<Rightarrow> (string \<Rightarrow> string \<times> string \<Rightarrow> ('w, cap_error, slack_response) step) \<Rightarrow>
   (string \<Rightarrow> jsval option) \<Rightarrow> jsval \<Rightarrow> ('w slack_world, slack_code, string \<times> string) step" where
  "slackSendProvider resolveAccessToken fetcher decodeJson input s =
     (case parseSlackMessage input of
        Inl e \<Rightarrow> (Inl e, s)
      | Inr message \<Rightarrow>
          (case resolveAccessToken (sl_world s) of
             (Inl _, w) \<Rightarrow> (Inl slack_send_credential_unavailable, s\<lparr>sl_world := w\<rparr>)
           | (Inr tokenV, w) \<Rightarrow>
               (case tokenV of
                  JStr token \<Rightarrow>
                    if \<not> slackTokenPattern token
                    then (Inl slack_send_credential_unavailable, s\<lparr>sl_world := w\<rparr>)
                    else (case fetcher token message w of
                        (Inl _, w') \<Rightarrow> (Inl slack_send_delivery_ambiguous,
                           s\<lparr>sl_world := w', sl_posted := sl_posted s @ [(token, message)]\<rparr>)
                      | (Inr response, w') \<Rightarrow> (slackDelivered decodeJson response,
                           s\<lparr>sl_world := w', sl_posted := sl_posted s @ [(token, message)]\<rparr>))
                | _ \<Rightarrow> (Inl slack_send_credential_unavailable, s\<lparr>sl_world := w\<rparr>))))"

section \<open>Template scanning loses nothing\<close>

fun pieceSource :: "template_piece \<Rightarrow> string" where
  "pieceSource (Literal c) = [c]"
| "pieceSource (Placeholder n) = ''{{'' @ n @ ''}}''"

lemma placeholderAt_source: "placeholderAt s = Some (n, r) \<Longrightarrow> s = ''{{'' @ n @ ''}}'' @ r"
proof -
  assume a: "placeholderAt s = Some (n, r)"
  define rest where "rest = dropWhile is_name_char (drop 2 s)"
  have p: "take 2 s = ''{{''" "n = takeWhile is_name_char (drop 2 s)" "take 2 rest = ''}}''" "r = drop 2 rest"
    using a by (auto simp: placeholderAt_def Let_def startsWith_def rest_def numeral_2_eq_2 split: if_splits)
  have "s = take 2 s @ n @ rest" using p(2) by (simp add: rest_def)
  also have "rest = take 2 rest @ r" using p(4) by simp
  finally show ?thesis using p(1,3) by simp
qed

lemma templatePieces_source: "concat (List.map pieceSource (templatePieces s)) = s"
proof (induction s rule: templatePieces.induct)
  case (1 s)
  show ?case
  proof (cases s)
    case (Cons c cs)
    show ?thesis
    proof (cases "placeholderAt s")
      case None
      then have "concat (List.map pieceSource (templatePieces cs)) = cs"
        using 1 Cons by blast
      then show ?thesis using Cons None by (subst templatePieces.simps) simp
    next
      case (Some nr)
      obtain n r where nr: "nr = (n, r)" by fastforce
      have "concat (List.map pieceSource (templatePieces r)) = r"
        using 1 Cons Some nr by blast
      then show ?thesis
        using Some nr Cons placeholderAt_source [of s n r] by (subst templatePieces.simps) simp
    qed
  qed (simp add: templatePieces.simps)
qed

lemma renderSource_identity:
  assumes "\<And>n. n \<in> set (placeholders s) \<Longrightarrow> map_of vars n = Some (''{{'' @ n @ ''}}'')"
  shows "renderSource vars s = s"
proof -
  have "(case p of Literal c \<Rightarrow> [c] | Placeholder n \<Rightarrow> (case map_of vars n of Some v \<Rightarrow> v | None \<Rightarrow> [])) = pieceSource p"
    if "p \<in> set (templatePieces s)" for p
    using assms that by (cases p) (force simp: placeholders_def)+
  then show ?thesis
    using templatePieces_source [of s] unfolding renderSource_def by (simp cong: map_cong)
qed

lemma renderEmailTemplate_Inr:
  assumes "renderEmailTemplate request t = Inr m"
  shows "dl_to m = em_to request \<and> \<not> has_line_break (dl_subject m) \<and>
    dl_subject m = renderSource (em_variables request) (et_subject t) \<and>
    dl_text m = renderSource (em_variables request) (et_text t) \<and>
    set (List.map fst (em_variables request)) = set (placeholders (et_subject t)) \<union> set (placeholders (et_text t))"
proof -
  define required where "required = distinct_first (placeholders (et_subject t) @ placeholders (et_text t))"
  have "List.find (\<lambda>n. n \<notin> set (List.map fst (em_variables request))) required = None"
    and "List.find (\<lambda>n. n \<notin> set required) (List.map fst (em_variables request)) = None"
    and rest: "\<not> has_line_break (dl_subject m)" "dl_to m = em_to request"
      "dl_subject m = renderSource (em_variables request) (et_subject t)"
      "dl_text m = renderSource (em_variables request) (et_text t)"
    using assms
    by (auto simp: renderEmailTemplate_def Let_def required_def split: option.splits if_splits)
  then have "set required = set (List.map fst (em_variables request))"
    unfolding find_None_iff by blast
  then show ?thesis using rest by (simp add: required_def Un_commute)
qed

lemma parseEmailSendInput_domain:
  "parseEmailSendInput input = Inr request \<Longrightarrow> \<exists>d. emailRecipientDomain (em_to request) = Inr d"
  by (auto simp: parseEmailSendInput_def Let_def bindE_Inr split: if_splits jsval.splits)

lemma emailRecipientDomain_valid:
  "emailRecipientDomain a = Inr d \<Longrightarrow> isValidEmailDomain d \<and> \<not> has_line_break a \<and> length a \<le> 254"
  by (auto simp: emailRecipientDomain_def Let_def split: if_splits list.splits)

section \<open>Properties\<close>

text \<open>
  Outgoing mail is well formed. A call either delivers nothing and fails, or hands the transport
  exactly one message: addressed to one valid recipient, with a subject without line breaks, rendered
  from a stored template whose placeholders are exactly the supplied variables.
\<close>

definition mail_from_template :: "email_config \<Rightarrow> jsval \<Rightarrow> EmailDelivery \<Rightarrow> bool" where
  "mail_from_template cfg input m \<longleftrightarrow>
     (\<exists>request t d. parseEmailSendInput input = Inr request \<and>
        map_of (ec_templates cfg) (em_template request) = Some t \<and>
        dl_to m = em_to request \<and> emailRecipientDomain (dl_to m) = Inr d \<and> isValidEmailDomain d \<and>
        \<not> has_line_break (dl_to m) \<and> \<not> has_line_break (dl_subject m) \<and>
        dl_subject m = renderSource (em_variables request) (et_subject t) \<and>
        dl_text m = renderSource (em_variables request) (et_text t) \<and>
        set (List.map fst (em_variables request)) =
          set (placeholders (et_subject t)) \<union> set (placeholders (et_text t)))"

theorem email_send_well_formed:
  assumes "emailSendProvider cfg deliver input s = (r, t)"
  shows "t = s \<and> (\<exists>e. r = Inl e) \<or>
    (\<exists>m res. mail_from_template cfg input m \<and> deliver m (ec_apiKey cfg) s = (res, t) \<and>
       (case res of Inl e \<Rightarrow> r = Inl e
        | Inr _ \<Rightarrow> r = Inr (JObj PlainObj [(''ok'', JBool True), (''provider'', JStr ''email'')])))"
proof (cases "parseEmailSendInput input")
  case (Inl e)
  then show ?thesis using assms by (auto simp: emailSendProvider_def bindS_def)
next
  case (Inr request)
  show ?thesis
  proof (cases "case map_of (ec_templates cfg) (em_template request) of
        None \<Rightarrow> Inl (CapabilityDeniedError (''email.send template '' @ em_template request @ '' is unavailable''))
      | Some template \<Rightarrow> renderEmailTemplate request template")
    case (Inl e)
    then show ?thesis using assms Inr by (auto simp: emailSendProvider_def bindS_def)
  next
    case rendered: (Inr m)
    then obtain tm where tm: "map_of (ec_templates cfg) (em_template request) = Some tm"
      "renderEmailTemplate request tm = Inr m" by (auto split: option.splits)
    obtain d where "emailRecipientDomain (em_to request) = Inr d"
      using parseEmailSendInput_domain [OF Inr] by blast
    then have "mail_from_template cfg input m"
      using renderEmailTemplate_Inr [OF tm(2)] emailRecipientDomain_valid Inr tm(1)
      unfolding mail_from_template_def by metis
    moreover obtain res u where "deliver m (ec_apiKey cfg) s = (res, u)" by fastforce
    ultimately show ?thesis
      using assms Inr rendered by (auto simp: emailSendProvider_def bindS_def split: sum.splits)
  qed
qed

definition example_email :: email_config where
  "example_email = \<lparr>ec_apiKey = ''k'', ec_templates = [(''hello'', \<lparr>et_subject = ''Hi {{name}}'', et_text = ''{{name}}!''\<rparr>)]\<rparr>"

definition example_mail_input :: jsval where
  "example_mail_input = JObj PlainObj [(''to'', JStr ''a@b.example''), (''template'', JStr ''hello''),
     (''variables'', JObj PlainObj [(''name'', JStr ''Ada'')])]"

theorem email_send_well_formed_witness:
  "\<exists>m. emailSendProvider example_email (\<lambda>m _ s. (Inr (), s @ [m])) example_mail_input [] =
       (Inr (JObj PlainObj [(''ok'', JBool True), (''provider'', JStr ''email'')]), [m]) \<and>
     mail_from_template example_email example_mail_input m"
proof -
  have run: "map_option (List.map (\<lambda>m. (dl_to m, dl_subject m, dl_text m))) (Some (snd
       (emailSendProvider example_email (\<lambda>m _ s. (Inr (), s @ [m])) example_mail_input []))) =
     Some [(''a@b.example'', ''Hi Ada'', ''Ada!'')]"
    unfolding emailSendProvider_def by (simp add: bindS_def) (code_simp)
  obtain r t where e: "emailSendProvider example_email (\<lambda>m _ s. (Inr (), s @ [m])) example_mail_input [] = (r, t)"
    by fastforce
  have "t \<noteq> []" using run by (auto simp: e)
  with email_send_well_formed [OF e] e show ?thesis by auto
qed

lemma sanitized: "\<exists>c. sanitizeProviderInvocationError e = ProviderTokenRotationError c"
  by (simp add: sanitizeProviderInvocationError_def)

lemma invokeWithFallback_effects:
  assumes "invokeWithFallback invoke input snapshot s = (r, t)"
  shows "(tw_invoked t = tw_invoked s @ [pt_value (case tr_candidate snapshot of Some c \<Rightarrow> c | None \<Rightarrow> tr_active snapshot)] \<or>
     (\<exists>c w'. tr_candidate snapshot = Some c \<and>
        tw_invoked t = tw_invoked s @ [pt_value c, pt_value (tr_active snapshot)] \<and>
        invoke (pt_value c) input (tw_world s) = (Inl ProviderCredentialRejectedError, w'))) \<and>
    (\<forall>e. r = Inl e \<longrightarrow> (\<exists>c. e = ProviderTokenRotationError c))"
proof (cases "tr_candidate snapshot")
  case None
  then show ?thesis
    using assms sanitized
    by (auto simp: invokeWithFallback_def invokeToken_def Let_def split: prod.splits sum.splits)
next
  case (Some c)
  obtain y w1 where y: "invoke (pt_value c) input (tw_world s) = (y, w1)" by fastforce
  show ?thesis
  proof (cases "y = Inl ProviderCredentialRejectedError")
    case True
    then show ?thesis
      using assms Some y sanitized
      by (auto simp: invokeWithFallback_def invokeToken_def split: prod.splits sum.splits)
  next
    case False
    then show ?thesis
      using assms Some y sanitized
      by (cases y) (auto simp: invokeWithFallback_def invokeToken_def)
  qed
qed

text \<open>
  Token rotation never replays a side effect. A call invokes the provider at most twice; twice only
  when a candidate token exists and the provider explicitly rejected it, and then with the active
  token; every failure after the snapshot is one of the rotation errors, whatever was thrown.
\<close>

theorem rotating_token_invocations:
  assumes "rotatingTokenProvider resolveTokens invoke input s = (r, t)"
  shows "(\<exists>ts. tw_invoked t = tw_invoked s @ ts \<and>
      (ts = [] \<and> (\<exists>e. r = Inl e) \<or>
       (\<exists>snapshot v w. resolveTokens (tw_world s) = (Inr v, w) \<and> normalizeProviderTokenSnapshot v = Inr snapshot \<and>
          (ts = [pt_value (case tr_candidate snapshot of Some c \<Rightarrow> c | None \<Rightarrow> tr_active snapshot)] \<or>
           (\<exists>c w'. tr_candidate snapshot = Some c \<and> ts = [pt_value c, pt_value (tr_active snapshot)] \<and>
              invoke (pt_value c) input w = (Inl ProviderCredentialRejectedError, w')))))) \<and>
    (\<forall>e. r = Inl e \<longrightarrow> (\<exists>c. e = ProviderTokenRotationError c))"
proof -
  obtain x w where rt: "resolveTokens (tw_world s) = (x, w)" by fastforce
  show ?thesis
  proof (cases x)
    case (Inl e)
    then show ?thesis
      using assms rt by (auto simp: rotatingTokenProvider_def bindS_def resolveSnapshot_def)
  next
    case v: (Inr v)
    show ?thesis
    proof (cases "normalizeProviderTokenSnapshot v")
      case (Inl e)
      then have "\<exists>c. e = ProviderTokenRotationError c"
        by (auto simp: normalizeProviderTokenSnapshot_def Let_def split: if_splits option.splits)
      then show ?thesis
        using assms rt v Inl by (auto simp: rotatingTokenProvider_def bindS_def resolveSnapshot_def)
    next
      case snap: (Inr snapshot)
      have "invokeWithFallback invoke input snapshot (s\<lparr>tw_world := w\<rparr>) = (r, t)"
        using assms rt v snap by (simp add: rotatingTokenProvider_def bindS_def resolveSnapshot_def)
      from invokeWithFallback_effects [OF this] rt v snap show ?thesis by fastforce
    qed
  qed
qed

definition example_snapshot :: jsval where
  "example_snapshot = JObj PlainObj
     [(''active'', JObj PlainObj [(''id'', JStr ''a''), (''value'', JStr ''old'')]),
      (''candidate'', JObj PlainObj [(''id'', JStr ''b''), (''value'', JStr ''new'')])]"

definition example_rotation :: "(cap_error, jsval) outcome \<times> unit token_world" where
  "example_rotation = rotatingTokenProvider (returnS example_snapshot)
     (\<lambda>token _. if token = ''new'' then throwS ProviderCredentialRejectedError else returnS (JBool True)) JNull
     \<lparr>tw_world = (), tw_invoked = []\<rparr>"

theorem rotating_token_invocations_witness:
  "tw_invoked (snd example_rotation) = [''new'', ''old''] \<and>
   (case fst example_rotation of Inl e \<Rightarrow> (\<exists>c. e = ProviderTokenRotationError c) | Inr _ \<Rightarrow> True)"
proof -
  have run: "tw_invoked (snd example_rotation) = [''new'', ''old'']" by code_simp
  obtain r t where e: "example_rotation = (r, t)" by fastforce
  from rotating_token_invocations [OF e [unfolded example_rotation_def]] run show ?thesis
    unfolding e by (auto split: sum.splits)
qed

lemma parseSlackSendSuccess_Inr:
  "parseSlackSendSuccess v = Inr x \<Longrightarrow>
     js_get v ''ok'' = JBool True \<and> slackChannelPattern (fst x) \<and> slackTimestampPattern (snd x)"
  by (cases "isRecord v \<and> js_get v ''ok'' = JBool True"; cases "js_get v ''channel''"; cases "js_get v ''ts''")
     (auto simp: parseSlackSendSuccess_def split: if_splits)

lemma slackDelivered_Inr:
  "slackDelivered decodeJson response = Inr v \<Longrightarrow>
     sr_status response = 200 \<and> \<not> sr_redirected response \<and>
     (\<exists>body. readBoundedJson decodeJson response = Inr body \<and> js_get body ''ok'' = JBool True) \<and>
     slackChannelPattern (fst v) \<and> slackTimestampPattern (snd v)"
  by (auto simp: slackDelivered_def bindE_Inr split: if_splits dest: parseSlackSendSuccess_Inr)

text \<open>
  A Slack message is sent at most once. One call posts at most one message, the validated one, with
  a printable token; it reports success only after a 200 response, not redirected, whose JSON says
  \<open>ok\<close> with a channel and a timestamp.
\<close>

theorem slack_send_at_most_once:
  assumes "slackSendProvider resolveAccessToken fetcher decodeJson input s = (r, t)"
  shows "sl_posted t = sl_posted s \<and> (\<exists>e. r = Inl e) \<or>
    (\<exists>token message res w w'. sl_posted t = sl_posted s @ [(token, message)] \<and>
       parseSlackMessage input = Inr message \<and> slackTokenPattern token \<and>
       fetcher token message w = (res, w') \<and>
       (\<forall>v. r = Inr v \<longrightarrow> (\<exists>response body. res = Inr response \<and> sr_status response = 200 \<and>
          \<not> sr_redirected response \<and> readBoundedJson decodeJson response = Inr body \<and>
          js_get body ''ok'' = JBool True \<and> slackChannelPattern (fst v) \<and> slackTimestampPattern (snd v))))"
proof -
  note ok = slackDelivered_Inr
  show ?thesis
  proof (cases "parseSlackMessage input")
    case (Inl e)
    then show ?thesis using assms by (simp add: slackSendProvider_def) metis
  next
    case (Inr message)
    obtain x w where rt: "resolveAccessToken (sl_world s) = (x, w)" by fastforce
    show ?thesis
    proof (cases "\<exists>token. x = Inr (JStr token) \<and> slackTokenPattern token")
      case False
      then show ?thesis
        using assms Inr rt by (auto simp: slackSendProvider_def split: sum.splits jsval.splits if_splits)
    next
      case True
      then obtain token where tok: "x = Inr (JStr token)" "slackTokenPattern token" by blast
      obtain res w' where f: "fetcher token message w = (res, w')" by fastforce
      have r: "r = (case res of Inl _ \<Rightarrow> Inl slack_send_delivery_ambiguous | Inr response \<Rightarrow> slackDelivered decodeJson response)"
        and t: "sl_posted t = sl_posted s @ [(token, message)]"
        using assms Inr rt tok f by (auto simp: slackSendProvider_def split: sum.splits)
      have "\<forall>v. r = Inr v \<longrightarrow> (\<exists>response body. res = Inr response \<and> sr_status response = 200 \<and>
          \<not> sr_redirected response \<and> readBoundedJson decodeJson response = Inr body \<and>
          js_get body ''ok'' = JBool True \<and> slackChannelPattern (fst v) \<and> slackTimestampPattern (snd v))"
        using r ok by (cases res) auto
      with t Inr tok(2) f show ?thesis by blast
    qed
  qed
qed

definition example_slack_call :: "(slack_code, string \<times> string) outcome \<times> unit slack_world" where
  "example_slack_call = slackSendProvider (returnS (JStr ''xoxb''))
     (\<lambda>_ _. returnS \<lparr>sr_status = 200, sr_redirected = False, sr_contentType = Some ''application/json'',
        sr_contentLength = None, sr_body = Some [''x'']\<rparr>)
     (\<lambda>_. Some (JObj PlainObj [(''ok'', JBool True), (''channel'', JStr ''C123''), (''ts'', JStr ''1.2'')]))
     (JObj PlainObj [(''channel'', JStr ''C123''), (''text'', JStr ''hi'')]) \<lparr>sl_world = (), sl_posted = []\<rparr>"

theorem slack_send_at_most_once_witness:
  "fst example_slack_call = Inr (''C123'', ''1.2'') \<and> length (sl_posted (snd example_slack_call)) = 1"
proof -
  have run: "fst example_slack_call = Inr (''C123'', ''1.2'')" by code_simp
  obtain r t where e: "example_slack_call = (r, t)" by fastforce
  from slack_send_at_most_once [OF e [unfolded example_slack_call_def]] run show ?thesis
    unfolding e by auto
qed

text \<open>
  Invoices stay in their tenant, and grants filter their fields. An invoice the provider returns is
  one that the store found for the provider's own tenant, whatever tenant the input names; and with a
  non-empty field grant the result has no own property outside the granted fields.
\<close>

definition keys_within :: "jsval \<Rightarrow> string list \<Rightarrow> bool" where
  "keys_within v fns \<longleftrightarrow> set (own_keys v) \<subseteq> set fns"

lemma filterFields_keys:
  "fst ` set (snd (filterFields result fs out)) \<subseteq> set fs \<union> fst ` set (snd out)"
proof (induction fs arbitrary: out)
  case (Cons f fs)
  show ?case
    using Cons.IH [of "if has_own result f then
        (if f = ''__proto__'' then
           ((case js_get result f of JNull \<Rightarrow> NullProto | JObj _ _ \<Rightarrow> ForeignProto
               | JArr _ \<Rightarrow> ForeignProto | JDate _ \<Rightarrow> ForeignProto | JFun _ \<Rightarrow> ForeignProto
               | _ \<Rightarrow> fst out), snd out)
         else (fst out, obj_set (snd out) f (js_get result f))) else out"]
    by (auto simp: set_obj_set_keys split: if_splits)
qed simp

theorem invoice_read_confined:
  assumes "invoiceReadProvider tenantId findInvoice input s = (Inr v, t)"
  shows "(\<exists>invoiceId invoice. findInvoice tenantId invoiceId s = (Inr (Some invoice), t) \<and>
      iv_tenantId invoice = tenantId \<and> v = iv_value invoice) \<and>
    (\<forall>grant fns x. js_get grant ''fields'' = JArr fns \<longrightarrow> fns \<noteq> [] \<longrightarrow>
       applyResultScope ''invoice.read'' grant v = Inr x \<longrightarrow> keys_within x (fieldNames fns))"
proof -
  have keys: "keys_within x (fieldNames fns)"
    if "js_get grant ''fields'' = JArr fns" "fns \<noteq> []" "applyResultScope ''invoice.read'' grant v = Inr x"
    for grant fns x
    using that filterFields_keys [of v "fieldNames fns" "(PlainObj, [])"]
    by (simp add: applyResultScope_def grantField_def bindE_Inr keys_within_def own_keys_def
        split: if_splits prod.splits) fastforce
  obtain tenant invoiceId where "parseInvoiceReadInput input = Inr (tenant, invoiceId)"
    using assms by (auto simp: invoiceReadProvider_def bindS_Inr)
  then obtain found u where f: "findInvoice tenantId invoiceId s = (Inr found, u)"
    and r: "checkInvoice tenantId invoiceId found = Inr v" "u = t"
    using assms unfolding invoiceReadProvider_def by (auto simp: bindS_Inr)
  show ?thesis
    using f r keys by (auto simp: checkInvoice_def split: option.splits if_splits)
qed

definition example_invoice :: jsval where
  "example_invoice = JObj PlainObj [(''amount'', JNum (NInt 5)), (''secret'', JStr ''x'')]"

definition example_invoice_call :: "(cap_error, jsval) outcome \<times> unit" where
  "example_invoice_call =
     invoiceReadProvider ''t''
       (\<lambda>tenant i. returnS (Some \<lparr>iv_tenantId = tenant, iv_id = i, iv_value = example_invoice\<rparr>))
       (JObj PlainObj [(''invoiceId'', JStr ''1'')]) ()"

theorem invoice_read_confined_witness:
  "example_invoice_call = (Inr example_invoice, ()) \<and>
   applyResultScope ''invoice.read'' (JObj PlainObj [(''fields'', JArr [JStr ''amount''])]) example_invoice =
     Inr (JObj PlainObj [(''amount'', JNum (NInt 5))]) \<and>
   keys_within (JObj PlainObj [(''amount'', JNum (NInt 5))]) [''amount'']"
proof -
  have e: "example_invoice_call = (Inr example_invoice, ())" by code_simp
  have f: "js_get (JObj PlainObj [(''fields'', JArr [JStr ''amount''])]) ''fields'' = JArr [JStr ''amount'']"
    "fieldNames [JStr ''amount''] = [''amount'']"
    "applyResultScope ''invoice.read'' (JObj PlainObj [(''fields'', JArr [JStr ''amount''])]) example_invoice =
       Inr (JObj PlainObj [(''amount'', JNum (NInt 5))])" by code_simp+
  from invoice_read_confined [OF e [unfolded example_invoice_call_def]] f
  have "keys_within (JObj PlainObj [(''amount'', JNum (NInt 5))]) [''amount'']" by fastforce
  with e f show ?thesis by blast
qed

end
