(* ===== verification/CapHttp.thy ===== *)
theory CapHttp
  imports CapScope
begin

text \<open>
  \<open>createHttpFetchProvider\<close> and \<open>createWebFetchHttpTransport\<close> of
  \<open>packages/capabilities/src/index.ts\<close>: requests to allow-listed public origins, redirects followed by
  the provider itself and credentials bound to one origin. The transport is a parameter; the world is
  its state and the list of requests handed to it.
\<close>

record HttpFetchTransportRequest =
  tq_url :: string
  tq_method :: string
  tq_headers :: "(string \<times> string) list"
  tq_body :: "string option"

record HttpFetchTransportResponse =
  ts_status :: jsnum
  ts_headers :: "((string \<times> string) list) option"
  ts_body :: "jsval option"

record HttpFetchCredential =
  cr_name :: string
  cr_value :: string

record http_config =
  hc_allowedOrigins :: "string list"
  hc_allowedMethods :: "string list"
  hc_credentials :: "(string \<times> HttpFetchCredential) list"
  hc_maxRedirects :: nat

record 'w http_world =
  hw_world :: 'w
  hw_sent :: "HttpFetchTransportRequest list"

section \<open>Creation\<close>

definition normalizeHttpProviderMethods :: "string list \<Rightarrow> string list cap" where
  "normalizeHttpProviderMethods methods =
     (let normalized = List.map toUpperCase methods in
      if normalized = [] \<or> list_ex (\<lambda>m. m \<notin> set supportedHttpMethods) normalized
      then Inl (PlainError ''http.fetch provider methods are invalid'')
      else Inr (distinct_first normalized))"

definition assertHttpProviderMethod :: "string \<Rightarrow> string list \<Rightarrow> unit cap" where
  "assertHttpProviderMethod method allowedMethods =
     guardE (method \<in> set allowedMethods)
       (CapabilityDeniedError (''http.fetch method '' @ method @ '' is outside provider scope''))"

definition storeCredential ::
  "runtime \<Rightarrow> string \<Rightarrow> HttpFetchCredential \<Rightarrow> string \<Rightarrow> (string \<times> HttpFetchCredential) list \<Rightarrow>
   ((string \<times> HttpFetchCredential) list) cap" where
  "storeCredential rt origin credential name credentials =
     (if isUnsafeCredentialHeader name \<or> cr_value credential = [] \<or> has_line_break (cr_value credential)
      then Inl (PlainError (''http.fetch credential for '' @ origin @ '' is invalid''))
      else (case rt_parseURL rt origin of
        None \<Rightarrow> Inl TypeError
      | Some u \<Rightarrow>
          if url_protocol u \<noteq> ''https:''
          then Inl (PlainError (''http.fetch credential origin '' @ origin @ '' must use HTTPS''))
          else if map_of credentials origin \<noteq> None
          then Inl (PlainError (''http.fetch credential origin '' @ origin @ '' is duplicated''))
          else Inr (obj_set credentials origin \<lparr>cr_name = name, cr_value = cr_value credential\<rparr>)))"

definition registerCredential ::
  "runtime \<Rightarrow> string list \<Rightarrow> string \<times> HttpFetchCredential \<Rightarrow> (string \<times> HttpFetchCredential) list \<Rightarrow>
   ((string \<times> HttpFetchCredential) list) cap" where
  "registerCredential rt allowedOrigins entry credentials =
     bindE (normalizeHttpOrigins (rt_parseURL rt) (rt_show rt) (JArr [JStr (fst entry)]) CredentialSource) (\<lambda>origins.
     if origins = [] \<or> hd origins \<notin> set allowedOrigins
     then Inl (PlainError (''http.fetch credential origin '' @ fst entry @ '' is not allowed''))
     else bindE (normalizeHttpHeaderName (cr_name (snd entry))) (\<lambda>name.
       storeCredential rt (hd origins) (snd entry) name credentials))"

fun registerCredentials ::
  "runtime \<Rightarrow> string list \<Rightarrow> (string \<times> HttpFetchCredential) list \<Rightarrow> (string \<times> HttpFetchCredential) list \<Rightarrow>
   ((string \<times> HttpFetchCredential) list) cap" where
  "registerCredentials rt allowedOrigins [] credentials = Inr credentials"
| "registerCredentials rt allowedOrigins (e # es) credentials =
     bindE (registerCredential rt allowedOrigins e credentials) (\<lambda>c. registerCredentials rt allowedOrigins es c)"

definition checkMaxRedirects :: "jsnum option \<Rightarrow> nat cap" where
  "checkMaxRedirects n =
     (case n of
        None \<Rightarrow> Inr 5
      | Some (NInt i) \<Rightarrow>
          if i < 0 \<or> 10 < i then Inl (PlainError ''http.fetch maxRedirects must be between 0 and 10'')
          else Inr (nat i)
      | _ \<Rightarrow> Inl (PlainError ''http.fetch maxRedirects must be between 0 and 10''))"

definition createHttpFetchProvider ::
  "runtime \<Rightarrow> string list \<Rightarrow> string list \<Rightarrow> (string \<times> HttpFetchCredential) list \<Rightarrow> jsnum option \<Rightarrow> http_config cap" where
  "createHttpFetchProvider rt origins methods credentials maxRedirects =
     bindE (normalizeHttpOrigins (rt_parseURL rt) (rt_show rt) (JArr (List.map JStr origins)) ProviderSource) (\<lambda>allowedOrigins.
     bindE (normalizeHttpProviderMethods methods) (\<lambda>allowedMethods.
     bindE (registerCredentials rt allowedOrigins credentials []) (\<lambda>creds.
     bindE (checkMaxRedirects maxRedirects) (\<lambda>n.
       Inr \<lparr>hc_allowedOrigins = allowedOrigins, hc_allowedMethods = allowedMethods,
            hc_credentials = creds, hc_maxRedirects = n\<rparr>))))"

section \<open>Responses\<close>

fun statusInteger :: "jsnum \<Rightarrow> int option" where
  "statusInteger (NInt i) = Some i"
| "statusInteger _ = None"

definition validateHttpFetchResponse :: "HttpFetchTransportResponse \<Rightarrow> unit cap" where
  "validateHttpFetchResponse response =
     (case statusInteger (ts_status response) of
        None \<Rightarrow> Inl (PlainError ''http.fetch transport returned an invalid status'')
      | Some n \<Rightarrow> guardE (200 \<le> n \<and> n \<le> 599) (PlainError ''http.fetch transport returned an invalid status''))"

definition responseHeaders :: "HttpFetchTransportResponse \<Rightarrow> (string \<times> string) list" where
  "responseHeaders response = (case ts_headers response of None \<Rightarrow> [] | Some hs \<Rightarrow> hs)"

definition redirectLocation :: "HttpFetchTransportResponse \<Rightarrow> string option" where
  "redirectLocation response =
     map_option snd (List.find (\<lambda>h. toLowerCase (fst h) = ''location'') (responseHeaders response))"

definition isRedirectStatus :: "jsnum \<Rightarrow> bool" where
  "isRedirectStatus status \<longleftrightarrow>
     status = NInt 301 \<or> status = NInt 302 \<or> status = NInt 303 \<or> status = NInt 307 \<or> status = NInt 308"

definition resolveHttpRedirect :: "runtime \<Rightarrow> string \<Rightarrow> URL \<Rightarrow> URL cap" where
  "resolveHttpRedirect rt location current =
     (case rt_resolveURL rt location current of
        None \<Rightarrow> Inl (CapabilityDeniedError ''http.fetch redirect location is invalid'')
      | Some u \<Rightarrow> parseHttpFetchUrl (rt_parseURL rt) (url_href u))"

definition sensitiveResponseHeader :: "string \<Rightarrow> bool" where
  "sensitiveResponseHeader name \<longleftrightarrow>
     name \<in> {''set-cookie'', ''set-cookie2'', ''proxy-authenticate'', ''www-authenticate''}"

definition sanitizeHttpFetchResponse :: "HttpFetchTransportResponse \<Rightarrow> HttpFetchTransportResponse" where
  "sanitizeHttpFetchResponse response =
     \<lparr>ts_status = ts_status response,
      ts_headers = Some (fold (\<lambda>h acc. let name = toLowerCase (fst h) in
          if sensitiveResponseHeader name then acc else assign_primitive acc name (snd h))
          (responseHeaders response) []),
      ts_body = ts_body response\<rparr>"

section \<open>The provider\<close>

definition sendRequest ::
  "(HttpFetchTransportRequest \<Rightarrow> ('w, cap_error, HttpFetchTransportResponse) step) \<Rightarrow>
   HttpFetchTransportRequest \<Rightarrow> ('w http_world, cap_error, HttpFetchTransportResponse) step" where
  "sendRequest transport req s =
     (case transport req (hw_world s) of
        (r, w) \<Rightarrow> (r, s\<lparr>hw_world := w, hw_sent := hw_sent s @ [req]\<rparr>))"

definition transportHeaders ::
  "HttpFetchCredential option \<Rightarrow> (string \<times> string) list \<Rightarrow> (string \<times> string) list" where
  "transportHeaders credential headers =
     (case credential of None \<Rightarrow> headers | Some c \<Rightarrow> assign_primitive headers (cr_name c) (cr_value c))"

text \<open>
  What follows a redirect: the new method, body and headers. Only 303, and 301 or 302 after a
  \<open>POST\<close>, turn the request into a \<open>GET\<close> without a body.
\<close>

definition redirectRewrites :: "jsnum \<Rightarrow> string \<Rightarrow> bool" where
  "redirectRewrites status method \<longleftrightarrow>
     status = NInt 303 \<or> ((status = NInt 301 \<or> status = NInt 302) \<and> method = ''POST'')"

text \<open>
  The redirect loop with the number of redirects left, \<open>maxRedirects - redirectCount\<close>.
\<close>

fun httpLoop ::
  "runtime \<Rightarrow> http_config \<Rightarrow> (HttpFetchTransportRequest \<Rightarrow> ('w, cap_error, HttpFetchTransportResponse) step) \<Rightarrow>
   nat \<Rightarrow> URL \<Rightarrow> string \<Rightarrow> string option \<Rightarrow> (string \<times> string) list \<Rightarrow>
   ('w http_world, cap_error, HttpFetchTransportResponse) step" where
  "httpLoop rt cfg transport left destination method body headers s =
     (let credential = map_of (hc_credentials cfg) (url_origin destination) in
      if (case credential of None \<Rightarrow> False | Some c \<Rightarrow> map_of headers (cr_name c) \<noteq> None)
      then (Inl (CapabilityDeniedError (''http.fetch header '' @ cr_name (the credential)
              @ '' cannot be supplied by the plugin'')), s)
      else (case sendRequest transport
              \<lparr>tq_url = url_href destination, tq_method = method,
               tq_headers = transportHeaders credential headers, tq_body = body\<rparr> s of
          (Inl e, s') \<Rightarrow> (Inl e, s')
        | (Inr response, s') \<Rightarrow>
            (case validateHttpFetchResponse response of
               Inl e \<Rightarrow> (Inl e, s')
             | Inr _ \<Rightarrow>
                 (case redirectLocation response of
                    None \<Rightarrow> (Inr (sanitizeHttpFetchResponse response), s')
                  | Some location \<Rightarrow>
                      if \<not> isRedirectStatus (ts_status response)
                      then (Inr (sanitizeHttpFetchResponse response), s')
                      else (case left of
                          0 \<Rightarrow> (Inl (CapabilityDeniedError ''http.fetch exceeded redirect limit''), s')
                        | Suc left' \<Rightarrow>
                            (case bindE (resolveHttpRedirect rt location destination) (\<lambda>next.
                                  bindE (assertHttpFetchDestination next (hc_allowedOrigins cfg)) (\<lambda>_. Inr next)) of
                               Inl e \<Rightarrow> (Inl e, s')
                             | Inr next \<Rightarrow>
                                 if redirectRewrites (ts_status response) method then
                                   (case assertHttpProviderMethod ''GET'' (hc_allowedMethods cfg) of
                                      Inl e \<Rightarrow> (Inl e, s')
                                    | Inr _ \<Rightarrow> httpLoop rt cfg transport left' next ''GET'' None
                                        (filter (\<lambda>h. fst h \<noteq> ''content-type'') headers) s')
                                 else httpLoop rt cfg transport left' next method body headers s'))))))"

declare httpLoop.simps [simp del]

definition httpFetchProvider ::
  "runtime \<Rightarrow> http_config \<Rightarrow> (HttpFetchTransportRequest \<Rightarrow> ('w, cap_error, HttpFetchTransportResponse) step) \<Rightarrow>
   jsval \<Rightarrow> ('w http_world, cap_error, HttpFetchTransportResponse) step" where
  "httpFetchProvider rt cfg transport input s =
     (case bindE (parseHttpFetchInput input) (\<lambda>request.
           bindE (assertHttpProviderMethod (hf_method request) (hc_allowedMethods cfg)) (\<lambda>_.
           bindE (parseHttpFetchUrl (rt_parseURL rt) (hf_url request)) (\<lambda>destination.
           bindE (assertHttpFetchDestination destination (hc_allowedOrigins cfg)) (\<lambda>_.
             Inr (request, destination))))) of
        Inl e \<Rightarrow> (Inl e, s)
      | Inr (request, destination) \<Rightarrow>
          httpLoop rt cfg transport (hc_maxRedirects cfg) destination (hf_method request) (hf_body request)
            (hf_headers request) s)"

section \<open>The web transport\<close>

text \<open>
  \<open>fetch\<close> is called with \<open>redirect: "manual"\<close> and \<open>credentials: "omit"\<close>; its response is a status,
  the header entries and the body text, read only when the status is not a redirect.
\<close>

record web_response =
  web_status :: int
  web_headers :: "(string \<times> string) list"
  web_text :: string

definition createWebFetchHttpTransport ::
  "(HttpFetchTransportRequest \<Rightarrow> ('w, cap_error, web_response) step) \<Rightarrow> HttpFetchTransportRequest \<Rightarrow>
   ('w, cap_error, HttpFetchTransportResponse) step" where
  "createWebFetchHttpTransport fetcher request =
     bindS (fetcher request) (\<lambda>response.
       returnS \<lparr>ts_status = NInt (web_status response), ts_headers = Some (web_headers response),
                ts_body = (if isRedirectStatus (NInt (web_status response)) then None
                           else Some (JStr (web_text response)))\<rparr>)"

section \<open>What may be sent\<close>

text \<open>
  A request is permitted when its URL is that of a public destination with an allowed origin, its
  method is allowed, and its headers are headers the plugin supplied plus at most the credential of
  that very origin.
\<close>

definition permitted :: "http_config \<Rightarrow> (string \<times> string) list \<Rightarrow> HttpFetchTransportRequest \<Rightarrow> bool" where
  "permitted cfg pluginHeaders req \<longleftrightarrow>
     (\<exists>u hs. tq_url req = url_href u \<and> isPublicHttpDestination u \<and>
        url_origin u \<in> set (hc_allowedOrigins cfg) \<and> tq_method req \<in> set (hc_allowedMethods cfg) \<and>
        set hs \<subseteq> set pluginHeaders \<and>
        tq_headers req = transportHeaders (map_of (hc_credentials cfg) (url_origin u)) hs)"

lemma assertDestination_Inr:
  "assertHttpFetchDestination u allowed = Inr x \<longleftrightarrow> isPublicHttpDestination u \<and> url_origin u \<in> set allowed"
  by (simp add: assertHttpFetchDestination_def)

lemma assertMethod_Inr:
  "assertHttpProviderMethod m allowed = Inr x \<longleftrightarrow> m \<in> set allowed"
  by (simp add: assertHttpProviderMethod_def guardE_def)

lemma sendRequest_sent: "hw_sent (snd (sendRequest transport req s)) = hw_sent s @ [req]"
  by (simp add: sendRequest_def split: prod.split)

text \<open>One turn of the loop: it stops with at most one request sent, or sends one and goes on.\<close>

lemma httpLoop_turn:
  assumes "isPublicHttpDestination destination" "url_origin destination \<in> set (hc_allowedOrigins cfg)"
    and "verb \<in> set (hc_allowedMethods cfg)"
  obtains (stop) sent where "hw_sent (snd (httpLoop rt cfg transport left destination verb body headers s))
      = hw_sent s @ sent" "length sent \<le> 1" "list_all (permitted cfg headers) sent"
  | (redirected) left' hop verb' body' headers' s' req where "left = Suc left'"
      "httpLoop rt cfg transport left destination verb body headers s =
       httpLoop rt cfg transport left' hop verb' body' headers' s'"
      "hw_sent s' = hw_sent s @ [req]" "permitted cfg headers req"
      "isPublicHttpDestination hop" "url_origin hop \<in> set (hc_allowedOrigins cfg)"
      "verb' \<in> set (hc_allowedMethods cfg)" "set headers' \<subseteq> set headers"
proof -
  define cred where "cred = map_of (hc_credentials cfg) (url_origin destination)"
  define req where "req = \<lparr>tq_url = url_href destination, tq_method = verb,
    tq_headers = transportHeaders cred headers, tq_body = body\<rparr>"
  have ok: "permitted cfg headers req"
    using assms by (auto simp: permitted_def req_def cred_def)
  note loop = httpLoop.simps [of rt cfg transport left destination verb body headers s,
      unfolded Let_def, folded cred_def, folded req_def]
  show thesis
  proof (cases "case cred of None \<Rightarrow> False | Some c \<Rightarrow> map_of headers (cr_name c) \<noteq> None")
    case True
    then show thesis using stop [of "[]"] loop by simp
  next
    case False
    obtain res s' where send: "sendRequest transport req s = (res, s')" by fastforce
    then have sent: "hw_sent s' = hw_sent s @ [req]" using sendRequest_sent [of transport req s] by simp
    have stopped: thesis
      if "snd (httpLoop rt cfg transport left destination verb body headers s) = s'"
      using stop [of "[req]"] sent ok that by simp
    show thesis
    proof (cases res)
      case (Inl e)
      then show thesis using stopped loop False send by simp
    next
      case (Inr response)
      note loop' = loop [unfolded send Inr if_not_P [OF False] prod.case sum.case]
      show thesis
      proof (cases "\<exists>x location left' hop. validateHttpFetchResponse response = Inr x \<and>
          redirectLocation response = Some location \<and> isRedirectStatus (ts_status response) \<and> left = Suc left' \<and>
          bindE (resolveHttpRedirect rt location destination) (\<lambda>hop.
            bindE (assertHttpFetchDestination hop (hc_allowedOrigins cfg)) (\<lambda>_. Inr hop)) = Inr hop \<and>
          (redirectRewrites (ts_status response) verb \<longrightarrow> ''GET'' \<in> set (hc_allowedMethods cfg))")
        case True
        then obtain x location left' hop where r: "validateHttpFetchResponse response = Inr x"
          "redirectLocation response = Some location" "isRedirectStatus (ts_status response)" "left = Suc left'"
          "bindE (resolveHttpRedirect rt location destination) (\<lambda>hop.
            bindE (assertHttpFetchDestination hop (hc_allowedOrigins cfg)) (\<lambda>_. Inr hop)) = Inr hop"
          "redirectRewrites (ts_status response) verb \<longrightarrow> ''GET'' \<in> set (hc_allowedMethods cfg)"
          by blast
        have n: "isPublicHttpDestination hop" "url_origin hop \<in> set (hc_allowedOrigins cfg)"
          using r(5) by (auto simp: bindE_Inr assertDestination_Inr)
        show thesis
        proof (cases "redirectRewrites (ts_status response) verb")
          case True
          then show thesis
            using redirected [of left' hop "''GET''" None "filter (\<lambda>h. fst h \<noteq> ''content-type'') headers" s' req]
              loop' r n sent ok by (simp add: assertHttpProviderMethod_def)
        next
          case False
          then show thesis
            using redirected [of left' hop verb body headers s' req] loop' r n sent ok assms by simp
        qed
      next
        case False
        then have "snd (httpLoop rt cfg transport left destination verb body headers s) = s'"
          unfolding loop'
          by (auto simp: assertHttpProviderMethod_def guardE_def split: sum.splits option.splits nat.splits)
        then show thesis by (rule stopped)
      qed
    qed
  qed
qed

lemma permitted_mono: "permitted cfg hs req \<Longrightarrow> set hs \<subseteq> set hs' \<Longrightarrow> permitted cfg hs' req"
  by (auto simp: permitted_def)

lemma httpLoop_sends:
  assumes "isPublicHttpDestination destination" "url_origin destination \<in> set (hc_allowedOrigins cfg)"
    and "verb \<in> set (hc_allowedMethods cfg)"
  shows "\<exists>sent. hw_sent (snd (httpLoop rt cfg transport left destination verb body headers s)) = hw_sent s @ sent \<and>
    length sent \<le> Suc left \<and> list_all (permitted cfg headers) sent"
  using assms
proof (induction left arbitrary: destination verb body headers s rule: less_induct)
  case (less left)
  show ?case
  proof (cases rule: httpLoop_turn [OF less.prems, of rt transport left body headers s, case_names stop redirected])
    case (stop sent)
    then show ?thesis by (intro exI [of _ sent]) auto
  next
    case (redirected left' hop verb' body' headers' s' req)
    have "left' < left" using redirected(1) by simp
    from less.IH [OF this redirected(5,6,7), of body' headers' s'] obtain sent where
      "hw_sent (snd (httpLoop rt cfg transport left' hop verb' body' headers' s')) = hw_sent s' @ sent"
      "length sent \<le> Suc left'" "list_all (permitted cfg headers') sent" by blast
    moreover from this(3) have "list_all (permitted cfg headers) sent"
      using permitted_mono [OF _ redirected(8)] by (auto simp: list_all_iff)
    ultimately show ?thesis using redirected by (intro exI [of _ "req # sent"]) simp
  qed
qed

section \<open>Configurations and plugin headers\<close>

definition header_safe :: "string \<times> string \<Rightarrow> bool" where
  "header_safe h \<longleftrightarrow> headerNamePattern (fst h) \<and> \<not> has_line_break (snd h)"

definition credentials_ok :: "runtime \<Rightarrow> string list \<Rightarrow> (string \<times> HttpFetchCredential) list \<Rightarrow> bool" where
  "credentials_ok rt allowed cs \<longleftrightarrow>
     (\<forall>(org, c) \<in> set cs. org \<in> set allowed \<and> header_safe (cr_name c, cr_value c) \<and>
        \<not> isUnsafeCredentialHeader (cr_name c) \<and>
        (\<exists>u. rt_parseURL rt org = Some u \<and> url_protocol u = ''https:''))"

lemma set_obj_set_subset: "set (obj_set fs k v) \<subseteq> insert (k, v) (set fs)"
  by (induction fs k v rule: obj_set.induct) (auto split: if_splits)

lemma normalizeHttpHeaderName_Inr: "normalizeHttpHeaderName n = Inr m \<Longrightarrow> headerNamePattern m \<and> m = toLowerCase n"
  by (auto simp: normalizeHttpHeaderName_def Let_def split: if_splits)

lemma credentials_ok_set:
  assumes "credentials_ok rt allowed cs" "org \<in> set allowed" "header_safe (cr_name c, cr_value c)"
    and "\<not> isUnsafeCredentialHeader (cr_name c)" "rt_parseURL rt org = Some u" "url_protocol u = ''https:''"
  shows "credentials_ok rt allowed (obj_set cs org c)"
  using assms set_obj_set_subset [of cs org c] unfolding credentials_ok_def by blast

lemma storeCredential_ok:
  assumes "storeCredential rt org c name cs = Inr cs'" "credentials_ok rt allowed cs" "org \<in> set allowed"
    and "headerNamePattern name"
  shows "credentials_ok rt allowed cs'"
  using assms
  by (auto simp: storeCredential_def header_safe_def intro!: credentials_ok_set split: if_splits option.splits)

lemma registerCredential_ok:
  assumes "registerCredential rt allowed e cs = Inr cs'" "credentials_ok rt allowed cs"
  shows "credentials_ok rt allowed cs'"
  using assms normalizeHttpHeaderName_Inr
  by (auto simp: registerCredential_def bindE_Inr split: if_splits elim!: storeCredential_ok)

lemma registerCredentials_ok:
  "registerCredentials rt allowed es cs = Inr cs' \<Longrightarrow> credentials_ok rt allowed cs \<Longrightarrow> credentials_ok rt allowed cs'"
  by (induction es arbitrary: cs) (auto simp: bindE_Inr dest: registerCredential_ok)

lemma createHttpFetchProvider_ok:
  assumes "createHttpFetchProvider rt origins methods credentials maxRedirects = Inr cfg"
  shows "credentials_ok rt (hc_allowedOrigins cfg) (hc_credentials cfg) \<and> hc_maxRedirects cfg \<le> 10"
proof -
  have "n \<le> 10" if "checkMaxRedirects maxRedirects = Inr n" for n
    using that by (auto simp: checkMaxRedirects_def split: option.splits jsnum.splits if_splits)
  moreover have "credentials_ok rt allowed []" for allowed by (simp add: credentials_ok_def)
  ultimately show ?thesis
    using assms registerCredentials_ok by (fastforce simp: createHttpFetchProvider_def bindE_Inr)
qed

lemma httpHeaders_safe:
  "httpHeaders raw acc = Inr hs \<Longrightarrow>
     \<forall>h \<in> set acc. header_safe h \<and> \<not> isRoutingHttpHeader (fst h) \<Longrightarrow>
     \<forall>h \<in> set hs. header_safe h \<and> \<not> isRoutingHttpHeader (fst h)"
proof (induction raw acc rule: httpHeaders.induct)
  case (2 rawName v rest acc)
  then obtain x name where x: "v = JStr x" "\<not> has_line_break x" "normalizeHttpHeaderName rawName = Inr name"
    "\<not> isRoutingHttpHeader name" "map_of acc name = None" "httpHeaders rest (obj_set acc name x) = Inr hs"
    by (auto simp: bindE_Inr split: jsval.splits if_splits)
  then have "\<forall>h \<in> set (obj_set acc name x). header_safe h \<and> \<not> isRoutingHttpHeader (fst h)"
    using set_obj_set_subset [of acc name x] 2(3) normalizeHttpHeaderName_Inr [of rawName name]
    by (auto simp: header_safe_def)
  then show ?case using 2(1) [OF x(1,2) x(4)] x by auto
qed simp

lemma parseHttpFetchInput_headers:
  "parseHttpFetchInput input = Inr request \<Longrightarrow>
     \<forall>h \<in> set (hf_headers request). header_safe h \<and> \<not> isRoutingHttpHeader (fst h)"
proof -
  assume "parseHttpFetchInput input = Inr request"
  then have "httpHeaders (own_entries (js_get input ''headers'')) [] = Inr (hf_headers request)"
    by (auto simp: parseHttpFetchInput_def Let_def bindE_Inr split: if_splits jsval.splits)
  from httpHeaders_safe [OF this] show ?thesis by simp
qed

lemma permitted_headers_safe:
  assumes "credentials_ok rt (hc_allowedOrigins cfg) (hc_credentials cfg)" "\<forall>h \<in> set hs. header_safe h"
    and "permitted cfg hs req"
  shows "\<forall>h \<in> set (tq_headers req). header_safe h"
proof -
  obtain u :: URL and ks where ks: "set ks \<subseteq> set hs"
    and req: "tq_headers req = transportHeaders (map_of (hc_credentials cfg) (url_origin u)) ks"
    using assms(3) unfolding permitted_def by blast
  have "header_safe (cr_name c, cr_value c)" if "map_of (hc_credentials cfg) org = Some c" for org c
    using map_of_SomeD [OF that] assms(1) by (auto simp: credentials_ok_def)
  then show ?thesis
    using ks assms(2) set_obj_set_subset [of ks]
    by (fastforce simp: req transportHeaders_def assign_primitive_def split: option.splits if_splits)
qed

section \<open>Properties\<close>


definition example_http_runtime :: runtime where
  "example_http_runtime = \<lparr>
     rt_parseURL = (\<lambda>s. if s = ''https://a.example'' \<or> s = ''https://a.example/'' then Some (url_of_host ''a.example'')
                        else if s = ''https://127.0.0.1/'' then Some (url_of_host ''127.0.0.1'') else None),
     rt_resolveURL = (\<lambda>l u. if l = ''/next'' then Some u else Some (url_of_host ''127.0.0.1'')),
     rt_parseDate = (\<lambda>_. None), rt_show = (\<lambda>_. [])\<rparr>"

definition example_http_config :: http_config where
  "example_http_config = \<lparr>hc_allowedOrigins = [''https://a.example''], hc_allowedMethods = [''GET''],
     hc_credentials = [(''https://a.example'', \<lparr>cr_name = ''authorization'', cr_value = ''secret''\<rparr>)],
     hc_maxRedirects = 1\<rparr>"

lemma example_http_created:
  "createHttpFetchProvider example_http_runtime [''https://a.example''] [''get'']
     [(''https://a.example'', \<lparr>cr_name = ''Authorization'', cr_value = ''secret''\<rparr>)] (Some (NInt 1)) = Inr example_http_config"
  by code_simp

text \<open>A redirect to a loopback address is refused after the first request.\<close>

definition example_redirect :: "HttpFetchTransportRequest \<Rightarrow> (unit, cap_error, HttpFetchTransportResponse) step" where
  "example_redirect req = returnS \<lparr>ts_status = NInt 302, ts_headers = Some [(''Location'', ''http://127.0.0.1/'')], ts_body = None\<rparr>"

definition example_http_input :: jsval where
  "example_http_input = JObj PlainObj [(''url'', JStr ''https://a.example/''), (''method'', JStr ''get'')]"

definition example_http_call :: "(cap_error, HttpFetchTransportResponse) outcome \<times> unit http_world" where
  "example_http_call = httpFetchProvider example_http_runtime example_http_config example_redirect example_http_input
     \<lparr>hw_world = (), hw_sent = []\<rparr>"


end
