(* ===== verification/KeyedStore.thy ===== *)
theory KeyedStore
  imports JsValue
begin

text \<open>
  The storage interface that the TypeScript components take as an argument: \<open>get(key)\<close> and
  \<open>put(key, value)\<close> of a Durable Object, or of the in-memory \<open>Map\<close> adapters. Client lemmas are
  proved from the two laws; the interpretation is the insertion-ordered map of the adapters.
\<close>

locale keyed_store =
  fixes get :: "'s \<Rightarrow> string \<Rightarrow> 'v option"
    and put :: "string \<Rightarrow> 'v \<Rightarrow> 's \<Rightarrow> 's"
  assumes get_put: "get (put k v s) = (get s)(k \<mapsto> v)"
begin

lemma get_put_same [simp]: "get (put k v s) k = Some v"
  by (simp add: get_put)

lemma get_put_other [simp]: "j \<noteq> k \<Longrightarrow> get (put k v s) j = get s j"
  by (simp add: get_put)

end

definition mem_get :: "(string \<times> 'v) list \<Rightarrow> string \<Rightarrow> 'v option" where
  "mem_get s k = map_of s k"

definition mem_put :: "string \<Rightarrow> 'v \<Rightarrow> (string \<times> 'v) list \<Rightarrow> (string \<times> 'v) list" where
  "mem_put k v s = obj_set s k v"

definition mem_delete :: "string \<Rightarrow> (string \<times> 'v) list \<Rightarrow> (string \<times> 'v) list" where
  "mem_delete k s = filter (\<lambda>e. fst e \<noteq> k) s"

interpretation mem: keyed_store mem_get mem_put
  by unfold_locales (simp add: mem_get_def mem_put_def fun_eq_iff)

lemma mem_get_delete: "mem_get (mem_delete k s) = (mem_get s)(k := None)"
  by (induction s) (auto simp: mem_get_def mem_delete_def fun_eq_iff)

end
