(* ===== verification/CapKv.thy ===== *)
theory CapKv
  imports CapInput KeyedStore
begin

text \<open>
  \<open>createKvStateProvider\<close> of \<open>packages/capabilities/src/index.ts\<close>: per-tenant key-value state with
  byte and entry quotas. The storage holds one snapshot per facet (tenant, plugin, version) and is a
  keyed store; what it returns is an unknown value that is validated before use. A storage
  transaction runs its callback alone and writes nothing when the callback throws. \<open>JSON.parse\<close> is
  the runtime's, a parameter.
\<close>

record KvStateScope =
  ks_tenantId :: string
  ks_pluginName :: string
  ks_version :: string

record KvStateLimits =
  kl_maxKeyBytes :: jsnum
  kl_maxValueBytes :: jsnum
  kl_maxTotalBytes :: jsnum
  kl_maxEntries :: jsnum

record KvStateEntry =
  ke_json :: string
  ke_sizeBytes :: int

record KvStateFacetSnapshot =
  kf_totalBytes :: int
  kf_entries :: "(string \<times> KvStateEntry) list"

text \<open>
  A stored value: an object with the three snapshot members, \<open>entries\<close> being a \<open>Map\<close> or not, or
  anything else.
\<close>

datatype kv_raw = RawSnapshot jsval jsval "((jsval \<times> jsval) list) option" | RawOther jsval

record kv_config =
  kc_storageKey :: string
  kc_maxKeyBytes :: int
  kc_maxValueBytes :: int
  kc_maxTotalBytes :: int
  kc_maxEntries :: int

section \<open>Creation\<close>

definition validateKvStateScope :: "KvStateScope \<Rightarrow> unit cap" where
  "validateKvStateScope scope =
     guardE (list_all (\<lambda>v. trim v \<noteq> []) [ks_tenantId scope, ks_pluginName scope, ks_version scope])
       (PlainError ''kv.state scope values must not be empty'')"

fun positiveSafe :: "jsnum \<Rightarrow> int cap" where
  "positiveSafe (NInt i) =
     (if is_safe_integer i \<and> 1 \<le> i then Inr i
      else Inl (PlainError ''kv.state limits must be positive safe integers''))"
| "positiveSafe _ = Inl (PlainError ''kv.state limits must be positive safe integers'')"

definition kvStateFacetStorageKey :: "KvStateScope \<Rightarrow> string" where
  "kvStateFacetStorageKey scope =
     ''kv.state:['' @ json_quote (ks_tenantId scope) @ '','' @ json_quote (ks_pluginName scope) @ '',''
       @ json_quote (ks_version scope) @ '']''"

definition createKvStateProvider :: "KvStateScope \<Rightarrow> KvStateLimits \<Rightarrow> kv_config cap" where
  "createKvStateProvider scope limits =
     bindE (validateKvStateScope scope) (\<lambda>_.
     bindE (positiveSafe (kl_maxKeyBytes limits)) (\<lambda>k.
     bindE (positiveSafe (kl_maxValueBytes limits)) (\<lambda>v.
     bindE (positiveSafe (kl_maxTotalBytes limits)) (\<lambda>t.
     bindE (positiveSafe (kl_maxEntries limits)) (\<lambda>n.
       Inr \<lparr>kc_storageKey = kvStateFacetStorageKey scope, kc_maxKeyBytes = k, kc_maxValueBytes = v,
            kc_maxTotalBytes = t, kc_maxEntries = n\<rparr>)))))"

section \<open>Snapshots\<close>

fun safeNat :: "jsval \<Rightarrow> int option" where
  "safeNat (JNum (NInt i)) = (if is_safe_integer i \<and> 0 \<le> i then Some i else None)"
| "safeNat _ = None"

definition readEntry :: "jsval \<times> jsval \<Rightarrow> (string \<times> KvStateEntry) cap" where
  "readEntry ke =
     (case ke of
        (JStr key, entry) \<Rightarrow>
          (case (isRecord entry, js_get entry ''json'', safeNat (js_get entry ''sizeBytes'')) of
             (True, JStr json, Some n) \<Rightarrow> Inr (key, \<lparr>ke_json = json, ke_sizeBytes = n\<rparr>)
           | _ \<Rightarrow> Inl (PlainError ''kv.state facet snapshot is invalid''))
      | _ \<Rightarrow> Inl (PlainError ''kv.state facet snapshot is invalid''))"

definition entry_bytes :: "(string \<times> KvStateEntry) list \<Rightarrow> int" where
  "entry_bytes es = sum_list (List.map (\<lambda>e. ke_sizeBytes (snd e)) es)"

definition readKvStateSnapshot :: "kv_raw option \<Rightarrow> KvStateFacetSnapshot cap" where
  "readKvStateSnapshot v =
     (case v of
        None \<Rightarrow> Inr \<lparr>kf_totalBytes = 0, kf_entries = []\<rparr>
      | Some (RawSnapshot revision totalV (Some rawEntries)) \<Rightarrow>
          (case (revision = JNum (NInt 1), safeNat totalV) of
             (True, Some tot) \<Rightarrow>
               bindE (mapE readEntry rawEntries) (\<lambda>entries.
                 if entry_bytes entries \<noteq> tot
                 then Inl (PlainError ''kv.state facet snapshot is invalid'')
                 else Inr \<lparr>kf_totalBytes = tot, kf_entries = entries\<rparr>)
           | _ \<Rightarrow> Inl (PlainError ''kv.state facet snapshot is invalid''))
      | Some _ \<Rightarrow> Inl (PlainError ''kv.state facet snapshot is invalid''))"

definition rawEntry :: "string \<times> KvStateEntry \<Rightarrow> jsval \<times> jsval" where
  "rawEntry e = (JStr (fst e), JObj PlainObj [(''json'', JStr (ke_json (snd e))),
     (''sizeBytes'', JNum (NInt (ke_sizeBytes (snd e))))])"

definition rawSnapshot :: "int \<Rightarrow> (string \<times> KvStateEntry) list \<Rightarrow> kv_raw" where
  "rawSnapshot tot entries =
     RawSnapshot (JNum (NInt 1)) (JNum (NInt tot)) (Some (List.map rawEntry entries))"

section \<open>Values\<close>

text \<open>\<open>JSON.stringify\<close> of a value that passed \<open>assertKvStateJsonValue\<close>.\<close>

fun serializeKvStateValue :: "jsval \<Rightarrow> string" where
  "serializeKvStateValue JNull = ''null''"
| "serializeKvStateValue (JBool b) = (if b then ''true'' else ''false'')"
| "serializeKvStateValue (JNum n) = json_number n"
| "serializeKvStateValue (JStr s) = json_quote s"
| "serializeKvStateValue (JArr xs) = ''['' @ join '','' (List.map serializeKvStateValue xs) @ '']''"
| "serializeKvStateValue (JObj _ fs) =
     CHR 0x7B # join '','' (List.map (\<lambda>f. json_quote (fst f) @ '':'' @ serializeKvStateValue (snd f)) fs) @ [CHR 0x7D]"
| "serializeKvStateValue _ = ''null''"

section \<open>The provider\<close>

definition kvGet ::
  "('s \<Rightarrow> string \<Rightarrow> kv_raw option) \<Rightarrow> (string \<Rightarrow> jsval) \<Rightarrow> kv_config \<Rightarrow> string \<Rightarrow> 's \<Rightarrow> jsval cap" where
  "kvGet get parseJson cfg key s =
     bindE (readKvStateSnapshot (get s (kc_storageKey cfg))) (\<lambda>snapshot.
       case map_of (kf_entries snapshot) key of
         None \<Rightarrow> Inr (JObj PlainObj [(''found'', JBool False)])
       | Some entry \<Rightarrow> Inr (JObj PlainObj [(''found'', JBool True), (''value'', parseJson (ke_json entry))]))"

definition kvPut ::
  "('s \<Rightarrow> string \<Rightarrow> kv_raw option) \<Rightarrow> (string \<Rightarrow> kv_raw \<Rightarrow> 's \<Rightarrow> 's) \<Rightarrow> kv_config \<Rightarrow> string \<Rightarrow> jsval \<Rightarrow>
   ('s, cap_error, jsval) step" where
  "kvPut get put cfg key v s =
     (let json = serializeKvStateValue v;
          keyBytes = int (utf8_length key);
          valueBytes = int (utf8_length json)
      in if kc_maxValueBytes cfg < valueBytes
         then (Inl (CapabilityDeniedError (''kv.state value exceeds '' @ show_int (kc_maxValueBytes cfg) @ '' bytes'')), s)
         else (case readKvStateSnapshot (get s (kc_storageKey cfg)) of
           Inl e \<Rightarrow> (Inl e, s)
         | Inr snapshot \<Rightarrow>
             (let previous = map_of (kf_entries snapshot) key in
              if previous = None \<and> kc_maxEntries cfg \<le> int (length (kf_entries snapshot))
              then (Inl (CapabilityDeniedError (''kv.state facet exceeds '' @ show_int (kc_maxEntries cfg) @ '' entries'')), s)
              else (let entryBytes = keyBytes + valueBytes;
                        totalBytes = kf_totalBytes snapshot
                          - (case previous of None \<Rightarrow> 0 | Some p \<Rightarrow> ke_sizeBytes p) + entryBytes
                    in if kc_maxTotalBytes cfg < totalBytes
                       then (Inl (CapabilityDeniedError (''kv.state facet exceeds ''
                               @ show_int (kc_maxTotalBytes cfg) @ '' bytes'')), s)
                       else (Inr (JObj PlainObj [(''ok'', JBool True), (''totalBytes'', JNum (NInt totalBytes))]),
                             put (kc_storageKey cfg)
                               (rawSnapshot totalBytes
                                 (obj_set (kf_entries snapshot) key \<lparr>ke_json = json, ke_sizeBytes = entryBytes\<rparr>)) s)))))"

definition kvDelete ::
  "('s \<Rightarrow> string \<Rightarrow> kv_raw option) \<Rightarrow> (string \<Rightarrow> kv_raw \<Rightarrow> 's \<Rightarrow> 's) \<Rightarrow> kv_config \<Rightarrow> string \<Rightarrow>
   ('s, cap_error, jsval) step" where
  "kvDelete get put cfg key s =
     (case readKvStateSnapshot (get s (kc_storageKey cfg)) of
        Inl e \<Rightarrow> (Inl e, s)
      | Inr snapshot \<Rightarrow>
          (case map_of (kf_entries snapshot) key of
             None \<Rightarrow> (Inr (JObj PlainObj [(''deleted'', JBool False),
                       (''totalBytes'', JNum (NInt (kf_totalBytes snapshot)))]), s)
           | Some previous \<Rightarrow>
               (let totalBytes = kf_totalBytes snapshot - ke_sizeBytes previous in
                (Inr (JObj PlainObj [(''deleted'', JBool True), (''totalBytes'', JNum (NInt totalBytes))]),
                 put (kc_storageKey cfg)
                   (rawSnapshot totalBytes (mem_delete key (kf_entries snapshot))) s))))"

definition kvProvider ::
  "('s \<Rightarrow> string \<Rightarrow> kv_raw option) \<Rightarrow> (string \<Rightarrow> kv_raw \<Rightarrow> 's \<Rightarrow> 's) \<Rightarrow> (string \<Rightarrow> jsval) \<Rightarrow> kv_config \<Rightarrow> jsval \<Rightarrow>
   ('s, cap_error, jsval) step" where
  "kvProvider get put parseJson cfg input s =
     (case parseKvStateInput input of
        Inl e \<Rightarrow> (Inl e, s)
      | Inr request \<Rightarrow>
          if kc_maxKeyBytes cfg < int (utf8_length (kv_key request))
          then (Inl (CapabilityDeniedError (''kv.state key exceeds '' @ show_int (kc_maxKeyBytes cfg) @ '' bytes'')), s)
          else (case request of
            KvGet key \<Rightarrow> (kvGet get parseJson cfg key s, s)
          | KvPut key v \<Rightarrow> kvPut get put cfg key v s
          | KvDelete key \<Rightarrow> kvDelete get put cfg key s))"

section \<open>Reading back what was written\<close>

text \<open>A facet within its quotas, with exact accounting.\<close>

definition facet_ok :: "kv_config \<Rightarrow> KvStateFacetSnapshot \<Rightarrow> bool" where
  "facet_ok cfg f \<longleftrightarrow>
     distinct (List.map fst (kf_entries f)) \<and>
     kf_totalBytes f = entry_bytes (kf_entries f) \<and>
     kf_totalBytes f \<le> kc_maxTotalBytes cfg \<and>
     int (length (kf_entries f)) \<le> kc_maxEntries cfg \<and>
     (\<forall>(k, e) \<in> set (kf_entries f).
        int (utf8_length k) \<le> kc_maxKeyBytes cfg \<and>
        int (utf8_length (ke_json e)) \<le> kc_maxValueBytes cfg \<and>
        ke_sizeBytes e = int (utf8_length k) + int (utf8_length (ke_json e)))"

definition config_ok :: "kv_config \<Rightarrow> bool" where
  "config_ok cfg \<longleftrightarrow>
     (\<forall>n \<in> {kc_maxKeyBytes cfg, kc_maxValueBytes cfg, kc_maxTotalBytes cfg, kc_maxEntries cfg}.
        1 \<le> n \<and> is_safe_integer n)"

lemma positiveSafe_Inr: "positiveSafe n = Inr i \<longleftrightarrow> n = NInt i \<and> 1 \<le> i \<and> is_safe_integer i"
  by (cases n) auto

lemma created_config_ok: "createKvStateProvider scope limits = Inr cfg \<Longrightarrow>
    config_ok cfg \<and> kc_storageKey cfg = kvStateFacetStorageKey scope"
  by (auto simp: createKvStateProvider_def bindE_Inr positiveSafe_Inr config_ok_def)

lemma entry_bytes_simps [simp]:
  "entry_bytes [] = 0"
  "entry_bytes (e # es) = ke_sizeBytes (snd e) + entry_bytes es"
  by (simp_all add: entry_bytes_def)

lemma entry_bytes_nonneg: "\<forall>x \<in> set es. 0 \<le> ke_sizeBytes (snd x) \<Longrightarrow> 0 \<le> entry_bytes es"
  by (induction es) auto

lemma entry_bytes_member:
  "\<forall>x \<in> set es. 0 \<le> ke_sizeBytes (snd x) \<Longrightarrow> x \<in> set es \<Longrightarrow> ke_sizeBytes (snd x) \<le> entry_bytes es"
proof (induction es)
  case (Cons e es)
  then show ?case using entry_bytes_nonneg [of es] by fastforce
qed simp

lemma entry_bytes_set:
  "distinct (List.map fst es) \<Longrightarrow>
     entry_bytes (obj_set es k e) =
       entry_bytes es - (case map_of es k of None \<Rightarrow> 0 | Some p \<Rightarrow> ke_sizeBytes p) + ke_sizeBytes e"
  by (induction es k e rule: obj_set.induct) (auto simp: map_of_eq_None_iff split: option.splits)

lemma entry_bytes_delete:
  "distinct (List.map fst es) \<Longrightarrow>
     entry_bytes (mem_delete k es) =
       entry_bytes es - (case map_of es k of None \<Rightarrow> 0 | Some p \<Rightarrow> ke_sizeBytes p)"
proof (induction es)
  case (Cons x es)
  have "map_of es k = None \<Longrightarrow> mem_delete k es = es"
    by (auto simp: mem_delete_def filter_id_conv map_of_eq_None_iff)
  moreover have "map_of es (fst x) = None"
    using Cons.prems by (simp add: map_of_eq_None_iff)
  ultimately show ?case
    using Cons by (cases "fst x = k") (auto simp: mem_delete_def)
qed (simp add: mem_delete_def)

lemma length_obj_set:
  "length (obj_set es k e) = (if map_of es k = None then Suc (length es) else length es)"
  by (induction es k e rule: obj_set.induct) auto

lemma set_obj_set: "x \<in> set (obj_set es k e) \<Longrightarrow> x = (k, e) \<or> x \<in> set es"
  by (induction es k e rule: obj_set.induct) (auto split: if_splits)

lemma set_mem_delete: "set (mem_delete k es) \<subseteq> set es"
  by (auto simp: mem_delete_def)

lemma distinct_mem_delete: "distinct (List.map fst es) \<Longrightarrow> distinct (List.map fst (mem_delete k es))"
  unfolding mem_delete_def by (rule distinct_map_filter)

lemma readEntry_raw:
  "0 \<le> ke_sizeBytes (snd e) \<Longrightarrow> is_safe_integer (ke_sizeBytes (snd e)) \<Longrightarrow> readEntry (rawEntry e) = Inr e"
  by (cases e) (simp add: readEntry_def rawEntry_def record_get_def)

lemma facet_sizes:
  assumes "facet_ok cfg f" "config_ok cfg"
  shows "\<forall>x \<in> set (kf_entries f). 0 \<le> ke_sizeBytes (snd x) \<and> is_safe_integer (ke_sizeBytes (snd x))"
    "0 \<le> kf_totalBytes f" "is_safe_integer (kf_totalBytes f)"
proof -
  have nn: "\<forall>x \<in> set (kf_entries f). 0 \<le> ke_sizeBytes (snd x)"
    using assms(1) by (auto simp: facet_ok_def)
  then show tot: "0 \<le> kf_totalBytes f"
    using assms(1) entry_bytes_nonneg by (simp add: facet_ok_def)
  have bound: "kc_maxTotalBytes cfg \<le> max_safe_integer"
    using assms(2) by (simp add: config_ok_def is_safe_integer_def)
  then show "is_safe_integer (kf_totalBytes f)"
    using assms(1) tot by (auto simp: is_safe_integer_def facet_ok_def max_safe_integer_def)
  have "ke_sizeBytes (snd x) \<le> max_safe_integer" if "x \<in> set (kf_entries f)" for x
    using entry_bytes_member [OF nn that] assms(1) bound by (simp add: facet_ok_def)
  then show "\<forall>x \<in> set (kf_entries f). 0 \<le> ke_sizeBytes (snd x) \<and> is_safe_integer (ke_sizeBytes (snd x))"
    using nn by (auto simp: is_safe_integer_def max_safe_integer_def)
qed

lemma read_rawSnapshot:
  assumes "facet_ok cfg f" "config_ok cfg"
  shows "readKvStateSnapshot (Some (rawSnapshot (kf_totalBytes f) (kf_entries f))) = Inr f"
proof -
  have "mapE readEntry (List.map rawEntry (kf_entries f)) = Inr (kf_entries f)"
    unfolding mapE_Inr using facet_sizes(1) [OF assms]
    by (auto simp: list_all2_conv_all_nth readEntry_raw)
  then show ?thesis
    using assms(1) facet_sizes(2,3) [OF assms]
    by (simp add: readKvStateSnapshot_def rawSnapshot_def facet_ok_def)
qed

section \<open>Operations keep the quotas and act as a map\<close>

definition contents :: "KvStateFacetSnapshot \<Rightarrow> string \<Rightarrow> string option" where
  "contents f k = map_option ke_json (map_of (kf_entries f) k)"

definition holds_facet :: "('s \<Rightarrow> string \<Rightarrow> kv_raw option) \<Rightarrow> kv_config \<Rightarrow> 's \<Rightarrow> KvStateFacetSnapshot \<Rightarrow> bool" where
  "holds_facet get cfg s f \<longleftrightarrow> readKvStateSnapshot (get s (kc_storageKey cfg)) = Inr f \<and> facet_ok cfg f"

locale facet_store = keyed_store get put
  for get :: "'s \<Rightarrow> string \<Rightarrow> kv_raw option" and put
begin

lemma empty_facet:
  "config_ok cfg \<Longrightarrow> get s (kc_storageKey cfg) = None \<Longrightarrow>
     holds_facet get cfg s \<lparr>kf_totalBytes = 0, kf_entries = []\<rparr>"
  by (simp add: holds_facet_def readKvStateSnapshot_def facet_ok_def config_ok_def)

lemma put_facet:
  "config_ok cfg \<Longrightarrow> facet_ok cfg f \<Longrightarrow>
     holds_facet get cfg (put (kc_storageKey cfg) (rawSnapshot (kf_totalBytes f) (kf_entries f)) s) f"
  by (simp add: holds_facet_def read_rawSnapshot)

lemma kvPut_ok:
  assumes "config_ok cfg" "holds_facet get cfg s f" "int (utf8_length key) \<le> kc_maxKeyBytes cfg"
    and run: "kvPut get put cfg key v s = (Inr r, s')"
  shows "\<exists>f'. holds_facet get cfg s' f' \<and> contents f' = (contents f)(key \<mapsto> serializeKvStateValue v) \<and>
    r = JObj PlainObj [(''ok'', JBool True), (''totalBytes'', JNum (NInt (kf_totalBytes f')))] \<and>
    (\<forall>k. k \<noteq> kc_storageKey cfg \<longrightarrow> get s' k = get s k)"
proof -
  define e where "e = \<lparr>ke_json = serializeKvStateValue v,
    ke_sizeBytes = int (utf8_length key) + int (utf8_length (serializeKvStateValue v))\<rparr>"
  define tot where "tot = kf_totalBytes f
    - (case map_of (kf_entries f) key of None \<Rightarrow> 0 | Some p \<Rightarrow> ke_sizeBytes p) + ke_sizeBytes e"
  define f' where "f' = \<lparr>kf_totalBytes = tot, kf_entries = obj_set (kf_entries f) key e\<rparr>"
  have read: "readKvStateSnapshot (get s (kc_storageKey cfg)) = Inr f" and ok: "facet_ok cfg f"
    using assms(2) by (simp_all add: holds_facet_def)
  have steps: "int (utf8_length (serializeKvStateValue v)) \<le> kc_maxValueBytes cfg"
    "map_of (kf_entries f) key = None \<longrightarrow> int (length (kf_entries f)) < kc_maxEntries cfg"
    "tot \<le> kc_maxTotalBytes cfg"
    "r = JObj PlainObj [(''ok'', JBool True), (''totalBytes'', JNum (NInt tot))]"
    "s' = put (kc_storageKey cfg) (rawSnapshot tot (obj_set (kf_entries f) key e)) s"
    using run by (auto simp: kvPut_def read Let_def tot_def e_def split: if_splits)
  have "facet_ok cfg f'"
    using ok steps assms(3)
    by (auto simp: facet_ok_def f'_def distinct_obj_set entry_bytes_set length_obj_set tot_def e_def
        dest!: set_obj_set)
  then have "holds_facet get cfg s' f'"
    using put_facet [OF assms(1), of f' s] steps(5) by (simp add: f'_def)
  moreover have "contents f' = (contents f)(key \<mapsto> serializeKvStateValue v)"
    by (auto simp: contents_def f'_def e_def)
  ultimately show ?thesis
    using steps(4,5) by (auto simp: f'_def)
qed

lemma kvPut_rejected: "kvPut get put cfg key v s = (Inl e, s') \<Longrightarrow> s' = s"
  by (auto simp: kvPut_def Let_def split: if_splits sum.splits)

lemma kvDelete_ok:
  assumes "config_ok cfg" "holds_facet get cfg s f" and run: "kvDelete get put cfg key s = (Inr r, s')"
  shows "\<exists>f'. holds_facet get cfg s' f' \<and> contents f' = (contents f)(key := None) \<and>
    r = JObj PlainObj [(''deleted'', JBool (contents f key \<noteq> None)),
          (''totalBytes'', JNum (NInt (kf_totalBytes f')))] \<and>
    (\<forall>k. k \<noteq> kc_storageKey cfg \<longrightarrow> get s' k = get s k)"
proof -
  have read: "readKvStateSnapshot (get s (kc_storageKey cfg)) = Inr f" and ok: "facet_ok cfg f"
    using assms(2) by (simp_all add: holds_facet_def)
  show ?thesis
  proof (cases "map_of (kf_entries f) key")
    case None
    then have "contents f = (contents f)(key := None)" "contents f key = None"
      by (auto simp: contents_def)
    then show ?thesis using run assms(2) None by (auto simp: kvDelete_def read)
  next
    case (Some p)
    define f' where "f' = \<lparr>kf_totalBytes = kf_totalBytes f - ke_sizeBytes p, kf_entries = mem_delete key (kf_entries f)\<rparr>"
    have "(key, p) \<in> set (kf_entries f)" using Some by (rule map_of_SomeD)
    then have "0 \<le> ke_sizeBytes p" using facet_sizes(1) [OF ok assms(1)] by fastforce
    moreover have "length (mem_delete key (kf_entries f)) \<le> length (kf_entries f)"
      by (simp add: mem_delete_def)
    ultimately have "facet_ok cfg f'"
      using ok Some set_mem_delete [of key "kf_entries f"]
      by (auto simp: facet_ok_def f'_def distinct_mem_delete entry_bytes_delete)
    then have "holds_facet get cfg s' f'"
      using put_facet [OF assms(1), of f' s] run Some by (simp add: f'_def kvDelete_def read Let_def)
    moreover have "contents f' = (contents f)(key := None)"
      using mem_get_delete [of key "kf_entries f"] by (auto simp: contents_def f'_def mem_get_def fun_eq_iff)
    ultimately show ?thesis
      using run Some by (auto simp: f'_def kvDelete_def read Let_def contents_def)
  qed
qed

lemma kvDelete_rejected: "kvDelete get put cfg key s = (Inl e, s') \<Longrightarrow> s' = s"
  by (auto simp: kvDelete_def Let_def split: option.splits sum.splits)

end

interpretation mem_facets: facet_store mem_get mem_put
  by unfold_locales

section \<open>Facets are separate\<close>

lemma kvStateFacetStorageKey_inj:
  "kvStateFacetStorageKey a = kvStateFacetStorageKey b \<longleftrightarrow>
     ks_tenantId a = ks_tenantId b \<and> ks_pluginName a = ks_pluginName b \<and> ks_version a = ks_version b"
proof
  assume "kvStateFacetStorageKey a = kvStateFacetStorageKey b"
  then have "json_quote (ks_tenantId a) @ '','' @ json_quote (ks_pluginName a) @ '','' @ json_quote (ks_version a) @ '']''
      = json_quote (ks_tenantId b) @ '','' @ json_quote (ks_pluginName b) @ '','' @ json_quote (ks_version b) @ '']''"
    by (simp add: kvStateFacetStorageKey_def)
  from json_quote_unique [OF this]
  have t: "ks_tenantId a = ks_tenantId b"
    and "json_quote (ks_pluginName a) @ '','' @ json_quote (ks_version a) @ '']''
      = json_quote (ks_pluginName b) @ '','' @ json_quote (ks_version b) @ '']''" by simp_all
  from json_quote_unique [OF this(2)]
  show "ks_tenantId a = ks_tenantId b \<and> ks_pluginName a = ks_pluginName b \<and> ks_version a = ks_version b"
    using t by simp
qed (simp add: kvStateFacetStorageKey_def)

section \<open>Properties\<close>

text \<open>The effect of an accepted request on the abstract contents of the facet.\<close>

fun kvEffect :: "KvStateInput \<Rightarrow> (string \<Rightarrow> string option) \<Rightarrow> (string \<Rightarrow> string option)" where
  "kvEffect (KvGet k) m = m"
| "kvEffect (KvPut k v) m = m(k \<mapsto> serializeKvStateValue v)"
| "kvEffect (KvDelete k) m = m(k := None)"

lemma kvProvider_step:
  assumes "config_ok cfg" "holds_facet mem_get cfg s f"
    and run: "kvProvider mem_get mem_put parseJson cfg input s = (r, s')"
  shows "\<exists>f'. holds_facet mem_get cfg s' f' \<and> (\<forall>k. k \<noteq> kc_storageKey cfg \<longrightarrow> mem_get s' k = mem_get s k) \<and>
    (case (r, parseKvStateInput input) of
       (Inr v, Inr request) \<Rightarrow> contents f' = kvEffect request (contents f) \<and>
         (\<forall>k. request = KvGet k \<longrightarrow>
            v = (case contents f k of None \<Rightarrow> JObj PlainObj [(''found'', JBool False)]
                 | Some j \<Rightarrow> JObj PlainObj [(''found'', JBool True), (''value'', parseJson j)]))
     | _ \<Rightarrow> s' = s)"
proof (cases r)
  case (Inl e)
  then have "s' = s"
    using run mem_facets.kvPut_rejected mem_facets.kvDelete_rejected
    by (auto simp: kvProvider_def split: sum.splits if_splits KvStateInput.splits)
  then show ?thesis using assms(2) Inl by auto
next
  case (Inr v)
  then obtain request where req: "parseKvStateInput input = Inr request"
    and size: "int (utf8_length (kv_key request)) \<le> kc_maxKeyBytes cfg"
    using run by (auto simp: kvProvider_def split: sum.splits if_splits)
  have read: "readKvStateSnapshot (mem_get s (kc_storageKey cfg)) = Inr f"
    using assms(2) by (simp add: holds_facet_def)
  show ?thesis
  proof (cases request)
    case (KvGet k)
    then show ?thesis
      using run req size Inr assms(2)
      by (auto simp: kvProvider_def kvGet_def read contents_def split: option.splits)
  next
    case (KvPut k x)
    then have "kvPut mem_get mem_put cfg k x s = (Inr v, s')"
      using run req size Inr by (simp add: kvProvider_def)
    from mem_facets.kvPut_ok [OF assms(1,2) _ this] size KvPut req Inr show ?thesis by auto
  next
    case (KvDelete k)
    then have "kvDelete mem_get mem_put cfg k s = (Inr v, s')"
      using run req size Inr by (simp add: kvProvider_def)
    from mem_facets.kvDelete_ok [OF assms(1,2) this] KvDelete req Inr show ?thesis by auto
  qed
qed


definition example_kv :: kv_config where
  "example_kv = \<lparr>kc_storageKey = kvStateFacetStorageKey \<lparr>ks_tenantId = ''t'', ks_pluginName = ''p'', ks_version = ''1''\<rparr>,
     kc_maxKeyBytes = 16, kc_maxValueBytes = 16, kc_maxTotalBytes = 32, kc_maxEntries = 2\<rparr>"

lemma example_kv_created:
  "createKvStateProvider \<lparr>ks_tenantId = ''t'', ks_pluginName = ''p'', ks_version = ''1''\<rparr>
     \<lparr>kl_maxKeyBytes = NInt 16, kl_maxValueBytes = NInt 16, kl_maxTotalBytes = NInt 32, kl_maxEntries = NInt 2\<rparr>
   = Inr example_kv"
  by code_simp

definition example_put :: jsval where
  "example_put = JObj PlainObj [(''operation'', JStr ''put''), (''key'', JStr ''k''), (''value'', JNum (NInt 7))]"


text \<open>
  C8: the quotas are invariant. Whatever requests a plugin sends, in any order, starting from a new
  facet: the stored bytes are counted exactly and never exceed the total, the entry count never
  exceeds its limit, and every key and value is within its own limit.
\<close>

fun kvRun :: "(string \<Rightarrow> jsval) \<Rightarrow> kv_config \<Rightarrow> jsval list \<Rightarrow> (string \<times> kv_raw) list \<Rightarrow> (string \<times> kv_raw) list" where
  "kvRun parseJson cfg [] s = s"
| "kvRun parseJson cfg (i # is) s = kvRun parseJson cfg is (snd (kvProvider mem_get mem_put parseJson cfg i s))"

lemma kvRun_holds:
  "config_ok cfg \<Longrightarrow> holds_facet mem_get cfg s f \<Longrightarrow> \<exists>f'. holds_facet mem_get cfg (kvRun parseJson cfg is s) f'"
proof (induction "is" arbitrary: s f)
  case (Cons i rest)
  obtain r s' where e: "kvProvider mem_get mem_put parseJson cfg i s = (r, s')" by fastforce
  from kvProvider_step [OF Cons.prems e] obtain f' where "holds_facet mem_get cfg s' f'" by blast
  from Cons.IH [OF Cons.prems(1) this] show ?case by (simp add: e)
qed auto

theorem kv_state_quotas:
  assumes "createKvStateProvider scope limits = Inr cfg"
  shows "\<exists>f. readKvStateSnapshot (mem_get (kvRun parseJson cfg inputs []) (kc_storageKey cfg)) = Inr f \<and> facet_ok cfg f"
proof -
  have ok: "config_ok cfg" using created_config_ok [OF assms] by simp
  have "mem_get ([] :: (string \<times> kv_raw) list) (kc_storageKey cfg) = None" by (simp add: mem_get_def)
  from kvRun_holds [OF ok mem_facets.empty_facet [OF ok this], of parseJson inputs]
  show ?thesis by (simp add: holds_facet_def)
qed

theorem kv_state_quotas_witness:
  "\<exists>f. readKvStateSnapshot (mem_get (kvRun (\<lambda>_. JNull) example_kv [example_put, JNull] [])
      (kc_storageKey example_kv)) = Inr f \<and> facet_ok example_kv f"
  by (rule kv_state_quotas [OF example_kv_created])

text \<open>
  Tenants cannot reach each other's state. Two facets that differ in tenant, plugin or version
  have different storage keys, so no request on one changes what the storage holds for the other.
\<close>

theorem kv_state_isolated:
  assumes "createKvStateProvider a limits = Inr cfg"
    and "(ks_tenantId a, ks_pluginName a, ks_version a) \<noteq> (ks_tenantId b, ks_pluginName b, ks_version b)"
    and "kvProvider mem_get mem_put parseJson cfg input s = (r, s')"
  shows "mem_get s' (kvStateFacetStorageKey b) = mem_get s (kvStateFacetStorageKey b)"
proof -
  have "kvStateFacetStorageKey b \<noteq> kc_storageKey cfg"
    using assms(2) created_config_ok [OF assms(1)] kvStateFacetStorageKey_inj by auto
  then show ?thesis
    using assms(3)
    by (auto simp: kvProvider_def kvPut_def kvDelete_def Let_def
        split: sum.splits if_splits KvStateInput.splits option.splits)
qed

theorem kv_state_isolated_witness:
  "mem_get (snd (kvProvider mem_get mem_put (\<lambda>_. JNull) example_kv example_put []))
     (kvStateFacetStorageKey \<lparr>ks_tenantId = ''u'', ks_pluginName = ''p'', ks_version = ''1''\<rparr>) = None"
proof -
  obtain r s' where e: "kvProvider mem_get mem_put (\<lambda>_. JNull) example_kv example_put [] = (r, s')" by fastforce
  from kv_state_isolated [OF example_kv_created _ e,
      of "\<lparr>ks_tenantId = ''u'', ks_pluginName = ''p'', ks_version = ''1''\<rparr>"]
  show ?thesis by (simp add: e mem_get_def)
qed

end
