(* ===== verification/CapLimiter.thy ===== *)
theory CapLimiter
  imports CapInput KeyedStore
begin

text \<open>
  \<open>packages/capabilities/src/index.ts\<close>: the fixed-window rate limiter and the call journal, both
  over a keyed storage. Times are milliseconds.
\<close>

section \<open>Rate limiter\<close>

record CapabilityRateLimit =
  rl_limit :: jsnum
  rl_windowMs :: jsnum

record CapabilityRateLimitBucket =
  rb_capability :: string
  rb_windowStartedAt :: int
  rb_count :: int

record CapabilityRateLimitDecision =
  rd_allowed :: bool
  rd_count :: int
  rd_limit :: jsnum
  rd_resetAt :: int

fun positiveInteger :: "jsnum \<Rightarrow> int option" where
  "positiveInteger (NInt i) = (if i < 1 then None else Some i)"
| "positiveInteger _ = None"

definition validateCapabilityRateLimit :: "string \<Rightarrow> CapabilityRateLimit \<Rightarrow> (int \<times> int) cap" where
  "validateCapabilityRateLimit capability limit =
     (case (positiveInteger (rl_limit limit), positiveInteger (rl_windowMs limit)) of
        (Some l, Some w) \<Rightarrow> Inr (l, w)
      | _ \<Rightarrow> Inl (PlainError (''capability '' @ capability @ '' has invalid rate limit'')))"

text \<open>
  \<open>params.limits[capability]\<close>: an own limit, none, or for the name of an inherited member a value
  that fails the validation.
\<close>

definition lookupLimit :: "(string \<times> CapabilityRateLimit) list \<Rightarrow> string \<Rightarrow> CapabilityRateLimit option" where
  "lookupLimit limits capability =
     (case map_of limits capability of
        Some l \<Rightarrow> Some l
      | None \<Rightarrow> if capability \<in> set object_prototype_keys
                then Some \<lparr>rl_limit = NaN, rl_windowMs = NaN\<rparr> else None)"

definition nextBucket ::
  "string \<Rightarrow> int \<Rightarrow> int \<Rightarrow> CapabilityRateLimitBucket option \<Rightarrow> CapabilityRateLimitBucket" where
  "nextBucket capability at windowMs current =
     (case current of
        None \<Rightarrow> \<lparr>rb_capability = capability, rb_windowStartedAt = at, rb_count = 0\<rparr>
      | Some b \<Rightarrow> if windowMs \<le> at - rb_windowStartedAt b
                  then \<lparr>rb_capability = capability, rb_windowStartedAt = at, rb_count = 0\<rparr> else b)"

definition checkCapabilityRateLimit ::
  "('s \<Rightarrow> string \<Rightarrow> CapabilityRateLimitBucket option) \<Rightarrow> (string \<Rightarrow> CapabilityRateLimitBucket \<Rightarrow> 's \<Rightarrow> 's) \<Rightarrow>
   (string \<times> CapabilityRateLimit) list \<Rightarrow> string \<Rightarrow> int \<Rightarrow> ('s, cap_error, CapabilityRateLimitDecision) step" where
  "checkCapabilityRateLimit get put limits capability at s =
     (case lookupLimit limits capability of
        None \<Rightarrow> (Inr \<lparr>rd_allowed = True, rd_count = 0, rd_limit = PosInf, rd_resetAt = at\<rparr>, s)
      | Some limit \<Rightarrow>
          (case validateCapabilityRateLimit capability limit of
             Inl e \<Rightarrow> (Inl e, s)
           | Inr (l, w) \<Rightarrow>
               (let bucket = nextBucket capability at w (get s capability);
                    next = bucket\<lparr>rb_count := rb_count bucket + 1\<rparr>;
                    resetAt = rb_windowStartedAt bucket + w
                in if l < rb_count next
                   then (Inr \<lparr>rd_allowed = False, rd_count = rb_count next, rd_limit = NInt l, rd_resetAt = resetAt\<rparr>, s)
                   else (Inr \<lparr>rd_allowed = True, rd_count = rb_count next, rd_limit = NInt l, rd_resetAt = resetAt\<rparr>,
                         put capability next s))))"

section \<open>Call journal\<close>

record CapabilityCallJournalEntry =
  je_executionId :: string
  je_callIndex :: nat
  je_capability :: string
  je_inputHash :: string
  je_result :: jsval
  je_completedAt :: int

definition journalKey :: "string \<Rightarrow> nat \<Rightarrow> string" where
  "journalKey executionId callIndex = executionId @ '':'' @ show_nat callIndex"

definition readCapabilityCall ::
  "('s \<Rightarrow> string \<Rightarrow> CapabilityCallJournalEntry option) \<Rightarrow> string \<Rightarrow> nat \<Rightarrow> 's \<Rightarrow>
   CapabilityCallJournalEntry option" where
  "readCapabilityCall get executionId callIndex s = get s (journalKey executionId callIndex)"

definition writeCapabilityCall ::
  "(string \<Rightarrow> CapabilityCallJournalEntry \<Rightarrow> 's \<Rightarrow> 's) \<Rightarrow> CapabilityCallJournalEntry \<Rightarrow> 's \<Rightarrow> 's" where
  "writeCapabilityCall put e s = put (journalKey (je_executionId e) (je_callIndex e)) e s"

definition readJournaledCapabilityCall ::
  "('s \<Rightarrow> string \<Rightarrow> CapabilityCallJournalEntry option) \<Rightarrow> string option \<Rightarrow> nat \<Rightarrow> string \<Rightarrow> string \<Rightarrow> 's \<Rightarrow>
   CapabilityCallJournalEntry option cap" where
  "readJournaledCapabilityCall get executionId callIndex capability inputHash s =
     (case executionId of
        None \<Rightarrow> Inr None
      | Some eid \<Rightarrow>
          (case readCapabilityCall get eid callIndex s of
             None \<Rightarrow> Inr None
           | Some entry \<Rightarrow>
               if je_capability entry \<noteq> capability \<or> je_inputHash entry \<noteq> inputHash
               then Inl (CapabilityJournalConflictError
                      (''capability journal conflict for '' @ eid @ '':'' @ show_nat callIndex))
               else Inr (Some entry)))"

section \<open>Journal keys\<close>

lemma show_nat_no_colon: "CHR '':'' \<notin> set (show_nat n)"
  using show_nat_digits [of "CHR '':''" n] by (auto simp: is_digit_def code_def)


lemma append_sep_unique:
  assumes "d \<notin> set b" "d \<notin> set c" "a @ d # b = x @ d # c"
  shows "a = x \<and> b = c"
proof -
  have "rev b @ d # rev a = rev c @ d # rev x"
    using arg_cong [OF assms(3), of rev] by simp
  moreover have "takeWhile (\<lambda>y. y \<noteq> d) (rev b @ d # rev a) = rev b"
    using assms(1) by (auto simp: takeWhile_append)
  moreover have "takeWhile (\<lambda>y. y \<noteq> d) (rev c @ d # rev x) = rev c"
    using assms(2) by (auto simp: takeWhile_append)
  ultimately have "rev b = rev c" by simp
  then show ?thesis using assms(3) by simp
qed

lemma journalKey_inj [simp]:
  "journalKey e i = journalKey e' i' \<longleftrightarrow> e = e' \<and> i = i'"
  using append_sep_unique [OF show_nat_no_colon show_nat_no_colon, of e i e' i']
  by (auto simp: journalKey_def)

text \<open>The storage of the journal and the storage of the limiter, as the two clients see them.\<close>

locale journal_store = keyed_store get put
  for get :: "'s \<Rightarrow> string \<Rightarrow> CapabilityCallJournalEntry option" and put

locale bucket_store = keyed_store get put
  for get :: "'s \<Rightarrow> string \<Rightarrow> CapabilityRateLimitBucket option" and put

context journal_store
begin

lemma read_after_write:
  "readCapabilityCall get e i (writeCapabilityCall put entry s) =
     (if je_executionId entry = e \<and> je_callIndex entry = i then Some entry
      else readCapabilityCall get e i s)"
  by (auto simp: readCapabilityCall_def writeCapabilityCall_def get_put)

end

section \<open>The window bound\<close>

text \<open>A run of checks of one capability, with the window each decision was counted in.\<close>

fun limiterRun ::
  "('s \<Rightarrow> string \<Rightarrow> CapabilityRateLimitBucket option) \<Rightarrow> (string \<Rightarrow> CapabilityRateLimitBucket \<Rightarrow> 's \<Rightarrow> 's) \<Rightarrow>
   (string \<times> CapabilityRateLimit) list \<Rightarrow> string \<Rightarrow> int list \<Rightarrow> 's \<Rightarrow> (int \<times> CapabilityRateLimitDecision) list" where
  "limiterRun get put limits capability [] s = []"
| "limiterRun get put limits capability (at # ats) s =
     (case checkCapabilityRateLimit get put limits capability at s of
        (Inl _, s') \<Rightarrow> limiterRun get put limits capability ats s'
      | (Inr d, s') \<Rightarrow> (at, d) # limiterRun get put limits capability ats s')"

definition allowedWithin :: "int \<Rightarrow> int \<Rightarrow> (int \<times> CapabilityRateLimitDecision) list \<Rightarrow> nat" where
  "allowedWithin a w ds = length (filter (\<lambda>(at, d). rd_allowed d \<and> a \<le> at \<and> at < a + w) ds)"

definition allowedUntil :: "int \<Rightarrow> (int \<times> CapabilityRateLimitDecision) list \<Rightarrow> nat" where
  "allowedUntil r ds = length (filter (\<lambda>(at, d). rd_allowed d \<and> rd_resetAt d = r) ds)"

definition bucket_ok :: "int \<Rightarrow> CapabilityRateLimitBucket option \<Rightarrow> bool" where
  "bucket_ok l b \<longleftrightarrow> (case b of None \<Rightarrow> True | Some b \<Rightarrow> 0 \<le> rb_count b \<and> rb_count b \<le> l)"

definition used :: "CapabilityRateLimitBucket option \<Rightarrow> int" where
  "used b = (case b of None \<Rightarrow> 0 | Some b \<Rightarrow> rb_count b)"

lemma bucket_ok_used: "bucket_ok l b \<Longrightarrow> 0 \<le> l \<Longrightarrow> 0 \<le> used b \<and> used b \<le> l"
  by (auto simp: bucket_ok_def used_def split: option.splits)

lemma positiveInteger_Some: "positiveInteger n = Some i \<longleftrightarrow> n = NInt i \<and> 1 \<le> i"
  by (cases n) auto

context bucket_store
begin

text \<open>One check of a limited capability, by the bucket it finds.\<close>

lemma check_cases:
  assumes "lookupLimit limits cap = Some lim" "validateCapabilityRateLimit cap lim = Inr (l, w)"
  defines "b \<equiv> \<lambda>at s. nextBucket cap at w (get s cap)"
  shows "checkCapabilityRateLimit get put limits cap at s =
    (if l < rb_count (b at s) + 1
     then (Inr \<lparr>rd_allowed = False, rd_count = rb_count (b at s) + 1, rd_limit = NInt l,
               rd_resetAt = rb_windowStartedAt (b at s) + w\<rparr>, s)
     else (Inr \<lparr>rd_allowed = True, rd_count = rb_count (b at s) + 1, rd_limit = NInt l,
               rd_resetAt = rb_windowStartedAt (b at s) + w\<rparr>,
           put cap (b at s\<lparr>rb_count := rb_count (b at s) + 1\<rparr>) s))"
  using assms(1,2) by (simp add: checkCapabilityRateLimit_def b_def Let_def)

lemma window_bound:
  assumes lim: "lookupLimit limits cap = Some lim" "validateCapabilityRateLimit cap lim = Inr (l, w)"
    and "bucket_ok l (get s cap)" "1 \<le> l" "1 \<le> w"
  shows "int (allowedUntil r (limiterRun get put limits cap ats s)) \<le>
    (case get s cap of None \<Rightarrow> l
     | Some b \<Rightarrow> if r = rb_windowStartedAt b + w then l - rb_count b
                 else if r < rb_windowStartedAt b + w then 0 else l)"
  using assms(3)
proof (induction ats arbitrary: s)
  case Nil
  then show ?case using \<open>1 \<le> l\<close> by (auto simp: allowedUntil_def bucket_ok_def split: option.splits)
next
  case (Cons at ats)
  define b where "b = nextBucket cap at w (get s cap)"
  have b: "0 \<le> rb_count b" "rb_count b \<le> l"
    using Cons.prems \<open>1 \<le> l\<close> by (auto simp: b_def nextBucket_def bucket_ok_def split: option.splits)
  note step = check_cases [OF lim, of at s, folded b_def]
  show ?case
  proof (cases "l < rb_count b + 1")
    case True
    then show ?thesis using Cons.IH [OF Cons.prems] step by (simp add: allowedUntil_def)
  next
    case False
    define s' where "s' = put cap (b\<lparr>rb_count := rb_count b + 1\<rparr>) s"
    have ok: "bucket_ok l (get s' cap)" using False b by (simp add: s'_def bucket_ok_def)
    have "int (allowedUntil r (limiterRun get put limits cap (at # ats) s)) =
        (if rb_windowStartedAt b + w = r then 1 else 0) + int (allowedUntil r (limiterRun get put limits cap ats s'))"
      using False step by (simp add: allowedUntil_def s'_def)
    also have "\<dots> \<le> (if r = rb_windowStartedAt b + w then l - rb_count b
                 else if r < rb_windowStartedAt b + w then 0 else l)"
      using Cons.IH [OF ok] by (auto simp: s'_def split: if_splits)
    finally show ?thesis
      using b Cons.prems \<open>1 \<le> w\<close> \<open>1 \<le> l\<close>
      by (auto simp: b_def nextBucket_def bucket_ok_def split: option.splits if_splits)
  qed
qed

lemma limiterRun_times:
  "(t, d) \<in> set (limiterRun get put limits cap ats s) \<Longrightarrow> t \<in> set ats"
proof (induction ats arbitrary: s)
  case (Cons at ats)
  obtain r s' where "checkCapabilityRateLimit get put limits cap at s = (r, s')" by fastforce
  then show ?case using Cons.IH [of s'] Cons.prems by (cases r) auto
qed simp

lemma none_within:
  assumes "\<forall>t \<in> set ats. a + w \<le> t"
  shows "allowedWithin a w (limiterRun get put limits cap ats s) = 0"
  using assms limiterRun_times [of _ _ limits cap ats s]
  by (fastforce simp: allowedWithin_def filter_empty_conv)

lemma within_new_window:
  assumes lim: "lookupLimit limits cap = Some lim" "validateCapabilityRateLimit cap lim = Inr (l, w)"
    and "get s cap = Some b" "a \<le> rb_windowStartedAt b" "0 \<le> rb_count b" "rb_count b \<le> l" "sorted ats"
  shows "int (allowedWithin a w (limiterRun get put limits cap ats s)) \<le> l - rb_count b"
  using assms(3-7)
proof (induction ats arbitrary: s b)
  case Nil
  then show ?case by (simp add: allowedWithin_def)
next
  case (Cons at ats)
  show ?case
  proof (cases "a + w \<le> at")
    case True
    then have "\<forall>t \<in> set (at # ats). a + w \<le> t" using Cons.prems(5) by fastforce
    then show ?thesis using none_within [of "at # ats" a w limits cap s] Cons.prems by linarith
  next
    case False
    then have b: "nextBucket cap at w (get s cap) = b"
      using Cons.prems by (simp add: nextBucket_def)
    note step = check_cases [OF lim, of at s, unfolded b]
    show ?thesis
    proof (cases "l < rb_count b + 1")
      case True
      then show ?thesis using Cons.IH [OF Cons.prems(1-4)] Cons.prems(5) step
        by (simp add: allowedWithin_def)
    next
      case ok: False
      have "int (allowedWithin a w (limiterRun get put limits cap ats
          (put cap (b\<lparr>rb_count := rb_count b + 1\<rparr>) s))) \<le> l - (rb_count b + 1)"
        using Cons.IH [of "put cap (b\<lparr>rb_count := rb_count b + 1\<rparr>) s" "b\<lparr>rb_count := rb_count b + 1\<rparr>"]
          Cons.prems ok by simp
      then show ?thesis using ok step by (simp add: allowedWithin_def)
    qed
  qed
qed

lemma within_started:
  assumes lim: "lookupLimit limits cap = Some lim" "validateCapabilityRateLimit cap lim = Inr (l, w)"
    and "bucket_ok l (get s cap)" "1 \<le> l" "sorted ats" "\<forall>t \<in> set ats. a \<le> t"
  shows "int (allowedWithin a w (limiterRun get put limits cap ats s)) \<le> (l - used (get s cap)) + l"
  using assms(3-6)
proof (induction ats arbitrary: s)
  case Nil
  then show ?case using bucket_ok_used [of l "get s cap"] by (simp add: allowedWithin_def)
next
  case (Cons at ats)
  define b where "b = nextBucket cap at w (get s cap)"
  have b: "0 \<le> rb_count b" "rb_count b \<le> l"
    using Cons.prems by (auto simp: b_def nextBucket_def bucket_ok_def split: option.splits)
  define s' where "s' = put cap (b\<lparr>rb_count := rb_count b + 1\<rparr>) s"
  note step = check_cases [OF lim, of at s, folded b_def, folded s'_def]
  have sub: "sorted ats" "\<forall>t \<in> set ats. a \<le> t" using Cons.prems by auto
  show ?case
  proof (cases "l < rb_count b + 1")
    case True
    then show ?thesis using Cons.IH [OF Cons.prems(1,2) sub] step by (simp add: allowedWithin_def)
  next
    case False
    have rest: "int (allowedWithin a w (limiterRun get put limits cap (at # ats) s)) \<le>
        1 + int (allowedWithin a w (limiterRun get put limits cap ats s'))"
      using False step by (simp add: allowedWithin_def)
    show ?thesis
    proof (cases "get s cap = Some b")
      case True
      have "bucket_ok l (get s' cap)" using False b by (simp add: s'_def bucket_ok_def)
      from Cons.IH [OF this Cons.prems(2) sub] rest True show ?thesis
        by (simp add: s'_def used_def)
    next
      case new: False
      then have n: "rb_windowStartedAt b = at" "rb_count b = 0"
        by (auto simp: b_def nextBucket_def split: option.splits if_splits)
      have "int (allowedWithin a w (limiterRun get put limits cap ats s')) \<le> l - 1"
        using within_new_window [OF lim, of s' "b\<lparr>rb_count := rb_count b + 1\<rparr>" a ats] n Cons.prems sub
        by (simp add: s'_def)
      then show ?thesis using rest bucket_ok_used [OF Cons.prems(1)] Cons.prems(2) by linarith
    qed
  qed
qed

lemma interval_bound:
  assumes lim: "lookupLimit limits cap = Some lim" "validateCapabilityRateLimit cap lim = Inr (l, w)"
    and "bucket_ok l (get s cap)" "1 \<le> l" "sorted ats"
  shows "int (allowedWithin a w (limiterRun get put limits cap ats s)) \<le> 2 * l"
  using assms(3-5)
proof (induction ats arbitrary: s)
  case Nil
  then show ?case by (simp add: allowedWithin_def)
next
  case (Cons at ats)
  show ?case
  proof (cases "a \<le> at")
    case True
    then have "\<forall>t \<in> set (at # ats). a \<le> t" using Cons.prems(3) by fastforce
    then show ?thesis
      using within_started [OF lim Cons.prems] bucket_ok_used [OF Cons.prems(1)] Cons.prems(2) by fastforce
  next
    case False
    define b where "b = nextBucket cap at w (get s cap)"
    have "0 \<le> rb_count b"
      using Cons.prems by (auto simp: b_def nextBucket_def bucket_ok_def split: option.splits)
    then have "\<exists>d s'. checkCapabilityRateLimit get put limits cap at s = (Inr d, s') \<and> bucket_ok l (get s' cap)"
      using check_cases [OF lim, of at s, folded b_def] Cons.prems(1) by (auto simp: bucket_ok_def)
    then show ?thesis using False Cons.IH Cons.prems by (auto simp: allowedWithin_def)
  qed
qed

end

interpretation mem_journal: journal_store mem_get mem_put
  by unfold_locales

interpretation mem_buckets: bucket_store mem_get mem_put
  by unfold_locales

section \<open>Properties\<close>

text \<open>
  C14: the rate limiter bounds calls. Starting from an empty storage, whatever the request times, no
  window admits more than the limit; and when times do not go back, no time interval of one window's
  length admits more than twice the limit.
\<close>

theorem rate_limit_bounds:
  assumes "map_of limits cap = Some \<lparr>rl_limit = NInt l, rl_windowMs = NInt w\<rparr>" "1 \<le> l" "1 \<le> w"
  shows "int (allowedUntil r (limiterRun mem_get mem_put limits cap ats [])) \<le> l \<and>
    (sorted ats \<longrightarrow> int (allowedWithin a w (limiterRun mem_get mem_put limits cap ats [])) \<le> 2 * l)"
proof -
  have lim: "lookupLimit limits cap = Some \<lparr>rl_limit = NInt l, rl_windowMs = NInt w\<rparr>"
    "validateCapabilityRateLimit cap \<lparr>rl_limit = NInt l, rl_windowMs = NInt w\<rparr> = Inr (l, w)"
    using assms by (simp_all add: lookupLimit_def validateCapabilityRateLimit_def)
  have empty: "mem_get [] cap = None" "bucket_ok l (mem_get [] cap)"
    by (simp_all add: mem_get_def bucket_ok_def)
  show ?thesis
    using mem_buckets.window_bound [OF lim empty(2) assms(2,3), of r ats, unfolded empty(1) option.case]
      mem_buckets.interval_bound [OF lim empty(2) assms(2)] by blast
qed

theorem rate_limit_bounds_witness:
  "int (allowedWithin 0 100 (limiterRun mem_get mem_put
      [(''slack.send'', \<lparr>rl_limit = NInt 1, rl_windowMs = NInt 100\<rparr>)] ''slack.send'' [0, 10, 110] [])) \<le> 2 \<and>
   List.map (rd_allowed \<circ> snd) (limiterRun mem_get mem_put
      [(''slack.send'', \<lparr>rl_limit = NInt 1, rl_windowMs = NInt 100\<rparr>)] ''slack.send'' [0, 10, 110] []) =
     [True, False, True]"
proof -
  have "List.map (rd_allowed \<circ> snd) (limiterRun mem_get mem_put
      [(''slack.send'', \<lparr>rl_limit = NInt 1, rl_windowMs = NInt 100\<rparr>)] ''slack.send'' [0, 10, 110] []) =
     [True, False, True]"
    by code_simp
  then show ?thesis
    using rate_limit_bounds [of "[(''slack.send'', \<lparr>rl_limit = NInt 1, rl_windowMs = NInt 100\<rparr>)]"
        "''slack.send''" 1 100 0 "[0, 10, 110]" 0] by simp
qed

end
