(* ===== verification/CapBroker.thy ===== *)
theory CapBroker
  imports CapScope CapLimiter
begin

text \<open>
  \<open>createCapabilityBroker(...).call\<close> of \<open>packages/capabilities/src/index.ts\<close>: the single gate between
  a plugin and every capability. The broker's world holds its call counter, the journal, the limiter's
  buckets, the audit log and the list of provider invocations; providers run in a state \<open>'w\<close> of
  their own. The audit sink and the storages are the adapters that append and store without failing.
\<close>

datatype audit_reason =
    provider_completed
  | grant_missing | provider_missing | input_invalid_reason | scope_denied | provider_denied
  | result_scope_denied | rate_limited
  | provider_failed

record CapabilityAuditRecord =
  au_capability :: string
  au_reason :: audit_reason
  au_at :: int

datatype audit_status = Success | Denied | Error

fun au_status :: "audit_reason \<Rightarrow> audit_status" where
  "au_status provider_completed = Success"
| "au_status provider_failed = Error"
| "au_status _ = Denied"

record 'w broker_world =
  bw_callIndex :: nat
  bw_journal :: "(string \<times> CapabilityCallJournalEntry) list"
  bw_buckets :: "(string \<times> CapabilityRateLimitBucket) list"
  bw_audit :: "CapabilityAuditRecord list"
  bw_invoked :: "(string \<times> jsval) list"
  bw_world :: 'w

record 'w broker_params =
  bp_grants :: "(string \<times> jsval) list"
  bp_providers :: "(string \<times> (jsval \<Rightarrow> ('w, cap_error, jsval) step)) list"
  bp_executionId :: "string option"
  bp_hasJournal :: bool
  bp_limits :: "((string \<times> CapabilityRateLimit) list) option"

text \<open>
  \<open>createCapabilityBroker\<close> rejects a journal without an execution id.
\<close>

definition createCapabilityBroker :: "'w broker_params \<Rightarrow> unit cap" where
  "createCapabilityBroker p =
     guardE (\<not> (bp_hasJournal p \<and> bp_executionId p = None))
       (PlainError ''capability journal requires an executionId'')"

text \<open>
  \<open>params.providers[name]\<close>. A name that is a member of \<open>Object.prototype\<close> finds the built-in
  function; called without a receiver it returns a value for \<open>constructor\<close> (its argument as an
  object), \<open>toString\<close> and, on a non-object, \<open>isPrototypeOf\<close>, and throws a \<open>TypeError\<close> otherwise.
\<close>

definition js_to_object :: "jsval \<Rightarrow> jsval" where
  "js_to_object v =
     (case v of
        JUndef \<Rightarrow> JObj PlainObj [] | JNull \<Rightarrow> JObj PlainObj []
      | JBool _ \<Rightarrow> JObj ForeignProto [] | JNum _ \<Rightarrow> JObj ForeignProto [] | JBigInt _ \<Rightarrow> JObj ForeignProto []
      | JSymbol _ \<Rightarrow> JObj ForeignProto []
      | JStr s \<Rightarrow> JObj ForeignProto (List.map (\<lambda>i. (show_nat i, JStr [s ! i])) [0..<length s])
      | _ \<Rightarrow> v)"

definition builtinFunction :: "string \<Rightarrow> jsval \<Rightarrow> jsval cap" where
  "builtinFunction name input =
     (if name = ''constructor'' then Inr (js_to_object input)
      else if name = ''toString'' then Inr (JStr ''[object Undefined]'')
      else if name = ''isPrototypeOf'' \<and> js_typeof input \<notin> {''object'', ''function''} \<or>
              name = ''isPrototypeOf'' \<and> input = JNull
      then Inr (JBool False)
      else Inl TypeError)"

definition findProvider ::
  "(string \<times> (jsval \<Rightarrow> ('w, cap_error, jsval) step)) list \<Rightarrow> string \<Rightarrow>
   (jsval \<Rightarrow> ('w, cap_error, jsval) step) option" where
  "findProvider providers name =
     (case map_of providers name of
        Some p \<Rightarrow> Some p
      | None \<Rightarrow> if name \<in> set object_prototype_keys
                then Some (\<lambda>input. liftS (builtinFunction name input)) else None)"

section \<open>The steps of a call\<close>

definition writeCapabilityAudit :: "string \<Rightarrow> audit_reason \<Rightarrow> int \<Rightarrow> 'w broker_world \<Rightarrow> 'w broker_world" where
  "writeCapabilityAudit name reason at s =
     s\<lparr>bw_audit := bw_audit s @ [\<lparr>au_capability = name, au_reason = reason, au_at = at\<rparr>]\<rparr>"

definition denyCall :: "string \<Rightarrow> audit_reason \<Rightarrow> int \<Rightarrow> cap_error \<Rightarrow> ('w broker_world, cap_error, 'a) step" where
  "denyCall name reason at e s = (Inl e, writeCapabilityAudit name reason at s)"

definition enforceCapabilityRateLimit ::
  "((string \<times> CapabilityRateLimit) list) option \<Rightarrow> string \<Rightarrow> int \<Rightarrow> ('w broker_world, cap_error, unit) step" where
  "enforceCapabilityRateLimit limits name at s =
     (case limits of
        None \<Rightarrow> (Inr (), s)
      | Some ls \<Rightarrow>
          (case checkCapabilityRateLimit mem_get mem_put ls name at (bw_buckets s) of
             (Inl e, bs) \<Rightarrow> (Inl e, s\<lparr>bw_buckets := bs\<rparr>)
           | (Inr d, bs) \<Rightarrow>
               if rd_allowed d then (Inr (), s\<lparr>bw_buckets := bs\<rparr>)
               else denyCall name rate_limited at
                 (CapabilityDeniedError (''capability '' @ name @ '' exceeded rate limit''))
                 (s\<lparr>bw_buckets := bs\<rparr>)))"

definition invokeProvider ::
  "(jsval \<Rightarrow> ('w, cap_error, jsval) step) \<Rightarrow> string \<Rightarrow> jsval \<Rightarrow> ('w broker_world, cap_error, jsval) step" where
  "invokeProvider provider name input s =
     (case provider input (bw_world s) of
        (r, w) \<Rightarrow> (r, s\<lparr>bw_world := w, bw_invoked := bw_invoked s @ [(name, input)]\<rparr>))"

text \<open>From the provider's invocation to the end of the call.\<close>

definition completeCall ::
  "'w broker_params \<Rightarrow> string \<Rightarrow> jsval \<Rightarrow> (jsval \<Rightarrow> ('w, cap_error, jsval) step) \<Rightarrow> jsval \<Rightarrow> string \<Rightarrow> nat \<Rightarrow> int \<Rightarrow>
   ('w broker_world, cap_error, jsval) step" where
  "completeCall p name grant provider input inputHash callIndex at s =
     (case invokeProvider provider name input s of
        (Inl e, s') \<Rightarrow>
          if is_denied_error e then denyCall name provider_denied at e s'
          else denyCall name provider_failed at
                 (CapabilityProviderError (''capability '' @ name @ '' provider failed'')) s'
      | (Inr providerResult, s') \<Rightarrow>
          (case applyResultScope name grant providerResult of
             Inl e \<Rightarrow> denyCall name result_scope_denied at e s'
           | Inr result \<Rightarrow>
               let s'' = (if bp_hasJournal p
                          then s'\<lparr>bw_journal := writeCapabilityCall mem_put
                                 \<lparr>je_executionId = (case bp_executionId p of None \<Rightarrow> [] | Some e \<Rightarrow> e),
                                  je_callIndex = callIndex, je_capability = name, je_inputHash = inputHash,
                                  je_result = result, je_completedAt = at\<rparr> (bw_journal s')\<rparr>
                          else s')
               in (Inr result, writeCapabilityAudit name provider_completed at s'')))"

text \<open>
  From the call to the decision: refuse, answer from the journal, or proceed to the provider. The
  order of the checks is the source's.
\<close>

datatype 'w admission =
    Replayed jsval
  | Proceed jsval "jsval \<Rightarrow> ('w, cap_error, jsval) step" string

definition admitCall ::
  "runtime \<Rightarrow> 'w broker_params \<Rightarrow> string \<Rightarrow> jsval \<Rightarrow> nat \<Rightarrow> int \<Rightarrow>
   ('w broker_world, cap_error, 'w admission) step" where
  "admitCall rt p name input callIndex at s =
     (let grant = record_get (bp_grants p) name in
      if grant = JUndef then
        denyCall name grant_missing at
          (CapabilityDeniedError (''capability '' @ name @ '' is not granted'')) s
      else (case assertScope rt name grant input of
        Inl e \<Rightarrow> denyCall name (if is_input_error e then input_invalid_reason else scope_denied) at e s
      | Inr _ \<Rightarrow>
          (case findProvider (bp_providers p) name of
             None \<Rightarrow> denyCall name provider_missing at
                       (CapabilityDeniedError (''capability '' @ name @ '' has no provider'')) s
           | Some provider \<Rightarrow>
               (case stableJson input of
                  Inl e \<Rightarrow> (Inl e, s)
                | Inr inputHash \<Rightarrow>
                    (case (if bp_hasJournal p
                           then readJournaledCapabilityCall mem_get (bp_executionId p) callIndex name
                                  inputHash (bw_journal s)
                           else Inr None) of
                       Inl e \<Rightarrow> (Inl e, s)
                     | Inr (Some entry) \<Rightarrow> (Inr (Replayed (je_result entry)), s)
                     | Inr None \<Rightarrow>
                         (case enforceCapabilityRateLimit (bp_limits p) name at s of
                            (Inl e, s') \<Rightarrow> (Inl e, s')
                          | (Inr _, s') \<Rightarrow> (Inr (Proceed grant provider inputHash), s')))))))"

definition brokerCall ::
  "runtime \<Rightarrow> 'w broker_params \<Rightarrow> string \<Rightarrow> jsval \<Rightarrow> int \<Rightarrow> ('w broker_world, cap_error, jsval) step" where
  "brokerCall rt p name input at s =
     (let callIndex = bw_callIndex s in
      case admitCall rt p name input callIndex at (s\<lparr>bw_callIndex := callIndex + 1\<rparr>) of
        (Inl e, s') \<Rightarrow> (Inl e, s')
      | (Inr (Replayed v), s') \<Rightarrow> (Inr v, s')
      | (Inr (Proceed grant provider inputHash), s') \<Rightarrow>
          completeCall p name grant provider input inputHash callIndex at s')"

section \<open>What a call can do\<close>

text \<open>The part of the world that only a provider, or a completed call, may change.\<close>

definition untouched :: "'w broker_world \<Rightarrow> 'w broker_world \<Rightarrow> bool" where
  "untouched s t \<longleftrightarrow>
     bw_callIndex t = bw_callIndex s \<and> bw_journal t = bw_journal s \<and> bw_invoked t = bw_invoked s \<and>
     bw_world t = bw_world s"

definition audits :: "string \<Rightarrow> int \<Rightarrow> 'w broker_world \<Rightarrow> 'w broker_world \<Rightarrow> audit_reason list \<Rightarrow> bool" where
  "audits name at s t reasons \<longleftrightarrow>
     bw_audit t = bw_audit s @
       List.map (\<lambda>r. \<lparr>au_capability = name, au_reason = r, au_at = at\<rparr>) reasons"

text \<open>Everything that must hold for the provider to be reached.\<close>

definition admitted ::
  "runtime \<Rightarrow> 'w broker_params \<Rightarrow> string \<Rightarrow> jsval \<Rightarrow> nat \<Rightarrow> int \<Rightarrow> 'w broker_world \<Rightarrow> jsval \<Rightarrow>
   (jsval \<Rightarrow> ('w, cap_error, jsval) step) \<Rightarrow> string \<Rightarrow> bool" where
  "admitted rt p name input callIndex at s grant provider inputHash \<longleftrightarrow>
     grant = record_get (bp_grants p) name \<and> grant \<noteq> JUndef \<and>
     assertScope rt name grant input = Inr () \<and>
     findProvider (bp_providers p) name = Some provider \<and>
     stableJson input = Inr inputHash \<and>
     (bp_hasJournal p \<longrightarrow> readJournaledCapabilityCall mem_get (bp_executionId p) callIndex name
        inputHash (bw_journal s) = Inr None) \<and>
     (\<exists>s'. enforceCapabilityRateLimit (bp_limits p) name at s = (Inr (), s'))"

definition replays :: "'w broker_params \<Rightarrow> string \<Rightarrow> jsval \<Rightarrow> nat \<Rightarrow> 'w broker_world \<Rightarrow> jsval \<Rightarrow> bool" where
  "replays p name input callIndex s v \<longleftrightarrow>
     (\<exists>h entry. bp_hasJournal p \<and> stableJson input = Inr h \<and>
        readJournaledCapabilityCall mem_get (bp_executionId p) callIndex name h (bw_journal s)
          = Inr (Some entry) \<and> v = je_result entry)"

lemma enforce_effects:
  assumes "enforceCapabilityRateLimit limits name at s = (r, t)"
  shows "untouched s t" "r = Inr () \<Longrightarrow> audits name at s t []"
    "r = Inl e \<Longrightarrow> audits name at s t [] \<or> audits name at s t [rate_limited]"
  using assms
  by (auto simp: enforceCapabilityRateLimit_def denyCall_def writeCapabilityAudit_def untouched_def audits_def
      split: option.splits prod.splits sum.splits if_splits)

lemma deny_effects:
  "denyCall name reason at e s = (r, t) \<Longrightarrow> r = Inl e \<and> untouched s t \<and> audits name at s t [reason]"
  by (auto simp: denyCall_def writeCapabilityAudit_def untouched_def audits_def)

lemma unchanged_effects: "untouched s s" "audits name at s s []"
  by (simp_all add: untouched_def audits_def)

lemma admit_refused:
  fixes s :: "'w broker_world"
  assumes "admitCall rt p name input i at s = (Inl e, t)"
  shows "untouched s t \<and> (audits name at s t [] \<or> (\<exists>reason. au_status reason = Denied \<and> audits name at s t [reason]))"
proof -
  have d: ?thesis if "denyCall name reason at e' s = (Inl e :: (cap_error, 'w admission) outcome, t)" "au_status reason = Denied" for reason e'
    using deny_effects [OF that(1)] that(2) by blast
  have "au_status rate_limited = Denied" by simp
  then have enf: ?thesis if "enforceCapabilityRateLimit (bp_limits p) name at s = (Inl e', t)" for e'
    using enforce_effects(1,3) [OF that] by blast
  have same: ?thesis if "t = s" using unchanged_effects that by blast
  note defs = admitCall_def Let_def
  show ?thesis
  proof (cases "record_get (bp_grants p) name = JUndef")
    case True
    with assms have "denyCall name grant_missing at
        (CapabilityDeniedError (''capability '' @ name @ '' is not granted'')) s = (Inl e :: (cap_error, 'w admission) outcome, t)"
      by (simp add: defs)
    then show ?thesis by (rule d) simp
  next
    case granted: False
    show ?thesis
    proof (cases "assertScope rt name (record_get (bp_grants p) name) input")
      case (Inl e')
      with assms granted have "denyCall name (if is_input_error e' then input_invalid_reason else scope_denied) at e' s = (Inl e :: (cap_error, 'w admission) outcome, t)"
        by (simp add: defs)
      then show ?thesis by (rule d) simp
    next
      case scoped: (Inr u)
      show ?thesis
      proof (cases "findProvider (bp_providers p) name")
        case None
        with assms granted scoped have "denyCall name provider_missing at
            (CapabilityDeniedError (''capability '' @ name @ '' has no provider'')) s = (Inl e :: (cap_error, 'w admission) outcome, t)"
          by (simp add: defs)
        then show ?thesis by (rule d) simp
      next
        case (Some provider)
        then show ?thesis
          using assms granted scoped enf same unfolding defs
          by (simp split: sum.splits option.splits prod.splits)
      qed
    qed
  qed
qed

lemma admit_replayed:
  assumes "admitCall rt p name input i at s = (Inr (Replayed v), t)"
  shows "t = s \<and> replays p name input i s v \<and> record_get (bp_grants p) name \<noteq> JUndef \<and>
    assertScope rt name (record_get (bp_grants p) name) input = Inr ()"
  using assms
  by (auto simp: admitCall_def Let_def replays_def denyCall_def
      split: if_splits sum.splits option.splits prod.splits)

lemma admit_proceed:
  assumes "admitCall rt p name input i at s = (Inr (Proceed grant provider h), t)"
  shows "admitted rt p name input i at s grant provider h \<and> untouched s t \<and> audits name at s t []"
  using assms enforce_effects [of "bp_limits p" name at s]
  by (auto simp: admitCall_def Let_def admitted_def denyCall_def
      split: if_splits sum.splits option.splits prod.splits)

lemma complete_effects:
  assumes "completeCall p name grant provider input h i at s = (r, t)"
  shows "bw_invoked t = bw_invoked s @ [(name, input)] \<and> bw_callIndex t = bw_callIndex s \<and>
    bw_world t = snd (provider input (bw_world s)) \<and>
    (\<exists>reason. audits name at s t [reason] \<and> (reason = provider_completed \<longleftrightarrow> (\<exists>v. r = Inr v)))"
  using assms
  by (auto simp: completeCall_def invokeProvider_def denyCall_def writeCapabilityAudit_def audits_def Let_def
      split: prod.splits sum.splits if_splits) (metis+)?

lemma complete_journal:
  assumes "completeCall p name grant provider input h i at s = (r, t)"
  shows "bw_journal t =
    (case r of
       Inl _ \<Rightarrow> bw_journal s
     | Inr v \<Rightarrow> if bp_hasJournal p
         then writeCapabilityCall mem_put
           \<lparr>je_executionId = (case bp_executionId p of None \<Rightarrow> [] | Some e \<Rightarrow> e), je_callIndex = i,
            je_capability = name, je_inputHash = h, je_result = v, je_completedAt = at\<rparr> (bw_journal s)
         else bw_journal s)"
  using assms
  by (auto simp: completeCall_def invokeProvider_def denyCall_def writeCapabilityAudit_def Let_def
      split: prod.splits sum.splits if_splits)

lemma applyResultScope_Inl:
  "applyResultScope name grant v = Inl e \<Longrightarrow> is_denied_error e \<or> e = TypeError"
  by (auto simp: applyResultScope_def grantField_def bindE_Inl Let_def split: if_splits prod.splits)

lemma complete_errors:
  assumes "completeCall p name grant provider input h i at s = (Inl e, t)"
  shows "is_denied_error e \<or> e = TypeError \<or>
    e = CapabilityProviderError (''capability '' @ name @ '' provider failed'')"
  using assms applyResultScope_Inl
  by (auto simp: completeCall_def invokeProvider_def denyCall_def Let_def
      split: prod.splits sum.splits if_splits)

definition counted :: "'w broker_world \<Rightarrow> 'w broker_world" where
  "counted s = s\<lparr>bw_callIndex := bw_callIndex s + 1\<rparr>"

lemma counted_fields [simp]:
  "bw_callIndex (counted s) = bw_callIndex s + 1" "bw_journal (counted s) = bw_journal s"
  "bw_buckets (counted s) = bw_buckets s" "bw_audit (counted s) = bw_audit s"
  "bw_invoked (counted s) = bw_invoked s" "bw_world (counted s) = bw_world s"
  by (simp_all add: counted_def)

lemma brokerCall_cases:
  assumes "brokerCall rt p name input at s = (r, t)"
  obtains (refused) e where "r = Inl e"
      "admitCall rt p name input (bw_callIndex s) at (counted s) = (Inl e, t)"
  | (replayed) v where "r = Inr v"
      "admitCall rt p name input (bw_callIndex s) at (counted s) = (Inr (Replayed v), t)"
  | (completed) grant provider h s' where
      "admitCall rt p name input (bw_callIndex s) at (counted s) = (Inr (Proceed grant provider h), s')"
      "completeCall p name grant provider input h (bw_callIndex s) at s' = (r, t)"
  using assms
  by (auto simp: brokerCall_def counted_def Let_def split: prod.splits sum.splits admission.splits)

section \<open>A concrete broker\<close>

definition example_runtime :: runtime where
  "example_runtime = \<lparr>rt_parseURL = (\<lambda>s. if s = ''https://a.example'' then Some (url_of_host ''a.example'') else None),
     rt_resolveURL = (\<lambda>_ _. None), rt_parseDate = (\<lambda>_. None), rt_show = (\<lambda>_. [])\<rparr>"

definition example_broker :: "unit broker_params" where
  "example_broker = \<lparr>bp_grants = [(''slack.send'', JObj PlainObj [(''channel'', JStr ''ops'')])],
     bp_providers = [(''slack.send'', \<lambda>_ w. (Inr (JBool True), w))],
     bp_executionId = Some ''e1'', bp_hasJournal = True,
     bp_limits = Some [(''slack.send'', \<lparr>rl_limit = NInt 1, rl_windowMs = NInt 1000\<rparr>)]\<rparr>"

definition example_bworld :: "unit broker_world" where
  "example_bworld = \<lparr>bw_callIndex = 0, bw_journal = [], bw_buckets = [], bw_audit = [], bw_invoked = [],
     bw_world = ()\<rparr>"

definition example_message :: "string \<Rightarrow> jsval" where
  "example_message channel = JObj PlainObj [(''channel'', JStr channel), (''text'', JStr ''hi'')]"

definition example_call :: "(cap_error, jsval) outcome \<times> unit broker_world" where
  "example_call = brokerCall example_runtime example_broker ''slack.send'' (example_message ''ops'') 0 example_bworld"

lemma example_call_result:
  "fst example_call = Inr (JBool True)"
  "bw_invoked (snd example_call) = [(''slack.send'', example_message ''ops'')]"
  "List.map au_reason (bw_audit (snd example_call)) = [provider_completed]"
  by code_simp+

section \<open>Properties of the broker\<close>

text \<open>
  C1: the gate. A call reaches a provider at most once, and only when the capability has a grant,
  the input is within the grant's scope, the journal has no result for the call and the rate limiter
  admits it; otherwise no provider runs, and neither the provider's world nor the journal changes.
\<close>

theorem broker_gate:
  assumes "brokerCall rt p name input at s = (r, t)"
  shows "bw_callIndex t = bw_callIndex s + 1 \<and>
    (bw_invoked t = bw_invoked s \<and> bw_world t = bw_world s \<and> bw_journal t = bw_journal s \<or>
     bw_invoked t = bw_invoked s @ [(name, input)] \<and>
     (\<exists>grant provider h. admitted rt p name input (bw_callIndex s) at (counted s) grant provider h \<and>
        bw_world t = snd (provider input (bw_world s))))"
  using assms
proof (cases rule: brokerCall_cases)
  case (refused e)
  then show ?thesis using admit_refused [OF refused(2)] by (simp add: untouched_def)
next
  case (replayed v)
  then show ?thesis using admit_replayed [OF replayed(2)] by simp
next
  case (completed grant provider h s')
  then show ?thesis
    using admit_proceed [OF completed(1)] complete_effects [OF completed(2)]
    by (auto simp: untouched_def)
qed

theorem broker_gate_witness:
  "\<exists>grant provider h. admitted example_runtime example_broker ''slack.send'' (example_message ''ops'') 0 0
     (counted example_bworld) grant provider h"
proof -
  obtain r t where e: "example_call = (r, t)" by fastforce
  have "bw_invoked t = [(''slack.send'', example_message ''ops'')]"
    using example_call_result(2) unfolding e snd_conv .
  with broker_gate [OF e [unfolded example_call_def]] show ?thesis
    by (auto simp: example_bworld_def)
qed

text \<open>
  A capability that is not granted is denied. For a name with no grant that is not the name of an
  \<open>Object.prototype\<close> member, the call throws the denial, writes the one audit record
  \<open>grant_missing\<close> and changes nothing else.
\<close>

theorem broker_denies_ungranted:
  assumes "map_of (bp_grants p) name = None" "name \<notin> set object_prototype_keys"
  shows "brokerCall rt p name input at s =
    (Inl (CapabilityDeniedError (''capability '' @ name @ '' is not granted'')),
     writeCapabilityAudit name grant_missing at (counted s))"
  using record_get_missing [OF assms]
  by (simp add: brokerCall_def admitCall_def denyCall_def counted_def Let_def)

theorem broker_denies_ungranted_witness:
  "fst (brokerCall example_runtime example_broker ''email.send'' JNull 0 example_bworld) =
     Inl (CapabilityDeniedError ''capability email.send is not granted'')"
proof -
  have "map_of (bp_grants example_broker) ''email.send'' = None" by code_simp
  moreover have "''email.send'' \<notin> set object_prototype_keys" by code_simp
  ultimately show ?thesis
    using broker_denies_ungranted [of example_broker "''email.send''" example_runtime JNull 0 example_bworld]
    by simp
qed




definition failing_broker :: "unit broker_params" where
  "failing_broker = example_broker\<lparr>bp_providers := [(''slack.send'', \<lambda>_ w. (Inl (ForeignError (JStr ''token'')), w))]\<rparr>"


text \<open>
  C4: replay is exact. When a journaled call has returned a result, the same call at the same position
  of a rerun, against any world whose journal has that entry, returns the same result and runs no
  provider, writes no audit record and consumes no rate limit.
\<close>

theorem broker_replay:
  assumes "brokerCall rt p name input at s = (Inr v, t)" "bp_hasJournal p" "bp_executionId p = Some eid"
    and "bw_callIndex u = bw_callIndex s"
    and "readCapabilityCall mem_get eid (bw_callIndex s) (bw_journal u) =
         readCapabilityCall mem_get eid (bw_callIndex s) (bw_journal t)"
  shows "brokerCall rt p name input at' u = (Inr v, counted u)"
proof -
  have "\<exists>h entry. stableJson input = Inr h \<and> je_capability entry = name \<and> je_inputHash entry = h \<and>
      je_result entry = v \<and> readCapabilityCall mem_get eid (bw_callIndex s) (bw_journal t) = Some entry \<and>
      (\<exists>provider. record_get (bp_grants p) name \<noteq> JUndef \<and> findProvider (bp_providers p) name = Some provider \<and>
        assertScope rt name (record_get (bp_grants p) name) input = Inr ())"
    using assms(1)
  proof (cases rule: brokerCall_cases)
    case (replayed w)
    then obtain h entry where "stableJson input = Inr h"
      "readJournaledCapabilityCall mem_get (bp_executionId p) (bw_callIndex s) name h (bw_journal s) = Inr (Some entry)"
      "v = je_result entry"
      using admit_replayed [OF replayed(2)] by (auto simp: replays_def)
    moreover have "\<exists>provider. findProvider (bp_providers p) name = Some provider"
      using replayed(2) admit_replayed [OF replayed(2)]
      by (auto simp: admitCall_def Let_def denyCall_def split: option.splits)
    ultimately show ?thesis
      using admit_replayed [OF replayed(2)] assms(3)
      by (auto simp: readJournaledCapabilityCall_def split: option.splits if_splits)
  next
    case (completed grant provider h s')
    define entry where "entry = \<lparr>je_executionId = eid, je_callIndex = bw_callIndex s, je_capability = name,
      je_inputHash = h, je_result = v, je_completedAt = at\<rparr>"
    have "bw_journal t = writeCapabilityCall mem_put entry (bw_journal s')"
      using complete_journal [OF completed(2)] assms(2,3) by (simp add: entry_def)
    then have "readCapabilityCall mem_get eid (bw_callIndex s) (bw_journal t) = Some entry"
      by (simp add: mem_journal.read_after_write entry_def)
    moreover have "je_capability entry = name" "je_inputHash entry = h" "je_result entry = v"
      by (simp_all add: entry_def)
    ultimately show ?thesis
      using admit_proceed [OF completed(1)] unfolding admitted_def by blast
  qed simp
  then show ?thesis
    using assms(2-5)
    by (auto simp: brokerCall_def admitCall_def counted_def Let_def readJournaledCapabilityCall_def)
qed

theorem broker_replay_witness:
  "brokerCall example_runtime example_broker ''slack.send'' (example_message ''ops'') 5
     (example_bworld\<lparr>bw_journal := bw_journal (snd example_call)\<rparr>) =
   (Inr (JBool True), counted (example_bworld\<lparr>bw_journal := bw_journal (snd example_call)\<rparr>))"
proof -
  obtain r t where e: "example_call = (r, t)" by fastforce
  have r: "r = Inr (JBool True)" using example_call_result(1) unfolding e fst_conv .
  show ?thesis
    using broker_replay [OF e [unfolded example_call_def r], of "''e1''"
        "example_bworld\<lparr>bw_journal := bw_journal (snd example_call)\<rparr>" 5]
    by (simp add: e) (simp add: example_broker_def)
qed

text \<open>
  The exception in \<open>broker_denies_ungranted\<close> is real: \<open>params.grants[name]\<close> and
  \<open>params.providers[name]\<close> read inherited members, so a broker with no grants and no providers
  completes a call of \<open>constructor\<close> and audits it as a success.
\<close>

lemma broker_inherited_name_completes:
  "case brokerCall example_runtime
      \<lparr>bp_grants = [], bp_providers = [], bp_executionId = None, bp_hasJournal = False, bp_limits = None\<rparr>
      ''constructor'' (JObj PlainObj [(''x'', JBool True)]) 0 example_bworld of
    (r, t) \<Rightarrow> r = Inr (JObj PlainObj [(''x'', JBool True)]) \<and> List.map au_reason (bw_audit t) = [provider_completed]"
  by code_simp

end
