(* ===== verification/CpAccess.thy ===== *)
theory CpAccess
  imports JsValue
begin

text \<open>
  \<open>packages/control-plane/src/rbac.ts\<close> and \<open>approval-state.ts\<close>: who may do what in the control
  plane, and which decisions an approval may take. Roles and operations arrive as strings at run
  time, so the checks take strings; the datatypes are the closed lists of the source.
\<close>

section \<open>Roles and operations\<close>

datatype RbacRole = Owner | Admin | Operator | Viewer | TenantAdmin

datatype RbacOperation =
    SessionRead | DashboardRead | InstallationRead | InstallationRequest | InstallationManage
  | RollbackExecute | ApprovalDecide | ExecutionRead | UsageRead | ProviderConnectionManage
  | ServiceTokenIssue | ServiceTokenRevoke | RbacManage

definition RBAC_ROLES :: "RbacRole list" where
  "RBAC_ROLES = [Owner, Admin, Operator, Viewer, TenantAdmin]"

definition RBAC_OPERATIONS :: "RbacOperation list" where
  "RBAC_OPERATIONS =
     [SessionRead, DashboardRead, InstallationRead, InstallationRequest, InstallationManage,
      RollbackExecute, ApprovalDecide, ExecutionRead, UsageRead, ProviderConnectionManage,
      ServiceTokenIssue, ServiceTokenRevoke, RbacManage]"

fun role_tag :: "RbacRole \<Rightarrow> string" where
  "role_tag Owner = ''owner''"
| "role_tag Admin = ''admin''"
| "role_tag Operator = ''operator''"
| "role_tag Viewer = ''viewer''"
| "role_tag TenantAdmin = ''tenant-admin''"

fun operation_tag :: "RbacOperation \<Rightarrow> string" where
  "operation_tag SessionRead = ''session:read''"
| "operation_tag DashboardRead = ''dashboard:read''"
| "operation_tag InstallationRead = ''installation:read''"
| "operation_tag InstallationRequest = ''installation:request''"
| "operation_tag InstallationManage = ''installation:manage''"
| "operation_tag RollbackExecute = ''rollback:execute''"
| "operation_tag ApprovalDecide = ''approval:decide''"
| "operation_tag ExecutionRead = ''execution:read''"
| "operation_tag UsageRead = ''usage:read''"
| "operation_tag ProviderConnectionManage = ''provider-connection:manage''"
| "operation_tag ServiceTokenIssue = ''service-token:issue''"
| "operation_tag ServiceTokenRevoke = ''service-token:revoke''"
| "operation_tag RbacManage = ''rbac:manage''"

fun permissions :: "RbacRole \<Rightarrow> RbacOperation list" where
  "permissions Owner = RBAC_OPERATIONS"
| "permissions Admin =
     [SessionRead, DashboardRead, InstallationRead, InstallationRequest, InstallationManage,
      RollbackExecute, ApprovalDecide, ExecutionRead, UsageRead, ProviderConnectionManage,
      ServiceTokenIssue, ServiceTokenRevoke]"
| "permissions Operator =
     [SessionRead, DashboardRead, InstallationRead, InstallationRequest, ExecutionRead, UsageRead]"
| "permissions Viewer =
     [SessionRead, DashboardRead, InstallationRead, ExecutionRead, UsageRead]"
| "permissions TenantAdmin =
     [SessionRead, DashboardRead, InstallationRead, InstallationRequest, InstallationManage,
      RollbackExecute, ApprovalDecide, ExecutionRead, UsageRead, ProviderConnectionManage]"

text \<open>\<open>isRbacRole\<close> with the role it narrows to.\<close>

definition isRbacRole :: "string \<Rightarrow> RbacRole option" where
  "isRbacRole role = List.find (\<lambda>r. role_tag r = role) RBAC_ROLES"

definition normalizeRbacRole :: "string \<Rightarrow> RbacRole option" where
  "normalizeRbacRole role = (if role = ''manager'' then Some Admin else isRbacRole role)"

definition canRolePerform :: "string \<Rightarrow> string \<Rightarrow> bool" where
  "canRolePerform role operation =
     (case normalizeRbacRole role of
        None \<Rightarrow> False
      | Some r \<Rightarrow> operation \<in> set (List.map operation_tag (permissions r)))"

definition isSupportedRbacRole :: "jsval \<Rightarrow> bool" where
  "isSupportedRbacRole v = (case v of JStr s \<Rightarrow> normalizeRbacRole s \<noteq> None | _ \<Rightarrow> False)"

definition isRbacOperation :: "jsval \<Rightarrow> bool" where
  "isRbacOperation v =
     (case v of JStr s \<Rightarrow> s \<in> set (List.map operation_tag RBAC_OPERATIONS) | _ \<Rightarrow> False)"

instantiation RbacOperation :: linorder
begin

definition rank_of :: "RbacOperation \<Rightarrow> nat" where
  "rank_of p = length (takeWhile (\<lambda>q. q \<noteq> p) RBAC_OPERATIONS)"

definition less_eq_RbacOperation :: "RbacOperation \<Rightarrow> RbacOperation \<Rightarrow> bool" where
  "less_eq_RbacOperation p q \<longleftrightarrow> rank_of p \<le> rank_of q"

definition less_RbacOperation :: "RbacOperation \<Rightarrow> RbacOperation \<Rightarrow> bool" where
  "less_RbacOperation p q \<longleftrightarrow> rank_of p < rank_of q"

instance
proof
  fix p q r :: RbacOperation
  show "p < q \<longleftrightarrow> p \<le> q \<and> \<not> q \<le> p"
    by (auto simp: less_RbacOperation_def less_eq_RbacOperation_def)
  show "p \<le> p" by (simp add: less_eq_RbacOperation_def)
  show "p \<le> q \<Longrightarrow> q \<le> r \<Longrightarrow> p \<le> r" by (simp add: less_eq_RbacOperation_def)
  show "p \<le> q \<Longrightarrow> q \<le> p \<Longrightarrow> p = q"
    by (cases p; cases q) (simp_all add: less_eq_RbacOperation_def rank_of_def RBAC_OPERATIONS_def)
  show "p \<le> q \<or> q \<le> p" by (auto simp: less_eq_RbacOperation_def)
qed

end

lemma all_operations: "p \<in> set RBAC_OPERATIONS"
  by (cases p) (simp_all add: RBAC_OPERATIONS_def)

lemma all_roles: "r \<in> set RBAC_ROLES"
  by (cases r) (simp_all add: RBAC_ROLES_def)

lemma operation_tag_inj [simp]: "operation_tag p = operation_tag q \<longleftrightarrow> p = q"
  by (cases p; cases q) simp_all

lemma role_tag_inj [simp]: "role_tag r = role_tag r' \<longleftrightarrow> r = r'"
  by (cases r; cases r') simp_all

lemma normalize_role_tag [simp]: "normalizeRbacRole (role_tag r) = Some r"
  by (cases r) (simp_all add: normalizeRbacRole_def isRbacRole_def RBAC_ROLES_def)

lemma normalize_Some:
  "normalizeRbacRole role = Some r \<longleftrightarrow> role = role_tag r \<or> role = ''manager'' \<and> r = Admin"
proof
  assume "normalizeRbacRole role = Some r"
  then show "role = role_tag r \<or> role = ''manager'' \<and> r = Admin"
    by (auto simp: normalizeRbacRole_def isRbacRole_def dest: find_Some_in split: if_splits)
next
  have "normalizeRbacRole ''manager'' = Some Admin" by (simp add: normalizeRbacRole_def)
  then show "role = role_tag r \<or> role = ''manager'' \<and> r = Admin \<Longrightarrow> normalizeRbacRole role = Some r"
    using normalize_role_tag [of r] by auto
qed

lemma can_role_tag: "canRolePerform (role_tag r) op \<longleftrightarrow> (\<exists>p \<in> set (permissions r). op = operation_tag p)"
  by (auto simp: canRolePerform_def)

lemma can_perform_operation: "canRolePerform role op \<Longrightarrow> \<exists>p. op = operation_tag p"
  by (auto simp: canRolePerform_def split: option.splits)

lemma can_perform_tag:
  "canRolePerform role (operation_tag p) \<longleftrightarrow> (\<exists>r. normalizeRbacRole role = Some r \<and> p \<in> set (permissions r))"
  by (auto simp: canRolePerform_def split: option.splits)

text \<open>The roles by what they permit: each role includes the roles after it.\<close>

definition role_order :: "RbacRole list" where
  "role_order = [Owner, Admin, TenantAdmin, Operator, Viewer]"

lemma role_chain: "sorted_wrt (\<lambda>r r'. set (permissions r') \<subseteq> set (permissions r)) role_order"
  by (simp add: role_order_def RBAC_OPERATIONS_def)

lemma token_issuers:
  assumes "op \<in> {''service-token:issue'', ''service-token:revoke''}"
  shows "canRolePerform role op \<longleftrightarrow> role \<in> {''owner'', ''admin'', ''manager''}"
proof -
  have issuers: "p \<in> set (permissions r) \<longleftrightarrow> r = Owner \<or> r = Admin"
    if "p \<in> {ServiceTokenIssue, ServiceTokenRevoke}" for p r
    using that by (cases r) (auto simp: RBAC_OPERATIONS_def)
  have "canRolePerform role (operation_tag p) \<longleftrightarrow> role \<in> {''owner'', ''admin'', ''manager''}"
    if "p \<in> {ServiceTokenIssue, ServiceTokenRevoke}" for p
    unfolding can_perform_tag issuers [OF that] normalize_Some
    using role_tag.simps(1,2) by (metis insert_iff empty_iff)
  from this [of ServiceTokenIssue] this [of ServiceTokenRevoke] show ?thesis using assms by auto
qed

text \<open>
  The access check is closed and hierarchical. A permitted operation is always one of the
  thirteen listed operations, and the caller's role is one of the five or the legacy name
  \<open>manager\<close>, which permits exactly what \<open>admin\<close> does. Along owner, admin, tenant-admin, operator,
  viewer every role permits all that a later one does; only the owner manages the RBAC itself,
  and only owner, admin and \<open>manager\<close> issue or revoke service tokens.
\<close>

theorem rbac_hierarchy:
  "(canRolePerform role op \<longrightarrow> isRbacOperation (JStr op) \<and> isSupportedRbacRole (JStr role)) \<and>
   (canRolePerform ''manager'' op \<longleftrightarrow> canRolePerform ''admin'' op) \<and>
   sorted_wrt (\<lambda>r r'. canRolePerform (role_tag r') op \<longrightarrow> canRolePerform (role_tag r) op) role_order \<and>
   (canRolePerform role ''rbac:manage'' \<longleftrightarrow> role = ''owner'') \<and>
   (\<forall>op' \<in> {''service-token:issue'', ''service-token:revoke''}.
      canRolePerform role op' \<longleftrightarrow> role \<in> {''owner'', ''admin'', ''manager''}) \<and>
   (isRbacOperation (JStr op) \<longleftrightarrow> canRolePerform ''owner'' op)"
proof (intro conjI)
  show "canRolePerform role op \<longrightarrow> isRbacOperation (JStr op) \<and> isSupportedRbacRole (JStr role)"
    using all_operations
    by (auto simp: canRolePerform_def isRbacOperation_def isSupportedRbacRole_def split: option.splits)
  show "canRolePerform ''manager'' op \<longleftrightarrow> canRolePerform ''admin'' op"
    by (simp add: canRolePerform_def normalizeRbacRole_def isRbacRole_def RBAC_ROLES_def)
  show "sorted_wrt (\<lambda>r r'. canRolePerform (role_tag r') op \<longrightarrow> canRolePerform (role_tag r) op) role_order"
    by (rule sorted_wrt_mono_rel [OF _ role_chain]) (auto simp: can_role_tag)
  show "canRolePerform role ''rbac:manage'' \<longleftrightarrow> role = ''owner''"
  proof -
    have "RbacManage \<in> set (permissions r) \<longleftrightarrow> r = Owner" for r
      by (cases r) (simp_all add: RBAC_OPERATIONS_def)
    then show ?thesis using can_perform_tag [of role RbacManage] by (simp add: normalize_Some)
  qed
  show "\<forall>op' \<in> {''service-token:issue'', ''service-token:revoke''}.
      canRolePerform role op' \<longleftrightarrow> role \<in> {''owner'', ''admin'', ''manager''}"
    using token_issuers by blast
  show "isRbacOperation (JStr op) \<longleftrightarrow> canRolePerform ''owner'' op"
    using can_role_tag [of Owner op] by (auto simp: isRbacOperation_def)
qed

theorem rbac_hierarchy_witness:
  "canRolePerform ''manager'' ''rollback:execute'' \<and> isRbacOperation (JStr ''rollback:execute'') \<and>
   canRolePerform ''admin'' ''rollback:execute''"
proof -
  have "canRolePerform ''manager'' ''rollback:execute''" by code_simp
  then show ?thesis using rbac_hierarchy [of "''manager''" "''rollback:execute''"] by blast
qed

section \<open>Approval decisions\<close>

datatype ApprovalDecision = DecideApproved | DecideRejected

datatype DecisionState = StatePending | StateApproved | StateRejected | StateExpired

record ApprovalDecisionTransition =
  tr_from :: DecisionState
  tr_decision :: ApprovalDecision
  tr_to :: DecisionState
  tr_allowed :: bool

definition transition_row :: "DecisionState \<Rightarrow> ApprovalDecision \<Rightarrow> DecisionState \<Rightarrow> bool \<Rightarrow> ApprovalDecisionTransition" where
  "transition_row s d t ok = \<lparr>tr_from = s, tr_decision = d, tr_to = t, tr_allowed = ok\<rparr>"

definition approvalDecisionTransitions :: "ApprovalDecisionTransition list" where
  "approvalDecisionTransitions =
     [transition_row StatePending DecideApproved StateApproved True,
      transition_row StatePending DecideRejected StateRejected True,
      transition_row StateApproved DecideApproved StateApproved False,
      transition_row StateApproved DecideRejected StateApproved False,
      transition_row StateRejected DecideApproved StateRejected False,
      transition_row StateRejected DecideRejected StateRejected False,
      transition_row StateExpired DecideApproved StateExpired False,
      transition_row StateExpired DecideRejected StateExpired False]"

definition resolveApprovalDecisionTransition ::
  "DecisionState \<Rightarrow> ApprovalDecision \<Rightarrow> (string, ApprovalDecisionTransition) outcome" where
  "resolveApprovalDecisionTransition s d =
     (case List.find (\<lambda>c. tr_from c = s \<and> tr_decision c = d) approvalDecisionTransitions of
        None \<Rightarrow> Inl ''missing approval transition''
      | Some t \<Rightarrow> Inr t)"

text \<open>An approval under a sequence of decisions: the state and what each decision was told.\<close>

fun decide_all :: "DecisionState \<Rightarrow> ApprovalDecision list \<Rightarrow> (string, bool list \<times> DecisionState) outcome" where
  "decide_all s [] = Inr ([], s)"
| "decide_all s (d # ds) =
     bindE (resolveApprovalDecisionTransition s d) (\<lambda>t.
     bindE (decide_all (tr_to t) ds) (\<lambda>(oks, u). Inr (tr_allowed t # oks, u)))"

fun decided :: "ApprovalDecision \<Rightarrow> DecisionState" where
  "decided DecideApproved = StateApproved"
| "decided DecideRejected = StateRejected"

lemma resolve_table:
  "resolveApprovalDecisionTransition s d =
     Inr (transition_row s d (if s = StatePending then decided d else s) (s = StatePending))"
  by (cases s; cases d) (simp_all add: resolveApprovalDecisionTransition_def
        approvalDecisionTransitions_def transition_row_def)

lemma decide_all_settled:
  "s \<noteq> StatePending \<Longrightarrow> decide_all s ds = Inr (replicate (length ds) False, s)"
  by (induction ds) (auto simp: resolve_table transition_row_def)

text \<open>
  The transition table is total and its decisions are final. Whatever decisions an approval
  receives, none raises; a settled approval (approved, rejected, expired) refuses all of them and
  keeps its state; a pending one accepts the first decision only, takes the state it names, and
  refuses the rest.
\<close>

theorem approval_first_decision_wins:
  "decide_all s ds =
     (if s = StatePending \<and> ds \<noteq> []
      then Inr (True # replicate (length ds - 1) False, decided (hd ds))
      else Inr (replicate (length ds) False, s))"
proof (cases "s = StatePending")
  case True
  have "decided d \<noteq> StatePending" for d by (cases d) auto
  with True show ?thesis
    by (cases ds) (auto simp: resolve_table transition_row_def decide_all_settled)
qed (simp add: decide_all_settled)

end
