(* ===== verification/IsoDate.thy ===== *)
theory IsoDate
  imports JsValue
begin

text \<open>
  ISO time stamps: \<open>Date.parse\<close> of the text \<open>toISOString\<close> writes, and the round trip between
  them for the years 0 to 9999. The components keep times as such texts in their database rows
  and read them back. Texts in any other format are read by an argument \<open>other\<close>, since
  ECMAScript leaves most of them to the implementation.
\<close>

section \<open>The calendar\<close>

definition days_from_civil :: "int \<Rightarrow> int \<Rightarrow> int \<Rightarrow> int" where
  "days_from_civil y m d =
     (let y' = (if m \<le> 2 then y - 1 else y);
          yoe = y' mod 400;
          mp = (if m \<le> 2 then m + 9 else m - 3)
      in y' div 400 * 146097 + (yoe * 365 + yoe div 4 - yoe div 100 + ((153 * mp + 2) div 5 + d - 1)) - 719468)"

text \<open>First day of the year \<open>y\<close> of an era, and the scaled day whose quotient by 365 is the year.\<close>

definition year_start :: "int \<Rightarrow> int" where
  "year_start y = 365 * y + y div 4 - y div 100"

definition scaled_day :: "int \<Rightarrow> int" where
  "scaled_day n = n - n div 1460 + n div 36524 - n div 146096"

lemma div_step:
  assumes "(0 :: int) < d"
  shows "(n + 1) div d = n div d + (if d dvd n + 1 then 1 else 0)"
proof -
  have "n + 1 = d * (n div d) + (n mod d + 1)" by simp
  then have "(n + 1) div d = n div d + (n mod d + 1) div d" "d dvd n + 1 \<longleftrightarrow> d dvd n mod d + 1"
    using assms by (metis div_mult_self2 less_irrefl add.commute, metis dvd_add_times_triv_left_iff mult.commute)
  moreover have "0 \<le> n mod d" "n mod d < d" using assms by simp_all
  then have "(n mod d + 1) div d = (if d dvd n mod d + 1 then 1 else 0)"
  proof (cases "n mod d + 1 = d")
    case False
    with \<open>0 \<le> n mod d\<close> \<open>n mod d < d\<close> have "0 < n mod d + 1" "n mod d + 1 < d" by simp_all
    then show ?thesis by (auto dest: zdvd_imp_le)
  qed (use assms in auto)
  ultimately show ?thesis by simp
qed

lemma div_step_le: "0 < d \<Longrightarrow> (n + 1) div d \<le> n div d + 1" for d n :: int
  by (simp add: div_step)

lemma div_step_ge: "0 < d \<Longrightarrow> n div d \<le> (n + 1) div d" for d n :: int
  by (simp add: div_step)

lemma div_step_dvd:
  "0 < d \<Longrightarrow> 0 < e \<Longrightarrow> d dvd e \<Longrightarrow> (n + 1) div e - n div e \<le> (n + 1) div d - n div d" for d e n :: int
  by (auto simp: div_step dest: dvd_trans)

lemma scaled_day_step: "scaled_day n \<le> scaled_day (n + 1)"
proof -
  have "(36524 :: int) dvd 146096" by simp
  with div_step_dvd [of 36524 146096 n] div_step_le [of 1460 n] show ?thesis
    unfolding scaled_day_def by linarith
qed

lemma scaled_day_mono: "m \<le> n \<Longrightarrow> scaled_day m \<le> scaled_day n"
proof (induction n rule: int_ge_induct)
  case (step i)
  then show ?case using scaled_day_step [of i] by linarith
qed simp

definition year_bounds_ok :: "int \<Rightarrow> bool" where
  "year_bounds_ok y \<longleftrightarrow> 365 * y \<le> scaled_day (year_start y) \<and> scaled_day (year_start (y + 1) - 1) < 365 * (y + 1)"

lemma year_bounds_checked: "list_all year_bounds_ok [0..399]"
  by code_simp

lemma year_bounds: "0 \<le> y \<Longrightarrow> y \<le> 399 \<Longrightarrow> year_bounds_ok y"
  using year_bounds_checked by (simp add: list_all_iff)

lemma quotient_365: "365 * (s div 365) \<le> s \<and> s < 365 * (s div 365 + 1)" for s :: int
  by presburger

lemma year_length: "year_start (y + 1) \<le> year_start y + 366"
  using div_step_le [where d = 4 and n = y] div_step_ge [where d = 100 and n = y] by (simp add: year_start_def)

lemma year_of_day:
  assumes "0 \<le> n" "n < 146097"
  defines "y \<equiv> scaled_day n div 365"
  shows "0 \<le> y \<and> y \<le> 399" "year_start y \<le> n" "n \<le> year_start y + 365"
proof -
  have "scaled_day 0 \<le> scaled_day n" "scaled_day n \<le> scaled_day 146096"
    using assms scaled_day_mono by auto
  moreover have "scaled_day 0 = 0" "scaled_day 146096 = 145999" by (simp_all add: scaled_day_def)
  ultimately show y: "0 \<le> y \<and> y \<le> 399" unfolding y_def by linarith
  have q: "365 * y \<le> scaled_day n" "scaled_day n < 365 * (y + 1)"
    unfolding y_def using quotient_365 by blast+
  show "year_start y \<le> n"
  proof (rule ccontr)
    assume "\<not> year_start y \<le> n"
    moreover from this have "y \<noteq> 0" using assms by (auto simp: year_start_def)
    ultimately show False
      using y q year_bounds [of "y - 1"] scaled_day_mono [of n "year_start y - 1"]
      by (simp add: year_bounds_ok_def)
  qed
  show "n \<le> year_start y + 365"
  proof (cases "y = 399")
    case True
    with assms(1,2) show ?thesis by (simp add: year_start_def)
  next
    case False
    have "n < year_start (y + 1)"
    proof (rule ccontr)
      assume "\<not> n < year_start (y + 1)"
      with False y q show False
        using year_bounds [of "y + 1"] scaled_day_mono [of "year_start (y + 1)" n]
        by (simp add: year_bounds_ok_def)
    qed
    then show ?thesis using year_length [of y] by simp
  qed
qed

lemma civil_parts:
  assumes "civil_from_days n = (y, m, d)"
  shows "1 \<le> m \<and> m \<le> 12" "0 \<le> d \<and> d \<le> 99" "days_from_civil y m d = n"
proof -
  define doe where "doe = (n + 719468) mod 146097"
  define era where "era = (n + 719468) div 146097"
  define yoe where "yoe = scaled_day doe div 365"
  define doy where "doy = doe - year_start yoe"
  define mp where "mp = (5 * doy + 2) div 153"
  have doe: "0 \<le> doe" "doe < 146097" by (simp_all add: doe_def)
  note yr = year_of_day [OF doe, folded yoe_def]
  have "0 \<le> doy" "doy \<le> 365" using yr by (simp_all add: doy_def)
  then have mp: "0 \<le> mp" "mp \<le> 11" "153 * mp \<le> 5 * doy + 2" "5 * doy + 2 < 153 * mp + 153"
    unfolding mp_def by linarith+
  have civ: "civil_from_days n =
      (yoe + era * 400 + (if (if mp < 10 then mp + 3 else mp - 9) \<le> 2 then 1 else 0),
       if mp < 10 then mp + 3 else mp - 9, doy - (153 * mp + 2) div 5 + 1)"
    unfolding civil_from_days_def Let_def doe_def era_def yoe_def doy_def mp_def scaled_day_def
      year_start_def ..
  have eq: "m = (if mp < 10 then mp + 3 else mp - 9)" "d = doy - (153 * mp + 2) div 5 + 1"
    "y = yoe + era * 400 + (if m \<le> 2 then 1 else 0)"
    using assms civ by auto
  show "1 \<le> m \<and> m \<le> 12" using mp eq by auto
  show "0 \<le> d \<and> d \<le> 99" using mp eq by linarith
  have era: "(if m \<le> 2 then y - 1 else y) = yoe + era * 400" using eq by simp
  have quot: "(yoe + era * 400) div 400 = era" "(yoe + era * 400) mod 400 = yoe"
    using yr(1) by simp_all
  have mp': "(if m \<le> 2 then m + 9 else m - 3) = mp" using mp eq by auto
  have "n = era * 146097 + doe - 719468"
    unfolding era_def doe_def by (metis add_diff_cancel_right' div_mult_mod_eq)
  also have "\<dots> = days_from_civil y m d"
    unfolding days_from_civil_def Let_def era quot mp' using eq(2)
    by (simp add: doy_def year_start_def)
  finally show "days_from_civil y m d = n" by simp
qed

section \<open>Reading a time stamp\<close>

definition digits_at :: "nat \<Rightarrow> nat \<Rightarrow> string \<Rightarrow> int" where
  "digits_at i n s = int (read_nat (take n (drop i s)))"

definition iso_candidate :: "string \<Rightarrow> int" where
  "iso_candidate s =
     days_from_civil (digits_at 0 4 s) (digits_at 5 2 s) (digits_at 8 2 s) * ms_per_day
     + digits_at 11 2 s * 3600000 + digits_at 14 2 s * 60000 + digits_at 17 2 s * 1000 + digits_at 20 3 s"

text \<open>The time a text of the form \<open>toISOString\<close> writes denotes; \<open>other\<close> reads the rest.\<close>

definition dateParse :: "(string \<Rightarrow> int option) \<Rightarrow> string \<Rightarrow> int option" where
  "dateParse other s =
     (if toISOString (iso_candidate s) = s then Some (iso_candidate s) else other s)"

definition iso_year_ok :: "int \<Rightarrow> bool" where
  "iso_year_ok ms \<longleftrightarrow> (case civil_from_days (ms div ms_per_day) of (y, _, _) \<Rightarrow> 0 \<le> y \<and> y \<le> 9999)"

lemma show_nat_length: "n < 10 ^ k \<Longrightarrow> 0 < k \<Longrightarrow> length (show_nat n) \<le> k"
proof (induction n arbitrary: k rule: show_nat.induct)
  case (1 n)
  show ?case
  proof (cases "n < 10")
    case True
    with 1 show ?thesis by (subst show_nat.simps) simp
  next
    case False
    with 1(2,3) obtain j where k: "k = Suc j" "0 < j" by (cases k; cases "k - 1") auto
    with 1(2) have "n div 10 < 10 ^ j" by simp
    with 1(1) [OF False this \<open>0 < j\<close>] False k show ?thesis by (subst show_nat.simps) simp
  qed
qed

lemma read_nat_zeros: "read_nat (replicate k (CHR ''0'') @ s) = read_nat s"
  by (induction k) (simp_all add: read_nat_def code_def)

lemma pad_int_length: "0 \<le> i \<Longrightarrow> i < 10 ^ k \<Longrightarrow> 0 < k \<Longrightarrow> length (pad_int k i) = k"
proof -
  assume "0 \<le> i" "i < 10 ^ k" "0 < k"
  then have "nat i < 10 ^ k" by (simp add: nat_less_iff)
  with show_nat_length \<open>0 < k\<close> show ?thesis by (simp add: pad_int_def pad_left_def)
qed

lemma pad_int_length_2: "0 \<le> i \<Longrightarrow> i < 100 \<Longrightarrow> length (pad_int 2 i) = 2"
  by (simp add: pad_int_length)

lemma pad_int_length_mod: "length (pad_int 2 (i mod 60)) = 2" "length (pad_int 2 (j mod 60)) = 2"
  "length (pad_int 3 (k mod 1000)) = 3"
  using pos_mod_bound [of 60 i] pos_mod_bound [of 60 j] pos_mod_bound [of 1000 k]
  by (simp_all add: pad_int_length)

lemma read_pad_int: "0 \<le> i \<Longrightarrow> int (read_nat (pad_int k i)) = i"
  by (simp add: pad_int_def pad_left_def read_nat_zeros read_show_nat)

lemma pad_int_inj: "0 \<le> i \<Longrightarrow> 0 \<le> j \<Longrightarrow> pad_int k i = pad_int k j \<Longrightarrow> i = j"
  by (metis read_pad_int)

text \<open>The fields of a time stamp and where its text holds them.\<close>

lemma iso_layout:
  assumes "length Y = 4" "length M = 2" "length D = 2" "length h = 2" "length mi = 2" "length s = 2" "length f = 3"
  defines "text \<equiv> (Y @ ''-'' @ M @ ''-'' @ D) @ ''T'' @ h @ '':'' @ mi @ '':'' @ s @ ''.'' @ f @ ''Z''"
  shows "digits_at 0 4 text = int (read_nat Y)" "digits_at 5 2 text = int (read_nat M)"
    "digits_at 8 2 text = int (read_nat D)" "digits_at 11 2 text = int (read_nat h)"
    "digits_at 14 2 text = int (read_nat mi)" "digits_at 17 2 text = int (read_nat s)"
    "digits_at 20 3 text = int (read_nat f)"
  using assms(1-7) by (simp_all add: digits_at_def text_def)

lemma time_of_day: 
  "0 \<le> t \<Longrightarrow> t < 86400000 \<Longrightarrow>
     t div 3600000 * 3600000 + t div 60000 mod 60 * 60000 + t div 1000 mod 60 * 1000 + t mod 1000 = t" for t :: int
proof -
  have "t div 60000 = t div 1000 div 60" "t div 3600000 = t div 60000 div 60"
    by (simp_all add: zdiv_zmult2_eq [symmetric])
  then have "t div 60000 * 60 + t div 1000 mod 60 = t div 1000"
    "t div 3600000 * 60 + t div 60000 mod 60 = t div 60000" by simp_all
  moreover have "t div 1000 * 1000 + t mod 1000 = t" by simp
  ultimately show ?thesis by linarith
qed

theorem dateParse_toISOString:
  assumes "iso_year_ok t"
  shows "dateParse other (toISOString t) = Some t"
proof -
  define n where "n = t div ms_per_day"
  define r where "r = t mod ms_per_day"
  obtain y m d where c: "civil_from_days n = (y, m, d)" by (cases "civil_from_days n")
  have y: "0 \<le> y" "y \<le> 9999" using assms c by (simp_all add: iso_year_ok_def n_def)
  note md = civil_parts [OF c]
  have r: "0 \<le> r" "r < 86400000" by (simp_all add: r_def ms_per_day_def)
  then have h: "0 \<le> r div 3600000" "r div 3600000 < 100" by linarith+
  have date: "length (pad_int 4 y) = 4" "length (pad_int 2 m) = 2" "length (pad_int 2 d) = 2"
    using y md(1,2) by (simp_all add: pad_int_length)
  note lens = date pad_int_length_2 [OF h] pad_int_length_mod
  have layout: "toISOString t = (pad_int 4 y @ ''-'' @ pad_int 2 m @ ''-'' @ pad_int 2 d) @ ''T'' @
      pad_int 2 (r div 3600000) @ '':'' @ pad_int 2 (r div 60000 mod 60) @ '':'' @
      pad_int 2 (r div 1000 mod 60) @ ''.'' @ pad_int 3 (r mod 1000) @ ''Z''"
    unfolding toISOString_def Let_def iso_date_def n_def [symmetric] r_def [symmetric] c by simp
  have "0 \<le> m" "0 \<le> d" "0 \<le> r div 60000 mod 60" "0 \<le> r div 1000 mod 60" "0 \<le> r mod 1000"
    using md by simp_all
  note fields = read_pad_int [OF y(1)] read_pad_int [OF h(1)] this [THEN read_pad_int]
  have "iso_candidate (toISOString t) = n * ms_per_day + r"
    unfolding layout iso_candidate_def iso_layout [OF lens] fields md(3)
    using time_of_day [OF r] by linarith
  also have "\<dots> = t" by (simp add: n_def r_def)
  finally show ?thesis by (simp add: dateParse_def)
qed

lemma iso_date_take: "iso_year_ok t \<Longrightarrow> take 10 (toISOString t) = iso_date t"
proof -
  assume t: "iso_year_ok t"
  obtain y m d where c: "civil_from_days (t div ms_per_day) = (y, m, d)" by (cases "civil_from_days (t div ms_per_day)")
  have "length (pad_int 4 y) = 4" "length (pad_int 2 m) = 2" "length (pad_int 2 d) = 2"
    using t c civil_parts [OF c] by (auto intro!: pad_int_length simp: iso_year_ok_def)
  then show ?thesis by (simp add: toISOString_def iso_date_def c Let_def)
qed

lemma iso_date_eq:
  assumes "iso_year_ok t" "iso_year_ok t'"
  shows "iso_date t = iso_date t' \<longleftrightarrow> t div ms_per_day = t' div ms_per_day"
proof
  obtain y m d where c: "civil_from_days (t div ms_per_day) = (y, m, d)" by (cases "civil_from_days (t div ms_per_day)")
  obtain y' m' d' where c': "civil_from_days (t' div ms_per_day) = (y', m', d')" by (cases "civil_from_days (t' div ms_per_day)")
  note p = civil_parts [OF c] and p' = civil_parts [OF c']
  have r: "0 \<le> y" "y \<le> 9999" "0 \<le> y'" "y' \<le> 9999"
    using assms c c' by (simp_all add: iso_year_ok_def)
  have l: "length (pad_int 4 y) = 4" "length (pad_int 2 m) = 2" "length (pad_int 4 y') = 4" "length (pad_int 2 m') = 2"
    using r p p' by (auto intro!: pad_int_length)
  assume "iso_date t = iso_date t'"
  then have "pad_int 4 y = pad_int 4 y' \<and> pad_int 2 m = pad_int 2 m' \<and> pad_int 2 d = pad_int 2 d'"
    using l by (simp add: iso_date_def c c')
  then have "y = y' \<and> m = m' \<and> d = d'" using r p p'
    by (auto intro: pad_int_inj)
  then show "t div ms_per_day = t' div ms_per_day" using p(3) p'(3) by simp
qed (simp add: iso_date_def)

end
