(* ===== verification/JsonText.thy ===== *)
theory JsonText
  imports JsValue
begin

text \<open>
  The JSON text of a list of strings, as \<open>JSON.stringify\<close> writes it and \<open>JSON.parse\<close> reads it back.
\<close>

definition json_strings :: "string list \<Rightarrow> string" where
  "json_strings xs = ''['' @ join '','' (List.map json_quote xs) @ '']''"

definition is_json_space :: "char \<Rightarrow> bool" where
  "is_json_space c \<longleftrightarrow> code c \<in> {9, 10, 13, 32}"

definition short_escape :: "char \<Rightarrow> char option" where
  "short_escape e = map_of
     [(CHR 0x22, CHR 0x22), (CHR 0x5C, CHR 0x5C), (CHR ''/'', CHR ''/''), (CHR ''b'', char_of (8 :: nat)),
      (CHR ''f'', char_of (12 :: nat)), (CHR ''n'', char_of (10 :: nat)), (CHR ''r'', char_of (13 :: nat)),
      (CHR ''t'', char_of (9 :: nat))] e"

definition hex_value :: "char \<Rightarrow> nat option" where
  "hex_value c =
     (if is_digit c then Some (code c - 48)
      else if 97 \<le> code c \<and> code c \<le> 102 then Some (code c - 87)
      else if 65 \<le> code c \<and> code c \<le> 70 then Some (code c - 55) else None)"

text \<open>A code unit from four hexadecimal digits, when it is below 256.\<close>

definition hex_unit :: "char \<Rightarrow> char \<Rightarrow> char \<Rightarrow> char \<Rightarrow> char option" where
  "hex_unit a b c d =
     (case (hex_value a, hex_value b, hex_value c, hex_value d) of
        (Some 0, Some 0, Some m, Some n) \<Rightarrow> Some (char_of (16 * m + n))
      | _ \<Rightarrow> None)"

definition cons_char :: "char option \<Rightarrow> (string \<times> string) option \<Rightarrow> (string \<times> string) option" where
  "cons_char c r = (case (c, r) of (Some c, Some (s, rest)) \<Rightarrow> Some (c # s, rest) | _ \<Rightarrow> None)"

text \<open>The rest of a string literal after its opening quote: its value, and what follows it.\<close>

fun unquote_body :: "string \<Rightarrow> (string \<times> string) option" where
  "unquote_body [] = None"
| "unquote_body (c # s) =
     (if c = CHR 0x22 then Some ([], s)
      else if c = CHR 0x5C then
        (case s of
           [] \<Rightarrow> None
         | e # s1 \<Rightarrow>
             if e = CHR ''u''
             then (case s1 of
                     a # b # x # y # s2 \<Rightarrow> cons_char (hex_unit a b x y) (unquote_body s2)
                   | _ \<Rightarrow> None)
             else cons_char (short_escape e) (unquote_body s1))
      else if code c < 32 then None
      else cons_char (Some c) (unquote_body s))"

lemma cons_char_Some:
  "cons_char c r = Some p \<longleftrightarrow> (\<exists>d s u. c = Some d \<and> r = Some (s, u) \<and> p = (d # s, u))"
  by (auto simp: cons_char_def split: option.splits)

lemma unquote_body_shorter: "unquote_body s = Some (t, u) \<Longrightarrow> length u < length s"
proof (induction "length s" arbitrary: s t u rule: less_induct)
  case less
  have IH: "unquote_body v = Some (t', u') \<Longrightarrow> length v < length s \<Longrightarrow> length u' < length v" for v t' u'
    using less.hyps by blast
  show ?case
  proof (cases s)
    case (Cons c v)
    with less.prems IH show ?thesis
      by (auto simp: cons_char_Some split: if_splits list.splits) (meson less_SucI lessI less_trans)+
  qed (use less.prems in simp)
qed

lemma dropWhile_shorter: "length (dropWhile P s) \<le> length s"
  by (induction s) auto

function parse_elements :: "string \<Rightarrow> string list option" where
  "parse_elements [] = None"
| "parse_elements (q # s) =
     (if q \<noteq> CHR 0x22 then None
      else case unquote_body s of
             None \<Rightarrow> None
           | Some (t, u) \<Rightarrow>
               (case dropWhile is_json_space u of
                  [] \<Rightarrow> None
                | c # v \<Rightarrow>
                    if c = CHR '']'' then (if dropWhile is_json_space v = [] then Some [t] else None)
                    else if c = CHR '','' then map_option ((#) t) (parse_elements (dropWhile is_json_space v))
                    else None))"
  by pat_completeness auto

termination
  apply (relation "measure length")
   apply simp
  subgoal for q s p t u c v
    using unquote_body_shorter [of s t u] dropWhile_shorter [of is_json_space u]
      dropWhile_shorter [of is_json_space v] by simp
  done

text \<open>
  \<open>JSON.parse\<close> for the texts whose value is an array of Latin-1 strings; every other text gives
  \<open>None\<close>. The reader of a row rejects a row unless the value is an array of operation names, so
  the texts with another value need not be told apart.
\<close>

definition parse_json_strings :: "string \<Rightarrow> string list option" where
  "parse_json_strings s =
     (case dropWhile is_json_space s of
        [] \<Rightarrow> None
      | c # u \<Rightarrow>
          if c \<noteq> CHR ''['' then None
          else (case dropWhile is_json_space u of
                  [] \<Rightarrow> None
                | d # v \<Rightarrow> if d = CHR '']'' then (if dropWhile is_json_space v = [] then Some [] else None)
                          else parse_elements (d # v)))"

lemma hex_value_digit: "n < 16 \<Longrightarrow> hex_value (hex_digit n) = Some n"
  by (auto simp: hex_value_def hex_digit_def is_digit_def code_char_of)

lemma short_escape_of: "(code c, k) \<in> short_escapes \<Longrightarrow> short_escape k = Some c"
  by (auto simp: short_escapes_def short_escape_def char_eq_code code_char_of code_def)

lemma unquote_escape: "unquote_body (json_escape c @ s) = cons_char (Some c) (unquote_body s)"
proof (cases c rule: json_escape_cases)
  case plain
  then have "c \<noteq> CHR 0x22" "\<not> code c < 32"
    by (auto simp: json_escape_def split: if_splits)
  with plain show ?thesis by simp
next
  case (short k)
  then show ?thesis using short_escapes_u [OF short(2)] short_escape_of [OF short(2)] by simp
next
  case hex
  have "code c div 16 < 16" using code_less [of c] by simp
  moreover have "char_of (16 * (code c div 16) + code c mod 16) = c" by (simp add: code_def)
  moreover have "hex_value (CHR ''0'') = Some 0" by (simp add: hex_value_def is_digit_def code_def)
  ultimately have "hex_unit (CHR ''0'') (CHR ''0'') (hex_digit (code c div 16)) (hex_digit (code c mod 16)) = Some c"
    by (simp add: hex_unit_def hex_value_digit)
  with hex show ?thesis by simp
qed

lemma unquote_quoted: "unquote_body (concat (List.map json_escape t) @ CHR 0x22 # s) = Some (t, s)"
  by (induction t) (auto simp: unquote_escape cons_char_def)

lemma not_space [simp]:
  "\<not> is_json_space (CHR '','')" "\<not> is_json_space (CHR '']'')" "\<not> is_json_space (CHR 0x22)"
  "\<not> is_json_space (CHR ''['')"
  by (simp_all add: is_json_space_def code_def)

lemma json_quote_append: "json_quote t @ s = CHR 0x22 # concat (List.map json_escape t) @ CHR 0x22 # s"
  by (simp add: json_quote_def)

lemma parse_elements_joined:
  "xs \<noteq> [] \<Longrightarrow> parse_elements (join '','' (List.map json_quote xs) @ '']'') = Some xs"
proof (induction xs)
  case (Cons x xs)
  show ?case
  proof (cases xs)
    case Nil
    then show ?thesis by (simp add: json_quote_append unquote_quoted)
  next
    case (Cons y ys)
    have "dropWhile is_json_space (join '','' (List.map json_quote xs) @ '']'') =
        join '','' (List.map json_quote xs) @ '']''"
      unfolding \<open>xs = y # ys\<close> by (cases ys) (simp_all add: json_quote_def)
    with Cons Cons.IH show ?thesis by (simp add: json_quote_append unquote_quoted)
  qed
qed simp

lemma parse_json_strings_roundtrip: "parse_json_strings (json_strings xs) = Some xs"
proof (cases "xs = []")
  case True
  then show ?thesis by (simp add: json_strings_def parse_json_strings_def)
next
  case False
  then obtain y ys where Cons: "xs = y # ys" by (cases xs) auto
  define rest where "rest = join '','' (List.map json_quote xs) @ '']''"
  obtain u where u: "rest = CHR 0x22 # u"
    unfolding rest_def Cons by (cases ys) (simp_all add: json_quote_def)
  have "parse_json_strings (json_strings xs) = parse_elements rest"
    unfolding json_strings_def rest_def [symmetric] u by (simp add: parse_json_strings_def)
  then show ?thesis unfolding rest_def using parse_elements_joined [OF False] by simp
qed

lemma json_strings_inj [simp]: "json_strings xs = json_strings ys \<longleftrightarrow> xs = ys"
  by (metis parse_json_strings_roundtrip option.inject)

section \<open>Values through JSON\<close>

text \<open>
  \<open>JSON.parse(JSON.stringify(v))\<close> on trees: \<open>None\<close> is an omitted value (\<open>undefined\<close>, a function, a
  symbol), a big integer raises. Values whose own property \<open>toJSON\<close> is a function are outside the
  model.
\<close>

fun jsonValue :: "jsval \<Rightarrow> (string, jsval option) outcome"
and jsonItems :: "jsval list \<Rightarrow> (string, jsval list) outcome"
and jsonFields :: "(string \<times> jsval) list \<Rightarrow> (string, (string \<times> jsval) list) outcome" where
  "jsonValue JUndef = Inr None"
| "jsonValue (JFun _) = Inr None"
| "jsonValue (JSymbol _) = Inr None"
| "jsonValue (JBigInt _) = Inl ''Do not know how to serialize a BigInt''"
| "jsonValue JNull = Inr (Some JNull)"
| "jsonValue (JBool b) = Inr (Some (JBool b))"
| "jsonValue (JStr s) = Inr (Some (JStr s))"
| "jsonValue (JNum n) = Inr (Some (if num_is_finite n then JNum n else JNull))"
| "jsonValue (JDate d) = Inr (Some (case d of None \<Rightarrow> JNull | Some t \<Rightarrow> JStr (toISOString t)))"
| "jsonValue (JArr xs) = bindE (jsonItems xs) (\<lambda>ys. Inr (Some (JArr ys)))"
| "jsonValue (JObj _ fs) = bindE (jsonFields fs) (\<lambda>gs. Inr (Some (JObj PlainObj gs)))"
| "jsonItems [] = Inr []"
| "jsonItems (x # xs) =
     bindE (jsonValue x) (\<lambda>y. bindE (jsonItems xs) (\<lambda>ys. Inr ((case y of None \<Rightarrow> JNull | Some v \<Rightarrow> v) # ys)))"
| "jsonFields [] = Inr []"
| "jsonFields ((k, v) # fs) =
     bindE (jsonValue v) (\<lambda>y. bindE (jsonFields fs) (\<lambda>gs. Inr ((case y of None \<Rightarrow> [] | Some w \<Rightarrow> [(k, w)]) @ gs)))"

text \<open>Values that JSON keeps as they are.\<close>

fun json_plain :: "jsval \<Rightarrow> bool" where
  "json_plain JNull = True"
| "json_plain (JBool _) = True"
| "json_plain (JStr _) = True"
| "json_plain (JNum n) = num_is_finite n"
| "json_plain (JArr xs) = list_all json_plain xs"
| "json_plain (JObj k fs) = (k = PlainObj \<and> list_all (\<lambda>f. json_plain (snd f)) fs)"
| "json_plain _ = False"

lemma json_plain_value:
  "json_plain v \<Longrightarrow> jsonValue v = Inr (Some v)"
  "list_all json_plain xs \<Longrightarrow> jsonItems xs = Inr xs"
  "list_all (\<lambda>f. json_plain (snd f)) fs \<Longrightarrow> jsonFields fs = Inr fs"
  by (induction v and xs and fs rule: jsonValue_jsonItems_jsonFields.induct) auto

lemma json_value_plain:
  "jsonValue v = Inr (Some w) \<Longrightarrow> json_plain w"
  "jsonItems xs = Inr ys \<Longrightarrow> list_all json_plain ys"
  "jsonFields fs = Inr gs \<Longrightarrow> list_all (\<lambda>f. json_plain (snd f)) gs"
  by (induction v and xs and fs arbitrary: w and ys and gs rule: jsonValue_jsonItems_jsonFields.induct)
    (auto simp: bindE_Inr split: option.splits)

end
