(* ===== verification/CpServiceTokens.thy ===== *)
theory CpServiceTokens
  imports CpAccess IsoDate JsonText
begin

text \<open>
  \<open>packages/control-plane/src/service-tokens.ts\<close>: issuing, storing, revoking and resolving the
  machine credentials of a tenant. The database table is the list of its rows, with columns of
  type \<open>unknown\<close> as the code reads them back. Arguments of the model: the digest \<open>hash\<close>
  (SHA-256 in lower-case hexadecimal), \<open>other\<close> (\<open>Date.parse\<close> of texts that are not ISO time
  stamps) and \<open>accepts\<close>, the \<open>CHECK\<close> and \<open>FOREIGN KEY\<close> constraints of the table; its keys
  \<open>id\<close> and \<open>token_hash\<close> are unique in the model as in the migration.
\<close>

section \<open>Records and rows\<close>

record ServiceTokenRecord =
  st_id :: string
  st_tokenHash :: string
  st_label :: string
  st_role :: RbacRole
  st_appId :: string
  st_tenantId :: string
  st_scopes :: "string list"
  st_createdBy :: string
  st_createdAt :: string
  st_expiresAt :: string
  st_revoked :: "(string \<times> string) option"  \<comment> \<open>\<open>revokedAt\<close> and \<open>revokedBy\<close>, both or neither\<close>

record ServiceTokenRow =
  tr_id :: jsval
  tr_token_hash :: jsval
  tr_label :: jsval
  tr_role :: jsval
  tr_app_id :: jsval
  tr_tenant_id :: jsval
  tr_scopes_json :: jsval
  tr_created_by :: jsval
  tr_created_at :: jsval
  tr_expires_at :: jsval
  tr_revoked_at :: jsval
  tr_revoked_by :: jsval

datatype ServiceTokenErrorCode =
    InvalidServiceToken | RoleEscalation | ScopeForbidden | RevokeForbidden

datatype token_error =
    ServiceTokenError ServiceTokenErrorCode
  | TokenFailure string  \<comment> \<open>a plain \<open>Error\<close>, a \<open>RangeError\<close>, or the database refusing a statement\<close>

definition credentialPrefix :: string where
  "credentialPrefix = ''ts_service_''"

definition maximumLifetimeMs :: int where
  "maximumLifetimeMs = 90 * 24 * 60 * 60 * 1000"

definition forbiddenMachineScopes :: "string list" where
  "forbiddenMachineScopes = List.map operation_tag [ServiceTokenIssue, ServiceTokenRevoke, RbacManage]"

definition isServiceTokenCredential :: "string \<Rightarrow> bool" where
  "isServiceTokenCredential t \<longleftrightarrow> startsWith t credentialPrefix"

definition tokenHashPattern :: "string \<Rightarrow> bool" where
  "tokenHashPattern h \<longleftrightarrow>
     length h = 64 \<and> (\<forall>c \<in> set h. is_digit c \<or> 97 \<le> code c \<and> code c \<le> 102)"

definition scopesAllowed :: "string \<Rightarrow> string list \<Rightarrow> bool" where
  "scopesAllowed role scopes \<longleftrightarrow>
     \<not> (\<exists>s \<in> set scopes. s \<in> set forbiddenMachineScopes \<or> \<not> canRolePerform role s)"

definition parsedScopes :: "jsval \<Rightarrow> string list option" where
  "parsedScopes v = (case v of JStr t \<Rightarrow> parse_json_strings t | _ \<Rightarrow> None)"

definition storedTime :: "(string \<Rightarrow> int option) \<Rightarrow> jsval \<Rightarrow> string option" where
  "storedTime other v =
     (case v of JStr t \<Rightarrow> if dateParse other t = None then None else Some t | _ \<Rightarrow> None)"

text \<open>The columns \<open>revoked_at\<close> and \<open>revoked_by\<close>; the outer option is the acceptance.\<close>

definition storedRevocation :: "(string \<Rightarrow> int option) \<Rightarrow> jsval \<Rightarrow> jsval \<Rightarrow> (string \<times> string) option option" where
  "storedRevocation other at by =
     (if at = JNull \<and> by = JNull then Some None
      else case (storedTime other at, by) of (Some t, JStr b) \<Rightarrow> Some (Some (t, b)) | _ \<Rightarrow> None)"

definition serviceTokenFromRow ::
  "(string \<Rightarrow> int option) \<Rightarrow> ServiceTokenRow \<Rightarrow> (token_error, ServiceTokenRecord) outcome" where
  "serviceTokenFromRow other row =
     (case (tr_id row, tr_token_hash row, tr_label row, tr_role row, tr_app_id row, tr_tenant_id row,
            tr_created_by row) of
        (JStr tid, JStr h, JStr label, JStr roleText, JStr app, JStr tenant, JStr by) \<Rightarrow>
          (case (normalizeRbacRole roleText, parsedScopes (tr_scopes_json row),
                 storedTime other (tr_created_at row), storedTime other (tr_expires_at row),
                 storedRevocation other (tr_revoked_at row) (tr_revoked_by row)) of
             (Some role, Some scopes, Some createdAt, Some expiresAt, Some revoked) \<Rightarrow>
               if tokenHashPattern h \<and> role_tag role = roleText \<and> scopes \<noteq> [] \<and>
                  (\<forall>s \<in> set scopes. isRbacOperation (JStr s)) \<and> distinct scopes \<and> scopesAllowed roleText scopes
               then Inr \<lparr>st_id = tid, st_tokenHash = h, st_label = label, st_role = role, st_appId = app,
                        st_tenantId = tenant, st_scopes = scopes, st_createdBy = by, st_createdAt = createdAt,
                        st_expiresAt = expiresAt, st_revoked = revoked\<rparr>
               else Inl (TokenFailure ''invalid service token row'')
           | _ \<Rightarrow> Inl (TokenFailure ''invalid service token row''))
      | _ \<Rightarrow> Inl (TokenFailure ''invalid service token row''))"

section \<open>The database store\<close>

text \<open>The row a record is kept as; \<open>create\<close> leaves the revocation columns empty.\<close>

definition rowOf :: "ServiceTokenRecord \<Rightarrow> ServiceTokenRow" where
  "rowOf r =
     \<lparr>tr_id = JStr (st_id r), tr_token_hash = JStr (st_tokenHash r), tr_label = JStr (st_label r),
      tr_role = JStr (role_tag (st_role r)), tr_app_id = JStr (st_appId r), tr_tenant_id = JStr (st_tenantId r),
      tr_scopes_json = JStr (json_strings (st_scopes r)), tr_created_by = JStr (st_createdBy r),
      tr_created_at = JStr (st_createdAt r), tr_expires_at = JStr (st_expiresAt r),
      tr_revoked_at = (case st_revoked r of None \<Rightarrow> JNull | Some (a, _) \<Rightarrow> JStr a),
      tr_revoked_by = (case st_revoked r of None \<Rightarrow> JNull | Some (_, b) \<Rightarrow> JStr b)\<rparr>"

definition d1Create ::
  "(ServiceTokenRow \<Rightarrow> bool) \<Rightarrow> ServiceTokenRecord \<Rightarrow> (ServiceTokenRow list, token_error, unit) step" where
  "d1Create accepts r table =
     (let row = rowOf (r\<lparr>st_revoked := None\<rparr>) in
      if accepts row \<and> tr_id row \<notin> tr_id ` set table \<and> tr_token_hash row \<notin> tr_token_hash ` set table
      then (Inr (), table @ [row])
      else (Inl (TokenFailure ''constraint failed''), table))"

definition d1FindByTokenHash ::
  "(string \<Rightarrow> int option) \<Rightarrow> string \<Rightarrow> ServiceTokenRow list \<Rightarrow> (token_error, ServiceTokenRecord option) outcome" where
  "d1FindByTokenHash other h table =
     (case List.find (\<lambda>row. tr_token_hash row = JStr h) table of
        None \<Rightarrow> Inr None
      | Some row \<Rightarrow> bindE (serviceTokenFromRow other row) (\<lambda>r. Inr (Some r)))"

record token_revocation =
  tv_id :: string
  tv_appId :: string
  tv_tenantId :: string
  tv_revokedAt :: string
  tv_revokedBy :: string

definition coalesce :: "jsval \<Rightarrow> string \<Rightarrow> jsval" where
  "coalesce old new = (if old = JNull then JStr new else old)"

definition revocationTarget :: "token_revocation \<Rightarrow> ServiceTokenRow \<Rightarrow> bool" where
  "revocationTarget v row \<longleftrightarrow>
     tr_id row = JStr (tv_id v) \<and> tr_app_id row = JStr (tv_appId v) \<and> tr_tenant_id row = JStr (tv_tenantId v)"

definition revokeRow :: "token_revocation \<Rightarrow> ServiceTokenRow \<Rightarrow> ServiceTokenRow" where
  "revokeRow v row =
     (if revocationTarget v row
      then row\<lparr>tr_revoked_at := coalesce (tr_revoked_at row) (tv_revokedAt v),
               tr_revoked_by := coalesce (tr_revoked_by row) (tv_revokedBy v)\<rparr>
      else row)"

definition d1Revoke ::
  "(ServiceTokenRow \<Rightarrow> bool) \<Rightarrow> token_revocation \<Rightarrow> (ServiceTokenRow list, token_error, bool) step" where
  "d1Revoke accepts v table =
     (if \<not> (\<exists>row \<in> set table. revocationTarget v row) then (Inr False, table)
      else if \<forall>row \<in> set table. revocationTarget v row \<longrightarrow> accepts (revokeRow v row)
      then (Inr True, List.map (revokeRow v) table)
      else (Inl (TokenFailure ''constraint failed''), table))"

section \<open>The manager\<close>

record token_request =
  tq_appId :: string
  tq_tenantId :: string
  tq_actor :: string
  tq_actorRole :: string
  tq_label :: string
  tq_role :: RbacRole
  tq_scopes :: "string list"
  tq_expiresAt :: "int option"  \<comment> \<open>\<open>None\<close> is an invalid date\<close>

record issued_token =
  it_id :: string
  it_token :: string
  it_label :: string
  it_role :: RbacRole
  it_scopes :: "string list"
  it_createdAt :: string
  it_expiresAt :: string

definition isBoundedText :: "string \<Rightarrow> nat \<Rightarrow> bool" where
  "isBoundedText v maximum \<longleftrightarrow> 0 < length v \<and> length v \<le> maximum \<and> trim v = v"

definition roleEscalates :: "string \<Rightarrow> RbacRole \<Rightarrow> bool" where
  "roleEscalates actorRole role =
     (case normalizeRbacRole actorRole of
        None \<Rightarrow> True
      | Some issuer \<Rightarrow>
          \<not> canRolePerform (role_tag issuer) ''service-token:issue'' \<or>
          \<not> (\<forall>p \<in> set RBAC_OPERATIONS.
                \<not> canRolePerform (role_tag role) (operation_tag p) \<or>
                canRolePerform (role_tag issuer) (operation_tag p)))"

text \<open>The valid issue times are returned for the statements after the check.\<close>

definition assertValidIssue ::
  "token_request \<Rightarrow> int option \<Rightarrow> (token_error, int \<times> int) outcome" where
  "assertValidIssue q createdAt =
     (case (createdAt, tq_expiresAt q) of
        (Some c, Some e) \<Rightarrow>
          if \<not> isBoundedText (tq_appId q) 256 \<or> \<not> isBoundedText (tq_tenantId q) 256 \<or>
             \<not> isBoundedText (tq_actor q) 256 \<or> \<not> isBoundedText (tq_label q) 128 \<or>
             e \<le> c \<or> maximumLifetimeMs < e - c \<or> length (tq_scopes q) = 0 \<or>
             length RBAC_OPERATIONS < length (tq_scopes q) \<or> \<not> distinct (tq_scopes q) \<or>
             \<not> (\<forall>s \<in> set (tq_scopes q). isRbacOperation (JStr s))
          then Inl (ServiceTokenError InvalidServiceToken)
          else if roleEscalates (tq_actorRole q) (tq_role q) then Inl (ServiceTokenError RoleEscalation)
          else if \<not> scopesAllowed (role_tag (tq_role q)) (tq_scopes q) then Inl (ServiceTokenError ScopeForbidden)
          else Inr (c, e)
      | _ \<Rightarrow> Inl (ServiceTokenError InvalidServiceToken))"

definition tokenIdValid :: "string \<Rightarrow> bool" where
  "tokenIdValid tid \<longleftrightarrow>
     startsWith tid ''st_'' \<and> 4 \<le> length tid \<and> length tid \<le> 131 \<and>
     (\<forall>c \<in> set (drop 3 tid). is_alnum c \<or> c = CHR ''_'' \<or> c = CHR ''-'')"

definition tokenRecord :: "(string \<Rightarrow> string) \<Rightarrow> token_request \<Rightarrow> int \<Rightarrow> int \<Rightarrow> string \<Rightarrow> string \<Rightarrow> ServiceTokenRecord" where
  "tokenRecord hash q c e tid secret =
     \<lparr>st_id = tid, st_tokenHash = hash (credentialPrefix @ secret), st_label = tq_label q,
      st_role = tq_role q, st_appId = tq_appId q, st_tenantId = tq_tenantId q, st_scopes = tq_scopes q,
      st_createdBy = tq_actor q, st_createdAt = toISOString c, st_expiresAt = toISOString e,
      st_revoked = None\<rparr>"

text \<open>
  \<open>issue\<close> over the store's \<open>create\<close>; \<open>createdAt\<close>, \<open>tid\<close> and \<open>secret\<close> are what \<open>now()\<close>,
  \<open>generateId()\<close> and \<open>generateSecret()\<close> return in this call.
\<close>

definition issueToken ::
  "(string \<Rightarrow> string) \<Rightarrow> (ServiceTokenRecord \<Rightarrow> ('s, token_error, unit) step) \<Rightarrow>
   int option \<Rightarrow> string \<Rightarrow> string \<Rightarrow> token_request \<Rightarrow> ('s, token_error, issued_token) step" where
  "issueToken hash create createdAt tid secret q =
     bindS (liftS (assertValidIssue q createdAt)) (\<lambda>(c, e).
     bindS (liftS (guardE (tokenIdValid tid \<and> 32 \<le> length secret)
                          (TokenFailure ''service token generator returned invalid output''))) (\<lambda>_.
     let r = tokenRecord hash q c e tid secret in
     bindS (create r) (\<lambda>_.
     returnS \<lparr>it_id = st_id r, it_token = credentialPrefix @ secret, it_label = st_label r, it_role = st_role r,
             it_scopes = st_scopes r, it_createdAt = st_createdAt r, it_expiresAt = st_expiresAt r\<rparr>)))"

record revoke_request =
  vq_id :: string
  vq_appId :: string
  vq_tenantId :: string
  vq_actor :: string
  vq_actorRole :: string

definition revokeToken ::
  "(token_revocation \<Rightarrow> ('s, token_error, bool) step) \<Rightarrow> int option \<Rightarrow> revoke_request \<Rightarrow> ('s, token_error, bool) step" where
  "revokeToken revoke at q =
     (if \<not> canRolePerform (vq_actorRole q) ''service-token:revoke''
      then throwS (ServiceTokenError RevokeForbidden)
      else case at of
             None \<Rightarrow> throwS (TokenFailure ''Invalid time value'')
           | Some t \<Rightarrow> revoke \<lparr>tv_id = vq_id q, tv_appId = vq_appId q, tv_tenantId = vq_tenantId q,
                               tv_revokedAt = toISOString t, tv_revokedBy = vq_actor q\<rparr>)"

section \<open>The identity resolvers\<close>

record AuthenticatedIdentity =
  ai_subject :: string
  ai_role :: string
  ai_appId :: string
  ai_tenantId :: string
  ai_allowedOperations :: "string list"

definition identityOf :: "ServiceTokenRecord \<Rightarrow> AuthenticatedIdentity" where
  "identityOf r =
     \<lparr>ai_subject = ''service-token:'' @ st_id r, ai_role = role_tag (st_role r), ai_appId = st_appId r,
      ai_tenantId = st_tenantId r, ai_allowedOperations = st_scopes r\<rparr>"

definition resolveServiceToken ::
  "(string \<Rightarrow> string) \<Rightarrow> (string \<Rightarrow> int option) \<Rightarrow> (string \<Rightarrow> 's \<Rightarrow> (token_error, ServiceTokenRecord option) outcome) \<Rightarrow>
   int option \<Rightarrow> string \<Rightarrow> 's \<Rightarrow> (token_error, AuthenticatedIdentity option) outcome" where
  "resolveServiceToken hash other findByTokenHash at token s =
     (if \<not> isServiceTokenCredential token then Inr None
      else bindE (findByTokenHash (hash token) s) (\<lambda>found.
        case found of
          None \<Rightarrow> Inr None
        | Some r \<Rightarrow>
            if st_revoked r \<noteq> None then Inr None
            else (case (at, dateParse other (st_expiresAt r)) of
                    (Some t, Some e) \<Rightarrow> if e \<le> t then Inr None else Inr (Some (identityOf r))
                  | _ \<Rightarrow> Inr None)))"

definition resolveAnyToken ::
  "(string \<Rightarrow> (token_error, 'i option) outcome) \<Rightarrow> (string \<Rightarrow> (token_error, 'i option) outcome) option \<Rightarrow>
   string \<Rightarrow> (token_error, 'i option) outcome" where
  "resolveAnyToken serviceTokens bootstrap token =
     (if isServiceTokenCredential token then serviceTokens token
      else case bootstrap of None \<Rightarrow> Inr None | Some resolve \<Rightarrow> resolve token)"

end
