(* ===== verification/CpTokenStore.thy ===== *)
theory CpTokenStore
  imports CpServiceTokens
begin

text \<open>
  The contract of \<open>ServiceTokenStore\<close> (\<open>service-tokens.ts\<close>) as a locale, the database store as
  its interpretation, and what the manager and the resolver guarantee over it: who can issue what,
  which credentials resolve after any history, and what a revocation changes.
\<close>

section \<open>The store contract\<close>

definition revocationMatches :: "token_revocation \<Rightarrow> ServiceTokenRecord \<Rightarrow> bool" where
  "revocationMatches v r \<longleftrightarrow> st_id r = tv_id v \<and> st_appId r = tv_appId v \<and> st_tenantId r = tv_tenantId v"

definition revokeRecord :: "token_revocation \<Rightarrow> ServiceTokenRecord \<Rightarrow> ServiceTokenRecord" where
  "revokeRecord v r =
     (if revocationMatches v r \<and> st_revoked r = None
      then r\<lparr>st_revoked := Some (tv_revokedAt v, tv_revokedBy v)\<rparr> else r)"

lemma revokeRecord_sel [simp]:
  "st_id (revokeRecord v r) = st_id r" "st_tokenHash (revokeRecord v r) = st_tokenHash r"
  "st_appId (revokeRecord v r) = st_appId r" "st_tenantId (revokeRecord v r) = st_tenantId r"
  "st_expiresAt (revokeRecord v r) = st_expiresAt r" "st_createdAt (revokeRecord v r) = st_createdAt r"
  "st_scopes (revokeRecord v r) = st_scopes r" "st_role (revokeRecord v r) = st_role r"
  "st_createdBy (revokeRecord v r) = st_createdBy r"
  by (simp_all add: revokeRecord_def)

definition newRecord :: "ServiceTokenRecord \<Rightarrow> bool" where
  "newRecord r \<longleftrightarrow> st_revoked r = None"

locale service_token_store =
  fixes create :: "ServiceTokenRecord \<Rightarrow> ('s, token_error, unit) step"
    and findToken :: "string \<Rightarrow> 's \<Rightarrow> (token_error, ServiceTokenRecord option) outcome"
    and revoke :: "token_revocation \<Rightarrow> ('s, token_error, bool) step"
    and valid :: "'s \<Rightarrow> bool"
    and wellFormed :: "ServiceTokenRecord \<Rightarrow> bool"
    and timely :: "string \<Rightarrow> bool"
  assumes find_returns: "valid s \<Longrightarrow> \<exists>r. findToken h s = Inr r"
    and find_hash: "valid s \<Longrightarrow> findToken h s = Inr (Some r) \<Longrightarrow> wellFormed r \<and> st_tokenHash r = h"
    and create_valid: "valid s \<Longrightarrow> wellFormed r \<Longrightarrow> newRecord r \<Longrightarrow> create r s = (Inr (), s') \<Longrightarrow> valid s'"
    and create_find: "valid s \<Longrightarrow> wellFormed r \<Longrightarrow> newRecord r \<Longrightarrow> create r s = (Inr (), s') \<Longrightarrow>
          findToken (st_tokenHash r) s = Inr None \<and>
          findToken h s' = (if st_tokenHash r = h then Inr (Some r) else findToken h s)"
    and create_failed: "create r s = (Inl e, s') \<Longrightarrow> s' = s"
    and revoke_valid: "valid s \<Longrightarrow> timely (tv_revokedAt v) \<Longrightarrow> revoke v s = (Inr b, s') \<Longrightarrow> valid s'"
    and revoke_find: "valid s \<Longrightarrow> timely (tv_revokedAt v) \<Longrightarrow> revoke v s = (Inr b, s') \<Longrightarrow>
          findToken h s' = bindE (findToken h s) (\<lambda>r. Inr (map_option (revokeRecord v) r))"
    and revoke_failed: "revoke v s = (Inl e, s') \<Longrightarrow> s' = s"

section \<open>Histories\<close>

datatype token_op =
    IssueOp "int option" string string token_request
  | RevokeOp "int option" revoke_request

datatype token_event = Issued ServiceTokenRecord | Revoked token_revocation

definition revocationOf :: "int \<Rightarrow> revoke_request \<Rightarrow> token_revocation" where
  "revocationOf t q =
     \<lparr>tv_id = vq_id q, tv_appId = vq_appId q, tv_tenantId = vq_tenantId q,
      tv_revokedAt = toISOString t, tv_revokedBy = vq_actor q\<rparr>"

text \<open>What a call of the manager did: nothing when it raised.\<close>

definition tokenEvent ::
  "(string \<Rightarrow> string) \<Rightarrow> (ServiceTokenRecord \<Rightarrow> ('s, token_error, unit) step) \<Rightarrow>
   (token_revocation \<Rightarrow> ('s, token_error, bool) step) \<Rightarrow> token_op \<Rightarrow> 's \<Rightarrow> token_event list \<times> 's" where
  "tokenEvent hash create revoke op s =
     (case op of
        IssueOp at tid secret q \<Rightarrow>
          (case issueToken hash create at tid secret q s of
             (Inr _, s') \<Rightarrow> ([Issued (tokenRecord hash q (the at) (the (tq_expiresAt q)) tid secret)], s')
           | (Inl _, s') \<Rightarrow> ([], s'))
      | RevokeOp at q \<Rightarrow>
          (case revokeToken revoke at q s of
             (Inr _, s') \<Rightarrow> ([Revoked (revocationOf (the at) q)], s')
           | (Inl _, s') \<Rightarrow> ([], s')))"

fun runTokens ::
  "(string \<Rightarrow> string) \<Rightarrow> (ServiceTokenRecord \<Rightarrow> ('s, token_error, unit) step) \<Rightarrow>
   (token_revocation \<Rightarrow> ('s, token_error, bool) step) \<Rightarrow> token_op list \<Rightarrow> 's \<Rightarrow> token_event list \<times> 's" where
  "runTokens hash create revoke [] s = ([], s)"
| "runTokens hash create revoke (op # ops) s =
     (case tokenEvent hash create revoke op s of
        (ev, s') \<Rightarrow> (case runTokens hash create revoke ops s' of (evs, s'') \<Rightarrow> (ev @ evs, s'')))"

text \<open>The abstract store: the record of each digest.\<close>

fun applyEvent :: "token_event \<Rightarrow> (string \<Rightarrow> ServiceTokenRecord option) \<Rightarrow> string \<Rightarrow> ServiceTokenRecord option" where
  "applyEvent (Issued r) m = m(st_tokenHash r \<mapsto> r)"
| "applyEvent (Revoked v) m = (\<lambda>h. map_option (revokeRecord v) (m h))"

definition tokenSpec :: "token_event list \<Rightarrow> (string \<Rightarrow> ServiceTokenRecord option) \<Rightarrow> string \<Rightarrow> ServiceTokenRecord option" where
  "tokenSpec evs m = fold applyEvent evs m"

lemma tokenSpec_append: "tokenSpec (xs @ ys) m = tokenSpec ys (tokenSpec xs m)"
  by (simp add: tokenSpec_def)

lemma tokenSpec_single: "tokenSpec [e] m = applyEvent e m"
  by (simp add: tokenSpec_def)

text \<open>Every record is issued under a digest not in use.\<close>

fun freshIssues :: "token_event list \<Rightarrow> (string \<Rightarrow> ServiceTokenRecord option) \<Rightarrow> bool" where
  "freshIssues [] m = True"
| "freshIssues (e # evs) m \<longleftrightarrow>
     (case e of Issued r \<Rightarrow> m (st_tokenHash r) = None | Revoked _ \<Rightarrow> True) \<and> freshIssues evs (applyEvent e m)"

lemma freshIssues_append:
  "freshIssues (xs @ ys) m \<longleftrightarrow> freshIssues xs m \<and> freshIssues ys (tokenSpec xs m)"
  by (induction xs arbitrary: m) (simp_all add: tokenSpec_def)

fun op_years_ok :: "token_op \<Rightarrow> bool" where
  "op_years_ok (IssueOp at _ _ q) \<longleftrightarrow>
     (case at of None \<Rightarrow> True | Some t \<Rightarrow> iso_year_ok t) \<and>
     (case tq_expiresAt q of None \<Rightarrow> True | Some e \<Rightarrow> iso_year_ok e)"
| "op_years_ok (RevokeOp at _) \<longleftrightarrow> (case at of None \<Rightarrow> True | Some t \<Rightarrow> iso_year_ok t)"

section \<open>What a successful issue means\<close>

lemma assertValidIssue_Inr:
  "assertValidIssue q at = Inr (c, e) \<longleftrightarrow>
     at = Some c \<and> tq_expiresAt q = Some e \<and> isBoundedText (tq_appId q) 256 \<and>
     isBoundedText (tq_tenantId q) 256 \<and> isBoundedText (tq_actor q) 256 \<and> isBoundedText (tq_label q) 128 \<and>
     c < e \<and> e - c \<le> maximumLifetimeMs \<and> tq_scopes q \<noteq> [] \<and> length (tq_scopes q) \<le> length RBAC_OPERATIONS \<and>
     distinct (tq_scopes q) \<and> (\<forall>s \<in> set (tq_scopes q). isRbacOperation (JStr s)) \<and>
     \<not> roleEscalates (tq_actorRole q) (tq_role q) \<and> scopesAllowed (role_tag (tq_role q)) (tq_scopes q)"
  by (auto simp: assertValidIssue_def not_le not_less split: option.splits)

lemma issueToken_Inr:
  "issueToken hash create at tid secret q s = (Inr tok, s') \<longleftrightarrow>
     (\<exists>c e. assertValidIssue q at = Inr (c, e) \<and> tokenIdValid tid \<and> 32 \<le> length secret \<and>
        create (tokenRecord hash q c e tid secret) s = (Inr (), s') \<and>
        tok = \<lparr>it_id = tid, it_token = credentialPrefix @ secret, it_label = tq_label q, it_role = tq_role q,
               it_scopes = tq_scopes q, it_createdAt = toISOString c, it_expiresAt = toISOString e\<rparr>)"
  by (auto simp: issueToken_def bindS_Inr Let_def tokenRecord_def)

lemma issueToken_Inl:
  "issueToken hash create at tid secret q s = (Inl e, s') \<Longrightarrow>
     s' = s \<or> (\<exists>r. create r s = (Inl e, s'))"
  by (auto simp: issueToken_def bindS_Inl Let_def)

lemma roleEscalates_dominated:
  assumes "\<not> roleEscalates actorRole role" "canRolePerform (role_tag role) op"
  shows "canRolePerform actorRole op"
proof -
  obtain p where p: "op = operation_tag p" using can_perform_operation assms(2) by blast
  then have "canRolePerform (role_tag issuer) op" if "normalizeRbacRole actorRole = Some issuer" for issuer
    using assms that all_operations [of p] by (auto simp: roleEscalates_def)
  moreover obtain issuer where "normalizeRbacRole actorRole = Some issuer"
    using assms(1) by (auto simp: roleEscalates_def split: option.splits)
  ultimately show ?thesis by (simp add: canRolePerform_def)
qed

lemma roleEscalates_issuer:
  "\<not> roleEscalates actorRole role \<Longrightarrow> canRolePerform actorRole ''service-token:issue''"
  by (auto simp: roleEscalates_def canRolePerform_def split: option.splits)

lemma scopesAllowed_alt:
  "scopesAllowed role scopes \<longleftrightarrow>
     (\<forall>s \<in> set scopes. canRolePerform role s \<and> s \<notin> set forbiddenMachineScopes)"
  by (auto simp: scopesAllowed_def)

context service_token_store
begin

lemma issue_step:
  assumes "valid s" "tokenEvent hash create revoke (IssueOp at tid secret q) s = (evs, s')"
    and wf: "\<And>c e. at = Some c \<Longrightarrow> assertValidIssue q at = Inr (c, e) \<Longrightarrow>
               wellFormed (tokenRecord hash q c e tid secret)"
  shows "(evs = [] \<and> s' = s) \<or>
    (\<exists>r. evs = [Issued r] \<and> wellFormed r \<and> newRecord r \<and> create r s = (Inr (), s'))"
proof -
  obtain res t where res: "issueToken hash create at tid secret q s = (res, t)" by fastforce
  show ?thesis
  proof (cases res)
    case (Inl e)
    with res assms(2) show ?thesis
      using issueToken_Inl [of hash create at tid secret q s e t] create_failed
      by (auto simp: tokenEvent_def)
  next
    case (Inr tok)
    with res obtain c e where c: "assertValidIssue q at = Inr (c, e)"
      "create (tokenRecord hash q c e tid secret) s = (Inr (), t)" by (auto simp: issueToken_Inr)
    then have at: "at = Some c" "tq_expiresAt q = Some e" by (simp_all add: assertValidIssue_Inr)
    then have "evs = [Issued (tokenRecord hash q c e tid secret)]" "s' = t"
      using assms(2) res Inr by (simp_all add: tokenEvent_def)
    with c at wf show ?thesis by (auto simp: newRecord_def tokenRecord_def)
  qed
qed

lemma revoke_step:
  assumes "tokenEvent hash create revoke (RevokeOp at q) s = (evs, s')"
  shows "(evs = [] \<and> s' = s) \<or>
    (\<exists>x b. at = Some x \<and> evs = [Revoked (revocationOf x q)] \<and> revoke (revocationOf x q) s = (Inr b, s'))"
proof -
  obtain res t where res: "revokeToken revoke at q s = (res, t)" by fastforce
  show ?thesis
  proof (cases res)
    case (Inl e)
    with res assms revoke_failed show ?thesis
      by (auto simp: tokenEvent_def revokeToken_def split: if_splits option.splits)
  next
    case (Inr b)
    with res obtain x where "at = Some x" "revoke (revocationOf x q) s = (Inr b, t)"
      by (auto simp: revokeToken_def revocationOf_def split: if_splits option.splits)
    with assms res Inr show ?thesis by (simp add: tokenEvent_def)
  qed
qed

lemma run_refines:
  assumes "valid s" "\<And>h. findToken h s = Inr (m h)"
    and "runTokens hash create revoke ops s = (evs, s')"
    and "\<forall>op \<in> set ops. case op of
           IssueOp at tid secret q \<Rightarrow> \<forall>c e. assertValidIssue q at = Inr (c, e) \<longrightarrow>
             wellFormed (tokenRecord hash q c e tid secret)
         | RevokeOp at q \<Rightarrow> \<forall>x. at = Some x \<longrightarrow> timely (toISOString x)"
  shows "valid s' \<and> (\<forall>h. findToken h s' = Inr (tokenSpec evs m h)) \<and> freshIssues evs m"
  using assms
proof (induction ops arbitrary: s m evs)
  case Nil
  then show ?case by (simp add: tokenSpec_def)
next
  case (Cons op ops)
  obtain ev u where ev: "tokenEvent hash create revoke op s = (ev, u)" by fastforce
  obtain evs' where evs': "runTokens hash create revoke ops u = (evs', s')" "evs = ev @ evs'"
    using Cons.prems(3) ev by (auto split: prod.splits)
  have step: "valid u \<and> (\<forall>h. findToken h u = Inr (tokenSpec ev m h)) \<and> freshIssues ev m"
  proof (cases op)
    case (IssueOp at tid secret q)
    then consider "ev = []" "u = s" | r where "ev = [Issued r]" "wellFormed r" "newRecord r" "create r s = (Inr (), u)"
      using issue_step [OF Cons.prems(1) ev [unfolded IssueOp]] Cons.prems(4) by fastforce
    then show ?thesis
    proof cases
      case 2
      from create_find [OF Cons.prems(1) 2(2,3,4)] create_valid [OF Cons.prems(1) 2(2,3,4)] 2 Cons.prems(2)
      show ?thesis by (auto simp: tokenSpec_def)
    qed (use Cons.prems in \<open>simp add: tokenSpec_def\<close>)
  next
    case (RevokeOp at q)
    then consider "ev = []" "u = s"
      | x b where "at = Some x" "ev = [Revoked (revocationOf x q)]" "revoke (revocationOf x q) s = (Inr b, u)"
      using revoke_step [OF ev [unfolded RevokeOp]] by blast
    then show ?thesis
    proof cases
      case 2
      have "timely (tv_revokedAt (revocationOf x q))"
        using Cons.prems(4) RevokeOp 2(1) by (simp add: revocationOf_def)
      from revoke_valid [OF Cons.prems(1) this 2(3)] revoke_find [OF Cons.prems(1) this 2(3)] 2 Cons.prems(2)
      show ?thesis by (simp add: tokenSpec_def)
    qed (use Cons.prems in \<open>simp add: tokenSpec_def\<close>)
  qed
  have "valid s' \<and> (\<forall>h. findToken h s' = Inr (tokenSpec evs' (tokenSpec ev m) h)) \<and>
      freshIssues evs' (tokenSpec ev m)"
    by (rule Cons.IH [OF _ _ evs'(1)]) (use step Cons.prems(4) in simp_all)
  with step evs' show ?case by (simp add: tokenSpec_append freshIssues_append)
qed

end

section \<open>Live credentials\<close>

definition revokedIn :: "token_event list \<Rightarrow> ServiceTokenRecord \<Rightarrow> bool" where
  "revokedIn evs r \<longleftrightarrow> (\<exists>v. Revoked v \<in> set evs \<and> revocationMatches v r)"

definition liveToken :: "token_event list \<Rightarrow> string \<Rightarrow> ServiceTokenRecord \<Rightarrow> bool" where
  "liveToken evs h r \<longleftrightarrow>
     st_tokenHash r = h \<and> (\<exists>pre post. evs = pre @ Issued r # post \<and> \<not> revokedIn post r)"

lemma liveToken_Issued:
  "liveToken (evs @ [Issued r']) h r \<longleftrightarrow> (r = r' \<and> st_tokenHash r' = h) \<or> liveToken evs h r"
proof
  assume "liveToken (evs @ [Issued r']) h r"
  then obtain pre post where p: "evs @ [Issued r'] = pre @ Issued r # post" "\<not> revokedIn post r" "st_tokenHash r = h"
    by (auto simp: liveToken_def)
  then show "(r = r' \<and> st_tokenHash r' = h) \<or> liveToken evs h r"
    by (cases post rule: rev_cases) (auto simp: liveToken_def revokedIn_def)
next
  assume "(r = r' \<and> st_tokenHash r' = h) \<or> liveToken evs h r"
  then consider "r = r'" "st_tokenHash r' = h"
    | pre post where "st_tokenHash r = h" "evs = pre @ Issued r # post" "\<not> revokedIn post r"
    by (auto simp: liveToken_def)
  then show "liveToken (evs @ [Issued r']) h r"
  proof cases
    case 1
    then have "evs @ [Issued r'] = evs @ Issued r # []" "\<not> revokedIn [] r" by (simp_all add: revokedIn_def)
    with 1 show ?thesis unfolding liveToken_def by blast
  next
    case 2
    then have "evs @ [Issued r'] = pre @ Issued r # (post @ [Issued r'])" "\<not> revokedIn (post @ [Issued r']) r"
      by (auto simp: revokedIn_def)
    with 2(1) show ?thesis unfolding liveToken_def by blast
  qed
qed

lemma liveToken_Revoked:
  "liveToken (evs @ [Revoked v]) h r \<longleftrightarrow> liveToken evs h r \<and> \<not> revocationMatches v r"
proof
  assume "liveToken (evs @ [Revoked v]) h r"
  then obtain pre post where p: "evs @ [Revoked v] = pre @ Issued r # post" "\<not> revokedIn post r" "st_tokenHash r = h"
    by (auto simp: liveToken_def)
  then show "liveToken evs h r \<and> \<not> revocationMatches v r"
    by (cases post rule: rev_cases) (auto simp: liveToken_def revokedIn_def)
next
  assume "liveToken evs h r \<and> \<not> revocationMatches v r"
  then obtain pre post where "evs = pre @ Issued r # post" "\<not> revokedIn post r" "st_tokenHash r = h"
    "\<not> revocationMatches v r" by (auto simp: liveToken_def)
  then have "evs @ [Revoked v] = pre @ Issued r # (post @ [Revoked v])" "\<not> revokedIn (post @ [Revoked v]) r"
    by (auto simp: revokedIn_def)
  with \<open>st_tokenHash r = h\<close> show "liveToken (evs @ [Revoked v]) h r" unfolding liveToken_def by blast
qed

lemma revokeRecord_unrevoked:
  "st_revoked (revokeRecord v r) = None \<longleftrightarrow> st_revoked r = None \<and> \<not> revocationMatches v r"
  by (auto simp: revokeRecord_def)

lemma tokenSpec_live:
  assumes "freshIssues evs Map.empty" "\<And>r. Issued r \<in> set evs \<Longrightarrow> newRecord r"
  shows "tokenSpec evs Map.empty h = Some r \<and> st_revoked r = None \<longleftrightarrow> liveToken evs h r"
  using assms
proof (induction evs arbitrary: r rule: rev_induct)
  case Nil
  then show ?case by (simp add: tokenSpec_def liveToken_def)
next
  case (snoc e evs)
  have IH: "tokenSpec evs Map.empty h = Some x \<and> st_revoked x = None \<longleftrightarrow> liveToken evs h x" for x
    using snoc by (simp add: freshIssues_append)
  show ?case
  proof (cases e)
    case (Issued r')
    have "newRecord r'" "tokenSpec evs Map.empty (st_tokenHash r') = None"
      using snoc.prems Issued by (auto simp: freshIssues_append)
    then show ?thesis using IH [of r] Issued
      by (auto simp: tokenSpec_append tokenSpec_single liveToken_Issued newRecord_def)
  next
    case (Revoked v)
    show ?thesis
    proof
      assume "tokenSpec (evs @ [e]) Map.empty h = Some r \<and> st_revoked r = None"
      then obtain x where x: "tokenSpec evs Map.empty h = Some x" "r = revokeRecord v x" "st_revoked r = None"
        using Revoked by (auto simp: tokenSpec_append tokenSpec_single)
      then have "st_revoked x = None" "\<not> revocationMatches v x" by (simp_all add: revokeRecord_unrevoked)
      moreover from this have "r = x" using x(2) by (simp add: revokeRecord_def)
      ultimately show "liveToken (evs @ [e]) h r" using IH [of x] x Revoked by (simp add: liveToken_Revoked)
    next
      assume "liveToken (evs @ [e]) h r"
      then have "liveToken evs h r" "\<not> revocationMatches v r" using Revoked by (simp_all add: liveToken_Revoked)
      with IH [of r] Revoked show "tokenSpec (evs @ [e]) Map.empty h = Some r \<and> st_revoked r = None"
        by (simp add: tokenSpec_append tokenSpec_single revokeRecord_def)
    qed
  qed
qed

section \<open>The database store\<close>

definition parsesDate :: "(string \<Rightarrow> int option) \<Rightarrow> string \<Rightarrow> bool" where
  "parsesDate other t \<longleftrightarrow> dateParse other t \<noteq> None"

definition tokenWellFormed :: "(string \<Rightarrow> int option) \<Rightarrow> ServiceTokenRecord \<Rightarrow> bool" where
  "tokenWellFormed other r \<longleftrightarrow>
     tokenHashPattern (st_tokenHash r) \<and> st_scopes r \<noteq> [] \<and> distinct (st_scopes r) \<and>
     (\<forall>s \<in> set (st_scopes r). isRbacOperation (JStr s)) \<and> scopesAllowed (role_tag (st_role r)) (st_scopes r) \<and>
     parsesDate other (st_createdAt r) \<and> parsesDate other (st_expiresAt r) \<and>
     (case st_revoked r of None \<Rightarrow> True | Some (a, _) \<Rightarrow> parsesDate other a)"

definition tokenRows :: "(string \<Rightarrow> int option) \<Rightarrow> ServiceTokenRecord list \<Rightarrow> bool" where
  "tokenRows other rs \<longleftrightarrow> list_all (tokenWellFormed other) rs \<and> distinct (List.map st_tokenHash rs)"

definition tokenTable :: "(string \<Rightarrow> int option) \<Rightarrow> ServiceTokenRow list \<Rightarrow> bool" where
  "tokenTable other table \<longleftrightarrow> (\<exists>rs. table = List.map rowOf rs \<and> tokenRows other rs)"

lemma rowOf_sel [simp]:
  "tr_id (rowOf r) = JStr (st_id r)" "tr_token_hash (rowOf r) = JStr (st_tokenHash r)"
  "tr_app_id (rowOf r) = JStr (st_appId r)" "tr_tenant_id (rowOf r) = JStr (st_tenantId r)"
  by (simp_all add: rowOf_def)

text \<open>A row reads back as the record it was written from.\<close>

lemma serviceTokenFromRow_rowOf:
  "tokenWellFormed other r \<Longrightarrow> serviceTokenFromRow other (rowOf r) = Inr r"
  by (cases "st_revoked r")
     (auto simp: serviceTokenFromRow_def rowOf_def tokenWellFormed_def parsedScopes_def storedTime_def
        storedRevocation_def parsesDate_def parse_json_strings_roundtrip split: option.splits)

lemma d1Find_rows:
  assumes "tokenRows other rs"
  shows "d1FindByTokenHash other h (List.map rowOf rs) = Inr (List.find (\<lambda>r. st_tokenHash r = h) rs)"
proof -
  have "r \<in> set rs \<Longrightarrow> serviceTokenFromRow other (rowOf r) = Inr r" for r
    using assms serviceTokenFromRow_rowOf by (auto simp: tokenRows_def list_all_iff)
  then show ?thesis
    by (auto simp: d1FindByTokenHash_def find_map dest: find_Some_in split: option.splits)
qed

lemma d1Create_rows:
  assumes "tokenRows other rs" "tokenWellFormed other r" "newRecord r"
    and "d1Create accepts r (List.map rowOf rs) = (Inr (), table)"
  shows "table = List.map rowOf (rs @ [r]) \<and> tokenRows other (rs @ [r]) \<and> st_tokenHash r \<notin> st_tokenHash ` set rs"
proof -
  have "r\<lparr>st_revoked := None\<rparr> = r" using assms(3) by (cases r) (simp add: newRecord_def)
  with assms show ?thesis
    by (auto simp: d1Create_def Let_def tokenRows_def image_image split: if_splits)
qed

lemma revokeRow_rowOf: "revokeRow v (rowOf r) = rowOf (revokeRecord v r)"
  by (cases "st_revoked r") (auto simp: revokeRow_def revocationTarget_def revokeRecord_def revocationMatches_def
      rowOf_def coalesce_def)

lemma d1Revoke_rows:
  assumes "d1Revoke accepts v (List.map rowOf rs) = (Inr b, table)"
  shows "table = List.map rowOf (List.map (revokeRecord v) rs)"
proof (cases "\<exists>row \<in> set (List.map rowOf rs). revocationTarget v row")
  case True
  with assms have "table = List.map (revokeRow v) (List.map rowOf rs)"
    by (auto simp: d1Revoke_def split: if_splits)
  then show ?thesis by (simp add: revokeRow_rowOf)
next
  case False
  then have "r \<in> set rs \<Longrightarrow> revokeRecord v r = r" for r
    by (auto simp: revokeRecord_def revocationMatches_def revocationTarget_def)
  then have "List.map (revokeRecord v) rs = rs" by (simp add: map_idI)
  with assms False show ?thesis by (auto simp: d1Revoke_def split: if_splits)
qed

lemma tokenWellFormed_revoke:
  "tokenWellFormed other r \<Longrightarrow> parsesDate other (tv_revokedAt v) \<Longrightarrow> tokenWellFormed other (revokeRecord v r)"
  by (cases "revocationMatches v r \<and> st_revoked r = None") (auto simp: tokenWellFormed_def revokeRecord_def)

lemma tokenRows_revoke:
  "tokenRows other rs \<Longrightarrow> parsesDate other (tv_revokedAt v) \<Longrightarrow> tokenRows other (List.map (revokeRecord v) rs)"
  by (simp add: tokenRows_def list_all_iff comp_def tokenWellFormed_revoke)

interpretation d1_tokens: service_token_store "d1Create accepts" "d1FindByTokenHash other" "d1Revoke accepts"
    "tokenTable other" "tokenWellFormed other" "parsesDate other" for accepts other
proof unfold_locales
  fix s s' :: "ServiceTokenRow list" and h and r and v :: token_revocation and b and e
  show "tokenTable other s \<Longrightarrow> \<exists>r. d1FindByTokenHash other h s = Inr r"
    by (auto simp: tokenTable_def d1Find_rows)
  show "tokenTable other s \<Longrightarrow> d1FindByTokenHash other h s = Inr (Some r) \<Longrightarrow>
      tokenWellFormed other r \<and> st_tokenHash r = h"
    by (auto simp: tokenTable_def d1Find_rows tokenRows_def list_all_iff dest!: find_Some_in)
  show "tokenTable other s \<Longrightarrow> tokenWellFormed other r \<Longrightarrow> newRecord r \<Longrightarrow>
      d1Create accepts r s = (Inr (), s') \<Longrightarrow> tokenTable other s'"
    unfolding tokenTable_def using d1Create_rows by blast
  show "tokenTable other s \<Longrightarrow> tokenWellFormed other r \<Longrightarrow> newRecord r \<Longrightarrow>
      d1Create accepts r s = (Inr (), s') \<Longrightarrow>
      d1FindByTokenHash other (st_tokenHash r) s = Inr None \<and>
      d1FindByTokenHash other h s' = (if st_tokenHash r = h then Inr (Some r) else d1FindByTokenHash other h s)"
  proof -
    assume a: "tokenTable other s" "tokenWellFormed other r" "newRecord r" "d1Create accepts r s = (Inr (), s')"
    then obtain rs where rs: "s = List.map rowOf rs" "tokenRows other rs" by (auto simp: tokenTable_def)
    note c = d1Create_rows [OF rs(2) a(2,3) a(4) [unfolded rs(1)]]
    then have "\<forall>x \<in> set rs. st_tokenHash x \<noteq> st_tokenHash r" by (metis imageI)
    then have "List.find (\<lambda>x. st_tokenHash x = st_tokenHash r) rs = None" by (simp add: find_None)
    then show ?thesis
      unfolding rs(1) c [THEN conjunct1] d1Find_rows [OF rs(2)] d1Find_rows [OF c [THEN conjunct2, THEN conjunct1]]
      by (auto simp: find_append split: option.splits)
  qed
  show "d1Create accepts r s = (Inl e, s') \<Longrightarrow> s' = s"
    by (auto simp: d1Create_def Let_def split: if_splits)
  show "tokenTable other s \<Longrightarrow> parsesDate other (tv_revokedAt v) \<Longrightarrow> d1Revoke accepts v s = (Inr b, s') \<Longrightarrow>
      tokenTable other s'"
    unfolding tokenTable_def using d1Revoke_rows tokenRows_revoke by blast
  show "tokenTable other s \<Longrightarrow> parsesDate other (tv_revokedAt v) \<Longrightarrow> d1Revoke accepts v s = (Inr b, s') \<Longrightarrow>
      d1FindByTokenHash other h s' =
        bindE (d1FindByTokenHash other h s) (\<lambda>r. Inr (map_option (revokeRecord v) r))"
  proof -
    assume a: "tokenTable other s" "parsesDate other (tv_revokedAt v)" "d1Revoke accepts v s = (Inr b, s')"
    then obtain rs where rs: "s = List.map rowOf rs" "tokenRows other rs" by (auto simp: tokenTable_def)
    note c = d1Revoke_rows [OF a(3) [unfolded rs(1)]] tokenRows_revoke [OF rs(2) a(2)]
    then show ?thesis
      unfolding rs(1) c(1) d1Find_rows [OF c(2)] d1Find_rows [OF rs(2)] by (simp add: find_map)
  qed
  show "d1Revoke accepts v s = (Inl e, s') \<Longrightarrow> s' = s"
    by (auto simp: d1Revoke_def split: if_splits)
qed

lemma tokenRecord_wellFormed:
  assumes "assertValidIssue q at = Inr (c, e)" "iso_year_ok c" "iso_year_ok e" "\<forall>t. tokenHashPattern (hash t)"
  shows "tokenWellFormed other (tokenRecord hash q c e tid secret)"
  using assms by (simp add: assertValidIssue_Inr tokenWellFormed_def tokenRecord_def parsesDate_def dateParse_toISOString)

lemma runTokens_new:
  "runTokens hash create revoke ops s = (evs, s') \<Longrightarrow> Issued r \<in> set evs \<Longrightarrow> newRecord r"
proof (induction ops arbitrary: s evs)
  case (Cons op ops)
  obtain ev u where ev: "tokenEvent hash create revoke op s = (ev, u)" by fastforce
  obtain evs' where evs': "runTokens hash create revoke ops u = (evs', s')" "evs = ev @ evs'"
    using Cons.prems(1) ev by (auto split: prod.splits)
  have "Issued r \<in> set ev \<Longrightarrow> newRecord r"
    using ev by (auto simp: tokenEvent_def newRecord_def tokenRecord_def split: token_op.splits prod.splits sum.splits)
  then show ?case using Cons.IH [OF evs'(1)] Cons.prems(2) evs'(2) by auto
qed simp

lemma d1_history:
  assumes "\<forall>t. tokenHashPattern (hash t)" "list_all op_years_ok ops"
    and "runTokens hash (d1Create accepts) (d1Revoke accepts) ops [] = (evs, table)"
  shows "d1FindByTokenHash other h table = Inr (tokenSpec evs Map.empty h)" "freshIssues evs Map.empty"
proof -
  have start: "tokenTable other []" "\<And>h. d1FindByTokenHash other h [] = Inr (Map.empty h)"
    by (simp_all add: tokenTable_def tokenRows_def d1FindByTokenHash_def)
  have ok: "\<forall>op \<in> set ops. case op of
           IssueOp at tid secret q \<Rightarrow> \<forall>c e. assertValidIssue q at = Inr (c, e) \<longrightarrow>
             tokenWellFormed other (tokenRecord hash q c e tid secret)
         | RevokeOp at q \<Rightarrow> \<forall>x. at = Some x \<longrightarrow> parsesDate other (toISOString x)"
    using assms(1,2)
    by (auto simp: list_all_iff parsesDate_def dateParse_toISOString split: token_op.splits
          intro!: tokenRecord_wellFormed) (fastforce simp: assertValidIssue_Inr)+
  from d1_tokens.run_refines [OF start assms(3) ok] show "d1FindByTokenHash other h table = Inr (tokenSpec evs Map.empty h)" "freshIssues evs Map.empty" by blast+
qed

lemma resolveServiceToken_Some:
  assumes "findByTokenHash (hash token) s = Inr found"
  shows "resolveServiceToken hash other findByTokenHash (Some now) token s = Inr (Some who) \<longleftrightarrow>
    isServiceTokenCredential token \<and> (\<exists>r e. found = Some r \<and> st_revoked r = None \<and>
      dateParse other (st_expiresAt r) = Some e \<and> now < e \<and> who = identityOf r)"
proof (cases found)
  case (Some r)
  with assms show ?thesis
    by (cases "dateParse other (st_expiresAt r)"; cases "st_revoked r")
       (auto simp: resolveServiceToken_def not_le)
qed (use assms in \<open>simp add: resolveServiceToken_def\<close>)

section \<open>Properties\<close>

text \<open>
  No privilege is issued that the issuer lacks. A successful \<open>issue\<close> means: the issuer is an
  owner, an administrator or the legacy \<open>manager\<close>; the credential lives longer than not at all and
  at most ninety days; it has at least one scope, each permitted both to the token's role and to
  the issuer, and none of them issues or revokes tokens or manages the RBAC; every operation of
  the token's role is one the issuer may perform; and exactly the record with the digest of the
  returned credential was handed to the store.
\<close>

theorem service_token_issue_confined:
  assumes "issueToken hash create at tid secret q s = (Inr tok, s')"
  shows "tq_actorRole q \<in> {''owner'', ''admin'', ''manager''} \<and>
    (\<exists>c e. at = Some c \<and> tq_expiresAt q = Some e \<and> c < e \<and> e \<le> c + 7776000000 \<and>
       create (tokenRecord hash q c e tid secret) s = (Inr (), s')) \<and>
    it_token tok = ''ts_service_'' @ secret \<and> it_scopes tok \<noteq> [] \<and>
    list_all (\<lambda>p. canRolePerform (role_tag (it_role tok)) p \<and> canRolePerform (tq_actorRole q) p \<and>
       p \<notin> {''service-token:issue'', ''service-token:revoke'', ''rbac:manage''}) (it_scopes tok) \<and>
    (\<forall>p. canRolePerform (role_tag (it_role tok)) p \<longrightarrow> canRolePerform (tq_actorRole q) p)"
proof -
  from assms obtain c e where a: "assertValidIssue q at = Inr (c, e)"
    "create (tokenRecord hash q c e tid secret) s = (Inr (), s')"
    and t: "it_token tok = credentialPrefix @ secret" "it_scopes tok = tq_scopes q" "it_role tok = tq_role q"
    by (auto simp: issueToken_Inr)
  note v = a(1) [unfolded assertValidIssue_Inr]
  then have dom: "canRolePerform (role_tag (tq_role q)) p \<Longrightarrow> canRolePerform (tq_actorRole q) p" for p
    using roleEscalates_dominated by blast
  have "tq_actorRole q \<in> {''owner'', ''admin'', ''manager''}"
    using v roleEscalates_issuer token_issuers by blast
  with v a(2) t dom show ?thesis
    by (auto simp: maximumLifetimeMs_def credentialPrefix_def list_all_iff scopesAllowed_alt forbiddenMachineScopes_def)
qed

definition example_hash :: "string \<Rightarrow> string" where
  "example_hash t = replicate 63 (CHR ''0'') @ [hex_digit (length t mod 16)]"

lemma example_hash_pattern: "tokenHashPattern (example_hash t)"
proof -
  have "length t mod 16 < 16" by simp
  then have "is_digit (hex_digit (length t mod 16)) \<or>
      97 \<le> code (hex_digit (length t mod 16)) \<and> code (hex_digit (length t mod 16)) \<le> 102"
    by (auto simp: hex_digit_def is_digit_def code_char_of)
  moreover have "is_digit (CHR ''0'')" by code_simp
  ultimately show ?thesis by (simp add: tokenHashPattern_def example_hash_def)
qed

definition example_secret :: string where
  "example_secret = replicate 40 (CHR ''k'')"

definition example_request_token :: token_request where
  "example_request_token =
     \<lparr>tq_appId = ''app'', tq_tenantId = ''t1'', tq_actor = ''ana'', tq_actorRole = ''manager'', tq_label = ''ci'',
      tq_role = Operator, tq_scopes = [''execution:read''], tq_expiresAt = Some 86400000\<rparr>"

definition example_issue :: "(token_error, issued_token) outcome \<times> ServiceTokenRow list" where
  "example_issue =
     issueToken example_hash (d1Create (\<lambda>_. True)) (Some 0) ''st_1'' example_secret example_request_token []"

definition example_record :: ServiceTokenRecord where
  "example_record = tokenRecord example_hash example_request_token 0 86400000 ''st_1'' example_secret"

lemma example_issue_valid: "assertValidIssue example_request_token (Some 0) = Inr (0, 86400000)"
  by code_simp

lemma example_create: "d1Create (\<lambda>_. True) example_record [] = (Inr (), [rowOf example_record])"
  by (simp add: d1Create_def example_record_def tokenRecord_def)

lemma example_issue_run:
  "\<exists>tok. example_issue = (Inr tok, [rowOf example_record]) \<and> it_scopes tok = [''execution:read'']"
proof -
  have "tokenIdValid ''st_1''" by code_simp
  moreover have "tq_scopes example_request_token = [''execution:read'']" by (simp add: example_request_token_def)
  ultimately show ?thesis
    unfolding example_issue_def
    using example_create example_issue_valid
    by (simp add: issueToken_Inr example_record_def example_secret_def)
qed

theorem service_token_issue_confined_witness:
  "fst example_issue \<noteq> Inl (ServiceTokenError RoleEscalation) \<and> canRolePerform ''manager'' ''execution:read''"
proof -
  obtain tok where e: "example_issue = (Inr tok, [rowOf example_record])" "it_scopes tok = [''execution:read'']"
    using example_issue_run by blast
  from service_token_issue_confined [OF e(1) [unfolded example_issue_def]] e(2) show ?thesis
    unfolding e(1) fst_conv by (simp add: example_request_token_def)
qed

text \<open>
  C16: What resolves after any history. After any sequence of issue and revoke calls on an empty
  table, whatever the database refused on the way, resolving never raises, and a credential
  resolves exactly when it carries the managed prefix, a record with its digest was issued, no
  accepted revocation of that record (same id, application and tenant) came later, and it has not
  expired; it then acts with the role, tenant and scopes of that record.
\<close>

theorem service_token_resolution:
  assumes "\<forall>t. tokenHashPattern (hash t)" "list_all op_years_ok ops"
    and "runTokens hash (d1Create accepts) (d1Revoke accepts) ops [] = (evs, table)"
  shows "(\<exists>found. resolveServiceToken hash other (d1FindByTokenHash other) (Some now) token table = Inr found) \<and>
    (resolveServiceToken hash other (d1FindByTokenHash other) (Some now) token table = Inr (Some who) \<longleftrightarrow>
       isServiceTokenCredential token \<and>
       (\<exists>pre r post e. evs = pre @ Issued r # post \<and> st_tokenHash r = hash token \<and> \<not> revokedIn post r \<and>
          dateParse other (st_expiresAt r) = Some e \<and> now < e \<and> who = identityOf r))"
proof -
  note h = d1_history [OF assms]
  have live: "tokenSpec evs Map.empty (hash token) = Some r \<and> st_revoked r = None \<longleftrightarrow> liveToken evs (hash token) r" for r
    using tokenSpec_live [OF h(2)] runTokens_new [OF assms(3)] by blast
  have "resolveServiceToken hash other (d1FindByTokenHash other) (Some now) token table = Inr (Some who) \<longleftrightarrow>
      isServiceTokenCredential token \<and> (\<exists>r e. tokenSpec evs Map.empty (hash token) = Some r \<and> st_revoked r = None \<and>
        dateParse other (st_expiresAt r) = Some e \<and> now < e \<and> who = identityOf r)"
    using h(1) by (rule resolveServiceToken_Some)
  also have "\<dots> \<longleftrightarrow> isServiceTokenCredential token \<and> (\<exists>r e. liveToken evs (hash token) r \<and>
        dateParse other (st_expiresAt r) = Some e \<and> now < e \<and> who = identityOf r)"
    using live by blast
  finally show ?thesis
    by (auto simp: liveToken_def resolveServiceToken_def h(1) split: option.splits)
qed

definition example_tokens :: "token_event list \<times> ServiceTokenRow list" where
  "example_tokens = runTokens example_hash (d1Create (\<lambda>_. True)) (d1Revoke (\<lambda>_. True))
     [IssueOp (Some 0) ''st_1'' example_secret example_request_token,
      RevokeOp (Some 5) \<lparr>vq_id = ''st_1'', vq_appId = ''app'', vq_tenantId = ''t2'', vq_actor = ''bob'',
        vq_actorRole = ''admin''\<rparr>] []"

lemma example_tokens_run: "\<exists>v. example_tokens = ([Issued example_record, Revoked v], [rowOf example_record]) \<and>
    \<not> revocationMatches v example_record"
proof -
  obtain tok where i: "issueToken example_hash (d1Create (\<lambda>_. True)) (Some 0) ''st_1'' example_secret
      example_request_token [] = (Inr tok, [rowOf example_record])"
    using example_issue_run by (auto simp: example_issue_def)
  have c: "canRolePerform ''admin'' ''service-token:revoke''" by code_simp
  have t: "tq_expiresAt example_request_token = Some 86400000" by (simp add: example_request_token_def)
  have n: "st_tenantId example_record = ''t1''"
    by (simp add: example_record_def tokenRecord_def example_request_token_def)
  show ?thesis
    by (simp add: example_tokens_def tokenEvent_def i t c revokeToken_def d1Revoke_def revocationTarget_def
        revocationMatches_def revocationOf_def n example_record_def [symmetric])
qed

theorem service_token_resolution_witness:
  "resolveServiceToken example_hash (\<lambda>_. None) (d1FindByTokenHash (\<lambda>_. None)) (Some 1000)
     (''ts_service_'' @ example_secret) (snd example_tokens) = Inr (Some (identityOf example_record))"
proof -
  obtain v where e: "example_tokens = ([Issued example_record, Revoked v], [rowOf example_record])"
    "\<not> revocationMatches v example_record" using example_tokens_run by blast
  have y: "list_all op_years_ok
     [IssueOp (Some 0) ''st_1'' example_secret example_request_token,
      RevokeOp (Some 5) \<lparr>vq_id = ''st_1'', vq_appId = ''app'', vq_tenantId = ''t2'', vq_actor = ''bob'',
        vq_actorRole = ''admin''\<rparr>]" by code_simp
  have h: "\<forall>t. tokenHashPattern (example_hash t)" using example_hash_pattern by blast
  have "iso_year_ok 86400000" by code_simp
  then have d: "dateParse (\<lambda>_. None) (st_expiresAt example_record) = Some 86400000"
    by (simp add: example_record_def tokenRecord_def dateParse_toISOString)
  have p: "isServiceTokenCredential (''ts_service_'' @ example_secret)"
    "st_tokenHash example_record = example_hash (''ts_service_'' @ example_secret)"
    by (simp_all add: isServiceTokenCredential_def startsWith_def credentialPrefix_def example_record_def tokenRecord_def)
  have "[Issued example_record, Revoked v] = [] @ Issued example_record # [Revoked v]"
    "\<not> revokedIn [Revoked v] example_record" using e(2) by (simp_all add: revokedIn_def)
  with service_token_resolution [OF h y e(1) [unfolded example_tokens_def]] p d show ?thesis
    unfolding e snd_conv by force
qed

definition revocationPaired :: "ServiceTokenRow \<Rightarrow> bool" where
  "revocationPaired row \<longleftrightarrow> (tr_revoked_at row = JNull \<longleftrightarrow> tr_revoked_by row = JNull)"

definition sameToken :: "revoke_request \<Rightarrow> ServiceTokenRow \<Rightarrow> bool" where
  "sameToken q row \<longleftrightarrow>
     tr_id row = JStr (vq_id q) \<and> tr_app_id row = JStr (vq_appId q) \<and> tr_tenant_id row = JStr (vq_tenantId q)"

lemma sameToken_target: "revocationTarget (revocationOf t q) row \<longleftrightarrow> sameToken q row"
  by (simp add: revocationTarget_def revocationOf_def sameToken_def)

lemma revocationOf_sel [simp]:
  "tv_revokedAt (revocationOf t q) = toISOString t" "tv_revokedBy (revocationOf t q) = vq_actor q"
  by (simp_all add: revocationOf_def)

lemma revokeRow_first:
  "revocationPaired row \<Longrightarrow> revokeRow (revocationOf t q) row =
     (if sameToken q row \<and> tr_revoked_at row = JNull
      then row\<lparr>tr_revoked_at := JStr (toISOString t), tr_revoked_by := JStr (vq_actor q)\<rparr> else row)"
  by (cases row) (auto simp: revokeRow_def sameToken_target coalesce_def revocationPaired_def)

lemma revokeToken_cases:
  assumes "revokeToken (d1Revoke accepts) at q table = (res, table')"
  obtains (refused) e where "res = Inl e" "table' = table"
  | (missing) "res = Inr False" "table' = table" "\<not> list_ex (sameToken q) table" "canRolePerform (vq_actorRole q) ''service-token:revoke''"
  | (marked) t where "at = Some t" "res = Inr True" "table' = List.map (revokeRow (revocationOf t q)) table"
      "list_ex (sameToken q) table" "canRolePerform (vq_actorRole q) ''service-token:revoke''"
proof (cases "canRolePerform (vq_actorRole q) ''service-token:revoke''")
  case False
  then show ?thesis using assms refused by (auto simp: revokeToken_def)
next
  case True
  show ?thesis
  proof (cases at)
    case None
    then show ?thesis using assms refused True by (auto simp: revokeToken_def)
  next
    case (Some t)
    then have r: "d1Revoke accepts (revocationOf t q) table = (res, table')"
      using assms True by (simp add: revokeToken_def revocationOf_def)
    show ?thesis
    proof (cases "list_ex (sameToken q) table")
      case False
      with r True show ?thesis using missing by (auto simp: d1Revoke_def sameToken_target list_ex_iff)
    next
      case ex: True
      then have "(res = Inr True \<and> table' = List.map (revokeRow (revocationOf t q)) table) \<or>
          (\<exists>e. res = Inl e \<and> table' = table)"
        using r by (auto simp: d1Revoke_def sameToken_target list_ex_iff split: if_splits)
      then show ?thesis using marked [OF Some _ _ ex True] refused by blast
    qed
  qed
qed

text \<open>
  A revocation touches only the tenant's own token, and the first one stands. Whatever the
  table holds, \<open>revoke\<close> changes at most the rows with the given id, application and tenant that
  are not revoked yet, which get the time and the actor; rows of other tenants and earlier
  revocations stay as they are. It answers whether such a token exists, only for a caller who may
  revoke, and then every such row is revoked; when it raises, nothing has changed.
\<close>

theorem service_token_revocation:
  assumes "list_all revocationPaired table"
    and "revokeToken (d1Revoke accepts) at q table = (res, table')"
  shows "list_all2 (\<lambda>row row'. row' = row \<or>
        sameToken q row \<and> tr_revoked_at row = JNull \<and>
        row' = row\<lparr>tr_revoked_at := JStr (toISOString (the at)), tr_revoked_by := JStr (vq_actor q)\<rparr>) table table' \<and>
    (case res of
       Inl _ \<Rightarrow> table' = table
     | Inr found \<Rightarrow> vq_actorRole q \<in> {''owner'', ''admin'', ''manager''} \<and> (found \<longleftrightarrow> list_ex (sameToken q) table) \<and>
         list_all (\<lambda>row. sameToken q row \<longrightarrow> tr_revoked_at row \<noteq> JNull) table')"
  using assms(2)
proof (cases rule: revokeToken_cases)
  case (refused e)
  then show ?thesis by (simp add: list_all2_same)
next
  case missing
  then show ?thesis using token_issuers [of "''service-token:revoke''" "vq_actorRole q"]
    by (auto simp: list_all2_same list_all_iff list_ex_iff)
next
  case (marked t)
  have row: "\<forall>row \<in> set table. revokeRow (revocationOf t q) row =
     (if sameToken q row \<and> tr_revoked_at row = JNull
      then row\<lparr>tr_revoked_at := JStr (toISOString t), tr_revoked_by := JStr (vq_actor q)\<rparr> else row)"
    using assms(1) revokeRow_first by (simp add: list_all_iff)
  have same: "sameToken q (row\<lparr>tr_revoked_at := a, tr_revoked_by := b\<rparr>) = sameToken q row" for row a b
    by (simp add: sameToken_def)
  have "list_all2 (\<lambda>row row'. row' = row \<or>
        sameToken q row \<and> tr_revoked_at row = JNull \<and>
        row' = row\<lparr>tr_revoked_at := JStr (toISOString (the at)), tr_revoked_by := JStr (vq_actor q)\<rparr>) table table'"
    unfolding marked(3) list_all2_map2 list_all2_same using row marked(1) by simp
  moreover have "list_all (\<lambda>row. sameToken q row \<longrightarrow> tr_revoked_at row \<noteq> JNull) table'"
    unfolding marked(3) list_all_iff set_map using row same by auto
  ultimately show ?thesis using marked token_issuers [of "''service-token:revoke''" "vq_actorRole q"] by simp
qed

definition example_revocation :: revoke_request where
  "example_revocation =
     \<lparr>vq_id = ''st_1'', vq_appId = ''app'', vq_tenantId = ''t2'', vq_actor = ''bob'', vq_actorRole = ''admin''\<rparr>"

theorem service_token_revocation_witness:
  "revokeToken (d1Revoke (\<lambda>_. True)) (Some 5) example_revocation [rowOf example_record] =
     (Inr False, [rowOf example_record]) \<and> vq_actorRole example_revocation \<in> {''owner'', ''admin'', ''manager''}"
proof -
  have "canRolePerform ''admin'' ''service-token:revoke''" by code_simp
  then have r: "revokeToken (d1Revoke (\<lambda>_. True)) (Some 5) example_revocation [rowOf example_record] =
     (Inr False, [rowOf example_record])"
    by (simp add: revokeToken_def d1Revoke_def revocationTarget_def example_revocation_def example_record_def
        tokenRecord_def example_request_token_def)
  have "list_all revocationPaired [rowOf example_record]"
    by (simp add: revocationPaired_def rowOf_def example_record_def tokenRecord_def)
  from service_token_revocation [OF this r] r show ?thesis by simp
qed

end
