(* ===== verification/JsNumber.thy ===== *)
theory JsNumber
  imports JsValue
begin

text \<open>Arithmetic and comparison of JavaScript numbers.\<close>

text \<open>
  Addition of numbers: zero is neutral, and integers are added exactly while the sum is a safe integer; \<open>ieeeAdd\<close> is the IEEE
  addition of all other operands, where rounding may occur. Comparison is exact.
\<close>

definition num_add :: "(jsnum \<Rightarrow> jsnum \<Rightarrow> jsnum) \<Rightarrow> jsnum \<Rightarrow> jsnum \<Rightarrow> jsnum" where
  "num_add ieeeAdd a b =
     (if a = NInt 0 then b
      else case (a, b) of
        (NInt i, NInt j) \<Rightarrow>
          if is_safe_integer i \<and> is_safe_integer j \<and> is_safe_integer (i + j) then NInt (i + j) else ieeeAdd a b
      | _ \<Rightarrow> ieeeAdd a b)"

fun num_parts :: "jsnum \<Rightarrow> (int \<times> nat) option" where
  "num_parts (NInt i) = Some (i, 0)"
| "num_parts (NDec m k) = Some (m, k)"
| "num_parts _ = None"

definition num_ge :: "jsnum \<Rightarrow> jsnum \<Rightarrow> bool" where
  "num_ge a b =
     (case (num_parts a, num_parts b) of
        (Some (m, k), Some (n, l)) \<Rightarrow> n * 10 ^ k \<le> m * 10 ^ l
      | _ \<Rightarrow> (a = PosInf \<and> b \<noteq> NaN) \<or> (b = NegInf \<and> a \<noteq> NaN))"

fun num_text :: "jsnum \<Rightarrow> string" where
  "num_text NaN = ''NaN''"
| "num_text PosInf = ''Infinity''"
| "num_text NegInf = ''-Infinity''"
| "num_text n = json_number n"

text \<open>\<open>a > b\<close>, false when an operand is not a number.\<close>

definition num_gt :: "jsnum \<Rightarrow> jsnum \<Rightarrow> bool" where
  "num_gt a b \<longleftrightarrow> num_ge a b \<and> \<not> num_ge b a"

lemma num_ge_NInt [simp]: "num_ge (NInt a) (NInt b) \<longleftrightarrow> b \<le> a"
  by (simp add: num_ge_def)

lemma num_gt_NInt [simp]: "num_gt (NInt a) (NInt b) \<longleftrightarrow> b < a"
  by (auto simp: num_gt_def)

end
