(* ===== verification/CpUsage.thy ===== *)
theory CpUsage
  imports KeyedStore IsoDate JsNumber
begin

text \<open>
  \<open>packages/control-plane/src/usage-counter.ts\<close> and \<open>budget-guard.ts\<close>: the daily usage of a plugin
  in a tenant, over a keyed storage, and the guard that stops an installation whose budget is
  used up. The lock per key makes a recording atomic, so it is one step of the storage.
\<close>

section \<open>The usage counter\<close>

record DailyUsageKey =
  uk_tenantId :: string
  uk_pluginId :: string
  uk_at :: "int option"  \<comment> \<open>\<open>None\<close> is an invalid date\<close>

record DailyUsageRecord =
  du_tenantId :: string
  du_pluginId :: string
  du_date :: string
  du_executions :: int
  du_cpuMs :: jsnum

datatype usage_error = InvalidTime | UsageError string

definition usageDate :: "int \<Rightarrow> string" where
  "usageDate at = take 10 (toISOString at)"

definition usageKey :: "DailyUsageKey \<Rightarrow> int \<Rightarrow> string" where
  "usageKey q at = uk_tenantId q @ '':'' @ uk_pluginId q @ '':'' @ usageDate at"

definition emptyUsageRecord :: "DailyUsageKey \<Rightarrow> int \<Rightarrow> DailyUsageRecord" where
  "emptyUsageRecord q at =
     \<lparr>du_tenantId = uk_tenantId q, du_pluginId = uk_pluginId q, du_date = usageDate at,
      du_executions = 0, du_cpuMs = NInt 0\<rparr>"

definition validateCpuMs :: "jsnum \<Rightarrow> (usage_error, unit) outcome" where
  "validateCpuMs cpuMs =
     guardE (num_is_finite cpuMs \<and> num_ge cpuMs (NInt 0))
       (UsageError ''cpuMs must be a non-negative finite number'')"

definition currentUsage :: "('s \<Rightarrow> string \<Rightarrow> DailyUsageRecord option) \<Rightarrow> DailyUsageKey \<Rightarrow> int \<Rightarrow> 's \<Rightarrow> DailyUsageRecord" where
  "currentUsage get q at s =
     (case get s (usageKey q at) of Some r \<Rightarrow> r | None \<Rightarrow> emptyUsageRecord q at)"

definition addUsage :: "(jsnum \<Rightarrow> jsnum \<Rightarrow> jsnum) \<Rightarrow> jsnum \<Rightarrow> DailyUsageRecord \<Rightarrow> DailyUsageRecord" where
  "addUsage ieeeAdd cpuMs r =
     r\<lparr>du_executions := du_executions r + 1, du_cpuMs := num_add ieeeAdd (du_cpuMs r) cpuMs\<rparr>"

definition recordExecution ::
  "('s \<Rightarrow> string \<Rightarrow> DailyUsageRecord option) \<Rightarrow> (string \<Rightarrow> DailyUsageRecord \<Rightarrow> 's \<Rightarrow> 's) \<Rightarrow>
   (jsnum \<Rightarrow> jsnum \<Rightarrow> jsnum) \<Rightarrow> DailyUsageKey \<Rightarrow> jsnum \<Rightarrow> ('s, usage_error, DailyUsageRecord) step" where
  "recordExecution get put ieeeAdd q cpuMs s =
     (case uk_at q of
        None \<Rightarrow> (Inl InvalidTime, s)
      | Some at \<Rightarrow>
          (case validateCpuMs cpuMs of
             Inl e \<Rightarrow> (Inl e, s)
           | Inr _ \<Rightarrow>
               (let updated = addUsage ieeeAdd cpuMs (currentUsage get q at s)
                in (Inr updated, put (usageKey q at) updated s))))"

definition getDailyUsage ::
  "('s \<Rightarrow> string \<Rightarrow> DailyUsageRecord option) \<Rightarrow> DailyUsageKey \<Rightarrow> 's \<Rightarrow> (usage_error, DailyUsageRecord) outcome" where
  "getDailyUsage get q s =
     (case uk_at q of None \<Rightarrow> Inl InvalidTime | Some at \<Rightarrow> Inr (currentUsage get q at s))"

section \<open>The budget guard\<close>

record DailyBudget =
  db_dailyExecutions :: jsnum
  db_dailyCpuMs :: jsnum

record budget_execution =
  be_id :: string
  be_tenantId :: string
  be_pluginId :: string
  be_hookName :: string
  be_version :: string
  be_status :: string
  be_error :: string
  be_createdAt :: int

record BudgetExceededNotification =
  bn_tenantId :: string
  bn_pluginId :: string
  bn_installationId :: string
  bn_usage :: DailyUsageRecord
  bn_budget :: DailyBudget
  bn_emittedAt :: int

text \<open>The calls of the store and of the notification sink; each may raise.\<close>

datatype budget_effect =
    SetInstallationEnabled string bool
  | WriteExecution budget_execution
  | PublishExceeded BudgetExceededNotification

record budget_params =
  bg_installationId :: string
  bg_tenantId :: string
  bg_pluginId :: string
  bg_hookName :: string
  bg_version :: string
  bg_executionId :: string
  bg_budget :: DailyBudget
  bg_at :: int

datatype budget_result = BudgetOk | BudgetExceeded

definition isBudgetExceeded :: "DailyUsageRecord \<Rightarrow> DailyBudget \<Rightarrow> bool" where
  "isBudgetExceeded usage budget \<longleftrightarrow>
     num_ge (NInt (du_executions usage)) (db_dailyExecutions budget) \<or>
     num_ge (du_cpuMs usage) (db_dailyCpuMs budget)"

definition budgetExceededMessage :: "DailyUsageRecord \<Rightarrow> DailyBudget \<Rightarrow> string" where
  "budgetExceededMessage usage budget =
     ''daily budget exceeded: executions '' @ show_int (du_executions usage) @ ''/''
     @ num_text (db_dailyExecutions budget) @ '', cpuMs '' @ num_text (du_cpuMs usage) @ ''/''
     @ num_text (db_dailyCpuMs budget)"

definition exceededEffects :: "budget_params \<Rightarrow> DailyUsageRecord \<Rightarrow> budget_effect list" where
  "exceededEffects p usage =
     [SetInstallationEnabled (bg_installationId p) False,
      WriteExecution
        \<lparr>be_id = bg_executionId p, be_tenantId = bg_tenantId p, be_pluginId = bg_pluginId p,
         be_hookName = bg_hookName p, be_version = bg_version p, be_status = ''budget_exceeded'',
         be_error = budgetExceededMessage usage (bg_budget p), be_createdAt = bg_at p\<rparr>,
      PublishExceeded
        \<lparr>bn_tenantId = bg_tenantId p, bn_pluginId = bg_pluginId p, bn_installationId = bg_installationId p,
         bn_usage = usage, bn_budget = bg_budget p, bn_emittedAt = bg_at p\<rparr>]"

text \<open>Awaiting one call after the other; the first that raises stops the function.\<close>

fun runEffects :: "('e \<Rightarrow> ('w, 'x, unit) step) \<Rightarrow> 'e list \<Rightarrow> ('w, 'x, unit) step" where
  "runEffects perform [] w = (Inr (), w)"
| "runEffects perform (e # es) w =
     (case perform e w of (Inl x, w') \<Rightarrow> (Inl x, w') | (Inr _, w') \<Rightarrow> runEffects perform es w')"

definition enforceBudgetBeforeExecution ::
  "('s \<Rightarrow> string \<Rightarrow> DailyUsageRecord option) \<Rightarrow> 's \<Rightarrow> (budget_effect \<Rightarrow> ('w, usage_error, unit) step) \<Rightarrow>
   budget_params \<Rightarrow> ('w, usage_error, budget_result) step" where
  "enforceBudgetBeforeExecution get s perform p w =
     (case getDailyUsage get \<lparr>uk_tenantId = bg_tenantId p, uk_pluginId = bg_pluginId p, uk_at = Some (bg_at p)\<rparr> s of
        Inl e \<Rightarrow> (Inl e, w)
      | Inr usage \<Rightarrow>
          if \<not> isBudgetExceeded usage (bg_budget p) then (Inr BudgetOk, w)
          else (case runEffects perform (exceededEffects p usage) w of
                  (Inl e, w') \<Rightarrow> (Inl e, w')
                | (Inr _, w') \<Rightarrow> (Inr BudgetExceeded, w')))"

definition reEnableBudgetDisabledInstallation ::
  "(budget_effect \<Rightarrow> ('w, usage_error, unit) step) \<Rightarrow> string \<Rightarrow> ('w, usage_error, unit) step" where
  "reEnableBudgetDisabledInstallation perform installationId =
     perform (SetInstallationEnabled installationId True)"

section \<open>Keys\<close>

lemma digit_not_colon: "is_digit c \<Longrightarrow> c \<noteq> CHR '':''"
  by (auto simp: is_digit_def code_def)

lemma pad_int_no_colon: "CHR '':'' \<notin> set (pad_int k i)"
proof
  assume "CHR '':'' \<in> set (pad_int k i)"
  then have "CHR '':'' \<in> set (show_nat (nat i))" by (auto simp: pad_int_def pad_left_def split: if_splits)
  then show False using show_nat_digits digit_not_colon by blast
qed

lemma usageDate_iso: "iso_year_ok t \<Longrightarrow> usageDate t = iso_date t"
  by (simp add: usageDate_def iso_date_take)

lemma iso_date_no_colon: "CHR '':'' \<notin> set (iso_date t)"
  using pad_int_no_colon by (auto simp: iso_date_def split: prod.splits)

definition plainId :: "string \<Rightarrow> bool" where
  "plainId s \<longleftrightarrow> CHR '':'' \<notin> set s"

lemma split_first:
  "CHR '':'' \<notin> set a \<Longrightarrow> CHR '':'' \<notin> set b \<Longrightarrow> a @ CHR '':'' # x = b @ CHR '':'' # y \<Longrightarrow> a = b \<and> x = y"
  by (induction a arbitrary: b; case_tac b) auto

lemma usageKey_eq:
  assumes "plainId (uk_tenantId q)" "plainId (uk_pluginId q)" "plainId (uk_tenantId q')" "plainId (uk_pluginId q')"
    and "iso_year_ok t" "iso_year_ok t'"
  shows "usageKey q t = usageKey q' t' \<longleftrightarrow>
    uk_tenantId q = uk_tenantId q' \<and> uk_pluginId q = uk_pluginId q' \<and> t div ms_per_day = t' div ms_per_day"
proof
  assume "usageKey q t = usageKey q' t'"
  then have "uk_tenantId q @ CHR '':'' # (uk_pluginId q @ CHR '':'' # iso_date t) =
      uk_tenantId q' @ CHR '':'' # (uk_pluginId q' @ CHR '':'' # iso_date t')"
    using assms by (simp add: usageKey_def usageDate_iso)
  from split_first [OF _ _ this] assms have "uk_tenantId q = uk_tenantId q'"
    and "uk_pluginId q @ CHR '':'' # iso_date t = uk_pluginId q' @ CHR '':'' # iso_date t'"
    by (simp_all add: plainId_def)
  with split_first [OF _ _ this(2)] assms iso_date_eq [OF assms(5,6)]
  show "uk_tenantId q = uk_tenantId q' \<and> uk_pluginId q = uk_pluginId q' \<and> t div ms_per_day = t' div ms_per_day"
    by (simp add: plainId_def)
next
  assume "uk_tenantId q = uk_tenantId q' \<and> uk_pluginId q = uk_pluginId q' \<and> t div ms_per_day = t' div ms_per_day"
  then show "usageKey q t = usageKey q' t'" using assms by (simp add: usageKey_def usageDate_iso iso_date_eq)
qed

text \<open>Identifiers with colons share a record: two different tenants are counted together.\<close>

lemma usageKey_collision:
  "usageKey \<lparr>uk_tenantId = ''a:b'', uk_pluginId = ''c'', uk_at = Some t\<rparr> t =
   usageKey \<lparr>uk_tenantId = ''a'', uk_pluginId = ''b:c'', uk_at = Some t\<rparr> t"
  by (simp add: usageKey_def)

section \<open>What a counter holds\<close>

text \<open>Recordings one after the other; those that raise change nothing.\<close>

fun recordAll ::
  "('s \<Rightarrow> string \<Rightarrow> DailyUsageRecord option) \<Rightarrow> (string \<Rightarrow> DailyUsageRecord \<Rightarrow> 's \<Rightarrow> 's) \<Rightarrow>
   (jsnum \<Rightarrow> jsnum \<Rightarrow> jsnum) \<Rightarrow> (DailyUsageKey \<times> jsnum) list \<Rightarrow> 's \<Rightarrow> 's" where
  "recordAll get put ieeeAdd [] s = s"
| "recordAll get put ieeeAdd ((q, c) # rs) s =
     recordAll get put ieeeAdd rs (snd (recordExecution get put ieeeAdd q c s))"

definition sameUsage :: "DailyUsageKey \<Rightarrow> int \<Rightarrow> DailyUsageKey \<times> jsnum \<Rightarrow> bool" where
  "sameUsage q t r =
     (case uk_at (fst r) of
        None \<Rightarrow> False
      | Some t' \<Rightarrow> validateCpuMs (snd r) = Inr () \<and> uk_tenantId (fst r) = uk_tenantId q \<and>
          uk_pluginId (fst r) = uk_pluginId q \<and> t' div ms_per_day = t div ms_per_day)"

definition plainRequest :: "DailyUsageKey \<Rightarrow> bool" where
  "plainRequest q \<longleftrightarrow> plainId (uk_tenantId q) \<and> plainId (uk_pluginId q) \<and>
     (case uk_at q of None \<Rightarrow> True | Some t \<Rightarrow> iso_year_ok t)"

locale usage_store = keyed_store get put
  for get :: "'s \<Rightarrow> string \<Rightarrow> DailyUsageRecord option" and put

context usage_store
begin

lemma record_usage:
  assumes "plainRequest q" "uk_at q = Some t" "plainRequest q'"
  shows "currentUsage get q t (snd (recordExecution get put ieeeAdd q' c s)) =
    (if sameUsage q t (q', c) then addUsage ieeeAdd c (currentUsage get q t s) else currentUsage get q t s)"
proof (cases "uk_at q'")
  case (Some t')
  have "currentUsage get q' t' s = currentUsage get q t s" if "usageKey q' t' = usageKey q t"
  proof -
    have "uk_tenantId q' = uk_tenantId q" "uk_pluginId q' = uk_pluginId q" "usageDate t' = usageDate t"
      using that assms Some usageKey_eq [of q' q t' t] iso_date_eq [of t' t]
      by (auto simp: plainRequest_def usageDate_iso)
    then have "emptyUsageRecord q' t' = emptyUsageRecord q t" by (simp add: emptyUsageRecord_def)
    with that show ?thesis by (simp add: currentUsage_def split: option.split)
  qed
  moreover have "usageKey q' t' = usageKey q t \<longleftrightarrow> uk_tenantId q' = uk_tenantId q \<and>
      uk_pluginId q' = uk_pluginId q \<and> t' div ms_per_day = t div ms_per_day"
    using assms Some usageKey_eq [of q' q t' t] by (simp add: plainRequest_def)
  moreover have "currentUsage get q t (put (usageKey q' t') r s) =
      (if usageKey q' t' = usageKey q t then r else currentUsage get q t s)" for r
    by (simp add: currentUsage_def get_put)
  ultimately show ?thesis
    using Some by (auto simp: recordExecution_def sameUsage_def Let_def split: sum.splits)
qed (simp add: recordExecution_def sameUsage_def)

lemma record_all:
  assumes "plainRequest q" "uk_at q = Some t" "list_all (\<lambda>r. plainRequest (fst r)) rs"
  shows "currentUsage get q t (recordAll get put ieeeAdd rs s) =
    fold (\<lambda>r. addUsage ieeeAdd (snd r)) (filter (sameUsage q t) rs) (currentUsage get q t s)"
  using assms(3)
proof (induction rs arbitrary: s)
  case (Cons r rs)
  then show ?case by (cases r) (simp add: record_usage [OF assms(1,2)])
qed simp

end

interpretation mem_usage: usage_store mem_get mem_put
  by unfold_locales

lemma fold_addUsage:
  "fold (\<lambda>r. addUsage ieeeAdd (snd r)) rs u =
     u\<lparr>du_executions := du_executions u + int (length rs),
       du_cpuMs := fold (\<lambda>r c. num_add ieeeAdd c (snd r)) rs (du_cpuMs u)\<rparr>"
  by (induction rs arbitrary: u) (simp_all add: addUsage_def)

text \<open>
  Usage is counted exactly. After any recordings on a new counter, the usage reported for a
  tenant, plugin and day has as many executions as there were valid recordings (a proper time and
  a finite CPU time that is not negative) of that tenant and plugin on that UTC day, and the sum of
  their CPU times in order; recordings of other tenants, plugins or days do not count. Tenant and
  plugin identifiers are assumed to have no colon, since the key does not escape them.
\<close>

theorem usage_counts_exactly:
  assumes "plainRequest q" "uk_at q = Some t" "list_all (\<lambda>r. plainRequest (fst r)) rs"
  shows "getDailyUsage mem_get q (recordAll mem_get mem_put ieeeAdd rs []) =
    Inr \<lparr>du_tenantId = uk_tenantId q, du_pluginId = uk_pluginId q, du_date = usageDate t,
         du_executions = int (length (filter (sameUsage q t) rs)),
         du_cpuMs = fold (\<lambda>r c. num_add ieeeAdd c (snd r)) (filter (sameUsage q t) rs) (NInt 0)\<rparr>"
  using mem_usage.record_all [OF assms] assms(2)
  by (simp add: getDailyUsage_def fold_addUsage currentUsage_def mem_get_def emptyUsageRecord_def)

definition example_usage_key :: "string \<Rightarrow> int \<Rightarrow> DailyUsageKey" where
  "example_usage_key tenant t = \<lparr>uk_tenantId = tenant, uk_pluginId = ''p'', uk_at = Some t\<rparr>"

definition example_recordings :: "(DailyUsageKey \<times> jsnum) list" where
  "example_recordings =
     [(example_usage_key ''t'' 5, NInt 7), (example_usage_key ''u'' 5, NInt 9),
      (example_usage_key ''t'' 86399999, NInt 8), (example_usage_key ''t'' 86400000, NInt 1),
      (example_usage_key ''t'' 6, NaN)]"

theorem usage_counts_exactly_witness:
  "map_option (\<lambda>u. (du_executions u, du_cpuMs u))
     (case getDailyUsage mem_get (example_usage_key ''t'' 0)
        (recordAll mem_get mem_put (\<lambda>_ _. NaN) example_recordings []) of Inr u \<Rightarrow> Some u | Inl _ \<Rightarrow> None) =
   Some (2, NInt 15)"
proof -
  have p: "plainRequest (example_usage_key ''t'' 0)" "uk_at (example_usage_key ''t'' 0) = Some 0"
    "list_all (\<lambda>r. plainRequest (fst r)) example_recordings"
    by code_simp+
  have "filter (sameUsage (example_usage_key ''t'' 0) 0) example_recordings =
      [(example_usage_key ''t'' 5, NInt 7), (example_usage_key ''t'' 86399999, NInt 8)]" by code_simp
  moreover have "num_add (\<lambda>_ _. NaN) (num_add (\<lambda>_ _. NaN) (NInt 0) (NInt 7)) (NInt 8) = NInt 15" by code_simp
  ultimately show ?thesis
    unfolding usage_counts_exactly [OF p] by simp
qed

text \<open>Services that log each call and fail as \<open>fails\<close> says.\<close>

definition logged :: "(budget_effect \<Rightarrow> usage_error option) \<Rightarrow> budget_effect \<Rightarrow> (budget_effect list, usage_error, unit) step" where
  "logged fails e log = (case fails e of None \<Rightarrow> Inr () | Some x \<Rightarrow> Inl x, log @ [e])"

lemma logged_simps:
  "fails e = None \<Longrightarrow> logged fails e log = (Inr (), log @ [e])"
  "fails e = Some x \<Longrightarrow> logged fails e log = (Inl x, log @ [e])"
  by (simp_all add: logged_def)

lemma runEffects_logged:
  assumes "runEffects (logged fails) es log = (res, log')"
  shows "case res of
      Inr _ \<Rightarrow> log' = log @ es \<and> list_all (\<lambda>e. fails e = None) es
    | Inl x \<Rightarrow> (\<exists>pre e post. es = pre @ e # post \<and> log' = log @ pre @ [e] \<and> fails e = Some x \<and>
        list_all (\<lambda>e. fails e = None) pre)"
  using assms
proof (induction es arbitrary: log)
  case (Cons e es)
  show ?case
  proof (cases "fails e")
    case None
    then have run: "runEffects (logged fails) es (log @ [e]) = (res, log')"
      using Cons.prems by (simp add: logged_simps)
    show ?thesis
    proof (cases res)
      case (Inl x)
      from Cons.IH [OF run] Inl obtain pre d post where "es = pre @ d # post" "log' = (log @ [e]) @ pre @ [d]"
        "fails d = Some x" "list_all (\<lambda>e. fails e = None) pre" by auto
      then have "e # es = (e # pre) @ d # post \<and> log' = log @ (e # pre) @ [d] \<and> fails d = Some x \<and>
          list_all (\<lambda>e. fails e = None) (e # pre)" using None by simp
      then show ?thesis unfolding Inl sum.case by blast
    qed (use Cons.IH [OF run] None in auto)
  next
    case (Some x)
    with Cons.prems have "res = Inl x" "log' = log @ [] @ [e]" by (simp_all add: logged_simps)
    moreover have "e # es = [] @ e # es" by simp
    ultimately show ?thesis using Some by fastforce
  qed
qed auto

text \<open>
  The budget guard lets an execution start exactly while the usage of the day is below both
  limits, and then calls no service. Otherwise it first disables the installation, then records
  the refused execution, then notifies; it answers that the budget is exceeded when all three
  succeeded, and when one of them raises, it raises the same error and calls no further service.
\<close>

theorem budget_guard_stops:
  assumes "getDailyUsage get \<lparr>uk_tenantId = bg_tenantId p, uk_pluginId = bg_pluginId p, uk_at = Some (bg_at p)\<rparr> s = Inr usage"
    and "enforceBudgetBeforeExecution get s (logged fails) p log = (res, log')"
  shows "(res = Inr BudgetOk \<longleftrightarrow>
      \<not> num_ge (NInt (du_executions usage)) (db_dailyExecutions (bg_budget p)) \<and>
      \<not> num_ge (du_cpuMs usage) (db_dailyCpuMs (bg_budget p))) \<and>
    (case res of
       Inr BudgetOk \<Rightarrow> log' = log
     | Inr BudgetExceeded \<Rightarrow> \<exists>x n. log' = log @ [SetInstallationEnabled (bg_installationId p) False, WriteExecution x, PublishExceeded n] \<and>
         be_id x = bg_executionId p \<and> be_status x = ''budget_exceeded'' \<and> bn_usage n = usage
     | Inl e \<Rightarrow> \<exists>calls call rest. log' = log @ calls @ [call] \<and> fails call = Some e \<and>
         (calls @ [call]) @ rest = exceededEffects p usage \<and> list_all (\<lambda>c. fails c = None) calls)"
proof (cases "isBudgetExceeded usage (bg_budget p)")
  case False
  with assms show ?thesis by (auto simp: enforceBudgetBeforeExecution_def isBudgetExceeded_def)
next
  case True
  obtain x v where x: "runEffects (logged fails) (exceededEffects p usage) log = (x, v)" by fastforce
  with True assms have r: "v = log'" "res = (case x of Inl e \<Rightarrow> Inl e | Inr _ \<Rightarrow> Inr BudgetExceeded)"
    by (auto simp: enforceBudgetBeforeExecution_def split: sum.splits)
  show ?thesis
  proof (cases x)
    case (Inl e)
    with runEffects_logged [OF x] obtain pre d post where "exceededEffects p usage = pre @ d # post"
      "v = log @ pre @ [d]" "fails d = Some e" "list_all (\<lambda>e. fails e = None) pre" by auto
    then have "log' = log @ pre @ [d] \<and> fails d = Some e \<and> (pre @ [d]) @ post = exceededEffects p usage \<and>
        list_all (\<lambda>c. fails c = None) pre" using r by simp
    moreover have "res = Inl e" using r Inl by simp
    ultimately show ?thesis using True unfolding isBudgetExceeded_def by auto
  next
    case (Inr u)
    with runEffects_logged [OF x] r have "log' = log @ exceededEffects p usage" "res = Inr BudgetExceeded" by auto
    then show ?thesis using True by (auto simp: exceededEffects_def isBudgetExceeded_def)
  qed
qed

definition example_budget :: budget_params where
  "example_budget =
     \<lparr>bg_installationId = ''i'', bg_tenantId = ''t'', bg_pluginId = ''p'', bg_hookName = ''h'', bg_version = ''1'',
      bg_executionId = ''x'', bg_budget = \<lparr>db_dailyExecutions = NInt 0, db_dailyCpuMs = NInt 10\<rparr>, bg_at = 5\<rparr>"

definition example_budget_run :: "(usage_error, budget_result) outcome \<times> budget_effect list" where
  "example_budget_run = enforceBudgetBeforeExecution mem_get [] (logged (\<lambda>_. None)) example_budget []"

theorem budget_guard_stops_witness:
  "\<exists>x n. example_budget_run = (Inr BudgetExceeded, [SetInstallationEnabled ''i'' False, WriteExecution x, PublishExceeded n])"
proof -
  have g: "getDailyUsage mem_get \<lparr>uk_tenantId = bg_tenantId example_budget, uk_pluginId = bg_pluginId example_budget,
      uk_at = Some (bg_at example_budget)\<rparr> [] =
      Inr (emptyUsageRecord \<lparr>uk_tenantId = ''t'', uk_pluginId = ''p'', uk_at = Some 5\<rparr> 5)"
    by (simp add: getDailyUsage_def currentUsage_def mem_get_def example_budget_def emptyUsageRecord_def)
  obtain res log' where e: "example_budget_run = (res, log')" by fastforce
  have "num_ge (NInt 0) (NInt 0)" by code_simp
  moreover have "res \<noteq> Inl y" for y
    using e by (auto simp: example_budget_run_def enforceBudgetBeforeExecution_def g logged_def exceededEffects_def
        split: if_splits)
  ultimately show ?thesis
    using budget_guard_stops [OF g e [unfolded example_budget_run_def]] e
    by (cases res) (auto simp: emptyUsageRecord_def example_budget_def split: budget_result.splits)
qed

end
