(* ===== verification/CpRunaway.thy ===== *)
theory CpRunaway
  imports KeyedStore
begin

text \<open>
  \<open>packages/control-plane/src/runaway-guard.ts\<close> with its table and triggers
  (\<open>migrations/0013\<close>): consecutive failures and time-outs of an installation, its quarantine, the
  notification of an incident and the recovery. Each statement is one step of the database, with
  its triggers; calls of different executions interleave between the statements' steps only.
\<close>

section \<open>The tables\<close>

datatype RunawayExecutionOutcome = OutcomeSuccess | OutcomeError | OutcomeTimeout

datatype RunawayQuarantineReason = ConsecutiveFailures | ConsecutiveTimeouts

fun reason_text :: "RunawayQuarantineReason \<Rightarrow> string" where
  "reason_text ConsecutiveFailures = ''consecutive_failures''"
| "reason_text ConsecutiveTimeouts = ''consecutive_timeouts''"

record RunawayStateRow =
  rr_failures :: int
  rr_timeouts :: int
  rr_quarantined :: int
  rr_reason :: "string option"
  rr_updatedAt :: string

record installation_row =
  ir_enabled :: int
  ir_revision :: int

record runaway_db =
  rd_states :: "(string \<times> RunawayStateRow) list"
  rd_installations :: "(string \<times> installation_row) list"

record RunawayGuardState =
  rg_consecutiveFailures :: int
  rg_consecutiveTimeouts :: int
  rg_quarantined :: bool
  rg_reason :: "RunawayQuarantineReason option"

record RunawayPolicy =
  rp_consecutiveFailures :: jsnum
  rp_consecutiveTimeouts :: jsnum

record RunawayQuarantineNotification =
  rn_tenantId :: string
  rn_pluginId :: string
  rn_installationId :: string
  rn_reason :: RunawayQuarantineReason
  rn_consecutiveFailures :: int
  rn_consecutiveTimeouts :: int
  rn_emittedAt :: int

section \<open>The store\<close>

definition outcomeStatement :: "RunawayExecutionOutcome \<Rightarrow> string \<Rightarrow> RunawayStateRow option \<Rightarrow> RunawayStateRow" where
  "outcomeStatement outcome at existing =
     (case existing of
        None \<Rightarrow>
          \<lparr>rr_failures = (if outcome = OutcomeSuccess then 0 else 1),
           rr_timeouts = (if outcome = OutcomeTimeout then 1 else 0),
           rr_quarantined = 0, rr_reason = None, rr_updatedAt = at\<rparr>
      | Some r \<Rightarrow>
          r\<lparr>rr_failures := (if outcome = OutcomeSuccess then 0 else rr_failures r + 1),
            rr_timeouts := (if outcome = OutcomeTimeout then rr_timeouts r + 1 else 0),
            rr_updatedAt := at\<rparr>)"

definition quarantineReasonValue :: "string option \<Rightarrow> (string, RunawayQuarantineReason option) outcome" where
  "quarantineReasonValue v =
     (case v of
        None \<Rightarrow> Inr None
      | Some t \<Rightarrow>
          if t = ''consecutive_failures'' then Inr (Some ConsecutiveFailures)
          else if t = ''consecutive_timeouts'' then Inr (Some ConsecutiveTimeouts)
          else Inl ''stored runaway quarantine reason is invalid'')"

definition runawayState :: "RunawayStateRow \<Rightarrow> (string, RunawayGuardState) outcome" where
  "runawayState row =
     bindE (quarantineReasonValue (rr_reason row)) (\<lambda>reason.
       Inr \<lparr>rg_consecutiveFailures = rr_failures row, rg_consecutiveTimeouts = rr_timeouts row,
            rg_quarantined = (rr_quarantined row = 1), rg_reason = reason\<rparr>)"

definition recordOutcome ::
  "string \<Rightarrow> RunawayExecutionOutcome \<Rightarrow> int \<Rightarrow> (runaway_db, string, RunawayGuardState) step" where
  "recordOutcome i outcome at db =
     (if mem_get (rd_states db) i = None \<and> mem_get (rd_installations db) i = None
      then (Inl ''FOREIGN KEY constraint failed'', db)
      else let row = outcomeStatement outcome (toISOString at) (mem_get (rd_states db) i)
           in (runawayState row, db\<lparr>rd_states := mem_put i row (rd_states db)\<rparr>))"

text \<open>The triggers \<open>installation_runaway_quarantine\<close> and \<open>installation_runaway_recovery\<close>.\<close>

definition setEnabled :: "int \<Rightarrow> string \<Rightarrow> (string \<times> installation_row) list \<Rightarrow> (string \<times> installation_row) list" where
  "setEnabled value i installations =
     (case mem_get installations i of
        None \<Rightarrow> installations
      | Some r \<Rightarrow> if ir_enabled r = 1 - value
                  then mem_put i (r\<lparr>ir_enabled := value, ir_revision := ir_revision r + 1\<rparr>) installations
                  else installations)"

definition quarantineIfEnabled :: "string \<Rightarrow> RunawayQuarantineReason \<Rightarrow> int \<Rightarrow> runaway_db \<Rightarrow> bool \<times> runaway_db" where
  "quarantineIfEnabled i reason at db =
     (case mem_get (rd_states db) i of
        None \<Rightarrow> (False, db)
      | Some r \<Rightarrow>
          if rr_quarantined r \<noteq> 0 then (False, db)
          else (True,
            db\<lparr>rd_states := mem_put i (r\<lparr>rr_quarantined := 1, rr_reason := Some (reason_text reason),
                                       rr_updatedAt := toISOString at\<rparr>) (rd_states db),
               rd_installations := setEnabled 0 i (rd_installations db)\<rparr>))"

definition recoverStatement :: "string \<Rightarrow> int \<Rightarrow> runaway_db \<Rightarrow> bool \<times> runaway_db" where
  "recoverStatement i at db =
     (case mem_get (rd_states db) i of
        None \<Rightarrow> (False, db)
      | Some r \<Rightarrow>
          if rr_quarantined r \<noteq> 1 then (False, db)
          else (True,
            db\<lparr>rd_states := mem_put i \<lparr>rr_failures = 0, rr_timeouts = 0, rr_quarantined = 0, rr_reason = None,
                                     rr_updatedAt = toISOString at\<rparr> (rd_states db),
               rd_installations := setEnabled 1 i (rd_installations db)\<rparr>))"

section \<open>The guard\<close>

fun positiveSafeInteger :: "jsnum \<Rightarrow> int option" where
  "positiveSafeInteger (NInt i) = (if is_safe_integer i \<and> 1 \<le> i then Some i else None)"
| "positiveSafeInteger _ = None"

text \<open>The thresholds of a valid policy.\<close>

definition validatePolicy :: "RunawayPolicy \<Rightarrow> (string, int \<times> int) outcome" where
  "validatePolicy policy =
     (case (positiveSafeInteger (rp_consecutiveFailures policy), positiveSafeInteger (rp_consecutiveTimeouts policy)) of
        (Some f, Some t) \<Rightarrow> Inr (f, t)
      | _ \<Rightarrow> Inl ''runaway policy thresholds must be positive safe integers'')"

definition quarantineReason :: "RunawayGuardState \<Rightarrow> int \<times> int \<Rightarrow> RunawayQuarantineReason option" where
  "quarantineReason state thresholds =
     (if snd thresholds \<le> rg_consecutiveTimeouts state then Some ConsecutiveTimeouts
      else if fst thresholds \<le> rg_consecutiveFailures state then Some ConsecutiveFailures else None)"

record runaway_params =
  ra_installationId :: string
  ra_tenantId :: string
  ra_pluginId :: string
  ra_outcome :: RunawayExecutionOutcome
  ra_policy :: RunawayPolicy
  ra_at :: int

text \<open>The database with the notifications that were handed to the sink.\<close>

record runaway_world =
  rw_db :: runaway_db
  rw_published :: "RunawayQuarantineNotification list"

definition incidentNotification ::
  "runaway_params \<Rightarrow> RunawayQuarantineReason \<Rightarrow> RunawayGuardState \<Rightarrow> RunawayQuarantineNotification" where
  "incidentNotification p reason state =
     \<lparr>rn_tenantId = ra_tenantId p, rn_pluginId = ra_pluginId p, rn_installationId = ra_installationId p,
      rn_reason = reason, rn_consecutiveFailures = rg_consecutiveFailures state,
      rn_consecutiveTimeouts = rg_consecutiveTimeouts state, rn_emittedAt = ra_at p\<rparr>"

text \<open>
  What follows the recorded outcome: \<open>sinkFails\<close> says for which notifications \<open>publish\<close> raises.
  The result is the reason of the quarantine, if there is one.
\<close>

definition enforceState ::
  "(RunawayQuarantineNotification \<Rightarrow> string option) \<Rightarrow> runaway_params \<Rightarrow> int \<times> int \<Rightarrow> RunawayGuardState \<Rightarrow>
   (runaway_world, string, RunawayQuarantineReason option) step" where
  "enforceState sinkFails p thresholds state w =
     (case (case rg_reason state of Some r \<Rightarrow> Some r | None \<Rightarrow> quarantineReason state thresholds) of
        None \<Rightarrow> (Inr None, w)
      | Some reason \<Rightarrow>
          (case quarantineIfEnabled (ra_installationId p) reason (ra_at p) (rw_db w) of
             (False, db) \<Rightarrow> (Inr (Some reason), w\<lparr>rw_db := db\<rparr>)
           | (True, db) \<Rightarrow>
               (let n = incidentNotification p reason state;
                    w' = \<lparr>rw_db = db, rw_published = rw_published w @ [n]\<rparr>
                in case sinkFails n of None \<Rightarrow> (Inr (Some reason), w') | Some e \<Rightarrow> (Inl e, w'))))"

definition enforceRunawayPolicyAfterExecution ::
  "(RunawayQuarantineNotification \<Rightarrow> string option) \<Rightarrow> runaway_params \<Rightarrow>
   (runaway_world, string, RunawayQuarantineReason option) step" where
  "enforceRunawayPolicyAfterExecution sinkFails p w =
     (case validatePolicy (ra_policy p) of
        Inl e \<Rightarrow> (Inl e, w)
      | Inr thresholds \<Rightarrow>
          (case recordOutcome (ra_installationId p) (ra_outcome p) (ra_at p) (rw_db w) of
             (Inl e, db) \<Rightarrow> (Inl e, w\<lparr>rw_db := db\<rparr>)
           | (Inr state, db) \<Rightarrow> enforceState sinkFails p thresholds state (w\<lparr>rw_db := db\<rparr>)))"

definition recoverRunawayInstallation :: "string \<Rightarrow> int \<Rightarrow> (runaway_world, string, unit) step" where
  "recoverRunawayInstallation i at w =
     (case recoverStatement i at (rw_db w) of
        (False, db) \<Rightarrow> (Inl ''runaway installation recovery failed'', w\<lparr>rw_db := db\<rparr>)
      | (True, db) \<Rightarrow> (Inr (), w\<lparr>rw_db := db\<rparr>))"

section \<open>Interleaved executions\<close>

text \<open>
  Executions complete concurrently: between the statement that records an outcome and the one that
  quarantines, statements of other executions, recoveries and edits of installations may run. A
  pending execution keeps what it read.
\<close>

record runaway_system =
  ry_world :: runaway_world
  ry_pending :: "(runaway_params \<times> (int \<times> int) \<times> RunawayGuardState) list"
  ry_recovered :: "string list"

inductive runaway_step ::
  "(RunawayQuarantineNotification \<Rightarrow> string option) \<Rightarrow> runaway_system \<Rightarrow> runaway_system \<Rightarrow> bool"
  for sinkFails where
  begin_execution:
    "validatePolicy (ra_policy p) = Inr thresholds \<Longrightarrow>
     recordOutcome (ra_installationId p) (ra_outcome p) (ra_at p) (rw_db (ry_world S)) = (Inr state, db) \<Longrightarrow>
     runaway_step sinkFails S (S\<lparr>ry_world := (ry_world S)\<lparr>rw_db := db\<rparr>,
       ry_pending := (p, thresholds, state) # ry_pending S\<rparr>)"
| finish_execution:
    "ry_pending S = before @ (p, thresholds, state) # after \<Longrightarrow>
     enforceState sinkFails p thresholds state (ry_world S) = (res, w') \<Longrightarrow>
     runaway_step sinkFails S (S\<lparr>ry_world := w', ry_pending := before @ after\<rparr>)"
| recover_installation:
    "recoverRunawayInstallation i at (ry_world S) = (Inr (), w') \<Longrightarrow>
     runaway_step sinkFails S (S\<lparr>ry_world := w', ry_recovered := i # ry_recovered S\<rparr>)"
| edit_installations:
    "runaway_step sinkFails S (S\<lparr>ry_world := (ry_world S)\<lparr>rw_db := (rw_db (ry_world S))\<lparr>rd_installations := installations\<rparr>\<rparr>\<rparr>)"

inductive runaway_reachable ::
  "(RunawayQuarantineNotification \<Rightarrow> string option) \<Rightarrow> runaway_system \<Rightarrow> bool"
  for sinkFails where
  initial: "rd_states (rw_db (ry_world S)) = [] \<Longrightarrow> rw_published (ry_world S) = [] \<Longrightarrow> ry_pending S = [] \<Longrightarrow>
     ry_recovered S = [] \<Longrightarrow> runaway_reachable sinkFails S"
| next_step: "runaway_reachable sinkFails S \<Longrightarrow> runaway_step sinkFails S T \<Longrightarrow> runaway_reachable sinkFails T"

definition rowOk :: "RunawayStateRow \<Rightarrow> bool" where
  "rowOk r \<longleftrightarrow> 0 \<le> rr_timeouts r \<and> rr_timeouts r \<le> rr_failures r \<and>
     (rr_quarantined r = 0 \<and> rr_reason r = None \<or>
      rr_quarantined r = 1 \<and> (\<exists>reason. rr_reason r = Some (reason_text reason)))"

definition quarantinedNow :: "runaway_world \<Rightarrow> string \<Rightarrow> bool" where
  "quarantinedNow w i \<longleftrightarrow>
     (case mem_get (rd_states (rw_db w)) i of None \<Rightarrow> False | Some r \<Rightarrow> rr_quarantined r = 1)"

definition rowsOk :: "runaway_world \<Rightarrow> bool" where
  "rowsOk w \<longleftrightarrow> (\<forall>i r. mem_get (rd_states (rw_db w)) i = Some r \<longrightarrow> rowOk r)"

definition incidents :: "runaway_world \<Rightarrow> string \<Rightarrow> nat" where
  "incidents w i = length (filter (\<lambda>n. rn_installationId n = i) (rw_published w))"

definition incidentsMatch :: "runaway_system \<Rightarrow> bool" where
  "incidentsMatch S \<longleftrightarrow>
     (\<forall>i. incidents (ry_world S) i = count_list (ry_recovered S) i + (if quarantinedNow (ry_world S) i then 1 else 0))"

lemma mem_put_get: "mem_get (mem_put i r s) j = (if j = i then Some r else mem_get s j)"
  by (simp add: mem.get_put)

lemma rowOk_outcome:
  "(case existing of None \<Rightarrow> True | Some r \<Rightarrow> rowOk r) \<Longrightarrow> rowOk (outcomeStatement outcome at existing)"
  by (cases existing; cases outcome) (auto simp: outcomeStatement_def rowOk_def)

lemma recordOutcome_effect:
  assumes "recordOutcome i outcome at db = (Inr state, db')"
  shows "db' = db\<lparr>rd_states := mem_put i (outcomeStatement outcome (toISOString at) (mem_get (rd_states db) i)) (rd_states db)\<rparr>"
    "runawayState (outcomeStatement outcome (toISOString at) (mem_get (rd_states db) i)) = Inr state"
  using assms by (auto simp: recordOutcome_def Let_def split: if_splits)

lemma outcome_keeps_quarantine:
  "rr_quarantined (outcomeStatement outcome at existing) = (case existing of None \<Rightarrow> 0 | Some r \<Rightarrow> rr_quarantined r)"
  by (cases existing) (auto simp: outcomeStatement_def)

lemma record_invariant:
  assumes "recordOutcome i outcome at (rw_db w) = (Inr state, db)" "rowsOk w"
  shows "rowsOk (w\<lparr>rw_db := db\<rparr>)" "quarantinedNow (w\<lparr>rw_db := db\<rparr>) j = quarantinedNow w j"
proof -
  have "rowOk (outcomeStatement outcome (toISOString at) (mem_get (rd_states (rw_db w)) i))"
    using assms(2) by (intro rowOk_outcome) (simp add: rowsOk_def split: option.split)
  with assms(2) show "rowsOk (w\<lparr>rw_db := db\<rparr>)"
    unfolding recordOutcome_effect(1) [OF assms(1)] by (simp add: rowsOk_def mem_put_get)
  show "quarantinedNow (w\<lparr>rw_db := db\<rparr>) j = quarantinedNow w j"
    using recordOutcome_effect(1) [OF assms(1)]
    by (simp add: quarantinedNow_def mem_put_get outcome_keeps_quarantine split: option.split)
qed

lemma quarantine_cases:
  assumes "quarantineIfEnabled i reason at db = (b, db')"
  shows "if b then \<exists>r. mem_get (rd_states db) i = Some r \<and> rr_quarantined r = 0 \<and>
             mem_get (rd_states db') = (mem_get (rd_states db))(i \<mapsto>
               r\<lparr>rr_quarantined := 1, rr_reason := Some (reason_text reason), rr_updatedAt := toISOString at\<rparr>) \<and>
             rd_installations db' = setEnabled 0 i (rd_installations db)
         else db' = db"
  using assms by (auto simp: quarantineIfEnabled_def mem.get_put split: option.splits if_splits)

lemma enforce_invariant:
  assumes "enforceState sinkFails p thresholds state w = (res, w')" "rowsOk w"
  shows "rowsOk w'"
    "incidents w' i + (if quarantinedNow w i then 1 else 0) = incidents w i + (if quarantinedNow w' i then 1 else 0)"
proof -
  define pick where "pick = (case rg_reason state of Some r \<Rightarrow> Some r | None \<Rightarrow> quarantineReason state thresholds)"
  show "rowsOk w'"
    "incidents w' i + (if quarantinedNow w i then 1 else 0) = incidents w i + (if quarantinedNow w' i then 1 else 0)"
  proof (atomize(full), cases pick)
    case None
    then show "rowsOk w' \<and>
        incidents w' i + (if quarantinedNow w i then 1 else 0) = incidents w i + (if quarantinedNow w' i then 1 else 0)"
      using assms by (simp add: enforceState_def pick_def [symmetric])
  next
    case (Some reason)
    obtain b db where q: "quarantineIfEnabled (ra_installationId p) reason (ra_at p) (rw_db w) = (b, db)" by fastforce
    note c = quarantine_cases [OF q]
    show "rowsOk w' \<and>
        incidents w' i + (if quarantinedNow w i then 1 else 0) = incidents w i + (if quarantinedNow w' i then 1 else 0)"
    proof (cases b)
      case False
      with c q assms Some show ?thesis by (simp add: enforceState_def pick_def [symmetric])
    next
      case True
      then obtain r where r: "mem_get (rd_states (rw_db w)) (ra_installationId p) = Some r" "rr_quarantined r = 0"
        "mem_get (rd_states db) = (mem_get (rd_states (rw_db w)))(ra_installationId p \<mapsto>
           r\<lparr>rr_quarantined := 1, rr_reason := Some (reason_text reason), rr_updatedAt := toISOString (ra_at p)\<rparr>)"
        using c by auto
      have w': "w' = \<lparr>rw_db = db, rw_published = rw_published w @ [incidentNotification p reason state]\<rparr>"
        using assms(1) q True Some
        by (auto simp: enforceState_def pick_def [symmetric] Let_def split: option.splits)
      have "rowOk (r\<lparr>rr_quarantined := 1, rr_reason := Some (reason_text reason), rr_updatedAt := toISOString (ra_at p)\<rparr>)"
        using assms(2) r(1) by (auto simp: rowsOk_def rowOk_def)
      then show ?thesis using r assms(2)
        by (auto simp: w' rowsOk_def incidents_def incidentNotification_def quarantinedNow_def)
    qed
  qed
qed

lemma recover_effect:
  assumes "recoverRunawayInstallation i at w = (Inr (), w')"
  obtains r where "mem_get (rd_states (rw_db w)) i = Some r" "rr_quarantined r = 1" "rw_published w' = rw_published w"
    "mem_get (rd_states (rw_db w')) = (mem_get (rd_states (rw_db w)))(i \<mapsto>
       \<lparr>rr_failures = 0, rr_timeouts = 0, rr_quarantined = 0, rr_reason = None, rr_updatedAt = toISOString at\<rparr>)"
proof (cases "mem_get (rd_states (rw_db w)) i")
  case None
  with assms show thesis by (simp add: recoverRunawayInstallation_def recoverStatement_def)
next
  case (Some r)
  with assms show thesis
    by (intro that [of r])
      (auto simp: recoverRunawayInstallation_def recoverStatement_def fun_eq_iff mem_put_get split: if_splits)
qed

lemma recover_invariant:
  assumes "recoverRunawayInstallation i at w = (Inr (), w')" "rowsOk w"
  shows "rowsOk w'" "incidents w' j = incidents w j" "quarantinedNow w i"
    "quarantinedNow w' j = (j \<noteq> i \<and> quarantinedNow w j)"
proof -
  obtain r where r: "mem_get (rd_states (rw_db w)) i = Some r" "rr_quarantined r = 1"
    "rw_published w' = rw_published w"
    "mem_get (rd_states (rw_db w')) = (mem_get (rd_states (rw_db w)))(i \<mapsto>
       \<lparr>rr_failures = 0, rr_timeouts = 0, rr_quarantined = 0, rr_reason = None, rr_updatedAt = toISOString at\<rparr>)"
    by (rule recover_effect [OF assms(1)])
  show "rowsOk w'" using assms(2) r(4) by (auto simp: rowsOk_def rowOk_def split: if_splits)
  show "incidents w' j = incidents w j" by (simp add: incidents_def r)
  show "quarantinedNow w i" by (simp add: quarantinedNow_def r)
  show "quarantinedNow w' j = (j \<noteq> i \<and> quarantinedNow w j)" by (simp add: quarantinedNow_def r(4))
qed

lemma step_invariant:
  assumes "runaway_step sinkFails S T" "rowsOk (ry_world S)" "incidentsMatch S"
  shows "rowsOk (ry_world T) \<and> incidentsMatch T"
  using assms(1)
proof (cases rule: runaway_step.cases)
  case (begin_execution p thresholds state db)
  from record_invariant [OF begin_execution(3) assms(2)] assms(3) begin_execution(1)
  show ?thesis by (simp add: incidentsMatch_def incidents_def)
next
  case (finish_execution before p thresholds state after res w')
  have "incidents w' i = count_list (ry_recovered S) i + (if quarantinedNow w' i then 1 else 0)" for i
    using enforce_invariant(2) [OF finish_execution(3) assms(2), of i] assms(3)
    by (auto simp: incidentsMatch_def split: if_splits)
  with enforce_invariant(1) [OF finish_execution(3) assms(2)] finish_execution(1)
  show ?thesis by (simp add: incidentsMatch_def)
next
  case (recover_installation i at w')
  note r = recover_invariant [OF recover_installation(2) assms(2)]
  have "incidents w' j = count_list (i # ry_recovered S) j + (if quarantinedNow w' j then 1 else 0)" for j
    using r(2-4) assms(3) by (auto simp: incidentsMatch_def)
  with r(1) recover_installation(1) show ?thesis by (simp add: incidentsMatch_def)
next
  case (edit_installations installations)
  with assms show ?thesis by (simp add: rowsOk_def incidentsMatch_def incidents_def quarantinedNow_def)
qed

lemma reachable_invariant: "runaway_reachable sinkFails S \<Longrightarrow> rowsOk (ry_world S) \<and> incidentsMatch S"
proof (induction rule: runaway_reachable.induct)
  case (initial S)
  then show ?case by (simp add: rowsOk_def incidentsMatch_def incidents_def quarantinedNow_def mem_get_def)
next
  case (next_step S T)
  then show ?case using step_invariant by blast
qed

section \<open>Incidents\<close>

text \<open>
  C17: However executions, recoveries and edits of installations interleave, and whatever the
  notification sink raises, every incident is notified exactly once: an installation has as many
  notifications as recoveries, and one more while it is quarantined. Stored rows always satisfy the
  CHECK constraints of the table, count no more time-outs than failures, and carry a reason exactly
  while they are quarantined.
\<close>

theorem runaway_one_notification_per_incident:
  assumes "runaway_reachable sinkFails S"
  shows "incidents (ry_world S) i =
      count_list (ry_recovered S) i + (if quarantinedNow (ry_world S) i then 1 else 0) \<and> rowsOk (ry_world S)"
  using reachable_invariant [OF assms] by (simp add: incidentsMatch_def)

definition example_params :: "RunawayExecutionOutcome \<Rightarrow> runaway_params" where
  "example_params outcome =
     \<lparr>ra_installationId = ''i1'', ra_tenantId = ''t1'', ra_pluginId = ''p1'', ra_outcome = outcome,
      ra_policy = \<lparr>rp_consecutiveFailures = NInt 2, rp_consecutiveTimeouts = NInt 2\<rparr>, ra_at = 0\<rparr>"

definition example_world :: runaway_world where
  "example_world =
     \<lparr>rw_db = \<lparr>rd_states = [], rd_installations = [(''i1'', \<lparr>ir_enabled = 1, ir_revision = 1\<rparr>)]\<rparr>,
      rw_published = []\<rparr>"

section \<open>Executions in sequence\<close>

definition failStreak :: "RunawayExecutionOutcome list \<Rightarrow> nat" where
  "failStreak os = length (takeWhile (\<lambda>o'. o' \<noteq> OutcomeSuccess) (rev os))"

definition timeStreak :: "RunawayExecutionOutcome list \<Rightarrow> nat" where
  "timeStreak os = length (takeWhile (\<lambda>o'. o' = OutcomeTimeout) (rev os))"

lemma streaks_snoc [simp]:
  "failStreak [] = 0" "timeStreak [] = 0"
  "failStreak (os @ [out]) = (if out = OutcomeSuccess then 0 else failStreak os + 1)"
  "timeStreak (os @ [out]) = (if out = OutcomeTimeout then timeStreak os + 1 else 0)"
  by (simp_all add: failStreak_def timeStreak_def)

text \<open>Some prefix of the outcomes ends with a streak that reaches its threshold.\<close>

definition streakReached :: "int \<Rightarrow> int \<Rightarrow> RunawayExecutionOutcome list \<Rightarrow> bool" where
  "streakReached f t os \<longleftrightarrow>
     list_ex (\<lambda>k. f \<le> int (failStreak (take k os)) \<or> t \<le> int (timeStreak (take k os))) [0..<Suc (length os)]"

lemma streakReached_Nil: "1 \<le> f \<Longrightarrow> 1 \<le> t \<Longrightarrow> \<not> streakReached f t []"
  by (simp add: streakReached_def)

lemma streakReached_snoc:
  "streakReached f t (os @ [out]) \<longleftrightarrow>
     streakReached f t os \<or> f \<le> int (failStreak (os @ [out])) \<or> t \<le> int (timeStreak (os @ [out]))"
proof -
  define P where "P k \<longleftrightarrow> f \<le> int (failStreak (take k (os @ [out]))) \<or> t \<le> int (timeStreak (take k (os @ [out])))" for k
  have "[0..<Suc (length (os @ [out]))] = [0..<Suc (length os)] @ [Suc (length os)]" by simp
  then have "streakReached f t (os @ [out]) \<longleftrightarrow> list_ex P [0..<Suc (length os)] \<or> P (Suc (length os))"
    unfolding streakReached_def P_def [symmetric] by (auto simp add: list_ex_iff)
  moreover have "list_ex P [0..<Suc (length os)] = streakReached f t os"
    unfolding streakReached_def by (rule list_ex_cong) (auto simp: P_def)
  ultimately show ?thesis by (simp only: P_def) simp
qed

definition runOutcomes ::
  "(RunawayQuarantineNotification \<Rightarrow> string option) \<Rightarrow> runaway_params \<Rightarrow> RunawayExecutionOutcome list \<Rightarrow>
   runaway_world \<Rightarrow> runaway_world" where
  "runOutcomes sinkFails p os w =
     fold (\<lambda>out w. snd (enforceRunawayPolicyAfterExecution sinkFails (p\<lparr>ra_outcome := out\<rparr>) w)) os w"

lemma validatePolicy_bounds:
  "validatePolicy policy = Inr (f, t) \<Longrightarrow> 1 \<le> f \<and> 1 \<le> t"
  by (cases "rp_consecutiveFailures policy"; cases "rp_consecutiveTimeouts policy")
    (auto simp: validatePolicy_def split: if_splits)

text \<open>The quarantine of an open incident and the state it is decided on.\<close>

lemma stored_reason:
  assumes "rowOk r"
  obtains s where "runawayState r = Inr s" "rg_consecutiveFailures s = rr_failures r"
    "rg_consecutiveTimeouts s = rr_timeouts r" "(rg_reason s = None) = (rr_quarantined r = 0)"
proof -
  have "\<exists>s. runawayState r = Inr s \<and> rg_consecutiveFailures s = rr_failures r \<and>
      rg_consecutiveTimeouts s = rr_timeouts r \<and> (rg_reason s = None) = (rr_quarantined r = 0)"
  proof (cases "rr_reason r")
    case None
    with assms show ?thesis by (auto simp: rowOk_def runawayState_def quarantineReasonValue_def)
  next
    case (Some t)
    with assms obtain reason where "t = reason_text reason" "rr_quarantined r = 1" by (auto simp: rowOk_def)
    with Some show ?thesis
      by (cases reason) (simp_all add: runawayState_def quarantineReasonValue_def)
  qed
  then show thesis by (elim exE conjE) (rule that)
qed

definition quarantinedRow :: "RunawayStateRow \<Rightarrow> RunawayQuarantineReason \<Rightarrow> int \<Rightarrow> RunawayStateRow" where
  "quarantinedRow r reason at =
     r\<lparr>rr_quarantined := 1, rr_reason := Some (reason_text reason), rr_updatedAt := toISOString at\<rparr>"

lemma enforce_execution:
  fixes p w
  defines "i \<equiv> ra_installationId p"
  defines "row \<equiv> outcomeStatement (ra_outcome p) (toISOString (ra_at p)) (mem_get (rd_states (rw_db w)) i)"
  assumes "validatePolicy (ra_policy p) = Inr (f, t)" "mem_get (rd_installations (rw_db w)) i = Some inst"
    and "rowsOk w"
  shows "if rr_quarantined row = 0 \<and> (f \<le> rr_failures row \<or> t \<le> rr_timeouts row)
     then \<exists>reason n. rn_installationId n = i \<and>
       snd (enforceRunawayPolicyAfterExecution sinkFails p w) =
         \<lparr>rw_db = \<lparr>rd_states = mem_put i (quarantinedRow row reason (ra_at p)) (mem_put i row (rd_states (rw_db w))),
                  rd_installations = setEnabled 0 i (rd_installations (rw_db w))\<rparr>,
          rw_published = rw_published w @ [n]\<rparr>
     else snd (enforceRunawayPolicyAfterExecution sinkFails p w) =
       w\<lparr>rw_db := (rw_db w)\<lparr>rd_states := mem_put i row (rd_states (rw_db w))\<rparr>\<rparr>"
proof -
  have row: "rowOk row"
    using assms(5) unfolding row_def by (intro rowOk_outcome) (simp add: rowsOk_def split: option.split)
  then obtain s where s: "runawayState row = Inr s" "rg_consecutiveFailures s = rr_failures row"
    "rg_consecutiveTimeouts s = rr_timeouts row" "(rg_reason s = None) = (rr_quarantined row = 0)"
    by (rule stored_reason)
  let ?db = "(rw_db w)\<lparr>rd_states := mem_put i row (rd_states (rw_db w))\<rparr>"
  have run: "enforceRunawayPolicyAfterExecution sinkFails p w = enforceState sinkFails p (f, t) s (w\<lparr>rw_db := ?db\<rparr>)"
    using assms(3,4) s(1)
    by (simp add: enforceRunawayPolicyAfterExecution_def recordOutcome_def Let_def row_def i_def)
  have get: "mem_get (rd_states ?db) i = Some row" by (simp add: mem_put_get)
  show ?thesis
  proof (cases "rr_quarantined row = 0")
    case False
    with s(4) obtain reason where "rg_reason s = Some reason" by auto
    with False get show ?thesis by (simp add: run enforceState_def quarantineIfEnabled_def i_def)
  next
    case True
    with s have none: "rg_reason s = None" by simp
    show ?thesis
    proof (cases "quarantineReason s (f, t)")
      case None
      with none s show ?thesis by (auto simp: run enforceState_def quarantineReason_def split: if_splits)
    next
      case (Some reason)
      then have "f \<le> rr_failures row \<or> t \<le> rr_timeouts row"
        using s by (auto simp: quarantineReason_def split: if_splits)
      moreover have "snd (enforceState sinkFails p (f, t) s (w\<lparr>rw_db := ?db\<rparr>)) =
         \<lparr>rw_db = \<lparr>rd_states = mem_put i (quarantinedRow row reason (ra_at p)) (mem_put i row (rd_states (rw_db w))),
                  rd_installations = setEnabled 0 i (rd_installations (rw_db w))\<rparr>,
          rw_published = rw_published w @ [incidentNotification p reason s]\<rparr>"
        using Some none True get
        by (simp add: enforceState_def quarantineIfEnabled_def i_def Let_def quarantinedRow_def split: option.split)
      ultimately show ?thesis
        using True by (auto simp: run incidentNotification_def i_def)
    qed
  qed
qed

text \<open>The state of an installation that executed \<open>os\<close> and was never recovered.\<close>

definition executedState :: "int \<Rightarrow> int \<Rightarrow> string \<Rightarrow> RunawayExecutionOutcome list \<Rightarrow> runaway_world \<Rightarrow> bool" where
  "executedState f t i os w \<longleftrightarrow> rowsOk w \<and>
     (case mem_get (rd_states (rw_db w)) i of
        None \<Rightarrow> os = []
      | Some r \<Rightarrow> rr_failures r = int (failStreak os) \<and> rr_timeouts r = int (timeStreak os) \<and>
          rr_quarantined r = (if streakReached f t os then 1 else 0)) \<and>
     incidents w i = (if streakReached f t os then 1 else 0) \<and>
     map_option ir_enabled (mem_get (rd_installations (rw_db w)) i) = Some (if streakReached f t os then 0 else 1)"

lemma executedState_step:
  assumes "validatePolicy (ra_policy p) = Inr (f, t)" "executedState f t (ra_installationId p) os w"
  shows "executedState f t (ra_installationId p) (os @ [out])
    (snd (enforceRunawayPolicyAfterExecution sinkFails (p\<lparr>ra_outcome := out\<rparr>) w))"
proof -
  define i where "i = ra_installationId p"
  define row where "row = outcomeStatement out (toISOString (ra_at p)) (mem_get (rd_states (rw_db w)) i)"
  note ok = assms(2) [folded i_def, unfolded executedState_def]
  from ok obtain inst where inst: "mem_get (rd_installations (rw_db w)) i = Some inst"
    "ir_enabled inst = (if streakReached f t os then 0 else 1)" by auto
  have ft: "1 \<le> f" "1 \<le> t" using validatePolicy_bounds [OF assms(1)] by auto
  have "rr_failures row = int (failStreak (os @ [out])) \<and> rr_timeouts row = int (timeStreak (os @ [out])) \<and>
    rr_quarantined row = (if streakReached f t os then 1 else 0)"
    using ok streakReached_Nil [OF ft]
    by (cases "mem_get (rd_states (rw_db w)) i"; cases out) (simp_all add: row_def outcomeStatement_def failStreak_def timeStreak_def)
  then have row: "rr_failures row = int (failStreak (os @ [out]))" "rr_timeouts row = int (timeStreak (os @ [out]))"
    "rr_quarantined row = (if streakReached f t os then 1 else 0)" by blast+
  have rowok: "rowOk row"
    using ok unfolding row_def by (intro rowOk_outcome) (simp add: rowsOk_def split: option.split)
  let ?w' = "snd (enforceRunawayPolicyAfterExecution sinkFails (p\<lparr>ra_outcome := out\<rparr>) w)"
  have run: "if rr_quarantined row = 0 \<and> (f \<le> rr_failures row \<or> t \<le> rr_timeouts row)
     then \<exists>reason n. rn_installationId n = i \<and> ?w' =
         \<lparr>rw_db = \<lparr>rd_states = mem_put i (quarantinedRow row reason (ra_at p)) (mem_put i row (rd_states (rw_db w))),
                  rd_installations = setEnabled 0 i (rd_installations (rw_db w))\<rparr>,
          rw_published = rw_published w @ [n]\<rparr>
     else ?w' = w\<lparr>rw_db := (rw_db w)\<lparr>rd_states := mem_put i row (rd_states (rw_db w))\<rparr>\<rparr>"
    using enforce_execution [of "p\<lparr>ra_outcome := out\<rparr>" f t w inst sinkFails] assms(1) inst(1) conjunct1 [OF ok]
    by (simp add: i_def row_def cong: if_cong split del: if_split)
  show ?thesis
  proof (cases "streakReached f t (os @ [out]) \<and> \<not> streakReached f t os")
    case True
    then have "f \<le> rr_failures row \<or> t \<le> rr_timeouts row" "rr_quarantined row = 0"
      using row by (auto simp: streakReached_snoc simp del: streaks_snoc)
    with run obtain reason n where n: "rn_installationId n = i"
      and w': "snd (enforceRunawayPolicyAfterExecution sinkFails (p\<lparr>ra_outcome := out\<rparr>) w) =
         \<lparr>rw_db = \<lparr>rd_states = mem_put i (quarantinedRow row reason (ra_at p)) (mem_put i row (rd_states (rw_db w))),
                  rd_installations = setEnabled 0 i (rd_installations (rw_db w))\<rparr>,
          rw_published = rw_published w @ [n]\<rparr>" by auto
    have "rowOk (quarantinedRow row reason (ra_at p))" using rowok by (auto simp: rowOk_def quarantinedRow_def)
    then show ?thesis
      using ok True row n inst unfolding w' i_def [symmetric] executedState_def
      by (auto simp: rowsOk_def mem_put_get incidents_def quarantinedRow_def setEnabled_def)
  next
    case False
    then have same: "streakReached f t (os @ [out]) = streakReached f t os" by (auto simp: streakReached_snoc)
    then have "\<not> (rr_quarantined row = 0 \<and> (f \<le> rr_failures row \<or> t \<le> rr_timeouts row))"
      using row by (auto simp: streakReached_snoc simp del: streaks_snoc)
    with run have w': "snd (enforceRunawayPolicyAfterExecution sinkFails (p\<lparr>ra_outcome := out\<rparr>) w) =
       w\<lparr>rw_db := (rw_db w)\<lparr>rd_states := mem_put i row (rd_states (rw_db w))\<rparr>\<rparr>" by auto
    show ?thesis
      using ok row rowok same unfolding w' i_def [symmetric] executedState_def
      by (auto simp: rowsOk_def mem_put_get incidents_def)
  qed
qed

lemma executedState_run:
  assumes "validatePolicy (ra_policy p) = Inr (f, t)" "executedState f t (ra_installationId p) [] w"
  shows "executedState f t (ra_installationId p) os (runOutcomes sinkFails p os w)"
proof (induction os rule: rev_induct)
  case Nil
  then show ?case using assms(2) by (simp add: runOutcomes_def)
next
  case (snoc out os)
  then show ?case using executedState_step [OF assms(1)] by (simp add: runOutcomes_def)
qed

text \<open>
  An enabled installation without history that executes \<open>os\<close> one after another is quarantined
  exactly when some prefix of the outcomes ends with \<open>f\<close> consecutive failures (errors or time-outs)
  or \<open>t\<close> consecutive time-outs, the thresholds of the policy. It is then disabled, and one
  notification was handed to the sink, however many executions complete later and whether or not
  the sink raised; otherwise it stays enabled and nothing is notified.
\<close>

theorem runaway_quarantine_streaks:
  assumes "validatePolicy (ra_policy p) = Inr (f, t)" "rowsOk w"
    and "mem_get (rd_states (rw_db w)) (ra_installationId p) = None" "incidents w (ra_installationId p) = 0"
    and "map_option ir_enabled (mem_get (rd_installations (rw_db w)) (ra_installationId p)) = Some 1"
  shows "let w' = runOutcomes sinkFails p os w; quarantined = streakReached f t os in
     quarantinedNow w' (ra_installationId p) = quarantined \<and>
     incidents w' (ra_installationId p) = (if quarantined then 1 else 0) \<and>
     map_option ir_enabled (mem_get (rd_installations (rw_db w')) (ra_installationId p)) =
       Some (if quarantined then 0 else 1)"
proof -
  have ft: "1 \<le> f" "1 \<le> t" using validatePolicy_bounds [OF assms(1)] by auto
  have "executedState f t (ra_installationId p) [] w"
    using assms streakReached_Nil [OF ft] by (simp add: executedState_def)
  from executedState_run [OF assms(1) this, of os sinkFails] streakReached_Nil [OF ft]
  show ?thesis by (auto simp: executedState_def Let_def quarantinedNow_def split: option.splits)
qed

lemma example_policy: "validatePolicy (ra_policy (example_params out)) = Inr (2, 2)"
  by (simp add: example_params_def validatePolicy_def is_safe_integer_def max_safe_integer_def)

theorem runaway_quarantine_streaks_witness:
  "let os = [OutcomeError, OutcomeSuccess, OutcomeTimeout, OutcomeError, OutcomeSuccess];
       w' = runOutcomes (\<lambda>_. None) (example_params OutcomeError) os example_world
   in quarantinedNow w' ''i1'' \<and> incidents w' ''i1'' = 1"
proof -
  have "streakReached 2 2 [OutcomeError, OutcomeSuccess, OutcomeTimeout, OutcomeError, OutcomeSuccess]"
    by code_simp
  moreover have "ra_installationId (example_params OutcomeError) = ''i1''" by (simp add: example_params_def)
  moreover have "rowsOk example_world" "mem_get (rd_states (rw_db example_world)) ''i1'' = None"
    "incidents example_world ''i1'' = 0"
    "map_option ir_enabled (mem_get (rd_installations (rw_db example_world)) ''i1'') = Some 1"
    by (simp_all add: example_world_def rowsOk_def mem_get_def incidents_def)
  ultimately show ?thesis
    using runaway_quarantine_streaks [OF example_policy [of OutcomeError], of example_world "\<lambda>_. None"
      "[OutcomeError, OutcomeSuccess, OutcomeTimeout, OutcomeError, OutcomeSuccess]"]
    by (simp add: Let_def)
qed

section \<open>A recovery between the statements\<close>

text \<open>
  Three failing executions overlap and the last of them quarantines the installation. After a manual
  recovery, which resets the counters, the pending completion of the second still carries the
  counters it read and quarantines the installation again although no execution failed since.
\<close>

definition example_system :: "RunawayStateRow list \<Rightarrow> installation_row \<Rightarrow> int list \<Rightarrow> int list \<Rightarrow> string list \<Rightarrow> runaway_system" where
  "example_system row inst notified pending recovered =
     (let state = (\<lambda>k. \<lparr>rg_consecutiveFailures = k, rg_consecutiveTimeouts = 0, rg_quarantined = False, rg_reason = None\<rparr>);
          p = example_params OutcomeError
      in \<lparr>ry_world = \<lparr>rw_db = \<lparr>rd_states = map (Pair ''i1'') row, rd_installations = [(''i1'', inst)]\<rparr>,
                      rw_published = map (\<lambda>k. incidentNotification p ConsecutiveFailures (state k)) notified\<rparr>,
          ry_pending = map (\<lambda>k. (p, (2, 2), state k)) pending, ry_recovered = recovered\<rparr>)"

definition example_row :: "int \<Rightarrow> int \<Rightarrow> string option \<Rightarrow> RunawayStateRow" where
  "example_row f q reason =
     \<lparr>rr_failures = f, rr_timeouts = 0, rr_quarantined = q, rr_reason = reason, rr_updatedAt = toISOString 0\<rparr>"

lemmas example_defs = example_system_def example_row_def Let_def recordOutcome_def outcomeStatement_def
  runawayState_def quarantineReasonValue_def mem_get_def mem_put_def

lemma example_begin:
  assumes "runaway_reachable sinkFails (example_system rows inst notified pending recovered)"
    and "rows = [] \<and> k = 1 \<or> rows = [example_row (k - 1) 0 None]"
  shows "runaway_reachable sinkFails (example_system [example_row k 0 None] inst notified (k # pending) recovered)"
proof -
  let ?S = "example_system rows inst notified pending recovered"
  let ?db = "(rw_db (ry_world ?S))\<lparr>rd_states := [(''i1'', example_row k 0 None)]\<rparr>"
  let ?s = "\<lparr>rg_consecutiveFailures = k, rg_consecutiveTimeouts = 0, rg_quarantined = False, rg_reason = None\<rparr>"
  have "recordOutcome (ra_installationId (example_params OutcomeError)) (ra_outcome (example_params OutcomeError))
      (ra_at (example_params OutcomeError)) (rw_db (ry_world ?S)) = (Inr ?s, ?db)"
    using assms(2) by (auto simp: example_defs example_params_def)
  from begin_execution [where sinkFails = sinkFails, OF example_policy this] assms(1)
  have "runaway_reachable sinkFails (?S\<lparr>ry_world := (ry_world ?S)\<lparr>rw_db := ?db\<rparr>,
      ry_pending := (example_params OutcomeError, (2, 2), ?s) # ry_pending ?S\<rparr>)"
    by (rule runaway_reachable.next_step [rotated])
  then show ?thesis by (simp add: example_system_def Let_def)
qed

lemma example_finish:
  assumes "runaway_reachable sinkFails (example_system [example_row f 0 None] \<lparr>ir_enabled = 1, ir_revision = rev'\<rparr>
      notified (k # pending) recovered)" "2 \<le> k"
  shows "runaway_reachable sinkFails (example_system [example_row f 1 (Some ''consecutive_failures'')]
      \<lparr>ir_enabled = 0, ir_revision = rev' + 1\<rparr> (notified @ [k]) pending recovered)"
proof -
  let ?S = "example_system [example_row f 0 None] \<lparr>ir_enabled = 1, ir_revision = rev'\<rparr> notified (k # pending) recovered"
  let ?T = "example_system [example_row f 1 (Some ''consecutive_failures'')]
      \<lparr>ir_enabled = 0, ir_revision = rev' + 1\<rparr> (notified @ [k]) pending recovered"
  let ?s = "\<lparr>rg_consecutiveFailures = k, rg_consecutiveTimeouts = 0, rg_quarantined = False, rg_reason = None\<rparr>"
  have pend: "ry_pending ?S = [] @ (example_params OutcomeError, (2, 2), ?s) # ry_pending ?T"
    by (simp add: example_system_def Let_def)
  have "snd (enforceState sinkFails (example_params OutcomeError) (2, 2) ?s (ry_world ?S)) = ry_world ?T"
    using assms(2)
    by (simp add: enforceState_def quarantineReason_def quarantineIfEnabled_def setEnabled_def example_defs
        example_params_def split: option.split)
  then obtain res where "enforceState sinkFails (example_params OutcomeError) (2, 2) ?s (ry_world ?S) = (res, ry_world ?T)"
    by (metis prod.collapse)
  from finish_execution [OF pend this] assms(1)
  have "runaway_reachable sinkFails (?S\<lparr>ry_world := ry_world ?T, ry_pending := [] @ ry_pending ?T\<rparr>)"
    by (rule runaway_reachable.next_step [rotated])
  then show ?thesis by (simp add: example_system_def Let_def)
qed

lemma example_recover:
  assumes "runaway_reachable sinkFails (example_system [example_row f 1 reason] \<lparr>ir_enabled = 0, ir_revision = rev'\<rparr>
      notified pending recovered)"
  shows "runaway_reachable sinkFails (example_system [example_row 0 0 None] \<lparr>ir_enabled = 1, ir_revision = rev' + 1\<rparr>
      notified pending (''i1'' # recovered))"
proof -
  let ?S = "example_system [example_row f 1 reason] \<lparr>ir_enabled = 0, ir_revision = rev'\<rparr> notified pending recovered"
  let ?T = "example_system [example_row 0 0 None] \<lparr>ir_enabled = 1, ir_revision = rev' + 1\<rparr> notified pending (''i1'' # recovered)"
  have "recoverRunawayInstallation ''i1'' 0 (ry_world ?S) = (Inr (), ry_world ?T)"
    by (simp add: recoverRunawayInstallation_def recoverStatement_def setEnabled_def example_defs)
  from recover_installation [OF this] assms
  have "runaway_reachable sinkFails (?S\<lparr>ry_world := ry_world ?T, ry_recovered := ''i1'' # ry_recovered ?S\<rparr>)"
    by (rule runaway_reachable.next_step [rotated])
  then show ?thesis by (simp add: example_system_def Let_def)
qed

lemma example_recovered:
  "runaway_reachable (\<lambda>_. None) (example_system [example_row 0 0 None] \<lparr>ir_enabled = 1, ir_revision = 3\<rparr> [3] [2, 1] [''i1''])"
proof -
  have "runaway_reachable (\<lambda>_. None) (example_system [] \<lparr>ir_enabled = 1, ir_revision = 1\<rparr> [] [] [])"
    by (rule runaway_reachable.initial) (simp_all add: example_system_def Let_def)
  from example_recover [OF example_finish [OF example_begin [OF example_begin [OF example_begin [OF this]]]]]
  show ?thesis by simp
qed

theorem runaway_stale_requarantine:
  "\<exists>S T p thresholds state before after res.
     runaway_reachable (\<lambda>_. None) S \<and> \<not> quarantinedNow (ry_world S) ''i1'' \<and>
     map_option rr_failures (mem_get (rd_states (rw_db (ry_world S))) ''i1'') = Some 0 \<and>
     ry_pending S = before @ (p, thresholds, state) # after \<and>
     enforceState (\<lambda>_. None) p thresholds state (ry_world S) = (res, ry_world T) \<and>
     runaway_reachable (\<lambda>_. None) T \<and> quarantinedNow (ry_world T) ''i1''"
proof -
  let ?S = "example_system [example_row 0 0 None] \<lparr>ir_enabled = 1, ir_revision = 3\<rparr> [3] [2, 1] [''i1'']"
  let ?T = "example_system [example_row 0 1 (Some ''consecutive_failures'')] \<lparr>ir_enabled = 0, ir_revision = 4\<rparr> [3, 2] [1] [''i1'']"
  have T: "runaway_reachable (\<lambda>_. None) ?T" using example_finish [OF example_recovered] by simp
  have "ry_pending ?S = [] @ hd (ry_pending ?S) # tl (ry_pending ?S)"
    and "enforceState (\<lambda>_. None) (fst (hd (ry_pending ?S))) (fst (snd (hd (ry_pending ?S)))) (snd (snd (hd (ry_pending ?S))))
      (ry_world ?S) = (Inr (Some ConsecutiveFailures), ry_world ?T)"
    by (simp_all add: enforceState_def quarantineReason_def quarantineIfEnabled_def setEnabled_def example_defs
        example_params_def)
  moreover have "\<not> quarantinedNow (ry_world ?S) ''i1''" "quarantinedNow (ry_world ?T) ''i1''"
    "map_option rr_failures (mem_get (rd_states (rw_db (ry_world ?S))) ''i1'') = Some 0"
    by (simp_all add: quarantinedNow_def example_system_def example_row_def Let_def mem_get_def)
  ultimately show ?thesis using example_recovered T
    by (metis prod.collapse)
qed

theorem runaway_one_notification_per_incident_witness:
  "incidents (ry_world (example_system [example_row 0 0 None] \<lparr>ir_enabled = 1, ir_revision = 3\<rparr> [3] [2, 1] [''i1''])) ''i1'' = 1"
  using runaway_one_notification_per_incident [OF example_recovered, of "''i1''"]
  by (simp add: quarantinedNow_def example_system_def example_row_def Let_def mem_get_def)

end
