(* ===== verification/CpMutationLimit.thy ===== *)
theory CpMutationLimit
  imports CapLimiter JsNumber JsonText
begin

text \<open>
  \<open>packages/control-plane/src/admin-mutation-rate-limit.ts\<close> with the Durable Object of
  \<open>worker-entry.ts\<close> that holds a bucket: the fixed-window limit on administrative mutations. The
  namespace of Durable Objects is a keyed storage with one record per bucket identifier; a
  reservation is one step of it, as \<open>blockConcurrencyWhile\<close> and the transaction make it. Arguments
  of the model: \<open>digest\<close> (SHA-256 in hexadecimal), \<open>ieeeAdd\<close> and \<open>ieeeSeconds\<close>, the IEEE
  operations on numbers that are no safe integers.
\<close>

section \<open>The fixed window\<close>

record FixedWindowRecord =
  fw_windowStartedAt :: jsnum
  fw_count :: int

definition evaluateFixedWindowReservation ::
  "(jsnum \<Rightarrow> jsnum \<Rightarrow> jsnum) \<Rightarrow> FixedWindowRecord option \<Rightarrow> jsnum \<Rightarrow> int \<Rightarrow> int \<Rightarrow> FixedWindowRecord \<times> int" where
  "evaluateFixedWindowReservation ieeeAdd current nowMs windowMs limit =
     (case current of
        None \<Rightarrow> (\<lparr>fw_windowStartedAt = nowMs, fw_count = 1\<rparr>, 1)
      | Some c \<Rightarrow>
          if num_gt (fw_windowStartedAt c) nowMs \<or>
             num_ge nowMs (num_add ieeeAdd (fw_windowStartedAt c) (NInt windowMs))
          then (\<lparr>fw_windowStartedAt = nowMs, fw_count = 1\<rparr>, 1)
          else if limit \<le> fw_count c then (c, limit + 1)
          else (c\<lparr>fw_count := fw_count c + 1\<rparr>, fw_count c + 1))"

section \<open>The Durable Object\<close>

record rate_limit_request =
  rq_isPost :: bool
  rq_pathname :: string
  rq_json :: "jsval option"  \<comment> \<open>\<open>None\<close>: \<open>request.json()\<close> rejects\<close>

record rate_limit_response =
  rs_status :: int
  rs_json :: "jsval option"

fun safeIntegerValue :: "jsval \<Rightarrow> int option" where
  "safeIntegerValue (JNum (NInt i)) = (if is_safe_integer i then Some i else None)"
| "safeIntegerValue _ = None"

fun finiteValue :: "jsval \<Rightarrow> jsnum option" where
  "finiteValue (JNum n) = (if num_is_finite n then Some n else None)"
| "finiteValue _ = None"

text \<open>The fields of an accepted input: \<open>nowMs\<close>, \<open>windowMs\<close> and \<open>limit\<close>.\<close>

definition isRateLimitReservationInput :: "jsval \<Rightarrow> (jsnum \<times> int \<times> int) option" where
  "isRateLimitReservationInput v =
     (if \<not> isRecord v \<or> length (own_keys v) \<noteq> 3 then None
      else (case (finiteValue (js_get v ''nowMs''), safeIntegerValue (js_get v ''windowMs''),
                  safeIntegerValue (js_get v ''limit'')) of
              (Some now, Some w, Some l) \<Rightarrow>
                if 1000 \<le> w \<and> w \<le> 86400000 \<and> 1 \<le> l \<and> l \<le> 10000 then Some (now, w, l) else None
            | _ \<Rightarrow> None))"

definition fetchReservation ::
  "('s \<Rightarrow> string \<Rightarrow> FixedWindowRecord option) \<Rightarrow> (string \<Rightarrow> FixedWindowRecord \<Rightarrow> 's \<Rightarrow> 's) \<Rightarrow>
   (jsnum \<Rightarrow> jsnum \<Rightarrow> jsnum) \<Rightarrow> string \<Rightarrow> rate_limit_request \<Rightarrow> 's \<Rightarrow> rate_limit_response \<times> 's" where
  "fetchReservation get put ieeeAdd bucket request s =
     (if \<not> rq_isPost request \<or> rq_pathname request \<noteq> ''/reserve'' then (\<lparr>rs_status = 404, rs_json = None\<rparr>, s)
      else (case rq_json request of
              None \<Rightarrow> (\<lparr>rs_status = 500, rs_json = None\<rparr>, s)
            | Some v \<Rightarrow>
                (case isRateLimitReservationInput v of
                   None \<Rightarrow> (\<lparr>rs_status = 400, rs_json = None\<rparr>, s)
                 | Some (now, w, l) \<Rightarrow>
                     (let e = evaluateFixedWindowReservation ieeeAdd (get s bucket) now w l
                      in (\<lparr>rs_status = 200, rs_json = Some (JObj PlainObj
                             [(''count'', JNum (NInt (snd e))),
                              (''windowStartedAt'', JNum (fw_windowStartedAt (fst e)))])\<rparr>,
                          put bucket (fst e) s)))))"

section \<open>The store\<close>

definition isReservationResponse :: "jsval \<Rightarrow> (int \<times> jsnum) option" where
  "isReservationResponse v =
     (if isRecord v
      then (case (safeIntegerValue (js_get v ''count''), finiteValue (js_get v ''windowStartedAt'')) of
              (Some c, Some t) \<Rightarrow> Some (c, t) | _ \<Rightarrow> None)
      else None)"

text \<open>
  The body \<open>{nowMs, windowMs, limit}\<close> reaches the object through its JSON text, which keeps finite
  numbers; the response comes back the same way.
\<close>

definition storeReserve ::
  "('s \<Rightarrow> string \<Rightarrow> FixedWindowRecord option) \<Rightarrow> (string \<Rightarrow> FixedWindowRecord \<Rightarrow> 's \<Rightarrow> 's) \<Rightarrow>
   (jsnum \<Rightarrow> jsnum \<Rightarrow> jsnum) \<Rightarrow> string \<Rightarrow> int \<Rightarrow> int \<Rightarrow> int \<Rightarrow> ('s, string, int \<times> jsnum) step" where
  "storeReserve get put ieeeAdd bucketId nowMs windowMs limit s =
     (case fetchReservation get put ieeeAdd bucketId
             \<lparr>rq_isPost = True, rq_pathname = ''/reserve'',
              rq_json = Some (JObj PlainObj [(''nowMs'', JNum (NInt nowMs)), (''windowMs'', JNum (NInt windowMs)),
                                             (''limit'', JNum (NInt limit))])\<rparr> s of
        (response, s') \<Rightarrow>
          if rs_status response < 200 \<or> 300 \<le> rs_status response
          then (Inl ''Admin mutation rate limit store unavailable'', s')
          else (case rs_json response of
                  None \<Rightarrow> (Inl ''Unexpected end of JSON input'', s')
                | Some v \<Rightarrow>
                    (case isReservationResponse v of
                       None \<Rightarrow> (Inl ''Admin mutation rate limit store returned an invalid response'', s')
                     | Some r \<Rightarrow> (Inr r, s'))))"

section \<open>The limiter\<close>

datatype AdminMutationFamily =
    InstallationCommand | InstallationCreate | InstallationRequest | ProviderOauthStart | Rollback
  | ApprovalDecisionFamily | ServiceTokenIssue | ServiceTokenRevoke

fun family_text :: "AdminMutationFamily \<Rightarrow> string" where
  "family_text InstallationCommand = ''installation-command''"
| "family_text InstallationCreate = ''installation-create''"
| "family_text InstallationRequest = ''installation-request''"
| "family_text ProviderOauthStart = ''provider-oauth-start''"
| "family_text Rollback = ''rollback''"
| "family_text ApprovalDecisionFamily = ''approval-decision''"
| "family_text ServiceTokenIssue = ''service-token-issue''"
| "family_text ServiceTokenRevoke = ''service-token-revoke''"

record AdminMutationRateLimitRequest =
  ml_appId :: string
  ml_tenantId :: string
  ml_actor :: string
  ml_family :: AdminMutationFamily

datatype AdminMutationRateLimitResult = MutationAllowed int | MutationRefused int

definition configuration_error :: string where
  "configuration_error = ''Invalid admin mutation rate limit configuration''"

fun boundedInteger :: "int \<Rightarrow> jsnum \<Rightarrow> int option" where
  "boundedInteger most (NInt i) = (if is_safe_integer i \<and> 1 \<le> i \<and> i \<le> most then Some i else None)"
| "boundedInteger most _ = None"

text \<open>The limit and the window in seconds of a safe configuration.\<close>

definition assertSafeConfiguration :: "jsnum \<Rightarrow> jsnum \<Rightarrow> (string, int \<times> int) outcome" where
  "assertSafeConfiguration limit windowSeconds =
     (case (boundedInteger 10000 limit, boundedInteger 86400 windowSeconds) of
        (Some l, Some w) \<Rightarrow> Inr (l, w)
      | _ \<Rightarrow> Inl configuration_error)"

definition parseBoundedInteger :: "string option \<Rightarrow> int \<Rightarrow> (string, int) outcome" where
  "parseBoundedInteger text' fallback =
     (case text' of
        None \<Rightarrow> Inr fallback
      | Some t \<Rightarrow>
          if t \<noteq> [] \<and> hd t \<noteq> CHR ''0'' \<and> list_all is_digit t
          then (let parsed = int (read_nat t) in if is_safe_integer parsed then Inr parsed else Inl configuration_error)
          else Inl configuration_error)"

definition parseAdminMutationRateLimitConfiguration ::
  "string option \<Rightarrow> string option \<Rightarrow> (string, int \<times> int) outcome" where
  "parseAdminMutationRateLimitConfiguration limit windowSeconds =
     bindE (parseBoundedInteger limit 20) (\<lambda>l. bindE (parseBoundedInteger windowSeconds 60) (\<lambda>w.
       assertSafeConfiguration (NInt l) (NInt w)))"

definition rateLimitBucketId :: "(string \<Rightarrow> string) \<Rightarrow> AdminMutationRateLimitRequest \<Rightarrow> string" where
  "rateLimitBucketId digest q =
     digest (json_strings [ml_appId q, ml_tenantId q, ml_actor q, family_text (ml_family q)])"

text \<open>\<open>Math.ceil(ms / 1000)\<close>\<close>

definition secondsUp :: "(jsnum \<Rightarrow> int) \<Rightarrow> jsnum \<Rightarrow> int" where
  "secondsUp ieeeSeconds ms = (case ms of NInt i \<Rightarrow> - ((- i) div 1000) | _ \<Rightarrow> ieeeSeconds ms)"

definition reserveMutation ::
  "(string \<Rightarrow> string) \<Rightarrow> (jsnum \<Rightarrow> jsnum \<Rightarrow> jsnum) \<Rightarrow> (jsnum \<Rightarrow> int) \<Rightarrow>
   (string \<Rightarrow> int \<Rightarrow> int \<Rightarrow> int \<Rightarrow> ('s, string, int \<times> jsnum) step) \<Rightarrow> int \<Rightarrow> int \<Rightarrow>
   int option \<Rightarrow> AdminMutationRateLimitRequest \<Rightarrow> ('s, string, AdminMutationRateLimitResult) step" where
  "reserveMutation digest ieeeAdd ieeeSeconds reserve limit windowSeconds clock q s =
     (case clock of
        None \<Rightarrow> (Inl ''Admin mutation rate limit clock unavailable'', s)
      | Some nowMs \<Rightarrow>
          (let windowMs = windowSeconds * 1000 in
           case reserve (rateLimitBucketId digest q) nowMs windowMs limit s of
             (Inl e, s') \<Rightarrow> (Inl e, s')
           | (Inr (count, started), s') \<Rightarrow>
               if \<not> is_safe_integer count \<or> count < 1
               then (Inl ''Admin mutation rate limit store returned an invalid count'', s')
               else if \<not> num_is_finite started \<or> num_gt started (NInt nowMs)
               then (Inl ''Admin mutation rate limit store returned an invalid window'', s')
               else if count \<le> limit then (Inr (MutationAllowed (limit - count)), s')
               else (Inr (MutationRefused (max 1 (secondsUp ieeeSeconds
                      (num_add ieeeAdd (num_add ieeeAdd started (NInt windowMs)) (NInt (- nowMs)))))), s')))"

definition createAdminMutationRateLimiter ::
  "(string \<Rightarrow> string) \<Rightarrow> (jsnum \<Rightarrow> jsnum \<Rightarrow> jsnum) \<Rightarrow> (jsnum \<Rightarrow> int) \<Rightarrow>
   (string \<Rightarrow> int \<Rightarrow> int \<Rightarrow> int \<Rightarrow> ('s, string, int \<times> jsnum) step) \<Rightarrow> jsnum \<Rightarrow> jsnum \<Rightarrow>
   (string, int option \<Rightarrow> AdminMutationRateLimitRequest \<Rightarrow> ('s, string, AdminMutationRateLimitResult) step) outcome" where
  "createAdminMutationRateLimiter digest ieeeAdd ieeeSeconds reserve limit windowSeconds =
     bindE (assertSafeConfiguration limit windowSeconds) (\<lambda>(l, w).
       Inr (reserveMutation digest ieeeAdd ieeeSeconds reserve l w))"

section \<open>Windows at integer times\<close>

text \<open>The times of \<open>Date\<close> objects.\<close>

definition valid_time :: "int \<Rightarrow> bool" where
  "valid_time t \<longleftrightarrow> - 8640000000000000 \<le> t \<and> t \<le> 8640000000000000"

definition window_start :: "FixedWindowRecord \<Rightarrow> int option" where
  "window_start c = (case fw_windowStartedAt c of NInt t \<Rightarrow> Some t | _ \<Rightarrow> None)"

definition window_ok :: "FixedWindowRecord option \<Rightarrow> bool" where
  "window_ok current \<longleftrightarrow>
     (case current of
        None \<Rightarrow> True
      | Some c \<Rightarrow> 1 \<le> fw_count c \<and> fw_count c \<le> 10000 \<and>
          (case window_start c of Some t \<Rightarrow> valid_time t | None \<Rightarrow> False))"

definition configured :: "int \<Rightarrow> int \<Rightarrow> bool" where
  "configured l w \<longleftrightarrow> 1 \<le> l \<and> l \<le> 10000 \<and> 1000 \<le> w \<and> w \<le> 86400000"

lemma window_okE:
  assumes "window_ok (Some c)"
  obtains t n where "c = \<lparr>fw_windowStartedAt = NInt t, fw_count = n\<rparr>" "valid_time t" "1 \<le> n" "n \<le> 10000"
  using assms by (cases c) (auto simp: window_ok_def window_start_def split: jsnum.splits)

lemma window_ok_Some [simp]:
  "window_ok (Some \<lparr>fw_windowStartedAt = NInt t, fw_count = n\<rparr>) \<longleftrightarrow> valid_time t \<and> 1 \<le> n \<and> n \<le> 10000"
  by (auto simp: window_ok_def window_start_def)

lemma window_ok_None [simp]: "window_ok None"
  by (simp add: window_ok_def)

lemma valid_time_sum: "valid_time t \<Longrightarrow> configured l w \<Longrightarrow> num_add ieeeAdd (NInt t) (NInt w) = NInt (t + w)"
  by (simp add: num_add_def valid_time_def configured_def is_safe_integer_def max_safe_integer_def)

lemma evaluate_ints:
  assumes "valid_time t" "configured l w"
  shows "evaluateFixedWindowReservation ieeeAdd (Some \<lparr>fw_windowStartedAt = NInt t, fw_count = n\<rparr>) (NInt now) w l =
    (if now < t \<or> t + w \<le> now then (\<lparr>fw_windowStartedAt = NInt now, fw_count = 1\<rparr>, 1)
     else if l \<le> n then (\<lparr>fw_windowStartedAt = NInt t, fw_count = n\<rparr>, l + 1)
     else (\<lparr>fw_windowStartedAt = NInt t, fw_count = n + 1\<rparr>, n + 1))"
  using assms by (simp add: evaluateFixedWindowReservation_def valid_time_sum num_gt_def num_ge_def)

lemma evaluate_fresh:
  "evaluateFixedWindowReservation ieeeAdd None now w l = (\<lparr>fw_windowStartedAt = now, fw_count = 1\<rparr>, 1)"
  by (simp add: evaluateFixedWindowReservation_def)

lemma evaluate_ok:
  fixes ieeeAdd current now w l
  assumes "window_ok current" "configured l w" "valid_time now"
  defines "e \<equiv> evaluateFixedWindowReservation ieeeAdd current (NInt now) w l"
  shows "window_ok (Some (fst e))" "1 \<le> snd e" "snd e \<le> l + 1"
    "\<exists>t. fw_windowStartedAt (fst e) = NInt t \<and> valid_time t \<and> t \<le> now \<and> now < t + w"
proof -
  have "window_ok (Some (fst e)) \<and> 1 \<le> snd e \<and> snd e \<le> l + 1 \<and>
    (\<exists>t. fw_windowStartedAt (fst e) = NInt t \<and> valid_time t \<and> t \<le> now \<and> now < t + w)"
  proof (cases current)
    case None
    with assms(2,3) show ?thesis by (simp add: e_def evaluate_fresh configured_def)
  next
    case (Some c)
    with assms(1) obtain t n where "c = \<lparr>fw_windowStartedAt = NInt t, fw_count = n\<rparr>" "valid_time t" "1 \<le> n" "n \<le> 10000"
      using window_okE by blast
    with Some assms(2,3) show ?thesis
      by (auto simp: e_def evaluate_ints) (auto simp: configured_def)
  qed
  then show "window_ok (Some (fst e))" "1 \<le> snd e" "snd e \<le> l + 1"
    "\<exists>t. fw_windowStartedAt (fst e) = NInt t \<and> valid_time t \<and> t \<le> now \<and> now < t + w" by blast+
qed

section \<open>The store contract\<close>

text \<open>
  What the limiter needs of \<open>AdminMutationRateLimitStore\<close>: a reservation answers with the evaluated
  window of its bucket, stores it and leaves every other bucket alone.
\<close>

locale reservation_store =
  fixes reserve :: "string \<Rightarrow> int \<Rightarrow> int \<Rightarrow> int \<Rightarrow> ('s, string, int \<times> jsnum) step"
    and window :: "'s \<Rightarrow> string \<Rightarrow> FixedWindowRecord option"
    and ieeeAdd :: "jsnum \<Rightarrow> jsnum \<Rightarrow> jsnum"
  assumes reserve_answers: "window_ok (window s b) \<Longrightarrow> configured l w \<Longrightarrow> valid_time now \<Longrightarrow>
      fst (reserve b now w l s) =
        (let e = evaluateFixedWindowReservation ieeeAdd (window s b) (NInt now) w l
         in Inr (snd e, fw_windowStartedAt (fst e)))"
    and reserve_stores: "window_ok (window s b) \<Longrightarrow> configured l w \<Longrightarrow> valid_time now \<Longrightarrow>
      window (snd (reserve b now w l s)) =
        (window s)(b \<mapsto> fst (evaluateFixedWindowReservation ieeeAdd (window s b) (NInt now) w l))"
begin

definition windows_ok :: "'s \<Rightarrow> bool" where
  "windows_ok s \<longleftrightarrow> (\<forall>b. window_ok (window s b))"

end

lemma response_values:
  "is_safe_integer c \<Longrightarrow> isReservationResponse (JObj PlainObj [(''count'', JNum (NInt c)), (''windowStartedAt'', JNum (NInt t))])
     = Some (c, NInt t)"
  by (simp add: isReservationResponse_def record_get_def)

lemma input_values:
  assumes "configured l w"
  shows "isRateLimitReservationInput (JObj PlainObj [(''nowMs'', JNum (NInt now)), (''windowMs'', JNum (NInt w)),
      (''limit'', JNum (NInt l))]) = Some (NInt now, w, l)"
  using assms
  by (simp add: isRateLimitReservationInput_def record_get_def own_keys_def configured_def is_safe_integer_def
      max_safe_integer_def)

lemma storeReserve_ok:
  assumes "window_ok (get s b)" "configured l w" "valid_time now"
  shows "storeReserve get put ieeeAdd b now w l s =
    (let e = evaluateFixedWindowReservation ieeeAdd (get s b) (NInt now) w l
     in (Inr (snd e, fw_windowStartedAt (fst e)), put b (fst e) s))"
proof -
  note e = evaluate_ok [OF assms, of ieeeAdd]
  obtain t where t: "fw_windowStartedAt (fst (evaluateFixedWindowReservation ieeeAdd (get s b) (NInt now) w l)) = NInt t"
    using e(4) by blast
  have "is_safe_integer (snd (evaluateFixedWindowReservation ieeeAdd (get s b) (NInt now) w l))"
    using e(2,3) assms(2) by (simp add: is_safe_integer_def max_safe_integer_def configured_def)
  with t show ?thesis
    by (simp add: storeReserve_def fetchReservation_def input_values [OF assms(2)] Let_def response_values)
qed

interpretation do_store: reservation_store "storeReserve mem_get mem_put ieeeAdd" mem_get ieeeAdd for ieeeAdd
  by unfold_locales (simp_all add: storeReserve_ok Let_def mem.get_put)

section \<open>Runs of reservations\<close>

text \<open>Requests with the clock each is served at; a refusal or an error leaves the next one to run.\<close>

fun mutationRun ::
  "(int option \<Rightarrow> AdminMutationRateLimitRequest \<Rightarrow> ('s, string, AdminMutationRateLimitResult) step) \<Rightarrow>
   (int \<times> AdminMutationRateLimitRequest) list \<Rightarrow> 's \<Rightarrow>
   (int \<times> AdminMutationRateLimitRequest \<times> (string, AdminMutationRateLimitResult) outcome) list \<times> 's" where
  "mutationRun reserve [] s = ([], s)"
| "mutationRun reserve ((t, q) # rest) s =
     (case reserve (Some t) q s of
        (d, s') \<Rightarrow> (case mutationRun reserve rest s' of (ds, s'') \<Rightarrow> ((t, q, d) # ds, s'')))"

fun mutationAllowed :: "(string, AdminMutationRateLimitResult) outcome \<Rightarrow> bool" where
  "mutationAllowed (Inr (MutationAllowed _)) = True"
| "mutationAllowed _ = False"

text \<open>The window of one bucket alone: the times with the counts that the window answers.\<close>

fun windowRun :: "(jsnum \<Rightarrow> jsnum \<Rightarrow> jsnum) \<Rightarrow> int \<Rightarrow> int \<Rightarrow> int list \<Rightarrow> FixedWindowRecord option \<Rightarrow> (int \<times> int) list" where
  "windowRun ieeeAdd l w [] current = []"
| "windowRun ieeeAdd l w (t # ts) current =
     (let e = evaluateFixedWindowReservation ieeeAdd current (NInt t) w l
      in (t, snd e) # windowRun ieeeAdd l w ts (Some (fst e)))"

context reservation_store
begin

definition reserveRequest ::
  "(string \<Rightarrow> string) \<Rightarrow> (jsnum \<Rightarrow> int) \<Rightarrow> int \<Rightarrow> int \<Rightarrow> int option \<Rightarrow> AdminMutationRateLimitRequest \<Rightarrow>
   ('s, string, AdminMutationRateLimitResult) step" where
  "reserveRequest digest ieeeSeconds l w = reserveMutation digest ieeeAdd ieeeSeconds reserve l w"

text \<open>One request, by the window it finds.\<close>

lemma reserve_effect:
  fixes digest q s l w now
  assumes "windows_ok s" "configured l (w * 1000)" "valid_time now"
  defines "e \<equiv> evaluateFixedWindowReservation ieeeAdd (window s (rateLimitBucketId digest q)) (NInt now) (w * 1000) l"
  obtains s' t where "window s' = (window s)(rateLimitBucketId digest q \<mapsto> fst e)" "windows_ok s'"
    "fw_windowStartedAt (fst e) = NInt t" "t \<le> now" "now < t + w * 1000"
    "reserveRequest digest ieeeSeconds l w (Some now) q s =
       (Inr (if snd e \<le> l then MutationAllowed (l - snd e)
             else MutationRefused (max 1 (- ((now - (t + w * 1000)) div 1000)))), s')"
proof -
  let ?b = "rateLimitBucketId digest q"
  have ok: "window_ok (window s ?b)" using assms(1) by (simp add: windows_ok_def)
  note ev = evaluate_ok [OF ok assms(2,3), of ieeeAdd, folded e_def]
  obtain t where t: "fw_windowStartedAt (fst e) = NInt t" "valid_time t" "t \<le> now" "now < t + w * 1000"
    using ev(4) by blast
  obtain s' where s': "reserve ?b now (w * 1000) l s = (Inr (snd e, NInt t), s')"
    using reserve_answers [OF ok assms(2,3)] t(1) by (metis e_def prod.collapse)
  have win: "window s' = (window s)(?b \<mapsto> fst e)"
    using reserve_stores [OF ok assms(2,3)] by (simp add: s' e_def)
  have sum: "num_add ieeeAdd (num_add ieeeAdd (NInt t) (NInt (w * 1000))) (NInt (- now)) = NInt (t + w * 1000 - now)"
    using t assms(2,3) by (simp add: num_add_def valid_time_def configured_def is_safe_integer_def max_safe_integer_def)
  have "is_safe_integer (snd e)"
    using ev assms(2) by (simp add: is_safe_integer_def max_safe_integer_def configured_def)
  then have "reserveRequest digest ieeeSeconds l w (Some now) q s =
       (Inr (if snd e \<le> l then MutationAllowed (l - snd e)
             else MutationRefused (max 1 (- ((now - (t + w * 1000)) div 1000)))), s')"
    using ev t(3) by (simp add: reserveRequest_def reserveMutation_def Let_def s' sum secondsUp_def)
  moreover have "windows_ok s'" using assms(1) ev(1) win by (simp add: windows_ok_def)
  ultimately show thesis using that win t by blast
qed

lemma run_windows_ok:
  assumes "windows_ok s" "configured l (w * 1000)" "list_all (valid_time \<circ> fst) reqs"
  shows "windows_ok (snd (mutationRun (reserveRequest digest ieeeSeconds l w) reqs s)) \<and>
    length (fst (mutationRun (reserveRequest digest ieeeSeconds l w) reqs s)) = length reqs"
  using assms
proof (induction reqs arbitrary: s)
  case (Cons r reqs)
  obtain t q where r: "r = (t, q)" by fastforce
  from Cons.prems r have t: "valid_time t" by simp
  obtain s' d where "reserveRequest digest ieeeSeconds l w (Some t) q s = (d, s')" "windows_ok s'"
    by (rule reserve_effect [OF Cons.prems(1,2) t])
  with Cons.IH [of s'] Cons.prems r show ?case by (auto split: prod.split)
qed simp

lemma run_projects:
  assumes "windows_ok s" "configured l (w * 1000)" "list_all (valid_time \<circ> fst) reqs"
  shows "map (\<lambda>(t, q, d). (t, mutationAllowed d))
      (filter (\<lambda>(t, q, d). rateLimitBucketId digest q = b) (fst (mutationRun (reserveRequest digest ieeeSeconds l w) reqs s)))
    = map (\<lambda>(t, c). (t, c \<le> l))
      (windowRun ieeeAdd l (w * 1000) (map fst (filter (\<lambda>(t, q). rateLimitBucketId digest q = b) reqs)) (window s b))"
  using assms
proof (induction reqs arbitrary: s)
  case (Cons r reqs)
  obtain t q where r: "r = (t, q)" by fastforce
  from Cons.prems r have t: "valid_time t" by simp
  define e where "e = evaluateFixedWindowReservation ieeeAdd (window s (rateLimitBucketId digest q)) (NInt t) (w * 1000) l"
  obtain s' t' where s': "window s' = (window s)(rateLimitBucketId digest q \<mapsto> fst e)" "windows_ok s'"
    "reserveRequest digest ieeeSeconds l w (Some t) q s =
       (Inr (if snd e \<le> l then MutationAllowed (l - snd e)
             else MutationRefused (max 1 (- ((t - (t' + w * 1000)) div 1000)))), s')"
    unfolding e_def by (rule reserve_effect [OF Cons.prems(1,2) t])
  show ?case
    using Cons.IH [OF s'(2) Cons.prems(2)] Cons.prems(3) r s'(1,3)
    by (auto simp: e_def [symmetric] Let_def split: prod.split)
qed simp

end

text \<open>While the clock does not go back, a window answers as the bucket of the capability limiter.\<close>

definition bucket_of :: "string \<Rightarrow> FixedWindowRecord \<Rightarrow> CapabilityRateLimitBucket" where
  "bucket_of b c = \<lparr>rb_capability = b, rb_windowStartedAt = (case window_start c of Some t \<Rightarrow> t | None \<Rightarrow> 0), rb_count = fw_count c\<rparr>"

definition started_by :: "int list \<Rightarrow> FixedWindowRecord option \<Rightarrow> bool" where
  "started_by ts current \<longleftrightarrow>
     (case current of Some c \<Rightarrow> (case window_start c of Some t \<Rightarrow> list_all (\<lambda>x. t \<le> x) ts | None \<Rightarrow> False) | None \<Rightarrow> True)"

lemma windowRun_limiter:
  assumes "configured l w" "sorted ts" "list_all valid_time ts" "window_ok current" "started_by ts current"
    and "mem_get buckets b = map_option (bucket_of b) current"
  shows "map (\<lambda>(t, c). (t, c \<le> l)) (windowRun ieeeAdd l w ts current) =
    map (\<lambda>(t, d). (t, rd_allowed d))
      (limiterRun mem_get mem_put [(b, \<lparr>rl_limit = NInt l, rl_windowMs = NInt w\<rparr>)] b ts buckets)"
  using assms(2-)
proof (induction ts arbitrary: current buckets)
  case (Cons t ts)
  let ?limits = "[(b, \<lparr>rl_limit = NInt l, rl_windowMs = NInt w\<rparr>)]"
  have lim: "lookupLimit ?limits b = Some \<lparr>rl_limit = NInt l, rl_windowMs = NInt w\<rparr>"
    "validateCapabilityRateLimit b \<lparr>rl_limit = NInt l, rl_windowMs = NInt w\<rparr> = Inr (l, w)"
    using assms(1) by (simp_all add: lookupLimit_def validateCapabilityRateLimit_def configured_def)
  note step = mem_buckets.check_cases [OF lim, of t buckets]
  have t: "valid_time t" "sorted ts" "list_all valid_time ts" "list_all (\<lambda>x. t \<le> x) ts"
    using Cons.prems by (auto simp: list_all_iff)
  define e where "e = evaluateFixedWindowReservation ieeeAdd current (NInt t) w l"
  note ok = evaluate_ok [OF Cons.prems(3) assms(1) t(1), of ieeeAdd, folded e_def]
  have run: "windowRun ieeeAdd l w (t # ts) current = (t, snd e) # windowRun ieeeAdd l w ts (Some (fst e))"
    by (simp add: e_def Let_def)
  have sub: "started_by ts (Some (fst e))"
    using ok(4) t(4) by (fastforce simp: started_by_def window_start_def list_all_iff)
  show ?case
  proof (cases current)
    case None
    then have e: "e = (\<lparr>fw_windowStartedAt = NInt t, fw_count = 1\<rparr>, 1)" by (simp add: e_def evaluate_fresh)
    have "nextBucket b t w (mem_get buckets b) = \<lparr>rb_capability = b, rb_windowStartedAt = t, rb_count = 0\<rparr>"
      using Cons.prems(5) None by (simp add: nextBucket_def)
    with step Cons.IH [OF t(2,3) ok(1) sub] e assms(1) show ?thesis
      by (simp add: run configured_def bucket_of_def window_start_def del: windowRun.simps)
  next
    case (Some c)
    obtain t0 n where c: "c = \<lparr>fw_windowStartedAt = NInt t0, fw_count = n\<rparr>" "valid_time t0" "1 \<le> n" "n \<le> 10000"
      using Cons.prems(3) Some window_okE by blast
    then have "t0 \<le> t" using Cons.prems(4) Some by (simp add: started_by_def window_start_def)
    then have e: "e = (if t0 + w \<le> t then (\<lparr>fw_windowStartedAt = NInt t, fw_count = 1\<rparr>, 1)
        else if l \<le> n then (c, l + 1) else (\<lparr>fw_windowStartedAt = NInt t0, fw_count = n + 1\<rparr>, n + 1))"
      using c assms(1) by (simp add: e_def Some evaluate_ints)
    have next': "nextBucket b t w (mem_get buckets b) =
        (if w \<le> t - t0 then \<lparr>rb_capability = b, rb_windowStartedAt = t, rb_count = 0\<rparr>
         else \<lparr>rb_capability = b, rb_windowStartedAt = t0, rb_count = n\<rparr>)"
      using Cons.prems(5) Some c by (simp add: nextBucket_def bucket_of_def window_start_def)
    consider "t0 + w \<le> t" | "t < t0 + w" "l \<le> n" | "t < t0 + w" "n < l" by linarith
    then show ?thesis
    proof cases
      case 2
      then have "mem_get buckets b = map_option (bucket_of b) (Some (fst e))" using Cons.prems(5) Some e by simp
      from Cons.IH [OF t(2,3) ok(1) sub this] 2 step next' e show ?thesis by (simp add: run del: windowRun.simps)
    qed (use step next' Cons.IH [OF t(2,3) ok(1) sub] e assms(1) c in
        \<open>simp_all add: run configured_def bucket_of_def window_start_def del: windowRun.simps\<close>)
  qed
qed simp

lemma windowRun_bound:
  assumes "configured l w" "sorted ts" "list_all valid_time ts"
  shows "int (length (filter (\<lambda>(t, c). c \<le> l \<and> a \<le> t \<and> t < a + w) (windowRun ieeeAdd l w ts None))) \<le> 2 * l"
proof -
  let ?limits = "[(''b'', \<lparr>rl_limit = NInt l, rl_windowMs = NInt w\<rparr>)]"
  let ?run = "limiterRun mem_get mem_put ?limits ''b'' ts []"
  have lim: "lookupLimit ?limits ''b'' = Some \<lparr>rl_limit = NInt l, rl_windowMs = NInt w\<rparr>"
    "validateCapabilityRateLimit ''b'' \<lparr>rl_limit = NInt l, rl_windowMs = NInt w\<rparr> = Inr (l, w)"
    using assms(1) by (simp_all add: lookupLimit_def validateCapabilityRateLimit_def configured_def)
  have same: "map (\<lambda>(t, c). (t, c \<le> l)) (windowRun ieeeAdd l w ts None) = map (\<lambda>(t, d). (t, rd_allowed d)) ?run"
    by (rule windowRun_limiter [OF assms window_ok_None]) (simp_all add: started_by_def mem_get_def)
  have "length (filter (\<lambda>(t, c). c \<le> l \<and> a \<le> t \<and> t < a + w) (windowRun ieeeAdd l w ts None)) =
      length (filter (\<lambda>(t, ok). ok \<and> a \<le> t \<and> t < a + w) (map (\<lambda>(t, c). (t, c \<le> l)) (windowRun ieeeAdd l w ts None)))"
    by (simp add: filter_map o_def case_prod_unfold)
  also have "\<dots> = allowedWithin a w ?run"
    unfolding same by (simp add: allowedWithin_def filter_map o_def case_prod_unfold)
  finally show ?thesis
    using mem_buckets.interval_bound [OF lim, of "[]" ts a] assms(1,2)
    by (simp add: bucket_ok_def mem_get_def configured_def)
qed

section \<open>Properties\<close>

lemma safe_configuration:
  assumes "assertSafeConfiguration limit windowSeconds = Inr (l, w)"
  shows "limit = NInt l" "windowSeconds = NInt w" "configured l (w * 1000)" "1 \<le> w"
  using assms
  by (cases limit; cases windowSeconds; auto simp: assertSafeConfiguration_def configured_def split: if_splits)+

lemma created_limiter:
  assumes "createAdminMutationRateLimiter digest ieeeAdd ieeeSeconds (storeReserve mem_get mem_put ieeeAdd)
      (NInt l) (NInt w) = Inr limiter"
  shows "limiter = do_store.reserveRequest ieeeAdd digest ieeeSeconds l w" "configured l (w * 1000)" "1 \<le> w"
proof -
  from assms obtain l' w' where c: "assertSafeConfiguration (NInt l) (NInt w) = Inr (l', w')"
    "limiter = reserveMutation digest ieeeAdd ieeeSeconds (storeReserve mem_get mem_put ieeeAdd) l' w'"
    by (auto simp: createAdminMutationRateLimiter_def bindE_Inr)
  from safe_configuration [OF c(1)] c(2) show "limiter = do_store.reserveRequest ieeeAdd digest ieeeSeconds l w"
    "configured l (w * 1000)" "1 \<le> w" by (auto simp: do_store.reserveRequest_def)
qed

lemma no_windows: "do_store.windows_ok []"
  by (simp add: do_store.windows_ok_def mem_get_def)


context reservation_store
begin

lemma run_other_windows:
  assumes "windows_ok s" "configured l (w * 1000)" "list_all (valid_time \<circ> fst) reqs"
    and "list_all (\<lambda>(t, q). rateLimitBucketId digest q \<noteq> b) reqs"
  shows "window (snd (mutationRun (reserveRequest digest ieeeSeconds l w) reqs s)) b = window s b"
  using assms
proof (induction reqs arbitrary: s)
  case (Cons r reqs)
  obtain t q where r: "r = (t, q)" by fastforce
  from Cons.prems r have t: "valid_time t" by simp
  obtain s' d x where "reserveRequest digest ieeeSeconds l w (Some t) q s = (d, s')" "windows_ok s'"
    "window s' = (window s)(rateLimitBucketId digest q \<mapsto> x)"
    by (rule reserve_effect [OF Cons.prems(1,2) t])
  with Cons.IH [of s'] Cons.prems r show ?case by (auto split: prod.split)
qed simp

lemma refused_then_admitted:
  assumes "windows_ok s" "configured l (w * 1000)" "valid_time now" "valid_time t"
    and "reserveRequest digest ieeeSeconds l w (Some now) q s = (Inr (MutationRefused r), s')"
    and "list_all (valid_time \<circ> fst) between"
    and "list_all (\<lambda>(t, q'). rateLimitBucketId digest q' \<noteq> rateLimitBucketId digest q) between"
    and "now + 1000 * r \<le> t"
  shows "1 \<le> r \<and> r \<le> w \<and> fst (reserveRequest digest ieeeSeconds l w (Some t) q
    (snd (mutationRun (reserveRequest digest ieeeSeconds l w) between s'))) = Inr (MutationAllowed (l - 1))"
proof -
  let ?b = "rateLimitBucketId digest q"
  define e where "e = evaluateFixedWindowReservation ieeeAdd (window s ?b) (NInt now) (w * 1000) l"
  obtain t0 where e: "window s' = (window s)(?b \<mapsto> fst e)" "windows_ok s'"
    "fw_windowStartedAt (fst e) = NInt t0" "t0 \<le> now" "now < t0 + w * 1000"
    "r = max 1 (- ((now - (t0 + w * 1000)) div 1000))"
    by (rule reserve_effect [OF assms(1-3), of digest q ieeeSeconds, folded e_def])
      (use assms(5) in \<open>auto split: if_splits\<close>)
  define s2 where "s2 = snd (mutationRun (reserveRequest digest ieeeSeconds l w) between s')"
  have s2: "windows_ok s2" "window s2 ?b = Some (fst e)"
    using run_windows_ok [OF e(2) assms(2,6)] run_other_windows [OF e(2) assms(2,6,7)] e(1)
    by (simp_all add: s2_def)
  have "window_ok (Some (fst e))" using s2 by (metis windows_ok_def)
  then obtain n where "fst e = \<lparr>fw_windowStartedAt = NInt t0, fw_count = n\<rparr>" "valid_time t0"
    using e(3) by (auto elim: window_okE)
  moreover have "t0 + w * 1000 \<le> t" using e(6) assms(8) by linarith
  ultimately have fresh: "evaluateFixedWindowReservation ieeeAdd (window s2 ?b) (NInt t) (w * 1000) l
      = (\<lparr>fw_windowStartedAt = NInt t, fw_count = 1\<rparr>, 1)"
    using assms(2) s2(2) by (simp add: evaluate_ints)
  have "1 \<le> l" using assms(2) by (simp add: configured_def)
  then have "fst (reserveRequest digest ieeeSeconds l w (Some t) q s2) = Inr (MutationAllowed (l - 1))"
    by - (rule reserve_effect [OF s2(1) assms(2,4), of digest q ieeeSeconds, unfolded fresh], simp)
  moreover have "r \<le> w" "1 \<le> r" using e(4-6) assms(2) by (auto simp: configured_def)
  ultimately show ?thesis by (simp add: s2_def)
qed

end

text \<open>
  The delay of a refusal is honest: after any history, a refused mutation is told to wait at
  least one second and at most the window, and when it is repeated that much later it is admitted
  with a fresh window, whatever requests of other buckets are served in between.
\<close>

theorem mutation_limit_retry:
  assumes "createAdminMutationRateLimiter digest ieeeAdd ieeeSeconds (storeReserve mem_get mem_put ieeeAdd)
      (NInt l) (NInt w) = Inr limiter"
    and "list_all (valid_time \<circ> fst) (history @ between)" "valid_time now" "valid_time t"
    and "limiter (Some now) q (snd (mutationRun limiter history [])) = (Inr (MutationRefused r), s')"
    and "list_all (\<lambda>(t, q'). rateLimitBucketId digest q' \<noteq> rateLimitBucketId digest q) between"
    and "now + 1000 * r \<le> t"
  shows "1 \<le> r \<and> r \<le> w \<and>
    fst (limiter (Some t) q (snd (mutationRun limiter between s'))) = Inr (MutationAllowed (l - 1))"
proof -
  note lim = created_limiter [OF assms(1)]
  have "do_store.windows_ok (snd (mutationRun limiter history []))"
    using do_store.run_windows_ok [OF no_windows lim(2), of history] assms(2) by (simp add: lim(1))
  moreover have "list_all (valid_time \<circ> fst) between" using assms(2) by simp
  ultimately show ?thesis
    using do_store.refused_then_admitted [OF _ lim(2) assms(3,4), of _ ieeeAdd digest ieeeSeconds q r s' between]
      assms(5-7) by (simp add: lim(1))
qed

section \<open>Examples\<close>

definition example_mutation :: "string \<Rightarrow> AdminMutationRateLimitRequest" where
  "example_mutation tenant =
     \<lparr>ml_appId = ''app'', ml_tenantId = tenant, ml_actor = ''ann'', ml_family = Rollback\<rparr>"

definition example_mutation_limiter ::
  "int option \<Rightarrow> AdminMutationRateLimitRequest \<Rightarrow>
   ((string \<times> FixedWindowRecord) list, string, AdminMutationRateLimitResult) step" where
  "example_mutation_limiter =
     reserveMutation (\<lambda>s. s) (\<lambda>_ _. NaN) (\<lambda>_. 0) (storeReserve mem_get mem_put (\<lambda>_ _. NaN)) 1 60"

lemma example_limiter_created:
  "createAdminMutationRateLimiter (\<lambda>s. s) (\<lambda>_ _. NaN) (\<lambda>_. 0) (storeReserve mem_get mem_put (\<lambda>_ _. NaN))
     (NInt 1) (NInt 60) = Inr example_mutation_limiter"
  by (simp add: createAdminMutationRateLimiter_def assertSafeConfiguration_def is_safe_integer_def
      max_safe_integer_def example_mutation_limiter_def)

definition example_history :: "(int \<times> AdminMutationRateLimitRequest) list" where
  "example_history = [(0, example_mutation ''t1''), (1000, example_mutation ''t2''), (2000, example_mutation ''t1'')]"

lemma example_buckets:
  "rateLimitBucketId (\<lambda>s. s) (example_mutation a) = rateLimitBucketId (\<lambda>s. s) (example_mutation b) \<longleftrightarrow> a = b"
  by (simp add: rateLimitBucketId_def example_mutation_def)


theorem mutation_limit_retry_witness:
  "let s' = snd (mutationRun example_mutation_limiter example_history [])
   in fst (example_mutation_limiter (Some 60000) (example_mutation ''t1'')
        (snd (mutationRun example_mutation_limiter [(3000, example_mutation ''t3'')] s'))) = Inr (MutationAllowed 0)"
proof -
  have refused: "example_mutation_limiter (Some 2000) (example_mutation ''t1'')
      (snd (mutationRun example_mutation_limiter (take 2 example_history) [])) =
    (Inr (MutationRefused 58), snd (mutationRun example_mutation_limiter example_history []))"
    by (simp add: example_history_def example_mutation_limiter_def reserveMutation_def storeReserve_def
        fetchReservation_def input_values configured_def evaluateFixedWindowReservation_def mem_get_def mem_put_def
        example_buckets response_values is_safe_integer_def max_safe_integer_def Let_def num_add_def secondsUp_def)
  have "list_all (\<lambda>(t, q'). rateLimitBucketId (\<lambda>s. s) q' \<noteq> rateLimitBucketId (\<lambda>s. s) (example_mutation ''t1''))
      [(3000, example_mutation ''t3'')]"
    by (simp add: rateLimitBucketId_def example_mutation_def)
  from mutation_limit_retry [OF example_limiter_created _ _ _ refused this, of 60000]
  show ?thesis by (simp add: example_history_def valid_time_def)
qed

end
