(* ===== verification/CpStore.thy ===== *)
theory CpStore
  imports Manifest CpAccess IsoDate JsNumber JsonText
begin

text \<open>
  \<open>packages/control-plane/src/storage.ts\<close>: the control-plane store over the database of
  \<open>migrations/0001\<close>. A table is the list of its rows in insertion order; statements raise on the
  \<open>UNIQUE\<close>, \<open>NOT NULL\<close> and \<open>FOREIGN KEY\<close> constraints of the schema. A JSON column holds the value
  that its text denotes, an ISO column its text. Arguments of the model: \<open>other\<close>, the \<open>Date\<close>
  constructor on texts that are not ISO time stamps, and \<open>at\<close>, the \<open>CURRENT_TIMESTAMP\<close> of a row.
\<close>

section \<open>Tables\<close>

record AppRecord =
  ar_id :: string
  ar_name :: string

record TenantRecord =
  te_id :: string
  te_appId :: string
  te_name :: string

record PluginRecord =
  pl_id :: string
  pl_appId :: string
  pl_key :: string

record PluginVersionRecord =
  pv_id :: string
  pv_pluginId :: string
  pv_version :: string
  pv_artifactHash :: string
  pv_manifest :: Manifest

record PluginVersionRow =
  vr_record :: PluginVersionRecord
  vr_created_at :: int

type_synonym js_record = "(string \<times> jsval) list"

record InstallationRecord =
  in_id :: string
  in_tenantId :: string
  in_pluginVersionId :: string
  in_enabled :: bool
  in_priority :: jsnum
  in_config :: js_record
  in_grants :: js_record

record InstallationRow =
  iw_id :: string
  iw_tenant_id :: string
  iw_plugin_version_id :: string
  iw_enabled :: int
  iw_priority :: jsnum
  iw_config_json :: js_record
  iw_grants_json :: js_record
  iw_revision :: int

record ApprovalRecord =
  ap_id :: string
  ap_tenantId :: string
  ap_pluginId :: string
  ap_role :: string
  ap_subject :: js_record
  ap_resumeHook :: string
  ap_state :: DecisionState
  ap_expiresAt :: "int option"
  ap_createdAt :: "int option"
  ap_decidedBy :: "string option"
  ap_decisionReason :: "string option"
  ap_decidedAt :: "int option option"

record ApprovalRow =
  aw_id :: string
  aw_tenant_id :: string
  aw_plugin_id :: string
  aw_role :: string
  aw_subject_json :: js_record
  aw_resume_hook :: string
  aw_state :: DecisionState
  aw_expires_at :: string
  aw_created_at :: string
  aw_decided_by :: "string option"
  aw_decision_reason :: "string option"
  aw_decided_at :: "string option"

datatype ExecutionStatus = ExecSuccess | ExecError | ExecTimeout | ExecEgressDenied | ExecBudgetExceeded

datatype call_status = CallSuccess | CallDenied | CallError

record ExecutionRecord =
  ex_id :: string
  ex_tenantId :: string
  ex_pluginId :: string
  ex_hookName :: string
  ex_version :: string
  ex_status :: ExecutionStatus
  ex_durationMs :: jsnum
  ex_error :: "string option"
  ex_capabilityCalls :: "(string \<times> call_status) list"
  ex_createdAt :: "int option"

record ExecutionRow =
  ew_record :: ExecutionRecord  \<comment> \<open>without its time\<close>
  ew_created_at :: string

record SlackConnectionRecord =
  sc_id :: string
  sc_tenantId :: string
  sc_workspaceId :: string
  sc_workspaceName :: "string option"
  sc_botUserId :: "string option"
  sc_secretRef :: js_record
  sc_connectedAt :: "int option"

record SlackConnectionRow =
  sw_record :: SlackConnectionRecord  \<comment> \<open>without its time\<close>
  sw_connected_at :: string

record cp_db =
  cd_apps :: "AppRecord list"
  cd_tenants :: "TenantRecord list"
  cd_plugins :: "PluginRecord list"
  cd_versions :: "PluginVersionRow list"
  cd_installations :: "InstallationRow list"
  cd_approvals :: "ApprovalRow list"
  cd_executions :: "ExecutionRow list"
  cd_slack :: "SlackConnectionRow list"

definition constraint_failed :: "string \<Rightarrow> string" where
  "constraint_failed table = ''constraint failed: '' @ table"

definition isoText :: "int option \<Rightarrow> (string, string) outcome" where
  "isoText d = (case d of None \<Rightarrow> Inl ''Invalid time value'' | Some t \<Rightarrow> Inr (toISOString t))"

text \<open>\<open>UPDATE ... WHERE\<close>: every row that matches is replaced in place.\<close>

definition updateWhere :: "('r \<Rightarrow> bool) \<Rightarrow> ('r \<Rightarrow> 'r) \<Rightarrow> 'r list \<Rightarrow> 'r list" where
  "updateWhere P f rows = map (\<lambda>r. if P r then f r else r) rows"

section \<open>Applications, tenants and plugins\<close>

definition createApp :: "AppRecord \<Rightarrow> (cp_db, string, AppRecord) step" where
  "createApp r db =
     (if list_ex (\<lambda>x. ar_id x = ar_id r) (cd_apps db) then (Inl (constraint_failed ''apps''), db)
      else (Inr r, db\<lparr>cd_apps := cd_apps db @ [r]\<rparr>))"

definition findAppById :: "string \<Rightarrow> cp_db \<Rightarrow> AppRecord option" where
  "findAppById i db = List.find (\<lambda>x. ar_id x = i) (cd_apps db)"

definition insertTenant :: "TenantRecord \<Rightarrow> (cp_db, string, TenantRecord) step" where
  "insertTenant r db =
     (if list_ex (\<lambda>x. te_id x = te_id r) (cd_tenants db) \<or> findAppById (te_appId r) db = None
      then (Inl (constraint_failed ''tenants''), db)
      else (Inr r, db\<lparr>cd_tenants := cd_tenants db @ [r]\<rparr>))"

definition findTenantById :: "string \<Rightarrow> cp_db \<Rightarrow> TenantRecord option" where
  "findTenantById i db = List.find (\<lambda>x. te_id x = i) (cd_tenants db)"

definition insertPlugin :: "PluginRecord \<Rightarrow> (cp_db, string, PluginRecord) step" where
  "insertPlugin r db =
     (if list_ex (\<lambda>x. pl_id x = pl_id r \<or> pl_appId x = pl_appId r \<and> pl_key x = pl_key r) (cd_plugins db) \<or>
         findAppById (pl_appId r) db = None
      then (Inl (constraint_failed ''plugins''), db)
      else (Inr r, db\<lparr>cd_plugins := cd_plugins db @ [r]\<rparr>))"

definition findPluginByKey :: "string \<Rightarrow> string \<Rightarrow> cp_db \<Rightarrow> PluginRecord option" where
  "findPluginByKey appId key db = List.find (\<lambda>x. pl_appId x = appId \<and> pl_key x = key) (cd_plugins db)"

definition findPluginById :: "string \<Rightarrow> cp_db \<Rightarrow> PluginRecord option" where
  "findPluginById i db = List.find (\<lambda>x. pl_id x = i) (cd_plugins db)"

section \<open>Plugin versions\<close>

text \<open>The manifest as its column gives it back.\<close>

definition fieldCopy :: "ConfigField \<Rightarrow> ConfigField" where
  "fieldCopy f =
     f\<lparr>field_default := (case field_default f of
        None \<Rightarrow> None | Some v \<Rightarrow> (case jsonValue v of Inr (Some w) \<Rightarrow> Some w | _ \<Rightarrow> None))\<rparr>"

definition manifestCopy :: "Manifest \<Rightarrow> (string, Manifest) outcome" where
  "manifestCopy m =
     bindE (jsonFields (mf_capabilities m)) (\<lambda>capabilities.
       Inr (m\<lparr>mf_capabilities := capabilities,
              mf_configSchema := (mf_configSchema m)\<lparr>cfg_properties :=
                map (\<lambda>(n, f). (n, fieldCopy f)) (cfg_properties (mf_configSchema m))\<rparr>\<rparr>))"

definition insertPluginVersion :: "int \<Rightarrow> PluginVersionRecord \<Rightarrow> (cp_db, string, PluginVersionRecord) step" where
  "insertPluginVersion at r db =
     (case manifestCopy (pv_manifest r) of
        Inl e \<Rightarrow> (Inl e, db)
      | Inr m \<Rightarrow>
          if list_ex (\<lambda>x. pv_id (vr_record x) = pv_id r \<or>
               pv_pluginId (vr_record x) = pv_pluginId r \<and> pv_version (vr_record x) = pv_version r) (cd_versions db) \<or>
             findPluginById (pv_pluginId r) db = None
          then (Inl (constraint_failed ''plugin_versions''), db)
          else (Inr r, db\<lparr>cd_versions := cd_versions db @
                  [\<lparr>vr_record = r\<lparr>pv_manifest := m\<rparr>, vr_created_at = at\<rparr>]\<rparr>))"

definition findPluginVersion :: "string \<Rightarrow> string \<Rightarrow> cp_db \<Rightarrow> PluginVersionRecord option" where
  "findPluginVersion pluginId version db =
     map_option vr_record (List.find (\<lambda>x. pv_pluginId (vr_record x) = pluginId \<and> pv_version (vr_record x) = version)
       (cd_versions db))"

definition findPluginVersionById :: "string \<Rightarrow> cp_db \<Rightarrow> PluginVersionRecord option" where
  "findPluginVersionById i db =
     map_option vr_record (List.find (\<lambda>x. pv_id (vr_record x) = i) (cd_versions db))"

definition listVersionsOf :: "string \<Rightarrow> cp_db \<Rightarrow> PluginVersionRecord list" where
  "listVersionsOf pluginId db =
     map vr_record (sort_key vr_created_at (sort_key (\<lambda>x. pv_version (vr_record x))
       (filter (\<lambda>x. pv_pluginId (vr_record x) = pluginId) (cd_versions db))))"

section \<open>Installations\<close>

definition installationFromRow :: "InstallationRow \<Rightarrow> InstallationRecord" where
  "installationFromRow r =
     \<lparr>in_id = iw_id r, in_tenantId = iw_tenant_id r, in_pluginVersionId = iw_plugin_version_id r,
      in_enabled = (iw_enabled r = 1), in_priority = iw_priority r, in_config = iw_config_json r,
      in_grants = iw_grants_json r\<rparr>"

definition insertInstallation :: "InstallationRecord \<Rightarrow> (cp_db, string, InstallationRecord) step" where
  "insertInstallation r db =
     (case bindE (jsonFields (in_config r)) (\<lambda>c. bindE (jsonFields (in_grants r)) (\<lambda>g. Inr (c, g))) of
        Inl e \<Rightarrow> (Inl e, db)
      | Inr (c, g) \<Rightarrow>
          if list_ex (\<lambda>x. iw_id x = in_id r) (cd_installations db) \<or> findTenantById (in_tenantId r) db = None \<or>
             findPluginVersionById (in_pluginVersionId r) db = None \<or> in_priority r = NaN
          then (Inl (constraint_failed ''installations''), db)
          else (Inr r, db\<lparr>cd_installations := cd_installations db @
             [\<lparr>iw_id = in_id r, iw_tenant_id = in_tenantId r, iw_plugin_version_id = in_pluginVersionId r,
               iw_enabled = (if in_enabled r then 1 else 0), iw_priority = in_priority r, iw_config_json = c,
               iw_grants_json = g, iw_revision = 0\<rparr>]\<rparr>))"

definition findInstallationById :: "string \<Rightarrow> cp_db \<Rightarrow> InstallationRecord option" where
  "findInstallationById i db =
     map_option installationFromRow (List.find (\<lambda>x. iw_id x = i) (cd_installations db))"

text \<open>An update of the row \<open>i\<close> and the read that follows it.\<close>

definition updateInstallation ::
  "string \<Rightarrow> string \<Rightarrow> (InstallationRow \<Rightarrow> InstallationRow) \<Rightarrow> (cp_db, string, InstallationRecord) step" where
  "updateInstallation what i change db =
     (let db' = db\<lparr>cd_installations := updateWhere (\<lambda>x. iw_id x = i)
        (\<lambda>x. (change x)\<lparr>iw_revision := iw_revision x + 1\<rparr>) (cd_installations db)\<rparr>
      in case findInstallationById i db' of
           None \<Rightarrow> (Inl (''installation '' @ i @ '' was not found after '' @ what @ '' update''), db')
         | Some r \<Rightarrow> (Inr r, db'))"

definition storeInstallationConfig :: "string \<Rightarrow> js_record \<Rightarrow> js_record \<Rightarrow> (cp_db, string, InstallationRecord) step" where
  "storeInstallationConfig i config grants db =
     (case bindE (jsonFields config) (\<lambda>c. bindE (jsonFields grants) (\<lambda>g. Inr (c, g))) of
        Inl e \<Rightarrow> (Inl e, db)
      | Inr (c, g) \<Rightarrow> updateInstallation ''config'' i (\<lambda>x. x\<lparr>iw_config_json := c, iw_grants_json := g\<rparr>) db)"

definition storeInstallationEnabled :: "string \<Rightarrow> bool \<Rightarrow> (cp_db, string, InstallationRecord) step" where
  "storeInstallationEnabled i enabled =
     updateInstallation ''enabled'' i (\<lambda>x. x\<lparr>iw_enabled := (if enabled then 1 else 0)\<rparr>)"

definition storeInstallationPriority :: "string \<Rightarrow> jsnum \<Rightarrow> (cp_db, string, InstallationRecord) step" where
  "storeInstallationPriority i priority db =
     (if priority = NaN \<and> findInstallationById i db \<noteq> None then (Inl (constraint_failed ''installations''), db)
      else updateInstallation ''priority'' i (\<lambda>x. x\<lparr>iw_priority := priority\<rparr>) db)"

definition storeInstallationVersion :: "string \<Rightarrow> string \<Rightarrow> (cp_db, string, InstallationRecord) step" where
  "storeInstallationVersion i pluginVersionId db =
     (if findPluginVersionById pluginVersionId db = None \<and> findInstallationById i db \<noteq> None
      then (Inl (constraint_failed ''installations''), db)
      else updateInstallation ''version'' i (\<lambda>x. x\<lparr>iw_plugin_version_id := pluginVersionId\<rparr>) db)"

section \<open>Approvals\<close>

definition approvalFromRow :: "(string \<Rightarrow> int option) \<Rightarrow> ApprovalRow \<Rightarrow> ApprovalRecord" where
  "approvalFromRow other r =
     \<lparr>ap_id = aw_id r, ap_tenantId = aw_tenant_id r, ap_pluginId = aw_plugin_id r, ap_role = aw_role r,
      ap_subject = aw_subject_json r, ap_resumeHook = aw_resume_hook r, ap_state = aw_state r,
      ap_expiresAt = dateParse other (aw_expires_at r), ap_createdAt = dateParse other (aw_created_at r),
      ap_decidedBy = aw_decided_by r, ap_decisionReason = aw_decision_reason r,
      ap_decidedAt = map_option (dateParse other) (aw_decided_at r)\<rparr>"

definition approvalRow :: "ApprovalRecord \<Rightarrow> (string, ApprovalRow) outcome" where
  "approvalRow r =
     bindE (jsonFields (ap_subject r)) (\<lambda>subject.
     bindE (isoText (ap_expiresAt r)) (\<lambda>expires.
     bindE (isoText (ap_createdAt r)) (\<lambda>created.
     bindE (case ap_decidedAt r of None \<Rightarrow> Inr None | Some d \<Rightarrow> bindE (isoText d) (\<lambda>t. Inr (Some t))) (\<lambda>decided.
       Inr \<lparr>aw_id = ap_id r, aw_tenant_id = ap_tenantId r, aw_plugin_id = ap_pluginId r, aw_role = ap_role r,
            aw_subject_json = subject, aw_resume_hook = ap_resumeHook r, aw_state = ap_state r,
            aw_expires_at = expires, aw_created_at = created, aw_decided_by = ap_decidedBy r,
            aw_decision_reason = ap_decisionReason r, aw_decided_at = decided\<rparr>))))"

definition createApproval :: "ApprovalRecord \<Rightarrow> (cp_db, string, ApprovalRecord) step" where
  "createApproval r db =
     (case approvalRow r of
        Inl e \<Rightarrow> (Inl e, db)
      | Inr row \<Rightarrow>
          if list_ex (\<lambda>x. aw_id x = ap_id r) (cd_approvals db) \<or> findTenantById (ap_tenantId r) db = None \<or>
             findPluginById (ap_pluginId r) db = None
          then (Inl (constraint_failed ''approvals''), db)
          else (Inr r, db\<lparr>cd_approvals := cd_approvals db @ [row]\<rparr>))"

definition findApprovalById :: "(string \<Rightarrow> int option) \<Rightarrow> string \<Rightarrow> cp_db \<Rightarrow> ApprovalRecord option" where
  "findApprovalById other i db =
     map_option (approvalFromRow other) (List.find (\<lambda>x. aw_id x = i) (cd_approvals db))"

fun decision_state :: "ApprovalDecision \<Rightarrow> DecisionState" where
  "decision_state DecideApproved = StateApproved"
| "decision_state DecideRejected = StateRejected"

record approval_decision_update =
  du_id :: string
  du_decision :: ApprovalDecision
  du_decidedBy :: string
  du_decisionReason :: "string option"
  du_decidedAt :: "int option"

definition storeApprovalDecision ::
  "(string \<Rightarrow> int option) \<Rightarrow> approval_decision_update \<Rightarrow> (cp_db, string, ApprovalRecord) step" where
  "storeApprovalDecision other q db =
     (case isoText (du_decidedAt q) of
        Inl e \<Rightarrow> (Inl e, db)
      | Inr t \<Rightarrow>
          (let db' = db\<lparr>cd_approvals := updateWhere (\<lambda>x. aw_id x = du_id q)
             (\<lambda>x. x\<lparr>aw_state := decision_state (du_decision q), aw_decided_by := Some (du_decidedBy q),
                    aw_decision_reason := du_decisionReason q, aw_decided_at := Some t\<rparr>) (cd_approvals db)\<rparr>
           in case findApprovalById other (du_id q) db' of
                None \<Rightarrow> (Inl (''approval '' @ du_id q @ '' was not found after decision update''), db')
              | Some r \<Rightarrow> (Inr r, db')))"

section \<open>Executions\<close>

definition writeExecution :: "ExecutionRecord \<Rightarrow> (cp_db, string, ExecutionRecord) step" where
  "writeExecution r db =
     (case isoText (ex_createdAt r) of
        Inl e \<Rightarrow> (Inl e, db)
      | Inr t \<Rightarrow>
          if list_ex (\<lambda>x. ex_id (ew_record x) = ex_id r) (cd_executions db) \<or> ex_durationMs r = NaN \<or>
             findTenantById (ex_tenantId r) db = None \<or> findPluginById (ex_pluginId r) db = None
          then (Inl (constraint_failed ''executions''), db)
          else (Inr r, db\<lparr>cd_executions := cd_executions db @
                  [\<lparr>ew_record = r\<lparr>ex_createdAt := None\<rparr>, ew_created_at = t\<rparr>]\<rparr>))"

record ExecutionSearchQuery =
  eq_tenantId :: "string option"
  eq_pluginId :: "string option"
  eq_hookName :: "string option"
  eq_status :: "ExecutionStatus option"

definition executionFromRow :: "(string \<Rightarrow> int option) \<Rightarrow> ExecutionRow \<Rightarrow> ExecutionRecord" where
  "executionFromRow other r = (ew_record r)\<lparr>ex_createdAt := dateParse other (ew_created_at r)\<rparr>"

text \<open>The conditions \<open>?n IS NULL OR column = ?n\<close>.\<close>

definition unbound :: "'a option \<Rightarrow> 'a \<Rightarrow> bool" where
  "unbound p v \<longleftrightarrow> (case p of None \<Rightarrow> True | Some x \<Rightarrow> v = x)"

definition searchExecutions ::
  "(string \<Rightarrow> int option) \<Rightarrow> ExecutionSearchQuery \<Rightarrow> cp_db \<Rightarrow> ExecutionRecord list" where
  "searchExecutions other q db =
     map (executionFromRow other) (sort_key ew_created_at (filter (\<lambda>x.
       unbound (eq_tenantId q) (ex_tenantId (ew_record x)) \<and> unbound (eq_pluginId q) (ex_pluginId (ew_record x)) \<and>
       unbound (eq_hookName q) (ex_hookName (ew_record x)) \<and> unbound (eq_status q) (ex_status (ew_record x)))
       (cd_executions db)))"

section \<open>Installations for a hook\<close>

record ResolvedInstallation =
  ri_id :: string
  ri_tenantId :: string
  ri_pluginId :: string
  ri_pluginVersionId :: string
  ri_enabled :: bool
  ri_priority :: jsnum
  ri_hooks :: "string list"
  ri_version :: string
  ri_config :: js_record
  ri_grants :: js_record
  ri_manifest :: Manifest

text \<open>\<open>ORDER BY i.priority ASC\<close>, ties in insertion order.\<close>

fun insertByPriority :: "InstallationRow \<Rightarrow> InstallationRow list \<Rightarrow> InstallationRow list" where
  "insertByPriority r [] = [r]"
| "insertByPriority r (x # xs) =
     (if num_gt (iw_priority r) (iw_priority x) then x # insertByPriority r xs else r # x # xs)"

definition orderByPriority :: "InstallationRow list \<Rightarrow> InstallationRow list" where
  "orderByPriority rows = foldr insertByPriority rows []"

text \<open>A row joined with its version and the plugin of that version.\<close>

definition resolvedInstallationFromRow :: "cp_db \<Rightarrow> InstallationRow \<Rightarrow> (string, ResolvedInstallation) outcome" where
  "resolvedInstallationFromRow db r =
     (case findPluginVersionById (iw_plugin_version_id r) db of
        None \<Rightarrow> Inl (''installation '' @ iw_id r @ '' references missing pinned version '' @ iw_plugin_version_id r)
      | Some v \<Rightarrow>
          (case findPluginById (pv_pluginId v) db of
             None \<Rightarrow> Inl (''installation '' @ iw_id r @ '' references missing pinned version '' @ iw_plugin_version_id r)
           | Some p \<Rightarrow>
               Inr \<lparr>ri_id = iw_id r, ri_tenantId = iw_tenant_id r, ri_pluginId = pl_id p,
                    ri_pluginVersionId = iw_plugin_version_id r, ri_enabled = (iw_enabled r = 1),
                    ri_priority = iw_priority r, ri_hooks = map hook_name (mf_hooks (pv_manifest v)),
                    ri_version = pv_version v, ri_config = iw_config_json r, ri_grants = iw_grants_json r,
                    ri_manifest = pv_manifest v\<rparr>))"

definition resolveInstallationsForHook :: "string \<Rightarrow> string \<Rightarrow> cp_db \<Rightarrow> (string, ResolvedInstallation list) outcome" where
  "resolveInstallationsForHook tenantId hookName db =
     bindE (mapE (resolvedInstallationFromRow db)
       (orderByPriority (filter (\<lambda>r. iw_tenant_id r = tenantId \<and> iw_enabled r = 1) (cd_installations db))))
       (\<lambda>rs. Inr (filter (\<lambda>r. hookName \<in> set (ri_hooks r)) rs))"

section \<open>Artifacts and Slack connections\<close>

definition putArtifact :: "string \<Rightarrow> string \<Rightarrow> ((string \<times> string) list, string, string) step" where
  "putArtifact hash content bucket =
     (if map_of bucket hash \<noteq> None then (Inl (''artifact '' @ hash @ '' already exists''), bucket)
      else (Inr hash, obj_set bucket hash content))"

definition getArtifact :: "string \<Rightarrow> (string \<times> string) list \<Rightarrow> string option" where
  "getArtifact hash bucket = map_of bucket hash"

text \<open>\<open>INSERT OR REPLACE\<close>: the rows with the same identifier or the same tenant and workspace go.\<close>

definition upsertSlackConnection :: "SlackConnectionRecord \<Rightarrow> (cp_db, string, SlackConnectionRecord) step" where
  "upsertSlackConnection r db =
     (case bindE (jsonFields (sc_secretRef r)) (\<lambda>j. bindE (isoText (sc_connectedAt r)) (\<lambda>t. Inr (j, t))) of
        Inl e \<Rightarrow> (Inl e, db)
      | Inr (j, t) \<Rightarrow>
          if findTenantById (sc_tenantId r) db = None then (Inl (constraint_failed ''slack_connections''), db)
          else (Inr r, db\<lparr>cd_slack := filter (\<lambda>x. sc_id (sw_record x) \<noteq> sc_id r \<and>
                   \<not> (sc_tenantId (sw_record x) = sc_tenantId r \<and> sc_workspaceId (sw_record x) = sc_workspaceId r))
                   (cd_slack db) @
                 [\<lparr>sw_record = r\<lparr>sc_secretRef := j, sc_connectedAt := None\<rparr>, sw_connected_at = t\<rparr>]\<rparr>))"

definition findSlackConnection ::
  "(string \<Rightarrow> int option) \<Rightarrow> string \<Rightarrow> string \<Rightarrow> cp_db \<Rightarrow> SlackConnectionRecord option" where
  "findSlackConnection other tenantId workspaceId db =
     map_option (\<lambda>x. (sw_record x)\<lparr>sc_connectedAt := dateParse other (sw_connected_at x)\<rparr>)
       (List.find (\<lambda>x. sc_tenantId (sw_record x) = tenantId \<and> sc_workspaceId (sw_record x) = workspaceId) (cd_slack db))"

end
