(* ===== verification/CpApi.thy ===== *)
theory CpApi
  imports CpStore
begin

text \<open>
  \<open>packages/control-plane/src/api.ts\<close>: the operations of the control plane over the interface
  \<open>ControlPlaneStore\<close>. Each operation reads, validates and writes; the operations of the model are
  atomic. Arguments of the model: the schema library behind the manifest functions (\<open>manifest_lib\<close>),
  the continuation runner and the identity resolver.
\<close>

section \<open>Interfaces\<close>

record 's ControlPlaneStore =
  cs_createApp :: "AppRecord \<Rightarrow> ('s, string, AppRecord) step"
  cs_findAppById :: "string \<Rightarrow> 's \<Rightarrow> AppRecord option"
  cs_createTenant :: "TenantRecord \<Rightarrow> ('s, string, TenantRecord) step"
  cs_findTenantById :: "string \<Rightarrow> 's \<Rightarrow> TenantRecord option"
  cs_createPlugin :: "PluginRecord \<Rightarrow> ('s, string, PluginRecord) step"
  cs_findPluginByKey :: "string \<Rightarrow> string \<Rightarrow> 's \<Rightarrow> PluginRecord option"
  cs_createPluginVersion :: "PluginVersionRecord \<Rightarrow> ('s, string, PluginVersionRecord) step"
  cs_findPluginVersionById :: "string \<Rightarrow> 's \<Rightarrow> PluginVersionRecord option"
  cs_findPluginVersion :: "string \<Rightarrow> string \<Rightarrow> 's \<Rightarrow> PluginVersionRecord option"
  cs_listPluginVersions :: "string \<Rightarrow> 's \<Rightarrow> PluginVersionRecord list"
  cs_createInstallation :: "InstallationRecord \<Rightarrow> ('s, string, InstallationRecord) step"
  cs_findInstallationById :: "string \<Rightarrow> 's \<Rightarrow> InstallationRecord option"
  cs_updateInstallationConfig :: "string \<Rightarrow> js_record \<Rightarrow> js_record \<Rightarrow> ('s, string, InstallationRecord) step"
  cs_setInstallationEnabled :: "string \<Rightarrow> bool \<Rightarrow> ('s, string, InstallationRecord) step"
  cs_updateInstallationPriority :: "string \<Rightarrow> jsnum \<Rightarrow> ('s, string, InstallationRecord) step"
  cs_updateInstallationVersion :: "string \<Rightarrow> string \<Rightarrow> ('s, string, InstallationRecord) step"
  cs_findApprovalById :: "string \<Rightarrow> 's \<Rightarrow> ApprovalRecord option"
  cs_decideApproval :: "approval_decision_update \<Rightarrow> ('s, string, ApprovalRecord) step"
  cs_writeExecution :: "ExecutionRecord \<Rightarrow> ('s, string, ExecutionRecord) step"
  cs_putArtifact :: "string \<Rightarrow> string \<Rightarrow> ('s, string, string) step"

record manifest_lib =
  ml_decode :: "jsval \<Rightarrow> Manifest option"
  ml_issues :: "jsval \<Rightarrow> ValidationIssue list"
  ml_validRange :: "string \<Rightarrow> bool"
  ml_schemaParse :: "ConfigSchema \<Rightarrow> ConfigSchema validation"
  ml_recordParse :: "js_record \<Rightarrow> config validation"

section \<open>Errors\<close>

datatype api_error = ControlPlaneApiError int string string | OtherError string

record error_response =
  er_status :: int
  er_code :: string
  er_message :: string

fun toControlPlaneErrorResponse :: "api_error \<Rightarrow> error_response" where
  "toControlPlaneErrorResponse (ControlPlaneApiError st c m) = \<lparr>er_status = st, er_code = c, er_message = m\<rparr>"
| "toControlPlaneErrorResponse (OtherError _) =
     \<lparr>er_status = 500, er_code = ''internal_error'', er_message = ''internal control-plane error''\<rparr>"

definition badRequest :: "string \<Rightarrow> string \<Rightarrow> api_error" where
  "badRequest c message = ControlPlaneApiError 400 c message"

definition notFound :: "string \<Rightarrow> string \<Rightarrow> string \<Rightarrow> api_error" where
  "notFound c resource i = ControlPlaneApiError 404 c (resource @ '' '' @ i @ '' was not found'')"

text \<open>A call of the store: what it raises passes through.\<close>

definition callStore :: "('s, string, 'a) step \<Rightarrow> ('s, api_error, 'a) step" where
  "callStore m s = (case m s of (Inl e, s') \<Rightarrow> (Inl (OtherError e), s') | (Inr a, s') \<Rightarrow> (Inr a, s'))"

definition required :: "'a option \<Rightarrow> api_error \<Rightarrow> (api_error, 'a) outcome" where
  "required v e = (case v of None \<Rightarrow> Inl e | Some a \<Rightarrow> Inr a)"

section \<open>Identifiers\<close>

definition escapeStableIdPart :: "string \<Rightarrow> string" where
  "escapeStableIdPart part =
     concat (map (\<lambda>c. if c = CHR '':'' then ''%3A'' else [c])
       (concat (map (\<lambda>c. if c = CHR ''%'' then ''%25'' else [c]) part)))"

definition stableId :: "string list \<Rightarrow> string" where
  "stableId parts = join '':'' (map escapeStableIdPart parts)"

definition pluginIdFor :: "string \<Rightarrow> string \<Rightarrow> string" where
  "pluginIdFor appId key = stableId [''plugin'', appId, key]"

definition pluginVersionIdFor :: "string \<Rightarrow> string \<Rightarrow> string" where
  "pluginVersionIdFor pluginId version = stableId [''plugin-version'', pluginId, version]"

definition slackConnectionId :: "string \<Rightarrow> string \<Rightarrow> string" where
  "slackConnectionId tenantId workspaceId = stableId [''slack'', tenantId, workspaceId]"

section \<open>Comparison of grants\<close>

text \<open>\<open>stableJson\<close> of this file: a value without JSON text renders as \<open>undefined\<close>, a date as an object without keys.\<close>

fun apiStableJson :: "jsval \<Rightarrow> (api_error, string) outcome"
and apiStableItems :: "jsval list \<Rightarrow> (api_error, string list) outcome"
and apiStableFields :: "(string \<times> jsval) list \<Rightarrow> (api_error, (string \<times> string) list) outcome" where
  "apiStableJson (JBigInt _) = Inl (OtherError ''Do not know how to serialize a BigInt'')"
| "apiStableJson (JArr xs) = bindE (apiStableItems xs) (\<lambda>ss. Inr (''['' @ join '','' ss @ '']''))"
| "apiStableJson (JObj _ fs) =
     bindE (apiStableFields fs) (\<lambda>ps.
       Inr (CHR 0x7B # join '','' (map (\<lambda>p. json_quote (fst p) @ '':'' @ snd p) (sort_key fst ps)) @ [CHR 0x7D]))"
| "apiStableJson (JDate _) = Inr [CHR 0x7B, CHR 0x7D]"
| "apiStableJson JNull = Inr ''null''"
| "apiStableJson (JBool b) = Inr (if b then ''true'' else ''false'')"
| "apiStableJson (JNum n) = Inr (json_number n)"
| "apiStableJson (JStr s) = Inr (json_quote s)"
| "apiStableJson _ = Inr ''undefined''"
| "apiStableItems [] = Inr []"
| "apiStableItems (x # xs) = bindE (apiStableJson x) (\<lambda>s. bindE (apiStableItems xs) (\<lambda>ss. Inr (s # ss)))"
| "apiStableFields [] = Inr []"
| "apiStableFields ((k, v) # fs) =
     bindE (apiStableJson v) (\<lambda>s. bindE (apiStableFields fs) (\<lambda>ps. Inr ((k, s) # ps)))"

definition deepEqual :: "jsval \<Rightarrow> jsval \<Rightarrow> (api_error, bool) outcome" where
  "deepEqual left right =
     bindE (apiStableJson left) (\<lambda>l. bindE (apiStableJson right) (\<lambda>r. Inr (l = r)))"

section \<open>Validation\<close>

definition validateInstallationConfig :: "manifest_lib \<Rightarrow> Manifest \<Rightarrow> js_record \<Rightarrow> (api_error, config) outcome" where
  "validateInstallationConfig lib m configInput =
     (case validateConfig (\<lambda>_. ml_schemaParse lib (mf_configSchema m)) (\<lambda>_. ml_recordParse lib configInput) JUndef JUndef of
        Inl _ \<Rightarrow> Inl (badRequest ''invalid_config'' ''installation config validation failed'')
      | Inr c \<Rightarrow> Inr c)"

definition resolveRequiredGrants :: "Manifest \<Rightarrow> config \<Rightarrow> (api_error, js_record) outcome" where
  "resolveRequiredGrants m c =
     (case resolveGrants (mf_capabilities m) c of
        Inl _ \<Rightarrow> Inl (badRequest ''invalid_grants'' ''manifest capability grants are invalid'')
      | Inr g \<Rightarrow> Inr g)"

definition validateInstallationGrants ::
  "manifest_lib \<Rightarrow> Manifest \<Rightarrow> js_record \<Rightarrow> js_record \<Rightarrow> (api_error, config \<times> js_record) outcome" where
  "validateInstallationGrants lib m configInput grantInput =
     bindE (validateInstallationConfig lib m configInput) (\<lambda>c.
     bindE (resolveRequiredGrants m c) (\<lambda>g.
     bindE (deepEqual (JObj PlainObj g) (JObj PlainObj grantInput)) (\<lambda>same.
     bindE (guardE same (badRequest ''invalid_grants''
       ''installation grants do not match manifest capability requirements'')) (\<lambda>_. Inr (c, g)))))"

definition parseVersionManifest :: "manifest_lib \<Rightarrow> jsval \<Rightarrow> string \<Rightarrow> (api_error, Manifest) outcome" where
  "parseVersionManifest lib input version =
     (case parseManifest (ml_decode lib) (ml_issues lib) (ml_validRange lib) input of
        Inl _ \<Rightarrow> Inl (badRequest ''invalid_manifest'' ''manifest validation failed'')
      | Inr m \<Rightarrow>
          if mf_version m \<noteq> version
          then Inl (badRequest ''version_mismatch'' (''manifest version '' @ mf_version m @ '' does not match '' @ version))
          else Inr m)"

section \<open>Lookups that must succeed\<close>

definition requirePlugin :: "'s ControlPlaneStore \<Rightarrow> string \<Rightarrow> string \<Rightarrow> 's \<Rightarrow> (api_error, PluginRecord) outcome" where
  "requirePlugin store appId key s =
     required (cs_findPluginByKey store appId key s) (notFound ''plugin_not_found'' ''plugin'' key)"

definition requireApp :: "'s ControlPlaneStore \<Rightarrow> string \<Rightarrow> 's \<Rightarrow> (api_error, AppRecord) outcome" where
  "requireApp store appId s = required (cs_findAppById store appId s) (notFound ''app_not_found'' ''app'' appId)"

definition requireTenantInApp :: "'s ControlPlaneStore \<Rightarrow> string \<Rightarrow> string \<Rightarrow> 's \<Rightarrow> (api_error, TenantRecord) outcome" where
  "requireTenantInApp store tenantId appId s =
     required (case cs_findTenantById store tenantId s of None \<Rightarrow> None
               | Some t \<Rightarrow> if te_appId t \<noteq> appId then None else Some t)
       (notFound ''tenant_not_found'' ''tenant'' tenantId)"

definition requirePluginVersion ::
  "'s ControlPlaneStore \<Rightarrow> string \<Rightarrow> string \<Rightarrow> 's \<Rightarrow> (api_error, PluginVersionRecord) outcome" where
  "requirePluginVersion store pluginId version s =
     required (cs_findPluginVersion store pluginId version s)
       (notFound ''plugin_version_not_found'' ''plugin version'' version)"

definition requirePluginVersionById ::
  "'s ControlPlaneStore \<Rightarrow> string \<Rightarrow> 's \<Rightarrow> (api_error, PluginVersionRecord) outcome" where
  "requirePluginVersionById store i s =
     required (cs_findPluginVersionById store i s) (notFound ''plugin_version_not_found'' ''plugin version'' i)"

definition requireInstallation :: "'s ControlPlaneStore \<Rightarrow> string \<Rightarrow> 's \<Rightarrow> (api_error, InstallationRecord) outcome" where
  "requireInstallation store i s =
     required (cs_findInstallationById store i s) (notFound ''installation_not_found'' ''installation'' i)"

definition requireApproval ::
  "'s ControlPlaneStore \<Rightarrow> string \<Rightarrow> string \<Rightarrow> 's \<Rightarrow> (api_error, ApprovalRecord) outcome" where
  "requireApproval store i tenantId s =
     required (case cs_findApprovalById store i s of None \<Rightarrow> None
               | Some a \<Rightarrow> if ap_tenantId a \<noteq> tenantId then None else Some a)
       (notFound ''approval_not_found'' ''approval'' i)"

section \<open>Operations on plugins and installations\<close>

definition createTenant :: "'s ControlPlaneStore \<Rightarrow> TenantRecord \<Rightarrow> ('s, api_error, TenantRecord) step" where
  "createTenant store q s =
     (case requireApp store (te_appId q) s of
        Inl e \<Rightarrow> (Inl e, s)
      | Inr _ \<Rightarrow> callStore (cs_createTenant store q) s)"

definition registerPlugin :: "'s ControlPlaneStore \<Rightarrow> string \<Rightarrow> string \<Rightarrow> ('s, api_error, PluginRecord) step" where
  "registerPlugin store appId key s =
     (case requireApp store appId s of
        Inl e \<Rightarrow> (Inl e, s)
      | Inr _ \<Rightarrow>
          (case cs_findPluginByKey store appId key s of
             Some existing \<Rightarrow> (Inr existing, s)
           | None \<Rightarrow> callStore (cs_createPlugin store
               \<lparr>pl_id = pluginIdFor appId key, pl_appId = appId, pl_key = key\<rparr>) s))"

record RegisterPluginVersionRequest =
  rv_appId :: string
  rv_pluginKey :: string
  rv_version :: string
  rv_manifest :: jsval
  rv_artifactHash :: string
  rv_artifact :: string

definition registerPluginVersion ::
  "manifest_lib \<Rightarrow> 's ControlPlaneStore \<Rightarrow> RegisterPluginVersionRequest \<Rightarrow> ('s, api_error, PluginVersionRecord) step" where
  "registerPluginVersion lib store q s =
     (case bindE (requirePlugin store (rv_appId q) (rv_pluginKey q) s) (\<lambda>plugin.
           bindE (parseVersionManifest lib (rv_manifest q) (rv_version q)) (\<lambda>m. Inr (plugin, m))) of
        Inl e \<Rightarrow> (Inl e, s)
      | Inr (plugin, m) \<Rightarrow>
          if cs_findPluginVersion store (pl_id plugin) (rv_version q) s \<noteq> None
          then (Inl (ControlPlaneApiError 409 ''plugin_version_already_exists''
                  (''plugin version '' @ rv_pluginKey q @ ''@'' @ rv_version q @ '' already exists'')), s)
          else bindS (callStore (cs_putArtifact store (rv_artifactHash q) (rv_artifact q))) (\<lambda>_.
                 callStore (cs_createPluginVersion store
                   \<lparr>pv_id = pluginVersionIdFor (pl_id plugin) (rv_version q), pv_pluginId = pl_id plugin,
                    pv_version = rv_version q, pv_artifactHash = rv_artifactHash q, pv_manifest = m\<rparr>)) s)"

definition listPluginVersions ::
  "'s ControlPlaneStore \<Rightarrow> string \<Rightarrow> string \<Rightarrow> 's \<Rightarrow> (api_error, PluginVersionRecord list) outcome" where
  "listPluginVersions store appId key s =
     bindE (requirePlugin store appId key s) (\<lambda>plugin. Inr (cs_listPluginVersions store (pl_id plugin) s))"

record InstallPluginRequest =
  iq_id :: string
  iq_appId :: string
  iq_tenantId :: string
  iq_pluginKey :: string
  iq_version :: string
  iq_config :: js_record
  iq_grants :: js_record
  iq_priority :: jsnum
  iq_enabled :: "bool option"

definition installPlugin ::
  "manifest_lib \<Rightarrow> 's ControlPlaneStore \<Rightarrow> InstallPluginRequest \<Rightarrow> ('s, api_error, InstallationRecord) step" where
  "installPlugin lib store q s =
     (case bindE (requirePlugin store (iq_appId q) (iq_pluginKey q) s) (\<lambda>plugin.
           bindE (requirePluginVersion store (pl_id plugin) (iq_version q) s) (\<lambda>version.
           bindE (requireTenantInApp store (iq_tenantId q) (iq_appId q) s) (\<lambda>_.
           bindE (validateInstallationGrants lib (pv_manifest version) (iq_config q) (iq_grants q)) (\<lambda>cg.
             Inr (version, cg))))) of
        Inl e \<Rightarrow> (Inl e, s)
      | Inr (version, c, g) \<Rightarrow>
          callStore (cs_createInstallation store
            \<lparr>in_id = iq_id q, in_tenantId = iq_tenantId q, in_pluginVersionId = pv_id version,
             in_enabled = (case iq_enabled q of None \<Rightarrow> True | Some b \<Rightarrow> b), in_priority = iq_priority q,
             in_config = c, in_grants = g\<rparr>) s)"

definition updateInstallationConfig ::
  "manifest_lib \<Rightarrow> 's ControlPlaneStore \<Rightarrow> string \<Rightarrow> js_record \<Rightarrow> ('s, api_error, InstallationRecord) step" where
  "updateInstallationConfig lib store i configInput s =
     (case bindE (requireInstallation store i s) (\<lambda>installation.
           bindE (requirePluginVersionById store (in_pluginVersionId installation) s) (\<lambda>version.
           bindE (validateInstallationConfig lib (pv_manifest version) configInput) (\<lambda>c.
           bindE (resolveRequiredGrants (pv_manifest version) c) (\<lambda>g. Inr (c, g))))) of
        Inl e \<Rightarrow> (Inl e, s)
      | Inr (c, g) \<Rightarrow> callStore (cs_updateInstallationConfig store i c g) s)"

definition setInstallationEnabled ::
  "'s ControlPlaneStore \<Rightarrow> string \<Rightarrow> bool \<Rightarrow> ('s, api_error, InstallationRecord) step" where
  "setInstallationEnabled store i enabled s =
     (case requireInstallation store i s of
        Inl e \<Rightarrow> (Inl e, s)
      | Inr _ \<Rightarrow> callStore (cs_setInstallationEnabled store i enabled) s)"

definition updateInstallationPriority ::
  "'s ControlPlaneStore \<Rightarrow> string \<Rightarrow> jsnum \<Rightarrow> ('s, api_error, InstallationRecord) step" where
  "updateInstallationPriority store i priority s =
     (case requireInstallation store i s of
        Inl e \<Rightarrow> (Inl e, s)
      | Inr _ \<Rightarrow> callStore (cs_updateInstallationPriority store i priority) s)"

section \<open>Rollback\<close>

record RollbackInstallationRequest =
  rb_auditId :: string
  rb_appId :: string
  rb_installationId :: string
  rb_pluginKey :: string
  rb_targetVersion :: string
  rb_actor :: string
  rb_reason :: "string option"
  rb_createdAt :: "int option"  \<comment> \<open>the given time, or the clock's\<close>

definition rollbackAuditMessage :: "RollbackInstallationRequest \<Rightarrow> string \<Rightarrow> string" where
  "rollbackAuditMessage q fromVersion =
     ''rolled back from '' @ fromVersion @ '' by '' @ rb_actor q @
     (case rb_reason q of None \<Rightarrow> [] | Some r \<Rightarrow> '': '' @ r)"

definition rollbackAuditRecord ::
  "RollbackInstallationRequest \<Rightarrow> InstallationRecord \<Rightarrow> PluginRecord \<Rightarrow> string \<Rightarrow> ExecutionRecord" where
  "rollbackAuditRecord q installation plugin fromVersion =
     \<lparr>ex_id = rb_auditId q, ex_tenantId = in_tenantId installation, ex_pluginId = pl_id plugin,
      ex_hookName = ''installation.rollback'', ex_version = rb_targetVersion q, ex_status = ExecSuccess,
      ex_durationMs = NInt 0, ex_error = Some (rollbackAuditMessage q fromVersion),
      ex_capabilityCalls = [(''rollback'', CallSuccess)], ex_createdAt = rb_createdAt q\<rparr>"

definition rollbackInstallation ::
  "'s ControlPlaneStore \<Rightarrow> RollbackInstallationRequest \<Rightarrow> ('s, api_error, InstallationRecord \<times> ExecutionRecord) step" where
  "rollbackInstallation store q s =
     (case bindE (requireInstallation store (rb_installationId q) s) (\<lambda>installation.
           bindE (requirePluginVersionById store (in_pluginVersionId installation) s) (\<lambda>current.
           bindE (requirePlugin store (rb_appId q) (rb_pluginKey q) s) (\<lambda>plugin.
           bindE (guardE (pv_pluginId current = pl_id plugin)
             (notFound ''installation_not_found'' ''installation'' (rb_installationId q))) (\<lambda>_.
           bindE (requirePluginVersion store (pl_id plugin) (rb_targetVersion q) s) (\<lambda>target.
             Inr (installation, current, plugin, target)))))) of
        Inl e \<Rightarrow> (Inl e, s)
      | Inr (installation, current, plugin, target) \<Rightarrow>
          bindS (callStore (cs_updateInstallationVersion store (rb_installationId q) (pv_id target))) (\<lambda>updated.
          (let audit = rollbackAuditRecord q installation plugin (pv_version current)
           in bindS (callStore (cs_writeExecution store audit)) (\<lambda>_. returnS (updated, audit)))) s)"

section \<open>Approval decisions\<close>

record api_identity =
  di_subject :: string
  di_role :: string
  di_tenantId :: "string option"
  di_allowedOperations :: "string list option"

record DecideApprovalRequest =
  dq_id :: string
  dq_tenantId :: string
  dq_decision :: ApprovalDecision
  dq_actor :: string
  dq_auditId :: string
  dq_reason :: "string option"
  dq_decidedAt :: "int option"  \<comment> \<open>the given time, or the clock's\<close>
  dq_authToken :: "string option"

record ApprovalDecisionPayload =
  dp_approvalId :: string
  dp_decision :: ApprovalDecision
  dp_subject :: js_record
  dp_decidedBy :: string
  dp_reason :: "string option"

definition decision_forbidden :: api_error where
  "decision_forbidden = ControlPlaneApiError 403 ''approval_role_forbidden'' ''approval decision not permitted''"

definition resolveApprovalDecisionIdentity ::
  "(string \<Rightarrow> api_identity option) option \<Rightarrow> DecideApprovalRequest \<Rightarrow> (api_error, api_identity option) outcome" where
  "resolveApprovalDecisionIdentity resolver q =
     (case resolver of
        None \<Rightarrow> Inr None
      | Some resolveToken \<Rightarrow>
          (case (case dq_authToken q of None \<Rightarrow> None | Some token \<Rightarrow> resolveToken token) of
             None \<Rightarrow> Inl decision_forbidden
           | Some identity \<Rightarrow>
               if \<not> canRolePerform (di_role identity) ''approval:decide'' \<or>
                  (case di_allowedOperations identity of None \<Rightarrow> False | Some ops \<Rightarrow> ''approval:decide'' \<notin> set ops) \<or>
                  (case di_tenantId identity of None \<Rightarrow> False | Some t \<Rightarrow> t \<noteq> dq_tenantId q)
               then Inl decision_forbidden else Inr (Some identity)))"

definition authorizeApprovalRole :: "api_identity option \<Rightarrow> ApprovalRecord \<Rightarrow> (api_error, unit) outcome" where
  "authorizeApprovalRole identity approval =
     (case identity of
        None \<Rightarrow> Inr ()
      | Some i \<Rightarrow>
          guardE (ap_role approval = ''manager'' \<or> normalizeRbacRole (di_role i) = normalizeRbacRole (ap_role approval))
            decision_forbidden)"

fun decision_text :: "ApprovalDecision \<Rightarrow> string" where
  "decision_text DecideApproved = ''approved''"
| "decision_text DecideRejected = ''rejected''"

fun state_text :: "DecisionState \<Rightarrow> string" where
  "state_text StatePending = ''pending''"
| "state_text StateApproved = ''approved''"
| "state_text StateRejected = ''rejected''"
| "state_text StateExpired = ''expired''"

definition approvalDecisionAuditMessage :: "DecideApprovalRequest \<Rightarrow> string" where
  "approvalDecisionAuditMessage q =
     decision_text (dq_decision q) @ '' by '' @ dq_actor q @ (case dq_reason q of None \<Rightarrow> [] | Some r \<Rightarrow> '': '' @ r)"

definition approvalDecisionAuditRecord :: "DecideApprovalRequest \<Rightarrow> ApprovalRecord \<Rightarrow> ExecutionRecord" where
  "approvalDecisionAuditRecord q approval =
     \<lparr>ex_id = dq_auditId q, ex_tenantId = ap_tenantId approval, ex_pluginId = ap_pluginId approval,
      ex_hookName = ''approval.decision'', ex_version = [], ex_status = ExecSuccess, ex_durationMs = NInt 0,
      ex_error = Some (approvalDecisionAuditMessage q), ex_capabilityCalls = [(''approvals.decide'', CallSuccess)],
      ex_createdAt = dq_decidedAt q\<rparr>"

definition approvalDecisionPayload :: "DecideApprovalRequest \<Rightarrow> ApprovalRecord \<Rightarrow> ApprovalDecisionPayload" where
  "approvalDecisionPayload q approval =
     \<lparr>dp_approvalId = ap_id approval, dp_decision = dq_decision q, dp_subject = ap_subject approval,
      dp_decidedBy = dq_actor q, dp_reason = dq_reason q\<rparr>"

type_synonym 's continuation_runner =
  "ApprovalRecord \<Rightarrow> ApprovalDecisionPayload \<Rightarrow> int option \<Rightarrow> ('s, string, ExecutionRecord) step"

text \<open>What must hold before the decision is stored; the result is the request with the trusted actor.\<close>

definition admitDecision ::
  "'s ControlPlaneStore \<Rightarrow> (string \<Rightarrow> api_identity option) option \<Rightarrow> DecideApprovalRequest \<Rightarrow> 's \<Rightarrow>
   (api_error, DecideApprovalRequest \<times> ApprovalRecord) outcome" where
  "admitDecision store resolver q s =
     bindE (resolveApprovalDecisionIdentity resolver q) (\<lambda>identity.
     bindE (requireApproval store (dq_id q) (dq_tenantId q) s) (\<lambda>approval.
     bindE (authorizeApprovalRole identity approval) (\<lambda>_.
     (let authorized = (case identity of None \<Rightarrow> q | Some i \<Rightarrow> q\<lparr>dq_actor := di_subject i\<rparr>)
      in case resolveApprovalDecisionTransition (ap_state approval) (dq_decision authorized) of
           Inl e \<Rightarrow> Inl (OtherError e)
         | Inr transition \<Rightarrow>
             if \<not> tr_allowed transition
             then Inl (ControlPlaneApiError 409 ''approval_already_decided''
                    (''approval '' @ dq_id q @ '' is already '' @ state_text (ap_state approval)))
             else Inr (authorized, approval)))))"

definition decideApproval ::
  "'s ControlPlaneStore \<Rightarrow> 's continuation_runner option \<Rightarrow> (string \<Rightarrow> api_identity option) option \<Rightarrow>
   DecideApprovalRequest \<Rightarrow> ('s, api_error, ApprovalRecord) step" where
  "decideApproval store runner resolver q s =
     (case admitDecision store resolver q s of
        Inl e \<Rightarrow> (Inl e, s)
      | Inr (authorized, approval) \<Rightarrow>
          bindS (callStore (cs_decideApproval store
            \<lparr>du_id = dq_id authorized, du_decision = dq_decision authorized, du_decidedBy = dq_actor authorized,
             du_decisionReason = dq_reason authorized, du_decidedAt = dq_decidedAt authorized\<rparr>)) (\<lambda>updated.
          bindS (callStore (cs_writeExecution store (approvalDecisionAuditRecord authorized approval))) (\<lambda>_.
          case runner of
            None \<Rightarrow> returnS updated
          | Some run \<Rightarrow>
              bindS (callStore (run approval (approvalDecisionPayload authorized approval) (dq_decidedAt authorized))) (\<lambda>record.
              bindS (callStore (cs_writeExecution store record)) (\<lambda>_. returnS updated)))) s)"

section \<open>The database as the store\<close>

record cp_world =
  cw_db :: cp_db
  cw_artifacts :: "(string \<times> string) list"

definition onDb :: "(cp_db, 'e, 'a) step \<Rightarrow> (cp_world, 'e, 'a) step" where
  "onDb m w = (case m (cw_db w) of (r, db) \<Rightarrow> (r, w\<lparr>cw_db := db\<rparr>))"

definition d1ControlPlaneStore :: "(string \<Rightarrow> int option) \<Rightarrow> int \<Rightarrow> cp_world ControlPlaneStore" where
  "d1ControlPlaneStore other at =
     \<lparr>cs_createApp = (\<lambda>r. onDb (createApp r)),
      cs_findAppById = (\<lambda>i w. findAppById i (cw_db w)),
      cs_createTenant = (\<lambda>r. onDb (insertTenant r)),
      cs_findTenantById = (\<lambda>i w. findTenantById i (cw_db w)),
      cs_createPlugin = (\<lambda>r. onDb (insertPlugin r)),
      cs_findPluginByKey = (\<lambda>a k w. findPluginByKey a k (cw_db w)),
      cs_createPluginVersion = (\<lambda>r. onDb (insertPluginVersion at r)),
      cs_findPluginVersionById = (\<lambda>i w. findPluginVersionById i (cw_db w)),
      cs_findPluginVersion = (\<lambda>p v w. findPluginVersion p v (cw_db w)),
      cs_listPluginVersions = (\<lambda>p w. listVersionsOf p (cw_db w)),
      cs_createInstallation = (\<lambda>r. onDb (insertInstallation r)),
      cs_findInstallationById = (\<lambda>i w. findInstallationById i (cw_db w)),
      cs_updateInstallationConfig = (\<lambda>i c g. onDb (storeInstallationConfig i c g)),
      cs_setInstallationEnabled = (\<lambda>i b. onDb (storeInstallationEnabled i b)),
      cs_updateInstallationPriority = (\<lambda>i p. onDb (storeInstallationPriority i p)),
      cs_updateInstallationVersion = (\<lambda>i v. onDb (storeInstallationVersion i v)),
      cs_findApprovalById = (\<lambda>i w. findApprovalById other i (cw_db w)),
      cs_decideApproval = (\<lambda>q. onDb (storeApprovalDecision other q)),
      cs_writeExecution = (\<lambda>r. onDb (writeExecution r)),
      cs_putArtifact = (\<lambda>h c w. (case putArtifact h c (cw_artifacts w) of
                                  (r, b) \<Rightarrow> (r, w\<lparr>cw_artifacts := b\<rparr>)))\<rparr>"

end
