(* ===== verification/CpApiContract.thy ===== *)
theory CpApiContract
  imports CpApi
begin

text \<open>
  What the operations of \<open>api.ts\<close> guarantee. The contract of \<open>ControlPlaneStore\<close> is a locale, the
  database store its interpretation; over the contract, installations never leave the application of
  their tenant and plugin versions never change.
\<close>

section \<open>The contract of the store\<close>

text \<open>Applications, tenants, plugins and versions that can be found stay found, as they are.\<close>

definition preserves :: "'s ControlPlaneStore \<Rightarrow> 's \<Rightarrow> 's \<Rightarrow> bool" where
  "preserves store s s' \<longleftrightarrow>
     (\<forall>i t. cs_findTenantById store i s = Some t \<longrightarrow> cs_findTenantById store i s' = Some t) \<and>
     (\<forall>a k p. cs_findPluginByKey store a k s = Some p \<longrightarrow> cs_findPluginByKey store a k s' = Some p) \<and>
     (\<forall>i v. cs_findPluginVersionById store i s = Some v \<longrightarrow> cs_findPluginVersionById store i s' = Some v)"

definition installationsOf :: "'s ControlPlaneStore \<Rightarrow> 's \<Rightarrow> string \<Rightarrow> InstallationRecord option" where
  "installationsOf store s i = cs_findInstallationById store i s"

lemma preserves_refl [simp]: "preserves store s s"
  by (simp add: preserves_def)

lemma preserves_trans: "preserves store s t \<Longrightarrow> preserves store t u \<Longrightarrow> preserves store s u"
  by (simp add: preserves_def)

text \<open>A step that does not touch installations, and a step that updates one.\<close>

definition quiet :: "'s ControlPlaneStore \<Rightarrow> ('s \<Rightarrow> bool) \<Rightarrow> ('s, 'e, 'a) step \<Rightarrow> bool" where
  "quiet store valid m \<longleftrightarrow>
     (\<forall>s. valid s \<longrightarrow> valid (snd (m s)) \<and> preserves store s (snd (m s)) \<and>
        installationsOf store (snd (m s)) = installationsOf store s)"

definition updatedOne ::
  "'s ControlPlaneStore \<Rightarrow> ('s \<Rightarrow> bool) \<Rightarrow> string \<Rightarrow> (InstallationRecord \<Rightarrow> InstallationRecord \<Rightarrow> bool) \<Rightarrow>
   's \<Rightarrow> ('e, InstallationRecord) outcome \<times> 's \<Rightarrow> bool" where
  "updatedOne store valid i rel s out \<longleftrightarrow>
     valid (snd out) \<and> preserves store s (snd out) \<and>
     (case fst out of
        Inl _ \<Rightarrow> installationsOf store (snd out) = installationsOf store s
      | Inr r' \<Rightarrow> \<exists>r. installationsOf store s i = Some r \<and> rel r r' \<and>
          installationsOf store (snd out) = (installationsOf store s)(i \<mapsto> r'))"

definition updatesOne ::
  "'s ControlPlaneStore \<Rightarrow> ('s \<Rightarrow> bool) \<Rightarrow> string \<Rightarrow> (InstallationRecord \<Rightarrow> InstallationRecord \<Rightarrow> bool) \<Rightarrow>
   ('s, 'e, InstallationRecord) step \<Rightarrow> bool" where
  "updatesOne store valid i rel m \<longleftrightarrow> (\<forall>s. valid s \<longrightarrow> updatedOne store valid i rel s (m s))"

text \<open>The installation as the database gives it back.\<close>

definition storedInstallation :: "InstallationRecord \<Rightarrow> InstallationRecord \<Rightarrow> bool" where
  "storedInstallation r r' \<longleftrightarrow>
     (\<exists>c g. jsonFields (in_config r) = Inr c \<and> jsonFields (in_grants r) = Inr g \<and>
        r' = r\<lparr>in_config := c, in_grants := g\<rparr>)"

locale control_plane_store =
  fixes store :: "'s ControlPlaneStore" and valid :: "'s \<Rightarrow> bool"
  assumes app_quiet: "quiet store valid (cs_createApp store r1)"
    and tenant_quiet: "quiet store valid (cs_createTenant store r2)"
    and plugin_quiet: "quiet store valid (cs_createPlugin store r3)"
    and version_quiet: "quiet store valid (cs_createPluginVersion store r4)"
    and artifact_quiet: "quiet store valid (cs_putArtifact store h c)"
    and decide_quiet: "quiet store valid (cs_decideApproval store u)"
    and execution_quiet: "quiet store valid (cs_writeExecution store x)"
    and create_installation: "valid s \<Longrightarrow>
      (case cs_createInstallation store r s of
         (Inl _, s') \<Rightarrow> s' = s
       | (Inr r', s') \<Rightarrow> valid s' \<and> preserves store s s' \<and> r' = r \<and> installationsOf store s (in_id r) = None \<and>
           (\<exists>stored. storedInstallation r stored \<and>
              installationsOf store s' = (installationsOf store s)(in_id r \<mapsto> stored)))"
    and config_updates: "updatesOne store valid i (\<lambda>r r'. \<exists>c' g'. r' = r\<lparr>in_config := c', in_grants := g'\<rparr>)
      (cs_updateInstallationConfig store i c0 g0)"
    and enabled_updates: "updatesOne store valid i (\<lambda>r r'. r' = r\<lparr>in_enabled := b\<rparr>) (cs_setInstallationEnabled store i b)"
    and priority_updates: "updatesOne store valid i (\<lambda>r r'. r' = r\<lparr>in_priority := n\<rparr>)
      (cs_updateInstallationPriority store i n)"
    and version_updates: "updatesOne store valid i (\<lambda>r r'. r' = r\<lparr>in_pluginVersionId := v\<rparr>)
      (cs_updateInstallationVersion store i v)"
    and version_found: "valid s \<Longrightarrow> cs_findPluginVersion store p w s = Some ver \<Longrightarrow>
      pv_pluginId ver = p \<and> cs_findPluginVersionById store (pv_id ver) s = Some ver"
    and plugin_found: "cs_findPluginByKey store a k s = Some plugin \<Longrightarrow> pl_appId plugin = a"

section \<open>Operations of the interface\<close>

datatype api_op =
    OpCreateApp AppRecord
  | OpCreateTenant TenantRecord
  | OpRegisterPlugin string string
  | OpRegisterVersion RegisterPluginVersionRequest
  | OpInstall InstallPluginRequest
  | OpUpdateConfig string js_record
  | OpSetEnabled string bool
  | OpSetPriority string jsnum
  | OpRollback RollbackInstallationRequest
  | OpDecide DecideApprovalRequest

text \<open>The state after an operation; \<open>runner\<close> is a continuation that only computes its record.\<close>

fun apiStep ::
  "manifest_lib \<Rightarrow> 's ControlPlaneStore \<Rightarrow>
   (ApprovalRecord \<Rightarrow> ApprovalDecisionPayload \<Rightarrow> int option \<Rightarrow> (string, ExecutionRecord) outcome) option \<Rightarrow>
   (string \<Rightarrow> api_identity option) option \<Rightarrow> api_op \<Rightarrow> 's \<Rightarrow> 's" where
  "apiStep lib store runner resolver (OpCreateApp r) s = snd (callStore (cs_createApp store r) s)"
| "apiStep lib store runner resolver (OpCreateTenant r) s = snd (createTenant store r s)"
| "apiStep lib store runner resolver (OpRegisterPlugin a k) s = snd (registerPlugin store a k s)"
| "apiStep lib store runner resolver (OpRegisterVersion q) s = snd (registerPluginVersion lib store q s)"
| "apiStep lib store runner resolver (OpInstall q) s = snd (installPlugin lib store q s)"
| "apiStep lib store runner resolver (OpUpdateConfig i c) s = snd (updateInstallationConfig lib store i c s)"
| "apiStep lib store runner resolver (OpSetEnabled i b) s = snd (setInstallationEnabled store i b s)"
| "apiStep lib store runner resolver (OpSetPriority i n) s = snd (updateInstallationPriority store i n s)"
| "apiStep lib store runner resolver (OpRollback q) s = snd (rollbackInstallation store q s)"
| "apiStep lib store runner resolver (OpDecide q) s =
     snd (decideApproval store (map_option (\<lambda>f a p d. liftS (f a p d)) runner) resolver q s)"

text \<open>Every installation joins a tenant and a plugin of one application.\<close>

definition isolated :: "'s ControlPlaneStore \<Rightarrow> 's \<Rightarrow> bool" where
  "isolated store s \<longleftrightarrow>
     (\<forall>i r. installationsOf store s i = Some r \<longrightarrow>
        (\<exists>t v k p. cs_findTenantById store (in_tenantId r) s = Some t \<and>
           cs_findPluginVersionById store (in_pluginVersionId r) s = Some v \<and>
           cs_findPluginByKey store (te_appId t) k s = Some p \<and> pl_id p = pv_pluginId v))"

lemma required_Inr [simp]: "required v e = Inr a \<longleftrightarrow> v = Some a"
  by (cases v) (auto simp: required_def)

lemma callStore_cases:
  "callStore m s = (case m s of (Inl e, s') \<Rightarrow> (Inl (OtherError e), s') | (Inr a, s') \<Rightarrow> (Inr a, s'))"
  by (simp add: callStore_def)

lemma callStore_snd [simp]: "snd (callStore m s) = snd (m s)"
  by (simp add: callStore_def split: prod.split sum.split)

lemma bindS_snd:
  "snd (bindS m f s) = (case fst (m s) of Inl _ \<Rightarrow> snd (m s) | Inr a \<Rightarrow> snd (f a (snd (m s))))"
  by (simp add: bindS_def split: prod.split sum.split)

lemma quiet_callStore: "quiet store valid m \<Longrightarrow> quiet store valid (callStore m)"
  by (simp add: quiet_def)

lemma quiet_pure: "quiet store valid (returnS a)" "quiet store valid (liftS r)"
  by (simp_all add: quiet_def)

lemma quiet_bindS:
  assumes "quiet store valid m" "\<And>a. quiet store valid (f a)"
  shows "quiet store valid (bindS m f)"
  unfolding quiet_def
proof (intro allI impI)
  fix s
  assume s: "valid s"
  show "valid (snd (bindS m f s)) \<and> preserves store s (snd (bindS m f s)) \<and>
      installationsOf store (snd (bindS m f s)) = installationsOf store s"
  proof (cases "fst (m s)")
    case (Inl e)
    with assms(1) s show ?thesis by (simp add: quiet_def bindS_snd)
  next
    case (Inr a)
    have m: "valid (snd (m s))" "preserves store s (snd (m s))" "installationsOf store (snd (m s)) = installationsOf store s"
      using assms(1) s by (simp_all add: quiet_def)
    with assms(2) [of a] Inr show ?thesis
      by (auto simp: quiet_def bindS_snd intro: preserves_trans)
  qed
qed

lemma isolated_quiet:
  assumes "isolated store s" "preserves store s s'" "installationsOf store s' = installationsOf store s"
  shows "isolated store s'"
  unfolding isolated_def
proof (intro allI impI)
  fix i r
  assume "installationsOf store s' i = Some r"
  with assms(1,3) obtain t v k p where "cs_findTenantById store (in_tenantId r) s = Some t"
    "cs_findPluginVersionById store (in_pluginVersionId r) s = Some v"
    "cs_findPluginByKey store (te_appId t) k s = Some p" "pl_id p = pv_pluginId v"
    unfolding isolated_def by metis
  with assms(2) show "\<exists>t v k p. cs_findTenantById store (in_tenantId r) s' = Some t \<and>
      cs_findPluginVersionById store (in_pluginVersionId r) s' = Some v \<and>
      cs_findPluginByKey store (te_appId t) k s' = Some p \<and> pl_id p = pv_pluginId v"
    unfolding preserves_def by blast
qed

text \<open>An installation added or changed keeps the isolation if it is isolated itself.\<close>

lemma isolated_update:
  assumes "isolated store s" "preserves store s s'" "installationsOf store s' = (installationsOf store s)(i \<mapsto> r)"
    and "cs_findTenantById store (in_tenantId r) s = Some t" "cs_findPluginVersionById store (in_pluginVersionId r) s = Some v"
    "cs_findPluginByKey store (te_appId t) k s = Some p" "pl_id p = pv_pluginId v"
  shows "isolated store s'"
  unfolding isolated_def
proof (intro allI impI)
  fix j x
  assume x: "installationsOf store s' j = Some x"
  have "\<exists>t v k p. cs_findTenantById store (in_tenantId x) s = Some t \<and>
      cs_findPluginVersionById store (in_pluginVersionId x) s = Some v \<and>
      cs_findPluginByKey store (te_appId t) k s = Some p \<and> pl_id p = pv_pluginId v"
  proof (cases "j = i")
    case True
    with x assms(3) have "x = r" by simp
    with assms(4-7) show ?thesis by blast
  next
    case False
    with x assms(3) have "installationsOf store s j = Some x" by simp
    with assms(1) show ?thesis unfolding isolated_def by blast
  qed
  with assms(2) show "\<exists>t v k p. cs_findTenantById store (in_tenantId x) s' = Some t \<and>
      cs_findPluginVersionById store (in_pluginVersionId x) s' = Some v \<and>
      cs_findPluginByKey store (te_appId t) k s' = Some p \<and> pl_id p = pv_pluginId v"
    unfolding preserves_def by blast
qed

definition keeps :: "'s ControlPlaneStore \<Rightarrow> ('s \<Rightarrow> bool) \<Rightarrow> 's \<Rightarrow> 's \<Rightarrow> bool" where
  "keeps store valid s s' \<longleftrightarrow> valid s' \<and> preserves store s s' \<and> isolated store s'"

lemma quiet_keeps: "quiet store valid m \<Longrightarrow> valid s \<Longrightarrow> isolated store s \<Longrightarrow> keeps store valid s (snd (m s))"
  by (auto simp: quiet_def keeps_def intro: isolated_quiet)

lemma keeps_refl: "valid s \<Longrightarrow> isolated store s \<Longrightarrow> keeps store valid s s"
  by (simp add: keeps_def)

lemma keeps_bindS:
  assumes "keeps store valid s (snd (m s))" "\<And>a. quiet store valid (f a)"
  shows "keeps store valid s (snd (bindS m f s))"
proof (cases "fst (m s)")
  case (Inl e)
  with assms(1) show ?thesis by (simp add: bindS_snd)
next
  case (Inr a)
  have "keeps store valid (snd (m s)) (snd (f a (snd (m s))))"
    using assms by (intro quiet_keeps) (auto simp: keeps_def)
  with assms(1) Inr show ?thesis by (auto simp: bindS_snd keeps_def intro: preserves_trans)
qed

text \<open>An update that leaves tenant and version of the row alone.\<close>

lemma update_keeps:
  assumes "updatesOne store valid i rel m" "valid s" "isolated store s"
    and "\<And>r r'. rel r r' \<Longrightarrow> in_tenantId r' = in_tenantId r \<and> in_pluginVersionId r' = in_pluginVersionId r"
  shows "keeps store valid s (snd (m s))"
proof (cases "fst (m s)")
  case (Inl e)
  with assms(1) [unfolded updatesOne_def, rule_format, OF assms(2), unfolded updatedOne_def] have "valid (snd (m s))"
    "preserves store s (snd (m s))" "installationsOf store (snd (m s)) = installationsOf store s"
    by simp_all
  with assms(3) show ?thesis by (simp add: keeps_def isolated_quiet)
next
  case (Inr r')
  with assms(1,2) obtain r where r: "installationsOf store s i = Some r" "rel r r'"
    "installationsOf store (snd (m s)) = (installationsOf store s)(i \<mapsto> r')"
    and m: "valid (snd (m s))" "preserves store s (snd (m s))"
    by (fastforce simp: updatesOne_def updatedOne_def)
  obtain t v k p where "cs_findTenantById store (in_tenantId r') s = Some t"
    "cs_findPluginVersionById store (in_pluginVersionId r') s = Some v"
    "cs_findPluginByKey store (te_appId t) k s = Some p" "pl_id p = pv_pluginId v"
    using assms(3) r(1) assms(4) [OF r(2)] unfolding isolated_def by metis
  from isolated_update [OF assms(3) m(2) r(3) this] m show ?thesis by (simp add: keeps_def)
qed

context control_plane_store
begin

lemma install_keeps:
  assumes "valid s" "isolated store s"
  shows "keeps store valid s (snd (installPlugin lib store q s))"
proof (cases "bindE (requirePlugin store (iq_appId q) (iq_pluginKey q) s) (\<lambda>plugin.
           bindE (requirePluginVersion store (pl_id plugin) (iq_version q) s) (\<lambda>version.
           bindE (requireTenantInApp store (iq_tenantId q) (iq_appId q) s) (\<lambda>_.
           bindE (validateInstallationGrants lib (pv_manifest version) (iq_config q) (iq_grants q)) (\<lambda>cg.
             Inr (version, cg)))))")
  case (Inl e)
  then show ?thesis using assms by (simp add: installPlugin_def keeps_refl)
next
  case (Inr a)
  obtain version c g where a: "a = (version, c, g)" by (cases a) auto
  let ?r = "\<lparr>in_id = iq_id q, in_tenantId = iq_tenantId q, in_pluginVersionId = pv_id version,
             in_enabled = (case iq_enabled q of None \<Rightarrow> True | Some b \<Rightarrow> b), in_priority = iq_priority q,
             in_config = c, in_grants = g\<rparr>"
  from Inr a obtain plugin t where found: "cs_findPluginByKey store (iq_appId q) (iq_pluginKey q) s = Some plugin"
    "cs_findPluginVersion store (pl_id plugin) (iq_version q) s = Some version"
    "cs_findTenantById store (iq_tenantId q) s = Some t" "te_appId t = iq_appId q"
    by (auto simp: bindE_Inr requirePlugin_def requirePluginVersion_def requireTenantInApp_def
        split: option.splits if_splits)
  have run: "snd (installPlugin lib store q s) = snd (cs_createInstallation store ?r s)"
    using Inr a by (simp add: installPlugin_def)
  obtain res s' where m: "cs_createInstallation store ?r s = (res, s')" by fastforce
  note law = create_installation [OF assms(1), of ?r, unfolded m prod.case]
  show ?thesis
  proof (cases res)
    case (Inl e)
    with law assms show ?thesis by (simp add: run m keeps_refl)
  next
    case (Inr r')
    with law obtain stored where st: "storedInstallation ?r stored" "valid s'" "preserves store s s'"
      "installationsOf store s' = (installationsOf store s)(iq_id q \<mapsto> stored)" by auto
    have "in_tenantId stored = iq_tenantId q" "in_pluginVersionId stored = pv_id version"
      using st(1) by (auto simp: storedInstallation_def)
    with isolated_update [OF assms(2) st(3,4), of t version "iq_pluginKey q" plugin] found
      version_found [OF assms(1) found(2)] st show ?thesis by (simp add: run m keeps_def)
  qed
qed

lemma rollback_keeps:
  assumes "valid s" "isolated store s"
  shows "keeps store valid s (snd (rollbackInstallation store q s))"
proof (cases "bindE (requireInstallation store (rb_installationId q) s) (\<lambda>installation.
           bindE (requirePluginVersionById store (in_pluginVersionId installation) s) (\<lambda>current.
           bindE (requirePlugin store (rb_appId q) (rb_pluginKey q) s) (\<lambda>plugin.
           bindE (guardE (pv_pluginId current = pl_id plugin)
             (notFound ''installation_not_found'' ''installation'' (rb_installationId q))) (\<lambda>_.
           bindE (requirePluginVersion store (pl_id plugin) (rb_targetVersion q) s) (\<lambda>target.
             Inr (installation, current, plugin, target))))))")
  case (Inl e)
  then show ?thesis using assms by (simp add: rollbackInstallation_def keeps_refl)
next
  case (Inr a)
  obtain installation current plugin target where a: "a = (installation, current, plugin, target)" by (cases a) auto
  from Inr a have found: "installationsOf store s (rb_installationId q) = Some installation"
    "cs_findPluginVersionById store (in_pluginVersionId installation) s = Some current"
    "pv_pluginId current = pl_id plugin"
    "cs_findPluginVersion store (pl_id plugin) (rb_targetVersion q) s = Some target"
    by (auto simp: bindE_Inr requireInstallation_def requirePluginVersionById_def requirePlugin_def
        requirePluginVersion_def installationsOf_def)
  note target = version_found [OF assms(1) found(4)]
  let ?m = "callStore (cs_updateInstallationVersion store (rb_installationId q) (pv_id target))"
  define audit where "audit = rollbackAuditRecord q installation plugin (pv_version current)"
  have run: "snd (rollbackInstallation store q s) =
      snd (bindS ?m (\<lambda>updated. bindS (callStore (cs_writeExecution store audit)) (\<lambda>_. returnS (updated, audit))) s)"
    using Inr a by (simp add: rollbackInstallation_def audit_def Let_def)
  have quiet: "quiet store valid (bindS (callStore (cs_writeExecution store audit)) (\<lambda>_. returnS (updated, audit)))" for updated
    by (intro quiet_bindS quiet_callStore quiet_pure execution_quiet)
  have "keeps store valid s (snd (cs_updateInstallationVersion store (rb_installationId q) (pv_id target) s))"
  proof (cases "fst (cs_updateInstallationVersion store (rb_installationId q) (pv_id target) s)")
    case (Inl e)
    with version_updates [of "rb_installationId q" "pv_id target"] assms show ?thesis
      by (auto simp: updatesOne_def updatedOne_def keeps_def isolated_quiet)
  next
    case (Inr r')
    let ?s' = "snd (cs_updateInstallationVersion store (rb_installationId q) (pv_id target) s)"
    from Inr version_updates [of "rb_installationId q" "pv_id target"] assms(1) found(1)
    have s': "valid ?s'" "preserves store s ?s'"
      "installationsOf store ?s' = (installationsOf store s)(rb_installationId q \<mapsto> installation\<lparr>in_pluginVersionId := pv_id target\<rparr>)"
      by (fastforce simp: updatesOne_def updatedOne_def)+
    obtain t v k p where t: "cs_findTenantById store (in_tenantId installation) s = Some t"
      "cs_findPluginVersionById store (in_pluginVersionId installation) s = Some v"
      "cs_findPluginByKey store (te_appId t) k s = Some p" "pl_id p = pv_pluginId v"
      using assms(2) found(1) unfolding isolated_def by metis
    with isolated_update [OF assms(2) s'(2,3), of t target k p] found target s' show ?thesis
      by (simp add: keeps_def)
  qed
  then show ?thesis
    using quiet unfolding run by (intro keeps_bindS) simp_all
qed

lemma api_step_keeps:
  assumes "valid s" "isolated store s"
  shows "keeps store valid s (apiStep lib store runner resolver operation s)"
proof (cases operation)
  case (OpCreateApp r)
  with quiet_keeps [OF app_quiet assms] show ?thesis by simp
next
  case (OpCreateTenant r)
  with quiet_keeps [OF tenant_quiet assms] assms show ?thesis
    by (simp add: createTenant_def keeps_refl split: sum.split)
next
  case (OpRegisterPlugin a k)
  with quiet_keeps [OF plugin_quiet assms] assms show ?thesis
    by (simp add: registerPlugin_def keeps_refl split: sum.split option.split)
next
  case (OpRegisterVersion q)
  have "quiet store valid (bindS (callStore (cs_putArtifact store h c)) (\<lambda>_. callStore (cs_createPluginVersion store r)))" for h c r
    by (intro quiet_bindS quiet_callStore artifact_quiet version_quiet)
  from quiet_keeps [OF this assms] assms OpRegisterVersion show ?thesis
    by (simp add: registerPluginVersion_def keeps_refl split: sum.split prod.split)
next
  case (OpInstall q)
  with install_keeps [OF assms] show ?thesis by simp
next
  case (OpUpdateConfig i c)
  have "keeps store valid s (snd (cs_updateInstallationConfig store i c' g s))" for c' g
    by (rule update_keeps [OF config_updates assms]) auto
  with OpUpdateConfig assms show ?thesis
    by (simp add: updateInstallationConfig_def keeps_refl split: sum.split prod.split)
next
  case (OpSetEnabled i b)
  have "keeps store valid s (snd (cs_setInstallationEnabled store i b s))"
    by (rule update_keeps [OF enabled_updates assms]) auto
  with OpSetEnabled assms show ?thesis
    by (simp add: setInstallationEnabled_def keeps_refl split: sum.split)
next
  case (OpSetPriority i n)
  have "keeps store valid s (snd (cs_updateInstallationPriority store i n s))"
    by (rule update_keeps [OF priority_updates assms]) auto
  with OpSetPriority assms show ?thesis
    by (simp add: updateInstallationPriority_def keeps_refl split: sum.split)
next
  case (OpRollback q)
  with rollback_keeps [OF assms] show ?thesis by simp
next
  case (OpDecide q)
  show ?thesis
  proof (cases "admitDecision store resolver q s")
    case (Inl e)
    with OpDecide assms show ?thesis by (simp add: decideApproval_def keeps_refl)
  next
    case (Inr a)
    obtain authorized approval where a: "a = (authorized, approval)" by fastforce
    let ?run = "map_option (\<lambda>f a p d. liftS (f a p d)) runner"
    have "quiet store valid (bindS (callStore (cs_decideApproval store u)) (\<lambda>updated.
        bindS (callStore (cs_writeExecution store x)) (\<lambda>_.
        case ?run of None \<Rightarrow> returnS updated
        | Some run \<Rightarrow> bindS (callStore (run y p d)) (\<lambda>record. bindS (callStore (cs_writeExecution store record)) (\<lambda>_. returnS updated)))))"
      for u x y p d
      by (cases runner) (auto intro!: quiet_bindS quiet_callStore quiet_pure decide_quiet execution_quiet)
    from quiet_keeps [OF this assms] OpDecide Inr a show ?thesis by (simp add: decideApproval_def)
  qed
qed

lemma api_run_keeps:
  assumes "valid s" "isolated store s"
  shows "keeps store valid s (fold (apiStep lib store runner resolver) ops s)"
  using assms
proof (induction ops arbitrary: s)
  case (Cons operation ops)
  have "keeps store valid s (apiStep lib store runner resolver operation s)" by (rule api_step_keeps [OF Cons.prems])
  with Cons.IH show ?case by (auto simp: keeps_def intro: preserves_trans)
qed (simp add: keeps_refl)

end

section \<open>The database provides the contract\<close>

text \<open>The keys of the tables are unique.\<close>

definition db_ok :: "cp_db \<Rightarrow> bool" where
  "db_ok db \<longleftrightarrow> distinct (map te_id (cd_tenants db)) \<and> distinct (map pl_id (cd_plugins db)) \<and>
     distinct (map (pv_id \<circ> vr_record) (cd_versions db)) \<and> distinct (map iw_id (cd_installations db))"

definition world_ok :: "cp_world \<Rightarrow> bool" where
  "world_ok w \<longleftrightarrow> db_ok (cw_db w)"

lemma d1_sel [simp]:
  "cs_findTenantById (d1ControlPlaneStore other at) i w = findTenantById i (cw_db w)"
  "cs_findPluginByKey (d1ControlPlaneStore other at) a k w = findPluginByKey a k (cw_db w)"
  "cs_findPluginVersionById (d1ControlPlaneStore other at) i w = findPluginVersionById i (cw_db w)"
  "cs_findPluginVersion (d1ControlPlaneStore other at) p v w = findPluginVersion p v (cw_db w)"
  "cs_findInstallationById (d1ControlPlaneStore other at) i w = findInstallationById i (cw_db w)"
  "cs_findApprovalById (d1ControlPlaneStore other at) i w = findApprovalById other i (cw_db w)"
  "cs_findAppById (d1ControlPlaneStore other at) i w = findAppById i (cw_db w)"
  "cs_createApp (d1ControlPlaneStore other at) r1 = onDb (createApp r1)"
  "cs_createTenant (d1ControlPlaneStore other at) r2 = onDb (insertTenant r2)"
  "cs_createPlugin (d1ControlPlaneStore other at) r3 = onDb (insertPlugin r3)"
  "cs_createPluginVersion (d1ControlPlaneStore other at) r4 = onDb (insertPluginVersion at r4)"
  "cs_createInstallation (d1ControlPlaneStore other at) r5 = onDb (insertInstallation r5)"
  "cs_updateInstallationConfig (d1ControlPlaneStore other at) i c g = onDb (storeInstallationConfig i c g)"
  "cs_setInstallationEnabled (d1ControlPlaneStore other at) i b = onDb (storeInstallationEnabled i b)"
  "cs_updateInstallationPriority (d1ControlPlaneStore other at) i n = onDb (storeInstallationPriority i n)"
  "cs_updateInstallationVersion (d1ControlPlaneStore other at) i v = onDb (storeInstallationVersion i v)"
  "cs_decideApproval (d1ControlPlaneStore other at) u = onDb (storeApprovalDecision other u)"
  "cs_writeExecution (d1ControlPlaneStore other at) x = onDb (writeExecution x)"
  by (simp_all add: d1ControlPlaneStore_def)

text \<open>What a statement must do to the tables to be quiet.\<close>

definition growsDb :: "cp_db \<Rightarrow> cp_db \<Rightarrow> bool" where
  "growsDb db db' \<longleftrightarrow>
     (\<exists>ts. cd_tenants db' = cd_tenants db @ ts) \<and> (\<exists>ps. cd_plugins db' = cd_plugins db @ ps) \<and>
     (\<exists>vs. cd_versions db' = cd_versions db @ vs)"

lemma growsDb_preserves:
  "growsDb (cw_db w) (cw_db w') \<Longrightarrow> preserves (d1ControlPlaneStore other at) w w'"
  by (auto simp: growsDb_def preserves_def findTenantById_def findPluginByKey_def findPluginVersionById_def find_append
      split: option.splits)

lemma quiet_onDb:
  assumes "\<And>db. db_ok db \<Longrightarrow> growsDb db (snd (m db)) \<and> db_ok (snd (m db)) \<and> cd_installations (snd (m db)) = cd_installations db"
  shows "quiet (d1ControlPlaneStore other at) world_ok (onDb m)"
proof -
  have "cw_db (snd (onDb m w)) = snd (m (cw_db w))" for w by (simp add: onDb_def split: prod.split)
  with assms show ?thesis
    by (auto simp: quiet_def world_ok_def installationsOf_def fun_eq_iff findInstallationById_def growsDb_preserves)
qed

lemma onDb_sel: "fst (onDb m w) = fst (m (cw_db w))" "cw_db (snd (onDb m w)) = snd (m (cw_db w))"
  by (simp_all add: onDb_def split: prod.split)

lemma updateInstallation_effect:
  assumes "\<And>x. iw_id (f x) = iw_id x"
  shows "case updateInstallation what i f db of
      (Inl _, db') \<Rightarrow> db' = db
    | (Inr r', db') \<Rightarrow> growsDb db db' \<and> (db_ok db' = db_ok db) \<and>
        (\<exists>x. List.find (\<lambda>x. iw_id x = i) (cd_installations db) = Some x \<and> r' = installationFromRow (f x)) \<and>
        (\<lambda>j. findInstallationById j db') = (\<lambda>j. findInstallationById j db)(i \<mapsto> r')"
proof -
  let ?g = "\<lambda>x. (f x)\<lparr>iw_revision := iw_revision x + 1\<rparr>"
  let ?rows = "updateWhere (\<lambda>x. iw_id x = i) ?g (cd_installations db)"
  have g: "iw_id (?g x) = iw_id x" "installationFromRow (?g x) = installationFromRow (f x)" for x
    using assms by (simp_all add: installationFromRow_def)
  have find: "List.find (\<lambda>x. iw_id x = j) ?rows =
      (if j = i then map_option ?g (List.find (\<lambda>x. iw_id x = j) (cd_installations db))
       else List.find (\<lambda>x. iw_id x = j) (cd_installations db))" for j
    using find_update [of iw_id ?g j i "cd_installations db"] g(1) by (simp add: updateWhere_def)
  have ids: "map iw_id ?rows = map iw_id (cd_installations db)"
    using g(1) by (simp add: updateWhere_def)
  show ?thesis
  proof (cases "List.find (\<lambda>x. iw_id x = i) (cd_installations db)")
    case None
    then have "?rows = cd_installations db"
      by (auto simp: updateWhere_def find_None intro: map_idI)
    with None find [of i] show ?thesis
      by (simp add: updateInstallation_def findInstallationById_def Let_def)
  next
    case (Some x)
    then have "db_ok (db\<lparr>cd_installations := ?rows\<rparr>) = db_ok db" using ids by (simp add: db_ok_def)
    with Some find g show ?thesis
      by (simp add: updateInstallation_def findInstallationById_def Let_def growsDb_def fun_eq_iff)
  qed
qed

lemma updatesOne_onDb:
  assumes "\<And>x. iw_id (f x) = iw_id x" "\<And>x. rel (installationFromRow x) (installationFromRow (f x))"
  shows "updatesOne (d1ControlPlaneStore other at) world_ok i rel (onDb (updateInstallation what i f))"
  unfolding updatesOne_def
proof (intro allI impI)
  fix w
  assume "world_ok w"
  obtain res db where u: "updateInstallation what i f (cw_db w) = (res, db)" by fastforce
  with updateInstallation_effect [where what = what and i = i and db = "cw_db w", OF assms(1)] assms(2) \<open>world_ok w\<close>
  show "updatedOne (d1ControlPlaneStore other at) world_ok i rel w (onDb (updateInstallation what i f) w)"
    by (cases res)
      (auto simp: updatedOne_def onDb_def world_ok_def installationsOf_def fun_eq_iff findInstallationById_def
        growsDb_def intro!: growsDb_preserves)
qed

lemma updatesOne_refused:
  assumes "updatesOne store valid i rel m" "\<And>s. \<not> P s \<Longrightarrow> m' s = m s" "\<And>s. P s \<Longrightarrow> m' s = (Inl e, s)"
  shows "updatesOne store valid i rel m'"
  unfolding updatesOne_def
proof (intro allI impI)
  fix s
  assume s: "valid s"
  show "updatedOne store valid i rel s (m' s)"
    using assms(1) assms(2,3) [of s] s by (cases "P s") (simp_all add: updatesOne_def updatedOne_def)
qed

lemma insert_quiet:
  "quiet (d1ControlPlaneStore other at) world_ok (onDb (createApp r1))"
  "quiet (d1ControlPlaneStore other at) world_ok (onDb (insertTenant r2))"
  "quiet (d1ControlPlaneStore other at) world_ok (onDb (insertPlugin r3))"
  "quiet (d1ControlPlaneStore other at) world_ok (onDb (insertPluginVersion at' r4))"
  by (rule quiet_onDb; auto simp: createApp_def insertTenant_def insertPlugin_def insertPluginVersion_def growsDb_def
      db_ok_def list_ex_iff split: sum.split; metis)+

lemma write_quiet:
  "quiet (d1ControlPlaneStore other at) world_ok (onDb (storeApprovalDecision other u))"
  "quiet (d1ControlPlaneStore other at) world_ok (onDb (writeExecution x))"
  by (rule quiet_onDb; auto simp: storeApprovalDecision_def writeExecution_def growsDb_def db_ok_def Let_def
      split: sum.split option.split)+

lemma artifact_quiet_d1: "quiet (d1ControlPlaneStore other at) world_ok (cs_putArtifact (d1ControlPlaneStore other at) h c)"
  by (auto simp: quiet_def d1ControlPlaneStore_def world_ok_def installationsOf_def preserves_def putArtifact_def fun_eq_iff)

lemma installationsOf_d1: "installationsOf (d1ControlPlaneStore other at) w = (\<lambda>j. findInstallationById j (cw_db w))"
  by (simp add: installationsOf_def fun_eq_iff)

lemma insertInstallation_effect:
  "case insertInstallation r db of
     (Inl _, db') \<Rightarrow> db' = db
   | (Inr r', db') \<Rightarrow> growsDb db db' \<and> (db_ok db \<longrightarrow> db_ok db') \<and> r' = r \<and> findInstallationById (in_id r) db = None \<and>
       (\<exists>stored. storedInstallation r stored \<and>
          (\<lambda>j. findInstallationById j db') = (\<lambda>j. findInstallationById j db)(in_id r \<mapsto> stored))"
proof (cases "bindE (jsonFields (in_config r)) (\<lambda>c. bindE (jsonFields (in_grants r)) (\<lambda>g. Inr (c, g)))")
  case (Inl e)
  then show ?thesis by (simp add: insertInstallation_def)
next
  case (Inr cg)
  obtain c g where cg: "cg = (c, g)" by fastforce
  with Inr have copies: "jsonFields (in_config r) = Inr c" "jsonFields (in_grants r) = Inr g" by (auto simp: bindE_Inr)
  let ?row = "\<lparr>iw_id = in_id r, iw_tenant_id = in_tenantId r, iw_plugin_version_id = in_pluginVersionId r,
               iw_enabled = (if in_enabled r then 1 else 0), iw_priority = in_priority r, iw_config_json = c,
               iw_grants_json = g, iw_revision = 0\<rparr>"
  have row: "installationFromRow ?row = r\<lparr>in_config := c, in_grants := g\<rparr>"
    by (cases r) (simp add: installationFromRow_def)
  then have stored: "storedInstallation r (installationFromRow ?row)" using copies by (auto simp: storedInstallation_def)
  show ?thesis
  proof (cases "list_ex (\<lambda>x. iw_id x = in_id r) (cd_installations db) \<or> findTenantById (in_tenantId r) db = None \<or>
             findPluginVersionById (in_pluginVersionId r) db = None \<or> in_priority r = NaN")
    case True
    then show ?thesis using Inr cg by (simp add: insertInstallation_def)
  next
    case False
    then have fresh: "List.find (\<lambda>x. iw_id x = in_id r) (cd_installations db) = None"
      "in_id r \<notin> iw_id ` set (cd_installations db)"
      by (auto simp: find_None list_ex_iff image_iff)
    have "(\<lambda>j. findInstallationById j (db\<lparr>cd_installations := cd_installations db @ [?row]\<rparr>)) =
        (\<lambda>j. findInstallationById j db)(in_id r \<mapsto> installationFromRow ?row)"
      using fresh(1) by (auto simp: findInstallationById_def find_append fun_eq_iff split: option.split)
    moreover have "db_ok db \<longrightarrow> db_ok (db\<lparr>cd_installations := cd_installations db @ [?row]\<rparr>)"
      using fresh(2) by (simp add: db_ok_def)
    ultimately show ?thesis
      using Inr cg False fresh(1) stored
      by (auto simp: insertInstallation_def growsDb_def findInstallationById_def)
  qed
qed

lemma config_updates_d1:
  "updatesOne (d1ControlPlaneStore other at) world_ok i (\<lambda>r r'. \<exists>c' g'. r' = r\<lparr>in_config := c', in_grants := g'\<rparr>)
     (onDb (storeInstallationConfig i c g))"
proof (cases "bindE (jsonFields c) (\<lambda>c. bindE (jsonFields g) (\<lambda>g. Inr (c, g)))")
  case (Inl e)
  then show ?thesis
    by (auto simp: updatesOne_def updatedOne_def onDb_def storeInstallationConfig_def)
next
  case (Inr cg)
  obtain c' g' where "cg = (c', g')" by fastforce
  with Inr have "storeInstallationConfig i c g = updateInstallation ''config'' i
      (\<lambda>x. x\<lparr>iw_config_json := c', iw_grants_json := g'\<rparr>)"
    by (simp add: storeInstallationConfig_def fun_eq_iff)
  then show ?thesis by (auto simp: installationFromRow_def intro!: updatesOne_onDb)
qed

lemma enabled_updates_d1:
  "updatesOne (d1ControlPlaneStore other at) world_ok i (\<lambda>r r'. r' = r\<lparr>in_enabled := b\<rparr>)
     (onDb (storeInstallationEnabled i b))"
  unfolding storeInstallationEnabled_def by (rule updatesOne_onDb) (simp_all add: installationFromRow_def)

lemma priority_updates_d1:
  "updatesOne (d1ControlPlaneStore other at) world_ok i (\<lambda>r r'. r' = r\<lparr>in_priority := n\<rparr>)
     (onDb (storeInstallationPriority i n))"
proof (rule updatesOne_refused [where P = "\<lambda>w. n = NaN \<and> findInstallationById i (cw_db w) \<noteq> None"])
  show "updatesOne (d1ControlPlaneStore other at) world_ok i (\<lambda>r r'. r' = r\<lparr>in_priority := n\<rparr>)
      (onDb (updateInstallation ''priority'' i (\<lambda>x. x\<lparr>iw_priority := n\<rparr>)))"
    by (rule updatesOne_onDb) (simp_all add: installationFromRow_def)
qed (auto simp: onDb_def storeInstallationPriority_def)

lemma version_updates_d1:
  "updatesOne (d1ControlPlaneStore other at) world_ok i (\<lambda>r r'. r' = r\<lparr>in_pluginVersionId := v\<rparr>)
     (onDb (storeInstallationVersion i v))"
proof (rule updatesOne_refused [where P = "\<lambda>w. findPluginVersionById v (cw_db w) = None \<and>
      findInstallationById i (cw_db w) \<noteq> None"])
  show "updatesOne (d1ControlPlaneStore other at) world_ok i (\<lambda>r r'. r' = r\<lparr>in_pluginVersionId := v\<rparr>)
      (onDb (updateInstallation ''version'' i (\<lambda>x. x\<lparr>iw_plugin_version_id := v\<rparr>)))"
    by (rule updatesOne_onDb) (simp_all add: installationFromRow_def)
qed (auto simp: onDb_def storeInstallationVersion_def)

interpretation d1: control_plane_store "d1ControlPlaneStore other at" world_ok for other at
proof (unfold_locales, goal_cases)
  case (8 w r)
  from 8 insertInstallation_effect [of "cw_db w" r] show ?case
    by (auto simp: onDb_def world_ok_def installationsOf_d1 intro!: growsDb_preserves split: prod.splits sum.splits)
next
  case (13 w p n ver)
  then obtain x where x: "x \<in> set (cd_versions (cw_db w))" "ver = vr_record x" "pv_pluginId (vr_record x) = p"
    by (auto simp: findPluginVersion_def dest: find_Some_in)
  with 13 find_distinct [of "pv_id \<circ> vr_record" "cd_versions (cw_db w)" x] show ?case
    by (simp add: findPluginVersionById_def world_ok_def db_ok_def)
next
  case (14 a k s plugin)
  then show ?case by (auto simp: findPluginByKey_def dest: find_Some_in)
qed (simp_all add: insert_quiet write_quiet artifact_quiet_d1 config_updates_d1 enabled_updates_d1 priority_updates_d1
    version_updates_d1)

end
