(* ===== verification/CpApiProperties.thy ===== *)
theory CpApiProperties
  imports CpApiContract
begin

text \<open>
  The properties of \<open>api.ts\<close> over the database: installations stay in the application of their
  tenant, what an installation is granted, who decides an approval, and that identifiers are
  unambiguous.
\<close>

section \<open>Applications stay apart\<close>

definition empty_world :: cp_world where
  "empty_world =
     \<lparr>cw_db = \<lparr>cd_apps = [], cd_tenants = [], cd_plugins = [], cd_versions = [], cd_installations = [],
              cd_approvals = [], cd_executions = [], cd_slack = []\<rparr>, cw_artifacts = []\<rparr>"

lemma empty_world_ok: "world_ok empty_world" "isolated (d1ControlPlaneStore other at) empty_world"
  by (simp_all add: empty_world_def world_ok_def db_ok_def isolated_def installationsOf_def findInstallationById_def)

text \<open>Every stored installation joins a tenant and a version of a plugin of one application.\<close>

definition installationsInApp :: "cp_db \<Rightarrow> bool" where
  "installationsInApp db \<longleftrightarrow>
     list_all (\<lambda>r. case (findTenantById (iw_tenant_id r) db, findPluginVersionById (iw_plugin_version_id r) db) of
        (Some t, Some v) \<Rightarrow>
          (case findPluginById (pv_pluginId v) db of Some p \<Rightarrow> pl_appId p = te_appId t | None \<Rightarrow> False)
      | _ \<Rightarrow> False) (cd_installations db)"

lemma isolated_rows:
  assumes "world_ok w" "isolated (d1ControlPlaneStore other at) w"
  shows "installationsInApp (cw_db w)"
  unfolding installationsInApp_def list_all_iff
proof
  fix r
  assume r: "r \<in> set (cd_installations (cw_db w))"
  with assms(1) have "List.find (\<lambda>x. iw_id x = iw_id r) (cd_installations (cw_db w)) = Some r"
    by (intro find_distinct) (simp_all add: world_ok_def db_ok_def)
  then have "installationsOf (d1ControlPlaneStore other at) w (iw_id r) = Some (installationFromRow r)"
    by (simp add: installationsOf_def findInstallationById_def)
  with assms(2) obtain t v k p where t: "findTenantById (iw_tenant_id r) (cw_db w) = Some t"
    "findPluginVersionById (iw_plugin_version_id r) (cw_db w) = Some v"
    "findPluginByKey (te_appId t) k (cw_db w) = Some p" "pl_id p = pv_pluginId v"
    by (fastforce simp: isolated_def installationFromRow_def)
  then have p: "p \<in> set (cd_plugins (cw_db w))" "pl_appId p = te_appId t"
    by (auto simp: findPluginByKey_def dest: find_Some_in)
  then have "findPluginById (pl_id p) (cw_db w) = Some p"
    using assms(1) unfolding findPluginById_def by (intro find_distinct) (simp_all add: world_ok_def db_ok_def)
  with t p show "case (findTenantById (iw_tenant_id r) (cw_db w), findPluginVersionById (iw_plugin_version_id r) (cw_db w)) of
        (Some t, Some v) \<Rightarrow>
          (case findPluginById (pv_pluginId v) (cw_db w) of Some p \<Rightarrow> pl_appId p = te_appId t | None \<Rightarrow> False)
      | _ \<Rightarrow> False" by simp
qed

text \<open>A run of the API over the database; each operation comes with the time of its statements.\<close>

definition apiRun ::
  "manifest_lib \<Rightarrow> (string \<Rightarrow> int option) \<Rightarrow>
   (ApprovalRecord \<Rightarrow> ApprovalDecisionPayload \<Rightarrow> int option \<Rightarrow> (string, ExecutionRecord) outcome) option \<Rightarrow>
   (string \<Rightarrow> api_identity option) option \<Rightarrow> (int \<times> api_op) list \<Rightarrow> cp_world \<Rightarrow> cp_world" where
  "apiRun lib other runner resolver =
     fold (\<lambda>(at, operation). apiStep lib (d1ControlPlaneStore other at) runner resolver operation)"

lemma keeps_any_time:
  "keeps (d1ControlPlaneStore other at) world_ok w w' = keeps (d1ControlPlaneStore other' at') world_ok w w'"
  by (simp add: keeps_def preserves_def isolated_def installationsOf_d1)

lemma apiRun_keeps:
  assumes "keeps (d1ControlPlaneStore other 0) world_ok w w"
  shows "keeps (d1ControlPlaneStore other 0) world_ok w (apiRun lib other runner resolver ops w)"
  using assms
proof (induction ops arbitrary: w)
  case (Cons timed ops)
  obtain at operation where t: "timed = (at, operation)" by fastforce
  let ?w' = "apiStep lib (d1ControlPlaneStore other at) runner resolver operation w"
  from Cons.prems have "keeps (d1ControlPlaneStore other at) world_ok w w" by (metis keeps_any_time)
  then have "keeps (d1ControlPlaneStore other at) world_ok w ?w'"
    by (intro d1.api_step_keeps) (simp_all add: keeps_def)
  then have step: "keeps (d1ControlPlaneStore other 0) world_ok w ?w'" by (metis keeps_any_time)
  then have "keeps (d1ControlPlaneStore other 0) world_ok ?w' (apiRun lib other runner resolver ops ?w')"
    by (intro Cons.IH) (simp add: keeps_def)
  with step show ?case by (auto simp: t apiRun_def keeps_def intro: preserves_trans)
qed (simp add: apiRun_def)

text \<open>
  C19: Whatever operations of the API run, in any order and with any results, every stored
  installation joins a tenant and a plugin version whose plugin belongs to the tenant's application;
  and a registered plugin version (its manifest and artifact hash) is never changed or removed by
  the operations that follow.
\<close>

theorem installations_stay_in_app:
  assumes "findPluginVersionById i (cw_db (apiRun lib other runner resolver before empty_world)) = Some v"
  shows "let w = apiRun lib other runner resolver (before @ after) empty_world
    in installationsInApp (cw_db w) \<and> findPluginVersionById i (cw_db w) = Some v"
proof -
  let ?w = "apiRun lib other runner resolver before empty_world"
  have "keeps (d1ControlPlaneStore other 0) world_ok empty_world ?w"
    by (rule apiRun_keeps) (simp add: keeps_def empty_world_ok)
  then have "keeps (d1ControlPlaneStore other 0) world_ok ?w (apiRun lib other runner resolver after ?w)"
    by (intro apiRun_keeps) (simp add: keeps_def)
  moreover have "apiRun lib other runner resolver (before @ after) empty_world =
      apiRun lib other runner resolver after ?w" by (simp add: apiRun_def)
  ultimately show ?thesis using assms isolated_rows by (auto simp: keeps_def preserves_def Let_def)
qed

section \<open>Identifiers\<close>

fun unescapePart :: "string \<Rightarrow> string" where
  "unescapePart [] = []"
| "unescapePart (c # s) =
     (if c = CHR ''%'' then (if take 2 s = ''25'' then CHR ''%'' else CHR '':'') # unescapePart (drop 2 s)
      else c # unescapePart s)"

lemma escape_char:
  "escapeStableIdPart (c # s) =
     (if c = CHR ''%'' then ''%25'' else if c = CHR '':'' then ''%3A'' else [c]) @ escapeStableIdPart s"
  by (simp add: escapeStableIdPart_def)

lemma escape_Nil: "escapeStableIdPart [] = []"
  by (simp add: escapeStableIdPart_def)

lemma unescape_escape: "unescapePart (escapeStableIdPart s) = s"
  by (induction s) (simp_all add: escape_char escape_Nil)

lemma escape_no_colon: "CHR '':'' \<notin> set (escapeStableIdPart s)"
  by (induction s) (auto simp: escape_char escape_Nil)

text \<open>The parts of an identifier, read back.\<close>

definition stableIdParts :: "string \<Rightarrow> string list" where
  "stableIdParts i = map unescapePart (split_on CHR '':'' i)"

text \<open>
  Identifiers are unambiguous: the parts of a stable identifier can be read back from it,
  whatever colons and percent signs they contain. So plugins of different applications or keys,
  versions of different plugins, and Slack connections of different tenants or workspaces never
  share an identifier, and neither do identifiers of different kinds.
\<close>

theorem stable_ids_injective:
  "(parts \<noteq> [] \<longrightarrow> stableIdParts (stableId parts) = parts) \<and>
   (pluginIdFor a k = pluginIdFor a' k' \<longleftrightarrow> a = a' \<and> k = k') \<and>
   (pluginVersionIdFor p v = pluginVersionIdFor p' v' \<longleftrightarrow> p = p' \<and> v = v') \<and>
   (slackConnectionId t w = slackConnectionId t' w' \<longleftrightarrow> t = t' \<and> w = w') \<and>
   pluginIdFor a k \<noteq> pluginVersionIdFor p v"
proof -
  have parts: "stableIdParts (stableId ps) = ps" if "ps \<noteq> []" for ps
  proof -
    have "split_on CHR '':'' (join [CHR '':''] (map escapeStableIdPart ps)) = map escapeStableIdPart ps"
      using that escape_no_colon by (intro split_on_join) auto
    then show ?thesis by (simp add: stableIdParts_def stableId_def unescape_escape comp_def)
  qed
  have inj: "stableId ps = stableId qs \<longleftrightarrow> ps = qs" if "ps \<noteq> []" "qs \<noteq> []" for ps qs
    by (metis parts that)
  show ?thesis
    by (simp add: parts inj pluginIdFor_def pluginVersionIdFor_def slackConnectionId_def)
qed

theorem stable_ids_injective_witness:
  "stableIdParts (stableId [''plugin'', ''a:b%'', ''c'']) = [''plugin'', ''a:b%'', ''c'']"
  using stable_ids_injective [of "[''plugin'', ''a:b%'', ''c'']"] by blast

section \<open>Installing\<close>

lemma resolveRequiredGrants_Inr [simp]:
  "resolveRequiredGrants m c = Inr g \<longleftrightarrow> resolveGrants (mf_capabilities m) c = Inr g"
  by (simp add: resolveRequiredGrants_def split: sum.split)

text \<open>
  An installation is granted exactly what its version's manifest requires. A successful
  \<open>installPlugin\<close> found the plugin and the tenant in the request's application, validated the
  configuration against the manifest of the requested version, resolved the manifest's grants with
  it and found them equal to the grants the caller consented to; the new row holds these (as JSON
  gives them back) and no other installation changes. A failure changes nothing.
\<close>

theorem install_plugin_grants:
  assumes "installPlugin lib (d1ControlPlaneStore other at) q w = (res, w')"
  shows "case res of
      Inl e \<Rightarrow> w' = w
    | Inr r \<Rightarrow> \<exists>p t v stored.
        findPluginByKey (iq_appId q) (iq_pluginKey q) (cw_db w) = Some p \<and>
        findTenantById (iq_tenantId q) (cw_db w) = Some t \<and> te_appId t = iq_appId q \<and>
        findPluginVersion (pl_id p) (iq_version q) (cw_db w) = Some v \<and>
        validateInstallationConfig lib (pv_manifest v) (iq_config q) = Inr (in_config r) \<and>
        resolveGrants (mf_capabilities (pv_manifest v)) (in_config r) = Inr (in_grants r) \<and>
        deepEqual (JObj PlainObj (in_grants r)) (JObj PlainObj (iq_grants q)) = Inr True \<and>
        in_tenantId r = iq_tenantId q \<and> in_pluginVersionId r = pv_id v \<and>
        findInstallationById (iq_id q) (cw_db w) = None \<and> storedInstallation r stored \<and>
        (\<lambda>j. findInstallationById j (cw_db w')) = (\<lambda>j. findInstallationById j (cw_db w))(iq_id q \<mapsto> stored)"
proof (cases "bindE (requirePlugin (d1ControlPlaneStore other at) (iq_appId q) (iq_pluginKey q) w) (\<lambda>plugin.
           bindE (requirePluginVersion (d1ControlPlaneStore other at) (pl_id plugin) (iq_version q) w) (\<lambda>version.
           bindE (requireTenantInApp (d1ControlPlaneStore other at) (iq_tenantId q) (iq_appId q) w) (\<lambda>_.
           bindE (validateInstallationGrants lib (pv_manifest version) (iq_config q) (iq_grants q)) (\<lambda>cg.
             Inr (version, cg)))))")
  case (Inl e)
  with assms show ?thesis by (auto simp: installPlugin_def)
next
  case (Inr a)
  obtain v c g where a: "a = (v, c, g)" by (cases a) auto
  let ?r = "\<lparr>in_id = iq_id q, in_tenantId = iq_tenantId q, in_pluginVersionId = pv_id v,
             in_enabled = (case iq_enabled q of None \<Rightarrow> True | Some b \<Rightarrow> b), in_priority = iq_priority q,
             in_config = c, in_grants = g\<rparr>"
  from Inr a obtain p t where found: "findPluginByKey (iq_appId q) (iq_pluginKey q) (cw_db w) = Some p"
    "findTenantById (iq_tenantId q) (cw_db w) = Some t" "te_appId t = iq_appId q"
    "findPluginVersion (pl_id p) (iq_version q) (cw_db w) = Some v"
    "validateInstallationGrants lib (pv_manifest v) (iq_config q) (iq_grants q) = Inr (c, g)"
    by (auto simp: bindE_Inr requirePlugin_def requirePluginVersion_def requireTenantInApp_def
        split: option.splits if_splits)
  then have grants: "validateInstallationConfig lib (pv_manifest v) (iq_config q) = Inr c"
    "resolveGrants (mf_capabilities (pv_manifest v)) c = Inr g"
    "deepEqual (JObj PlainObj g) (JObj PlainObj (iq_grants q)) = Inr True"
    by (auto simp: validateInstallationGrants_def bindE_Inr)
  have run: "installPlugin lib (d1ControlPlaneStore other at) q w = callStore (onDb (insertInstallation ?r)) w"
    using Inr a by (simp add: installPlugin_def)
  obtain x db where x: "insertInstallation ?r (cw_db w) = (x, db)" by fastforce
  note effect = insertInstallation_effect [of "cw_db w" ?r, unfolded x prod.case]
  show ?thesis
  proof (cases x)
    case (Inl e)
    with effect assms show ?thesis by (auto simp: run x onDb_def callStore_def)
  next
    case (Inr r')
    with effect have "r' = ?r" and fresh: "findInstallationById (iq_id q) (cw_db w) = None"
      and stored: "\<exists>stored. storedInstallation ?r stored \<and>
        (\<lambda>j. findInstallationById j db) = (\<lambda>j. findInstallationById j (cw_db w))(iq_id q \<mapsto> stored)" by simp_all
    with Inr assms have res: "res = Inr ?r" "w' = w\<lparr>cw_db := db\<rparr>"
      by (auto simp: run x onDb_def callStore_def)
    show ?thesis using found(1-4) grants fresh stored unfolding res sum.case
      by (intro exI [of _ p] exI [of _ t] exI [of _ v]) simp
  qed
qed

section \<open>Deciding approvals\<close>

lemma admitDecision_Inr:
  assumes "admitDecision (d1ControlPlaneStore other at) resolver q w = Inr (authorized, approval)"
  shows "findApprovalById other (dq_id q) (cw_db w) = Some approval" "ap_tenantId approval = dq_tenantId q"
    "ap_state approval = StatePending"
    "case resolver of
       None \<Rightarrow> authorized = q
     | Some resolve \<Rightarrow> \<exists>token i. dq_authToken q = Some token \<and> resolve token = Some i \<and>
         canRolePerform (di_role i) ''approval:decide'' \<and>
         (ap_role approval = ''manager'' \<or> normalizeRbacRole (di_role i) = normalizeRbacRole (ap_role approval)) \<and>
         (case di_allowedOperations i of None \<Rightarrow> True | Some ops \<Rightarrow> ''approval:decide'' \<in> set ops) \<and>
         (case di_tenantId i of None \<Rightarrow> True | Some t \<Rightarrow> t = dq_tenantId q) \<and>
         authorized = q\<lparr>dq_actor := di_subject i\<rparr>"
  using assms
  by (auto simp: admitDecision_def bindE_Inr requireApproval_def authorizeApprovalRole_def resolve_table
      transition_row_def resolveApprovalDecisionIdentity_def Let_def split: option.splits if_splits)

lemma storeApprovalDecision_other:
  assumes "j \<noteq> du_id u"
  shows "findApprovalById other j (snd (storeApprovalDecision other u db)) = findApprovalById other j db"
proof (cases "isoText (du_decidedAt u)")
  case (Inl e)
  then show ?thesis by (simp add: storeApprovalDecision_def)
next
  case (Inr t)
  let ?f = "\<lambda>x. x\<lparr>aw_state := decision_state (du_decision u), aw_decided_by := Some (du_decidedBy u),
                    aw_decision_reason := du_decisionReason u, aw_decided_at := Some t\<rparr>"
  have "cd_approvals (snd (storeApprovalDecision other u db)) = updateWhere (\<lambda>x. aw_id x = du_id u) ?f (cd_approvals db)"
    using Inr by (simp add: storeApprovalDecision_def Let_def split: option.split)
  then show ?thesis
    using find_update [of aw_id ?f j "du_id u" "cd_approvals db"] assms by (simp add: findApprovalById_def updateWhere_def)
qed

lemma storeApprovalDecision_Inr:
  assumes "storeApprovalDecision other u db = (Inr r, db')"
  shows "findApprovalById other (du_id u) db' = Some r" "ap_state r = decision_state (du_decision u)"
    "ap_decidedBy r = Some (du_decidedBy u)"
    "cd_installations db' = cd_installations db"
proof -
  let ?f = "\<lambda>t x. x\<lparr>aw_state := decision_state (du_decision u), aw_decided_by := Some (du_decidedBy u),
                    aw_decision_reason := du_decisionReason u, aw_decided_at := Some t\<rparr>"
  from assms obtain t where t: "db' = db\<lparr>cd_approvals := updateWhere (\<lambda>x. aw_id x = du_id u) (?f t) (cd_approvals db)\<rparr>"
    and r: "findApprovalById other (du_id u) db' = Some r"
    by (auto simp: storeApprovalDecision_def Let_def split: sum.splits option.splits)
  have find: "List.find (\<lambda>x. aw_id x = j) (cd_approvals db') =
      (if j = du_id u then map_option (?f t) (List.find (\<lambda>x. aw_id x = j) (cd_approvals db))
       else List.find (\<lambda>x. aw_id x = j) (cd_approvals db))" for j
    using find_update [of aw_id "?f t" j "du_id u" "cd_approvals db"] by (simp add: t updateWhere_def)
  show "findApprovalById other (du_id u) db' = Some r" by (rule r)
  show "ap_state r = decision_state (du_decision u)" "ap_decidedBy r = Some (du_decidedBy u)"
    using r find [of "du_id u"] by (auto simp: findApprovalById_def approvalFromRow_def)
  show "cd_installations db' = cd_installations db" by (simp add: t)
qed

lemma writeExecution_approvals: "cd_approvals (snd (writeExecution r db)) = cd_approvals db"
  by (simp add: writeExecution_def split: sum.split)

text \<open>The approvals after a decision are those after its first statement.\<close>

lemma decideApproval_approvals:
  assumes "admitDecision (d1ControlPlaneStore other at) resolver q w = Inr (authorized, approval)"
  defines "u \<equiv> \<lparr>du_id = dq_id authorized, du_decision = dq_decision authorized, du_decidedBy = dq_actor authorized,
             du_decisionReason = dq_reason authorized, du_decidedAt = dq_decidedAt authorized\<rparr>"
  shows "cd_approvals (cw_db (snd (decideApproval (d1ControlPlaneStore other at)
      (map_option (\<lambda>f a p d. liftS (f a p d)) runner) resolver q w))) = cd_approvals (snd (storeApprovalDecision other u (cw_db w)))"
    "fst (decideApproval (d1ControlPlaneStore other at) (map_option (\<lambda>f a p d. liftS (f a p d)) runner) resolver q w) = Inr r
     \<Longrightarrow> fst (storeApprovalDecision other u (cw_db w)) = Inr r"
proof -
  have sel: "cd_approvals (cw_db (snd (callStore (onDb (writeExecution x)) v))) = cd_approvals (cw_db v)" for x v
    by (simp add: onDb_sel writeExecution_approvals)
  show "cd_approvals (cw_db (snd (decideApproval (d1ControlPlaneStore other at)
      (map_option (\<lambda>f a p d. liftS (f a p d)) runner) resolver q w))) = cd_approvals (snd (storeApprovalDecision other u (cw_db w)))"
    using assms(1) by (cases runner)
      (simp_all add: decideApproval_def bindS_snd onDb_sel writeExecution_approvals u_def split: sum.split)
  assume "fst (decideApproval (d1ControlPlaneStore other at) (map_option (\<lambda>f a p d. liftS (f a p d)) runner) resolver q w) = Inr r"
  then show "fst (storeApprovalDecision other u (cw_db w)) = Inr r"
    using assms(1) by (cases runner)
      (auto simp: decideApproval_def bindS_def callStore_def onDb_def u_def split: sum.splits prod.splits)
qed

text \<open>
  With an identity resolver, a decision is stored only for a token of an identity that may
  decide approvals in the approval's tenant and holds the required role, on a pending approval of
  that tenant; the approval then has the decided state and names the identity, not the caller, as
  its decider. A settled approval is never decided again, and no decision touches another approval,
  whatever the request, the continuation and the failures on the way.
\<close>

theorem approval_decided_once_by_authorized:
  fixes other at runner resolve q w
  defines "out \<equiv> decideApproval (d1ControlPlaneStore other at) (map_option (\<lambda>f a p d. liftS (f a p d)) runner)
      (Some resolve) q w"
  shows "(case fst out of
       Inl _ \<Rightarrow> True
     | Inr r \<Rightarrow> \<exists>token i a. dq_authToken q = Some token \<and> resolve token = Some i \<and>
         canRolePerform (di_role i) ''approval:decide'' \<and>
         (case di_tenantId i of None \<Rightarrow> True | Some t \<Rightarrow> t = dq_tenantId q) \<and>
         (case di_allowedOperations i of None \<Rightarrow> True | Some ops \<Rightarrow> ''approval:decide'' \<in> set ops) \<and>
         findApprovalById other (dq_id q) (cw_db w) = Some a \<and> ap_tenantId a = dq_tenantId q \<and>
         ap_state a = StatePending \<and>
         (ap_role a = ''manager'' \<or> normalizeRbacRole (di_role i) = normalizeRbacRole (ap_role a)) \<and>
         findApprovalById other (dq_id q) (cw_db (snd out)) = Some r \<and>
         ap_state r = decision_state (dq_decision q) \<and> ap_decidedBy r = Some (di_subject i)) \<and>
   (\<forall>j a. findApprovalById other j (cw_db w) = Some a \<and> (ap_state a \<noteq> StatePending \<or> j \<noteq> dq_id q) \<longrightarrow>
      findApprovalById other j (cw_db (snd out)) = Some a)"
proof (cases "admitDecision (d1ControlPlaneStore other at) (Some resolve) q w")
  case (Inl e)
  then show ?thesis by (simp add: out_def decideApproval_def)
next
  case (Inr x)
  obtain authorized approval where "x = (authorized, approval)" by fastforce
  with Inr have adm: "admitDecision (d1ControlPlaneStore other at) (Some resolve) q w = Inr (authorized, approval)" by simp
  note a = admitDecision_Inr [OF adm]
  from a(4) obtain token i where i: "dq_authToken q = Some token" "resolve token = Some i"
    "canRolePerform (di_role i) ''approval:decide''"
    "ap_role approval = ''manager'' \<or> normalizeRbacRole (di_role i) = normalizeRbacRole (ap_role approval)"
    "case di_allowedOperations i of None \<Rightarrow> True | Some ops \<Rightarrow> ''approval:decide'' \<in> set ops"
    "case di_tenantId i of None \<Rightarrow> True | Some t \<Rightarrow> t = dq_tenantId q" "authorized = q\<lparr>dq_actor := di_subject i\<rparr>"
    by auto
  define u where "u = \<lparr>du_id = dq_id authorized, du_decision = dq_decision authorized, du_decidedBy = dq_actor authorized,
             du_decisionReason = dq_reason authorized, du_decidedAt = dq_decidedAt authorized\<rparr>"
  have u: "du_id u = dq_id q" "du_decision u = dq_decision q" "du_decidedBy u = di_subject i"
    using i(7) by (simp_all add: u_def)
  note decided = decideApproval_approvals [OF adm, of runner, folded u_def out_def]
  have found: "findApprovalById other j (cw_db (snd out)) = findApprovalById other j (snd (storeApprovalDecision other u (cw_db w)))" for j
    using decided(1) by (simp add: findApprovalById_def)
  have kept: "findApprovalById other j (snd (storeApprovalDecision other u (cw_db w))) = findApprovalById other j (cw_db w)"
    if "j \<noteq> dq_id q" for j
    using that storeApprovalDecision_other [of j u other "cw_db w"] u(1) by simp
  have "case fst out of Inl _ \<Rightarrow> True
      | Inr r \<Rightarrow> findApprovalById other (dq_id q) (cw_db (snd out)) = Some r \<and>
          ap_state r = decision_state (dq_decision q) \<and> ap_decidedBy r = Some (di_subject i)"
  proof (cases "fst out")
    case (Inr r)
    then obtain db where s: "storeApprovalDecision other u (cw_db w) = (Inr r, db)"
      using decided(2) [of r] by (metis out_def prod.collapse)
    from storeApprovalDecision_Inr(1-3) [OF s] found [of "dq_id q"] u s show ?thesis by (simp add: Inr)
  qed simp
  moreover have "findApprovalById other j (cw_db (snd out)) = Some b"
    if "findApprovalById other j (cw_db w) = Some b" "ap_state b \<noteq> StatePending \<or> j \<noteq> dq_id q" for j b
    using that found kept a(1,3) by (cases "j = dq_id q") auto
  ultimately show ?thesis using a i by (auto split: sum.split)
qed

section \<open>Examples and observations\<close>

definition example_requirement :: "string \<Rightarrow> (string \<times> jsval) list \<Rightarrow> Manifest" where
  "example_requirement version capabilities =
     example_manifest\<lparr>mf_version := version, mf_capabilities := capabilities\<rparr>"

text \<open>Version 1 needs no capability, version 2 may fetch.\<close>

definition example_lib :: manifest_lib where
  "example_lib =
     \<lparr>ml_decode = (\<lambda>v. Some (if v = JNull then example_requirement ''1.0.0'' []
                            else example_requirement ''2.0.0'' [(''http.fetch'', JObj PlainObj [(''methods'', JArr [JStr ''GET''])])])),
      ml_issues = (\<lambda>_. []), ml_validRange = (\<lambda>_. True), ml_schemaParse = Inr, ml_recordParse = Inr\<rparr>"

definition example_setup :: "(int \<times> api_op) list" where
  "example_setup =
     [(0, OpCreateApp \<lparr>ar_id = ''app'', ar_name = ''App''\<rparr>),
      (0, OpCreateTenant \<lparr>te_id = ''t1'', te_appId = ''app'', te_name = ''Tenant''\<rparr>),
      (0, OpRegisterPlugin ''app'' ''notify''),
      (1, OpRegisterVersion \<lparr>rv_appId = ''app'', rv_pluginKey = ''notify'', rv_version = ''1.0.0'', rv_manifest = JNull,
            rv_artifactHash = ''h1'', rv_artifact = ''code1''\<rparr>),
      (2, OpRegisterVersion \<lparr>rv_appId = ''app'', rv_pluginKey = ''notify'', rv_version = ''2.0.0'', rv_manifest = JUndef,
            rv_artifactHash = ''h2'', rv_artifact = ''code2''\<rparr>)]"

definition example_install_request :: InstallPluginRequest where
  "example_install_request =
     \<lparr>iq_id = ''i1'', iq_appId = ''app'', iq_tenantId = ''t1'', iq_pluginKey = ''notify'', iq_version = ''2.0.0'',
      iq_config = [], iq_grants = [(''http.fetch'', JObj PlainObj [(''methods'', JArr [JStr ''GET''])])],
      iq_priority = NInt 10, iq_enabled = None\<rparr>"

definition example_installed :: cp_world where
  "example_installed =
     apiRun example_lib (\<lambda>_. None) None None (example_setup @ [(3, OpInstall example_install_request)]) empty_world"

lemma example_installed_rows:
  "map (\<lambda>r. (iw_id r, iw_plugin_version_id r, iw_grants_json r)) (cd_installations (cw_db example_installed)) =
     [(''i1'', ''plugin-version:plugin%3Aapp%3Anotify:2.0.0'', [(''http.fetch'', JObj PlainObj [(''methods'', JArr [JStr ''GET''])])])]"
  by code_simp

lemma example_version_found:
  "map_option pv_artifactHash (findPluginVersionById (pluginVersionIdFor (pluginIdFor ''app'' ''notify'') ''1.0.0'')
     (cw_db (apiRun example_lib (\<lambda>_. None) None None example_setup empty_world))) = Some ''h1''"
  by code_simp

theorem installations_stay_in_app_witness:
  "installationsInApp (cw_db example_installed) \<and>
   map_option pv_artifactHash (findPluginVersionById (pluginVersionIdFor (pluginIdFor ''app'' ''notify'') ''1.0.0'')
     (cw_db example_installed)) = Some ''h1''"
proof -
  obtain v where v: "findPluginVersionById (pluginVersionIdFor (pluginIdFor ''app'' ''notify'') ''1.0.0'')
     (cw_db (apiRun example_lib (\<lambda>_. None) None None example_setup empty_world)) = Some v" "pv_artifactHash v = ''h1''"
    using example_version_found by auto
  from installations_stay_in_app [OF v(1), of "[(3, OpInstall example_install_request)]"] v(2)
  show ?thesis by (simp add: example_installed_def Let_def)
qed

theorem install_plugin_grants_witness:
  "let w = apiRun example_lib (\<lambda>_. None) None None example_setup empty_world in
   case fst (installPlugin example_lib (d1ControlPlaneStore (\<lambda>_. None) 3) example_install_request w) of
     Inl _ \<Rightarrow> False
   | Inr r \<Rightarrow> findInstallationById ''i1'' (cw_db w) = None \<and> in_tenantId r = ''t1''"
proof -
  let ?w = "apiRun example_lib (\<lambda>_. None) None None example_setup empty_world"
  let ?out = "installPlugin example_lib (d1ControlPlaneStore (\<lambda>_. None) 3) example_install_request ?w"
  have "case fst ?out of Inl _ \<Rightarrow> False | Inr _ \<Rightarrow> True" by code_simp
  moreover obtain res w' where out: "?out = (res, w')" by fastforce
  ultimately obtain r where r: "res = Inr r" by (cases res) simp_all
  from install_plugin_grants [OF out] show ?thesis
    unfolding Let_def out fst_conv r by (auto simp: example_install_request_def)
qed

definition example_rollback_request :: RollbackInstallationRequest where
  "example_rollback_request =
     \<lparr>rb_auditId = ''audit'', rb_appId = ''app'', rb_installationId = ''i1'', rb_pluginKey = ''notify'',
      rb_targetVersion = ''1.0.0'', rb_actor = ''ann'', rb_reason = None, rb_createdAt = Some 0\<rparr>"

text \<open>
  A rollback moves the pin of the version only: the installation runs version 1, whose manifest
  requires no capability, with the grant of version 2.
\<close>

lemma rollback_keeps_newer_grants:
  "let w = apiRun example_lib (\<lambda>_. None) None None [(4, OpRollback example_rollback_request)] example_installed
   in map (\<lambda>r. (iw_plugin_version_id r, map fst (iw_grants_json r))) (cd_installations (cw_db w)) =
        [(pluginVersionIdFor (pluginIdFor ''app'' ''notify'') ''1.0.0'', [''http.fetch''])] \<and>
      map (\<lambda>v. (pv_id (vr_record v), map fst (mf_capabilities (pv_manifest (vr_record v))))) (cd_versions (cw_db w)) =
        [(pluginVersionIdFor (pluginIdFor ''app'' ''notify'') ''1.0.0'', []),
         (pluginVersionIdFor (pluginIdFor ''app'' ''notify'') ''2.0.0'', [''http.fetch''])]"
  by code_simp

text \<open>A pending approval is decided whatever its time of expiry is.\<close>

lemma decide_ignores_expiry:
  assumes "findApprovalById other (dq_id q) (cw_db w) = Some a" "ap_tenantId a = dq_tenantId q"
    and "ap_state a = StatePending" "dq_decidedAt q = Some now"
    and "findTenantById (ap_tenantId a) (cw_db w) = Some t" "findPluginById (ap_pluginId a) (cw_db w) = Some p"
    and "cd_executions (cw_db w) = []"
  shows "\<exists>r w'. decideApproval (d1ControlPlaneStore other at) None None q w = (Inr r, w') \<and> ap_expiresAt r = ap_expiresAt a"
proof -
  have adm: "admitDecision (d1ControlPlaneStore other at) None q w = Inr (q, a)"
    using assms(1-3)
    by (simp add: admitDecision_def resolveApprovalDecisionIdentity_def requireApproval_def required_def
        authorizeApprovalRole_def resolve_table transition_row_def Let_def)
  let ?f = "\<lambda>x. x\<lparr>aw_state := decision_state (dq_decision q), aw_decided_by := Some (dq_actor q),
                    aw_decision_reason := dq_reason q, aw_decided_at := Some (toISOString now)\<rparr>"
  let ?db = "(cw_db w)\<lparr>cd_approvals := updateWhere (\<lambda>x. aw_id x = dq_id q) ?f (cd_approvals (cw_db w))\<rparr>"
  obtain row where row: "List.find (\<lambda>x. aw_id x = dq_id q) (cd_approvals (cw_db w)) = Some row" "a = approvalFromRow other row"
    using assms(1) by (auto simp: findApprovalById_def)
  have found: "findApprovalById other (dq_id q) ?db = Some (approvalFromRow other (?f row))"
    using find_update [of aw_id ?f "dq_id q" "dq_id q" "cd_approvals (cw_db w)"] row
    by (simp add: findApprovalById_def updateWhere_def)
  have same: "findTenantById i ?db = findTenantById i (cw_db w)" "findPluginById i ?db = findPluginById i (cw_db w)" for i
    by (simp_all add: findTenantById_def findPluginById_def)
  show ?thesis
    using adm found assms(4-7) row(2) same
    by (simp add: decideApproval_def bindS_def callStore_def onDb_def storeApprovalDecision_def isoText_def Let_def
        writeExecution_def approvalDecisionAuditRecord_def approvalFromRow_def)
qed

definition example_approval_row :: "string \<Rightarrow> DecisionState \<Rightarrow> ApprovalRow" where
  "example_approval_row i state =
     \<lparr>aw_id = i, aw_tenant_id = ''t1'', aw_plugin_id = ''p1'', aw_role = ''manager'', aw_subject_json = [],
      aw_resume_hook = ''resume'', aw_state = state, aw_expires_at = ''later'', aw_created_at = ''now'',
      aw_decided_by = None, aw_decision_reason = None, aw_decided_at = None\<rparr>"

definition example_approvals :: cp_world where
  "example_approvals =
     empty_world\<lparr>cw_db := (cw_db empty_world)\<lparr>
       cd_tenants := [\<lparr>te_id = ''t1'', te_appId = ''app'', te_name = ''Tenant''\<rparr>],
       cd_plugins := [\<lparr>pl_id = ''p1'', pl_appId = ''app'', pl_key = ''notify''\<rparr>],
       cd_approvals := [example_approval_row ''a1'' StatePending, example_approval_row ''a2'' StateRejected]\<rparr>\<rparr>"

definition example_decision :: "string \<Rightarrow> DecideApprovalRequest" where
  "example_decision i =
     \<lparr>dq_id = i, dq_tenantId = ''t1'', dq_decision = DecideApproved, dq_actor = ''mallory'', dq_auditId = ''audit'',
      dq_reason = None, dq_decidedAt = Some 5, dq_authToken = Some ''token''\<rparr>"

definition example_manager :: api_identity where
  "example_manager = \<lparr>di_subject = ''ann'', di_role = ''manager'', di_tenantId = Some ''t1'', di_allowedOperations = None\<rparr>"

lemma example_decided:
  "\<exists>r. fst (decideApproval (d1ControlPlaneStore (\<lambda>_. None) 0) (map_option (\<lambda>f a p d. liftS (f a p d)) None)
     (Some (\<lambda>_. Some example_manager)) (example_decision ''a1'') example_approvals) = Inr r"
proof -
  have "canRolePerform ''manager'' ''approval:decide''" by code_simp
  then have adm: "admitDecision (d1ControlPlaneStore (\<lambda>_. None) 0) (Some (\<lambda>_. Some example_manager))
      (example_decision ''a1'') example_approvals =
    Inr ((example_decision ''a1'')\<lparr>dq_actor := ''ann''\<rparr>, approvalFromRow (\<lambda>_. None) (example_approval_row ''a1'' StatePending))"
    by (simp add: admitDecision_def resolveApprovalDecisionIdentity_def requireApproval_def required_def
        authorizeApprovalRole_def resolve_table transition_row_def Let_def example_decision_def example_manager_def
        example_approvals_def findApprovalById_def example_approval_row_def approvalFromRow_def)
  show ?thesis
    unfolding decideApproval_def adm
    by (simp add: bindS_def callStore_def onDb_def storeApprovalDecision_def isoText_def Let_def
        writeExecution_def approvalDecisionAuditRecord_def example_decision_def example_approvals_def empty_world_def
        findApprovalById_def updateWhere_def example_approval_row_def findTenantById_def findPluginById_def approvalFromRow_def)
qed

theorem approval_decided_once_by_authorized_witness:
  "let out = decideApproval (d1ControlPlaneStore (\<lambda>_. None) 0) (map_option (\<lambda>f a p d. liftS (f a p d)) None)
     (Some (\<lambda>_. Some example_manager)) (example_decision ''a1'') example_approvals
   in map_option ap_decidedBy (findApprovalById (\<lambda>_. None) ''a1'' (cw_db (snd out))) = Some (Some ''ann'') \<and>
      map_option ap_state (findApprovalById (\<lambda>_. None) ''a2'' (cw_db (snd out))) = Some StateRejected"
proof -
  let ?out = "decideApproval (d1ControlPlaneStore (\<lambda>_. None) 0) (map_option (\<lambda>f a p d. liftS (f a p d)) None)
     (Some (\<lambda>_. Some example_manager)) (example_decision ''a1'') example_approvals"
  obtain r where r: "fst ?out = Inr r" using example_decided by blast
  have a2: "findApprovalById (\<lambda>_. None) ''a2'' (cw_db example_approvals) =
      Some (approvalFromRow (\<lambda>_. None) (example_approval_row ''a2'' StateRejected))"
    by (simp add: example_approvals_def findApprovalById_def example_approval_row_def)
  note claim = approval_decided_once_by_authorized [where other = "\<lambda>_. None" and at = 0 and runner = None and
      resolve = "\<lambda>_. Some example_manager" and q = "example_decision ''a1''" and w = example_approvals]
  from claim [THEN conjunct1] r have "map_option ap_decidedBy (findApprovalById (\<lambda>_. None) ''a1'' (cw_db (snd ?out))) = Some (Some ''ann'')"
    by (auto simp: example_decision_def example_manager_def)
  moreover from claim [THEN conjunct2, rule_format, OF conjI [OF a2]]
  have "findApprovalById (\<lambda>_. None) ''a2'' (cw_db (snd ?out)) =
      Some (approvalFromRow (\<lambda>_. None) (example_approval_row ''a2'' StateRejected))"
    by (simp add: approvalFromRow_def example_approval_row_def)
  ultimately show ?thesis by (simp add: Let_def approvalFromRow_def example_approval_row_def)
qed

end
