(* ===== verification/JsonParse.thy ===== *)
theory JsonParse
  imports JsonText JsNumber
begin

text \<open>
  \<open>JSON.parse\<close> on texts of Latin-1 characters, for every kind of value, and the text of a value as
  the program's own writers and \<open>JSON.stringify\<close> give it.

  A number literal is read as an exact decimal and rounded by \<open>nearest\<close>, which gives the double
  nearest to it (as its shortest decimal). Members of an object keep the language's order: array
  indices in ascending order, then the other keys as they came; a repeated key keeps its first place
  and its last value.
\<close>

section \<open>Numbers\<close>

text \<open>\<open>m / 10 ^ k\<close> without trailing zeros.\<close>

fun decimal :: "int \<Rightarrow> nat \<Rightarrow> jsnum" where
  "decimal m 0 = NInt m"
| "decimal m (Suc k) = (if m mod 10 = 0 then decimal (m div 10) k else NDec m (Suc k))"

definition scaled :: "int \<Rightarrow> nat \<Rightarrow> int \<Rightarrow> jsnum" where
  "scaled m k e = (if e < 0 then decimal m (k + nat (- e)) else decimal (m * 10 ^ nat e) k)"

definition is_number_char :: "char \<Rightarrow> bool" where
  "is_number_char c \<longleftrightarrow> is_digit c \<or> c = CHR ''-'' \<or> c = CHR ''+'' \<or> c = CHR ''.'' \<or> c = CHR ''e'' \<or> c = CHR ''E''"

definition split_digits :: "string \<Rightarrow> string \<times> string" where
  "split_digits s = (takeWhile is_digit s, dropWhile is_digit s)"

definition read_exponent :: "string \<Rightarrow> int option" where
  "read_exponent s =
     (case s of
        [] \<Rightarrow> Some 0
      | c # u \<Rightarrow>
          if c \<noteq> CHR ''e'' \<and> c \<noteq> CHR ''E'' then None
          else let v = (case u of d # w \<Rightarrow> if d = CHR ''+'' \<or> d = CHR ''-'' then w else u | [] \<Rightarrow> u);
                   negative = (u \<noteq> [] \<and> hd u = CHR ''-'')
               in if v = [] \<or> \<not> list_all is_digit v then None
                  else Some (if negative then - int (read_nat v) else int (read_nat v)))"

definition read_fraction :: "string \<Rightarrow> (string \<times> int) option" where
  "read_fraction s =
     (case s of
        c # u \<Rightarrow>
          if c = CHR ''.''
          then (case split_digits u of (f, v) \<Rightarrow> if f = [] then None else map_option (Pair f) (read_exponent v))
          else map_option (Pair []) (read_exponent s)
      | [] \<Rightarrow> Some ([], 0))"

definition read_unsigned :: "string \<Rightarrow> (int \<times> nat \<times> int) option" where
  "read_unsigned s =
     (case split_digits s of
        (i, v) \<Rightarrow>
          if i = [] \<or> (hd i = CHR ''0'' \<and> length i \<noteq> 1) then None
          else map_option (\<lambda>(f, e). (int (read_nat (i @ f)), length f, e)) (read_fraction v))"

definition read_number :: "string \<Rightarrow> jsnum option" where
  "read_number s =
     (case s of
        c # u \<Rightarrow>
          if c = CHR ''-'' then map_option (\<lambda>(m, k, e). scaled (- m) k e) (read_unsigned u)
          else map_option (\<lambda>(m, k, e). scaled m k e) (read_unsigned s)
      | [] \<Rightarrow> None)"

section \<open>Values\<close>

definition array_index :: "string \<Rightarrow> bool" where
  "array_index s \<longleftrightarrow> s \<noteq> [] \<and> list_all is_digit s \<and> (hd s = CHR ''0'' \<longrightarrow> length s = 1) \<and> read_nat s < 4294967295"

definition key_order :: "(string \<times> jsval) list \<Rightarrow> (string \<times> jsval) list" where
  "key_order fs =
     sort_key (\<lambda>f. read_nat (fst f)) (filter (\<lambda>f. array_index (fst f)) fs) @ filter (\<lambda>f. \<not> array_index (fst f)) fs"

definition object_of :: "(string \<times> jsval) list \<Rightarrow> jsval" where
  "object_of ms = JObj PlainObj (key_order (foldl (\<lambda>fs m. obj_set fs (fst m) (snd m)) [] ms))"

definition skip_space :: "string \<Rightarrow> string" where
  "skip_space s = dropWhile is_json_space s"

definition literal :: "string \<Rightarrow> jsval \<Rightarrow> string \<Rightarrow> (jsval \<times> string) option" where
  "literal l v s = (if take (length l) s = l then Some (v, drop (length l) s) else None)"

definition number_literal :: "(jsnum \<Rightarrow> jsnum) \<Rightarrow> string \<Rightarrow> (jsval \<times> string) option" where
  "number_literal nearest s =
     map_option (\<lambda>n. (JNum (nearest n), dropWhile is_number_char s)) (read_number (takeWhile is_number_char s))"

text \<open>
  The fuel is twice the length of the text and one: a call, or the call it makes first, consumes a
  character.
\<close>

fun parse_value :: "(jsnum \<Rightarrow> jsnum) \<Rightarrow> nat \<Rightarrow> string \<Rightarrow> (jsval \<times> string) option"
and parse_items :: "(jsnum \<Rightarrow> jsnum) \<Rightarrow> nat \<Rightarrow> string \<Rightarrow> (jsval list \<times> string) option"
and parse_members :: "(jsnum \<Rightarrow> jsnum) \<Rightarrow> nat \<Rightarrow> string \<Rightarrow> ((string \<times> jsval) list \<times> string) option" where
  "parse_value nearest 0 s = None"
| "parse_value nearest (Suc n) s =
     (case s of
        [] \<Rightarrow> None
      | c # u \<Rightarrow>
          if c = CHR 0x22 then map_option (\<lambda>(t, r). (JStr t, r)) (unquote_body u)
          else if c = CHR ''['' then
            (case skip_space u of
               [] \<Rightarrow> None
             | d # v \<Rightarrow> if d = CHR '']'' then Some (JArr [], v)
                       else map_option (\<lambda>(xs, r). (JArr xs, r)) (parse_items nearest n (d # v)))
          else if c = CHR 0x7B then
            (case skip_space u of
               [] \<Rightarrow> None
             | d # v \<Rightarrow> if d = CHR 0x7D then Some (JObj PlainObj [], v)
                       else map_option (\<lambda>(ms, r). (object_of ms, r)) (parse_members nearest n (d # v)))
          else if c = CHR ''n'' then literal ''null'' JNull s
          else if c = CHR ''t'' then literal ''true'' (JBool True) s
          else if c = CHR ''f'' then literal ''false'' (JBool False) s
          else number_literal nearest s)"
| "parse_items nearest 0 s = None"
| "parse_items nearest (Suc n) s =
     (case parse_value nearest n s of
        None \<Rightarrow> None
      | Some (x, r) \<Rightarrow>
          (case skip_space r of
             [] \<Rightarrow> None
           | d # v \<Rightarrow>
               if d = CHR '']'' then Some ([x], v)
               else if d = CHR '','' then map_option (\<lambda>(xs, r'). (x # xs, r')) (parse_items nearest n (skip_space v))
               else None))"
| "parse_members nearest 0 s = None"
| "parse_members nearest (Suc n) s =
     (case s of
        [] \<Rightarrow> None
      | q # u \<Rightarrow>
          if q \<noteq> CHR 0x22 then None
          else (case unquote_body u of
             None \<Rightarrow> None
           | Some (k, r) \<Rightarrow>
               (case skip_space r of
                  [] \<Rightarrow> None
                | c # w \<Rightarrow>
                    if c \<noteq> CHR '':'' then None
                    else (case parse_value nearest n (skip_space w) of
                       None \<Rightarrow> None
                     | Some (x, r') \<Rightarrow>
                         (case skip_space r' of
                            [] \<Rightarrow> None
                          | d # v \<Rightarrow>
                              if d = CHR 0x7D then Some ([(k, x)], v)
                              else if d = CHR '','' then
                                map_option (\<lambda>(ms, r''). ((k, x) # ms, r'')) (parse_members nearest n (skip_space v))
                              else None)))))"

definition parse_json :: "(jsnum \<Rightarrow> jsnum) \<Rightarrow> string \<Rightarrow> jsval option" where
  "parse_json nearest s =
     (case parse_value nearest (Suc (2 * length s)) (skip_space s) of
        Some (v, r) \<Rightarrow> if skip_space r = [] then Some v else None
      | None \<Rightarrow> None)"

section \<open>Reading the numbers that are written\<close>

lemma show_nat_all_digits: "list_all is_digit (show_nat n)"
  using show_nat_digits by (auto simp: list_all_iff)

lemma show_nat_hd: "10 \<le> n \<Longrightarrow> hd (show_nat n) \<noteq> CHR ''0''"
proof (induction n rule: show_nat.induct)
  case (1 n)
  have e: "show_nat n = show_nat (n div 10) @ [char_of (48 + n mod 10)]"
    using 1(2) by (subst show_nat.simps) simp
  show ?case
  proof (cases "10 \<le> n div 10")
    case True
    then show ?thesis using 1 e by simp
  next
    case False
    then have d: "show_nat (n div 10) = [char_of (48 + n div 10)]"
      by (subst show_nat.simps) simp
    have "n div 10 > 0" "48 + n div 10 < 256" using 1(2) False by simp_all
    then have "char_of (48 + n div 10) \<noteq> CHR ''0''"
      unfolding char_eq_code by (simp add: code_char_of) (simp add: code_def)
    then show ?thesis using e d by simp
  qed
qed

lemma show_nat_no_leading_zero: "hd (show_nat n) = CHR ''0'' \<Longrightarrow> length (show_nat n) = 1"
proof (cases "10 \<le> n")
  case False
  then show ?thesis by (subst show_nat.simps) simp
qed (use show_nat_hd in blast)

lemma takeWhile_all: "list_all P s \<Longrightarrow> takeWhile P (s @ r) = s @ takeWhile P r"
  by (induction s) auto

lemma dropWhile_all: "list_all P s \<Longrightarrow> dropWhile P (s @ r) = dropWhile P r"
  by (induction s) auto

lemma split_digits_all:
  "list_all is_digit s \<Longrightarrow> (r = [] \<or> \<not> is_digit (hd r)) \<Longrightarrow> split_digits (s @ r) = (s, r)"
  by (cases r) (auto simp: split_digits_def takeWhile_all dropWhile_all list_all_iff)

lemma not_digit [simp]: "\<not> is_digit (CHR ''.'')" "\<not> is_digit (CHR ''-'')" "\<not> is_digit (CHR '','')"
  "\<not> is_digit (CHR '']'')" "\<not> is_digit (CHR 0x7D)" "\<not> is_digit (CHR 0x22)" "\<not> is_digit (CHR ''['')"
  "\<not> is_digit (CHR 0x7B)" "\<not> is_digit (CHR ''n'')" "\<not> is_digit (CHR ''t'')" "\<not> is_digit (CHR ''f'')"
  by (simp_all add: is_digit_def code_def)

lemma read_unsigned_nat: "read_unsigned (show_nat n) = Some (int n, 0, 0)"
  using split_digits_all [OF show_nat_all_digits [of n], of "[]"] show_nat_no_leading_zero [of n]
  by (auto simp: read_unsigned_def read_fraction_def read_show_nat)

lemma read_nat_leading_zeros: "read_nat (replicate j (CHR ''0'') @ s) = read_nat s"
  by (induction j) (simp_all add: read_nat_def code_def)

lemma read_unsigned_decimal:
  fixes n k :: nat
  defines "ds \<equiv> pad_left (Suc k) (show_nat n)"
  assumes "0 < k"
  shows "read_unsigned (take (length ds - k) ds @ ''.'' @ drop (length ds - k) ds) = Some (int n, k, 0)"
proof -
  define i where "i = take (length ds - k) ds"
  define f where "f = drop (length ds - k) ds"
  have len: "Suc k \<le> length ds" by (simp add: ds_def pad_left_def)
  have dig: "list_all is_digit ds"
    using show_nat_all_digits [of n] by (auto simp: ds_def pad_left_def list_all_iff is_digit_def code_def)
  then have digs: "list_all is_digit i" "list_all is_digit f"
    by (auto simp: i_def f_def list_all_iff dest: in_set_takeD in_set_dropD)
  have ne: "i \<noteq> []" "f \<noteq> []" "length f = k" using len assms by (auto simp: i_def f_def)
  have val: "read_nat (i @ f) = n"
    unfolding i_def f_def append_take_drop_id by (simp add: ds_def pad_left_def read_nat_leading_zeros read_show_nat)
  have zero: "hd i = CHR ''0'' \<Longrightarrow> length i = 1"
  proof -
    assume h: "hd i = CHR ''0''"
    have hd: "hd i = hd ds" using ne(1) by (cases ds) (auto simp: i_def take_Cons split: nat.splits)
    show "length i = 1"
    proof (cases "length (show_nat n) \<le> Suc k")
      case True
      then show ?thesis by (simp add: i_def ds_def pad_left_def)
    next
      case False
      then have "ds = show_nat n" by (simp add: ds_def pad_left_def)
      then have "length (show_nat n) = 1" using h hd show_nat_no_leading_zero by simp
      then show ?thesis using False by simp
    qed
  qed
  have "split_digits (i @ ''.'' @ f) = (i, ''.'' @ f)" using digs by (intro split_digits_all) simp_all
  moreover have "split_digits f = (f, [])" using split_digits_all [OF digs(2), of "[]"] by simp
  ultimately show ?thesis
    using ne val zero by (auto simp: read_unsigned_def read_fraction_def read_exponent_def i_def [symmetric] f_def [symmetric])
qed

fun num_normal :: "jsnum \<Rightarrow> bool" where
  "num_normal (NInt _) = True"
| "num_normal (NDec m k) = (0 < k \<and> m mod 10 \<noteq> 0)"
| "num_normal _ = False"

lemma show_nat_not_minus: "hd (show_nat n) \<noteq> CHR ''-''"
  using show_nat_all_digits [of n] by (cases "show_nat n") auto

lemma read_number_int: "read_number (show_int i) = Some (NInt i)"
proof (cases "i < 0")
  case True
  then show ?thesis by (simp add: show_int_def read_number_def read_unsigned_nat scaled_def)
next
  case False
  then have s: "show_int i = show_nat (nat i)" by (simp add: show_int_def)
  obtain c u where c: "show_nat (nat i) = c # u" by (cases "show_nat (nat i)") auto
  have "read_number (c # u) = Some (NInt i)"
    using read_unsigned_nat [of "nat i"] show_nat_not_minus [of "nat i"] False c
    by (simp add: read_number_def scaled_def)
  then show ?thesis using s c by simp
qed

lemma decimal_normal: "num_normal (NDec m k) \<Longrightarrow> scaled m k 0 = NDec m k"
  by (cases k) (auto simp: scaled_def)

lemma read_number_decimal:
  assumes "num_normal (NDec m k)"
  shows "read_number (json_number (NDec m k)) = Some (NDec m k)"
proof -
  define ds where "ds = pad_left (Suc k) (show_nat (nat \<bar>m\<bar>))"
  define t where "t = take (length ds - k) ds @ ''.'' @ drop (length ds - k) ds"
  have k: "0 < k" using assms by simp
  have u: "read_unsigned t = Some (\<bar>m\<bar>, k, 0)"
    using read_unsigned_decimal [OF k, of "nat \<bar>m\<bar>"] by (simp add: t_def ds_def)
  have j: "json_number (NDec m k) = (if m < 0 then ''-'' else []) @ t"
    by (simp add: t_def ds_def Let_def)
  show ?thesis
  proof (cases "m < 0")
    case True
    then show ?thesis using u j decimal_normal [OF assms] by (simp add: read_number_def)
  next
    case False
    obtain c w where c: "t = c # w" by (cases t) (auto simp: t_def)
    have "is_digit c"
    proof -
      have "list_all is_digit ds"
        using show_nat_all_digits by (auto simp: ds_def pad_left_def list_all_iff is_digit_def code_def)
      moreover have "Suc k \<le> length ds" by (simp add: ds_def pad_left_def)
      then have "c \<in> set ds"
        using c by (cases ds) (auto simp: t_def take_Cons split: nat.splits)
      ultimately show ?thesis by (auto simp: list_all_iff)
    qed
    then have "c \<noteq> CHR ''-''" by auto
    then show ?thesis using False u j c decimal_normal [OF assms] by (simp add: read_number_def)
  qed
qed

lemma read_num_text: "num_normal n \<Longrightarrow> read_number (num_text n) = Some n"
  by (cases n) (simp_all add: read_number_int read_number_decimal del: json_number.simps(2) add: )

end
