(* ===== verification/CpUsageMeter.thy ===== *)
theory CpUsageMeter
  imports Contracts KeyedStore IsoDate JsNumber JsonText
begin

text \<open>
  \<open>packages/control-plane/src/usage-meter.ts\<close>: daily usage summaries per tenant and plugin. The
  meter validates a measurement, adds it to a summary store and reports it to an analytics sink
  whose failures it swallows. Two stores implement the summaries: a map in memory, whose lock per
  key makes an increment one step, and the table \<open>usage_daily_summaries\<close>, where an increment is one
  \<open>INSERT ... ON CONFLICT DO UPDATE\<close>. Both are shown to refine the same fold over the measurements.

  \<open>ieeeAdd\<close> is the addition of numbers outside the safe integers, \<open>sqlAdd\<close> that of the integer
  columns of the database there.
\<close>

datatype meter_error =
    MeterError string
  | UsageMeterQueryError string
  | InvalidTimeValue

section \<open>Data\<close>

text \<open>Hook type and status are raw tags: the meter checks them at run time. \<open>rm_at = None\<close> is an
  invalid date.\<close>

record RecordUsageMetricRequest =
  rm_tenantId :: string
  rm_pluginId :: string
  rm_hookType :: string
  rm_status :: string
  rm_cpuMs :: jsnum
  rm_subrequests :: jsnum
  rm_workflowRuns :: jsnum
  rm_at :: "int option"

record UsageEvent =
  ue_tenantId :: string
  ue_pluginId :: string
  ue_hookType :: string
  ue_status :: string
  ue_executions :: jsnum
  ue_cpuMs :: jsnum
  ue_subrequests :: jsnum
  ue_workflowRuns :: jsnum

record UsageMeterFailure =
  uf_code :: string
  uf_tenantId :: string
  uf_pluginId :: string

record GetDailyUsageSummaryRequest =
  gd_tenantId :: string
  gd_pluginId :: string
  gd_date :: string

record GetDailyUsageSummariesRequest =
  gs_tenantId :: string
  gs_pluginId :: "string option"
  gs_fromDate :: string
  gs_toDate :: string

record DailyUsageSummary =
  ds_tenantId :: string
  ds_pluginId :: string
  ds_date :: string
  ds_executions :: jsnum
  ds_cpuMs :: jsnum
  ds_subrequests :: jsnum
  ds_workflowRuns :: jsnum

section \<open>Validation\<close>

definition isNonNegativeNumber :: "jsnum \<Rightarrow> bool" where
  "isNonNegativeNumber n \<longleftrightarrow> num_is_finite n \<and> num_ge n (NInt 0)"

definition num_is_integer :: "jsnum \<Rightarrow> bool" where
  "num_is_integer n = (case n of NInt _ \<Rightarrow> True | _ \<Rightarrow> False)"

definition validateIdentifier :: "string \<Rightarrow> string \<Rightarrow> (meter_error, unit) outcome" where
  "validateIdentifier name v =
     guardE (trim v \<noteq> [] \<and> length v \<le> 256) (MeterError (name @ '' must be a non-empty bounded string''))"

definition validateNonNegativeFinite :: "string \<Rightarrow> jsnum \<Rightarrow> (meter_error, unit) outcome" where
  "validateNonNegativeFinite name v =
     guardE (isNonNegativeNumber v) (MeterError (name @ '' must be a non-negative finite number''))"

definition validateNonNegativeInteger :: "string \<Rightarrow> jsnum \<Rightarrow> (meter_error, unit) outcome" where
  "validateNonNegativeInteger name v =
     guardE (num_is_integer v \<and> num_ge v (NInt 0)) (MeterError (name @ '' must be a non-negative finite integer''))"

definition executionStatuses :: "string list" where
  "executionStatuses = [''success'', ''error'', ''timeout'', ''egress_denied'', ''budget_exceeded'']"

definition validateUsageMetric :: "RecordUsageMetricRequest \<Rightarrow> (meter_error, unit) outcome" where
  "validateUsageMetric q =
     bindE (validateIdentifier ''tenantId'' (rm_tenantId q)) (\<lambda>_.
     bindE (validateIdentifier ''pluginId'' (rm_pluginId q)) (\<lambda>_.
     bindE (guardE (isHookType (JStr (rm_hookType q))) (MeterError ''hookType must be event, transform, or policy'')) (\<lambda>_.
     bindE (guardE (rm_status q \<in> set executionStatuses) (MeterError ''status must be a known execution status'')) (\<lambda>_.
     bindE (validateNonNegativeFinite ''cpuMs'' (rm_cpuMs q)) (\<lambda>_.
     bindE (validateNonNegativeInteger ''subrequests'' (rm_subrequests q)) (\<lambda>_.
     bindE (validateNonNegativeInteger ''workflowRuns'' (rm_workflowRuns q)) (\<lambda>_.
     guardE (rm_at q \<noteq> None) (MeterError ''at must be a valid date''))))))))"

text \<open>\<open>/^\d{4}-\d{2}-\d{2}$/\<close> and the round trip through \<open>Date\<close>, which refuses impossible days.\<close>

definition utcDatePattern :: "string \<Rightarrow> bool" where
  "utcDatePattern s \<longleftrightarrow>
     length s = 10 \<and> list_all (\<lambda>i. if i = 4 \<or> i = 7 then s ! i = CHR ''-'' else is_digit (s ! i)) [0..<10]"

definition validateUtcDate :: "(string \<Rightarrow> int option) \<Rightarrow> string \<Rightarrow> (meter_error, int) outcome" where
  "validateUtcDate other v =
     bindE (guardE (utcDatePattern v) (UsageMeterQueryError ''usage date must use YYYY-MM-DD'')) (\<lambda>_.
     (case dateParse other (v @ ''T00:00:00.000Z'') of
        None \<Rightarrow> Inl (UsageMeterQueryError ''usage date must be a valid UTC date'')
      | Some t \<Rightarrow>
          if take 10 (toISOString t) \<noteq> v then Inl (UsageMeterQueryError ''usage date must be a valid UTC date'')
          else Inr t))"

definition validateQueryIdentifier :: "string \<Rightarrow> string \<Rightarrow> (meter_error, unit) outcome" where
  "validateQueryIdentifier name v =
     guardE (trim v \<noteq> [] \<and> length v \<le> 256) (UsageMeterQueryError (name @ '' must be a non-empty bounded string''))"

definition validateDailyUsageKey :: "(string \<Rightarrow> int option) \<Rightarrow> GetDailyUsageSummaryRequest \<Rightarrow> (meter_error, int) outcome" where
  "validateDailyUsageKey other q =
     bindE (validateIdentifier ''tenantId'' (gd_tenantId q)) (\<lambda>_.
     bindE (validateIdentifier ''pluginId'' (gd_pluginId q)) (\<lambda>_.
     validateUtcDate other (gd_date q)))"

definition validateUsageRange :: "(string \<Rightarrow> int option) \<Rightarrow> GetDailyUsageSummariesRequest \<Rightarrow> (meter_error, unit) outcome" where
  "validateUsageRange other q =
     bindE (validateQueryIdentifier ''tenantId'' (gs_tenantId q)) (\<lambda>_.
     bindE (case gs_pluginId q of None \<Rightarrow> Inr () | Some p \<Rightarrow> validateQueryIdentifier ''pluginId'' p) (\<lambda>_.
     bindE (validateUtcDate other (gs_fromDate q)) (\<lambda>f.
     bindE (validateUtcDate other (gs_toDate q)) (\<lambda>t.
     bindE (guardE (f \<le> t) (UsageMeterQueryError ''fromDate must not be after toDate'')) (\<lambda>_.
     guardE (t - f \<le> 365 * 24 * 60 * 60 * 1000)
       (UsageMeterQueryError ''usage summary range must not exceed 366 UTC days''))))))"

section \<open>Summaries\<close>

definition usageDay :: "int option \<Rightarrow> (meter_error, string) outcome" where
  "usageDay at = (case at of None \<Rightarrow> Inl InvalidTimeValue | Some t \<Rightarrow> Inr (take 10 (toISOString t)))"

definition metricSummaryKey :: "RecordUsageMetricRequest \<Rightarrow> (meter_error, GetDailyUsageSummaryRequest) outcome" where
  "metricSummaryKey q =
     bindE (usageDay (rm_at q)) (\<lambda>d.
     Inr \<lparr>gd_tenantId = rm_tenantId q, gd_pluginId = rm_pluginId q, gd_date = d\<rparr>)"

definition summaryKey :: "GetDailyUsageSummaryRequest \<Rightarrow> string" where
  "summaryKey k = json_strings [gd_tenantId k, gd_pluginId k, gd_date k]"

definition emptySummary :: "GetDailyUsageSummaryRequest \<Rightarrow> DailyUsageSummary" where
  "emptySummary k =
     \<lparr>ds_tenantId = gd_tenantId k, ds_pluginId = gd_pluginId k, ds_date = gd_date k,
      ds_executions = NInt 0, ds_cpuMs = NInt 0, ds_subrequests = NInt 0, ds_workflowRuns = NInt 0\<rparr>"

text \<open>One measurement added to a summary, with the additions of the integer and of the real columns.\<close>

definition addMetric ::
  "(jsnum \<Rightarrow> jsnum \<Rightarrow> jsnum) \<Rightarrow> (jsnum \<Rightarrow> jsnum \<Rightarrow> jsnum) \<Rightarrow> RecordUsageMetricRequest \<Rightarrow> DailyUsageSummary \<Rightarrow> DailyUsageSummary" where
  "addMetric addInt addReal q r =
     r\<lparr>ds_executions := num_add addInt (ds_executions r) (NInt 1),
       ds_cpuMs := num_add addReal (ds_cpuMs r) (rm_cpuMs q),
       ds_subrequests := num_add addInt (ds_subrequests r) (rm_subrequests q),
       ds_workflowRuns := num_add addInt (ds_workflowRuns r) (rm_workflowRuns q)\<rparr>"

definition inRange :: "GetDailyUsageSummariesRequest \<Rightarrow> DailyUsageSummary \<Rightarrow> bool" where
  "inRange q r \<longleftrightarrow>
     ds_tenantId r = gs_tenantId q \<and> (case gs_pluginId q of None \<Rightarrow> True | Some p \<Rightarrow> ds_pluginId r = p) \<and>
     gs_fromDate q \<le> ds_date r \<and> ds_date r \<le> gs_toDate q"

section \<open>The map in memory\<close>

type_synonym summary_map = "(string \<times> DailyUsageSummary) list"

definition memIncrement ::
  "(jsnum \<Rightarrow> jsnum \<Rightarrow> jsnum) \<Rightarrow> RecordUsageMetricRequest \<Rightarrow> (summary_map, meter_error, DailyUsageSummary) step" where
  "memIncrement ieeeAdd q s =
     (case metricSummaryKey q of
        Inl e \<Rightarrow> (Inl e, s)
      | Inr k \<Rightarrow>
          (let current = (case mem_get s (summaryKey k) of Some r \<Rightarrow> r | None \<Rightarrow> emptySummary k);
               updated = addMetric ieeeAdd ieeeAdd q current
           in (Inr updated, mem_put (summaryKey k) updated s)))"

definition memSummary :: "GetDailyUsageSummaryRequest \<Rightarrow> summary_map \<Rightarrow> (meter_error, DailyUsageSummary) outcome" where
  "memSummary k s = Inr (case mem_get s (summaryKey k) of Some r \<Rightarrow> r | None \<Rightarrow> emptySummary k)"

text \<open>\<open>sort\<close> with the locale's comparison of dates, then of plugins: it is stable.\<close>

definition summaryBefore :: "(string \<Rightarrow> string \<Rightarrow> int) \<Rightarrow> DailyUsageSummary \<Rightarrow> DailyUsageSummary \<Rightarrow> bool" where
  "summaryBefore localeCompare l r \<longleftrightarrow>
     (let c = localeCompare (ds_date l) (ds_date r)
      in (if c \<noteq> 0 then c else localeCompare (ds_pluginId l) (ds_pluginId r)) \<le> 0)"

fun insertSummary :: "(string \<Rightarrow> string \<Rightarrow> int) \<Rightarrow> DailyUsageSummary \<Rightarrow> DailyUsageSummary list \<Rightarrow> DailyUsageSummary list" where
  "insertSummary lc r [] = [r]"
| "insertSummary lc r (x # xs) = (if summaryBefore lc r x then r # x # xs else x # insertSummary lc r xs)"

definition sortSummaries :: "(string \<Rightarrow> string \<Rightarrow> int) \<Rightarrow> DailyUsageSummary list \<Rightarrow> DailyUsageSummary list" where
  "sortSummaries lc rs = foldr (insertSummary lc) rs []"

definition memSummaries ::
  "(string \<Rightarrow> string \<Rightarrow> int) \<Rightarrow> GetDailyUsageSummariesRequest \<Rightarrow> summary_map \<Rightarrow> (meter_error, DailyUsageSummary list) outcome" where
  "memSummaries lc q s = Inr (sortSummaries lc (filter (inRange q) (map snd s)))"

section \<open>The table\<close>

definition dailyUsageSummaryFromRow :: "DailyUsageSummary \<Rightarrow> (meter_error, DailyUsageSummary) outcome" where
  "dailyUsageSummaryFromRow r =
     (if isNonNegativeNumber (ds_executions r) \<and> isNonNegativeNumber (ds_cpuMs r) \<and>
         isNonNegativeNumber (ds_subrequests r) \<and> isNonNegativeNumber (ds_workflowRuns r)
      then Inr r else Inl (MeterError ''usage summary storage returned invalid data''))"

definition rowKey :: "DailyUsageSummary \<Rightarrow> GetDailyUsageSummaryRequest" where
  "rowKey r = \<lparr>gd_tenantId = ds_tenantId r, gd_pluginId = ds_pluginId r, gd_date = ds_date r\<rparr>"

text \<open>The \<open>CHECK\<close> constraints of the columns.\<close>

definition rowChecks :: "DailyUsageSummary \<Rightarrow> bool" where
  "rowChecks r \<longleftrightarrow>
     num_ge (ds_executions r) (NInt 0) \<and> num_ge (ds_cpuMs r) (NInt 0) \<and>
     num_ge (ds_subrequests r) (NInt 0) \<and> num_ge (ds_workflowRuns r) (NInt 0)"

definition insertedRow :: "GetDailyUsageSummaryRequest \<Rightarrow> RecordUsageMetricRequest \<Rightarrow> DailyUsageSummary" where
  "insertedRow k q =
     (emptySummary k)\<lparr>ds_executions := NInt 1, ds_cpuMs := rm_cpuMs q, ds_subrequests := rm_subrequests q,
       ds_workflowRuns := rm_workflowRuns q\<rparr>"

definition d1Increment ::
  "(jsnum \<Rightarrow> jsnum \<Rightarrow> jsnum) \<Rightarrow> (jsnum \<Rightarrow> jsnum \<Rightarrow> jsnum) \<Rightarrow> RecordUsageMetricRequest \<Rightarrow>
   (DailyUsageSummary list, meter_error, DailyUsageSummary) step" where
  "d1Increment sqlAdd ieeeAdd q rows =
     (case metricSummaryKey q of
        Inl e \<Rightarrow> (Inl e, rows)
      | Inr k \<Rightarrow>
          if \<not> rowChecks (insertedRow k q) then (Inl (MeterError ''CHECK constraint failed''), rows)
          else (case List.find (\<lambda>r. rowKey r = k) rows of
             None \<Rightarrow> (dailyUsageSummaryFromRow (insertedRow k q), rows @ [insertedRow k q])
           | Some r \<Rightarrow>
               (let updated = addMetric sqlAdd ieeeAdd q r
                in if \<not> rowChecks updated then (Inl (MeterError ''CHECK constraint failed''), rows)
                   else (dailyUsageSummaryFromRow updated,
                         map (\<lambda>x. if rowKey x = k then updated else x) rows))))"

definition d1Summary :: "GetDailyUsageSummaryRequest \<Rightarrow> DailyUsageSummary list \<Rightarrow> (meter_error, DailyUsageSummary) outcome" where
  "d1Summary k rows =
     (case List.find (\<lambda>r. rowKey r = k) rows of
        None \<Rightarrow> Inr (emptySummary k)
      | Some r \<Rightarrow> dailyUsageSummaryFromRow r)"

definition d1Summaries ::
  "GetDailyUsageSummariesRequest \<Rightarrow> DailyUsageSummary list \<Rightarrow> (meter_error, DailyUsageSummary list) outcome" where
  "d1Summaries q rows =
     mapE dailyUsageSummaryFromRow (sort_key ds_date (sort_key ds_pluginId (filter (inRange q) rows)))"

section \<open>The meter\<close>

definition toUsageEvent :: "RecordUsageMetricRequest \<Rightarrow> UsageEvent" where
  "toUsageEvent q =
     \<lparr>ue_tenantId = rm_tenantId q, ue_pluginId = rm_pluginId q, ue_hookType = rm_hookType q,
      ue_status = rm_status q, ue_executions = NInt 1, ue_cpuMs = rm_cpuMs q,
      ue_subrequests = rm_subrequests q, ue_workflowRuns = rm_workflowRuns q\<rparr>"

text \<open>The data point of the analytics sink: its index joins tenant and plugin.\<close>

record AnalyticsEngineDataPoint =
  an_indexes :: "string list"
  an_blobs :: "string list"
  an_doubles :: "jsnum list"

definition analyticsDataPoint :: "UsageEvent \<Rightarrow> AnalyticsEngineDataPoint" where
  "analyticsDataPoint e =
     \<lparr>an_indexes = [ue_tenantId e @ '':'' @ ue_pluginId e],
      an_blobs = [ue_tenantId e, ue_pluginId e, ue_hookType e, ue_status e],
      an_doubles = [ue_executions e, ue_cpuMs e, ue_subrequests e, ue_workflowRuns e]\<rparr>"

text \<open>
  The summaries are one component of the state, the sink and the reporter act on the other; either
  may raise, which \<open>swallow\<close> drops as the code's \<open>catch\<close> blocks do.
\<close>

definition onSnd :: "('w, 'e, 'a) step \<Rightarrow> ('s \<times> 'w, 'e, 'a) step" where
  "onSnd m sw = (case m (snd sw) of (r, w) \<Rightarrow> (r, (fst sw, w)))"

definition onFst :: "('s, 'e, 'a) step \<Rightarrow> ('s \<times> 'w, 'e, 'a) step" where
  "onFst m sw = (case m (fst sw) of (r, s) \<Rightarrow> (r, (s, snd sw)))"

definition reportUsageFailure ::
  "(UsageMeterFailure \<Rightarrow> ('w, 'x, unit) step) \<Rightarrow> UsageMeterFailure \<Rightarrow> 'w \<Rightarrow> 'w" where
  "reportUsageFailure reporter f w = snd (reporter f w)"

definition recordExecutionUsage ::
  "(RecordUsageMetricRequest \<Rightarrow> ('s, meter_error, DailyUsageSummary) step) \<Rightarrow>
   (UsageEvent \<Rightarrow> ('w, 'x, unit) step) option \<Rightarrow> (UsageMeterFailure \<Rightarrow> ('w, 'x, unit) step) \<Rightarrow>
   RecordUsageMetricRequest \<Rightarrow> ('s \<times> 'w, meter_error, DailyUsageSummary) step" where
  "recordExecutionUsage increment sink reporter q =
     bindS (liftS (validateUsageMetric q)) (\<lambda>_.
     bindS (onFst (increment q)) (\<lambda>summary sw.
       (case sink of
          None \<Rightarrow> (Inr summary, sw)
        | Some writeUsage \<Rightarrow>
            (case writeUsage (toUsageEvent q) (snd sw) of
               (Inr _, w) \<Rightarrow> (Inr summary, (fst sw, w))
             | (Inl _, w) \<Rightarrow>
                 (Inr summary,
                  (fst sw, reportUsageFailure reporter
                     \<lparr>uf_code = ''usage_sink_write_failed'', uf_tenantId = rm_tenantId q,
                      uf_pluginId = rm_pluginId q\<rparr> w))))))"

definition getDailyUsageSummary ::
  "(string \<Rightarrow> int option) \<Rightarrow> (GetDailyUsageSummaryRequest \<Rightarrow> 's \<Rightarrow> (meter_error, DailyUsageSummary) outcome) \<Rightarrow>
   GetDailyUsageSummaryRequest \<Rightarrow> 's \<Rightarrow> (meter_error, DailyUsageSummary) outcome" where
  "getDailyUsageSummary other summary k s = bindE (validateDailyUsageKey other k) (\<lambda>_. summary k s)"

definition getDailyUsageSummaries ::
  "(string \<Rightarrow> int option) \<Rightarrow> (GetDailyUsageSummariesRequest \<Rightarrow> 's \<Rightarrow> (meter_error, DailyUsageSummary list) outcome) \<Rightarrow>
   GetDailyUsageSummariesRequest \<Rightarrow> 's \<Rightarrow> (meter_error, DailyUsageSummary list) outcome" where
  "getDailyUsageSummaries other summaries q s = bindE (validateUsageRange other q) (\<lambda>_. summaries q s)"

section \<open>The reference\<close>

text \<open>
  What a summary promises: the measurements of one key added up. Integer totals are exact and stay
  safe; a total that leaves the safe integers is not storable, nor is a real total that overflows.
\<close>

definition addExact :: "(jsnum \<Rightarrow> jsnum \<Rightarrow> jsnum) \<Rightarrow> RecordUsageMetricRequest \<Rightarrow> DailyUsageSummary \<Rightarrow> DailyUsageSummary" where
  "addExact ieeeAdd = addMetric (\<lambda>_ _. NaN) ieeeAdd"

fun safeCount :: "jsnum \<Rightarrow> bool" where
  "safeCount (NInt i) \<longleftrightarrow> 0 \<le> i \<and> is_safe_integer i"
| "safeCount _ \<longleftrightarrow> False"

definition storable :: "DailyUsageSummary \<Rightarrow> bool" where
  "storable r \<longleftrightarrow>
     safeCount (ds_executions r) \<and> isNonNegativeNumber (ds_cpuMs r) \<and>
     safeCount (ds_subrequests r) \<and> safeCount (ds_workflowRuns r)"

definition metered :: "GetDailyUsageSummaryRequest \<Rightarrow> RecordUsageMetricRequest \<Rightarrow> bool" where
  "metered k q \<longleftrightarrow> validateUsageMetric q = Inr () \<and> metricSummaryKey q = Inr k"

definition meterTotals ::
  "(jsnum \<Rightarrow> jsnum \<Rightarrow> jsnum) \<Rightarrow> GetDailyUsageSummaryRequest \<Rightarrow> RecordUsageMetricRequest list \<Rightarrow> DailyUsageSummary" where
  "meterTotals ieeeAdd k qs = fold (addExact ieeeAdd) (filter (metered k) qs) (emptySummary k)"

definition totalsStorable ::
  "(jsnum \<Rightarrow> jsnum \<Rightarrow> jsnum) \<Rightarrow> GetDailyUsageSummaryRequest \<Rightarrow> RecordUsageMetricRequest list \<Rightarrow> bool" where
  "totalsStorable ieeeAdd k qs \<longleftrightarrow>
     list_all (\<lambda>n. storable (meterTotals ieeeAdd k (take n qs))) [0..<Suc (length qs)]"

lemma totalsStorable_snoc:
  "totalsStorable ieeeAdd k (qs @ [q]) \<longleftrightarrow>
     totalsStorable ieeeAdd k qs \<and> storable (meterTotals ieeeAdd k (qs @ [q]))"
  by (auto simp: totalsStorable_def list_all_iff less_Suc_eq)

lemma totalsStorable_whole: "totalsStorable ieeeAdd k qs \<Longrightarrow> storable (meterTotals ieeeAdd k qs)"
  by (simp add: totalsStorable_def)

lemma meterTotals_snoc:
  "meterTotals ieeeAdd k (qs @ [q]) =
     (if metered k q then addExact ieeeAdd q (meterTotals ieeeAdd k qs) else meterTotals ieeeAdd k qs)"
  by (simp add: meterTotals_def)

lemma valid_metric:
  "validateUsageMetric q = Inr () \<Longrightarrow>
     isNonNegativeNumber (rm_cpuMs q) \<and> (\<exists>i j. rm_subrequests q = NInt i \<and> rm_workflowRuns q = NInt j \<and> 0 \<le> i \<and> 0 \<le> j) \<and>
     rm_at q \<noteq> None"
  by (auto simp: validateUsageMetric_def validateNonNegativeFinite_def validateNonNegativeInteger_def bindE_Inr
      num_is_integer_def split: jsnum.splits)

text \<open>Additions agree where the exact total is storable.\<close>

lemma safeCount_add:
  "safeCount a \<Longrightarrow> 0 \<le> j \<Longrightarrow> safeCount (num_add (\<lambda>_ _. NaN) a (NInt j)) \<Longrightarrow>
     num_add f a (NInt j) = num_add (\<lambda>_ _. NaN) a (NInt j)"
  by (cases a) (auto simp: num_add_def split: if_splits)

lemma addMetric_exact:
  assumes "storable r" "validateUsageMetric q = Inr ()" "storable (addExact ieeeAdd q r)"
  shows "addMetric addInt ieeeAdd q r = addExact ieeeAdd q r"
  using assms valid_metric [OF assms(2)]
  by (auto simp: addExact_def addMetric_def storable_def safeCount_add [where f = addInt])

lemma emptySummary_storable: "storable (emptySummary k)"
  by (simp add: storable_def emptySummary_def isNonNegativeNumber_def is_safe_integer_def max_safe_integer_def)

section \<open>The contract of a summary store\<close>

locale daily_summary_store =
  fixes increment :: "RecordUsageMetricRequest \<Rightarrow> ('s, meter_error, DailyUsageSummary) step"
    and summary :: "GetDailyUsageSummaryRequest \<Rightarrow> 's \<Rightarrow> (meter_error, DailyUsageSummary) outcome"
    and ok :: "'s \<Rightarrow> bool"
    and ieeeAdd :: "jsnum \<Rightarrow> jsnum \<Rightarrow> jsnum"
  assumes increment_ok: "ok s \<Longrightarrow> ok (snd (increment q s))"
    and increment_other: "ok s \<Longrightarrow> metricSummaryKey q = Inr k \<Longrightarrow> k' \<noteq> k \<Longrightarrow>
      summary k' (snd (increment q s)) = summary k' s"
    and increment_same: "ok s \<Longrightarrow> validateUsageMetric q = Inr () \<Longrightarrow> metricSummaryKey q = Inr k \<Longrightarrow>
      summary k s = Inr r \<Longrightarrow> storable r \<Longrightarrow> storable (addExact ieeeAdd q r) \<Longrightarrow>
      fst (increment q s) = Inr (addExact ieeeAdd q r) \<and>
      summary k (snd (increment q s)) = Inr (addExact ieeeAdd q r)"
begin

lemma record_state:
  "fst (snd (recordExecutionUsage increment sink reporter q sw)) =
     (if validateUsageMetric q = Inr () then snd (increment q (fst sw)) else fst sw)"
  by (auto simp: recordExecutionUsage_def bindS_def onFst_def split: sum.splits prod.splits option.splits)

lemma record_result:
  "fst (recordExecutionUsage increment sink reporter q sw) =
     bindE (validateUsageMetric q) (\<lambda>_. fst (increment q (fst sw)))"
  by (auto simp: recordExecutionUsage_def bindS_def onFst_def split: sum.splits prod.splits option.splits)

lemma record_ok: "ok (fst sw) \<Longrightarrow> ok (fst (snd (recordExecutionUsage increment sink reporter q sw)))"
  by (simp add: record_state increment_ok)

lemma record_counts:
  assumes "ok (fst sw)" "summary k (fst sw) = Inr (meterTotals ieeeAdd k qs)" "totalsStorable ieeeAdd k (qs @ [q])"
  shows "summary k (fst (snd (recordExecutionUsage increment sink reporter q sw))) = Inr (meterTotals ieeeAdd k (qs @ [q]))"
proof (cases "validateUsageMetric q = Inr ()")
  case True
  then obtain k' where k': "metricSummaryKey q = Inr k'"
    using valid_metric [OF True] by (auto simp: metricSummaryKey_def usageDay_def)
  have st: "storable (meterTotals ieeeAdd k qs)" "storable (meterTotals ieeeAdd k (qs @ [q]))"
    using assms(3) totalsStorable_whole by (auto simp: totalsStorable_snoc)
  show ?thesis
  proof (cases "k' = k")
    case same: True
    then have "metered k q" using True k' by (simp add: metered_def)
    then show ?thesis using increment_same [OF assms(1) True _ assms(2) st(1)] st(2) True k' same
      by (simp add: record_state meterTotals_snoc)
  next
    case False
    then show ?thesis using increment_other [OF assms(1) k'] k' True assms(2)
      by (auto simp: record_state meterTotals_snoc metered_def)
  qed
qed (use assms in \<open>simp add: record_state meterTotals_snoc metered_def\<close>)

end

text \<open>Measurements one after the other, with a sink and a reporter that may fail at any of them.\<close>

fun meterAll ::
  "(RecordUsageMetricRequest \<Rightarrow> ('s, meter_error, DailyUsageSummary) step) \<Rightarrow>
   (UsageEvent \<Rightarrow> ('w, 'x, unit) step) option \<Rightarrow> (UsageMeterFailure \<Rightarrow> ('w, 'x, unit) step) \<Rightarrow>
   RecordUsageMetricRequest list \<Rightarrow> 's \<times> 'w \<Rightarrow> 's \<times> 'w" where
  "meterAll increment sink reporter [] sw = sw"
| "meterAll increment sink reporter (q # qs) sw =
     meterAll increment sink reporter qs (snd (recordExecutionUsage increment sink reporter q sw))"

lemma meterAll_snoc:
  "meterAll increment sink reporter (qs @ [q]) sw =
     snd (recordExecutionUsage increment sink reporter q (meterAll increment sink reporter qs sw))"
  by (induction qs arbitrary: sw) auto

context daily_summary_store
begin

lemma meterAll_ok: "ok (fst sw) \<Longrightarrow> ok (fst (meterAll increment sink reporter qs sw))"
  by (induction qs arbitrary: sw) (auto simp: record_ok)

lemma meterAll_counts:
  assumes "ok (fst sw)" "summary k (fst sw) = Inr (emptySummary k)" "totalsStorable ieeeAdd k qs"
  shows "summary k (fst (meterAll increment sink reporter qs sw)) = Inr (meterTotals ieeeAdd k qs)"
  using assms(3)
proof (induction qs rule: rev_induct)
  case Nil
  then show ?case using assms(2) by (simp add: meterTotals_def)
next
  case (snoc q qs)
  then show ?case using record_counts [OF meterAll_ok [OF assms(1)]] by (simp add: meterAll_snoc totalsStorable_snoc)
qed

end

section \<open>The two stores\<close>

lemma summaryKey_inj [simp]: "summaryKey k = summaryKey k' \<longleftrightarrow> k = k'"
  by (cases k; cases k') (auto simp: summaryKey_def)

lemma rowKey_simps [simp]: "rowKey (emptySummary k) = k" "rowKey (addMetric f g q r) = rowKey r"
  by (simp_all add: rowKey_def emptySummary_def addMetric_def)

lemma storable_row: "storable r \<Longrightarrow> dailyUsageSummaryFromRow r = Inr r \<and> rowChecks r"
  by (cases r; cases "ds_executions r"; cases "ds_subrequests r"; cases "ds_workflowRuns r")
    (auto simp: storable_def dailyUsageSummaryFromRow_def rowChecks_def isNonNegativeNumber_def)

interpretation mem_summaries: daily_summary_store "memIncrement ieeeAdd" memSummary "\<lambda>_. True" ieeeAdd for ieeeAdd
proof
  fix s q k r
  assume "validateUsageMetric q = Inr ()" "metricSummaryKey q = Inr k" "memSummary k s = Inr r"
    "storable r" "storable (addExact ieeeAdd q r)"
  then show "fst (memIncrement ieeeAdd q s) = Inr (addExact ieeeAdd q r) \<and>
      memSummary k (snd (memIncrement ieeeAdd q s)) = Inr (addExact ieeeAdd q r)"
    by (auto simp: memIncrement_def memSummary_def Let_def addMetric_exact mem.get_put)
qed (auto simp: memIncrement_def memSummary_def Let_def mem.get_put split: sum.splits)

definition tableOk :: "DailyUsageSummary list \<Rightarrow> bool" where
  "tableOk rows \<longleftrightarrow> distinct (map rowKey rows)"

lemma find_rowKey: "List.find (\<lambda>r. rowKey r = k) rows = Some r \<Longrightarrow> rowKey r = k"
  by (auto dest: find_Some_in)

text \<open>One row rewritten, or one appended.\<close>

lemma find_rewritten:
  assumes "rowKey u = k"
  shows "List.find (\<lambda>r. rowKey r = k') (map (\<lambda>x. if rowKey x = k then u else x) rows) =
    (if k' = k then map_option (\<lambda>_. u) (List.find (\<lambda>r. rowKey r = k) rows) else List.find (\<lambda>r. rowKey r = k') rows)"
  using assms by (induction rows) auto

lemma insertedRow_key [simp]: "rowKey (insertedRow k q) = k"
  by (simp add: insertedRow_def rowKey_def emptySummary_def)

lemma d1Increment_rows:
  obtains (unchanged) "snd (d1Increment sqlAdd ieeeAdd q rows) = rows"
  | (inserted) k r where "metricSummaryKey q = Inr k" "rowKey r = k" "List.find (\<lambda>x. rowKey x = k) rows = None"
      "snd (d1Increment sqlAdd ieeeAdd q rows) = rows @ [r]"
  | (updated) k r where "metricSummaryKey q = Inr k" "rowKey r = k"
      "snd (d1Increment sqlAdd ieeeAdd q rows) = map (\<lambda>x. if rowKey x = k then r else x) rows"
proof (cases "metricSummaryKey q")
  case (Inr k)
  show thesis
  proof (cases "List.find (\<lambda>x. rowKey x = k) rows")
    case None
    then show thesis using Inr unchanged inserted [OF Inr insertedRow_key]
      by (cases "rowChecks (insertedRow k q)") (auto simp: d1Increment_def)
  next
    case (Some r)
    let ?u = "addMetric sqlAdd ieeeAdd q r"
    have u: "rowKey ?u = k" using find_rowKey [OF Some] by simp
    show thesis
    proof (cases "rowChecks (insertedRow k q) \<and> rowChecks ?u")
      case True
      then show thesis using Inr Some by (intro updated [OF Inr u]) (simp add: d1Increment_def Let_def)
    next
      case False
      then show thesis using Inr Some by (intro unchanged) (auto simp: d1Increment_def Let_def)
    qed
  qed
qed (use unchanged in \<open>simp add: d1Increment_def\<close>)

lemma d1_increment_same:
  assumes "validateUsageMetric q = Inr ()" "metricSummaryKey q = Inr k" "d1Summary k rows = Inr r"
    "storable r" "storable (addExact ieeeAdd q r)"
  shows "fst (d1Increment sqlAdd ieeeAdd q rows) = Inr (addExact ieeeAdd q r) \<and>
    d1Summary k (snd (d1Increment sqlAdd ieeeAdd q rows)) = Inr (addExact ieeeAdd q r)"
proof -
  have first: "addExact ieeeAdd q (emptySummary k) = insertedRow k q"
    by (simp add: addExact_def addMetric_def emptySummary_def num_add_def insertedRow_def)
  have u: "rowKey (addExact ieeeAdd q x) = rowKey x" for x by (simp add: addExact_def)
  show ?thesis
  proof (cases "List.find (\<lambda>x. rowKey x = k) rows")
    case None
    then have "r = emptySummary k" using assms(3) by (simp add: d1Summary_def)
    then show ?thesis using None assms(2,5) storable_row [of "insertedRow k q"]
      by (simp add: d1Increment_def d1Summary_def find_append first)
  next
    case (Some x)
    then have x: "x = r" using assms(3) by (auto simp: d1Summary_def dailyUsageSummaryFromRow_def split: if_splits)
    have "rowChecks (insertedRow k q)"
      using valid_metric [OF assms(1)] by (auto simp: rowChecks_def isNonNegativeNumber_def insertedRow_def)
    moreover have "rowKey r = k" using find_rowKey [OF Some] x by simp
    ultimately show ?thesis using Some x assms storable_row [OF assms(5)]
      by (simp add: d1Increment_def d1Summary_def addMetric_exact u find_rewritten Let_def)
  qed
qed

interpretation d1_summaries: daily_summary_store "d1Increment sqlAdd ieeeAdd" d1Summary tableOk ieeeAdd
  for sqlAdd ieeeAdd
proof
  fix rows q k k'
  assume ok: "tableOk rows"
  show "tableOk (snd (d1Increment sqlAdd ieeeAdd q rows))"
  proof (cases rule: d1Increment_rows [of sqlAdd ieeeAdd q rows])
    case (inserted k r)
    then show ?thesis using ok by (auto simp: tableOk_def find_None)
  next
    case (updated k r)
    then have "map rowKey (snd (d1Increment sqlAdd ieeeAdd q rows)) = map rowKey rows" by simp
    then show ?thesis using ok by (simp add: tableOk_def)
  qed (use ok in simp)
  assume "metricSummaryKey q = Inr k" "k' \<noteq> k"
  then show "d1Summary k' (snd (d1Increment sqlAdd ieeeAdd q rows)) = d1Summary k' rows"
    by (cases rule: d1Increment_rows [of sqlAdd ieeeAdd q rows]) (auto simp: d1Summary_def find_append find_rewritten split: option.splits)
qed (use d1_increment_same in blast)+

section \<open>Properties\<close>

text \<open>
  C32: Both summary stores count exactly. After any measurements on new stores, whatever the sink and
  the failure reporter do, the summary of a tenant, plugin and day is the sum of the valid
  measurements of exactly that tenant, plugin and day, and the map in memory and the table report
  the same one, as long as the totals stay representable (safe integers and a finite time). Querying
  an impossible day is refused by both.
\<close>

theorem usage_stores_agree:
  assumes "totalsStorable ieeeAdd k qs"
  shows "getDailyUsageSummary other memSummary k (fst (meterAll (memIncrement ieeeAdd) sink reporter qs ([], w))) =
      bindE (validateDailyUsageKey other k) (\<lambda>_. Inr (meterTotals ieeeAdd k qs)) \<and>
    getDailyUsageSummary other d1Summary k (fst (meterAll (d1Increment sqlAdd ieeeAdd) sink reporter qs ([], w))) =
      bindE (validateDailyUsageKey other k) (\<lambda>_. Inr (meterTotals ieeeAdd k qs))"
proof -
  have "memSummary k (fst (meterAll (memIncrement ieeeAdd) sink reporter qs ([], w))) = Inr (meterTotals ieeeAdd k qs)"
    by (rule mem_summaries.meterAll_counts) (use assms in \<open>simp_all add: memSummary_def mem_get_def\<close>)
  moreover have "d1Summary k (fst (meterAll (d1Increment sqlAdd ieeeAdd) sink reporter qs ([], w))) = Inr (meterTotals ieeeAdd k qs)"
    by (rule d1_summaries.meterAll_counts) (use assms in \<open>simp_all add: d1Summary_def tableOk_def\<close>)
  ultimately show ?thesis by (simp add: getDailyUsageSummary_def)
qed

definition example_metric :: "string \<Rightarrow> int \<Rightarrow> RecordUsageMetricRequest" where
  "example_metric p cpu =
     \<lparr>rm_tenantId = ''t'', rm_pluginId = p, rm_hookType = ''event'', rm_status = ''success'', rm_cpuMs = NInt cpu,
      rm_subrequests = NInt 2, rm_workflowRuns = NInt 0, rm_at = Some 5\<rparr>"

definition example_day :: "GetDailyUsageSummaryRequest" where
  "example_day = \<lparr>gd_tenantId = ''t'', gd_pluginId = ''p'', gd_date = ''1970-01-01''\<rparr>"

definition example_metrics :: "RecordUsageMetricRequest list" where
  "example_metrics = [example_metric ''p'' 7, example_metric ''q'' 9, example_metric ''p'' 8]"

lemma example_day_text: "take 10 (toISOString 5) = ''1970-01-01''"
  by code_simp

lemma example_valid:
  "list_all (\<lambda>q. validateUsageMetric q = Inr ()) example_metrics"
  "validateDailyUsageKey (\<lambda>_. None) example_day = Inr 0"
  by code_simp+

lemma example_key: "metricSummaryKey (example_metric p c) = Inr (example_day\<lparr>gd_pluginId := p\<rparr>)"
  by (simp add: metricSummaryKey_def usageDay_def example_metric_def example_day_def example_day_text)

lemma example_metered:
  "metered example_day (example_metric ''p'' 7)" "metered example_day (example_metric ''p'' 8)"
  "\<not> metered example_day (example_metric ''q'' 9)"
  using example_valid(1) by (simp_all add: metered_def example_key example_metrics_def, simp_all add: example_day_def)

lemma example_totals:
  "meterTotals (\<lambda>_ _. NaN) example_day example_metrics =
     \<lparr>ds_tenantId = ''t'', ds_pluginId = ''p'', ds_date = ''1970-01-01'', ds_executions = NInt 2, ds_cpuMs = NInt 15,
      ds_subrequests = NInt 4, ds_workflowRuns = NInt 0\<rparr>"
  by (simp add: meterTotals_def example_metrics_def example_metered)
    (simp add: addExact_def addMetric_def emptySummary_def example_day_def example_metric_def num_add_def
      is_safe_integer_def max_safe_integer_def)

lemma example_storable: "totalsStorable (\<lambda>_ _. NaN) example_day example_metrics"
  by (simp add: totalsStorable_def meterTotals_def example_metrics_def upt_rec example_metered)
    (simp add: storable_def addExact_def addMetric_def emptySummary_def example_day_def example_metric_def num_add_def
      isNonNegativeNumber_def is_safe_integer_def max_safe_integer_def)

text \<open>Two measurements of the plugin are counted, in both stores, although the sink fails.\<close>

theorem usage_stores_agree_witness:
  "map_sum id ds_cpuMs (getDailyUsageSummary (\<lambda>_. None) memSummary example_day
      (fst (meterAll (memIncrement (\<lambda>_ _. NaN)) (Some (\<lambda>_ w. (Inl (), w))) (\<lambda>_ w. (Inr (), w)) example_metrics ([], ())))) = Inr (NInt 15) \<and>
   map_sum id ds_cpuMs (getDailyUsageSummary (\<lambda>_. None) d1Summary example_day
      (fst (meterAll (d1Increment (\<lambda>_ _. NaN) (\<lambda>_ _. NaN)) (Some (\<lambda>_ w. (Inl (), w))) (\<lambda>_ w. (Inr (), w)) example_metrics ([], ())))) = Inr (NInt 15)"
  using usage_stores_agree [OF example_storable, where other = "\<lambda>_. None" and sink = "Some (\<lambda>_ w. (Inl (), w))"
      and reporter = "\<lambda>_ w. (Inr (), w)" and w = "()" and sqlAdd = "\<lambda>_ _. NaN"]
  by (simp add: example_totals example_valid)

end
