(* ===== verification/CpUsageRecorder.thy ===== *)
theory CpUsageRecorder
  imports CpUsageMeter CpStore
begin

text \<open>
  \<open>packages/control-plane/src/execution-usage-recorder.ts\<close>: an execution is written first, then
  metered; the written record decides what is metered, and a failing meter never undoes it. The
  arguments are untyped values, as the code checks them at run time.
\<close>

datatype recorder_error = ExecutionUsageInvalidRequest | StoreFailed string

section \<open>Checks\<close>

definition hasExactKeys :: "jsval \<Rightarrow> string list \<Rightarrow> bool" where
  "hasExactKeys v ks \<longleftrightarrow> length (own_keys v) = length ks \<and> list_all (has_own v) ks"

definition hasOnlyKeys :: "jsval \<Rightarrow> string list \<Rightarrow> bool" where
  "hasOnlyKeys v ks \<longleftrightarrow> list_all (\<lambda>k. k \<in> set ks) (own_keys v)"

fun js_is_function :: "jsval \<Rightarrow> bool" where
  "js_is_function (JFun _) \<longleftrightarrow> True"
| "js_is_function _ \<longleftrightarrow> False"

definition hasControlCharacterIn :: "string \<Rightarrow> bool" where
  "hasControlCharacterIn s \<longleftrightarrow> list_ex is_control s"

fun isBoundedTextValue :: "jsval \<Rightarrow> nat \<Rightarrow> bool" where
  "isBoundedTextValue (JStr s) n \<longleftrightarrow> trim s \<noteq> [] \<and> length s \<le> n"
| "isBoundedTextValue _ n \<longleftrightarrow> False"

fun isIdentifier :: "jsval \<Rightarrow> bool" where
  "isIdentifier (JStr s) \<longleftrightarrow> isBoundedTextValue (JStr s) 256 \<and> \<not> hasControlCharacterIn s"
| "isIdentifier _ \<longleftrightarrow> False"

fun isNonNegativeFinite :: "jsval \<Rightarrow> bool" where
  "isNonNegativeFinite (JNum n) \<longleftrightarrow> isNonNegativeNumber n"
| "isNonNegativeFinite _ \<longleftrightarrow> False"

fun isNonNegativeInteger :: "jsval \<Rightarrow> bool" where
  "isNonNegativeInteger (JNum (NInt i)) \<longleftrightarrow> is_safe_integer i \<and> 0 \<le> i"
| "isNonNegativeInteger _ \<longleftrightarrow> False"

definition callStatuses :: "string list" where
  "callStatuses = [''success'', ''denied'', ''error'']"

fun oneOf :: "string list \<Rightarrow> jsval \<Rightarrow> bool" where
  "oneOf ts (JStr s) \<longleftrightarrow> s \<in> set ts"
| "oneOf ts _ \<longleftrightarrow> False"

definition isCapabilityCall :: "jsval \<Rightarrow> bool" where
  "isCapabilityCall v \<longleftrightarrow>
     isRecord v \<and> hasExactKeys v [''name'', ''status''] \<and> isBoundedTextValue (js_get v ''name'') 256 \<and>
     oneOf callStatuses (js_get v ''status'')"

fun isValidDate :: "jsval \<Rightarrow> bool" where
  "isValidDate (JDate d) \<longleftrightarrow> d \<noteq> None"
| "isValidDate _ \<longleftrightarrow> False"

fun isCallList :: "jsval \<Rightarrow> bool" where
  "isCallList (JArr cs) \<longleftrightarrow> length cs \<le> 256 \<and> list_all isCapabilityCall cs"
| "isCallList _ \<longleftrightarrow> False"

definition executionKeys :: "jsval \<Rightarrow> string list" where
  "executionKeys v =
     [''id'', ''tenantId'', ''pluginId'', ''hookName'', ''version'', ''status'', ''durationMs'',
      ''capabilityCalls'', ''createdAt''] @ (if js_get v ''error'' = JUndef then [] else [''error''])"

definition validateExecution :: "jsval \<Rightarrow> (recorder_error, unit) outcome" where
  "validateExecution v =
     guardE
       (isRecord v \<and> hasExactKeys v (executionKeys v) \<and> isIdentifier (js_get v ''id'') \<and>
        isIdentifier (js_get v ''tenantId'') \<and> isIdentifier (js_get v ''pluginId'') \<and>
        isBoundedTextValue (js_get v ''hookName'') 256 \<and> isBoundedTextValue (js_get v ''version'') 128 \<and>
        oneOf executionStatuses (js_get v ''status'') \<and> isNonNegativeFinite (js_get v ''durationMs'') \<and>
        (js_get v ''error'' \<noteq> JUndef \<longrightarrow> isBoundedTextValue (js_get v ''error'') 4096) \<and>
        isCallList (js_get v ''capabilityCalls'') \<and> isValidDate (js_get v ''createdAt''))
       ExecutionUsageInvalidRequest"

definition validateRequest :: "jsval \<Rightarrow> (recorder_error, unit) outcome" where
  "validateRequest v =
     bindE (guardE
       (isRecord v \<and> hasExactKeys v [''execution'', ''metrics''] \<and> isRecord (js_get v ''metrics'') \<and>
        hasExactKeys (js_get v ''metrics'') [''hookType'', ''cpuMs'', ''subrequests'', ''workflowRuns''] \<and>
        isHookType (js_get (js_get v ''metrics'') ''hookType'') \<and>
        isNonNegativeFinite (js_get (js_get v ''metrics'') ''cpuMs'') \<and>
        isNonNegativeInteger (js_get (js_get v ''metrics'') ''subrequests'') \<and>
        isNonNegativeInteger (js_get (js_get v ''metrics'') ''workflowRuns''))
       ExecutionUsageInvalidRequest) (\<lambda>_. validateExecution (js_get v ''execution''))"

text \<open>The configuration: a store and a meter with the functions the recorder needs.\<close>

definition validateConfiguration :: "jsval \<Rightarrow> (recorder_error, unit) outcome" where
  "validateConfiguration v =
     guardE
       (isRecord v \<and> hasOnlyKeys v [''store'', ''usageMeter'', ''reportFailure''] \<and>
        isRecord (js_get v ''store'') \<and> js_is_function (js_get (js_get v ''store'') ''writeExecution'') \<and>
        isRecord (js_get v ''usageMeter'') \<and>
        hasExactKeys (js_get v ''usageMeter'')
          [''recordExecutionUsage'', ''getDailyUsageSummary'', ''getDailyUsageSummaries''] \<and>
        list_all (\<lambda>k. js_is_function (js_get (js_get v ''usageMeter'') k))
          [''recordExecutionUsage'', ''getDailyUsageSummary'', ''getDailyUsageSummaries''] \<and>
        (js_get v ''reportFailure'' \<noteq> JUndef \<longrightarrow> js_is_function (js_get v ''reportFailure'')))
       ExecutionUsageInvalidRequest"

section \<open>Recording\<close>

text \<open>Reading the fields of a checked value.\<close>

fun text_of :: "jsval \<Rightarrow> string" where
  "text_of (JStr s) = s"
| "text_of _ = []"

fun number_of :: "jsval \<Rightarrow> jsnum" where
  "number_of (JNum n) = n"
| "number_of _ = NaN"

fun time_of :: "jsval \<Rightarrow> int option" where
  "time_of (JDate d) = d"
| "time_of _ = None"

text \<open>The measurement: identity, outcome and time of the written record, the metrics of the request.\<close>

definition usageMetric :: "jsval \<Rightarrow> jsval \<Rightarrow> RecordUsageMetricRequest" where
  "usageMetric persisted metrics =
     \<lparr>rm_tenantId = text_of (js_get persisted ''tenantId''), rm_pluginId = text_of (js_get persisted ''pluginId''),
      rm_hookType = text_of (js_get metrics ''hookType''), rm_status = text_of (js_get persisted ''status''),
      rm_cpuMs = number_of (js_get metrics ''cpuMs''), rm_subrequests = number_of (js_get metrics ''subrequests''),
      rm_workflowRuns = number_of (js_get metrics ''workflowRuns''), rm_at = time_of (js_get persisted ''createdAt'')\<rparr>"

definition recorderFailure :: "jsval \<Rightarrow> UsageMeterFailure" where
  "recorderFailure persisted =
     \<lparr>uf_code = ''execution_usage_recording_failed'', uf_tenantId = text_of (js_get persisted ''tenantId''),
      uf_pluginId = text_of (js_get persisted ''pluginId'')\<rparr>"

definition recordUsage ::
  "(jsval \<Rightarrow> ('w, string, jsval) step) \<Rightarrow> (RecordUsageMetricRequest \<Rightarrow> ('w, meter_error, DailyUsageSummary) step) \<Rightarrow>
   (UsageMeterFailure \<Rightarrow> ('w, 'x, unit) step) option \<Rightarrow> jsval \<Rightarrow> ('w, recorder_error, jsval) step" where
  "recordUsage write meter report request =
     bindS (liftS (validateRequest request)) (\<lambda>_.
     bindS (\<lambda>w. case write (js_get request ''execution'') w of
                  (Inl e, w') \<Rightarrow> (Inl (StoreFailed e), w') | (Inr p, w') \<Rightarrow> (Inr p, w')) (\<lambda>persisted.
     bindS (liftS (validateExecution persisted)) (\<lambda>_ w.
       (case meter (usageMetric persisted (js_get request ''metrics'')) w of
          (Inr _, w') \<Rightarrow> (Inr persisted, w')
        | (Inl _, w') \<Rightarrow>
            (Inr persisted, case report of None \<Rightarrow> w' | Some r \<Rightarrow> snd (r (recorderFailure persisted) w'))))))"

section \<open>The database behind it\<close>

text \<open>An execution as the typed record the store writes.\<close>

fun call_of :: "jsval \<Rightarrow> string \<times> call_status" where
  "call_of v =
     (text_of (js_get v ''name''),
      if js_get v ''status'' = JStr ''success'' then CallSuccess
      else if js_get v ''status'' = JStr ''denied'' then CallDenied else CallError)"

fun calls_of :: "jsval \<Rightarrow> (string \<times> call_status) list" where
  "calls_of (JArr cs) = map call_of cs"
| "calls_of _ = []"

definition status_of :: "string \<Rightarrow> ExecutionStatus" where
  "status_of s =
     (if s = ''success'' then ExecSuccess else if s = ''error'' then ExecError
      else if s = ''timeout'' then ExecTimeout else if s = ''egress_denied'' then ExecEgressDenied
      else ExecBudgetExceeded)"

definition executionOf :: "jsval \<Rightarrow> ExecutionRecord" where
  "executionOf v =
     \<lparr>ex_id = text_of (js_get v ''id''), ex_tenantId = text_of (js_get v ''tenantId''),
      ex_pluginId = text_of (js_get v ''pluginId''), ex_hookName = text_of (js_get v ''hookName''),
      ex_version = text_of (js_get v ''version''), ex_status = status_of (text_of (js_get v ''status'')),
      ex_durationMs = number_of (js_get v ''durationMs''),
      ex_error = (if js_get v ''error'' = JUndef then None else Some (text_of (js_get v ''error''))),
      ex_capabilityCalls = calls_of (js_get v ''capabilityCalls''), ex_createdAt = time_of (js_get v ''createdAt'')\<rparr>"

definition storeExecution :: "jsval \<Rightarrow> (cp_db, string, jsval) step" where
  "storeExecution v = bindS (writeExecution (executionOf v)) (\<lambda>_. returnS v)"

text \<open>The recorder over the two tables of the database.\<close>

definition recordInDatabase ::
  "(jsnum \<Rightarrow> jsnum \<Rightarrow> jsnum) \<Rightarrow> (jsnum \<Rightarrow> jsnum \<Rightarrow> jsnum) \<Rightarrow> (UsageEvent \<Rightarrow> ('w, 'x, unit) step) option \<Rightarrow>
   (UsageMeterFailure \<Rightarrow> ('w, 'x, unit) step) \<Rightarrow> jsval \<Rightarrow>
   (cp_db \<times> DailyUsageSummary list \<times> 'w, recorder_error, jsval) step" where
  "recordInDatabase sqlAdd ieeeAdd sink reporter request =
     recordUsage (\<lambda>v. onFst (storeExecution v))
       (\<lambda>q. onSnd (recordExecutionUsage (d1Increment sqlAdd ieeeAdd) sink reporter q))
       (None :: (UsageMeterFailure \<Rightarrow> (cp_db \<times> DailyUsageSummary list \<times> 'w, unit, unit) step) option) request"

section \<open>What is written can be metered\<close>

text \<open>A checked record and checked metrics make a measurement the meter accepts.\<close>

lemma isIdentifier_text: "isIdentifier v \<Longrightarrow> \<exists>s. v = JStr s \<and> trim s \<noteq> [] \<and> length s \<le> 256"
  by (cases v) auto

lemma oneOf_text: "oneOf ts v \<Longrightarrow> \<exists>s. v = JStr s \<and> s \<in> set ts"
  by (cases v) auto

lemma isValidDate_time: "isValidDate v \<Longrightarrow> \<exists>t. v = JDate (Some t)"
  by (cases v) auto

lemma isHookType_text: "isHookType v \<Longrightarrow> \<exists>s. v = JStr s"
  by (cases v) (auto simp: isHookType_def)

lemma isNonNegativeFinite_number: "isNonNegativeFinite v \<Longrightarrow> \<exists>n. v = JNum n \<and> isNonNegativeNumber n"
  by (cases v) auto

lemma isNonNegativeInteger_number: "isNonNegativeInteger v \<Longrightarrow> \<exists>i. v = JNum (NInt i) \<and> 0 \<le> i"
  by (cases v rule: isNonNegativeInteger.cases) auto

lemma valid_execution_metric:
  assumes "validateExecution p = Inr ()" "validateRequest request = Inr ()"
  shows "validateUsageMetric (usageMetric p (js_get request ''metrics'')) = Inr ()"
proof -
  have e: "isIdentifier (js_get p ''tenantId'')" "isIdentifier (js_get p ''pluginId'')"
    "oneOf executionStatuses (js_get p ''status'')" "isValidDate (js_get p ''createdAt'')"
    using assms(1) by (simp_all add: validateExecution_def)
  have m: "isHookType (js_get (js_get request ''metrics'') ''hookType'')"
    "isNonNegativeFinite (js_get (js_get request ''metrics'') ''cpuMs'')"
    "isNonNegativeInteger (js_get (js_get request ''metrics'') ''subrequests'')"
    "isNonNegativeInteger (js_get (js_get request ''metrics'') ''workflowRuns'')"
    using assms(2) by (simp_all add: validateRequest_def bindE_Inr)
  obtain t u s d where "js_get p ''tenantId'' = JStr t" "trim t \<noteq> []" "length t \<le> 256"
    "js_get p ''pluginId'' = JStr u" "trim u \<noteq> []" "length u \<le> 256"
    "js_get p ''status'' = JStr s" "s \<in> set executionStatuses" "js_get p ''createdAt'' = JDate (Some d)"
    using isIdentifier_text [OF e(1)] isIdentifier_text [OF e(2)] oneOf_text [OF e(3)] isValidDate_time [OF e(4)]
    by blast
  moreover obtain h n i j where "js_get (js_get request ''metrics'') ''hookType'' = JStr h" "isHookType (JStr h)"
    "js_get (js_get request ''metrics'') ''cpuMs'' = JNum n" "isNonNegativeNumber n"
    "js_get (js_get request ''metrics'') ''subrequests'' = JNum (NInt i)" "0 \<le> i"
    "js_get (js_get request ''metrics'') ''workflowRuns'' = JNum (NInt j)" "0 \<le> j"
    using m(1) isHookType_text [OF m(1)] isNonNegativeFinite_number [OF m(2)]
      isNonNegativeInteger_number [OF m(3)] isNonNegativeInteger_number [OF m(4)]
    by metis
  ultimately show ?thesis
    by (simp add: validateUsageMetric_def validateIdentifier_def validateNonNegativeFinite_def
        validateNonNegativeInteger_def usageMetric_def num_is_integer_def)
qed

section \<open>The execution log and the usage table\<close>

definition meteredCount :: "GetDailyUsageSummaryRequest \<Rightarrow> DailyUsageSummary list \<Rightarrow> jsnum" where
  "meteredCount k rows = (case List.find (\<lambda>r. rowKey r = k) rows of None \<Rightarrow> NInt 0 | Some r \<Rightarrow> ds_executions r)"

definition executionKey :: "ExecutionRow \<Rightarrow> GetDailyUsageSummaryRequest" where
  "executionKey x =
     \<lparr>gd_tenantId = ex_tenantId (ew_record x), gd_pluginId = ex_pluginId (ew_record x),
      gd_date = take 10 (ew_created_at x)\<rparr>"

definition loggedCount :: "GetDailyUsageSummaryRequest \<Rightarrow> cp_db \<Rightarrow> nat" where
  "loggedCount k db = length (filter (\<lambda>x. executionKey x = k) (cd_executions db))"

definition nonNegativeAdd :: "(jsnum \<Rightarrow> jsnum \<Rightarrow> jsnum) \<Rightarrow> bool" where
  "nonNegativeAdd f \<longleftrightarrow> (\<forall>a b. num_ge a (NInt 0) \<longrightarrow> num_ge b (NInt 0) \<longrightarrow> num_ge (f a b) (NInt 0))"

lemma num_add_nonneg:
  "nonNegativeAdd f \<Longrightarrow> num_ge a (NInt 0) \<Longrightarrow> num_ge b (NInt 0) \<Longrightarrow> num_ge (num_add f a b) (NInt 0)"
  by (auto simp: num_add_def nonNegativeAdd_def split: jsnum.splits)

lemma rowChecks_add:
  assumes "nonNegativeAdd sqlAdd" "nonNegativeAdd ieeeAdd" "validateUsageMetric q = Inr ()" "rowChecks r"
  shows "rowChecks (addMetric sqlAdd ieeeAdd q r)"
  using assms valid_metric [OF assms(3)]
  by (auto simp: rowChecks_def addMetric_def isNonNegativeNumber_def intro!: num_add_nonneg)

lemma d1Increment_count:
  assumes "nonNegativeAdd sqlAdd" "nonNegativeAdd ieeeAdd" "validateUsageMetric q = Inr ()"
    and "metricSummaryKey q = Inr k" "list_all rowChecks rows"
  defines "rows' \<equiv> snd (d1Increment sqlAdd ieeeAdd q rows)"
  shows "meteredCount k' rows' = (if k' = k then num_add sqlAdd (meteredCount k rows) (NInt 1) else meteredCount k' rows)"
    and "list_all rowChecks rows'"
proof -
  have i: "rowChecks (insertedRow k q)"
    using valid_metric [OF assms(3)] by (auto simp: rowChecks_def insertedRow_def isNonNegativeNumber_def)
  have "meteredCount k' rows' = (if k' = k then num_add sqlAdd (meteredCount k rows) (NInt 1) else meteredCount k' rows) \<and>
      list_all rowChecks rows'"
  proof (cases "List.find (\<lambda>x. rowKey x = k) rows")
    case None
    then have "rows' = rows @ [insertedRow k q]" using i assms(4) by (simp add: rows'_def d1Increment_def)
    then show ?thesis using None i assms(5)
      by (auto simp: meteredCount_def find_append num_add_def insertedRow_def [of k q] emptySummary_def
          rowKey_def split: option.splits)
  next
    case (Some r)
    let ?u = "addMetric sqlAdd ieeeAdd q r"
    have r: "rowKey r = k" "rowChecks r"
      using Some assms(5) by (auto dest!: find_Some_in simp: list_all_iff)
    then have "rowChecks ?u" using rowChecks_add assms(1-3) by blast
    then have "rows' = map (\<lambda>x. if rowKey x = k then ?u else x) rows"
      using Some i assms(4) by (simp add: rows'_def d1Increment_def Let_def)
    moreover have "ds_executions ?u = num_add sqlAdd (ds_executions r) (NInt 1)" "rowKey ?u = k"
      using r by (simp_all add: addMetric_def rowKey_def)
    ultimately show ?thesis using Some \<open>rowChecks ?u\<close> assms(5)
      by (auto simp: meteredCount_def find_rewritten list_all_iff)
  qed
  then show "meteredCount k' rows' = (if k' = k then num_add sqlAdd (meteredCount k rows) (NInt 1) else meteredCount k' rows)"
    and "list_all rowChecks rows'" by blast+
qed

text \<open>One recording: nothing happens to the tables, or both take the execution.\<close>

lemma writeExecution_cases:
  obtains (refused) e where "writeExecution r db = (Inl e, db)"
  | (written) t where "ex_createdAt r = Some t"
      "writeExecution r db = (Inr r, db\<lparr>cd_executions := cd_executions db @
        [\<lparr>ew_record = r\<lparr>ex_createdAt := None\<rparr>, ew_created_at = toISOString t\<rparr>]\<rparr>)"
proof (cases "ex_createdAt r")
  case (Some t)
  then show thesis
    by (cases "list_ex (\<lambda>x. ex_id (ew_record x) = ex_id r) (cd_executions db) \<or> ex_durationMs r = NaN \<or>
          findTenantById (ex_tenantId r) db = None \<or> findPluginById (ex_pluginId r) db = None")
      (auto simp: writeExecution_def isoText_def simp del: cp_db.update_convs intro: refused written)
qed (use refused in \<open>simp add: writeExecution_def isoText_def\<close>)

lemma recordInDatabase_cases:
  obtains (refused) "fst (snd (recordInDatabase sqlAdd ieeeAdd sink reporter request (db, rows, w))) = db"
      "fst (snd (snd (recordInDatabase sqlAdd ieeeAdd sink reporter request (db, rows, w)))) = rows"
  | (recorded) x q where "cd_executions (fst (snd (recordInDatabase sqlAdd ieeeAdd sink reporter request (db, rows, w)))) =
        cd_executions db @ [x]"
      "fst (snd (snd (recordInDatabase sqlAdd ieeeAdd sink reporter request (db, rows, w)))) =
        snd (d1Increment sqlAdd ieeeAdd q rows)"
      "validateUsageMetric q = Inr ()" "metricSummaryKey q = Inr (executionKey x)"
proof (cases "validateRequest request")
  case (Inr u)
  let ?e = "js_get request ''execution''"
  let ?q = "usageMetric ?e (js_get request ''metrics'')"
  have e: "validateExecution ?e = Inr ()" using Inr by (auto simp: validateRequest_def bindE_Inr)
  show thesis
  proof (cases rule: writeExecution_cases [of "executionOf ?e" db])
    case (refused m)
    then have "storeExecution ?e db = (Inl m, db)" by (simp add: storeExecution_def bindS_def)
    then show thesis using Inr that(1) by (simp add: recordInDatabase_def recordUsage_def bindS_def onFst_def)
  next
    case (written t)
    let ?x = "\<lparr>ew_record = (executionOf ?e)\<lparr>ex_createdAt := None\<rparr>, ew_created_at = toISOString t\<rparr>"
    let ?db = "db\<lparr>cd_executions := cd_executions db @ [?x]\<rparr>"
    have s: "storeExecution ?e db = (Inr ?e, ?db)" using written by (simp add: storeExecution_def bindS_def)
    have q: "validateUsageMetric ?q = Inr ()" using valid_execution_metric e Inr by (metis old.unit.exhaust)
    have k: "metricSummaryKey ?q = Inr (executionKey ?x)"
      using written(1) by (simp add: metricSummaryKey_def usageDay_def usageMetric_def executionKey_def executionOf_def)
    have "snd (recordInDatabase sqlAdd ieeeAdd sink reporter request (db, rows, w)) =
        (?db, snd (recordExecutionUsage (d1Increment sqlAdd ieeeAdd) sink reporter ?q (rows, w)))"
      using Inr e s by (auto simp: recordInDatabase_def recordUsage_def bindS_def onFst_def onSnd_def split: prod.splits sum.splits)
    then show thesis using that(2) [of ?x ?q] q k
      by (simp add: d1_summaries.record_state)
  qed
qed (use that(1) in \<open>simp add: recordInDatabase_def recordUsage_def bindS_def\<close>)

fun recordRequests ::
  "(jsnum \<Rightarrow> jsnum \<Rightarrow> jsnum) \<Rightarrow> (jsnum \<Rightarrow> jsnum \<Rightarrow> jsnum) \<Rightarrow> (UsageEvent \<Rightarrow> ('w, 'x, unit) step) option \<Rightarrow>
   (UsageMeterFailure \<Rightarrow> ('w, 'x, unit) step) \<Rightarrow> jsval list \<Rightarrow>
   cp_db \<times> DailyUsageSummary list \<times> 'w \<Rightarrow> cp_db \<times> DailyUsageSummary list \<times> 'w" where
  "recordRequests sqlAdd ieeeAdd sink reporter [] s = s"
| "recordRequests sqlAdd ieeeAdd sink reporter (q # qs) s =
     recordRequests sqlAdd ieeeAdd sink reporter qs (snd (recordInDatabase sqlAdd ieeeAdd sink reporter q s))"

definition tablesAgree :: "cp_db \<Rightarrow> DailyUsageSummary list \<Rightarrow> bool" where
  "tablesAgree db rows \<longleftrightarrow>
     list_all rowChecks rows \<and> (\<forall>k. meteredCount k rows = NInt (int (loggedCount k db)))"

lemma recordInDatabase_agree:
  assumes "nonNegativeAdd sqlAdd" "nonNegativeAdd ieeeAdd" "tablesAgree db rows"
    "int (length (cd_executions db)) < max_safe_integer"
    "snd (recordInDatabase sqlAdd ieeeAdd sink reporter request (db, rows, w)) = out"
  shows "tablesAgree (fst out) (fst (snd out)) \<and> length (cd_executions (fst out)) \<le> Suc (length (cd_executions db))"
proof (cases rule: recordInDatabase_cases [of sqlAdd ieeeAdd sink reporter request db rows w])
  case (recorded x q)
  have b: "int (loggedCount k db) < max_safe_integer" for k
    using assms(4) le_less_trans [OF zle_int [THEN iffD2, OF length_filter_le]] by (simp add: loggedCount_def)
  have "num_add sqlAdd (NInt (int (loggedCount k db))) (NInt 1) = NInt (int (loggedCount k db) + 1)" for k
    using b [of k] by (auto simp: num_add_def is_safe_integer_def max_safe_integer_def)
  moreover have "loggedCount k (fst out) = loggedCount k db + (if k = executionKey x then 1 else 0)" for k
    using recorded(1) assms(5) by (auto simp: loggedCount_def)
  ultimately show ?thesis
    using d1Increment_count [OF assms(1,2) recorded(3,4), of rows] assms(3,5) recorded(1,2)
    by (auto simp: tablesAgree_def)
qed (use assms in auto)

lemma recordRequests_agree:
  assumes "nonNegativeAdd sqlAdd" "nonNegativeAdd ieeeAdd" "tablesAgree db rows"
    "int (length (cd_executions db) + length qs) \<le> max_safe_integer"
  shows "case recordRequests sqlAdd ieeeAdd sink reporter qs (db, rows, w) of (db', rows', _) \<Rightarrow> tablesAgree db' rows'"
  using assms(3,4)
proof (induction qs arbitrary: db rows w)
  case (Cons q qs)
  obtain db' rows' w' where o: "snd (recordInDatabase sqlAdd ieeeAdd sink reporter q (db, rows, w)) = (db', rows', w')"
    using prod_cases3 by blast
  have "tablesAgree db' rows'" "length (cd_executions db') \<le> Suc (length (cd_executions db))"
    using recordInDatabase_agree [OF assms(1,2) Cons.prems(1) _ o] Cons.prems(2) by auto
  then show ?case using Cons.IH [of db' rows' w'] Cons.prems(2) o by simp
qed simp

text \<open>
  The execution log and the usage table agree. After any recordings, valid or not, accepted by
  the database or not, with a sink and a reporter that fail at will, the number of executions the
  table counts for a tenant, plugin and day is the number of executions the log holds of that tenant
  and plugin on that day, so that a summary that is returned reports exactly that number.
\<close>

theorem recorded_executions_metered:
  assumes "nonNegativeAdd sqlAdd" "nonNegativeAdd ieeeAdd" "cd_executions db = []"
    and "int (length requests) \<le> max_safe_integer"
    and "recordRequests sqlAdd ieeeAdd sink reporter requests (db, [], w) = (db', rows, w')"
  shows "meteredCount k rows = NInt (int (loggedCount k db')) \<and>
    (case d1Summary k rows of Inl _ \<Rightarrow> True | Inr r \<Rightarrow> ds_executions r = NInt (int (loggedCount k db')))"
proof -
  have "tablesAgree db' rows"
    using recordRequests_agree [OF assms(1,2), of db "[]" requests sink reporter w] assms(3-5)
    by (simp add: tablesAgree_def meteredCount_def loggedCount_def)
  then have "meteredCount k rows = NInt (int (loggedCount k db'))" by (simp add: tablesAgree_def)
  then show ?thesis
    by (cases "List.find (\<lambda>r. rowKey r = k) rows")
      (auto simp: meteredCount_def d1Summary_def dailyUsageSummaryFromRow_def emptySummary_def)
qed

definition example_execution :: jsval where
  "example_execution = JObj PlainObj
     [(''id'', JStr ''x''), (''tenantId'', JStr ''t''), (''pluginId'', JStr ''p''), (''hookName'', JStr ''h''),
      (''version'', JStr ''1''), (''status'', JStr ''success''), (''durationMs'', JNum (NInt 3)),
      (''capabilityCalls'', JArr []), (''createdAt'', JDate (Some 5))]"

definition example_request :: jsval where
  "example_request = JObj PlainObj
     [(''execution'', example_execution),
      (''metrics'', JObj PlainObj [(''hookType'', JStr ''event''), (''cpuMs'', JNum (NInt 7)),
         (''subrequests'', JNum (NInt 2)), (''workflowRuns'', JNum (NInt 0))])]"

definition example_db :: cp_db where
  "example_db =
     \<lparr>cd_apps = [], cd_tenants = [\<lparr>te_id = ''t'', te_appId = ''a'', te_name = ''n''\<rparr>],
      cd_plugins = [\<lparr>pl_id = ''p'', pl_appId = ''a'', pl_key = ''k''\<rparr>], cd_versions = [], cd_installations = [],
      cd_approvals = [], cd_executions = [], cd_slack = []\<rparr>"

definition example_run :: "cp_db \<times> DailyUsageSummary list \<times> unit" where
  "example_run = recordRequests (\<lambda>_ _. NInt 0) (\<lambda>_ _. NInt 0) None (\<lambda>_ w. (Inr () :: (unit, unit) outcome, w))
     [example_request, JNull, example_request] (example_db, [], ())"

lemma example_request_valid: "validateRequest example_request = Inr ()"
  by code_simp

lemma example_logged: "loggedCount example_day (fst example_run) = 1"
  by code_simp

text \<open>A recording, a value that is no request and a repeated identifier leave one execution in both.\<close>

theorem recorded_executions_metered_witness:
  "meteredCount example_day (fst (snd example_run)) = NInt 1"
proof -
  obtain db' rows w' where r: "example_run = (db', rows, w')" using prod_cases3 by blast
  have "meteredCount example_day rows = NInt (int (loggedCount example_day db'))"
    using recorded_executions_metered [OF _ _ _ _ r [unfolded example_run_def], of example_day]
    by (simp add: nonNegativeAdd_def example_db_def max_safe_integer_def)
  moreover have "loggedCount example_day db' = 1" using example_logged unfolding r by simp
  ultimately show ?thesis unfolding r by simp
qed

end
