(* ===== verification/LdCaller.thy ===== *)
theory LdCaller
  imports PluginSdk CpUsageRecorder
begin

text \<open>
  \<open>packages/loader/src/cloudflare.ts\<close>, the trusted host of dynamic workers: it checks a run request,
  derives the identity of the worker, provides its code, invokes it under a time limit, reads the
  evidence of the run and has the execution recorded.

  Arguments: the digest \<open>sha256\<close>, the storage of artifacts, the factory of bindings, the runtime that
  executes a worker, the evidence store, the recorder, the classifier of foreign errors, the
  diagnostics and \<open>parseJson\<close> (\<open>JSON.parse\<close> of the decoded bytes). The platform keeps the code it
  was given per worker identity: \<open>get\<close> and \<open>put\<close> of a keyed store.
\<close>

section \<open>Values that JSON keeps\<close>

fun losslessJson :: "jsval \<Rightarrow> bool" where
  "losslessJson JNull = True"
| "losslessJson (JStr _) = True"
| "losslessJson (JBool _) = True"
| "losslessJson (JNum n) = num_is_finite n"
| "losslessJson (JArr xs) = list_all losslessJson xs"
| "losslessJson (JObj kind fs) = ((kind = PlainObj \<or> kind = NullProto) \<and> list_all (\<lambda>f. losslessJson (snd f)) fs)"
| "losslessJson _ = False"

text \<open>The text \<open>JSON.stringify\<close> gives such a value; the worker runtime has its own writer for it.\<close>

fun serializeJsonValue :: "jsval \<Rightarrow> string" where
  "serializeJsonValue JNull = ''null''"
| "serializeJsonValue (JStr s) = json_quote s"
| "serializeJsonValue (JBool b) = (if b then ''true'' else ''false'')"
| "serializeJsonValue (JNum n) = num_text n"
| "serializeJsonValue (JArr xs) = ''['' @ join '','' (map serializeJsonValue xs) @ '']''"
| "serializeJsonValue (JObj _ fs) =
     CHR 0x7B # join '','' (map (\<lambda>f. json_quote (fst f) @ '':'' @ serializeJsonValue (snd f)) fs) @ [CHR 0x7D]"
| "serializeJsonValue _ = []"

section \<open>The run request\<close>

definition max_dynamic_worker_bytes :: nat where
  "max_dynamic_worker_bytes = 1048576"

definition max_dynamic_worker_artifact_bytes :: nat where
  "max_dynamic_worker_artifact_bytes = 4194304"

definition max_dynamic_worker_timeout_ms :: int where
  "max_dynamic_worker_timeout_ms = 2147483647"

definition identifierPattern :: "string \<Rightarrow> bool" where
  "identifierPattern s \<longleftrightarrow>
     s \<noteq> [] \<and> is_alnum (hd s) \<and> length s \<le> 256 \<and> list_all (\<lambda>c. is_alnum c \<or> c \<in> set ''._:-'') (tl s)"

fun isRuntimeIdentifier :: "jsval \<Rightarrow> bool" where
  "isRuntimeIdentifier (JStr s) = identifierPattern s"
| "isRuntimeIdentifier _ = False"

fun isRecordedHookName :: "jsval \<Rightarrow> bool" where
  "isRecordedHookName (JStr s) \<longleftrightarrow> trim s \<noteq> [] \<and> length s \<le> 256 \<and> \<not> hasControlCharacterIn s"
| "isRecordedHookName _ \<longleftrightarrow> False"

definition sha256Pattern :: "string \<Rightarrow> bool" where
  "sha256Pattern s \<longleftrightarrow>
     length s = 64 \<and> list_all (\<lambda>c. is_digit c \<or> 97 \<le> code c \<and> code c \<le> 102) s"

fun integerWithin :: "int \<Rightarrow> int \<Rightarrow> jsval \<Rightarrow> bool" where
  "integerWithin low high (JNum (NInt i)) \<longleftrightarrow> is_safe_integer i \<and> low \<le> i \<and> i \<le> high"
| "integerWithin low high _ \<longleftrightarrow> False"

definition runRequestKeys :: "string list" where
  "runRequestKeys =
     [''executionId'', ''tenantId'', ''installationId'', ''pluginId'', ''hookName'', ''hookType'', ''version'',
      ''artifactSha256'', ''grantRevision'', ''payload'', ''limits'']"

definition runRequestBody :: "jsval \<Rightarrow> string" where
  "runRequestBody v =
     serializeJsonValue (JObj PlainObj
       [(''executionId'', js_get v ''executionId''), (''hookName'', js_get v ''hookName''),
        (''hookType'', js_get v ''hookType''), (''payload'', js_get v ''payload'')])"

definition validateRunRequest :: "jsval \<Rightarrow> (HookErrorCode, string) outcome" where
  "validateRunRequest v =
     bindE (guardE
       (isRecord v \<and> hasExactKeys v runRequestKeys \<and>
        list_all (\<lambda>k. isRuntimeIdentifier (js_get v k)) [''executionId'', ''tenantId'', ''installationId'', ''pluginId''] \<and>
        isRecordedHookName (js_get v ''hookName'') \<and>
        isRuntimeIdentifier (js_get v ''version'') \<and> length (text_of (js_get v ''version'')) \<le> 128 \<and>
        isRuntimeIdentifier (js_get v ''grantRevision'') \<and> isHookType (js_get v ''hookType'') \<and>
        is_string (js_get v ''artifactSha256'') \<and> sha256Pattern (text_of (js_get v ''artifactSha256'')) \<and>
        isRecord (js_get v ''limits'') \<and> hasExactKeys (js_get v ''limits'') [''cpuMs'', ''timeoutMs'', ''subrequests''] \<and>
        integerWithin 1 max_safe_integer (js_get (js_get v ''limits'') ''cpuMs'') \<and>
        integerWithin 1 max_dynamic_worker_timeout_ms (js_get (js_get v ''limits'') ''timeoutMs'') \<and>
        integerWithin 0 max_safe_integer (js_get (js_get v ''limits'') ''subrequests'') \<and>
        js_get v ''payload'' \<noteq> JUndef) input_invalid) (\<lambda>_.
     bindE (guardE (js_get v ''hookName'' = JStr ''webhook.outbound'' \<longrightarrow> js_get v ''hookType'' = JStr ''transform'')
       input_invalid) (\<lambda>_.
     bindE (guardE (losslessJson (js_get v ''payload'')) input_invalid) (\<lambda>_.
     bindE (guardE (utf8_length (runRequestBody v) \<le> max_dynamic_worker_bytes) input_invalid) (\<lambda>_.
     Inr (runRequestBody v)))))"

text \<open>The fields of a checked request.\<close>

record run_request =
  rr_executionId :: string
  rr_tenantId :: string
  rr_installationId :: string
  rr_pluginId :: string
  rr_hookName :: string
  rr_hookType :: string
  rr_version :: string
  rr_artifactSha256 :: string
  rr_grantRevision :: string
  rr_cpuMs :: jsnum
  rr_timeoutMs :: jsnum
  rr_subrequests :: jsnum

definition runRequestOf :: "jsval \<Rightarrow> run_request" where
  "runRequestOf v =
     \<lparr>rr_executionId = text_of (js_get v ''executionId''), rr_tenantId = text_of (js_get v ''tenantId''),
      rr_installationId = text_of (js_get v ''installationId''), rr_pluginId = text_of (js_get v ''pluginId''),
      rr_hookName = text_of (js_get v ''hookName''), rr_hookType = text_of (js_get v ''hookType''),
      rr_version = text_of (js_get v ''version''), rr_artifactSha256 = text_of (js_get v ''artifactSha256''),
      rr_grantRevision = text_of (js_get v ''grantRevision''),
      rr_cpuMs = number_of (js_get (js_get v ''limits'') ''cpuMs''),
      rr_timeoutMs = number_of (js_get (js_get v ''limits'') ''timeoutMs''),
      rr_subrequests = number_of (js_get (js_get v ''limits'') ''subrequests'')\<rparr>"

section \<open>Errors\<close>

fun error_text :: "HookErrorCode \<Rightarrow> string" where
  "error_text input_invalid = ''input_invalid''"
| "error_text snapshot_unavailable = ''snapshot_unavailable''"
| "error_text snapshot_integrity_failed = ''snapshot_integrity_failed''"
| "error_text plugin_artifact_invalid = ''plugin_artifact_invalid''"
| "error_text plugin_timeout = ''plugin_timeout''"
| "error_text plugin_memory_exceeded = ''plugin_memory_exceeded''"
| "error_text plugin_subrequest_exceeded = ''plugin_subrequest_exceeded''"
| "error_text plugin_result_invalid = ''plugin_result_invalid''"
| "error_text capability_denied = ''capability_denied''"
| "error_text capability_failed = ''capability_failed''"
| "error_text egress_denied = ''egress_denied''"
| "error_text destination_unavailable = ''destination_unavailable''"
| "error_text evidence_unavailable = ''evidence_unavailable''"
| "error_text runtime_unavailable = ''runtime_unavailable''"

text \<open>
  What an invocation can raise: an error of the caller's own class, from the code callback, or a
  foreign one, from the platform or from reading the answer.
\<close>

datatype foreign_error = InvalidResponse | InvalidJson | PlatformError jsval

datatype invocation_error = CallerError HookErrorCode | ForeignError foreign_error

section \<open>The worker's identity and code\<close>

definition workerScope :: "string \<Rightarrow> run_request \<Rightarrow> string list" where
  "workerScope compatibilityDate q =
     [''v2'', compatibilityDate, rr_tenantId q, rr_installationId q, rr_pluginId q, rr_artifactSha256 q, rr_grantRevision q]"

definition deriveWorkerId :: "(string \<Rightarrow> string) \<Rightarrow> string \<Rightarrow> run_request \<Rightarrow> string" where
  "deriveWorkerId sha256 compatibilityDate q =
     ''tsdw_'' @ take 32 (sha256 (join [CHR 0x00] (workerScope compatibilityDate q)))"

definition bindingNamePattern :: "string \<Rightarrow> bool" where
  "bindingNamePattern s \<longleftrightarrow>
     s \<noteq> [] \<and> is_upper (hd s) \<and> length s \<le> 64 \<and> list_all (\<lambda>c. is_upper c \<or> is_digit c \<or> c = CHR ''_'') (tl s)"

definition secretNameParts :: "string list" where
  "secretNameParts = [''SECRET'', ''TOKEN'', ''PASSWORD'', ''CREDENTIAL'', ''PRIVATE_KEY'']"

definition bindingAllowed :: "string \<Rightarrow> jsval \<Rightarrow> bool" where
  "bindingAllowed name binding \<longleftrightarrow>
     bindingNamePattern name \<and> name \<noteq> ''LOADER'' \<and> \<not> list_ex (str_includes name) secretNameParts \<and>
     (isRecord binding \<or> js_is_function binding) \<and>
     (name = ''CAPABILITIES'' \<longrightarrow> isRecord binding \<and> js_is_function (js_get binding ''call''))"

definition validateScopeBindings :: "jsval \<Rightarrow> (HookErrorCode, jsval) outcome" where
  "validateScopeBindings v =
     bindE (guardE (isRecord v \<and> length (own_keys v) \<le> 64) runtime_unavailable) (\<lambda>_.
     bindE (guardE (list_all (\<lambda>e. bindingAllowed (fst e) (snd e)) (own_entries v)) runtime_unavailable) (\<lambda>_.
     Inr v))"

record DynamicWorkerCode =
  dw_compatibilityDate :: string
  dw_artifact :: string
  dw_env :: jsval
  dw_globalOutbound :: "string option"

text \<open>What the services are asked for.\<close>

record artifact_request =
  aq_tenantId :: string
  aq_pluginId :: string
  aq_version :: string
  aq_sha256 :: string

record scope_request =
  sq_tenantId :: string
  sq_installationId :: string
  sq_pluginId :: string
  sq_grantRevision :: string

record execution_scope =
  es_executionId :: string
  es_tenantId :: string
  es_pluginId :: string

definition artifactOf :: "run_request \<Rightarrow> artifact_request" where
  "artifactOf q =
     \<lparr>aq_tenantId = rr_tenantId q, aq_pluginId = rr_pluginId q, aq_version = rr_version q, aq_sha256 = rr_artifactSha256 q\<rparr>"

definition scopeOf :: "run_request \<Rightarrow> scope_request" where
  "scopeOf q =
     \<lparr>sq_tenantId = rr_tenantId q, sq_installationId = rr_installationId q, sq_pluginId = rr_pluginId q,
      sq_grantRevision = rr_grantRevision q\<rparr>"

definition executionScopeOf :: "run_request \<Rightarrow> execution_scope" where
  "executionScopeOf q =
     \<lparr>es_executionId = rr_executionId q, es_tenantId = rr_tenantId q, es_pluginId = rr_pluginId q\<rparr>"

text \<open>What the caller is configured with; \<open>Inl ()\<close> is any error the argument raises.\<close>

record 'w caller_configuration =
  cf_compatibilityDate :: string
  cf_loadArtifact :: "artifact_request \<Rightarrow> ('w, unit, jsval) step"
  cf_createScopeBindings :: "scope_request \<Rightarrow> ('w, HookErrorCode option, jsval) step"
  cf_classify :: "(invocation_error \<Rightarrow> (unit, jsval) outcome) option"
  cf_readEvidence :: "execution_scope \<Rightarrow> ('w, unit, jsval) step"
  cf_record :: "jsval \<Rightarrow> ('w, unit, jsval) step"
  cf_reportFailure :: "execution_scope \<Rightarrow> 'w \<Rightarrow> 'w"

definition loadCode ::
  "(string \<Rightarrow> string) \<Rightarrow> 'w caller_configuration \<Rightarrow> run_request \<Rightarrow> ('w, HookErrorCode, DynamicWorkerCode) step" where
  "loadCode sha256 cfg q =
     bindS (\<lambda>w. case cf_loadArtifact cfg (artifactOf q) w of
                  (Inl _, w') \<Rightarrow> (Inl plugin_artifact_invalid, w')
                | (Inr (JStr a), w') \<Rightarrow>
                    (if max_dynamic_worker_artifact_bytes < utf8_length a then Inl plugin_artifact_invalid
                     else if sha256 a \<noteq> rr_artifactSha256 q then Inl plugin_artifact_invalid
                     else Inr a, w')
                | (Inr _, w') \<Rightarrow> (Inl plugin_artifact_invalid, w')) (\<lambda>artifact.
     bindS (\<lambda>w. case cf_createScopeBindings cfg (scopeOf q) w of
                  (Inl e, w') \<Rightarrow> (Inl (case e of Some c \<Rightarrow> c | None \<Rightarrow> runtime_unavailable), w')
                | (Inr b, w') \<Rightarrow> (validateScopeBindings b, w')) (\<lambda>env.
     returnS \<lparr>dw_compatibilityDate = cf_compatibilityDate cfg, dw_artifact = artifact, dw_env = env,
               dw_globalOutbound = None\<rparr>))"

section \<open>The answer of a worker\<close>

record worker_response =
  wr_ok :: bool
  wr_contentLength :: "string option"
  wr_body :: "string list option"

text \<open>What the invocation comes to: the timer wins, the platform fails, or a response arrives.\<close>

datatype fetch_result = FetchTimedOut | FetchFailed invocation_error | FetchResponse worker_response

definition declaredLengthOk :: "string option \<Rightarrow> bool" where
  "declaredLengthOk l =
     (case l of None \<Rightarrow> True | Some s \<Rightarrow> s \<noteq> [] \<and> list_all is_digit s \<and> read_nat s \<le> max_dynamic_worker_bytes)"

fun readBodyChunks :: "string list \<Rightarrow> string \<Rightarrow> string option" where
  "readBodyChunks [] acc = Some acc"
| "readBodyChunks (c # cs) acc =
     (if max_dynamic_worker_bytes < length acc + length c then None else readBodyChunks cs (acc @ c))"

definition readResponseValue :: "(string \<Rightarrow> jsval option) \<Rightarrow> worker_response \<Rightarrow> (foreign_error, jsval) outcome" where
  "readResponseValue parseJson r =
     (case wr_body r of
        None \<Rightarrow> Inl InvalidResponse
      | Some chunks \<Rightarrow>
          if \<not> wr_ok r \<or> \<not> declaredLengthOk (wr_contentLength r) then Inl InvalidResponse
          else (case readBodyChunks chunks [] of
             None \<Rightarrow> Inl InvalidResponse
           | Some bytes \<Rightarrow>
               (case parseJson bytes of
                  None \<Rightarrow> Inl InvalidJson
                | Some parsed \<Rightarrow>
                    if isRecord parsed \<and> length (own_keys parsed) = 1 \<and> has_own parsed ''value''
                    then Inr (js_get parsed ''value'') else Inl InvalidResponse)))"

definition getPluginDispatchFailureCode :: "jsval \<Rightarrow> HookErrorCode option" where
  "getPluginDispatchFailureCode v =
     (if \<not> isRecord v \<or> \<not> has_own v ''ok'' then None
      else if \<not> hasExactKeys v [''ok'', ''error''] \<or> js_get v ''ok'' \<noteq> JBool False \<or>
              \<not> isRecord (js_get v ''error'') \<or> \<not> hasExactKeys (js_get v ''error'') [''code'']
      then Some plugin_result_invalid
      else if js_get (js_get v ''error'') ''code'' = JStr ''plugin_artifact_invalid'' then Some plugin_artifact_invalid
      else Some plugin_result_invalid)"

definition isCanonicalPolicyResult :: "jsval \<Rightarrow> bool" where
  "isCanonicalPolicyResult v =
     (case v of
        JObj kind fs \<Rightarrow>
          kind \<noteq> SymbolKeyed \<and> length fs = 2 \<and>
          (case (map_of fs ''decision'', map_of fs ''reasonCode'') of
             (Some d, Some (JStr r)) \<Rightarrow> (d = JStr ''allow'' \<or> d = JStr ''deny'') \<and> reasonCodePattern r
           | _ \<Rightarrow> False)
      | _ \<Rightarrow> False)"

section \<open>The evidence of a run\<close>

definition isEvidenceCall :: "jsval \<Rightarrow> bool" where
  "isEvidenceCall v \<longleftrightarrow>
     isRecord v \<and> hasExactKeys v [''name'', ''status''] \<and> isRuntimeIdentifier (js_get v ''name'') \<and>
     oneOf callStatuses (js_get v ''status'')"

record invocation_evidence =
  ev_capabilityCalls :: "jsval list"
  ev_subrequests :: jsnum
  ev_workflowRuns :: jsnum
  ev_deniedEgressAttempts :: int

definition noEvidence :: invocation_evidence where
  "noEvidence = \<lparr>ev_capabilityCalls = [], ev_subrequests = NInt 0, ev_workflowRuns = NInt 0, ev_deniedEgressAttempts = 0\<rparr>"

definition deniedAttempts :: "jsval \<Rightarrow> int option" where
  "deniedAttempts v =
     (case js_get v ''deniedEgressAttempts'' of
        JUndef \<Rightarrow> Some 0
      | JNum (NInt i) \<Rightarrow> if is_safe_integer i \<and> 0 \<le> i then Some i else None
      | _ \<Rightarrow> None)"

definition validateInvocationEvidence :: "jsval \<Rightarrow> invocation_evidence option" where
  "validateInvocationEvidence v =
     (if \<not> isRecord v \<or> \<not> hasOnlyKeys v [''capabilityCalls'', ''subrequests'', ''workflowRuns'', ''deniedEgressAttempts''] \<or>
         \<not> has_own v ''capabilityCalls'' \<or> \<not> has_own v ''subrequests'' \<or> \<not> has_own v ''workflowRuns''
      then None
      else (case (js_get v ''capabilityCalls'', deniedAttempts v) of
         (JArr cs, Some d) \<Rightarrow>
           if length cs \<le> 256 \<and> list_all isEvidenceCall cs \<and>
              isNonNegativeInteger (js_get v ''subrequests'') \<and> isNonNegativeInteger (js_get v ''workflowRuns'')
           then Some \<lparr>ev_capabilityCalls = cs, ev_subrequests = number_of (js_get v ''subrequests''),
                      ev_workflowRuns = number_of (js_get v ''workflowRuns''), ev_deniedEgressAttempts = d\<rparr>
           else None
       | _ \<Rightarrow> None))"

section \<open>The invocation\<close>

text \<open>The flags the caller keeps of an invocation.\<close>

record invocation_state =
  is_value :: jsval
  is_timedOut :: bool
  is_budgetExceeded :: bool
  is_failed :: bool
  is_code :: "HookErrorCode option"

definition answered :: "jsval \<Rightarrow> invocation_state" where
  "answered v = \<lparr>is_value = v, is_timedOut = False, is_budgetExceeded = False, is_failed = False, is_code = None\<rparr>"

definition failedWith :: "HookErrorCode option \<Rightarrow> invocation_state" where
  "failedWith c = (answered JUndef)\<lparr>is_failed := True, is_code := c\<rparr>"

definition classifiedCodes :: "HookErrorCode list" where
  "classifiedCodes = [plugin_memory_exceeded, plugin_subrequest_exceeded, plugin_result_invalid, runtime_unavailable]"

definition classification :: "(invocation_error \<Rightarrow> (unit, jsval) outcome) option \<Rightarrow> invocation_error \<Rightarrow> HookErrorCode" where
  "classification classify e =
     (case classify of
        None \<Rightarrow> plugin_result_invalid
      | Some f \<Rightarrow>
          (case f e of
             Inl _ \<Rightarrow> runtime_unavailable
           | Inr v \<Rightarrow>
               (case List.find (\<lambda>c. v = JStr (error_text c)) classifiedCodes of
                  None \<Rightarrow> runtime_unavailable
                | Some c \<Rightarrow> c)))"

definition classified :: "(invocation_error \<Rightarrow> (unit, jsval) outcome) option \<Rightarrow> invocation_error \<Rightarrow> invocation_state" where
  "classified classify e =
     (let c = classification classify e
      in if c = plugin_memory_exceeded \<or> c = plugin_subrequest_exceeded
         then (answered JUndef)\<lparr>is_budgetExceeded := True, is_code := Some c\<rparr>
         else failedWith (Some c))"

definition settleInvocation ::
  "(string \<Rightarrow> jsval option) \<Rightarrow> (invocation_error \<Rightarrow> (unit, jsval) outcome) option \<Rightarrow> string \<Rightarrow> fetch_result \<Rightarrow>
   (HookErrorCode, invocation_state) outcome" where
  "settleInvocation parseJson classify hookType result =
     (case result of
        FetchTimedOut \<Rightarrow> Inr ((answered JUndef)\<lparr>is_timedOut := True\<rparr>)
      | FetchFailed (CallerError c) \<Rightarrow>
          if c = plugin_artifact_invalid \<or> c = runtime_unavailable then Inl c
          else Inr (classified classify (CallerError c))
      | FetchFailed e \<Rightarrow> Inr (classified classify e)
      | FetchResponse r \<Rightarrow>
          (case readResponseValue parseJson r of
             Inl e \<Rightarrow> Inr (classified classify (ForeignError e))
           | Inr v \<Rightarrow>
               (case getPluginDispatchFailureCode v of
                  Some c \<Rightarrow> Inr (failedWith (Some c))
                | None \<Rightarrow>
                    Inr (if hookType = ''policy'' \<and> \<not> isCanonicalPolicyResult v then failedWith None
                         else answered v))))"

definition failureCode :: "invocation_state \<Rightarrow> bool \<Rightarrow> HookErrorCode option" where
  "failureCode i egressDenied =
     (if is_timedOut i then Some plugin_timeout
      else if is_budgetExceeded i then Some (case is_code i of Some c \<Rightarrow> c | None \<Rightarrow> runtime_unavailable)
      else if egressDenied then Some egress_denied
      else if is_failed i then Some (case is_code i of Some c \<Rightarrow> c | None \<Rightarrow> plugin_result_invalid)
      else None)"

definition executionStatus :: "invocation_state \<Rightarrow> bool \<Rightarrow> string" where
  "executionStatus i egressDenied =
     (if is_timedOut i then ''timeout'' else if is_budgetExceeded i then ''budget_exceeded''
      else if egressDenied then ''egress_denied'' else if is_failed i then ''error'' else ''success'')"

text \<open>\<open>loader.get(id, getCode)\<close> and the request to its entry point.\<close>

definition invokeWorker ::
  "('c \<Rightarrow> string \<Rightarrow> DynamicWorkerCode option) \<Rightarrow> (string \<Rightarrow> DynamicWorkerCode \<Rightarrow> 'c \<Rightarrow> 'c) \<Rightarrow> (string \<Rightarrow> string) \<Rightarrow>
   (DynamicWorkerCode \<Rightarrow> run_request \<Rightarrow> string \<Rightarrow> 'w \<Rightarrow> fetch_result \<times> 'w) \<Rightarrow> 'w caller_configuration \<Rightarrow>
   run_request \<Rightarrow> string \<Rightarrow> 'c \<times> 'w \<Rightarrow> fetch_result \<times> 'c \<times> 'w" where
  "invokeWorker get put sha256 fetch cfg q body s =
     (let workerId = deriveWorkerId sha256 (cf_compatibilityDate cfg) q
      in (case get (fst s) workerId of
            Some loaded \<Rightarrow> (case fetch loaded q body (snd s) of (r, w) \<Rightarrow> (r, fst s, w))
          | None \<Rightarrow>
              (case loadCode sha256 cfg q (snd s) of
                 (Inl e, w) \<Rightarrow> (FetchFailed (CallerError e), fst s, w)
               | (Inr loaded, w) \<Rightarrow>
                   (case fetch loaded q body w of (r, w') \<Rightarrow> (r, put workerId loaded (fst s), w')))))"

section \<open>A run\<close>

text \<open>The clocks of a run: when it started and how long the invocation took.\<close>

record run_clock =
  rk_startedAt :: "int option"
  rk_elapsed :: jsnum

definition nonNegativeDuration :: "jsnum \<Rightarrow> jsnum" where
  "nonNegativeDuration e = (if e = NaN then NaN else if num_ge e (NInt 0) then e else NInt 0)"

definition readEvidence ::
  "'w caller_configuration \<Rightarrow> run_request \<Rightarrow> 'w \<Rightarrow> invocation_evidence \<times> 'w" where
  "readEvidence cfg q w =
     (case cf_readEvidence cfg (executionScopeOf q) w of
        (Inl _, w') \<Rightarrow> (noEvidence, cf_reportFailure cfg (executionScopeOf q) w')
      | (Inr v, w') \<Rightarrow>
          (case validateInvocationEvidence v of
             None \<Rightarrow> (noEvidence, cf_reportFailure cfg (executionScopeOf q) w')
           | Some e \<Rightarrow> (e, w')))"

definition executionRequest :: "run_request \<Rightarrow> run_clock \<Rightarrow> invocation_state \<Rightarrow> invocation_evidence \<Rightarrow> jsval" where
  "executionRequest q clock i e =
     (let denied = 0 < ev_deniedEgressAttempts e
      in JObj PlainObj
        [(''execution'', JObj PlainObj
           ([(''id'', JStr (rr_executionId q)), (''tenantId'', JStr (rr_tenantId q)), (''pluginId'', JStr (rr_pluginId q)),
             (''hookName'', JStr (rr_hookName q)), (''version'', JStr (rr_version q)),
             (''status'', JStr (executionStatus i denied)),
             (''durationMs'', JNum (nonNegativeDuration (rk_elapsed clock)))] @
            (case failureCode i denied of None \<Rightarrow> [] | Some c \<Rightarrow> [(''error'', JStr (error_text c))]) @
            [(''capabilityCalls'', JArr (ev_capabilityCalls e)), (''createdAt'', JDate (rk_startedAt clock))])),
         (''metrics'', JObj PlainObj
           [(''hookType'', JStr (rr_hookType q)), (''cpuMs'', JNum (NInt 0)), (''subrequests'', JNum (ev_subrequests e)),
            (''workflowRuns'', JNum (ev_workflowRuns e))])])"

definition policyDenial :: "HookErrorCode \<Rightarrow> jsval" where
  "policyDenial c = JObj PlainObj [(''decision'', JStr ''deny''), (''reasonCode'', JStr (error_text c))]"

text \<open>The answer of a run: the value and the recorded execution.\<close>

definition recordRun ::
  "'w caller_configuration \<Rightarrow> run_request \<Rightarrow> run_clock \<Rightarrow> invocation_state \<Rightarrow> ('w, HookErrorCode, jsval \<times> jsval) step" where
  "recordRun cfg q clock i w =
     (case readEvidence cfg q w of
        (e, w') \<Rightarrow>
          (case cf_record cfg (executionRequest q clock i e) w' of
             (Inl _, w'') \<Rightarrow> (Inl runtime_unavailable, w'')
           | (Inr execution, w'') \<Rightarrow>
               (case failureCode i (0 < ev_deniedEgressAttempts e) of
                  None \<Rightarrow> (Inr (is_value i, execution), w'')
                | Some c \<Rightarrow>
                    if rr_hookType q = ''policy'' then (Inr (policyDenial c, execution), w'')
                    else (Inl c, w''))))"

definition runWorker ::
  "('c \<Rightarrow> string \<Rightarrow> DynamicWorkerCode option) \<Rightarrow> (string \<Rightarrow> DynamicWorkerCode \<Rightarrow> 'c \<Rightarrow> 'c) \<Rightarrow> (string \<Rightarrow> string) \<Rightarrow>
   (string \<Rightarrow> jsval option) \<Rightarrow> (DynamicWorkerCode \<Rightarrow> run_request \<Rightarrow> string \<Rightarrow> 'w \<Rightarrow> fetch_result \<times> 'w) \<Rightarrow>
   'w caller_configuration \<Rightarrow> run_clock \<Rightarrow> jsval \<Rightarrow> ('c \<times> 'w, HookErrorCode, jsval \<times> jsval) step" where
  "runWorker get put sha256 parseJson fetch cfg clock v s =
     (case validateRunRequest v of
        Inl e \<Rightarrow> (Inl e, s)
      | Inr body \<Rightarrow>
          (let q = runRequestOf v
           in (case invokeWorker get put sha256 fetch cfg q body s of
                 (result, s') \<Rightarrow>
                   (case settleInvocation parseJson (cf_classify cfg) (rr_hookType q) result of
                      Inl c \<Rightarrow> (Inl c, s')
                    | Inr i \<Rightarrow> onSnd (recordRun cfg q clock i) s'))))"

text \<open>The configuration itself: the shape of the object and a compatibility date that exists.\<close>

definition isCompatibilityDate :: "(string \<Rightarrow> int option) \<Rightarrow> jsval \<Rightarrow> bool" where
  "isCompatibilityDate other v =
     (case v of
        JStr s \<Rightarrow>
          utcDatePattern s \<and>
          (case dateParse other (s @ ''T00:00:00.000Z'') of None \<Rightarrow> False | Some t \<Rightarrow> take 10 (toISOString t) = s)
      | _ \<Rightarrow> False)"

definition validateCallerConfiguration :: "(string \<Rightarrow> int option) \<Rightarrow> jsval \<Rightarrow> (HookErrorCode, unit) outcome" where
  "validateCallerConfiguration other v =
     guardE
       (isRecord v \<and>
        hasOnlyKeys v [''loader'', ''compatibilityDate'', ''loadArtifact'', ''createScopeBindings'',
          ''classifyInvocationError'', ''readInvocationEvidence'', ''recorder'', ''reportFailure'', ''now'', ''monotonicNow''] \<and>
        isRecord (js_get v ''loader'') \<and> js_is_function (js_get (js_get v ''loader'') ''get'') \<and>
        isCompatibilityDate other (js_get v ''compatibilityDate'') \<and>
        list_all (\<lambda>k. js_is_function (js_get v k)) [''loadArtifact'', ''createScopeBindings'', ''readInvocationEvidence''] \<and>
        isRecord (js_get v ''recorder'') \<and> js_is_function (js_get (js_get v ''recorder'') ''record'') \<and>
        list_all (\<lambda>k. js_get v k = JUndef \<or> js_is_function (js_get v k))
          [''classifyInvocationError'', ''reportFailure'', ''now'', ''monotonicNow''])
       runtime_unavailable"

end
