(* ===== verification/JsonRoundtrip.thy ===== *)
theory JsonRoundtrip
  imports JsonParse LdCaller
begin

text \<open>
  The text that \<open>serializeJsonValue\<close> writes for a value is read back by \<open>JSON.parse\<close> as the same
  value, up to the prototypes of its objects.
\<close>

section \<open>Values that survive\<close>

text \<open>
  \<open>json_readable\<close>: numbers are doubles and keys are distinct. Reading gives a value whose objects are
  plain and have their keys in the language's order, \<open>read_copy\<close>.
\<close>

fun json_readable :: "(jsnum \<Rightarrow> jsnum) \<Rightarrow> jsval \<Rightarrow> bool" where
  "json_readable nearest JNull = True"
| "json_readable nearest (JStr _) = True"
| "json_readable nearest (JBool _) = True"
| "json_readable nearest (JNum n) = (num_normal n \<and> nearest n = n)"
| "json_readable nearest (JArr xs) = list_all (json_readable nearest) xs"
| "json_readable nearest (JObj kind fs) =
     ((kind = PlainObj \<or> kind = NullProto) \<and> distinct (map fst fs) \<and> list_all (\<lambda>f. json_readable nearest (snd f)) fs)"
| "json_readable nearest _ = False"

fun read_copy :: "jsval \<Rightarrow> jsval" where
  "read_copy (JArr xs) = JArr (map read_copy xs)"
| "read_copy (JObj _ fs) = JObj PlainObj (key_order (map (\<lambda>f. (fst f, read_copy (snd f))) fs))"
| "read_copy v = v"

text \<open>
  \<open>json_exact\<close>: the numbers are doubles, keys are distinct and in the language's order. Every value
  of a running program whose members are all enumerable data properties has this shape.
\<close>

fun json_exact :: "(jsnum \<Rightarrow> jsnum) \<Rightarrow> jsval \<Rightarrow> bool" where
  "json_exact nearest JNull = True"
| "json_exact nearest (JStr _) = True"
| "json_exact nearest (JBool _) = True"
| "json_exact nearest (JNum n) = (num_normal n \<and> nearest n = n)"
| "json_exact nearest (JArr xs) = list_all (json_exact nearest) xs"
| "json_exact nearest (JObj kind fs) =
     ((kind = PlainObj \<or> kind = NullProto) \<and> distinct (map fst fs) \<and> key_order fs = fs \<and>
      list_all (\<lambda>f. json_exact nearest (snd f)) fs)"
| "json_exact nearest _ = False"

fun plain_copy :: "jsval \<Rightarrow> jsval" where
  "plain_copy (JArr xs) = JArr (map plain_copy xs)"
| "plain_copy (JObj _ fs) = JObj PlainObj (map (\<lambda>f. (fst f, plain_copy (snd f))) fs)"
| "plain_copy v = v"

section \<open>Objects\<close>

lemma obj_set_new: "k \<notin> set (map fst fs) \<Longrightarrow> obj_set fs k v = fs @ [(k, v)]"
  by (induction fs k v rule: obj_set.induct) auto

lemma obj_set_fold:
  "distinct (map fst (fs @ ms)) \<Longrightarrow> foldl (\<lambda>fs m. obj_set fs (fst m) (snd m)) fs ms = fs @ ms"
proof (induction ms arbitrary: fs)
  case (Cons m ms)
  then show ?case using Cons.IH [of "fs @ [m]"] by (simp add: obj_set_new)
qed simp

lemma sort_key_map_fst:
  "sort_key (\<lambda>f. g (fst f)) (map (\<lambda>f. (fst f, h (snd f))) fs) =
     map (\<lambda>f. (fst f, h (snd f))) (sort_key (\<lambda>f. g (fst f)) fs)"
proof -
  have i: "insort_key (\<lambda>f. g (fst f)) (fst x, h (snd x)) (map (\<lambda>f. (fst f, h (snd f))) ys) =
      map (\<lambda>f. (fst f, h (snd f))) (insort_key (\<lambda>f. g (fst f)) x ys)" for x ys
    by (induction ys) auto
  show ?thesis by (induction fs) (simp_all add: i)
qed

lemma filter_map_fst:
  "filter (\<lambda>f. P (fst f)) (map (\<lambda>f. (fst f, h (snd f))) fs) =
     map (\<lambda>f. (fst f, h (snd f))) (filter (\<lambda>f. P (fst f)) fs)"
  by (induction fs) auto

lemma key_order_map:
  "key_order (map (\<lambda>f. (fst f, h (snd f))) fs) = map (\<lambda>f. (fst f, h (snd f))) (key_order fs)"
  by (simp add: key_order_def sort_key_map_fst [of read_nat] filter_map_fst [of array_index]
      filter_map_fst [of "\<lambda>k. \<not> array_index k"])

lemma object_of_readable:
  assumes "distinct (map fst fs)"
  shows "object_of (map (\<lambda>f. (fst f, read_copy (snd f))) fs) = read_copy (JObj kind fs)"
proof -
  have "distinct (map fst ([] @ map (\<lambda>f. (fst f, read_copy (snd f))) fs))"
    using assms by (simp add: comp_def)
  from obj_set_fold [OF this] show ?thesis by (simp add: object_of_def)
qed

lemma exact_readable: "json_exact nearest v \<Longrightarrow> json_readable nearest v \<and> read_copy v = plain_copy v"
proof (induction v)
  case (JObj kind fs)
  have sub: "json_readable nearest (snd f) \<and> read_copy (snd f) = plain_copy (snd f)" if "f \<in> set fs" for f
  proof -
    have "json_exact nearest (snd f)" using JObj.prems that by (auto simp: list_all_iff)
    then show ?thesis using JObj.IH [of f "snd f"] that by (cases f) simp
  qed
  then have copies: "map (\<lambda>f. (fst f, read_copy (snd f))) fs = map (\<lambda>f. (fst f, plain_copy (snd f))) fs" by simp
  have "json_readable nearest (JObj kind fs)" using sub JObj.prems by (auto simp: list_all_iff)
  moreover have "read_copy (JObj kind fs) = plain_copy (JObj kind fs)"
    unfolding read_copy.simps plain_copy.simps copies key_order_map using JObj.prems by simp
  ultimately show ?case ..
next
  case (JArr xs)
  then show ?case by (auto simp: list_all_iff)
qed auto

section \<open>The first character of a text\<close>

definition value_start :: "char \<Rightarrow> bool" where
  "value_start c \<longleftrightarrow> \<not> is_json_space c \<and> c \<noteq> CHR '']'' \<and> c \<noteq> CHR 0x7D \<and> c \<noteq> CHR '',''"

text \<open>What may follow a value.\<close>

definition value_end :: "string \<Rightarrow> bool" where
  "value_end r \<longleftrightarrow> r = [] \<or> \<not> is_number_char (hd r)"

lemma num_text_chars: "num_normal n \<Longrightarrow> list_all is_number_char (num_text n)"
proof -
  have d: "list_all is_number_char (show_nat m)" for m
    using show_nat_all_digits [of m] by (auto simp: list_all_iff is_number_char_def)
  have z: "is_number_char (CHR ''0'')" by (simp add: is_number_char_def is_digit_def code_def)
  assume "num_normal n"
  then show ?thesis
    using d z
    by (cases n)
      (auto simp: show_int_def Let_def pad_left_def list_all_iff is_number_char_def dest!: in_set_takeD in_set_dropD)
qed

lemma num_text_start:
  assumes "num_normal n"
  obtains c u where "num_text n = c # u" "c = CHR ''-'' \<or> is_digit c"
proof -
  obtain c u where c: "num_text n = c # u"
    using assms read_num_text [OF assms] by (cases "num_text n") (auto simp: read_number_def)
  have "c = CHR ''-'' \<or> is_digit c"
  proof (cases "c = CHR ''-''")
    case False
    then have "map_option (\<lambda>(m, k, e). scaled m k e) (read_unsigned (c # u)) = Some n"
      using read_num_text [OF assms] c by (simp add: read_number_def)
    then have "takeWhile is_digit (c # u) \<noteq> []"
      by (auto simp: read_unsigned_def split_digits_def split: if_splits)
    then show ?thesis by (auto split: if_splits)
  qed simp
  with c that show thesis by blast
qed

lemma serialize_start:
  assumes "json_readable nearest v"
  obtains c u where "serializeJsonValue v = c # u" "value_start c"
proof -
  have digit: "value_start c" if "is_digit c" for c
    using that by (auto simp: value_start_def is_json_space_def is_digit_def code_def)
  show thesis
  proof (cases v)
    case (JNum n)
    then obtain c u where "num_text n = c # u" "c = CHR ''-'' \<or> is_digit c"
      using assms num_text_start by auto
    then show thesis
      using that JNum digit by (auto simp: value_start_def is_json_space_def code_def)
  next
    case (JBool b)
    then show thesis using that by (cases b) (auto simp: value_start_def is_json_space_def code_def)
  qed (use assms that in \<open>auto simp: value_start_def is_json_space_def code_def json_quote_def\<close>)
qed

lemma skip_start: "value_start c \<Longrightarrow> skip_space (c # u) = c # u"
  by (simp add: skip_space_def value_start_def)

lemma skip_serialized:
  assumes "json_readable nearest v"
  shows "skip_space (serializeJsonValue v @ r) = serializeJsonValue v @ r"
  by (rule serialize_start [OF assms]) (simp add: skip_start)

lemma skip_mark [simp]:
  "skip_space (CHR '','' # r) = CHR '','' # r" "skip_space (CHR '']'' # r) = CHR '']'' # r"
  "skip_space (CHR 0x7D # r) = CHR 0x7D # r" "skip_space (CHR '':'' # r) = CHR '':'' # r"
  "skip_space (CHR 0x22 # r) = CHR 0x22 # r"
  by (simp_all add: skip_space_def is_json_space_def code_def)

lemma value_end_mark [simp]:
  "value_end []" "value_end (CHR '','' # r)" "value_end (CHR '']'' # r)" "value_end (CHR 0x7D # r)"
  by (simp_all add: value_end_def is_number_char_def is_digit_def code_def)

lemma parse_number_text:
  assumes "num_normal n" "nearest n = n" "value_end r"
  shows "parse_value nearest (Suc k) (num_text n @ r) = Some (JNum n, r)"
proof -
  obtain c u where c: "num_text n = c # u" "c = CHR ''-'' \<or> is_digit c"
    using num_text_start [OF assms(1)] by metis
  have chars: "list_all is_number_char (num_text n)" using num_text_chars [OF assms(1)] .
  have "takeWhile is_number_char (num_text n @ r) = num_text n" "dropWhile is_number_char (num_text n @ r) = r"
    using takeWhile_all [OF chars, of r] dropWhile_all [OF chars, of r] assms(3)
    by (cases r; simp add: value_end_def)+
  then have "number_literal nearest (num_text n @ r) = Some (JNum n, r)"
    using read_num_text [OF assms(1)] assms(2) by (simp add: number_literal_def)
  moreover have "c \<notin> {CHR 0x22, CHR ''['', CHR 0x7B, CHR ''n'', CHR ''t'', CHR ''f''}"
    using c(2) by auto
  ultimately show ?thesis using c(1) by simp
qed

section \<open>The round trip\<close>

lemma parse_serialized:
  "json_readable nearest v \<Longrightarrow> value_end r \<Longrightarrow> 2 * length (serializeJsonValue v) \<le> k \<Longrightarrow>
     parse_value nearest k (serializeJsonValue v @ r) = Some (read_copy v, r)"
proof (induction v arbitrary: r k)
  case (JNum n)
  then show ?case using parse_number_text [of n nearest r] num_text_start [of n] by (cases k) auto
next
  case (JArr xs)
  have items: "ys \<noteq> [] \<Longrightarrow> set ys \<subseteq> set xs \<Longrightarrow> 2 * length (join '','' (map serializeJsonValue ys)) < j \<Longrightarrow>
      parse_items nearest j (join '','' (map serializeJsonValue ys) @ CHR '']'' # r) = Some (map read_copy ys, r)" for ys j
  proof (induction ys arbitrary: j)
    case (Cons y ys)
    obtain m where j: "j = Suc m" using Cons.prems(3) by (cases j) auto
    have y: "json_readable nearest y" using JArr.prems(1) Cons.prems(2) by (auto simp: list_all_iff)
    show ?case
    proof (cases ys)
      case Nil
      then have "parse_value nearest m (serializeJsonValue y @ CHR '']'' # r) = Some (read_copy y, CHR '']'' # r)"
        using JArr.IH [of y "CHR '']'' # r" m] y Cons.prems j by simp
      then show ?thesis using Nil j by simp
    next
      case (Cons z zs)
      define rest where "rest = join '','' (map serializeJsonValue ys) @ CHR '']'' # r"
      have joined: "join '','' (map serializeJsonValue (y # ys)) @ CHR '']'' # r =
          serializeJsonValue y @ CHR '','' # rest"
        by (simp add: Cons rest_def)
      have len: "2 * length (serializeJsonValue y) \<le> m" "2 * length (join '','' (map serializeJsonValue ys)) < m"
        using Cons.prems(3) j Cons by simp_all
      have "parse_value nearest m (serializeJsonValue y @ CHR '','' # rest) = Some (read_copy y, CHR '','' # rest)"
        using JArr.IH [of y "CHR '','' # rest" m] y Cons.prems len by simp
      moreover have "json_readable nearest z" using JArr.prems(1) Cons.prems(2) Cons by (auto simp: list_all_iff)
      then have "skip_space rest = rest"
        using skip_serialized [of nearest z] Cons by (cases zs) (simp_all add: rest_def)
      moreover have "parse_items nearest m rest = Some (map read_copy ys, r)"
        unfolding rest_def using Cons.IH len Cons.prems Cons by simp
      ultimately show ?thesis unfolding joined by (simp add: j)
    qed
  qed simp
  show ?case
  proof (cases xs)
    case Nil
    then show ?thesis using JArr.prems by (cases k) simp_all
  next
    case (Cons y ys)
    define body where "body = join '','' (map serializeJsonValue xs) @ CHR '']'' # r"
    have len: "2 * length (join '','' (map serializeJsonValue xs)) < k - 1" "0 < k"
      using JArr.prems(3) by simp_all
    have y: "json_readable nearest y" using JArr.prems(1) Cons by simp
    obtain tail where tail: "body = serializeJsonValue y @ tail" using Cons by (cases ys) (auto simp: body_def)
    obtain c u where start: "serializeJsonValue y = c # u" "value_start c" using serialize_start [OF y] by metis
    have "skip_space body = c # u @ tail" "body = c # u @ tail" "c \<noteq> CHR '']''"
      using skip_serialized [OF y] tail start by (simp_all add: value_start_def)
    moreover have "parse_items nearest (k - 1) body = Some (map read_copy xs, r)"
      unfolding body_def using items [of xs "k - 1"] len(1) Cons by simp
    moreover have "serializeJsonValue (JArr xs) @ r = CHR ''['' # body" by (simp add: body_def)
    ultimately show ?thesis using len(2) by (cases k) simp_all
  qed
next
  case (JObj kind fs)
  define entry where "entry f = json_quote (fst f) @ '':'' @ serializeJsonValue (snd f)" for f :: "string \<times> jsval"
  define copy where "copy f = (fst f, read_copy (snd f))" for f :: "string \<times> jsval"
  have entry: "entry f @ t = CHR 0x22 # concat (map json_escape (fst f)) @ CHR 0x22 # CHR '':'' # serializeJsonValue (snd f) @ t"
    for f t by (simp add: entry_def json_quote_append)
  have len_entry: "length (entry f) = Suc (length (json_quote (fst f)) + length (serializeJsonValue (snd f)))" for f
    by (simp add: entry_def)
  have members: "gs \<noteq> [] \<Longrightarrow> set gs \<subseteq> set fs \<Longrightarrow> 2 * length (join '','' (map entry gs)) < j \<Longrightarrow>
      parse_members nearest j (join '','' (map entry gs) @ CHR 0x7D # r) = Some (map copy gs, r)" for gs j
  proof (induction gs arbitrary: j)
    case (Cons g gs)
    obtain m where j: "j = Suc m" using Cons.prems(3) by (cases j) auto
    have g: "json_readable nearest (snd g)" using JObj.prems(1) Cons.prems(2) by (auto simp: list_all_iff)
    have IH: "parse_value nearest m (serializeJsonValue (snd g) @ t) = Some (read_copy (snd g), t)"
      if "value_end t" "2 * length (serializeJsonValue (snd g)) \<le> m" for t
    proof (rule JObj.IH [of g])
      show "g \<in> set fs" using Cons.prems by simp
      show "snd g \<in> Basic_BNFs.snds g" by (cases g) simp
    qed (use g that in simp_all)
    show ?case
    proof (cases gs)
      case Nil
      have "2 * length (serializeJsonValue (snd g)) \<le> m" using Cons.prems(3) j Nil by (simp add: entry_def)
      then show ?thesis
        using IH [of "CHR 0x7D # r"] Nil j skip_serialized [OF g]
        by (simp add: entry unquote_quoted copy_def)
    next
      case (Cons h hs)
      define rest where "rest = join '','' (map entry gs) @ CHR 0x7D # r"
      have joined: "join '','' (map entry (g # gs)) @ CHR 0x7D # r = entry g @ CHR '','' # rest"
        by (simp add: Cons rest_def)
      have len: "2 * length (serializeJsonValue (snd g)) \<le> m" "2 * length (join '','' (map entry gs)) < m"
        using Cons.prems(3) j Cons by (simp_all add: len_entry)
      obtain w where "rest = CHR 0x22 # w"
        unfolding rest_def Cons by (cases hs) (simp_all add: entry entry_def json_quote_def)
      then have "skip_space rest = rest" by simp
      moreover have "parse_members nearest m rest = Some (map copy gs, r)"
        unfolding rest_def using Cons.IH len Cons.prems Cons by simp
      ultimately show ?thesis
        unfolding joined using IH [of "CHR '','' # rest"] len j skip_serialized [OF g]
        by (simp add: entry unquote_quoted copy_def)
    qed
  qed simp
  show ?case
  proof (cases fs)
    case Nil
    then show ?thesis using JObj.prems by (cases k) (simp_all add: key_order_def)
  next
    case (Cons g gs)
    define body where "body = join '','' (map entry fs) @ CHR 0x7D # r"
    have entries: "serializeJsonValue (JObj kind fs) = CHR 0x7B # join '','' (map entry fs) @ [CHR 0x7D]"
      by (simp add: entry_def [abs_def])
    then have whole: "serializeJsonValue (JObj kind fs) @ r = CHR 0x7B # body" by (simp add: body_def)
    have "length (serializeJsonValue (JObj kind fs)) = 2 + length (join '','' (map entry fs))"
      unfolding entries by simp
    then have len: "2 * length (join '','' (map entry fs)) < k - 1" "0 < k"
      using JObj.prems(3) by linarith+
    obtain w where w: "body = CHR 0x22 # w"
      unfolding body_def Cons by (cases gs) (simp_all add: entry_def json_quote_def)
    have "parse_members nearest (k - 1) body = Some (map copy fs, r)"
      unfolding body_def using members [of fs "k - 1"] len(1) Cons by simp
    moreover have "object_of (map copy fs) = read_copy (JObj kind fs)"
      unfolding copy_def using object_of_readable [of fs kind] JObj.prems(1) by simp
    ultimately show ?thesis unfolding whole w using len(2) w by (cases k) simp_all
  qed
next
  case JNull
  then show ?case by (cases k) (simp_all add: literal_def)
next
  case (JBool b)
  then show ?case by (cases k; cases b) (simp_all add: literal_def)
next
  case (JStr s)
  then show ?case by (cases k) (simp_all add: json_quote_append unquote_quoted json_quote_def)
qed simp_all

theorem parse_json_readable:
  assumes "json_readable nearest v"
  shows "parse_json nearest (serializeJsonValue v) = Some (read_copy v)"
proof -
  have "skip_space (serializeJsonValue v) = serializeJsonValue v"
    using skip_serialized [OF assms, of "[]"] by simp
  then show ?thesis
    using parse_serialized [OF assms, of "[]" "Suc (2 * length (serializeJsonValue v))"]
    by (simp add: parse_json_def skip_space_def)
qed

theorem parse_json_serialized:
  "json_exact nearest v \<Longrightarrow> parse_json nearest (serializeJsonValue v) = Some (plain_copy v)"
  using parse_json_readable exact_readable by metis

text \<open>No text of a value is a proper prefix of another that may be followed by what follows it.\<close>

lemma serialize_prefix:
  assumes "json_readable nearest v" "json_readable nearest w" "value_end r" "value_end s"
    "serializeJsonValue v @ r = serializeJsonValue w @ s"
  shows "serializeJsonValue v = serializeJsonValue w \<and> r = s"
proof -
  define k where "k = 2 * length (serializeJsonValue v) + 2 * length (serializeJsonValue w)"
  have "Some (read_copy v, r) = Some (read_copy w, s)"
    using parse_serialized [OF assms(1,3), of k] parse_serialized [OF assms(2,4), of k] assms(5) by (simp add: k_def)
  then show ?thesis using assms(5) by simp
qed

end
