(* ===== verification/LdRuntime.thy ===== *)
theory LdRuntime
  imports JsonRoundtrip
begin

text \<open>
  The program that runs inside a dynamic worker, \<open>DYNAMIC_WORKER_RUNTIME_SOURCE\<close> of
  \<open>packages/loader/src/cloudflare.ts\<close>: it finds the plugin in the tenant's module, calls it with a
  \<open>capability\<close> function, keeps every capability call the plugin starts, and answers only when all of
  them are settled and no rejection is left unhandled.

  The plugin's code is unknown: \<open>tenant\<close> is what such code can do, one constructor per interaction
  with the runtime, and a run of it continues with the value the runtime gave. Tasks the plugin has
  left behind when its dispatch returned go on while the runtime waits for the calls; \<open>schedule\<close>
  says how many steps they take at each wait.
\<close>

section \<open>The plugin\<close>

text \<open>How a plugin uses the object \<open>context.capability\<close> returned; \<open>True\<close>: a rejection handler is given.\<close>

datatype promise_use = ThenUse bool | CatchUse bool | FinallyUse

datatype tenant =
    Returns jsval tenant                          \<comment> \<open>dispatch resolves; its detached tasks go on\<close>
  | Raises
  | Calls string jsval "nat option \<Rightarrow> tenant"      \<comment> \<open>\<open>context.capability(name, input)\<close>: the call, or it raised\<close>
  | Attaches nat promise_use tenant
  | Awaits nat "jsval option \<Rightarrow> tenant"            \<comment> \<open>\<open>await\<close>: the value, or a rejection\<close>

record tracked_call =
  tc_name :: string
  tc_input :: jsval
  tc_outcome :: "jsval option"
  tc_rejectionHandled :: bool

record 'w runtime_state =
  rs_calls :: "tracked_call list"
  rs_world :: 'w

definition attachesHandler :: "promise_use \<Rightarrow> bool" where
  "attachesHandler u = (case u of ThenUse h \<Rightarrow> h | CatchUse h \<Rightarrow> h | FinallyUse \<Rightarrow> False)"

definition bindingCallable :: "jsval \<Rightarrow> bool" where
  "bindingCallable env =
     (let c = js_get env ''CAPABILITIES''
      in c \<noteq> JNull \<and> js_typeof c = ''object'' \<and> js_is_function (js_get c ''call''))"

text \<open>\<open>env.CAPABILITIES.call(executionId, name, input)\<close>, started and kept.\<close>

type_synonym 'w capability_call = "string \<Rightarrow> string \<Rightarrow> jsval \<Rightarrow> 'w \<Rightarrow> jsval option \<times> 'w"

definition capability ::
  "jsval \<Rightarrow> 'w capability_call \<Rightarrow> string \<Rightarrow> string \<Rightarrow> jsval \<Rightarrow> 'w runtime_state \<Rightarrow> nat option \<times> 'w runtime_state" where
  "capability env call executionId name input s =
     (if \<not> bindingCallable env then (None, s)
      else (case call executionId name input (rs_world s) of
              (outcome, w) \<Rightarrow>
                (Some (length (rs_calls s)),
                 \<lparr>rs_calls = rs_calls s @ [\<lparr>tc_name = name, tc_input = input, tc_outcome = outcome, tc_rejectionHandled = False\<rparr>],
                  rs_world = w\<rparr>)))"

definition trackUse :: "nat \<Rightarrow> promise_use \<Rightarrow> 'w runtime_state \<Rightarrow> 'w runtime_state" where
  "trackUse i u s =
     (if i < length (rs_calls s) \<and> attachesHandler u
      then s\<lparr>rs_calls := (rs_calls s)[i := (rs_calls s ! i)\<lparr>tc_rejectionHandled := True\<rparr>]\<rparr> else s)"

text \<open>\<open>await\<close> passes two functions to \<open>then\<close>.\<close>

definition awaitCall :: "nat \<Rightarrow> 'w runtime_state \<Rightarrow> jsval option \<times> 'w runtime_state" where
  "awaitCall i s =
     (if i < length (rs_calls s) then (tc_outcome (rs_calls s ! i), trackUse i (ThenUse True) s) else (None, s))"

primrec runDispatch ::
  "jsval \<Rightarrow> 'w capability_call \<Rightarrow> string \<Rightarrow> tenant \<Rightarrow> 'w runtime_state \<Rightarrow> (jsval \<times> tenant) option \<times> 'w runtime_state" where
  "runDispatch env call executionId (Returns v rest) s = (Some (v, rest), s)"
| "runDispatch env call executionId Raises s = (None, s)"
| "runDispatch env call executionId (Calls name input k) s =
     (let r = capability env call executionId name input s in runDispatch env call executionId (k (fst r)) (snd r))"
| "runDispatch env call executionId (Attaches i u t) s = runDispatch env call executionId t (trackUse i u s)"
| "runDispatch env call executionId (Awaits i k) s =
     (let r = awaitCall i s in runDispatch env call executionId (k (fst r)) (snd r))"

text \<open>One step of a detached task; it ends where it returns or raises.\<close>

fun detachedStep ::
  "jsval \<Rightarrow> 'w capability_call \<Rightarrow> string \<Rightarrow> tenant \<times> 'w runtime_state \<Rightarrow> tenant \<times> 'w runtime_state" where
  "detachedStep env call executionId (Calls name input k, s) =
     (case capability env call executionId name input s of (h, s') \<Rightarrow> (k h, s'))"
| "detachedStep env call executionId (Attaches i u t, s) = (t, trackUse i u s)"
| "detachedStep env call executionId (Awaits i k, s) = (case awaitCall i s of (r, s') \<Rightarrow> (k r, s'))"
| "detachedStep env call executionId (t, s) = (t, s)"

section \<open>Waiting for the calls\<close>

definition callSettled :: "tracked_call \<Rightarrow> bool" where
  "callSettled c \<longleftrightarrow> \<not> (tc_outcome c = None \<and> \<not> tc_rejectionHandled c)"

text \<open>
  The loop over \<open>inFlightCapabilityCalls\<close>, from index \<open>i\<close>. Its bound is read again at every turn.
  When the schedule is used up the detached tasks take no more steps.
\<close>

fun drainCalls ::
  "jsval \<Rightarrow> 'w capability_call \<Rightarrow> string \<Rightarrow> nat list \<Rightarrow> nat \<Rightarrow> tenant \<times> 'w runtime_state \<Rightarrow> bool \<times> 'w runtime_state" where
  "drainCalls env call executionId [] i (t, s) = (list_all callSettled (drop i (rs_calls s)), s)"
| "drainCalls env call executionId (n # schedule) i (t, s) =
     (if i < length (rs_calls s)
      then (case (detachedStep env call executionId ^^ n) (t, s) of
              (t', s') \<Rightarrow>
                if callSettled (rs_calls s' ! i) then drainCalls env call executionId schedule (Suc i) (t', s')
                else (False, s'))
      else (True, s))"

section \<open>Results\<close>

text \<open>Own properties of an object or an array, as \<open>Object.getOwnPropertyDescriptor\<close> sees them.\<close>

definition own_value :: "jsval \<Rightarrow> string \<Rightarrow> jsval option" where
  "own_value v k =
     (case v of
        JArr xs \<Rightarrow> map_of (zip (map show_nat [0..<length xs]) xs @ [(''length'', JNum (NInt (int (length xs))))]) k
      | _ \<Rightarrow> map_of (own_entries v) k)"

definition validateRuntimeReturn :: "string \<Rightarrow> jsval \<Rightarrow> jsval option" where
  "validateRuntimeReturn hookType v =
     (if \<not> isRecord v then None
      else if hookType = ''event'' then
        (if own_keys v = [''status''] \<and> own_value v ''status'' = Some (JStr ''accepted'') then Some v else None)
      else if hookType = ''transform'' then
        (if length (own_keys v) = 2 \<and> own_value v ''status'' = Some (JStr ''transformed'') \<and>
            has_own v ''output'' \<and> own_value v ''output'' \<noteq> Some JUndef then Some v else None)
      else if length (own_keys v) = 2 \<and>
              (own_value v ''decision'' = Some (JStr ''allow'') \<or> own_value v ''decision'' = Some (JStr ''deny'')) \<and>
              (case own_value v ''reasonCode'' of Some (JStr r) \<Rightarrow> reasonCodePattern r | _ \<Rightarrow> False)
      then Some v else None)"

definition validatePluginDispatchResult :: "string \<Rightarrow> jsval \<Rightarrow> jsval option" where
  "validatePluginDispatchResult hookType v =
     (case v of
        JObj kind fs \<Rightarrow>
          if \<not> plainPrototype kind \<or> length fs \<noteq> 2 then None
          else (case map_of fs ''ok'' of
             Some (JBool False) \<Rightarrow> Some v
           | Some (JBool True) \<Rightarrow> (case map_of fs ''value'' of Some r \<Rightarrow> validateRuntimeReturn hookType r | None \<Rightarrow> None)
           | _ \<Rightarrow> None)
      | _ \<Rightarrow> None)"

section \<open>The plugin's module\<close>

definition nullish :: "jsval \<Rightarrow> bool" where
  "nullish v \<longleftrightarrow> v = JUndef \<or> v = JNull"

definition optional_get :: "jsval \<Rightarrow> string \<Rightarrow> jsval" where
  "optional_get v k = (if nullish v then JUndef else js_get v k)"

fun coalesceJs :: "jsval list \<Rightarrow> jsval" where
  "coalesceJs [] = JUndef"
| "coalesceJs [v] = v"
| "coalesceJs (v # vs) = (if nullish v then coalesceJs vs else v)"

definition pluginExport :: "jsval \<Rightarrow> jsval" where
  "pluginExport m =
     (let c = js_get m ''default''
      in coalesceJs [js_get m ''plugin'', optional_get c ''plugin'', optional_get c ''default'', c])"

definition handlersExport :: "jsval \<Rightarrow> jsval" where
  "handlersExport m = coalesceJs [js_get m ''handlers'', optional_get (js_get m ''default'') ''handlers'']"

definition isObject :: "jsval \<Rightarrow> bool" where
  "isObject v \<longleftrightarrow> v \<noteq> JNull \<and> js_typeof v = ''object''"

definition hasDispatch :: "jsval \<Rightarrow> bool" where
  "hasDispatch p \<longleftrightarrow> isObject p \<and> js_is_function (js_get p ''dispatch'')"

text \<open>The function to call: the plugin's dispatcher, or the handler of a legacy artifact.\<close>

datatype entry_point = Dispatcher jsval | LegacyHandler jsval

definition entryPoint :: "jsval \<Rightarrow> string \<Rightarrow> entry_point option" where
  "entryPoint m hookName =
     (if hasDispatch (pluginExport m) then Some (Dispatcher (js_get (pluginExport m) ''dispatch''))
      else if \<not> isObject (handlersExport m) then None
      else (case own_value (handlersExport m) hookName of
              Some f \<Rightarrow> if js_is_function f then Some (LegacyHandler f) else None
            | None \<Rightarrow> None))"

section \<open>The fetch handler\<close>

definition runtimeRequestOk :: "jsval \<Rightarrow> bool" where
  "runtimeRequestOk v \<longleftrightarrow>
     isRecord v \<and> length (own_keys v) = 4 \<and> is_string (js_get v ''executionId'') \<and> is_string (js_get v ''hookName'') \<and>
     js_get v ''hookType'' \<in> {JStr ''event'', JStr ''transform'', JStr ''policy''} \<and> has_own v ''payload''"

definition resultOf :: "entry_point \<Rightarrow> string \<Rightarrow> jsval \<Rightarrow> jsval option" where
  "resultOf e hookType r =
     (case e of Dispatcher _ \<Rightarrow> validatePluginDispatchResult hookType r
              | LegacyHandler _ \<Rightarrow> validateRuntimeReturn hookType r)"

definition responseText :: "jsval \<Rightarrow> string" where
  "responseText v = CHR 0x7B # json_quote ''value'' @ '':'' @ serializeJsonValue v @ [CHR 0x7D]"

text \<open>The body of the answer, or \<open>None\<close> when the handler raised.\<close>

definition runtimeFetch ::
  "(string \<Rightarrow> jsval option) \<Rightarrow> (entry_point \<Rightarrow> string \<Rightarrow> jsval \<Rightarrow> tenant) \<Rightarrow> 'w capability_call \<Rightarrow> nat list \<Rightarrow>
   jsval option \<Rightarrow> jsval \<Rightarrow> string \<Rightarrow> string \<Rightarrow> 'w \<Rightarrow> string option \<times> 'w" where
  "runtimeFetch parseJson program call schedule module env verb body w =
     (if verb \<noteq> ''POST'' then (None, w)
      else (case parseJson body of
         None \<Rightarrow> (None, w)
       | Some input \<Rightarrow>
           if \<not> runtimeRequestOk input then (None, w)
           else (case Option.bind module (\<lambda>m. entryPoint m (text_of (js_get input ''hookName''))) of
              None \<Rightarrow> (None, w)
            | Some e \<Rightarrow>
                (let executionId = text_of (js_get input ''executionId'')
                 in (case runDispatch env call executionId
                            (program e (text_of (js_get input ''hookName'')) (js_get input ''payload''))
                            \<lparr>rs_calls = [], rs_world = w\<rparr> of
                       (None, s) \<Rightarrow> (None, rs_world s)
                     | (Some (r, rest), s) \<Rightarrow>
                         (case resultOf e (text_of (js_get input ''hookType'')) r of
                            None \<Rightarrow> (None, rs_world s)
                          | Some v \<Rightarrow>
                              (case drainCalls env call executionId schedule 0 (rest, s) of
                                 (drained, s') \<Rightarrow>
                                   (if drained \<and> losslessJson v then Some (responseText v) else None, rs_world s'))))))))"

end
