(* ===== verification/LdCallerProperties.thy ===== *)
theory LdCallerProperties
  imports LdCaller
begin

text \<open>
  What the dynamic worker caller guarantees: a run that is accepted can be recorded, it is recorded
  exactly once, a policy decision fails closed, and a warm worker only ever serves the tenant,
  installation, plugin, artifact and grant revision it was loaded for.
\<close>

section \<open>Accepted requests can be recorded\<close>

lemma trim_empty: "trim s = [] \<longleftrightarrow> list_all is_space s"
proof -
  have "dropWhile is_space xs = [] \<longleftrightarrow> list_all is_space xs" for xs by (induction xs) auto
  moreover have "list_all is_space (dropWhile is_space s) \<longleftrightarrow> list_all is_space s" by (induction s) auto
  ultimately show ?thesis by (simp add: trim_def)
qed

lemma alnum_plain: "is_alnum c \<Longrightarrow> \<not> is_space c \<and> \<not> is_control c"
  by (auto simp: is_alnum_def is_digit_def is_lower_def is_upper_def is_space_def is_control_def)

lemma separator_plain: "c \<in> set ''._:-'' \<Longrightarrow> \<not> is_control c"
  by (auto simp: is_control_def code_def)

lemma identifierPattern_plain:
  assumes "identifierPattern s"
  shows "trim s \<noteq> [] \<and> length s \<le> 256 \<and> \<not> hasControlCharacterIn s"
proof -
  obtain c t where s: "s = c # t" "is_alnum c" "length s \<le> 256"
    "list_all (\<lambda>c. is_alnum c \<or> c \<in> set ''._:-'') t"
    using assms by (cases s) (auto simp: identifierPattern_def)
  have "list_all (\<lambda>c. \<not> is_control c) t"
    using s(4) alnum_plain separator_plain by (metis (no_types, lifting) list.pred_mono_strong)
  then have "\<not> hasControlCharacterIn s"
    using s(1,2) alnum_plain by (auto simp: hasControlCharacterIn_def list_all_iff list_ex_iff)
  moreover have "trim s \<noteq> []" using s(1,2) alnum_plain by (simp add: trim_empty)
  ultimately show ?thesis using s(3) by blast
qed

lemma error_text_bounded: "isBoundedTextValue (JStr (error_text c)) 4096"
  by (cases c) (simp_all add: trim_empty is_space_def code_def)

lemma own_keys_obj [simp]: "own_keys (JObj kind fs) = map fst fs"
  by (simp add: own_keys_def)

lemma zero_finite: "isNonNegativeFinite (JNum (NInt 0))"
  by (simp add: isNonNegativeNumber_def)

lemma validateRunRequest_fields:
  assumes "validateRunRequest v = Inr body"
  defines "q \<equiv> runRequestOf v"
  shows "identifierPattern (rr_executionId q)" "identifierPattern (rr_tenantId q)" "identifierPattern (rr_installationId q)"
    "identifierPattern (rr_pluginId q)" "identifierPattern (rr_version q)" "length (rr_version q) \<le> 128"
    "identifierPattern (rr_grantRevision q)" "isHookType (JStr (rr_hookType q))" "sha256Pattern (rr_artifactSha256 q)"
    "isRecordedHookName (JStr (rr_hookName q))" "js_get v ''hookType'' = JStr (rr_hookType q)"
    "js_get v ''executionId'' = JStr (rr_executionId q)" "js_get v ''tenantId'' = JStr (rr_tenantId q)"
proof -
  have r: "isRuntimeIdentifier x \<Longrightarrow> x = JStr (text_of x) \<and> identifierPattern (text_of x)" for x by (cases x) auto
  have n: "isRecordedHookName x \<Longrightarrow> x = JStr (text_of x)" for x by (cases x) auto
  have h: "isHookType x \<Longrightarrow> x = JStr (text_of x)" for x using isHookType_text [of x] by auto
  note v = assms(1) [unfolded validateRunRequest_def, simplified bindE_Inr guardE_simps]
  show "identifierPattern (rr_executionId q)" "identifierPattern (rr_tenantId q)" "identifierPattern (rr_installationId q)"
    "identifierPattern (rr_pluginId q)" "identifierPattern (rr_version q)" "length (rr_version q) \<le> 128"
    "identifierPattern (rr_grantRevision q)" "isHookType (JStr (rr_hookType q))" "sha256Pattern (rr_artifactSha256 q)"
    "isRecordedHookName (JStr (rr_hookName q))" "js_get v ''hookType'' = JStr (rr_hookType q)"
    "js_get v ''executionId'' = JStr (rr_executionId q)" "js_get v ''tenantId'' = JStr (rr_tenantId q)"
    using v r n [of "js_get v ''hookName''"] h [of "js_get v ''hookType''"] by (auto simp: q_def runRequestOf_def)
qed

lemma evidence_call: "isEvidenceCall v \<Longrightarrow> isCapabilityCall v"
proof -
  have "isRuntimeIdentifier x \<Longrightarrow> isBoundedTextValue x 256" for x
    using identifierPattern_plain by (cases x) auto
  then show "isEvidenceCall v \<Longrightarrow> isCapabilityCall v" by (simp add: isEvidenceCall_def isCapabilityCall_def)
qed

definition evidenceRecordable :: "invocation_evidence \<Rightarrow> bool" where
  "evidenceRecordable e \<longleftrightarrow>
     isCallList (JArr (ev_capabilityCalls e)) \<and> isNonNegativeInteger (JNum (ev_subrequests e)) \<and>
     isNonNegativeInteger (JNum (ev_workflowRuns e))"

lemma noEvidence_recordable: "evidenceRecordable noEvidence"
  by (simp add: evidenceRecordable_def noEvidence_def is_safe_integer_def max_safe_integer_def)

lemma validateInvocationEvidence_recordable:
  assumes "validateInvocationEvidence v = Some e"
  shows "evidenceRecordable e"
proof -
  have "isNonNegativeInteger x \<Longrightarrow> isNonNegativeInteger (JNum (number_of x))" for x by (cases x) auto
  then show ?thesis using assms evidence_call
    by (fastforce simp: validateInvocationEvidence_def evidenceRecordable_def list_all_iff
        split: if_splits jsval.splits option.splits)
qed

lemma readEvidence_recordable: "readEvidence cfg q w = (e, w') \<Longrightarrow> evidenceRecordable e"
  using noEvidence_recordable validateInvocationEvidence_recordable
  by (auto simp: readEvidence_def split: prod.splits sum.splits option.splits)

lemma executionRequest_get:
  "js_get (executionRequest q clock i e) ''execution'' =
     JObj PlainObj
       ([(''id'', JStr (rr_executionId q)), (''tenantId'', JStr (rr_tenantId q)), (''pluginId'', JStr (rr_pluginId q)),
         (''hookName'', JStr (rr_hookName q)), (''version'', JStr (rr_version q)),
         (''status'', JStr (executionStatus i (0 < ev_deniedEgressAttempts e))),
         (''durationMs'', JNum (nonNegativeDuration (rk_elapsed clock)))] @
        (case failureCode i (0 < ev_deniedEgressAttempts e) of None \<Rightarrow> [] | Some c \<Rightarrow> [(''error'', JStr (error_text c))]) @
        [(''capabilityCalls'', JArr (ev_capabilityCalls e)), (''createdAt'', JDate (rk_startedAt clock))])"
  "js_get (executionRequest q clock i e) ''metrics'' =
     JObj PlainObj
       [(''hookType'', JStr (rr_hookType q)), (''cpuMs'', JNum (NInt 0)), (''subrequests'', JNum (ev_subrequests e)),
        (''workflowRuns'', JNum (ev_workflowRuns e))]"
  "isRecord (executionRequest q clock i e)"
  "own_keys (executionRequest q clock i e) = [''execution'', ''metrics'']"
  by (simp_all add: executionRequest_def Let_def record_get_def own_keys_def)

lemma executionStatus_known: "executionStatus i d \<in> set executionStatuses"
  by (simp add: executionStatus_def executionStatuses_def)

text \<open>
  C25: A run that is accepted can be recorded. Whatever the worker does and whatever the evidence
  store answers, the execution the caller builds for a valid run request passes the recorder's own
  checks, provided the clocks work; so tenant code never runs for a request whose execution the
  authoritative recorder would refuse.
\<close>

theorem accepted_runs_are_recordable:
  assumes "validateRunRequest v = Inr body" "readEvidence cfg (runRequestOf v) w = (e, w')"
    and "rk_startedAt clock \<noteq> None" "num_is_finite (rk_elapsed clock)"
  shows "validateRequest (executionRequest (runRequestOf v) clock i e) = Inr ()"
proof -
  let ?q = "runRequestOf v"
  note f = validateRunRequest_fields [OF assms(1)]
  have e: "evidenceRecordable e" using readEvidence_recordable [OF assms(2)] .
  have "isIdentifier (JStr (rr_executionId ?q))" "isIdentifier (JStr (rr_tenantId ?q))" "isIdentifier (JStr (rr_pluginId ?q))"
    "isBoundedTextValue (JStr (rr_version ?q)) 128"
    using f(1,2,4,5,6) identifierPattern_plain by simp_all
  moreover have "isBoundedTextValue (JStr (rr_hookName ?q)) 256" using f(10) by simp
  moreover have "isNonNegativeFinite (JNum (nonNegativeDuration (rk_elapsed clock)))"
    using assms(4) by (auto simp: nonNegativeDuration_def isNonNegativeNumber_def)
  moreover have "isValidDate (JDate (rk_startedAt clock))" using assms(3) by simp
  ultimately show ?thesis
    using e f(8) error_text_bounded executionStatus_known zero_finite
    by (cases "failureCode i (0 < ev_deniedEgressAttempts e)")
      (simp_all add: validateRequest_def validateExecution_def executionRequest_get hasExactKeys_def has_own_def
        executionKeys_def evidenceRecordable_def record_get_def inherited_value_def
        object_prototype_keys_def isNonNegativeNumber_def
        del: isBoundedTextValue.simps isIdentifier.simps isNonNegativeFinite.simps isNonNegativeInteger.simps isValidDate.simps isCallList.simps)
qed

section \<open>Every run is recorded once\<close>

text \<open>\<open>recs\<close> reads the records out of the outside world; only the recorder adds to them.\<close>

definition recordsOnly ::
  "('w \<Rightarrow> jsval list) \<Rightarrow> 'w caller_configuration \<Rightarrow> (DynamicWorkerCode \<Rightarrow> run_request \<Rightarrow> string \<Rightarrow> 'w \<Rightarrow> fetch_result \<times> 'w) \<Rightarrow> bool" where
  "recordsOnly recs cfg fetch \<longleftrightarrow>
     (\<forall>a w. recs (snd (cf_loadArtifact cfg a w)) = recs w) \<and> (\<forall>a w. recs (snd (cf_createScopeBindings cfg a w)) = recs w) \<and>
     (\<forall>a w. recs (snd (cf_readEvidence cfg a w)) = recs w) \<and> (\<forall>a w. recs (cf_reportFailure cfg a w) = recs w) \<and>
     (\<forall>c q b w. recs (snd (fetch c q b w)) = recs w) \<and> (\<forall>x w. recs (snd (cf_record cfg x w)) = recs w @ [x])"

lemma recordsOnlyD:
  assumes "recordsOnly recs cfg fetch"
  shows "cf_loadArtifact cfg a w = (r1, w') \<Longrightarrow> recs w' = recs w"
    and "cf_createScopeBindings cfg b w = (r2, w') \<Longrightarrow> recs w' = recs w"
    and "cf_readEvidence cfg d w = (r3, w') \<Longrightarrow> recs w' = recs w"
    and "recs (cf_reportFailure cfg d w) = recs w"
    and "fetch c q body w = (r4, w') \<Longrightarrow> recs w' = recs w"
    and "cf_record cfg x w = (r5, w') \<Longrightarrow> recs w' = recs w @ [x]"
  using assms unfolding recordsOnly_def by (metis snd_conv)+

lemma loadCode_recs:
  assumes "recordsOnly recs cfg fetch" "loadCode sha256 cfg q w = (r, w')"
  shows "recs w' = recs w"
proof -
  obtain a w1 b w2 where 1: "cf_loadArtifact cfg (artifactOf q) w = (a, w1)"
    and 2: "cf_createScopeBindings cfg (scopeOf q) w1 = (b, w2)" by (metis surj_pair)
  have "w' = w1 \<or> w' = w2"
    using assms(2) 1 2 by (auto simp: loadCode_def bindS_def split: sum.splits jsval.splits if_splits)
  then show ?thesis using recordsOnlyD(1) [OF assms(1) 1] recordsOnlyD(2) [OF assms(1) 2] by auto
qed

lemma invokeWorker_recs:
  assumes "recordsOnly recs cfg fetch" "invokeWorker get put sha256 fetch cfg q body s = (r, s')"
  shows "recs (snd s') = recs (snd s)"
proof (cases "get (fst s) (deriveWorkerId sha256 (cf_compatibilityDate cfg) q)")
  case None
  obtain c w1 where 1: "loadCode sha256 cfg q (snd s) = (c, w1)" by (metis surj_pair)
  then show ?thesis
    using None assms loadCode_recs [OF assms(1) 1]
    by (cases c) (auto simp: invokeWorker_def Let_def dest: recordsOnlyD(5) [OF assms(1)] split: prod.splits)
next
  case (Some c)
  then show ?thesis using assms
    by (auto simp: invokeWorker_def Let_def dest: recordsOnlyD(5) [OF assms(1)] split: prod.splits)
qed

lemma readEvidence_recs:
  assumes "recordsOnly recs cfg fetch" "readEvidence cfg q w = (e, w')"
  shows "recs w' = recs w"
proof -
  obtain r w1 where 1: "cf_readEvidence cfg (executionScopeOf q) w = (r, w1)" by (metis surj_pair)
  then have "w' = w1 \<or> w' = cf_reportFailure cfg (executionScopeOf q) w1"
    using assms(2) by (auto simp: readEvidence_def split: sum.splits option.splits)
  then show ?thesis using recordsOnlyD(3) [OF assms(1) 1] recordsOnlyD(4) [OF assms(1)] by auto
qed

text \<open>An invocation that counts as successful was answered in time with the value it returns.\<close>

lemma settled_success:
  assumes "settleInvocation parseJson classify hookType result = Inr i" "failureCode i d = None"
  shows "\<exists>r. result = FetchResponse r \<and> readResponseValue parseJson r = Inr (is_value i) \<and>
    (hookType = ''policy'' \<longrightarrow> isCanonicalPolicyResult (is_value i)) \<and> \<not> d \<and> executionStatus i d = ''success''"
  using assms
  by (auto simp: settleInvocation_def failureCode_def executionStatus_def classified_def failedWith_def answered_def Let_def
      split: fetch_result.splits invocation_error.splits sum.splits option.splits if_splits)

lemma policyDenial_canonical: "isCanonicalPolicyResult (policyDenial c)"
  by (cases c) (simp_all add: policyDenial_def isCanonicalPolicyResult_def reasonCodePattern_def is_lower_def code_def)

lemma policyDenial_denies: "js_get (policyDenial c) ''decision'' = JStr ''deny''"
  by (simp add: policyDenial_def record_get_def)

lemma recordRun_cases:
  assumes "recordRun cfg q clock i w = (res, w')" "recordsOnly recs cfg fetch"
  obtains e where "recs w' = recs w @ [executionRequest q clock i e]"
    "case res of
       Inl c \<Rightarrow> c = runtime_unavailable \<or> (failureCode i (0 < ev_deniedEgressAttempts e) = Some c \<and> rr_hookType q \<noteq> ''policy'')
     | Inr (value, execution) \<Rightarrow>
         (case failureCode i (0 < ev_deniedEgressAttempts e) of
            None \<Rightarrow> value = is_value i
          | Some c \<Rightarrow> rr_hookType q = ''policy'' \<and> value = policyDenial c)"
proof -
  obtain e w1 where e: "readEvidence cfg q w = (e, w1)" by (metis surj_pair)
  moreover obtain r w2 where r: "cf_record cfg (executionRequest q clock i e) w1 = (r, w2)" by (metis surj_pair)
  ultimately have "recs w2 = recs w @ [executionRequest q clock i e]"
    using readEvidence_recs [OF assms(2) e] recordsOnlyD(6) [OF assms(2) r] by simp
  then show thesis
    using that [of e] assms(1) e r by (auto simp: recordRun_def split: sum.splits option.splits if_splits)
qed

definition executionField :: "jsval \<Rightarrow> string \<Rightarrow> jsval" where
  "executionField x k = js_get (js_get x ''execution'') k"

lemma executionField_request:
  "executionField (executionRequest q clock i e) ''id'' = JStr (rr_executionId q)"
  "executionField (executionRequest q clock i e) ''tenantId'' = JStr (rr_tenantId q)"
  "executionField (executionRequest q clock i e) ''status'' = JStr (executionStatus i (0 < ev_deniedEgressAttempts e))"
  "executionField (executionRequest q clock i e) ''error'' =
     (case failureCode i (0 < ev_deniedEgressAttempts e) of None \<Rightarrow> JUndef | Some c \<Rightarrow> JStr (error_text c))"
  by (simp_all add: executionField_def executionRequest_get record_get_def inherited_value_def object_prototype_keys_def
      split: option.split)

lemma failed_status: "failureCode i d = Some c \<Longrightarrow> executionStatus i d \<noteq> ''success''"
  by (auto simp: failureCode_def executionStatus_def split: if_splits)

lemma runWorker_cases:
  assumes "runWorker get put sha256 parseJson fetch cfg clock v s = (res, s')" "recordsOnly recs cfg fetch"
  obtains (refused) c where "res = Inl c" "recs (snd s') = recs (snd s)"
  | (recorded) body i w where "validateRunRequest v = Inr body"
      "settleInvocation parseJson (cf_classify cfg) (rr_hookType (runRequestOf v))
         (fst (invokeWorker get put sha256 fetch cfg (runRequestOf v) body s)) = Inr i"
      "recs w = recs (snd s)" "recordRun cfg (runRequestOf v) clock i w = (res, snd s')"
proof (cases "validateRunRequest v")
  case (Inr body)
  obtain r s1 where i: "invokeWorker get put sha256 fetch cfg (runRequestOf v) body s = (r, s1)" by (metis surj_pair)
  then have recs: "recs (snd s1) = recs (snd s)" using invokeWorker_recs [OF assms(2)] by blast
  show thesis
  proof (cases "settleInvocation parseJson (cf_classify cfg) (rr_hookType (runRequestOf v)) r")
    case (Inr j)
    then show thesis using recorded [OF \<open>validateRunRequest v = Inr body\<close>] i recs assms(1) \<open>validateRunRequest v = Inr body\<close>
      by (auto simp: runWorker_def Let_def onSnd_def split: prod.splits)
  qed (use refused i recs assms(1) Inr in \<open>auto simp: runWorker_def Let_def\<close>)
qed (use refused assms(1) in \<open>auto simp: runWorker_def\<close>)

text \<open>
  C24: Every run is recorded once, and answers what was recorded. A run adds at most one record; when
  it adds none it raises and returns no value. The record is of the request's execution and tenant,
  and what the host sees matches it: a value of an event or transform hook only for a recorded
  success, an error that is the recorded one (or that of the recorder), and for a policy hook a
  recorded failure is the denial with the recorded code.
\<close>

theorem runs_recorded_once:
  assumes "recordsOnly recs cfg fetch" "runWorker get put sha256 parseJson fetch cfg clock v s = (res, s')"
  shows "(recs (snd s') = recs (snd s) \<and> isl res) \<or>
    (\<exists>x. recs (snd s') = recs (snd s) @ [x] \<and> executionField x ''id'' = js_get v ''executionId'' \<and>
      executionField x ''tenantId'' = js_get v ''tenantId'' \<and>
      (case res of
         Inl c \<Rightarrow> c = runtime_unavailable \<or>
           (executionField x ''error'' = JStr (error_text c) \<and> executionField x ''status'' \<noteq> JStr ''success'')
       | Inr (value, _) \<Rightarrow> executionField x ''status'' = JStr ''success'' \<or>
           (js_get v ''hookType'' = JStr ''policy'' \<and>
            value = JObj PlainObj [(''decision'', JStr ''deny''), (''reasonCode'', executionField x ''error'')])))"
  using assms(2,1)
proof (cases rule: runWorker_cases)
  case (recorded body i w)
  let ?q = "runRequestOf v"
  obtain e where e: "recs (snd s') = recs w @ [executionRequest ?q clock i e]"
    "case res of
       Inl c \<Rightarrow> c = runtime_unavailable \<or> (failureCode i (0 < ev_deniedEgressAttempts e) = Some c \<and> rr_hookType ?q \<noteq> ''policy'')
     | Inr (value, execution) \<Rightarrow>
         (case failureCode i (0 < ev_deniedEgressAttempts e) of
            None \<Rightarrow> value = is_value i
          | Some c \<Rightarrow> rr_hookType ?q = ''policy'' \<and> value = policyDenial c)"
    using recordRun_cases [OF recorded(4) assms(1)] by blast
  have "js_get v ''executionId'' = JStr (rr_executionId ?q)" "js_get v ''tenantId'' = JStr (rr_tenantId ?q)"
    "js_get v ''hookType'' = JStr (rr_hookType ?q)"
    using validateRunRequest_fields [OF recorded(1)] by simp_all
  moreover have "failureCode i (0 < ev_deniedEgressAttempts e) = None \<Longrightarrow> executionStatus i (0 < ev_deniedEgressAttempts e) = ''success''"
    using settled_success [OF recorded(2)] by blast
  ultimately show ?thesis
    using e recorded(3) failed_status [of i "0 < ev_deniedEgressAttempts e"]
    by (intro disjI2 exI [of _ "executionRequest ?q clock i e"])
      (auto simp: executionField_request policyDenial_def split: sum.splits option.splits)
qed auto

text \<open>
  C23: Policy decisions fail closed. Whatever the worker, the platform and the evidence store do, a
  policy run that returns a value returns a canonical decision, and any decision but a denial is the
  value the worker itself answered, in time and in full, for an execution that was recorded as a
  success; time-outs, exceeded budgets, denied egress, malformed answers and foreign errors only
  ever deny.
\<close>

theorem policy_runs_fail_closed:
  assumes "recordsOnly recs cfg fetch"
    and "runWorker get put sha256 parseJson fetch cfg clock v s = (Inr (value, execution), s')"
    and "js_get v ''hookType'' = JStr ''policy''"
  shows "isCanonicalPolicyResult value \<and>
    (js_get value ''decision'' = JStr ''deny'' \<or>
     (\<exists>body r x. validateRunRequest v = Inr body \<and>
        fst (invokeWorker get put sha256 fetch cfg (runRequestOf v) body s) = FetchResponse r \<and>
        readResponseValue parseJson r = Inr value \<and> recs (snd s') = recs (snd s) @ [x] \<and>
        executionField x ''status'' = JStr ''success''))"
  using assms(2,1)
proof (cases rule: runWorker_cases)
  case (recorded body i w)
  let ?q = "runRequestOf v"
  have p: "rr_hookType ?q = ''policy''" using validateRunRequest_fields(11) [OF recorded(1)] assms(3) by simp
  obtain e where e: "recs (snd s') = recs w @ [executionRequest ?q clock i e]"
    "case failureCode i (0 < ev_deniedEgressAttempts e) of
       None \<Rightarrow> value = is_value i | Some c \<Rightarrow> rr_hookType ?q = ''policy'' \<and> value = policyDenial c"
    using recordRun_cases [OF recorded(4) assms(1)] by (metis (no_types, lifting) case_prod_conv sum.case(2))
  show ?thesis
  proof (cases "failureCode i (0 < ev_deniedEgressAttempts e)")
    case None
    then show ?thesis using settled_success [OF recorded(2) None] e recorded(1,3) p
      by (auto simp: executionField_request)
  next
    case (Some c)
    then show ?thesis using e policyDenial_canonical policyDenial_denies by auto
  qed
qed auto

section \<open>Warm workers\<close>

text \<open>What the code of a worker must be for a request.\<close>

definition workerFor ::
  "(string \<Rightarrow> string) \<Rightarrow> 'w caller_configuration \<Rightarrow> run_request \<Rightarrow> DynamicWorkerCode \<Rightarrow> bool" where
  "workerFor sha256 cfg q c \<longleftrightarrow>
     sha256 (dw_artifact c) = rr_artifactSha256 q \<and> dw_compatibilityDate c = cf_compatibilityDate cfg \<and>
     dw_globalOutbound c = None \<and>
     list_all (\<lambda>b. bindingAllowed (fst b) (snd b)) (own_entries (dw_env c)) \<and>
     (\<exists>w w'. cf_createScopeBindings cfg (scopeOf q) w = (Inr (dw_env c), w'))"

lemma loadCode_workerFor:
  assumes "loadCode sha256 cfg q w = (Inr c, w')"
  shows "workerFor sha256 cfg q c"
proof -
  obtain a w1 b w2 where 1: "cf_loadArtifact cfg (artifactOf q) w = (a, w1)"
    and 2: "cf_createScopeBindings cfg (scopeOf q) w1 = (b, w2)" by (metis surj_pair)
  show ?thesis
    using assms 1 2
    by (auto simp: loadCode_def bindS_def workerFor_def validateScopeBindings_def bindE_Inr
        split: sum.splits jsval.splits if_splits) blast
qed

text \<open>The parts of a scope contain no separator, so different scopes have different texts.\<close>

lemma identifierPattern_no_nul: "identifierPattern s \<Longrightarrow> CHR 0x00 \<notin> set s"
  using identifierPattern_plain [of s] by (auto simp: hasControlCharacterIn_def list_ex_iff is_control_def code_def)

definition scopeText :: "'w caller_configuration \<Rightarrow> run_request \<Rightarrow> string" where
  "scopeText cfg q = join [CHR 0x00] (workerScope (cf_compatibilityDate cfg) q)"

definition plainScope :: "run_request \<Rightarrow> bool" where
  "plainScope q \<longleftrightarrow> list_all (\<lambda>s. CHR 0x00 \<notin> set s)
     [rr_tenantId q, rr_installationId q, rr_pluginId q, rr_artifactSha256 q, rr_grantRevision q]"

lemma sha256Pattern_no_nul: "sha256Pattern s \<Longrightarrow> CHR 0x00 \<notin> set s"
  by (auto simp: sha256Pattern_def list_all_iff is_digit_def code_def)

lemma valid_plainScope: "validateRunRequest v = Inr body \<Longrightarrow> plainScope (runRequestOf v)"
  using validateRunRequest_fields [of v body] identifierPattern_no_nul sha256Pattern_no_nul by (simp add: plainScope_def)

lemma scopeText_eq:
  assumes "CHR 0x00 \<notin> set (cf_compatibilityDate cfg)" "plainScope q" "plainScope q'" "scopeText cfg q = scopeText cfg q'"
  shows "scopeOf q = scopeOf q' \<and> rr_artifactSha256 q = rr_artifactSha256 q'"
proof -
  have "split_on (CHR 0x00) (scopeText cfg x) = workerScope (cf_compatibilityDate cfg) x" if "plainScope x" for x
    using assms(1) that unfolding scopeText_def by (intro split_on_join) (auto simp: workerScope_def plainScope_def)
  then have "workerScope (cf_compatibilityDate cfg) q = workerScope (cf_compatibilityDate cfg) q'"
    using assms(2-4) by metis
  then show ?thesis by (simp add: workerScope_def scopeOf_def)
qed

text \<open>Runs and evictions, one after the other.\<close>

datatype worker_op = RunWorker run_clock jsval | EvictWorker string

fun workerStep ::
  "(string \<Rightarrow> string) \<Rightarrow> (string \<Rightarrow> jsval option) \<Rightarrow> (DynamicWorkerCode \<Rightarrow> run_request \<Rightarrow> string \<Rightarrow> 'w \<Rightarrow> fetch_result \<times> 'w) \<Rightarrow>
   'w caller_configuration \<Rightarrow> worker_op \<Rightarrow> (string \<times> DynamicWorkerCode) list \<times> 'w \<Rightarrow>
   (string \<times> DynamicWorkerCode) list \<times> 'w" where
  "workerStep sha256 parseJson fetch cfg (RunWorker clock v) s = snd (runWorker mem_get mem_put sha256 parseJson fetch cfg clock v s)"
| "workerStep sha256 parseJson fetch cfg (EvictWorker i) s = (mem_delete i (fst s), snd s)"

definition workerRun where
  "workerRun sha256 parseJson fetch cfg ops s = fold (workerStep sha256 parseJson fetch cfg) ops s"

text \<open>The scope texts of the valid requests of a history.\<close>

fun opScopes :: "'w caller_configuration \<Rightarrow> worker_op list \<Rightarrow> string set" where
  "opScopes cfg [] = {}"
| "opScopes cfg (RunWorker clock v # ops) =
     (if isl (validateRunRequest v) then opScopes cfg ops else insert (scopeText cfg (runRequestOf v)) (opScopes cfg ops))"
| "opScopes cfg (EvictWorker i # ops) = opScopes cfg ops"

definition warmOk ::
  "(string \<Rightarrow> string) \<Rightarrow> 'w caller_configuration \<Rightarrow> string set \<Rightarrow> (string \<times> DynamicWorkerCode) list \<Rightarrow> bool" where
  "warmOk sha256 cfg texts cache \<longleftrightarrow>
     (\<forall>i c. mem_get cache i = Some c \<longrightarrow>
        (\<exists>q. plainScope q \<and> scopeText cfg q \<in> texts \<and> i = deriveWorkerId sha256 (cf_compatibilityDate cfg) q \<and>
             workerFor sha256 cfg q c))"

lemma warmOk_mono: "warmOk sha256 cfg texts cache \<Longrightarrow> texts \<subseteq> texts' \<Longrightarrow> warmOk sha256 cfg texts' cache"
  unfolding warmOk_def by blast

lemma warmOk_delete: "warmOk sha256 cfg texts cache \<Longrightarrow> warmOk sha256 cfg texts (mem_delete i cache)"
  by (auto simp: warmOk_def mem_get_delete)

lemma invokeWorker_cache:
  assumes "invokeWorker mem_get mem_put sha256 fetch cfg q body s = (r, s')"
  shows "fst s' = fst s \<or>
    (\<exists>c. workerFor sha256 cfg q c \<and> fst s' = mem_put (deriveWorkerId sha256 (cf_compatibilityDate cfg) q) c (fst s))"
proof (cases "mem_get (fst s) (deriveWorkerId sha256 (cf_compatibilityDate cfg) q)")
  case None
  obtain c w1 where 1: "loadCode sha256 cfg q (snd s) = (c, w1)" by (metis surj_pair)
  then show ?thesis using None assms loadCode_workerFor
    by (cases c) (fastforce simp: invokeWorker_def Let_def split: prod.splits)+
qed (use assms in \<open>auto simp: invokeWorker_def Let_def split: prod.splits\<close>)

lemma runWorker_cache:
  assumes "runWorker mem_get mem_put sha256 parseJson fetch cfg clock v s = (res, s')"
  shows "fst s' = fst s \<or>
    (\<exists>body c. validateRunRequest v = Inr body \<and> workerFor sha256 cfg (runRequestOf v) c \<and>
       fst s' = mem_put (deriveWorkerId sha256 (cf_compatibilityDate cfg) (runRequestOf v)) c (fst s))"
proof (cases "validateRunRequest v")
  case (Inr body)
  obtain r s1 where i: "invokeWorker mem_get mem_put sha256 fetch cfg (runRequestOf v) body s = (r, s1)" by (metis surj_pair)
  then have "fst s' = fst s1"
    using assms Inr by (auto simp: runWorker_def Let_def onSnd_def split: sum.splits prod.splits)
  then show ?thesis using invokeWorker_cache [OF i] Inr by auto
qed (use assms in \<open>simp add: runWorker_def\<close>)

lemma workerStep_warm:
  assumes "warmOk sha256 cfg (opScopes cfg ops) (fst s)"
  shows "warmOk sha256 cfg (opScopes cfg (ops @ [x])) (fst (workerStep sha256 parseJson fetch cfg x s))"
proof -
  have app: "opScopes cfg (xs @ ys) = opScopes cfg xs \<union> opScopes cfg ys" for xs ys
    by (induction cfg xs rule: opScopes.induct) auto
  show ?thesis
  proof (cases x)
    case (RunWorker clock v)
    obtain res s' where r: "runWorker mem_get mem_put sha256 parseJson fetch cfg clock v s = (res, s')" by (metis surj_pair)
    have old: "warmOk sha256 cfg (opScopes cfg (ops @ [x])) (fst s)"
      using assms by (rule warmOk_mono) (simp add: app)
    from runWorker_cache [OF r] show ?thesis
    proof
      assume "\<exists>body c. validateRunRequest v = Inr body \<and> workerFor sha256 cfg (runRequestOf v) c \<and>
        fst s' = mem_put (deriveWorkerId sha256 (cf_compatibilityDate cfg) (runRequestOf v)) c (fst s)"
      then obtain body c where c: "validateRunRequest v = Inr body" "workerFor sha256 cfg (runRequestOf v) c"
        "fst s' = mem_put (deriveWorkerId sha256 (cf_compatibilityDate cfg) (runRequestOf v)) c (fst s)" by blast
      then have "plainScope (runRequestOf v)" "scopeText cfg (runRequestOf v) \<in> opScopes cfg (ops @ [x])"
        using valid_plainScope by (auto simp: app RunWorker)
      then show ?thesis using old c r
        by (auto simp: warmOk_def RunWorker mem.get_put split: if_splits)
    qed (use old r in \<open>simp add: RunWorker\<close>)
  qed (use assms warmOk_delete in \<open>simp add: app\<close>)
qed

lemma workerRun_warm: "warmOk sha256 cfg (opScopes cfg ops) (fst (workerRun sha256 parseJson fetch cfg ops ([], w)))"
proof (induction ops rule: rev_induct)
  case (snoc x ops)
  then show ?case using workerStep_warm by (fastforce simp: workerRun_def)
qed (simp add: workerRun_def warmOk_def mem_get_def)

text \<open>
  C26: A warm worker never crosses a boundary. After any runs of any tenants, with any evictions, the
  worker kept for a valid request executes the artifact of the digest the request names, with bindings
  that were created for its own tenant, installation, plugin and grant revision, no binding that
  looks like a secret, and no outbound network, as long as the digest does not collide on the scopes
  in play.
\<close>

theorem warm_workers_are_scoped:
  assumes "validateRunRequest v = Inr body" "CHR 0x00 \<notin> set (cf_compatibilityDate cfg)"
    and "inj_on (\<lambda>t. take 32 (sha256 t)) (insert (scopeText cfg (runRequestOf v)) (opScopes cfg ops))"
    and "mem_get (fst (workerRun sha256 parseJson fetch cfg ops ([], w)))
        (deriveWorkerId sha256 (cf_compatibilityDate cfg) (runRequestOf v)) = Some c"
  shows "workerFor sha256 cfg (runRequestOf v) c"
proof -
  let ?q = "runRequestOf v"
  obtain q where q: "plainScope q" "scopeText cfg q \<in> opScopes cfg ops"
    "deriveWorkerId sha256 (cf_compatibilityDate cfg) ?q = deriveWorkerId sha256 (cf_compatibilityDate cfg) q"
    "workerFor sha256 cfg q c"
    using workerRun_warm [of sha256 cfg ops parseJson fetch w] assms(4) unfolding warmOk_def by blast
  then have "take 32 (sha256 (scopeText cfg ?q)) = take 32 (sha256 (scopeText cfg q))"
    by (simp add: deriveWorkerId_def scopeText_def)
  then have "scopeText cfg ?q = scopeText cfg q" using inj_onD [OF assms(3)] q(2) by blast
  from scopeText_eq [OF assms(2) valid_plainScope [OF assms(1)] q(1) this]
  show ?thesis using q(4) by (simp add: workerFor_def)
qed

section \<open>Concrete runs\<close>

definition example_sha256 :: "string \<Rightarrow> string" where
  "example_sha256 s = (if s = ''code'' then replicate 64 (CHR ''a'') else replicate 64 (CHR ''b''))"

definition example_run_request :: jsval where
  "example_run_request = JObj PlainObj
     [(''executionId'', JStr ''x''), (''tenantId'', JStr ''t''), (''installationId'', JStr ''i''), (''pluginId'', JStr ''p''),
      (''hookName'', JStr ''h''), (''hookType'', JStr ''policy''), (''version'', JStr ''1''),
      (''artifactSha256'', JStr (replicate 64 (CHR ''a''))), (''grantRevision'', JStr ''g''), (''payload'', JNull),
      (''limits'', JObj PlainObj [(''cpuMs'', JNum (NInt 5)), (''timeoutMs'', JNum (NInt 9)), (''subrequests'', JNum (NInt 0))])]"

definition example_allow :: jsval where
  "example_allow = JObj PlainObj [(''decision'', JStr ''allow''), (''reasonCode'', JStr ''ok'')]"

definition example_fetch :: "DynamicWorkerCode \<Rightarrow> run_request \<Rightarrow> string \<Rightarrow> jsval list \<Rightarrow> fetch_result \<times> jsval list" where
  "example_fetch c q body w = (FetchResponse \<lparr>wr_ok = True, wr_contentLength = Some ''4'', wr_body = Some [''text'']\<rparr>, w)"

definition example_parse :: "string \<Rightarrow> jsval option" where
  "example_parse s = Some (JObj PlainObj [(''value'', example_allow)])"

text \<open>The world is the list of records; the evidence store answers with \<open>evidence\<close>.\<close>

definition example_caller :: "(unit, jsval) outcome \<Rightarrow> jsval list caller_configuration" where
  "example_caller evidence =
     \<lparr>cf_compatibilityDate = ''2026-01-01'', cf_loadArtifact = (\<lambda>_ w. (Inr (JStr ''code''), w)),
      cf_createScopeBindings = (\<lambda>_ w. (Inr (JObj PlainObj [(''KV'', JFun ''kv'')]), w)), cf_classify = None,
      cf_readEvidence = (\<lambda>_ w. (evidence, w)), cf_record = (\<lambda>x w. (Inr (js_get x ''execution''), w @ [x])),
      cf_reportFailure = (\<lambda>_ w. w)\<rparr>"

definition example_clock :: run_clock where
  "example_clock = \<lparr>rk_startedAt = Some 5, rk_elapsed = NInt 3\<rparr>"

definition example_worker_run ::
  "(unit, jsval) outcome \<Rightarrow> (HookErrorCode, jsval \<times> jsval) outcome \<times> (string \<times> DynamicWorkerCode) list \<times> jsval list" where
  "example_worker_run evidence =
     runWorker mem_get mem_put example_sha256 example_parse example_fetch (example_caller evidence) example_clock
       example_run_request ([], [])"

lemma example_run_fields:
  "js_get example_run_request ''executionId'' = JStr ''x''" "js_get example_run_request ''tenantId'' = JStr ''t''"
  "js_get example_run_request ''installationId'' = JStr ''i''" "js_get example_run_request ''pluginId'' = JStr ''p''"
  "js_get example_run_request ''hookName'' = JStr ''h''" "js_get example_run_request ''hookType'' = JStr ''policy''"
  "js_get example_run_request ''version'' = JStr ''1''" "js_get example_run_request ''grantRevision'' = JStr ''g''"
  "js_get example_run_request ''artifactSha256'' = JStr (replicate 64 (CHR ''a''))"
  "js_get example_run_request ''payload'' = JNull"
  "js_get (js_get example_run_request ''limits'') ''cpuMs'' = JNum (NInt 5)"
  "js_get (js_get example_run_request ''limits'') ''timeoutMs'' = JNum (NInt 9)"
  "js_get (js_get example_run_request ''limits'') ''subrequests'' = JNum (NInt 0)"
  "isRecord example_run_request" "hasExactKeys example_run_request runRequestKeys"
  "isRecord (js_get example_run_request ''limits'')"
  "hasExactKeys (js_get example_run_request ''limits'') [''cpuMs'', ''timeoutMs'', ''subrequests'']"
  by (simp_all add: example_run_request_def record_get_def hasExactKeys_def has_own_def runRequestKeys_def)

lemma example_run_body: "utf8_length (runRequestBody example_run_request) \<le> 1000"
  by (simp add: runRequestBody_def example_run_fields json_quote_def json_escape_def code_def utf8_length_def)

lemma example_run_valid: "validateRunRequest example_run_request = Inr (runRequestBody example_run_request)"
proof -
  have "isHookType (JStr ''policy'')" by code_simp
  moreover have "sha256Pattern (replicate 64 (CHR ''a''))" by (simp add: sha256Pattern_def list_all_iff is_digit_def code_def)
  moreover have "identifierPattern [c]" if "is_alnum c" for c using that by (simp add: identifierPattern_def)
  moreover have "is_alnum (CHR ''x'')" "is_alnum (CHR ''t'')" "is_alnum (CHR ''i'')" "is_alnum (CHR ''p'')"
    "is_alnum (CHR ''1'')" "is_alnum (CHR ''g'')" "trim ''h'' \<noteq> []" "\<not> hasControlCharacterIn ''h''"
    by (simp_all add: is_alnum_def is_digit_def is_lower_def code_def trim_empty is_space_def hasControlCharacterIn_def is_control_def)
  ultimately show ?thesis
    using example_run_body
    by (simp add: validateRunRequest_def example_run_fields is_safe_integer_def max_safe_integer_def
        max_dynamic_worker_timeout_ms_def max_dynamic_worker_bytes_def)
qed

definition example_evidence :: "int \<Rightarrow> (unit, jsval) outcome" where
  "example_evidence denied = Inr (JObj PlainObj
     [(''capabilityCalls'', JArr []), (''subrequests'', JNum (NInt 0)), (''workflowRuns'', JNum (NInt 0)),
      (''deniedEgressAttempts'', JNum (NInt denied))])"

lemma example_evidence_read:
  assumes "denied = 0 \<or> denied = 1"
  shows "readEvidence (example_caller (example_evidence denied)) q w = (noEvidence\<lparr>ev_deniedEgressAttempts := denied\<rparr>, w)"
  using assms
  by (auto simp: readEvidence_def example_caller_def example_evidence_def validateInvocationEvidence_def hasOnlyKeys_def
      has_own_def record_get_def deniedAttempts_def is_safe_integer_def max_safe_integer_def noEvidence_def)

lemma example_binding: "bindingAllowed ''KV'' (JFun ''kv'')"
  by code_simp

lemma example_code:
  "loadCode example_sha256 (example_caller ev) (runRequestOf example_run_request) w =
     (Inr \<lparr>dw_compatibilityDate = ''2026-01-01'', dw_artifact = ''code'', dw_env = JObj PlainObj [(''KV'', JFun ''kv'')],
           dw_globalOutbound = None\<rparr>, w)"
proof -
  have "utf8_length ''code'' \<le> max_dynamic_worker_artifact_bytes"
    by (simp add: utf8_length_def code_def max_dynamic_worker_artifact_bytes_def)
  then show ?thesis
    by (simp add: loadCode_def bindS_def example_caller_def example_sha256_def runRequestOf_def example_run_fields
        validateScopeBindings_def example_binding)
qed

lemma example_answer:
  "readResponseValue example_parse \<lparr>wr_ok = True, wr_contentLength = Some ''4'', wr_body = Some [''text'']\<rparr> = Inr example_allow"
  by (simp add: readResponseValue_def declaredLengthOk_def is_digit_def code_def read_nat_def max_dynamic_worker_bytes_def
      example_parse_def has_own_def record_get_def)

lemma example_settled:
  "settleInvocation example_parse None ''policy'' (FetchResponse \<lparr>wr_ok = True, wr_contentLength = Some ''4'',
     wr_body = Some [''text'']\<rparr>) = Inr (answered example_allow)"
proof -
  have "isCanonicalPolicyResult example_allow" by code_simp
  then show ?thesis
    by (simp add: settleInvocation_def example_answer getPluginDispatchFailureCode_def)
      (simp add: example_allow_def has_own_def)
qed

lemma example_worker_runs:
  assumes "denied = 0 \<or> denied = 1"
  shows "example_worker_run (example_evidence denied) =
    (Inr (if denied = 0 then example_allow else policyDenial egress_denied,
          js_get (executionRequest (runRequestOf example_run_request) example_clock (answered example_allow)
            (noEvidence\<lparr>ev_deniedEgressAttempts := denied\<rparr>)) ''execution''),
     [(deriveWorkerId example_sha256 ''2026-01-01'' (runRequestOf example_run_request),
       \<lparr>dw_compatibilityDate = ''2026-01-01'', dw_artifact = ''code'', dw_env = JObj PlainObj [(''KV'', JFun ''kv'')],
        dw_globalOutbound = None\<rparr>)],
     [executionRequest (runRequestOf example_run_request) example_clock (answered example_allow)
        (noEvidence\<lparr>ev_deniedEgressAttempts := denied\<rparr>)])"
proof -
  have t: "rr_hookType (runRequestOf example_run_request) = ''policy''" by (simp add: runRequestOf_def example_run_fields)
  have d: "cf_compatibilityDate (example_caller e) = ''2026-01-01''" "cf_classify (example_caller e) = None"
    "cf_record (example_caller e) = (\<lambda>x w. (Inr (js_get x ''execution''), w @ [x]))" for e by (simp_all add: example_caller_def)
  show ?thesis
    using assms
    by (auto simp: example_worker_run_def runWorker_def example_run_valid invokeWorker_def mem_get_def mem_put_def
        example_code example_fetch_def t d example_settled onSnd_def recordRun_def example_evidence_read
        failureCode_def answered_def noEvidence_def Let_def)
qed

lemma example_recordsOnly: "recordsOnly id (example_caller ev) example_fetch"
  by (simp add: recordsOnly_def example_caller_def example_fetch_def)

text \<open>A run that is answered \<open>allow\<close> is recorded; with a denied egress attempt it is denied.\<close>

theorem runs_recorded_once_witness:
  "\<exists>x. snd (snd (example_worker_run (example_evidence 1))) = [x] \<and> executionField x ''id'' = JStr ''x'' \<and>
     fst (example_worker_run (example_evidence 1)) = Inr (policyDenial egress_denied, js_get x ''execution'')"
proof -
  obtain res c l where r: "example_worker_run (example_evidence 1) = (res, c, l)" by (metis surj_pair)
  show ?thesis
    using runs_recorded_once [OF example_recordsOnly r [unfolded example_worker_run_def]] r
    by (auto simp: example_worker_runs example_run_fields)
qed

theorem policy_runs_fail_closed_witness:
  "isCanonicalPolicyResult example_allow \<and>
     (\<exists>r. fst (invokeWorker mem_get mem_put example_sha256 example_fetch (example_caller (example_evidence 0))
        (runRequestOf example_run_request) (runRequestBody example_run_request) ([], [])) = FetchResponse r \<and>
        readResponseValue example_parse r = Inr example_allow)"
proof -
  obtain ex c l where r: "example_worker_run (example_evidence 0) = (Inr (example_allow, ex), c, l)"
    by (simp add: example_worker_runs)
  show ?thesis
    using policy_runs_fail_closed [OF example_recordsOnly r [unfolded example_worker_run_def]]
    by (simp add: example_run_fields example_run_valid) (auto simp: example_allow_def record_get_def)
qed

theorem accepted_runs_are_recordable_witness:
  "validateRequest (executionRequest (runRequestOf example_run_request) example_clock (answered example_allow)
     (noEvidence\<lparr>ev_deniedEgressAttempts := 1\<rparr>)) = Inr ()"
  by (rule accepted_runs_are_recordable [OF example_run_valid example_evidence_read])
    (simp_all add: example_clock_def)

theorem warm_workers_are_scoped_witness:
  "workerFor example_sha256 (example_caller (example_evidence 0)) (runRequestOf example_run_request)
     \<lparr>dw_compatibilityDate = ''2026-01-01'', dw_artifact = ''code'', dw_env = JObj PlainObj [(''KV'', JFun ''kv'')],
      dw_globalOutbound = None\<rparr>"
proof (rule warm_workers_are_scoped [OF example_run_valid, where ops = "[EvictWorker ''w'', RunWorker example_clock example_run_request]"
      and parseJson = example_parse and fetch = example_fetch and w = "[]"])
  show "CHR 0x00 \<notin> set (cf_compatibilityDate (example_caller (example_evidence 0)))"
    by (simp add: example_caller_def)
  show "inj_on (\<lambda>t. take 32 (example_sha256 t)) (insert (scopeText (example_caller (example_evidence 0)) (runRequestOf example_run_request))
      (opScopes (example_caller (example_evidence 0)) [EvictWorker ''w'', RunWorker example_clock example_run_request]))"
    by (simp add: example_run_valid)
  have "cf_compatibilityDate (example_caller e) = ''2026-01-01''" for e by (simp add: example_caller_def)
  then show "mem_get (fst (workerRun example_sha256 example_parse example_fetch (example_caller (example_evidence 0))
      [EvictWorker ''w'', RunWorker example_clock example_run_request] ([], [])))
     (deriveWorkerId example_sha256 (cf_compatibilityDate (example_caller (example_evidence 0))) (runRequestOf example_run_request)) =
     Some \<lparr>dw_compatibilityDate = ''2026-01-01'', dw_artifact = ''code'', dw_env = JObj PlainObj [(''KV'', JFun ''kv'')],
        dw_globalOutbound = None\<rparr>"
    using example_worker_runs [of 0] unfolding example_worker_run_def
    by (simp add: workerRun_def mem_delete_def mem_get_def)
qed

end
