(* ===== verification/LdRuntimeProperties.thy ===== *)
theory LdRuntimeProperties
  imports LdRuntime LdCallerProperties
begin

text \<open>
  What the runtime of a dynamic worker guarantees whatever the tenant's code does, and what follows
  for a run of the caller over such workers.
\<close>

section \<open>Capability calls\<close>

text \<open>What the runtime started stays in the list, in order; only the flag can be raised.\<close>

definition sameCall :: "tracked_call \<Rightarrow> tracked_call \<Rightarrow> bool" where
  "sameCall c d \<longleftrightarrow> tc_name c = tc_name d \<and> tc_input c = tc_input d \<and> tc_outcome c = tc_outcome d \<and>
     (tc_rejectionHandled c \<longrightarrow> tc_rejectionHandled d)"

definition callsGrow :: "tracked_call list \<Rightarrow> tracked_call list \<Rightarrow> bool" where
  "callsGrow cs ds \<longleftrightarrow> length cs \<le> length ds \<and> (\<forall>i < length cs. sameCall (cs ! i) (ds ! i))"

lemma sameCall_refl [simp]: "sameCall c c"
  by (simp add: sameCall_def)

lemma callsGrow_refl [simp]: "callsGrow cs cs"
  by (simp add: callsGrow_def)

lemma callsGrow_trans: "callsGrow a b \<Longrightarrow> callsGrow b c \<Longrightarrow> callsGrow a c"
  by (auto simp: callsGrow_def sameCall_def)

lemma callsGrow_settled: "callsGrow a b \<Longrightarrow> i < length a \<Longrightarrow> callSettled (a ! i) \<Longrightarrow> callSettled (b ! i)"
  by (auto simp: callsGrow_def sameCall_def callSettled_def)

lemma capability_grows: "callsGrow (rs_calls s) (rs_calls (snd (capability env call x name input s)))"
  by (auto simp: capability_def callsGrow_def nth_append split: prod.splits)

lemma trackUse_grows: "callsGrow (rs_calls s) (rs_calls (trackUse i u s))"
  by (auto simp: trackUse_def callsGrow_def sameCall_def nth_list_update)

lemma awaitCall_grows: "callsGrow (rs_calls s) (rs_calls (snd (awaitCall i s)))"
  by (simp add: awaitCall_def trackUse_grows)

lemma detachedStep_grows: "callsGrow (rs_calls (snd p)) (rs_calls (snd (detachedStep env call x p)))"
proof (cases p)
  case (Pair t s)
  show ?thesis
    unfolding Pair
    using capability_grows [of s] trackUse_grows [of s] awaitCall_grows [of s]
    by (cases t) (simp_all add: split_beta)
qed

lemma detachedSteps_grow: "callsGrow (rs_calls (snd p)) (rs_calls (snd ((detachedStep env call x ^^ n) p)))"
proof (induction n)
  case (Suc n)
  then show ?case using callsGrow_trans detachedStep_grows by (metis funpow.simps(2) comp_apply)
qed simp

lemma drainCalls_grow:
  "drainCalls env call x schedule i (t, s) = (b, s') \<Longrightarrow> callsGrow (rs_calls s) (rs_calls s')"
proof (induction schedule arbitrary: i t s)
  case (Cons n schedule)
  obtain t1 s1 where d: "(detachedStep env call x ^^ n) (t, s) = (t1, s1)" by (metis surj_pair)
  have g: "callsGrow (rs_calls s) (rs_calls s1)" using detachedSteps_grow [where p = "(t, s)" and env = env and call = call and x = x and n = n] d by simp
  show ?case
    using Cons.prems Cons.IH [of "Suc i" t1 s1] d g callsGrow_trans by (auto split: if_splits)
qed auto

lemma drained_settled:
  assumes "drainCalls env call x schedule i (t, s) = (True, s')" "\<forall>j < i. j < length (rs_calls s) \<longrightarrow> callSettled (rs_calls s ! j)"
  shows "list_all callSettled (rs_calls s')"
  using assms
proof (induction schedule arbitrary: i t s)
  case Nil
  then have s: "s' = s" "list_all callSettled (drop i (rs_calls s))" by auto
  have "callSettled (rs_calls s ! j)" if "j < length (rs_calls s)" for j
  proof (cases "j < i")
    case False
    then have "rs_calls s ! j = drop i (rs_calls s) ! (j - i)" "j - i < length (drop i (rs_calls s))"
      using that by simp_all
    then show ?thesis using s(2) by (simp add: list_all_length)
  qed (use Nil.prems(2) that in blast)
  then show ?case using s(1) by (simp add: list_all_length)
next
  case (Cons n schedule)
  obtain t1 s1 where d: "(detachedStep env call x ^^ n) (t, s) = (t1, s1)" by (metis surj_pair)
  have g: "callsGrow (rs_calls s) (rs_calls s1)" using detachedSteps_grow [where p = "(t, s)" and env = env and call = call and x = x and n = n] d by simp
  show ?case
  proof (cases "i < length (rs_calls s)")
    case True
    then have r: "callSettled (rs_calls s1 ! i)" "drainCalls env call x schedule (Suc i) (t1, s1) = (True, s')"
      using Cons.prems(1) d by (auto split: if_splits)
    have "\<forall>j < Suc i. j < length (rs_calls s1) \<longrightarrow> callSettled (rs_calls s1 ! j)"
      using r(1) callsGrow_settled [OF g] Cons.prems(2) True by (metis less_antisym less_trans)
    then show ?thesis using Cons.IH r(2) by blast
  next
    case False
    then show ?thesis using Cons.prems by (auto simp: list_all_length)
  qed
qed

lemma drain_nothing_detached:
  "drainCalls env call x schedule i (Raises, s) = (list_all callSettled (drop i (rs_calls s)), s)"
proof (induction schedule arbitrary: i)
  case (Cons n schedule)
  have stop: "(detachedStep env call x ^^ n) (Raises, s) = (Raises, s)" by (induction n) simp_all
  show ?case
    using Cons.IH [of "Suc i"] stop by (simp add: Cons_nth_drop_Suc [symmetric])
qed simp

section \<open>The answer\<close>

lemma runtimeFetch_Some:
  assumes "runtimeFetch parseJson program call schedule module env verb body w = (Some answer, w')"
  obtains input m e r rest s v s' where
    "verb = ''POST''" "parseJson body = Some input" "runtimeRequestOk input" "module = Some m"
    "entryPoint m (text_of (js_get input ''hookName'')) = Some e"
    "runDispatch env call (text_of (js_get input ''executionId''))
       (program e (text_of (js_get input ''hookName'')) (js_get input ''payload'')) \<lparr>rs_calls = [], rs_world = w\<rparr> = (Some (r, rest), s)"
    "resultOf e (text_of (js_get input ''hookType'')) r = Some v"
    "drainCalls env call (text_of (js_get input ''executionId'')) schedule 0 (rest, s) = (True, s')"
    "losslessJson v" "answer = responseText v" "w' = rs_world s'"
proof -
  note f = assms [unfolded runtimeFetch_def]
  obtain input where 1: "verb = ''POST''" "parseJson body = Some input" "runtimeRequestOk input"
    using f by (auto split: if_splits option.splits)
  obtain m e where 2: "module = Some m" "entryPoint m (text_of (js_get input ''hookName'')) = Some e"
    using f 1 by (cases module) (auto split: option.splits)
  obtain d s where 3: "runDispatch env call (text_of (js_get input ''executionId''))
       (program e (text_of (js_get input ''hookName'')) (js_get input ''payload'')) \<lparr>rs_calls = [], rs_world = w\<rparr> = (d, s)"
    by (metis surj_pair)
  with f 1 2 obtain r rest v where 4: "d = Some (r, rest)" "resultOf e (text_of (js_get input ''hookType'')) r = Some v"
    by (auto simp: Let_def split: option.splits)
  obtain b s' where 5: "drainCalls env call (text_of (js_get input ''executionId'')) schedule 0 (rest, s) = (b, s')"
    by (metis surj_pair)
  have "b" "losslessJson v" "answer = responseText v" "w' = rs_world s'"
    using f 1 2 3 4 5 by (auto simp: Let_def split: if_splits)
  then show thesis using that 1 2 3 4 5 by simp
qed

section \<open>Canonical results\<close>

lemma canonicalFor_fields:
  "canonicalFor t (JObj kind fs) \<longleftrightarrow>
     plainPrototype kind \<and>
     (case t of
        Event \<Rightarrow> length fs = 1 \<and> map_of fs ''status'' = Some (JStr ''accepted'')
      | Transform \<Rightarrow> length fs = 2 \<and> map_of fs ''status'' = Some (JStr ''transformed'') \<and>
          (\<exists>u. map_of fs ''output'' = Some u \<and> u \<noteq> JUndef)
      | Policy \<Rightarrow> length fs = 2 \<and>
          (map_of fs ''decision'' = Some (JStr ''allow'') \<or> map_of fs ''decision'' = Some (JStr ''deny'')) \<and>
          (\<exists>r. map_of fs ''reasonCode'' = Some (JStr r) \<and> reasonCodePattern r))"
proof -
  have own: "k \<in> set (map fst fs) \<longleftrightarrow> (\<exists>v. map_of fs k = Some v)" for k
    by (metis map_of_eq_None_iff not_None_eq set_map)
  have get: "plainPrototype kind \<Longrightarrow> map_of fs k = Some v \<Longrightarrow> js_get (JObj kind fs) k = v" for k v
    by (rule js_get_own)
  show ?thesis
    by (cases t)
      (auto simp: isEventResult_def isTransformResult_def isPolicyResult_def isRecordWithKeys_def own get simp del: set_map
        split: jsval.splits)
qed

lemma canonicalFor_object: "canonicalFor t v \<Longrightarrow> \<exists>kind fs. v = JObj kind fs"
  by (cases t; cases v) (auto simp: isEventResult_def isTransformResult_def isPolicyResult_def isRecordWithKeys_def)

lemma plain_copy_simple [simp]:
  "plain_copy v = JStr s \<longleftrightarrow> v = JStr s" "plain_copy v = JUndef \<longleftrightarrow> v = JUndef" "plain_copy v = JBool b \<longleftrightarrow> v = JBool b"
  by (cases v; simp)+

lemma map_of_copy: "map_of (map (\<lambda>f. (fst f, plain_copy (snd f))) fs) k = map_option plain_copy (map_of fs k)"
  by (induction fs) auto

lemma canonicalFor_copy: "canonicalFor t v \<Longrightarrow> canonicalFor t (plain_copy v)"
proof -
  assume c: "canonicalFor t v"
  then obtain kind fs where v: "v = JObj kind fs" using canonicalFor_object by blast
  show ?thesis
    using c unfolding v plain_copy.simps canonicalFor_fields
    by (cases t) (auto simp: map_of_copy plainPrototype_def)
qed

text \<open>What the runtime lets out for a hook type, once it is lossless.\<close>

definition reportedFailure :: "jsval \<Rightarrow> bool" where
  "reportedFailure v \<longleftrightarrow> (\<exists>kind fs. v = JObj kind fs \<and> map_of fs ''ok'' = Some (JBool False))"

lemma validateRuntimeReturn_canonical:
  assumes "validateRuntimeReturn (hook_type_tag t) v = Some u" "losslessJson u"
  shows "u = v \<and> canonicalFor t v"
proof -
  have u: "u = v" "isRecord v"
    using assms(1) by (auto simp: validateRuntimeReturn_def split: if_splits)
  then obtain kind fs where v: "v = JObj kind fs" "plainPrototype kind"
    using assms(2) by (cases v) (auto simp: plainPrototype_def)
  have own: "has_own (JObj kind fs) k \<longleftrightarrow> (\<exists>v. map_of fs k = Some v)" for k
    by (metis has_own_def own_keys_obj map_of_eq_None_iff not_None_eq set_map)
  have get: "own_value (JObj kind fs) k = map_of fs k" for k by (simp add: own_value_def)
  have "map fst fs = [a] \<Longrightarrow> length fs = 1" for a by (metis length_map length_Cons list.size(3) One_nat_def)
  then show ?thesis
    using assms(1) u v
    by (cases t) (auto simp: validateRuntimeReturn_def canonicalFor_fields own get
        split: if_splits option.splits jsval.splits)
qed

lemma resultOf_canonical:
  assumes "resultOf e (hook_type_tag t) r = Some v" "losslessJson v"
  shows "canonicalFor t v \<or> reportedFailure v"
  using assms validateRuntimeReturn_canonical
  by (auto simp: resultOf_def validatePluginDispatchResult_def reportedFailure_def
      split: entry_point.splits jsval.splits option.splits bool.splits if_splits)

lemma two_keys:
  "length fs = 2 \<Longrightarrow> map_of fs a = Some x \<Longrightarrow> map_of fs b = Some y \<Longrightarrow> a \<noteq> b \<Longrightarrow> c \<noteq> a \<Longrightarrow> c \<noteq> b \<Longrightarrow> c \<notin> set (map fst fs)"
  by (cases fs; cases "tl fs") (auto split: if_splits)

lemma one_key: "length fs = Suc 0 \<Longrightarrow> map_of fs a = Some x \<Longrightarrow> c \<noteq> a \<Longrightarrow> c \<notin> set (map fst fs)"
  by (cases fs) (auto split: if_splits)

lemma canonical_no_failure:
  assumes "canonicalFor t v"
  shows "getPluginDispatchFailureCode v = None"
proof -
  obtain kind fs where v: "v = JObj kind fs" using canonicalFor_object [OF assms] by blast
  have "''ok'' \<notin> set (map fst fs)"
    using assms unfolding v canonicalFor_fields
    by (cases t) (auto simp del: set_map dest: one_key [where c = "''ok''"]
        two_keys [where a = "''status''" and b = "''output''" and c = "''ok''"]
        two_keys [where a = "''decision''" and b = "''reasonCode''" and c = "''ok''"])
  then show ?thesis by (simp add: getPluginDispatchFailureCode_def has_own_def v)
qed

lemma failure_reported:
  assumes "reportedFailure v"
  shows "\<exists>c. getPluginDispatchFailureCode (plain_copy v) = Some c"
proof -
  obtain kind fs where v: "v = JObj kind fs" "map_of fs ''ok'' = Some (JBool False)"
    using assms by (auto simp: reportedFailure_def)
  then have "has_own (plain_copy v) ''ok''"
    by (auto simp: has_own_def image_iff comp_def dest!: map_of_SomeD) (metis fst_conv)
  moreover have "isRecord (plain_copy v)" using v by simp
  ultimately show ?thesis by (simp add: getPluginDispatchFailureCode_def)
qed

lemma policy_canonical: "canonicalFor Policy v \<Longrightarrow> isCanonicalPolicyResult v"
proof -
  assume c: "canonicalFor Policy v"
  then obtain kind fs where v: "v = JObj kind fs" using canonicalFor_object by blast
  show ?thesis using c unfolding v canonicalFor_fields
    by (auto simp: isCanonicalPolicyResult_def plainPrototype_def)
qed

section \<open>Values across the boundary\<close>

text \<open>
  What every JavaScript value satisfies: its numbers are doubles, the keys of an object are distinct
  and in the language's order.
\<close>

fun js_ok :: "(jsnum \<Rightarrow> jsnum) \<Rightarrow> jsval \<Rightarrow> bool" where
  "js_ok nearest (JNum n) = (num_is_finite n \<longrightarrow> num_normal n \<and> nearest n = n)"
| "js_ok nearest (JArr xs) = list_all (js_ok nearest) xs"
| "js_ok nearest (JObj _ fs) =
     (distinct (map fst fs) \<and> key_order fs = fs \<and> list_all (\<lambda>f. js_ok nearest (snd f)) fs)"
| "js_ok nearest _ = True"

lemma lossless_exact: "losslessJson v \<Longrightarrow> js_ok nearest v \<Longrightarrow> json_exact nearest v"
proof (induction v)
  case (JObj kind fs)
  have "json_exact nearest (snd f)" if "f \<in> set fs" for f
  proof -
    have "losslessJson (snd f)" "js_ok nearest (snd f)" using JObj.prems that by (auto simp: list_all_iff)
    then show ?thesis using JObj.IH [of f "snd f"] that by (cases f) simp
  qed
  then show ?case using JObj.prems by (auto simp: list_all_iff)
next
  case (JNum n)
  then show ?case by simp
qed (auto simp: list_all_iff)

lemma responseText_json: "responseText v = serializeJsonValue (JObj PlainObj [(''value'', v)])"
  by (simp add: responseText_def)

lemma parse_response:
  assumes "losslessJson v" "js_ok nearest v"
  shows "parse_json nearest (responseText v) = Some (JObj PlainObj [(''value'', plain_copy v)])"
proof -
  have "key_order [(''value'', v)] = [(''value'', v)]"
    by (simp add: key_order_def array_index_def is_digit_def code_def)
  then show ?thesis
    using parse_json_serialized [of nearest "JObj PlainObj [(''value'', v)]"] lossless_exact [OF assms]
    by (simp add: responseText_json)
qed

text \<open>
  What a platform may make of the worker's answer: it delivers the text in chunks, or the time is
  up, or it fails; it makes no answer of its own.
\<close>

definition delivers :: "(string option \<Rightarrow> fetch_result) \<Rightarrow> bool" where
  "delivers platform \<longleftrightarrow>
     (\<forall>answer. case platform answer of
        FetchResponse p \<Rightarrow> (\<exists>chunks. wr_body p = Some chunks \<and> answer = Some (concat chunks))
      | _ \<Rightarrow> True)"

lemma readBodyChunks_Some: "readBodyChunks cs acc = Some s \<Longrightarrow> s = acc @ concat cs"
  by (induction cs acc rule: readBodyChunks.induct) (auto split: if_splits)

lemma delivered_value:
  assumes "delivers platform" "platform answer = FetchResponse p" "readResponseValue (parse_json nearest) p = Inr u"
    "\<And>t. answer = Some t \<Longrightarrow> t = responseText v" "losslessJson v" "js_ok nearest v"
  shows "u = plain_copy v"
proof -
  obtain chunks where c: "wr_body p = Some chunks" "answer = Some (concat chunks)"
    using assms(1) [unfolded delivers_def, rule_format, of answer] assms(2) by auto
  obtain bytes parsed where b: "readBodyChunks chunks [] = Some bytes" "parse_json nearest bytes = Some parsed"
      "u = js_get parsed ''value''"
    using assms(3) c(1) unfolding readResponseValue_def by (simp split: if_splits option.splits)
  have "bytes = responseText v" using readBodyChunks_Some [OF b(1)] c(2) assms(4) by simp
  then have "parsed = JObj PlainObj [(''value'', plain_copy v)]"
    using b(2) parse_response [OF assms(5,6)] by simp
  then show ?thesis using b(3) by (simp add: record_get_def)
qed

text \<open>A plugin's values are JavaScript values: what its dispatch resolves to.\<close>

primrec tenantReturns :: "(jsval \<Rightarrow> bool) \<Rightarrow> tenant \<Rightarrow> bool" where
  "tenantReturns P (Returns v _) = P v"
| "tenantReturns P Raises = True"
| "tenantReturns P (Calls _ _ k) = (\<forall>h. tenantReturns P (k h))"
| "tenantReturns P (Attaches _ _ t) = tenantReturns P t"
| "tenantReturns P (Awaits _ k) = (\<forall>r. tenantReturns P (k r))"

lemma runDispatch_returns:
  "tenantReturns P t \<Longrightarrow> runDispatch env call x t s = (Some (v, rest), s') \<Longrightarrow> P v"
proof (induction t arbitrary: s)
  case (Calls name input k)
  have "tenantReturns P (k (fst (capability env call x name input s)))" using Calls.prems(1) by simp
  moreover have "runDispatch env call x (k (fst (capability env call x name input s)))
      (snd (capability env call x name input s)) = (Some (v, rest), s')"
    using Calls.prems(2) by (simp add: Let_def)
  ultimately show ?case using Calls.IH by blast
next
  case (Awaits i k)
  have "tenantReturns P (k (fst (awaitCall i s)))" using Awaits.prems(1) by simp
  moreover have "runDispatch env call x (k (fst (awaitCall i s))) (snd (awaitCall i s)) = (Some (v, rest), s')"
    using Awaits.prems(2) by (simp add: Let_def)
  ultimately show ?case using Awaits.IH by blast
qed auto

lemma js_ok_result:
  assumes "resultOf e ty r = Some v" "js_ok nearest r"
  shows "js_ok nearest v"
proof -
  have own: "map_of fs k = Some u \<Longrightarrow> list_all (\<lambda>f. js_ok nearest (snd f)) fs \<Longrightarrow> js_ok nearest u" for fs k u
    by (auto simp: list_all_iff dest!: map_of_SomeD)
  have val: "validateRuntimeReturn ty u = Some v \<Longrightarrow> v = u" for u
    by (auto simp: validateRuntimeReturn_def split: if_splits)
  show ?thesis
  proof (cases e)
    case (Dispatcher f)
    then obtain kind fs where r: "r = JObj kind fs" "v = r \<or> (\<exists>u. map_of fs ''value'' = Some u \<and> validateRuntimeReturn ty u = Some v)"
      using assms(1) by (auto simp: resultOf_def validatePluginDispatchResult_def
          split: jsval.splits option.splits bool.splits if_splits)
    then have "list_all (\<lambda>f. js_ok nearest (snd f)) fs" using assms(2) by simp
    then show ?thesis using r assms(2) own val by metis
  next
    case (LegacyHandler f)
    then show ?thesis using assms val [of r] by (simp add: resultOf_def)
  qed
qed

section \<open>The request\<close>

lemma parse_request:
  assumes "validateRunRequest v = Inr body" "js_ok nearest (js_get v ''payload'')"
  shows "parse_json nearest body = Some (JObj PlainObj
     [(''executionId'', js_get v ''executionId''), (''hookName'', js_get v ''hookName''),
      (''hookType'', js_get v ''hookType''), (''payload'', plain_copy (js_get v ''payload''))])"
proof -
  define o' where "o' = JObj PlainObj
     [(''executionId'', js_get v ''executionId''), (''hookName'', js_get v ''hookName''),
      (''hookType'', js_get v ''hookType''), (''payload'', js_get v ''payload'')]"
  have b: "body = serializeJsonValue o'" "losslessJson (js_get v ''payload'')"
    using assms(1) by (simp_all add: validateRunRequest_def bindE_Inr guardE_simps runRequestBody_def o'_def)
  have strings: "js_get v ''executionId'' = JStr (rr_executionId (runRequestOf v))"
    "js_get v ''hookType'' = JStr (rr_hookType (runRequestOf v))"
    using validateRunRequest_fields [OF assms(1)] by simp_all
  have "isRecordedHookName (js_get v ''hookName'')"
    using assms(1) by (simp add: validateRunRequest_def bindE_Inr guardE_simps)
  then obtain h where h: "js_get v ''hookName'' = JStr h" by (cases "js_get v ''hookName''") auto
  have "array_index k = False" if "k \<in> {''executionId'', ''hookName'', ''hookType'', ''payload''}" for k
    using that by (auto simp: array_index_def is_digit_def code_def)
  then have "key_order [(''executionId'', a), (''hookName'', b), (''hookType'', c), (''payload'', d)] =
      [(''executionId'', a), (''hookName'', b), (''hookType'', c), (''payload'', d)]" for a b c d
    by (simp add: key_order_def)
  then have "json_exact nearest o'"
    using lossless_exact [OF b(2) assms(2)] strings h by (simp add: o'_def)
  then have "parse_json nearest body = Some (plain_copy o')" unfolding b(1) by (rule parse_json_serialized)
  then show ?thesis using strings h by (simp add: o'_def)
qed

section \<open>Workers that run the runtime\<close>

definition runtimeWorker ::
  "(jsnum \<Rightarrow> jsnum) \<Rightarrow> (entry_point \<Rightarrow> string \<Rightarrow> jsval \<Rightarrow> tenant) \<Rightarrow> (string \<Rightarrow> jsval option) \<Rightarrow> 'w capability_call \<Rightarrow>
   nat list \<Rightarrow> (string option \<Rightarrow> fetch_result) \<Rightarrow> DynamicWorkerCode \<Rightarrow> run_request \<Rightarrow> string \<Rightarrow> 'w \<Rightarrow> fetch_result \<times> 'w" where
  "runtimeWorker nearest program moduleOf call schedule platform loaded q body w =
     (case runtimeFetch (parse_json nearest) program call schedule (moduleOf (dw_artifact loaded)) (dw_env loaded)
             ''POST'' body w of
        (answer, w') \<Rightarrow> (platform answer, w'))"

lemma invokeWorker_response:
  assumes "invokeWorker get put sha256 fetch cfg q body s = (FetchResponse p, s')"
  obtains loaded w where "fst (fetch loaded q body w) = FetchResponse p"
  using assms by (auto simp: invokeWorker_def Let_def split: option.splits prod.splits sum.splits) (metis fst_conv)+

lemma recordRun_value:
  assumes "recordRun cfg q clock i w = (Inr (value, execution), w')"
  shows "(\<exists>d. failureCode i d = None \<and> value = is_value i) \<or> (rr_hookType q = ''policy'' \<and> (\<exists>c. value = policyDenial c))"
  using assms by (auto simp: recordRun_def split: prod.splits sum.splits option.splits if_splits)

lemma policyDenial_canonicalFor: "canonicalFor Policy (policyDenial c)"
  by (cases c)
    (simp_all add: policyDenial_def canonicalFor_fields plainPrototype_def reasonCodePattern_def is_lower_def code_def)

lemma runtimeWorker_value:
  assumes "validateRunRequest v = Inr body" "js_ok nearest (js_get v ''payload'')"
    and "delivers platform" "\<forall>e h x. tenantReturns (js_ok nearest) (program e h x)"
    and "fst (runtimeWorker nearest program moduleOf call schedule platform loaded q body w) = FetchResponse p"
    and "readResponseValue (parse_json nearest) p = Inr u"
    and "js_get v ''hookType'' = JStr (hook_type_tag t)"
  shows "canonicalFor t u \<or> (\<exists>c. getPluginDispatchFailureCode u = Some c)"
proof -
  obtain answer w' where f: "runtimeFetch (parse_json nearest) program call schedule (moduleOf (dw_artifact loaded))
      (dw_env loaded) ''POST'' body w = (answer, w')" by (metis surj_pair)
  have p: "platform answer = FetchResponse p" using assms(5) f by (simp add: runtimeWorker_def)
  then obtain a where a: "answer = Some a"
    using assms(3) [unfolded delivers_def, rule_format, of answer] by auto
  obtain input m e r rest s x s' where r:
    "parse_json nearest body = Some input"
    "runDispatch (dw_env loaded) call (text_of (js_get input ''executionId''))
       (program e (text_of (js_get input ''hookName'')) (js_get input ''payload'')) \<lparr>rs_calls = [], rs_world = w\<rparr> = (Some (r, rest), s)"
    "resultOf e (text_of (js_get input ''hookType'')) r = Some x" "losslessJson x" "a = responseText x"
    using f [unfolded a] by (rule runtimeFetch_Some) blast
  have "js_get input ''hookType'' = js_get v ''hookType''"
    using r(1) [unfolded parse_request [OF assms(1,2)]] by (auto simp: record_get_def)
  then have "text_of (js_get input ''hookType'') = hook_type_tag t" using assms(7) by simp
  then have "canonicalFor t x \<or> reportedFailure x" using resultOf_canonical r(3,4) by simp
  moreover have "js_ok nearest x"
    using js_ok_result [OF r(3)] runDispatch_returns [OF _ r(2)] assms(4) by blast
  then have "u = plain_copy x" using delivered_value [OF assms(3) p assms(6)] r(4,5) a by simp
  ultimately show ?thesis using canonicalFor_copy failure_reported by auto
qed



lemma request_reaches_runtime:
  assumes "validateRunRequest v = Inr body" "js_ok nearest (js_get v ''payload'')"
  obtains input where "parse_json nearest body = Some input" "runtimeRequestOk input"
    "\<forall>k \<in> {''executionId'', ''hookName'', ''hookType''}. js_get input k = js_get v k"
    "js_get input ''payload'' = plain_copy (js_get v ''payload'')"
proof -
  have strings: "is_string (js_get v ''executionId'')" "is_string (js_get v ''hookName'')"
    using validateRunRequest_fields [OF assms(1)] assms(1)
    by (auto simp: validateRunRequest_def bindE_Inr guardE_simps elim: isRecordedHookName.elims)
  obtain t where "js_get v ''hookType'' = JStr (hook_type_tag t)"
    using validateRunRequest_fields [OF assms(1)] isHookType_tag by auto
  then have "js_get v ''hookType'' \<in> {JStr ''event'', JStr ''transform'', JStr ''policy''}"
    by (cases t) simp_all
  then show thesis
    using that [OF parse_request [OF assms]] strings
    by (simp add: runtimeRequestOk_def record_get_def has_own_def)
qed

text \<open>
  C22: Values cross the boundary of a worker unchanged. The runtime parses the body of an accepted
  run to the execution, hook and payload the host authorized, and accepts it; and the text it
  answers for a value is parsed by the host to that value, up to the prototypes of its objects.
\<close>

theorem worker_values_roundtrip:
  assumes "validateRunRequest v = Inr body" "js_ok nearest (js_get v ''payload'')" "losslessJson u" "js_ok nearest u"
  shows "(\<exists>input. parse_json nearest body = Some input \<and> runtimeRequestOk input \<and>
      (\<forall>k \<in> {''executionId'', ''hookName'', ''hookType''}. js_get input k = js_get v k) \<and>
      js_get input ''payload'' = plain_copy (js_get v ''payload'')) \<and>
    parse_json nearest (responseText u) = Some (JObj PlainObj [(''value'', plain_copy u)])"
  using request_reaches_runtime [OF assms(1,2)] parse_response [OF assms(3,4)] by metis

section \<open>Concrete workers\<close>

text \<open>The world is the list of names of the capabilities that were called; they all succeed.\<close>

definition example_capability :: "string list capability_call" where
  "example_capability executionId name input w = (Some JNull, w @ [name])"

definition example_env :: jsval where
  "example_env = JObj PlainObj [(''CAPABILITIES'', JObj PlainObj [(''call'', JFun ''call'')])]"

definition example_module :: jsval where
  "example_module = JObj NullProto [(''plugin'', JObj PlainObj [(''dispatch'', JFun ''dispatch'')])]"

text \<open>A plugin that awaits one call, returns, and starts another call afterwards.\<close>

definition example_program :: "jsval \<Rightarrow> entry_point \<Rightarrow> string \<Rightarrow> jsval \<Rightarrow> tenant" where
  "example_program result e hookName payload =
     Calls ''kv'' payload (\<lambda>_. Awaits 0 (\<lambda>_.
       Returns (JObj PlainObj [(''ok'', JBool True), (''value'', result)]) (Calls ''late'' payload (\<lambda>_. Raises))))"

definition example_input :: jsval where
  "example_input = JObj PlainObj
     [(''executionId'', JStr ''x''), (''hookName'', JStr ''h''), (''hookType'', JStr ''policy''), (''payload'', JNull)]"

lemma example_allow_ok: "js_ok id example_allow" "losslessJson example_allow"
  by (simp_all add: example_allow_def key_order_def array_index_def is_digit_def code_def)

lemma example_entry: "entryPoint example_module h = Some (Dispatcher (JFun ''dispatch''))"
  by (simp add: example_module_def entryPoint_def pluginExport_def Let_def nullish_def hasDispatch_def isObject_def
      record_get_def)

lemma example_result:
  "resultOf (Dispatcher f) ''policy'' (JObj PlainObj [(''ok'', JBool True), (''value'', example_allow)]) = Some example_allow"
proof -
  have "reasonCodePattern ''ok''" by code_simp
  then show ?thesis
    by (simp add: resultOf_def validatePluginDispatchResult_def plainPrototype_def validateRuntimeReturn_def
        example_allow_def own_value_def)
qed

lemma example_runtime:
  assumes "parseJson body = Some input" "runtimeRequestOk input" "js_get input ''hookType'' = JStr ''policy''"
  shows "runtimeFetch parseJson (example_program example_allow) example_capability [1] (Some example_module) example_env ''POST'' body []
     = (Some (responseText example_allow), [''kv'', ''late''])"
proof -
  have b: "bindingCallable example_env"
    by (simp add: bindingCallable_def example_env_def record_get_def Let_def)
  show ?thesis
    using assms
    by (simp add: runtimeFetch_def example_entry example_program_def capability_def b example_capability_def Let_def
        awaitCall_def trackUse_def attachesHandler_def example_result callSettled_def example_allow_ok)
qed


definition example_platform :: "string option \<Rightarrow> fetch_result" where
  "example_platform answer =
     (case answer of
        None \<Rightarrow> FetchTimedOut
      | Some t \<Rightarrow> FetchResponse \<lparr>wr_ok = True, wr_contentLength = None, wr_body = Some [t]\<rparr>)"

lemma example_platform_delivers: "delivers example_platform"
  by (auto simp: delivers_def example_platform_def split: option.splits)

lemma example_program_returns: "js_ok id v \<Longrightarrow> tenantReturns (js_ok id) (example_program v e h x)"
  by (simp add: example_program_def key_order_def array_index_def is_digit_def code_def)

theorem worker_values_roundtrip_witness:
  "(\<exists>input. parse_json id (runRequestBody example_run_request) = Some input \<and> runtimeRequestOk input \<and>
      js_get input ''payload'' = JNull) \<and>
   parse_json id (responseText example_allow) = Some (JObj PlainObj [(''value'', example_allow)])"
proof -
  have copy: "plain_copy example_allow = example_allow" by (simp add: example_allow_def)
  obtain input where "parse_json id (runRequestBody example_run_request) = Some input" "runtimeRequestOk input"
    "js_get input ''payload'' = plain_copy (js_get example_run_request ''payload'')"
    using worker_values_roundtrip [OF example_run_valid _ example_allow_ok(2,1)]
    by (auto simp: example_run_fields)
  then show ?thesis
    using worker_values_roundtrip [OF example_run_valid _ example_allow_ok(2,1)] copy
    by (simp add: example_run_fields)
qed

text \<open>The same plugin in a run of the caller, whose scope has no capability binding.\<close>

definition example_worker :: "DynamicWorkerCode \<Rightarrow> run_request \<Rightarrow> string \<Rightarrow> 'w \<Rightarrow> fetch_result \<times> 'w" where
  "example_worker = runtimeWorker id (example_program example_allow) (\<lambda>_. Some example_module) (\<lambda>_ _ _ w. (Some JNull, w))
     [1] example_platform"

lemma example_worker_answer:
  "example_worker \<lparr>dw_compatibilityDate = d, dw_artifact = a, dw_env = JObj PlainObj [(''KV'', JFun ''kv'')],
      dw_globalOutbound = None\<rparr> q (runRequestBody example_run_request) w =
     (example_platform (Some (responseText example_allow)), w)"
proof -
  obtain input where input: "parse_json id (runRequestBody example_run_request) = Some input" "runtimeRequestOk input"
    "js_get input ''hookType'' = JStr ''policy''"
    using request_reaches_runtime [OF example_run_valid, of id] by (auto simp: example_run_fields)
  have "\<not> bindingCallable (JObj PlainObj [(''KV'', JFun ''kv'')])"
    by (simp add: bindingCallable_def record_get_def inherited_value_def object_prototype_keys_def)
  then show ?thesis
    using input
    by (simp add: example_worker_def runtimeWorker_def runtimeFetch_def example_entry example_program_def capability_def Let_def
        awaitCall_def example_result callSettled_def example_allow_ok)
qed

lemma example_worker_value:
  "readResponseValue (parse_json id) \<lparr>wr_ok = True, wr_contentLength = None, wr_body = Some [responseText example_allow]\<rparr> =
     Inr example_allow"
proof -
  have "length (responseText example_allow) \<le> max_dynamic_worker_bytes"
    by (simp add: responseText_def example_allow_def json_quote_def json_escape_def code_def max_dynamic_worker_bytes_def)
  moreover have "plain_copy example_allow = example_allow" by (simp add: example_allow_def)
  ultimately show ?thesis
    using parse_response [OF example_allow_ok(2,1)]
    by (simp add: readResponseValue_def declaredLengthOk_def has_own_def record_get_def)
qed


end
