(* ===== verification/LdLocal.thy ===== *)
theory LdLocal
  imports LdRuntime
begin

text \<open>
  \<open>packages/loader/src/index.ts\<close>, the local runner behind \<open>plugin dev\<close>, \<open>plugin replay\<close> and approval
  continuations: a supervisor that starts a worker thread, listens to its messages, timers and end
  and settles one promise; and the program of that thread, \<open>RUNTIME_WORKER_SOURCE\<close>, which runs the
  plugin in a sandbox, counts its subrequests and checks its result.

  Both are state machines over the events they receive, so every order of messages, timers and
  sandbox actions is a list of events. The thread, its sandbox and the clock are the environment;
  messages are unknown values to the supervisor. The sandbox's own \<open>URL\<close> classes are not modelled.
\<close>

section \<open>Errors and limits\<close>

datatype runtime_error =
    ScopedRuntimeTimeoutError
  | ScopedRuntimeLimitError string "jsval list"
  | ScopedRuntimeError string
  | ScopedRuntimeInputError

type_synonym runtime_result = "(runtime_error, jsval \<times> jsval list) outcome"

record runtime_limits =
  rl_timeoutMs :: int
  rl_maxSubrequests :: "int option"   \<comment> \<open>\<open>None\<close>: infinity\<close>
  rl_memoryMb :: int

definition safe_at_least :: "int \<Rightarrow> jsnum \<Rightarrow> (runtime_error, int) outcome" where
  "safe_at_least low n =
     (case n of NInt i \<Rightarrow> if is_safe_integer i \<and> low \<le> i then Inr i else Inl ScopedRuntimeInputError
      | _ \<Rightarrow> Inl ScopedRuntimeInputError)"

definition normalizeLimits :: "jsnum option \<Rightarrow> jsnum option \<Rightarrow> jsnum option \<Rightarrow> (runtime_error, runtime_limits) outcome" where
  "normalizeLimits timeoutMs maxSubrequests memoryMb =
     (let t = (case timeoutMs of None \<Rightarrow> NInt 250 | Some n \<Rightarrow> n);
          m = (case maxSubrequests of None \<Rightarrow> PosInf | Some n \<Rightarrow> n);
          b = (case memoryMb of None \<Rightarrow> NInt 128 | Some n \<Rightarrow> n)
      in bindE (safe_at_least 1 t) (\<lambda>t.
         bindE (if m = PosInf then Inr None else bindE (safe_at_least 0 m) (\<lambda>m. Inr (Some m))) (\<lambda>m.
         bindE (safe_at_least 8 b) (\<lambda>b.
         Inr \<lparr>rl_timeoutMs = t, rl_maxSubrequests = m, rl_memoryMb = b\<rparr>))))"

section \<open>Messages\<close>

definition typeMessage :: "string \<Rightarrow> (string \<times> jsval) list \<Rightarrow> jsval" where
  "typeMessage ty fs = JObj PlainObj ((''type'', JStr ty) # fs)"

fun isArray :: "jsval \<Rightarrow> bool" where
  "isArray (JArr _) \<longleftrightarrow> True"
| "isArray _ \<longleftrightarrow> False"

definition isSerializedRuntimeError :: "jsval \<Rightarrow> bool" where
  "isSerializedRuntimeError v \<longleftrightarrow>
     isRecord v \<and> isHookErrorCode (js_get v ''code'') \<and>
     (js_get v ''logs'' = JUndef \<or> isArray (js_get v ''logs''))"

definition isRuntimeWorkerMessage :: "jsval \<Rightarrow> bool" where
  "isRuntimeWorkerMessage v \<longleftrightarrow>
     isRecord v \<and> is_string (js_get v ''type'') \<and>
     (if js_get v ''type'' = JStr ''capability''
      then js_typeof (js_get v ''id'') = ''number'' \<and> is_string (js_get v ''name'') \<and> has_own v ''input''
      else if js_get v ''type'' = JStr ''error'' then isSerializedRuntimeError (js_get v ''error'')
      else js_get v ''type'' = JStr ''started'' \<or>
           (js_get v ''type'' = JStr ''result'' \<and> isArray (js_get v ''logs'')))"

definition items_of :: "jsval \<Rightarrow> jsval list" where
  "items_of v = (case v of JArr xs \<Rightarrow> xs | _ \<Rightarrow> [])"

definition deserializeRuntimeError :: "jsval \<Rightarrow> runtime_error" where
  "deserializeRuntimeError e =
     (let c = js_get e ''code'' in
      if c = JStr ''plugin_timeout'' \<or> js_get e ''executionStatus'' = JStr ''timeout'' then ScopedRuntimeTimeoutError
      else if js_get e ''executionStatus'' = JStr ''budget_exceeded'' then
        ScopedRuntimeLimitError
          (if c = JStr ''plugin_memory_exceeded'' then ''plugin_memory_exceeded'' else ''plugin_subrequest_exceeded'')
          (items_of (js_get e ''logs''))
      else ScopedRuntimeError (text_of c))"

text \<open>An unknown error of a capability adapter, as the worker is told.\<close>

definition serializeUnknownError :: "jsval \<Rightarrow> jsval" where
  "serializeUnknownError e =
     JObj PlainObj [(''code'', if isRecord e \<and> isHookErrorCode (js_get e ''code'') then js_get e ''code''
                             else JStr ''capability_failed'')]"

section \<open>The supervisor\<close>

text \<open>\<open>capability(name, input)\<close> of the run's context: it raises a value or resolves to one.\<close>

type_synonym 'w local_capability = "string \<Rightarrow> jsval \<Rightarrow> 'w \<Rightarrow> (jsval, jsval) outcome \<times> 'w"

record 'w supervisor =
  sv_settled :: "runtime_result option"
  sv_startupTimer :: bool
  sv_handlerTimer :: bool
  sv_terminated :: bool
  sv_inFlight :: "(jsval \<times> (jsval, jsval) outcome) list"
  sv_posted :: "jsval list"
  sv_world :: 'w

datatype supervisor_event =
    Message jsval
  | WorkerFailed bool   \<comment> \<open>out of memory?\<close>
  | WorkerExit int
  | StartupTimeout
  | HandlerTimeout
  | CapabilitySettles nat

definition supervisorStart :: "'w \<Rightarrow> 'w supervisor" where
  "supervisorStart w =
     \<lparr>sv_settled = None, sv_startupTimer = True, sv_handlerTimer = False, sv_terminated = False, sv_inFlight = [],
      sv_posted = [], sv_world = w\<rparr>"

text \<open>\<open>finishResolve\<close> and \<open>finishReject\<close>: the first one wins.\<close>

definition finish :: "runtime_result \<Rightarrow> 'w supervisor \<Rightarrow> 'w supervisor" where
  "finish r s =
     (if sv_settled s \<noteq> None then s
      else s\<lparr>sv_settled := Some r, sv_startupTimer := False, sv_handlerTimer := False, sv_terminated := True\<rparr>)"

definition handleCapabilityRequest :: "'w local_capability \<Rightarrow> jsval \<Rightarrow> 'w supervisor \<Rightarrow> 'w supervisor" where
  "handleCapabilityRequest call m s =
     (case call (text_of (js_get m ''name'')) (js_get m ''input'') (sv_world s) of
        (r, w) \<Rightarrow> s\<lparr>sv_inFlight := sv_inFlight s @ [(js_get m ''id'', r)], sv_world := w\<rparr>)"

definition capabilityReply :: "jsval \<Rightarrow> (jsval, jsval) outcome \<Rightarrow> jsval" where
  "capabilityReply i r =
     (case r of
        Inr v \<Rightarrow>
          if losslessJson v then typeMessage ''capabilityResult'' [(''id'', i), (''value'', v)]
          else typeMessage ''capabilityError'' [(''id'', i), (''error'', JObj PlainObj [(''code'', JStr ''input_invalid'')])]
      | Inl e \<Rightarrow> typeMessage ''capabilityError'' [(''id'', i), (''error'', serializeUnknownError e)])"

definition onWorkerMessage :: "'w local_capability \<Rightarrow> jsval \<Rightarrow> 'w supervisor \<Rightarrow> 'w supervisor" where
  "onWorkerMessage call m s =
     (if \<not> isRuntimeWorkerMessage m then finish (Inl (ScopedRuntimeError ''runtime_unavailable'')) s
      else if js_get m ''type'' = JStr ''started'' then s\<lparr>sv_startupTimer := False, sv_handlerTimer := True\<rparr>
      else if js_get m ''type'' = JStr ''capability'' then handleCapabilityRequest call m s
      else if js_get m ''type'' = JStr ''error'' then finish (Inl (deserializeRuntimeError (js_get m ''error''))) s
      else finish (Inr (js_get m ''value'', items_of (js_get m ''logs''))) s)"

fun supervisorStep :: "'w local_capability \<Rightarrow> 'w supervisor \<Rightarrow> supervisor_event \<Rightarrow> 'w supervisor" where
  "supervisorStep call s (Message m) = onWorkerMessage call m s"
| "supervisorStep call s (WorkerFailed outOfMemory) =
     finish (Inl (if outOfMemory then ScopedRuntimeLimitError ''plugin_memory_exceeded'' []
                  else ScopedRuntimeError ''runtime_unavailable'')) s"
| "supervisorStep call s (WorkerExit status) =
     (if sv_settled s = None \<and> status \<noteq> 0 then finish (Inl (ScopedRuntimeError ''runtime_unavailable'')) s else s)"
| "supervisorStep call s StartupTimeout =
     (if sv_startupTimer s then finish (Inl (ScopedRuntimeError ''runtime_unavailable'')) (s\<lparr>sv_startupTimer := False\<rparr>) else s)"
| "supervisorStep call s HandlerTimeout =
     (if sv_handlerTimer s then finish (Inl ScopedRuntimeTimeoutError) (s\<lparr>sv_handlerTimer := False\<rparr>) else s)"
| "supervisorStep call s (CapabilitySettles i) =
     (if i < length (sv_inFlight s) \<and> sv_settled s = None
      then s\<lparr>sv_posted := sv_posted s @ [capabilityReply (fst (sv_inFlight s ! i)) (snd (sv_inFlight s ! i))]\<rparr>
      else s)"

definition supervise :: "'w local_capability \<Rightarrow> supervisor_event list \<Rightarrow> 'w \<Rightarrow> 'w supervisor" where
  "supervise call events w = foldl (supervisorStep call) (supervisorStart w) events"

text \<open>\<open>None\<close>: the promise is still pending after these events.\<close>

definition runHandlerInWorker ::
  "'w local_capability \<Rightarrow> jsval \<Rightarrow> bool \<Rightarrow> supervisor_event list \<Rightarrow> 'w \<Rightarrow> runtime_result option \<times> 'w" where
  "runHandlerInWorker call payload workerCreated events w =
     (if \<not> losslessJson payload then (Some (Inl ScopedRuntimeInputError), w)
      else if \<not> workerCreated then (Some (Inl (ScopedRuntimeError ''runtime_unavailable'')), w)
      else let s = supervise call events w in (sv_settled s, sv_world s))"

section \<open>Running a handler or a plugin\<close>

text \<open>The optional limits of a request: time, subrequests and memory.\<close>

type_synonym requested_limits = "jsnum option \<times> jsnum option \<times> jsnum option"

definition policyDenyResult :: "string \<Rightarrow> jsval list \<Rightarrow> jsval \<times> jsval list" where
  "policyDenyResult reasonCode logs =
     (JObj PlainObj [(''ok'', JBool True),
        (''value'', JObj PlainObj [(''decision'', JStr ''deny''), (''reasonCode'', JStr reasonCode)])], logs)"

definition normalizeLocalPolicyResult :: "jsval \<times> jsval list \<Rightarrow> jsval \<times> jsval list" where
  "normalizeLocalPolicyResult r =
     (let v = fst r; e = js_get v ''error'' in
      if \<not> isRecord v \<or> js_get v ''ok'' \<noteq> JBool False \<or> \<not> isRecord e then r
      else let c = js_get e ''code'' in
        if \<not> isHookErrorCode c \<or> c = JStr ''input_invalid'' then policyDenyResult ''plugin_result_invalid'' (snd r)
        else policyDenyResult (text_of c) (snd r))"

fun policyFailureCode :: "runtime_error \<Rightarrow> string" where
  "policyFailureCode ScopedRuntimeTimeoutError = ''plugin_timeout''"
| "policyFailureCode (ScopedRuntimeLimitError c _) = c"
| "policyFailureCode (ScopedRuntimeError c) = c"
| "policyFailureCode ScopedRuntimeInputError = ''input_invalid''"

fun policyFailureLogs :: "runtime_error \<Rightarrow> jsval list" where
  "policyFailureLogs (ScopedRuntimeLimitError _ logs) = logs"
| "policyFailureLogs _ = []"

definition settlePolicy :: "runtime_result \<Rightarrow> runtime_result" where
  "settlePolicy r =
     (case r of
        Inr v \<Rightarrow> Inr (normalizeLocalPolicyResult v)
      | Inl ScopedRuntimeInputError \<Rightarrow> Inl ScopedRuntimeInputError
      | Inl e \<Rightarrow>
          Inr (policyDenyResult
                 (if policyFailureCode e = ''input_invalid'' then ''plugin_result_invalid'' else policyFailureCode e)
                 (policyFailureLogs e)))"

definition runScopedPluginDispatch ::
  "'w local_capability \<Rightarrow> string \<Rightarrow> jsval \<Rightarrow> jsval \<Rightarrow> requested_limits \<Rightarrow> bool \<Rightarrow>
   supervisor_event list \<Rightarrow> 'w \<Rightarrow> runtime_result option \<times> 'w" where
  "runScopedPluginDispatch call hookName hookType payload limits workerCreated events w =
     (if \<not> isHookType hookType \<or> (hookName = ''webhook.outbound'' \<and> hookType \<noteq> JStr ''transform'')
      then (Some (Inl ScopedRuntimeInputError), w)
      else (case limits of (t, m, b) \<Rightarrow> case normalizeLimits t m b of
         Inl e \<Rightarrow> (Some (Inl e), w)
       | Inr _ \<Rightarrow>
           (case runHandlerInWorker call payload workerCreated events w of
              (r, w') \<Rightarrow> (if hookType = JStr ''policy'' then map_option settlePolicy r else r, w'))))"

definition runScopedHandler ::
  "'w local_capability \<Rightarrow> jsval \<Rightarrow> requested_limits \<Rightarrow> bool \<Rightarrow> supervisor_event list \<Rightarrow> 'w \<Rightarrow>
   runtime_result option \<times> 'w" where
  "runScopedHandler call payload limits workerCreated events w =
     (case limits of (t, m, b) \<Rightarrow> case normalizeLimits t m b of
        Inl e \<Rightarrow> (Some (Inl e), w)
      | Inr _ \<Rightarrow> runHandlerInWorker call payload workerCreated events w)"

text \<open>The continuation of an approval: the record of the run, when the handler succeeds.\<close>

record continuation_approval =
  ca_tenantId :: string
  ca_pluginId :: string
  ca_resumeHook :: string

definition runApprovalContinuation ::
  "string \<Rightarrow> (continuation_approval \<Rightarrow> string) \<Rightarrow> continuation_approval \<Rightarrow> int \<Rightarrow> int \<Rightarrow> runtime_result \<Rightarrow>
   (runtime_error, jsval) outcome" where
  "runApprovalContinuation version generateExecutionId approval startedAt finishedAt r =
     bindE r (\<lambda>_. Inr (JObj PlainObj
       [(''id'', JStr (generateExecutionId approval)), (''tenantId'', JStr (ca_tenantId approval)),
        (''pluginId'', JStr (ca_pluginId approval)), (''hookName'', JStr (ca_resumeHook approval)),
        (''version'', JStr version), (''status'', JStr ''success''),
        (''durationMs'', JNum (NInt (max 0 (finishedAt - startedAt)))), (''capabilityCalls'', JArr []),
        (''createdAt'', JDate (Some startedAt))]))"

end
