(* ===== verification/LdLocalWorker.thy ===== *)
theory LdLocalWorker
  imports LdLocal
begin

text \<open>
  The program of the local worker thread (\<open>RUNTIME_WORKER_SOURCE\<close> of
  \<open>packages/loader/src/index.ts\<close>): it evaluates the bundle, counts what the sandbox asks for, relays
  capability calls to the supervisor, and posts one result or one error. What the plugin does is the
  environment: an event for each thing it can do.
\<close>

datatype entrypoint = HandlerEntry | DispatchEntry

record local_worker =
  lw_logs :: "jsval list"
  lw_subrequests :: nat
  lw_nextCapabilityId :: nat
  lw_pending :: "nat list"
  lw_started :: bool
  lw_finished :: bool
  lw_out :: "jsval list"

definition workerStart :: local_worker where
  "workerStart =
     \<lparr>lw_logs = [], lw_subrequests = 0, lw_nextCapabilityId = 1, lw_pending = [], lw_started = False,
      lw_finished = False, lw_out = []\<rparr>"

definition postMessage :: "jsval \<Rightarrow> local_worker \<Rightarrow> local_worker" where
  "postMessage m s = s\<lparr>lw_out := lw_out s @ [m]\<rparr>"

section \<open>Errors\<close>

text \<open>What \<open>run\<close> can reject with: the worker's own time-out, or a thrown value.\<close>

datatype run_error = RunTimeout | Thrown jsval

definition error_object :: "string \<Rightarrow> (string \<times> jsval) list \<Rightarrow> jsval" where
  "error_object message fs = JObj ForeignProto ((''message'', JStr message) # fs)"

definition isVmTimeout :: "jsval \<Rightarrow> bool" where
  "isVmTimeout e \<longleftrightarrow>
     isRecord e \<and> is_string (js_get e ''message'') \<and> str_includes (text_of (js_get e ''message'')) ''Script execution timed out''"

definition thrown_by_sandbox :: "jsval \<Rightarrow> run_error" where
  "thrown_by_sandbox e = (if isVmTimeout e then RunTimeout else Thrown e)"

definition serializeError :: "run_error \<Rightarrow> jsval" where
  "serializeError e =
     (case e of
        RunTimeout \<Rightarrow> JObj PlainObj [(''code'', JStr ''plugin_timeout''), (''executionStatus'', JStr ''timeout'')]
      | Thrown v \<Rightarrow>
          let budget = (isRecord v \<and> js_get v ''executionStatus'' = JStr ''budget_exceeded'');
              fields = [(''executionStatus'', JStr ''budget_exceeded''), (''logs'', js_get v ''logs'')]
          in if isRecord v \<and> isHookErrorCode (js_get v ''code'') then
               JObj PlainObj ((''code'', js_get v ''code'') # (if budget then fields else []))
             else if budget \<and> isArray (js_get v ''logs'') then
               JObj PlainObj ((''code'', JStr ''plugin_subrequest_exceeded'') # fields)
             else JObj PlainObj [(''code'', JStr ''plugin_result_invalid'')])"

section \<open>Subrequests\<close>

definition runtimeLog :: "string \<Rightarrow> string \<Rightarrow> jsval" where
  "runtimeLog reason target = JObj PlainObj [(''reason'', JStr reason), (''target'', JStr target)]"

text \<open>\<open>True\<close>: the subrequest is within the limit.\<close>

definition countSubrequest :: "runtime_limits \<Rightarrow> string \<Rightarrow> local_worker \<Rightarrow> bool \<times> local_worker" where
  "countSubrequest limits target s =
     (let n = Suc (lw_subrequests s); s' = s\<lparr>lw_subrequests := n\<rparr> in
      case rl_maxSubrequests limits of
        None \<Rightarrow> (True, s')
      | Some m \<Rightarrow> if m < int n
                  then (False, s'\<lparr>lw_logs := lw_logs s @ [runtimeLog ''subrequest_limit_exceeded'' target]\<rparr>)
                  else (True, s'))"

text \<open>\<open>fetch\<close> always rejects, with the limit error or the denial.\<close>

definition denyFetch :: "runtime_limits \<Rightarrow> string \<Rightarrow> local_worker \<Rightarrow> local_worker" where
  "denyFetch limits target s =
     (case countSubrequest limits (''fetch:'' @ target) s of
        (within, s') \<Rightarrow> if within then s'\<lparr>lw_logs := lw_logs s' @ [runtimeLog ''egress_denied'' target]\<rparr> else s')"

definition capabilityMessage :: "nat \<Rightarrow> string \<Rightarrow> jsval \<Rightarrow> jsval" where
  "capabilityMessage i name input =
     typeMessage ''capability'' [(''id'', JNum (NInt (int i))), (''name'', JStr name), (''input'', input)]"

definition callParentCapability :: "runtime_limits \<Rightarrow> string \<Rightarrow> jsval \<Rightarrow> local_worker \<Rightarrow> local_worker" where
  "callParentCapability limits name input s =
     (case countSubrequest limits (''capability:'' @ name) s of
        (within, s') \<Rightarrow>
          if \<not> within then s'
          else let i = lw_nextCapabilityId s' in
            postMessage (capabilityMessage i name input)
              (s'\<lparr>lw_nextCapabilityId := Suc i, lw_pending := lw_pending s' @ [i]\<rparr>))"

text \<open>\<open>context.capability(name, input)\<close> of the sandbox: the input crosses as JSON.\<close>

definition sandboxCapability :: "runtime_limits \<Rightarrow> string \<Rightarrow> jsval \<Rightarrow> local_worker \<Rightarrow> local_worker" where
  "sandboxCapability limits name input s =
     (if losslessJson input then callParentCapability limits name (plain_copy input) s else s)"

definition onParentMessage :: "jsval \<Rightarrow> local_worker \<Rightarrow> local_worker" where
  "onParentMessage m s =
     (if js_get m ''type'' = JStr ''capabilityResult'' \<or> js_get m ''type'' = JStr ''capabilityError''
      then s\<lparr>lw_pending := filter (\<lambda>i. js_get m ''id'' \<noteq> JNum (NInt (int i))) (lw_pending s)\<rparr>
      else s)"

section \<open>The bundle and its entry point\<close>

datatype bundle_run = BundleThrows jsval | BundleExports jsval

definition assertEntrypointExists :: "jsval \<Rightarrow> string \<Rightarrow> entrypoint \<Rightarrow> bool" where
  "assertEntrypointExists exported handlerName entry =
     (case entry of
        DispatchEntry \<Rightarrow>
          isRecord exported \<and>
          (let p = coalesceJs [js_get exported ''plugin'', js_get exported ''default'', exported]
           in isRecord p \<and> js_is_function (js_get p ''dispatch''))
      | HandlerEntry \<Rightarrow>
          isRecord exported \<and> isRecord (js_get exported ''handlers'') \<and>
          js_is_function (js_get (js_get exported ''handlers'') handlerName))"

definition artifactError :: jsval where
  "artifactError = error_object ''plugin_artifact_invalid'' [(''code'', JStr ''plugin_artifact_invalid'')]"

definition errorMessage :: "run_error \<Rightarrow> jsval" where
  "errorMessage e = typeMessage ''error'' [(''error'', serializeError e)]"

definition failRun :: "run_error \<Rightarrow> local_worker \<Rightarrow> local_worker" where
  "failRun e s = postMessage (errorMessage e) (s\<lparr>lw_finished := True\<rparr>)"

definition bundleError :: "jsval \<Rightarrow> run_error" where
  "bundleError e =
     (if isVmTimeout e then RunTimeout
      else if optional_get e ''code'' = JStr ''plugin_timeout'' then Thrown e
      else Thrown artifactError)"

definition startRun :: "bundle_run \<Rightarrow> string \<Rightarrow> entrypoint \<Rightarrow> local_worker \<Rightarrow> local_worker" where
  "startRun bundle handlerName entry s =
     (case bundle of
        BundleThrows e \<Rightarrow> failRun (bundleError e) s
      | BundleExports m \<Rightarrow>
          if \<not> assertEntrypointExists m handlerName entry then failRun (Thrown artifactError) s
          else postMessage (typeMessage ''started'' []) (s\<lparr>lw_started := True\<rparr>))"

section \<open>The result\<close>

definition isPlainRecord :: "jsval \<Rightarrow> bool" where
  "isPlainRecord v = (case v of JObj kind _ \<Rightarrow> kind \<noteq> ForeignProto | _ \<Rightarrow> False)"

text \<open>\<open>descriptorValue\<close>: an own property, else \<open>undefined\<close>.\<close>

definition descriptorValue :: "jsval \<Rightarrow> string \<Rightarrow> jsval" where
  "descriptorValue v k = (case map_of (own_entries v) k of Some x \<Rightarrow> x | None \<Rightarrow> JUndef)"

definition canonicalPluginErrorCodes :: "jsval list" where
  "canonicalPluginErrorCodes = [JStr ''plugin_artifact_invalid'', JStr ''plugin_result_invalid'']"

definition validateCanonicalHookResult :: "jsval \<Rightarrow> jsval \<Rightarrow> bool" where
  "validateCanonicalHookResult hookType v \<longleftrightarrow>
     isPlainRecord v \<and> has_own v ''ok'' \<and>
     (if descriptorValue v ''ok'' = JBool False
      then hasExactKeys v [''ok'', ''error''] \<and>
        (let e = descriptorValue v ''error'' in
         isPlainRecord e \<and> hasExactKeys e [''code''] \<and> descriptorValue e ''code'' \<in> set canonicalPluginErrorCodes)
      else hasExactKeys v [''ok'', ''value''] \<and>
        (let r = descriptorValue v ''value'' in
         descriptorValue v ''ok'' = JBool True \<and> isPlainRecord r \<and>
         (if hookType = JStr ''event'' then
            hasExactKeys r [''status''] \<and> descriptorValue r ''status'' = JStr ''accepted''
          else if hookType = JStr ''transform'' then
            hasExactKeys r [''status'', ''output''] \<and> descriptorValue r ''status'' = JStr ''transformed'' \<and>
            descriptorValue r ''output'' \<noteq> JUndef
          else
            hasExactKeys r [''decision'', ''reasonCode''] \<and>
            (descriptorValue r ''decision'' = JStr ''allow'' \<or> descriptorValue r ''decision'' = JStr ''deny'') \<and>
            is_string (descriptorValue r ''reasonCode'') \<and> reasonCodePattern (text_of (descriptorValue r ''reasonCode'')))))"

definition validateResult :: "entrypoint \<Rightarrow> jsval \<Rightarrow> jsval \<Rightarrow> bool" where
  "validateResult entry hookType v \<longleftrightarrow>
     (entry = HandlerEntry \<and> v = JUndef) \<or>
     ((entry = DispatchEntry \<longrightarrow> validateCanonicalHookResult hookType v) \<and> losslessJson v)"

definition settleRun :: "entrypoint \<Rightarrow> jsval \<Rightarrow> jsval \<Rightarrow> local_worker \<Rightarrow> local_worker" where
  "settleRun entry hookType v s =
     (if lw_pending s \<noteq> [] then
        failRun (Thrown (error_object ''handler returned with outstanding capability calls'' [])) s
      else if \<not> validateResult entry hookType v then
        failRun (Thrown (error_object ''invalid TenantScript plugin return value'' [])) s
      else postMessage (typeMessage ''result'' [(''value'', v), (''logs'', JArr (lw_logs s))]) (s\<lparr>lw_finished := True\<rparr>))"

section \<open>Runs\<close>

datatype sandbox_event =
    Evaluates bundle_run
  | Fetches string
  | CallsCapability string jsval
  | FromParent jsval
  | HandlerResolves jsval
  | HandlerRejects jsval
  | WallClockTimeout

record worker_data =
  wd_entrypoint :: entrypoint
  wd_handlerName :: string
  wd_hookType :: jsval
  wd_limits :: runtime_limits

text \<open>\<open>run\<close> settles once; the sandbox's own tasks may go on after that.\<close>

fun workerEvent :: "worker_data \<Rightarrow> local_worker \<Rightarrow> sandbox_event \<Rightarrow> local_worker" where
  "workerEvent d s (Evaluates bundle) =
     (if lw_started s \<or> lw_finished s then s else startRun bundle (wd_handlerName d) (wd_entrypoint d) s)"
| "workerEvent d s (Fetches target) = denyFetch (wd_limits d) target s"
| "workerEvent d s (CallsCapability name input) =
     (if lw_started s then sandboxCapability (wd_limits d) name input s else s)"
| "workerEvent d s (FromParent m) = onParentMessage m s"
| "workerEvent d s (HandlerResolves v) =
     (if lw_started s \<and> \<not> lw_finished s then settleRun (wd_entrypoint d) (wd_hookType d) v s else s)"
| "workerEvent d s (HandlerRejects e) =
     (if lw_started s \<and> \<not> lw_finished s then failRun (thrown_by_sandbox e) s else s)"
| "workerEvent d s WallClockTimeout =
     (if lw_started s \<and> \<not> lw_finished s then failRun RunTimeout s else s)"

definition runWorkerThread :: "worker_data \<Rightarrow> sandbox_event list \<Rightarrow> local_worker" where
  "runWorkerThread d events = foldl (workerEvent d) workerStart events"

end
