(* ===== verification/LdLocalProperties.thy ===== *)
theory LdLocalProperties
  imports LdLocalWorker LdRuntimeProperties
begin

text \<open>
  What the local runner guarantees for every order of messages, timers and sandbox actions, and how
  its verdict on a plugin's result compares with that of the dynamic worker.
\<close>

section \<open>The supervisor settles once\<close>

lemma finish_settled [simp]: "sv_settled s = Some r \<Longrightarrow> finish x s = s"
  by (simp add: finish_def)

lemma step_settled:
  assumes "sv_settled s = Some r" "sv_terminated s"
  shows "sv_settled (supervisorStep call s e) = Some r" "sv_posted (supervisorStep call s e) = sv_posted s"
    "sv_terminated (supervisorStep call s e)"
  using assms
  by (cases e; simp add: onWorkerMessage_def handleCapabilityRequest_def finish_def split: prod.split)+

lemma steps_settled:
  "sv_settled s = Some r \<Longrightarrow> sv_terminated s \<Longrightarrow>
     sv_settled (foldl (supervisorStep call) s es) = Some r \<and>
     sv_posted (foldl (supervisorStep call) s es) = sv_posted s \<and> sv_terminated (foldl (supervisorStep call) s es)"
proof (induction es arbitrary: s)
  case (Cons e es)
  then show ?case using step_settled [OF Cons.prems, of call e] Cons.IH [of "supervisorStep call s e"] by simp
qed simp

text \<open>A pending run always has a timer that ends it.\<close>

definition pendingTimed :: "'w supervisor \<Rightarrow> bool" where
  "pendingTimed s \<longleftrightarrow>
     (case sv_settled s of
        Some _ \<Rightarrow> sv_terminated s
      | None \<Rightarrow> \<not> sv_terminated s \<and> (sv_startupTimer s \<or> sv_handlerTimer s))"

lemma step_pendingTimed: "pendingTimed s \<Longrightarrow> pendingTimed (supervisorStep call s e)"
  by (cases e; cases "sv_settled s")
    (auto simp: pendingTimed_def onWorkerMessage_def handleCapabilityRequest_def finish_def split: prod.splits)

lemma supervise_pendingTimed: "pendingTimed (supervise call es w)"
proof -
  have "pendingTimed s \<Longrightarrow> pendingTimed (foldl (supervisorStep call) s es)" for s :: "'a supervisor"
    by (induction es arbitrary: s) (simp_all add: step_pendingTimed)
  moreover have "pendingTimed (supervisorStart w)" by (simp add: pendingTimed_def supervisorStart_def)
  ultimately show ?thesis unfolding supervise_def by blast
qed

text \<open>
  C28: A local run settles exactly once. However messages, timers, failures and capability results are
  ordered, the first outcome stays, the thread is terminated and nothing more is posted to it; and
  while a run is pending one of its timers is armed, whose firing settles it.
\<close>

theorem local_run_settles_once:
  "case sv_settled (supervise call es w) of
     Some r \<Rightarrow> sv_settled (supervise call (es @ later) w) = Some r \<and>
       sv_posted (supervise call (es @ later) w) = sv_posted (supervise call es w) \<and>
       sv_terminated (supervise call (es @ later) w)
   | None \<Rightarrow> \<not> sv_terminated (supervise call es w) \<and>
       sv_settled (supervise call (es @ [if sv_startupTimer (supervise call es w) then StartupTimeout else HandlerTimeout]) w)
         \<noteq> None"
proof (cases "sv_settled (supervise call es w)")
  case (Some r)
  then show ?thesis
    using supervise_pendingTimed [of call es w] steps_settled [of "supervise call es w" r call later]
    by (simp add: pendingTimed_def supervise_def)
next
  case None
  then show ?thesis
    using supervise_pendingTimed [of call es w] by (auto simp: pendingTimed_def supervise_def finish_def)
qed

text \<open>
  A capability request whose message arrives after the run was timed out is still executed: the
  listener does not ask whether the run is settled.
\<close>

theorem late_capability_still_runs:
  "sv_settled (supervise call [Message (typeMessage ''started'' []), HandlerTimeout, Message (capabilityMessage 1 name input)] w) =
     Some (Inl ScopedRuntimeTimeoutError) \<and>
   sv_world (supervise call [Message (typeMessage ''started'' []), HandlerTimeout, Message (capabilityMessage 1 name input)] w) =
     snd (call name input w)"
  by (simp add: supervise_def supervisorStart_def onWorkerMessage_def isRuntimeWorkerMessage_def typeMessage_def
      capabilityMessage_def record_get_def has_own_def finish_def handleCapabilityRequest_def split_beta)

section \<open>What settles a run\<close>

lemma isHookErrorCode_text: "isHookErrorCode v \<longleftrightarrow> (\<exists>s. v = JStr s \<and> s \<in> set hookErrorCodes)"
  by (auto simp: isHookErrorCode_def split: jsval.splits)

definition knownOutcome :: "supervisor_event list \<Rightarrow> runtime_result \<Rightarrow> bool" where
  "knownOutcome es r \<longleftrightarrow>
     (case r of
        Inl e \<Rightarrow> policyFailureCode e \<in> set hookErrorCodes
      | Inr (v, logs) \<Rightarrow> \<exists>m. Message m \<in> set es \<and> js_get m ''type'' = JStr ''result'' \<and> js_get m ''value'' = v \<and>
          js_get m ''logs'' = JArr logs)"

lemma codes_known:
  "''plugin_timeout'' \<in> set hookErrorCodes" "''runtime_unavailable'' \<in> set hookErrorCodes"
  "''plugin_memory_exceeded'' \<in> set hookErrorCodes" "''plugin_subrequest_exceeded'' \<in> set hookErrorCodes"
  "''plugin_result_invalid'' \<in> set hookErrorCodes" "''plugin_artifact_invalid'' \<in> set hookErrorCodes"
  "''input_invalid'' \<in> set hookErrorCodes"
  by (simp_all add: hookErrorCodes_def)

lemma deserialized_known: "isSerializedRuntimeError e \<Longrightarrow> policyFailureCode (deserializeRuntimeError e) \<in> set hookErrorCodes"
  by (auto simp: isSerializedRuntimeError_def isHookErrorCode_text deserializeRuntimeError_def Let_def codes_known)

lemma isArray_items: "isArray v \<longleftrightarrow> v = JArr (items_of v)"
  by (cases v) (auto simp: items_of_def)

lemma step_known:
  assumes "sv_settled (supervisorStep call s e) = Some r" "sv_settled s = None"
  shows "knownOutcome [e] r"
proof (cases e)
  case (Message m)
  have m: "onWorkerMessage call m s = supervisorStep call s e" using Message by simp
  consider (bad) "\<not> isRuntimeWorkerMessage m" | (err) "isRuntimeWorkerMessage m" "js_get m ''type'' = JStr ''error''"
    | (res) "isRuntimeWorkerMessage m" "js_get m ''type'' = JStr ''result''"
    | (other) "isRuntimeWorkerMessage m" "js_get m ''type'' = JStr ''started'' \<or> js_get m ''type'' = JStr ''capability''"
    unfolding isRuntimeWorkerMessage_def by (cases "js_get m ''type'' = JStr ''capability''"; cases "js_get m ''type'' = JStr ''error''") auto
  then show ?thesis
  proof cases
    case err
    then show ?thesis
      using assms m [symmetric] deserialized_known [of "js_get m ''error''"]
      by (auto simp: onWorkerMessage_def finish_def knownOutcome_def isRuntimeWorkerMessage_def)
  next
    case res
    then show ?thesis
      using assms m [symmetric] isArray_items [of "js_get m ''logs''"] Message
      by (auto simp: onWorkerMessage_def finish_def knownOutcome_def isRuntimeWorkerMessage_def)
  qed (use assms m [symmetric] in
      \<open>auto simp: onWorkerMessage_def finish_def knownOutcome_def codes_known handleCapabilityRequest_def split: prod.splits\<close>)
qed (use assms in \<open>auto simp: finish_def knownOutcome_def codes_known split: if_splits\<close>)

lemma supervise_known: "sv_settled (supervise call es w) = Some r \<Longrightarrow> knownOutcome es r"
proof (induction es rule: rev_induct)
  case (snoc e es)
  have mono: "knownOutcome xs r \<Longrightarrow> set xs \<subseteq> set ys \<Longrightarrow> knownOutcome ys r" for xs ys
    by (auto simp: knownOutcome_def split: sum.splits prod.splits)
  show ?case
  proof (cases "sv_settled (supervise call es w)")
    case None
    then show ?thesis
      using step_known [of call "supervise call es w" e r] snoc.prems mono [of "[e]" "es @ [e]"]
      by (simp add: supervise_def)
  next
    case (Some q)
    then have "q = r"
      using snoc.prems steps_settled [of "supervise call es w" q call "[e]"] supervise_pendingTimed [of call es w]
      by (simp add: pendingTimed_def supervise_def)
    then show ?thesis using snoc.IH Some mono [of es "es @ [e]"] by auto
  qed
qed (simp add: supervise_def supervisorStart_def)

section \<open>What the thread posts\<close>

definition ofType :: "string \<Rightarrow> jsval \<Rightarrow> bool" where
  "ofType ty m \<longleftrightarrow> js_get m ''type'' = JStr ty"

definition ofReason :: "string \<Rightarrow> jsval \<Rightarrow> bool" where
  "ofReason reason l \<longleftrightarrow> js_get l ''reason'' = JStr reason"

lemma ofType_typeMessage [simp]: "ofType ty (typeMessage ty' fs) \<longleftrightarrow> ty' = ty"
  by (simp add: ofType_def typeMessage_def record_get_def)

lemma ofType_capability [simp]: "ofType ty (capabilityMessage i n v) \<longleftrightarrow> ty = ''capability''"
  by (auto simp: capabilityMessage_def)

lemma ofType_error [simp]: "ofType ty (errorMessage e) \<longleftrightarrow> ty = ''error''"
  by (auto simp: errorMessage_def)

lemma ofReason_log [simp]: "ofReason r (runtimeLog r' t) \<longleftrightarrow> r' = r"
  by (simp add: ofReason_def runtimeLog_def record_get_def)

lemma capabilityMessage_id [simp]: "js_get (capabilityMessage i n v) ''id'' = JNum (NInt (int i))"
  by (simp add: capabilityMessage_def typeMessage_def record_get_def)

definition postable :: "worker_data \<Rightarrow> jsval \<Rightarrow> bool" where
  "postable d m \<longleftrightarrow>
     ofType ''result'' m \<longrightarrow>
     (\<exists>v logs. m = typeMessage ''result'' [(''value'', v), (''logs'', JArr logs)] \<and>
        validateResult (wd_entrypoint d) (wd_hookType d) v)"

lemmas worker_steps = denyFetch_def countSubrequest_def sandboxCapability_def callParentCapability_def onParentMessage_def
  startRun_def failRun_def settleRun_def postMessage_def Let_def

lemma denyFetch_out: "lw_out (denyFetch limits t s) = lw_out s"
  by (simp add: denyFetch_def countSubrequest_def Let_def split: option.split)

lemma sandboxCapability_out:
  "lw_out (sandboxCapability limits n v s) = lw_out s \<or>
   (\<exists>i. lw_out (sandboxCapability limits n v s) = lw_out s @ [capabilityMessage i n (plain_copy v)])"
  by (auto simp: sandboxCapability_def callParentCapability_def countSubrequest_def postMessage_def Let_def split: option.split)

lemma startRun_out:
  "lw_out (startRun b h e s) \<in> {lw_out s @ [typeMessage ''started'' []]} \<union> range (\<lambda>e. lw_out s @ [errorMessage e])"
  by (auto simp: startRun_def failRun_def postMessage_def split: bundle_run.split)

lemma settleRun_out:
  "lw_out (settleRun entry ty v s) \<in>
     {lw_out s @ [typeMessage ''result'' [(''value'', v), (''logs'', JArr (lw_logs s))]] | _. validateResult entry ty v} \<union>
     range (\<lambda>e. lw_out s @ [errorMessage e])"
  by (auto simp: settleRun_def failRun_def postMessage_def)

lemma failRun_out: "lw_out (failRun e s) = lw_out s @ [errorMessage e]"
  by (simp add: failRun_def postMessage_def)

lemma event_posts:
  assumes "list_all (postable d) (lw_out s)"
  shows "list_all (postable d) (lw_out (workerEvent d s e))"
proof -
  have p: "postable d (errorMessage x)" "postable d (capabilityMessage i n v)" "postable d (typeMessage ''started'' [])"
    "validateResult (wd_entrypoint d) (wd_hookType d) v \<Longrightarrow>
       postable d (typeMessage ''result'' [(''value'', v), (''logs'', JArr logs)])" for x i n v logs
    by (auto simp: postable_def)
  show ?thesis
  proof (cases e)
    case (Evaluates b)
    then show ?thesis using assms p startRun_out [of b "wd_handlerName d" "wd_entrypoint d" s] by auto
  next
    case (CallsCapability n v)
    then show ?thesis using assms p sandboxCapability_out [of "wd_limits d" n v s] by auto
  next
    case (HandlerResolves v)
    then show ?thesis using assms p settleRun_out [of "wd_entrypoint d" "wd_hookType d" v s] by auto
  qed (use assms p in \<open>simp_all add: denyFetch_out failRun_out onParentMessage_def\<close>)
qed

lemma thread_posts: "list_all (postable d) (lw_out (runWorkerThread d es))"
proof -
  have "list_all (postable d) (lw_out s) \<Longrightarrow> list_all (postable d) (lw_out (foldl (workerEvent d) s es))" for s
    by (induction es arbitrary: s) (simp_all add: event_posts)
  then show ?thesis by (simp add: runWorkerThread_def workerStart_def)
qed

text \<open>Every subrequest is a capability message, a denied fetch or a refusal.\<close>

definition admitted :: "local_worker \<Rightarrow> nat" where
  "admitted s = length (filter (ofType ''capability'') (lw_out s)) + length (filter (ofReason ''egress_denied'') (lw_logs s))"

definition allowedSubrequests :: "runtime_limits \<Rightarrow> nat \<Rightarrow> nat" where
  "allowedSubrequests limits n = (case rl_maxSubrequests limits of None \<Rightarrow> n | Some m \<Rightarrow> min n (nat m))"

definition accounted :: "worker_data \<Rightarrow> local_worker \<Rightarrow> bool" where
  "accounted d s \<longleftrightarrow>
     admitted s + length (filter (ofReason ''subrequest_limit_exceeded'') (lw_logs s)) = lw_subrequests s \<and>
     admitted s = allowedSubrequests (wd_limits d) (lw_subrequests s) \<and>
     map (\<lambda>m. js_get m ''id'') (filter (ofType ''capability'') (lw_out s)) =
       map (\<lambda>i. JNum (NInt (int i))) [1..<lw_nextCapabilityId s] \<and>
     set (lw_pending s) \<subseteq> {1..<lw_nextCapabilityId s} \<and> 0 < lw_nextCapabilityId s \<and>
     length (filter (\<lambda>m. ofType ''result'' m \<or> ofType ''error'' m) (lw_out s)) = (if lw_finished s then 1 else 0)"

text \<open>A counted subrequest is admitted exactly when the limit is not reached.\<close>

lemma countSubrequest_cases:
  obtains (within) "countSubrequest limits t s = (True, s\<lparr>lw_subrequests := Suc (lw_subrequests s)\<rparr>)"
      "allowedSubrequests limits (Suc (lw_subrequests s)) = Suc (allowedSubrequests limits (lw_subrequests s))"
  | (refused) "countSubrequest limits t s =
        (False, s\<lparr>lw_subrequests := Suc (lw_subrequests s),
                  lw_logs := lw_logs s @ [runtimeLog ''subrequest_limit_exceeded'' t]\<rparr>)"
      "allowedSubrequests limits (Suc (lw_subrequests s)) = allowedSubrequests limits (lw_subrequests s)"
proof (cases "rl_maxSubrequests limits")
  case None
  then show thesis using within by (simp add: countSubrequest_def allowedSubrequests_def)
next
  case (Some m)
  show thesis
  proof (cases "m < int (Suc (lw_subrequests s))")
    case True
    then have "nat m \<le> lw_subrequests s" by linarith
    then show thesis using refused Some True
      by (simp add: countSubrequest_def allowedSubrequests_def Let_def)
  next
    case False
    then show thesis using within Some
      by (simp add: countSubrequest_def allowedSubrequests_def Let_def min_def)
  qed
qed

lemma fetch_accounted:
  assumes "accounted d s"
  shows "accounted d (denyFetch (wd_limits d) t s)"
  using assms
  by (cases rule: countSubrequest_cases [of "wd_limits d" "''fetch:'' @ t" s])
    (simp_all add: denyFetch_def accounted_def admitted_def)

lemma capability_accounted:
  assumes "accounted d s"
  shows "accounted d (sandboxCapability (wd_limits d) n v s)"
  using assms
proof (cases rule: countSubrequest_cases [of "wd_limits d" "''capability:'' @ n" s])
  case within
  then show ?thesis using assms
    by (auto simp: sandboxCapability_def callParentCapability_def postMessage_def Let_def accounted_def admitted_def)
qed (auto simp: sandboxCapability_def callParentCapability_def Let_def accounted_def admitted_def)

lemma fail_accounted: "accounted d s \<Longrightarrow> \<not> lw_finished s \<Longrightarrow> accounted d (failRun e s)"
  by (simp add: accounted_def admitted_def failRun_def postMessage_def)

lemma settle_accounted: "accounted d s \<Longrightarrow> \<not> lw_finished s \<Longrightarrow> accounted d (settleRun entry ty v s)"
  by (cases "lw_pending s \<noteq> [] \<or> \<not> validateResult entry ty v")
    (auto simp: settleRun_def fail_accounted, simp add: accounted_def admitted_def postMessage_def)

lemma start_accounted: "accounted d s \<Longrightarrow> \<not> lw_finished s \<Longrightarrow> accounted d (startRun b h entry s)"
  by (cases b) (auto simp: startRun_def fail_accounted, simp add: accounted_def admitted_def postMessage_def)

lemma event_accounted: "accounted d s \<Longrightarrow> accounted d (workerEvent d s e)"
proof (cases e)
  case (FromParent m)
  assume "accounted d s"
  then show ?thesis using FromParent by (auto simp: accounted_def admitted_def onParentMessage_def)
qed (simp_all add: fetch_accounted capability_accounted fail_accounted settle_accounted start_accounted)

text \<open>
  The subrequests of a local run are counted and bounded. Whatever the sandbox does, each
  subrequest is a capability message, a denied fetch or a logged refusal; with a limit, exactly the
  first ones up to the limit are admitted. The capability messages carry the identifiers 1, 2, ... in
  order, only those can be outstanding, and the thread posts at most one outcome.
\<close>

theorem local_subrequests_bounded:
  "let s = runWorkerThread d es;
       capabilities = filter (ofType ''capability'') (lw_out s);
       denied = filter (ofReason ''egress_denied'') (lw_logs s);
       refused = filter (ofReason ''subrequest_limit_exceeded'') (lw_logs s)
   in length capabilities + length denied + length refused = lw_subrequests s \<and>
      length capabilities + length denied = allowedSubrequests (wd_limits d) (lw_subrequests s) \<and>
      map (\<lambda>m. js_get m ''id'') capabilities = map (\<lambda>i. JNum (NInt (int i))) [1..<Suc (length capabilities)] \<and>
      set (lw_pending s) \<subseteq> {1..length capabilities} \<and>
      length (filter (\<lambda>m. ofType ''result'' m \<or> ofType ''error'' m) (lw_out s)) \<le> 1"
proof -
  have "accounted d s \<Longrightarrow> accounted d (foldl (workerEvent d) s es)" for s
    by (induction es arbitrary: s) (simp_all add: event_accounted)
  moreover have "accounted d workerStart"
    by (simp add: accounted_def admitted_def workerStart_def allowedSubrequests_def split: option.split)
  ultimately have a: "accounted d (runWorkerThread d es)" unfolding runWorkerThread_def by blast
  define w where "w = runWorkerThread d es"
  have "map (\<lambda>m. js_get m ''id'') (filter (ofType ''capability'') (lw_out w)) =
      map (\<lambda>i. JNum (NInt (int i))) [1..<lw_nextCapabilityId w]"
    using a by (simp add: accounted_def w_def)
  from arg_cong [OF this, of length]
  have "length (filter (ofType ''capability'') (lw_out (runWorkerThread d es))) = lw_nextCapabilityId (runWorkerThread d es) - 1"
    by (simp add: w_def)
  then have "lw_nextCapabilityId (runWorkerThread d es) =
      Suc (length (filter (ofType ''capability'') (lw_out (runWorkerThread d es))))"
    using a by (simp add: accounted_def)
  then show ?thesis using a by (simp add: accounted_def admitted_def Let_def atLeastLessThanSuc_atLeastAtMost)
qed

section \<open>Policy runs\<close>

lemma descriptor_own: "map_of fs k = Some v \<Longrightarrow> descriptorValue (JObj kind fs) k = v"
  by (simp add: descriptorValue_def)

lemma has_own_map: "has_own (JObj kind fs) k \<longleftrightarrow> (\<exists>v. map_of fs k = Some v)"
  by (metis has_own_def own_keys_obj map_of_eq_None_iff not_None_eq set_map)

lemma exact_one: "hasExactKeys (JObj kind fs) [a] \<longleftrightarrow> length fs = 1 \<and> (\<exists>x. map_of fs a = Some x)"
  by (simp add: hasExactKeys_def has_own_map)

lemma exact_two:
  "hasExactKeys (JObj kind fs) [a, b] \<longleftrightarrow> length fs = 2 \<and> (\<exists>x. map_of fs a = Some x) \<and> (\<exists>y. map_of fs b = Some y)"
  by (simp add: hasExactKeys_def has_own_map numeral_2_eq_2)

lemma lossless_member: "losslessJson (JObj kind fs) \<Longrightarrow> map_of fs k = Some v \<Longrightarrow> losslessJson v"
  by (auto simp: list_all_iff dest!: map_of_SomeD)

text \<open>A dispatch result the sandbox lets through: an error of a plugin code, or a canonical value.\<close>

lemma validated_dispatch:
  assumes "validateCanonicalHookResult (JStr (hook_type_tag t)) v" "losslessJson v"
  obtains (failed) kind fs e c where "v = JObj kind fs" "plainPrototype kind" "length fs = 2"
      "map_of fs ''ok'' = Some (JBool False)" "map_of fs ''error'' = Some e" "hasExactKeys e [''code'']" "isRecord e"
      "js_get e ''code'' = JStr c" "c = ''plugin_artifact_invalid'' \<or> c = ''plugin_result_invalid''"
  | (ok) kind fs u where "v = JObj kind fs" "plainPrototype kind" "length fs = 2"
      "map_of fs ''ok'' = Some (JBool True)" "map_of fs ''value'' = Some u" "canonicalFor t u"
proof -
  note c = assms(1) [unfolded validateCanonicalHookResult_def]
  obtain kind fs where v: "v = JObj kind fs" "plainPrototype kind"
    using c assms(2) by (cases v) (auto simp: isPlainRecord_def plainPrototype_def)
  show thesis
  proof (cases "descriptorValue v ''ok'' = JBool False")
    case True
    then have e: "hasExactKeys v [''ok'', ''error'']" "isPlainRecord (descriptorValue v ''error'')"
      "hasExactKeys (descriptorValue v ''error'') [''code'']"
      "descriptorValue (descriptorValue v ''error'') ''code'' \<in> set canonicalPluginErrorCodes"
      using c by (simp_all add: Let_def)
    obtain x y where own: "map_of fs ''ok'' = Some x" "map_of fs ''error'' = Some y" "length fs = 2"
      using e(1) v(1) by (auto simp: exact_two)
    have y: "descriptorValue v ''error'' = y" using own(2) v(1) by (simp add: descriptorValue_def)
    then obtain k gs where g: "y = JObj k gs" "plainPrototype k"
      using e(2) lossless_member [OF assms(2) [unfolded v(1)] own(2)]
      by (cases y) (auto simp: isPlainRecord_def plainPrototype_def)
    obtain z where z: "map_of gs ''code'' = Some z" using e(3) y g(1) by (auto simp: exact_one)
    have "js_get y ''code'' = z" "descriptorValue y ''code'' = z"
      using js_get_own [OF g(2) z] g(1) z by (simp_all add: descriptorValue_def)
    then show thesis
      using failed [OF v own(3)] own True e(3,4) y g(1) v(1)
      by (auto simp: canonicalPluginErrorCodes_def descriptorValue_def)
  next
    case False
    then have e: "hasExactKeys v [''ok'', ''value'']" "descriptorValue v ''ok'' = JBool True"
      "isPlainRecord (descriptorValue v ''value'')"
      using c by (simp_all add: Let_def)
    obtain x y where own: "map_of fs ''ok'' = Some x" "map_of fs ''value'' = Some y" "length fs = 2"
      using e(1) v(1) by (auto simp: exact_two)
    have y: "descriptorValue v ''value'' = y" using own(2) v(1) by (simp add: descriptorValue_def)
    obtain k gs where g: "y = JObj k gs" "plainPrototype k"
      using e(3) y lossless_member [OF assms(2) [unfolded v(1)] own(2)]
      by (cases y) (auto simp: isPlainRecord_def plainPrototype_def)
    have own_g: "map_of gs a = Some w \<Longrightarrow> descriptorValue (JObj k gs) a = w" for a w
      by (simp add: descriptorValue_def)
    have str: "is_string w \<longleftrightarrow> (\<exists>s. w = JStr s)" for w by (cases w) auto
    have "canonicalFor t y"
      using c False y g(2) unfolding g(1) canonicalFor_fields
      by (cases t) (auto simp: Let_def exact_one exact_two own_g str)
    then show thesis using ok [OF v own(3)] own e(2) v(1) by (simp add: descriptorValue_def)
  qed
qed

lemma policyDeny_canonical:
  assumes "c \<in> set hookErrorCodes" "policyDenyResult c logs = (v, l)"
  shows "js_get v ''ok'' = JBool True" "canonicalFor Policy (js_get v ''value'')"
    "js_get (js_get v ''value'') ''decision'' = JStr ''deny''"
proof -
  have "list_all reasonCodePattern hookErrorCodes" by code_simp
  then have "reasonCodePattern c" using assms(1) by (simp add: list_all_iff)
  then show "js_get v ''ok'' = JBool True" "canonicalFor Policy (js_get v ''value'')"
    "js_get (js_get v ''value'') ''decision'' = JStr ''deny''"
    using assms(2) by (auto simp: policyDenyResult_def record_get_def canonicalFor_fields plainPrototype_def simp del: canonicalFor.simps)
qed

lemma settlePolicy_error:
  assumes "settlePolicy (Inl e) = Inr (v, l)" "policyFailureCode e \<in> set hookErrorCodes"
  obtains c where "c \<in> set hookErrorCodes" "policyDenyResult c (policyFailureLogs e) = (v, l)"
  using assms codes_known(5)
  by (cases e) (auto simp: settlePolicy_def split: if_splits)

lemma normalizeLimits_error: "normalizeLimits t m b = Inl e \<Longrightarrow> e = ScopedRuntimeInputError"
  by (auto simp: normalizeLimits_def Let_def safe_at_least_def bindE_Inl split: jsnum.splits if_splits option.splits)

text \<open>What the listener makes of a validated result of a policy hook.\<close>

lemma normalized_policy:
  assumes "validateCanonicalHookResult (JStr ''policy'') u" "losslessJson u" "normalizeLocalPolicyResult (u, l) = (v, l')"
  shows "js_get v ''ok'' = JBool True \<and> canonicalFor Policy (js_get v ''value'') \<and>
    (js_get (js_get v ''value'') ''decision'' = JStr ''deny'' \<or> v = u)"
proof -
  have "validateCanonicalHookResult (JStr (hook_type_tag Policy)) u" using assms(1) by simp
  then show ?thesis using assms(2)
  proof (cases rule: validated_dispatch)
    case (failed kind fs e c)
    have get: "js_get u ''ok'' = JBool False" "js_get u ''error'' = e"
      using js_get_own [OF failed(2)] failed(1,4,5) by simp_all
    have "isHookErrorCode (JStr c)" "c \<noteq> ''input_invalid''" "c \<in> set hookErrorCodes"
      using failed(9) codes_known by (auto simp: isHookErrorCode_text)
    then have "policyDenyResult c l = (v, l')"
      using assms(3) get failed(1,7,8) by (simp add: normalizeLocalPolicyResult_def Let_def)
    then show ?thesis using policyDeny_canonical [OF \<open>c \<in> set hookErrorCodes\<close>] by simp
  next
    case (ok kind fs x)
    have get: "js_get u ''ok'' = JBool True" "js_get u ''value'' = x"
      using js_get_own [OF ok(2)] ok(1,4,5) by simp_all
    then have "v = u" using assms(3) by (simp add: normalizeLocalPolicyResult_def Let_def)
    then show ?thesis using get ok(6) by simp
  qed
qed

text \<open>
  C29: Local policy runs fail closed. With messages that the worker program posts, in any order and
  interleaved with any timers and failures, a policy dispatch that settles answers a canonical
  decision, and allows only with a result the sandbox validated; every other outcome is a denial or
  the rejection of the host's own input.
\<close>

theorem local_policy_runs_fail_closed:
  assumes "\<forall>m. Message m \<in> set events \<longrightarrow> m \<in> set (lw_out (runWorkerThread d sandbox))"
    and "wd_entrypoint d = DispatchEntry" "wd_hookType d = JStr ''policy''"
    and "runScopedPluginDispatch call hookName (JStr ''policy'') payload limits created events w = (Some r, w')"
  shows "r = Inl ScopedRuntimeInputError \<or>
    (\<exists>v logs. r = Inr (v, logs) \<and> js_get v ''ok'' = JBool True \<and> canonicalFor Policy (js_get v ''value'') \<and>
       (js_get (js_get v ''value'') ''decision'' = JStr ''deny'' \<or>
        Message (typeMessage ''result'' [(''value'', v), (''logs'', JArr logs)]) \<in> set events))"
proof -
  show ?thesis
  proof (cases "r = Inl ScopedRuntimeInputError")
    case False
    obtain t m b where lim: "limits = (t, m, b)" by (cases limits)
    obtain q' w1 where run: "runHandlerInWorker call payload created events w = (q', w1)" by (metis surj_pair)
    have "map_option settlePolicy q' = Some r \<and> w1 = w'"
      using assms(4) False normalizeLimits_error [of t m b] run lim
      by (cases "normalizeLimits t m b") (simp_all add: runScopedPluginDispatch_def split: if_splits)
    then obtain q where q: "runHandlerInWorker call payload created events w = (Some q, w')" "r = settlePolicy q"
      using run by auto
    show ?thesis
    proof (cases q)
      case (Inl e)
      have "e = ScopedRuntimeInputError \<or> e = ScopedRuntimeError ''runtime_unavailable'' \<or>
          sv_settled (supervise call events w) = Some (Inl e)"
        using q(1) Inl by (simp add: runHandlerInWorker_def Let_def split: if_splits)
      moreover have "sv_settled (supervise call events w) = Some (Inl e) \<Longrightarrow> policyFailureCode e \<in> set hookErrorCodes"
        using supervise_known [of call events w "Inl e"] by (simp add: knownOutcome_def)
      ultimately have "policyFailureCode e \<in> set hookErrorCodes" using codes_known by auto
      moreover obtain v l where r: "r = Inr (v, l)"
        using False q(2) Inl by (cases e) (auto simp: settlePolicy_def policyDenyResult_def)
      ultimately obtain c where c: "c \<in> set hookErrorCodes" "policyDenyResult c (policyFailureLogs e) = (v, l)"
        using settlePolicy_error [of e v l] q(2) Inl by auto
      then show ?thesis using policyDeny_canonical [OF c] r by simp
    next
      case (Inr p)
      obtain u l where p: "p = (u, l)" by (cases p)
      have "sv_settled (supervise call events w) = Some (Inr (u, l))"
        using q(1) Inr p by (auto simp: runHandlerInWorker_def Let_def split: if_splits)
      from supervise_known [OF this] obtain m where m: "Message m \<in> set events" "js_get m ''type'' = JStr ''result''"
        "js_get m ''value'' = u" "js_get m ''logs'' = JArr l"
        by (auto simp: knownOutcome_def)
      then have "postable d m" using assms(1) thread_posts [of d sandbox] by (simp add: list_all_iff)
      then obtain x logs where x: "m = typeMessage ''result'' [(''value'', x), (''logs'', JArr logs)]"
        "validateResult DispatchEntry (JStr ''policy'') x"
        using m(2) assms(2,3) by (auto simp: postable_def ofType_def)
      have mu: "m = typeMessage ''result'' [(''value'', u), (''logs'', JArr l)]"
        using m(3,4) x(1) by (simp add: typeMessage_def record_get_def)
      have valid: "validateCanonicalHookResult (JStr ''policy'') u" "losslessJson u"
        using x m(3) by (simp_all add: typeMessage_def record_get_def validateResult_def)
      obtain v l' where v: "normalizeLocalPolicyResult (u, l) = (v, l')" by (metis surj_pair)
      have "l' = l"
        using v by (auto simp: normalizeLocalPolicyResult_def policyDenyResult_def Let_def split: if_splits)
      then show ?thesis
        using normalized_policy [OF valid v] v q(2) Inr p m(1) mu
        by (auto simp: settlePolicy_def)
    qed
  qed simp
qed

section \<open>The same verdict as the dynamic worker\<close>

text \<open>
  What each runner makes of a plugin whose dispatch resolves to \<open>r\<close> and leaves nothing behind: the
  error code it reports, or the value it accepts.
\<close>

definition localVerdict :: "string \<Rightarrow> jsval \<Rightarrow> (string, jsval) outcome" where
  "localVerdict hookType r =
     (let s = settleRun DispatchEntry (JStr hookType) r (workerStart\<lparr>lw_started := True\<rparr>)
      in case sv_settled (onWorkerMessage (\<lambda>_ _ w. (Inl JUndef, w)) (last (lw_out s)) (supervisorStart ())) of
           Some (Inr (v, _)) \<Rightarrow>
             (if js_get v ''ok'' = JBool False then Inl (text_of (js_get (js_get v ''error'') ''code''))
              else Inr (js_get v ''value''))
         | Some (Inl e) \<Rightarrow> Inl (policyFailureCode e)
         | None \<Rightarrow> Inl [])"

definition hostVerdict :: "(HookErrorCode, invocation_state) outcome \<Rightarrow> (string, jsval) outcome" where
  "hostVerdict s =
     (case s of
        Inl c \<Rightarrow> Inl (error_text c)
      | Inr i \<Rightarrow> (case failureCode i False of Some c \<Rightarrow> Inl (error_text c) | None \<Rightarrow> Inr (is_value i)))"

definition dynamicVerdict :: "(jsnum \<Rightarrow> jsnum) \<Rightarrow> string \<Rightarrow> jsval \<Rightarrow> (string, jsval) outcome" where
  "dynamicVerdict nearest hookType r =
     (case resultOf (Dispatcher JUndef) hookType r of
        Some v \<Rightarrow>
          if losslessJson v
          then hostVerdict (settleInvocation (parse_json nearest) None hookType
                 (FetchResponse \<lparr>wr_ok = True, wr_contentLength = None, wr_body = Some [responseText v]\<rparr>))
          else hostVerdict (settleInvocation (parse_json nearest) None hookType
                 (FetchFailed (ForeignError (PlatformError JUndef))))
      | None \<Rightarrow> hostVerdict (settleInvocation (parse_json nearest) None hookType
                 (FetchFailed (ForeignError (PlatformError JUndef)))))"

lemma failed_fetch_verdict [simp]:
  "hostVerdict (settleInvocation parseJson None ty (FetchFailed (ForeignError e))) = Inl ''plugin_result_invalid''"
  by (simp add: settleInvocation_def classified_def classification_def Let_def hostVerdict_def failureCode_def failedWith_def
      answered_def)

lemma answered_verdict:
  assumes "losslessJson v" "js_ok nearest v" "length (responseText v) \<le> max_dynamic_worker_bytes"
  shows "hostVerdict (settleInvocation (parse_json nearest) None ty
      (FetchResponse \<lparr>wr_ok = True, wr_contentLength = None, wr_body = Some [responseText v]\<rparr>)) =
    (case getPluginDispatchFailureCode (plain_copy v) of
       Some c \<Rightarrow> Inl (error_text c)
     | None \<Rightarrow> if ty = ''policy'' \<and> \<not> isCanonicalPolicyResult (plain_copy v) then Inl ''plugin_result_invalid''
               else Inr (plain_copy v))"
proof -
  have "readResponseValue (parse_json nearest) \<lparr>wr_ok = True, wr_contentLength = None, wr_body = Some [responseText v]\<rparr> =
      Inr (plain_copy v)"
    using assms parse_response [OF assms(1,2)]
    by (simp add: readResponseValue_def declaredLengthOk_def has_own_def record_get_def)
  then show ?thesis
    by (auto simp: settleInvocation_def hostVerdict_def failureCode_def failedWith_def answered_def split: option.split)
qed

lemma local_accepted:
  assumes "validateResult DispatchEntry (JStr ty) r"
  shows "localVerdict ty r =
    (if js_get r ''ok'' = JBool False then Inl (text_of (js_get (js_get r ''error'') ''code''))
     else Inr (js_get r ''value''))"
  using assms
  by (simp add: localVerdict_def settleRun_def workerStart_def postMessage_def onWorkerMessage_def isRuntimeWorkerMessage_def
      typeMessage_def record_get_def supervisorStart_def finish_def Let_def)

lemma local_rejected:
  assumes "\<not> validateResult DispatchEntry (JStr ty) r"
  shows "localVerdict ty r = Inl ''plugin_result_invalid''"
  using assms codes_known
  by (simp add: localVerdict_def settleRun_def workerStart_def failRun_def postMessage_def onWorkerMessage_def errorMessage_def
      isRuntimeWorkerMessage_def typeMessage_def record_get_def supervisorStart_def finish_def Let_def serializeError_def
      error_object_def isHookErrorCode_def inherited_value_def object_prototype_keys_def isSerializedRuntimeError_def
      deserializeRuntimeError_def)

text \<open>A plugin result that reports a failure, as the host of dynamic workers reads it.\<close>

lemma copy_field: "map_of fs k = Some v \<Longrightarrow> js_get (plain_copy (JObj kind fs)) k = plain_copy v"
  by (simp add: map_of_copy record_get_def)

lemma exact_copy: "hasExactKeys (plain_copy (JObj kind fs)) ks = hasExactKeys (JObj kind fs) ks"
proof -
  have "has_own (plain_copy (JObj kind fs)) = has_own (JObj kind fs)"
    by (rule ext) (simp add: has_own_def comp_def)
  then show ?thesis by (simp add: hasExactKeys_def)
qed

lemma copy_record: "isRecord (plain_copy y) = isRecord y"
  by (cases y) simp_all

lemma copy_exact: "hasExactKeys (plain_copy y) ks = hasExactKeys y ks"
proof (cases y)
  case (JObj kind fs)
  then show ?thesis using exact_copy by blast
qed (simp_all add: hasExactKeys_def has_own_def [abs_def] own_keys_def)

lemma dispatched_failure:
  assumes "losslessJson (JObj kind fs)" "map_of fs ''ok'' = Some (JBool False)" "length fs = 2"
  shows "validateCanonicalHookResult (JStr ty) (JObj kind fs) \<and> (\<exists>e. map_of fs ''error'' = Some e \<and>
        (\<exists>c. getPluginDispatchFailureCode (plain_copy (JObj kind fs)) = Some c \<and> js_get e ''code'' = JStr (error_text c))) \<or>
      \<not> validateCanonicalHookResult (JStr ty) (JObj kind fs) \<and>
        getPluginDispatchFailureCode (plain_copy (JObj kind fs)) = Some plugin_result_invalid"
proof (cases "\<exists>k gs z. map_of fs ''error'' = Some (JObj k gs) \<and> length gs = 1 \<and> map_of gs ''code'' = Some z")
  case True
  then obtain k gs z where e: "map_of fs ''error'' = Some (JObj k gs)" "length gs = 1" "map_of gs ''code'' = Some z" by blast
  have k: "plainPrototype k" "plainPrototype kind"
    using lossless_member [OF assms(1) e(1)] assms(1) by (simp_all add: plainPrototype_def)
  have code: "js_get (JObj k gs) ''code'' = z" using js_get_own [OF k(1) e(3)] .
  have "getPluginDispatchFailureCode (plain_copy (JObj kind fs)) =
      Some (if z = JStr ''plugin_artifact_invalid'' then plugin_artifact_invalid else plugin_result_invalid)"
    using e assms(2,3) copy_field [OF e(1), of kind] copy_field [OF assms(2), of kind] copy_field [OF e(3), of k]
      exact_copy [of kind fs "[''ok'', ''error'']"] exact_copy [of k gs "[''code'']"]
    by (simp add: getPluginDispatchFailureCode_def exact_two exact_one has_own_map map_of_copy del: plain_copy.simps(2))
      (simp add: has_own_map map_of_copy)
  moreover have "validateCanonicalHookResult (JStr ty) (JObj kind fs) \<longleftrightarrow>
      z = JStr ''plugin_artifact_invalid'' \<or> z = JStr ''plugin_result_invalid''"
    using e assms(2,3) k
    by (auto simp: validateCanonicalHookResult_def isPlainRecord_def has_own_map descriptor_own exact_two exact_one Let_def
        canonicalPluginErrorCodes_def plainPrototype_def)
  ultimately show ?thesis using e(1) code by auto
next
  case False
  have ok: "has_own (plain_copy (JObj kind fs)) ''ok''" "isRecord (plain_copy (JObj kind fs))"
    using assms(2) by (simp_all add: has_own_map map_of_copy)
  have shape: "hasExactKeys (JObj kind fs) [''ok'', ''error''] \<longleftrightarrow> map_of fs ''error'' \<noteq> None"
    using assms(2,3) by (auto simp: exact_two)
  show ?thesis
  proof (cases "map_of fs ''error''")
    case None
    then show ?thesis
      using ok shape assms(2) exact_copy [of kind fs "[''ok'', ''error'']"]
      by (simp add: getPluginDispatchFailureCode_def validateCanonicalHookResult_def descriptor_own del: plain_copy.simps)
  next
    case (Some y)
    have y: "js_get (plain_copy (JObj kind fs)) ''error'' = plain_copy y" using copy_field [OF Some] .
    have "\<not> (isRecord y \<and> hasExactKeys y [''code''])"
      using False Some lossless_member [OF assms(1) Some] by (cases y) (auto simp: exact_one)
    moreover have "isPlainRecord y \<Longrightarrow> isRecord y" by (cases y) (simp_all add: isPlainRecord_def)
    ultimately have "\<not> (isRecord (plain_copy y) \<and> hasExactKeys (plain_copy y) [''code''])" "\<not> (isPlainRecord y \<and> hasExactKeys y [''code''])"
      unfolding copy_record copy_exact by blast+
    then show ?thesis
      using ok y Some assms(2)
      by (auto simp: getPluginDispatchFailureCode_def validateCanonicalHookResult_def descriptor_own Let_def simp del: plain_copy.simps)
  qed
qed

lemma two_entries:
  "length fs = 2 \<Longrightarrow> map_of fs a = Some x \<Longrightarrow> map_of fs b = Some y \<Longrightarrow> a \<noteq> b \<Longrightarrow> set fs = {(a, x), (b, y)}"
  by (cases fs; cases "tl fs") (auto split: if_splits)

lemma canonical_returned: "canonicalFor t u \<Longrightarrow> validateRuntimeReturn (hook_type_tag t) u = Some u"
proof -
  assume c: "canonicalFor t u"
  then obtain kind fs where u: "u = JObj kind fs" using canonicalFor_object by blast
  have keys: "length fs = Suc 0 \<Longrightarrow> map_of fs k = Some x \<Longrightarrow> map fst fs = [k]" for k x
    by (cases fs) (auto split: if_splits)
  have own: "own_value (JObj kind fs) k = map_of fs k" for k by (simp add: own_value_def)
  note f = c [unfolded u canonicalFor_fields]
  show ?thesis
  proof (cases t)
    case Event
    then show ?thesis using f keys [of "''status''"] by (simp add: u validateRuntimeReturn_def own)
  next
    case Transform
    then show ?thesis using f by (auto simp: u validateRuntimeReturn_def own has_own_map)
  next
    case Policy
    then show ?thesis using f by (auto simp: u validateRuntimeReturn_def own)
  qed
qed

lemma canonical_validates:
  assumes "plainPrototype kind" "length fs = 2" "map_of fs ''ok'' = Some (JBool True)" "map_of fs ''value'' = Some u"
    "canonicalFor t u" "losslessJson u"
  shows "validateResult DispatchEntry (JStr (hook_type_tag t)) (JObj kind fs)"
proof -
  have "set fs = {(''ok'', JBool True), (''value'', u)}" using two_entries [OF assms(2-4)] by simp
  then have "losslessJson (JObj kind fs)" using assms(1,6) by (simp add: list_all_iff plainPrototype_def)
  moreover obtain k gs where g: "u = JObj k gs" using canonicalFor_object [OF assms(5)] by blast
  moreover have "validateCanonicalHookResult (JStr (hook_type_tag t)) (JObj kind fs)"
    using assms(1-4) assms(5) unfolding g canonicalFor_fields
    by (cases t)
      (auto simp: validateCanonicalHookResult_def isPlainRecord_def has_own_map descriptor_own exact_two exact_one Let_def
        plainPrototype_def)
  ultimately show ?thesis by (simp add: validateResult_def)
qed

lemma dispatched_cases:
  assumes "resultOf (Dispatcher JUndef) ty r = Some v"
  obtains (failed) kind fs where "r = JObj kind fs" "plainPrototype kind" "length fs = 2"
      "map_of fs ''ok'' = Some (JBool False)" "v = r"
  | (ok) kind fs where "r = JObj kind fs" "plainPrototype kind" "length fs = 2" "map_of fs ''ok'' = Some (JBool True)"
      "map_of fs ''value'' = Some v" "validateRuntimeReturn ty v = Some v"
  using assms
  by (auto simp: resultOf_def validatePluginDispatchResult_def split: jsval.splits option.splits if_splits bool.splits)
    (auto simp: validateRuntimeReturn_def split: if_splits)


text \<open>
  The local runner looks a handler up through the prototype of the handlers object, so it starts a
  run for a handler name that no plugin declares; the dynamic worker reads own properties only.
\<close>

theorem local_inherited_handler:
  "assertEntrypointExists (JObj PlainObj [(''handlers'', JObj PlainObj [])]) ''toString'' HandlerEntry \<and>
   entryPoint (JObj NullProto [(''default'', JObj PlainObj [(''handlers'', JObj PlainObj [])])]) ''toString'' = None"
  by (simp add: assertEntrypointExists_def record_get_def inherited_value_def object_prototype_keys_def entryPoint_def
      pluginExport_def handlersExport_def hasDispatch_def isObject_def nullish_def optional_get_def own_value_def Let_def)

section \<open>Concrete local runs\<close>

definition example_dispatched :: jsval where
  "example_dispatched = JObj PlainObj [(''ok'', JBool True), (''value'', example_allow)]"

definition example_worker_data :: worker_data where
  "example_worker_data =
     \<lparr>wd_entrypoint = DispatchEntry, wd_handlerName = ''h'', wd_hookType = JStr ''policy'',
      wd_limits = \<lparr>rl_timeoutMs = 250, rl_maxSubrequests = Some 1, rl_memoryMb = 128\<rparr>\<rparr>"

definition example_sandbox :: "sandbox_event list" where
  "example_sandbox =
     [Evaluates (BundleExports (JObj PlainObj [(''plugin'', JObj PlainObj [(''dispatch'', JFun ''dispatch'')])])),
      HandlerResolves example_dispatched]"

definition example_result_message :: jsval where
  "example_result_message = typeMessage ''result'' [(''value'', example_dispatched), (''logs'', JArr [])]"

lemma example_dispatched_valid: "validateResult DispatchEntry (JStr ''policy'') example_dispatched"
proof -
  have "canonicalFor Policy example_allow" by code_simp
  then show ?thesis
    using canonical_validates [of PlainObj "[(''ok'', JBool True), (''value'', example_allow)]" example_allow Policy]
      example_allow_ok(2)
    by (simp add: example_dispatched_def plainPrototype_def del: canonicalFor.simps)
qed

lemma example_thread: "lw_out (runWorkerThread example_worker_data example_sandbox) = [typeMessage ''started'' [], example_result_message]"
  by (simp add: runWorkerThread_def example_sandbox_def example_worker_data_def workerStart_def startRun_def
      assertEntrypointExists_def record_get_def nullish_def postMessage_def Let_def settleRun_def example_dispatched_valid
      example_result_message_def)

theorem local_policy_runs_fail_closed_witness:
  "fst (runScopedPluginDispatch (\<lambda>_ _ w. (Inl JUndef, w)) ''h'' (JStr ''policy'') JNull (None, None, None) True
      [Message (typeMessage ''started'' []), Message example_result_message] ()) = Some (Inr (example_dispatched, [])) \<and>
   canonicalFor Policy (js_get example_dispatched ''value'')"
proof -
  have "isHookType (JStr ''policy'')" by code_simp
  moreover have "normalizeLimits None None None = Inr \<lparr>rl_timeoutMs = 250, rl_maxSubrequests = None, rl_memoryMb = 128\<rparr>"
    by code_simp
  ultimately have run: "runScopedPluginDispatch (\<lambda>_ _ w. (Inl JUndef, w)) ''h'' (JStr ''policy'') JNull (None, None, None) True
      [Message (typeMessage ''started'' []), Message example_result_message] () = (Some (Inr (example_dispatched, [])), ())"
    by (simp add: runScopedPluginDispatch_def runHandlerInWorker_def supervise_def supervisorStart_def onWorkerMessage_def
        isRuntimeWorkerMessage_def typeMessage_def record_get_def example_result_message_def finish_def items_of_def
        settlePolicy_def normalizeLocalPolicyResult_def Let_def example_dispatched_def)
  have "\<forall>m. Message m \<in> set [Message (typeMessage ''started'' []), Message example_result_message] \<longrightarrow>
      m \<in> set (lw_out (runWorkerThread example_worker_data example_sandbox))"
    by (simp add: example_thread)
  moreover have "wd_entrypoint example_worker_data = DispatchEntry" "wd_hookType example_worker_data = JStr ''policy''"
    by (simp_all add: example_worker_data_def)
  ultimately have "canonicalFor Policy (js_get example_dispatched ''value'')"
    using local_policy_runs_fail_closed [OF _ _ _ run] by blast
  then show ?thesis using run by simp
qed


end
