(* ===== verification/CpAudit.thy ===== *)
theory CpAudit
  imports JsonRoundtrip IsoDate
begin

text \<open>
  \<open>packages/control-plane/src/audit-log.ts\<close> with the triggers of
  \<open>migrations/0011_immutable_audit_log.sql\<close>: the hash chain of audit events of a tenant and app.

  Arguments: \<open>sha256\<close> (the hexadecimal digest of a text's bytes), \<open>known\<close> (the scopes the foreign key
  admits), \<open>nearest\<close> and \<open>other\<close> of the JSON and date readers. Statements are atomic; an append is a
  machine that makes one statement per step, so concurrent appends are schedules of such machines.
\<close>

definition genesis_hash :: string where
  "genesis_hash = replicate 64 (CHR ''0'')"

definition max_append_attempts :: nat where
  "max_append_attempts = 3"

section \<open>Events and their evidence\<close>

record append_audit_event =
  au_id :: string
  au_tenantId :: string
  au_appId :: string
  au_category :: string
  au_action :: string
  au_actor :: string
  au_resourceType :: string
  au_resourceId :: string
  au_payload :: jsval
  au_createdAt :: "int option"

record audit_event = append_audit_event +
  au_sequence :: nat
  au_previousHash :: string
  au_eventHash :: string

type_synonym audit_scope = "string \<times> string"

definition eventScope :: "('a) append_audit_event_scheme \<Rightarrow> audit_scope" where
  "eventScope e = (au_tenantId e, au_appId e)"

text \<open>Keys in code unit order; an undefined member and a number that is not finite raise.\<close>

fun canonicalJson :: "jsval \<Rightarrow> (string, string) outcome" where
  "canonicalJson JNull = Inr ''null''"
| "canonicalJson (JBool b) = Inr (if b then ''true'' else ''false'')"
| "canonicalJson (JStr s) = Inr (json_quote s)"
| "canonicalJson (JNum n) =
     (if num_is_finite n then Inr (json_number n) else Inl ''audit payload numbers must be finite'')"
| "canonicalJson (JArr xs) =
     bindE (mapE id (map canonicalJson xs)) (\<lambda>ss. Inr (''['' @ join '','' ss @ '']''))"
| "canonicalJson (JObj _ fs) =
     bindE (mapE (\<lambda>p. bindE (snd p) (\<lambda>s. Inr (json_quote (fst p) @ '':'' @ s)))
              (sort_key fst (map (\<lambda>f. (fst f, if snd f = JUndef then Inl ''audit payload must not contain undefined''
                                              else canonicalJson (snd f))) fs)))
       (\<lambda>ss. Inr (CHR 0x7B # join '','' ss @ [CHR 0x7D]))"
| "canonicalJson JUndef = Inl ''Cannot convert undefined or null to object''"
| "canonicalJson _ = Inr [CHR 0x7B, CHR 0x7D]"

definition evidence :: "audit_event \<Rightarrow> int \<Rightarrow> jsval" where
  "evidence e t = JObj PlainObj
     [(''id'', JStr (au_id e)), (''tenantId'', JStr (au_tenantId e)), (''appId'', JStr (au_appId e)),
      (''sequence'', JNum (NInt (int (au_sequence e)))), (''category'', JStr (au_category e)),
      (''action'', JStr (au_action e)), (''actor'', JStr (au_actor e)), (''resourceType'', JStr (au_resourceType e)),
      (''resourceId'', JStr (au_resourceId e)), (''payload'', au_payload e),
      (''previousHash'', JStr (au_previousHash e)), (''createdAt'', JStr (toISOString t))]"

definition evidenceText :: "audit_event \<Rightarrow> (string, string) outcome" where
  "evidenceText e =
     (case au_createdAt e of None \<Rightarrow> Inl ''Invalid time value'' | Some t \<Rightarrow> canonicalJson (evidence e t))"

definition hashAuditEvent :: "(string \<Rightarrow> string) \<Rightarrow> audit_event \<Rightarrow> (string, string) outcome" where
  "hashAuditEvent sha256 e = bindE (evidenceText e) (\<lambda>s. Inr (sha256 s))"

definition validateAuditEvent :: "append_audit_event \<Rightarrow> (string, unit) outcome" where
  "validateAuditEvent e =
     (case List.find (\<lambda>f. trim (snd f) = [])
             [(''id'', au_id e), (''tenantId'', au_tenantId e), (''appId'', au_appId e), (''category'', au_category e),
              (''action'', au_action e), (''actor'', au_actor e), (''resourceType'', au_resourceType e),
              (''resourceId'', au_resourceId e)] of
        Some f \<Rightarrow> Inl (''audit '' @ fst f @ '' must not be empty'')
      | None \<Rightarrow>
          if au_createdAt e = None then Inl ''audit createdAt must be valid''
          else bindE (canonicalJson (au_payload e)) (\<lambda>_. Inr ()))"

section \<open>Verification\<close>

datatype audit_failure = SequenceMismatch | PreviousHashMismatch | EventHashMismatch

datatype audit_verification =
    ValidChain nat string
  | InvalidChain nat string nat audit_failure

fun verifyLoop ::
  "(string \<Rightarrow> string) \<Rightarrow> nat \<Rightarrow> string \<Rightarrow> nat \<Rightarrow> audit_event list \<Rightarrow> (string, audit_verification) outcome" where
  "verifyLoop sha256 n previousHash expected [] = Inr (ValidChain n previousHash)"
| "verifyLoop sha256 n previousHash expected (e # es) =
     (if au_sequence e \<noteq> expected then Inr (InvalidChain n previousHash (au_sequence e) SequenceMismatch)
      else if au_previousHash e \<noteq> previousHash then Inr (InvalidChain n previousHash (au_sequence e) PreviousHashMismatch)
      else bindE (hashAuditEvent sha256 e) (\<lambda>h.
        if au_eventHash e \<noteq> h then Inr (InvalidChain n previousHash (au_sequence e) EventHashMismatch)
        else verifyLoop sha256 n (au_eventHash e) (Suc expected) es))"

definition verifyEvents :: "(string \<Rightarrow> string) \<Rightarrow> audit_event list \<Rightarrow> (string, audit_verification) outcome" where
  "verifyEvents sha256 es = verifyLoop sha256 (length es) genesis_hash 1 es"

section \<open>The database\<close>

record audit_row =
  aw_id :: string
  aw_tenantId :: string
  aw_appId :: string
  aw_sequence :: nat
  aw_category :: string
  aw_action :: string
  aw_actor :: string
  aw_resourceType :: string
  aw_resourceId :: string
  aw_payloadJson :: string
  aw_previousHash :: string
  aw_eventHash :: string
  aw_createdAt :: string

record audit_db =
  ab_heads :: "audit_scope \<Rightarrow> (nat \<times> string) option"
  ab_rows :: "audit_row list"

datatype audit_error =
    InvalidAuditEvent string
  | ChainHeadUnavailable
  | ChainConflict
  | StatementFailed

definition rowScope :: "audit_row \<Rightarrow> audit_scope" where
  "rowScope r = (aw_tenantId r, aw_appId r)"

definition ensureHead :: "(audit_scope \<Rightarrow> bool) \<Rightarrow> audit_scope \<Rightarrow> audit_db \<Rightarrow> audit_db option" where
  "ensureHead known sc db =
     (if \<not> known sc then None
      else Some (case ab_heads db sc of
                   Some _ \<Rightarrow> db
                 | None \<Rightarrow> db\<lparr>ab_heads := (ab_heads db)(sc \<mapsto> (1, genesis_hash))\<rparr>))"

definition jsonObjectText :: "string \<Rightarrow> bool" where
  "jsonObjectText s = (case parse_json id s of Some (JObj _ _) \<Rightarrow> True | _ \<Rightarrow> False)"

text \<open>The constraints of the table.\<close>

definition rowAdmitted :: "(audit_scope \<Rightarrow> bool) \<Rightarrow> audit_db \<Rightarrow> audit_row \<Rightarrow> bool" where
  "rowAdmitted known db r \<longleftrightarrow>
     known (rowScope r) \<and> 1 \<le> aw_sequence r \<and> jsonObjectText (aw_payloadJson r) \<and>
     length (aw_previousHash r) = 64 \<and> length (aw_eventHash r) = 64 \<and>
     aw_id r \<notin> set (map aw_id (ab_rows db)) \<and>
     (rowScope r, aw_sequence r) \<notin> set (map (\<lambda>x. (rowScope x, aw_sequence x)) (ab_rows db))"

text \<open>The insertion with the triggers before and after it.\<close>

definition insertAuditRow ::
  "(audit_scope \<Rightarrow> bool) \<Rightarrow> audit_row \<Rightarrow> audit_db \<Rightarrow> (audit_error, audit_db) outcome" where
  "insertAuditRow known r db =
     (if ab_heads db (rowScope r) \<noteq> Some (aw_sequence r, aw_previousHash r) then Inl ChainConflict
      else if \<not> rowAdmitted known db r then Inl StatementFailed
      else Inr (db\<lparr>ab_rows := ab_rows db @ [r],
                   ab_heads := (ab_heads db)(rowScope r \<mapsto> (Suc (aw_sequence r), aw_eventHash r))\<rparr>))"

definition insertAuditEvent ::
  "(audit_scope \<Rightarrow> bool) \<Rightarrow> audit_event \<Rightarrow> audit_db \<Rightarrow> (audit_error, audit_db) outcome" where
  "insertAuditEvent known e db =
     (case (canonicalJson (au_payload e), au_createdAt e) of
        (Inr payload, Some t) \<Rightarrow>
          insertAuditRow known
            \<lparr>aw_id = au_id e, aw_tenantId = au_tenantId e, aw_appId = au_appId e, aw_sequence = au_sequence e,
             aw_category = au_category e, aw_action = au_action e, aw_actor = au_actor e,
             aw_resourceType = au_resourceType e, aw_resourceId = au_resourceId e, aw_payloadJson = payload,
             aw_previousHash = au_previousHash e, aw_eventHash = au_eventHash e, aw_createdAt = toISOString t\<rparr> db
      | _ \<Rightarrow> Inl (InvalidAuditEvent []))"

definition mapAuditEventRow ::
  "(jsnum \<Rightarrow> jsnum) \<Rightarrow> (string \<Rightarrow> int option) \<Rightarrow> audit_row \<Rightarrow> (string, audit_event) outcome" where
  "mapAuditEventRow nearest other r =
     (case parse_json nearest (aw_payloadJson r) of
        None \<Rightarrow> Inl ''SyntaxError''
      | Some payload \<Rightarrow> Inr
          \<lparr>au_id = aw_id r, au_tenantId = aw_tenantId r, au_appId = aw_appId r, au_category = aw_category r,
           au_action = aw_action r, au_actor = aw_actor r, au_resourceType = aw_resourceType r,
           au_resourceId = aw_resourceId r, au_payload = payload, au_createdAt = dateParse other (aw_createdAt r),
           au_sequence = aw_sequence r, au_previousHash = aw_previousHash r, au_eventHash = aw_eventHash r\<rparr>)"

definition listAuditEvents ::
  "(jsnum \<Rightarrow> jsnum) \<Rightarrow> (string \<Rightarrow> int option) \<Rightarrow> audit_scope \<Rightarrow> audit_db \<Rightarrow> (string, audit_event list) outcome" where
  "listAuditEvents nearest other sc db =
     mapE (mapAuditEventRow nearest other) (sort_key aw_sequence (filter (\<lambda>r. rowScope r = sc) (ab_rows db)))"

definition verifyAuditScope ::
  "(string \<Rightarrow> string) \<Rightarrow> (jsnum \<Rightarrow> jsnum) \<Rightarrow> (string \<Rightarrow> int option) \<Rightarrow> audit_scope \<Rightarrow> audit_db \<Rightarrow>
   (string, audit_verification) outcome" where
  "verifyAuditScope sha256 nearest other sc db = bindE (listAuditEvents nearest other sc db) (verifyEvents sha256)"

section \<open>Appending\<close>

text \<open>Where an append is: before its first statement, before a read, before an insertion, or done.\<close>

datatype append_state =
    Appending
  | ReadingHead nat
  | Inserting nat audit_event
  | Appended audit_event
  | AppendFailed audit_error

definition chainEvent ::
  "(string \<Rightarrow> string) \<Rightarrow> (jsnum \<Rightarrow> jsnum) \<Rightarrow> append_audit_event \<Rightarrow> nat \<times> string \<Rightarrow> (string, audit_event) outcome" where
  "chainEvent sha256 nearest e head =
     bindE (canonicalJson (au_payload e)) (\<lambda>payloadText.
       case parse_json nearest payloadText of
         None \<Rightarrow> Inl ''SyntaxError''
       | Some payload \<Rightarrow>
           let chained = append_audit_event.extend (e\<lparr>au_payload := payload\<rparr>)
                 (audit_event.fields (fst head) (snd head) [])
           in bindE (hashAuditEvent sha256 chained) (\<lambda>h. Inr (chained\<lparr>au_eventHash := h\<rparr>)))"

fun appendStep ::
  "(string \<Rightarrow> string) \<Rightarrow> (jsnum \<Rightarrow> jsnum) \<Rightarrow> (audit_scope \<Rightarrow> bool) \<Rightarrow> append_audit_event \<Rightarrow> append_state \<Rightarrow> audit_db \<Rightarrow>
   append_state \<times> audit_db" where
  "appendStep sha256 nearest known e Appending db =
     (case validateAuditEvent e of
        Inl m \<Rightarrow> (AppendFailed (InvalidAuditEvent m), db)
      | Inr _ \<Rightarrow>
          (case ensureHead known (eventScope e) db of
             None \<Rightarrow> (AppendFailed StatementFailed, db)
           | Some db' \<Rightarrow> (ReadingHead 1, db')))"
| "appendStep sha256 nearest known e (ReadingHead attempt) db =
     (case ab_heads db (eventScope e) of
        None \<Rightarrow> (AppendFailed ChainHeadUnavailable, db)
      | Some head \<Rightarrow>
          (case chainEvent sha256 nearest e head of
             Inl m \<Rightarrow> (AppendFailed (InvalidAuditEvent m), db)
           | Inr chained \<Rightarrow> (Inserting attempt chained, db)))"
| "appendStep sha256 nearest known e (Inserting attempt chained) db =
     (case insertAuditEvent known chained db of
        Inr db' \<Rightarrow> (Appended chained, db')
      | Inl err \<Rightarrow>
          if err \<noteq> ChainConflict \<or> attempt = max_append_attempts then (AppendFailed err, db)
          else (ReadingHead (Suc attempt), db))"
| "appendStep sha256 nearest known e done_state db = (done_state, db)"

text \<open>A list of clients, each with its event and state; a schedule names the client that moves.\<close>

type_synonym audit_clients = "(append_audit_event \<times> append_state) list"

definition clientMoves ::
  "(string \<Rightarrow> string) \<Rightarrow> (jsnum \<Rightarrow> jsnum) \<Rightarrow> (audit_scope \<Rightarrow> bool) \<Rightarrow> audit_clients \<times> audit_db \<Rightarrow> nat \<Rightarrow>
   audit_clients \<times> audit_db" where
  "clientMoves sha256 nearest known s i =
     (if i < length (fst s)
      then (case appendStep sha256 nearest known (fst (fst s ! i)) (snd (fst s ! i)) (snd s) of
              (st, db) \<Rightarrow> ((fst s)[i := (fst (fst s ! i), st)], db))
      else s)"

definition auditRun ::
  "(string \<Rightarrow> string) \<Rightarrow> (jsnum \<Rightarrow> jsnum) \<Rightarrow> (audit_scope \<Rightarrow> bool) \<Rightarrow> append_audit_event list \<Rightarrow> nat list \<Rightarrow>
   audit_clients \<times> audit_db" where
  "auditRun sha256 nearest known events schedule =
     foldl (clientMoves sha256 nearest known)
       (map (\<lambda>e. (e, Appending)) events, \<lparr>ab_heads = (\<lambda>_. None), ab_rows = []\<rparr>) schedule"

end
