(* ===== verification/CpAuditProperties.thy ===== *)
theory CpAuditProperties
  imports CpAudit
begin

text \<open>
  The audit log keeps one linear, verifiable chain per tenant and app however appends interleave, and
  a verified chain determines its evidence.
\<close>

section \<open>The canonical form of a payload\<close>

fun canonical :: "jsval \<Rightarrow> jsval" where
  "canonical (JArr xs) = JArr (map canonical xs)"
| "canonical (JObj _ fs) = JObj PlainObj (sort_key fst (map (\<lambda>f. (fst f, canonical (snd f))) fs))"
| "canonical v = v"

lemma sort_fields: "sort_key fst (map (\<lambda>f. (fst f, h (snd f))) fs) = map (\<lambda>f. (fst f, h (snd f))) (sort_key fst fs)"
  for fs :: "(string \<times> 'b) list"
  using sort_key_map_fst [of id h fs] by simp

lemma readable_member: "json_readable nearest (JObj kind fs) \<Longrightarrow> f \<in> set fs \<Longrightarrow> json_readable nearest (snd f)"
  by (simp add: list_all_iff)

lemma canonicalJson_text:
  "json_readable nearest v \<Longrightarrow> canonicalJson v = Inr (serializeJsonValue (canonical v))"
proof (induction v)
  case (JNum n)
  then show ?case by (cases n) simp_all
next
  case (JArr xs)
  have "mapE id (map canonicalJson xs) = Inr (map (\<lambda>x. serializeJsonValue (canonical x)) xs)"
    using JArr by (induction xs) auto
  then show ?case by (simp add: comp_def)
next
  case (JObj kind fs)
  define g where "g x = (if x = JUndef then Inl ''audit payload must not contain undefined'' else canonicalJson x)" for x
  have g: "g (snd f) = Inr (serializeJsonValue (canonical (snd f)))" if "f \<in> set fs" for f
  proof -
    have r: "json_readable nearest (snd f)" using readable_member [OF JObj.prems that] .
    then have "snd f \<noteq> JUndef" by auto
    then show ?thesis using JObj.IH [of f "snd f"] that r by (cases f) (simp add: g_def)
  qed
  have "mapE (\<lambda>p. bindE (snd p) (\<lambda>s. Inr (json_quote (fst p) @ '':'' @ s))) (map (\<lambda>f. (fst f, g (snd f))) (sort_key fst fs)) =
      Inr (map (\<lambda>f. json_quote (fst f) @ '':'' @ serializeJsonValue (canonical (snd f))) (sort_key fst fs))"
  proof -
    have "set ys \<subseteq> set fs \<Longrightarrow> mapE (\<lambda>p. bindE (snd p) (\<lambda>s. Inr (json_quote (fst p) @ '':'' @ s))) (map (\<lambda>f. (fst f, g (snd f))) ys) =
      Inr (map (\<lambda>f. json_quote (fst f) @ '':'' @ serializeJsonValue (canonical (snd f))) ys)" for ys
      by (induction ys) (simp_all add: g)
    then show ?thesis by simp
  qed
  then show ?case
    unfolding canonicalJson.simps canonical.simps sort_fields g_def [symmetric]
    by (simp add: sort_fields comp_def)
qed auto

lemma distinct_sort_key: "distinct (map fst (sort_key fst fs)) = distinct (map fst fs)" for fs :: "(string \<times> 'b) list"
  by (metis mset_map mset_sort mset_eq_imp_distinct_iff)

lemma canonical_readable: "json_readable nearest v \<Longrightarrow> json_readable nearest (canonical v)"
proof (induction v)
  case (JObj kind fs)
  have "json_readable nearest (canonical (snd f))" if "f \<in> set fs" for f
    using JObj.IH [of f "snd f"] readable_member [OF JObj.prems that] that by (cases f) simp
  moreover have "distinct (map fst (sort_key fst (map (\<lambda>f. (fst f, canonical (snd f))) fs)))"
    unfolding distinct_sort_key using JObj.prems by (simp add: comp_def)
  ultimately show ?case by (auto simp: list_all_iff)
qed (auto simp: list_all_iff)

text \<open>With distinct keys the sorted fields depend only on the set of fields.\<close>

lemma sort_key_perm:
  fixes xs ys :: "(string \<times> 'b) list"
  assumes "distinct (map fst xs)" "distinct (map fst ys)" "set xs = set ys"
  shows "sort_key fst xs = sort_key fst ys"
proof -
  have "inj_on fst (set xs)" using assms(1) by (simp add: distinct_map)
  moreover have "mset xs = mset ys" using assms by (simp add: set_eq_iff_mset_eq_distinct distinct_map)
  ultimately show ?thesis by (metis sort_key_inj_key_eq sorted_sort_key mset_sort)
qed

lemma key_order_perm: "set (key_order fs) = set fs" "distinct (map fst fs) \<Longrightarrow> distinct (map fst (key_order fs))"
proof -
  show s: "set (key_order fs) = set fs" by (auto simp: key_order_def)
  have "mset (key_order fs) = mset fs" by (simp add: key_order_def)
  then show "distinct (map fst fs) \<Longrightarrow> distinct (map fst (key_order fs))"
    by (metis mset_map mset_eq_imp_distinct_iff)
qed

lemma canonical_read: "json_readable nearest v \<Longrightarrow> canonical (read_copy v) = canonical v"
proof (induction v)
  case (JArr xs)
  then show ?case by (auto simp: list_all_iff)
next
  case (JObj kind fs)
  have sub: "canonical (read_copy (snd f)) = canonical (snd f)" if "f \<in> set fs" for f
    using JObj.IH [of f "snd f"] readable_member [OF JObj.prems that] that by (cases f) simp
  let ?ms = "key_order (map (\<lambda>f. (fst f, read_copy (snd f))) fs)"
  have d: "distinct (map fst fs)" using JObj.prems by simp
  have "sort_key fst (map (\<lambda>f. (fst f, canonical (snd f))) ?ms) = sort_key fst (map (\<lambda>f. (fst f, canonical (snd f))) fs)"
  proof (rule sort_key_perm)
    show "distinct (map fst (map (\<lambda>f. (fst f, canonical (snd f))) ?ms))"
      using key_order_perm(2) [of "map (\<lambda>f. (fst f, read_copy (snd f))) fs"] d by (simp add: comp_def)
    show "distinct (map fst (map (\<lambda>f. (fst f, canonical (snd f))) fs))" using d by (simp add: comp_def)
    show "set (map (\<lambda>f. (fst f, canonical (snd f))) ?ms) = set (map (\<lambda>f. (fst f, canonical (snd f))) fs)"
      using sub by (auto simp: key_order_perm(1) image_image)
  qed
  then show ?case by simp
qed auto

lemma canonical_idem: "json_readable nearest v \<Longrightarrow> canonical (canonical v) = canonical v"
proof (induction v)
  case (JArr xs)
  then show ?case by (auto simp: list_all_iff)
next
  case (JObj kind fs)
  have sub: "canonical (canonical (snd f)) = canonical (snd f)" if "f \<in> set fs" for f
    using JObj.IH [of f "snd f"] readable_member [OF JObj.prems that] that by (cases f) simp
  then have "map (\<lambda>f. (fst f, canonical (snd f))) (sort_key fst (map (\<lambda>f. (fst f, canonical (snd f))) fs)) =
      sort_key fst (map (\<lambda>f. (fst f, canonical (snd f))) fs)"
    by (simp add: sort_fields)
  then show ?case by (simp add: sort_key_id_if_sorted)
qed auto

lemma read_readable: "json_readable nearest v \<Longrightarrow> json_readable nearest (read_copy v)"
proof (induction v)
  case (JArr xs)
  then show ?case by (auto simp: list_all_iff)
next
  case (JObj kind fs)
  have "json_readable nearest (read_copy (snd f))" if "f \<in> set fs" for f
    using JObj.IH [of f "snd f"] readable_member [OF JObj.prems that] that by (cases f) simp
  then show ?case
    using JObj.prems key_order_perm(2) [of "map (\<lambda>f. (fst f, read_copy (snd f))) fs"]
    by (auto simp: list_all_iff key_order_perm(1) comp_def)
qed auto

text \<open>What the clone of a payload is: canonical, readable, and its own clone.\<close>

lemma clone_payload:
  assumes "json_readable nearest p"
  defines "q \<equiv> read_copy (canonical p)"
  shows "parse_json nearest (serializeJsonValue (canonical p)) = Some q" "canonicalJson q = canonicalJson p"
    "json_readable nearest q"
proof -
  have c: "json_readable nearest (canonical p)" using canonical_readable [OF assms(1)] .
  then show "parse_json nearest (serializeJsonValue (canonical p)) = Some q" "json_readable nearest q"
    unfolding q_def by (simp_all add: parse_json_readable read_readable)
  then have "canonicalJson q = Inr (serializeJsonValue (canonical q))" using canonicalJson_text by blast
  moreover have "canonical q = canonical p"
    unfolding q_def canonical_read [OF c] canonical_idem [OF assms(1)] ..
  ultimately show "canonicalJson q = canonicalJson p" using canonicalJson_text [OF assms(1)] by simp
qed

section \<open>Evidence\<close>

text \<open>The field of an object that its canonical text carries.\<close>

lemma canonical_field:
  assumes "json_readable nearest (JObj kind fs)"
  shows "\<exists>gs. read_copy (canonical (JObj kind fs)) = JObj PlainObj gs \<and>
    (\<forall>k. map_of gs k = map_option (\<lambda>v. read_copy (canonical v)) (map_of fs k))"
proof -
  define hs where "hs = map (\<lambda>f. (fst f, read_copy (canonical (snd f)))) fs"
  define gs where "gs = key_order (map (\<lambda>f. (fst f, read_copy (snd f))) (sort_key fst (map (\<lambda>f. (fst f, canonical (snd f))) fs)))"
  have d: "distinct (map fst hs)" using assms by (simp add: hs_def comp_def)
  have gs: "gs = key_order (sort_key fst hs)"
    unfolding gs_def hs_def sort_fields sort_fields [of "\<lambda>x. read_copy (canonical x)"] by (simp add: comp_def)
  have "distinct (map fst gs)" "set gs = set hs"
    unfolding gs using d by (simp_all add: key_order_perm distinct_sort_key)
  then have "map_of gs = map_of hs" using d by (simp add: map_of_inject_set)
  moreover have "map_of hs k = map_option (\<lambda>v. read_copy (canonical v)) (map_of fs k)" for k
    unfolding hs_def by (induction fs) auto
  moreover have "read_copy (canonical (JObj kind fs)) = JObj PlainObj gs" by (simp add: gs_def)
  ultimately show ?thesis by metis
qed

definition payloadOk :: "(jsnum \<Rightarrow> jsnum) \<Rightarrow> jsval \<Rightarrow> bool" where
  "payloadOk nearest p \<longleftrightarrow> json_readable nearest p \<and> (\<exists>fs. p = JObj PlainObj fs)"

lemma evidence_readable: "json_readable nearest (au_payload e) \<Longrightarrow> nearest = id \<Longrightarrow> json_readable nearest (evidence e t)"
  by (simp add: evidence_def)

text \<open>Two events with the same evidence differ in nothing that the chain covers.\<close>

definition sameEvidence :: "audit_event \<Rightarrow> audit_event \<Rightarrow> bool" where
  "sameEvidence a b \<longleftrightarrow>
     au_id a = au_id b \<and> au_tenantId a = au_tenantId b \<and> au_appId a = au_appId b \<and> au_sequence a = au_sequence b \<and>
     au_category a = au_category b \<and> au_action a = au_action b \<and> au_actor a = au_actor b \<and>
     au_resourceType a = au_resourceType b \<and> au_resourceId a = au_resourceId b \<and>
     au_previousHash a = au_previousHash b \<and> au_eventHash a = au_eventHash b \<and>
     map_option toISOString (au_createdAt a) = map_option toISOString (au_createdAt b) \<and>
     canonicalJson (au_payload a) = canonicalJson (au_payload b)"

lemma readable_id: "json_readable nearest v \<Longrightarrow> json_readable id v"
  by (induction v) (auto simp: list_all_iff)

lemma evidence_determines:
  assumes "json_readable nearest (au_payload a)" "json_readable nearest (au_payload b)"
    "evidenceText a = Inr s" "evidenceText b = Inr s" "au_eventHash a = au_eventHash b"
  shows "sameEvidence a b"
proof -
  obtain t u where t: "au_createdAt a = Some t" "au_createdAt b = Some u"
    "canonicalJson (evidence a t) = Inr s" "canonicalJson (evidence b u) = Inr s"
    using assms(3,4) by (auto simp: evidenceText_def split: option.splits)
  have pay: "json_readable id (au_payload a)" "json_readable id (au_payload b)"
    using assms(1,2) readable_id by blast+
  then have r: "json_readable id (evidence a t)" "json_readable id (evidence b u)"
    by (simp_all add: evidence_def)
  have "read_copy (canonical (evidence a t)) = read_copy (canonical (evidence b u))"
    using t(3,4) canonicalJson_text [OF r(1)] canonicalJson_text [OF r(2)]
      parse_json_readable [OF canonical_readable [OF r(1)]] parse_json_readable [OF canonical_readable [OF r(2)]] by simp
  then have eq: "map_option (\<lambda>v. read_copy (canonical v)) (map_of (own_entries (evidence a t)) k) =
      map_option (\<lambda>v. read_copy (canonical v)) (map_of (own_entries (evidence b u)) k)" for k
    using canonical_field [OF r(1) [unfolded evidence_def]] canonical_field [OF r(2) [unfolded evidence_def]]
    by (auto simp: evidence_def)
  have payload: "read_copy (canonical (au_payload a)) = read_copy (canonical (au_payload b))"
    using eq [of "''payload''"] by (simp add: evidence_def)
  have "canonicalJson (au_payload a) = canonicalJson (au_payload b)"
    using clone_payload(2) [OF pay(1)] clone_payload(2) [OF pay(2)] payload by simp
  then show ?thesis
    using eq [of "''id''"] eq [of "''tenantId''"] eq [of "''appId''"] eq [of "''sequence''"] eq [of "''category''"]
      eq [of "''action''"] eq [of "''actor''"] eq [of "''resourceType''"] eq [of "''resourceId''"]
      eq [of "''previousHash''"] eq [of "''createdAt''"] t(1,2) assms(5)
    by (simp add: sameEvidence_def evidence_def)
qed

section \<open>Verified chains\<close>

lemma verifyLoop_snoc:
  "verifyLoop sha256 n p k (es @ [e]) = Inr (ValidChain m h) \<longleftrightarrow>
     verifyLoop sha256 n p k es = Inr (ValidChain m (au_previousHash e)) \<and> au_sequence e = k + length es \<and>
     hashAuditEvent sha256 e = Inr (au_eventHash e) \<and> h = au_eventHash e"
proof (induction es arbitrary: p k)
  case Nil
  then show ?case by (cases "hashAuditEvent sha256 e") auto
next
  case (Cons x es)
  then show ?case by (cases "hashAuditEvent sha256 x") auto
qed

lemma hash_Inr: "hashAuditEvent sha256 e = Inr h \<longleftrightarrow> (\<exists>s. evidenceText e = Inr s \<and> h = sha256 s)"
  by (auto simp: hashAuditEvent_def bindE_Inr)

text \<open>The evidence texts of a list of events.\<close>

definition evidenceTexts :: "audit_event list \<Rightarrow> string set" where
  "evidenceTexts es = {s. \<exists>e \<in> set es. evidenceText e = Inr s}"

text \<open>
  C31: A verified chain cannot be altered. If two lists of events verify with the same final hash,
  and the digest has no collision among their evidence, then they hold the same evidence: nothing was
  changed, added, removed or reordered.
\<close>

theorem audit_chain_tamper_evident:
  assumes "verifyEvents sha256 as = Inr (ValidChain n h)" "verifyEvents sha256 bs = Inr (ValidChain m h)"
    and "inj_on sha256 (evidenceTexts (as @ bs))" "genesis_hash \<notin> sha256 ` evidenceTexts (as @ bs)"
    and "\<forall>e \<in> set (as @ bs). json_readable nearest (au_payload e)"
  shows "list_all2 sameEvidence as bs"
proof -
  have "verifyLoop sha256 i genesis_hash 1 as = Inr (ValidChain i' h) \<Longrightarrow>
      verifyLoop sha256 j genesis_hash 1 bs = Inr (ValidChain j' h) \<Longrightarrow>
      inj_on sha256 (evidenceTexts (as @ bs)) \<Longrightarrow> genesis_hash \<notin> sha256 ` evidenceTexts (as @ bs) \<Longrightarrow>
      \<forall>e \<in> set (as @ bs). json_readable nearest (au_payload e) \<Longrightarrow> list_all2 sameEvidence as bs" for i i' j j'
  proof (induction as arbitrary: bs h i' j' rule: rev_induct)
    case Nil
    show ?case
    proof (cases bs rule: rev_cases)
      case (snoc ys b)
      then obtain s where "evidenceText b = Inr s" "h = sha256 s"
        using Nil.prems(2) by (auto simp: verifyLoop_snoc hash_Inr)
      moreover have "h = genesis_hash" using Nil.prems(1) by simp
      ultimately show ?thesis using Nil.prems(4) snoc by (auto simp: evidenceTexts_def)
    qed simp
  next
    case (snoc a xs)
    obtain s where s: "evidenceText a = Inr s" "h = sha256 s" "au_eventHash a = h"
      "verifyLoop sha256 i genesis_hash 1 xs = Inr (ValidChain i' (au_previousHash a))"
      using snoc.prems(1) by (auto simp: verifyLoop_snoc hash_Inr)
    show ?case
    proof (cases bs rule: rev_cases)
      case Nil
      then show ?thesis using snoc.prems(2,4) s(1,2) by (auto simp: evidenceTexts_def)
    next
      case (snoc ys b)
      obtain u where u: "evidenceText b = Inr u" "h = sha256 u" "au_eventHash b = h"
        "verifyLoop sha256 j genesis_hash 1 ys = Inr (ValidChain j' (au_previousHash b))"
        using snoc.prems(2) snoc by (auto simp: verifyLoop_snoc hash_Inr)
      have "s = u"
        using snoc.prems(3) s(1,2) u(1,2) snoc by (auto simp: evidenceTexts_def dest: inj_onD)
      then have same: "sameEvidence a b"
        using evidence_determines [of nearest a b s] snoc.prems(5) snoc s u by auto
      have sub: "evidenceTexts (xs @ ys) \<subseteq> evidenceTexts ((xs @ [a]) @ bs)"
        using snoc by (auto simp: evidenceTexts_def)
      have "list_all2 sameEvidence xs ys"
      proof (rule snoc.IH)
        show "verifyLoop sha256 j genesis_hash 1 ys = Inr (ValidChain j' (au_previousHash a))"
          using u(4) same by (simp add: sameEvidence_def)
        show "inj_on sha256 (evidenceTexts (xs @ ys))" using snoc.prems(3) sub by (meson inj_on_subset)
        show "genesis_hash \<notin> sha256 ` evidenceTexts (xs @ ys)" using snoc.prems(4) sub by blast
      qed (use s(4) snoc.prems(5) snoc in auto)
      then show ?thesis using same snoc by (simp add: list_all2_appendI)
    qed
  qed
  then show ?thesis using assms unfolding verifyEvents_def by blast
qed

section \<open>Appends in any order\<close>

text \<open>Events as \<open>append\<close> chains them: the payload is a clone and the date one that a text denotes.\<close>

definition chainable :: "(jsnum \<Rightarrow> jsnum) \<Rightarrow> audit_event \<Rightarrow> bool" where
  "chainable nearest e \<longleftrightarrow>
     (\<exists>s fs. canonicalJson (au_payload e) = Inr s \<and> parse_json nearest s = Some (au_payload e) \<and>
        parse_json id s = Some (JObj PlainObj fs)) \<and>
     (\<exists>t. au_createdAt e = Some t \<and> iso_year_ok t)"

definition eventOk :: "(jsnum \<Rightarrow> jsnum) \<Rightarrow> append_audit_event \<Rightarrow> bool" where
  "eventOk nearest e \<longleftrightarrow> payloadOk nearest (au_payload e) \<and> (\<forall>t. au_createdAt e = Some t \<longrightarrow> iso_year_ok t)"

definition chainRow :: "audit_event \<Rightarrow> audit_row" where
  "chainRow e =
     \<lparr>aw_id = au_id e, aw_tenantId = au_tenantId e, aw_appId = au_appId e, aw_sequence = au_sequence e,
      aw_category = au_category e, aw_action = au_action e, aw_actor = au_actor e,
      aw_resourceType = au_resourceType e, aw_resourceId = au_resourceId e,
      aw_payloadJson = (case canonicalJson (au_payload e) of Inr s \<Rightarrow> s | Inl _ \<Rightarrow> []),
      aw_previousHash = au_previousHash e, aw_eventHash = au_eventHash e,
      aw_createdAt = (case au_createdAt e of Some t \<Rightarrow> toISOString t | None \<Rightarrow> [])\<rparr>"

lemma rowScope_chainRow [simp]: "rowScope (chainRow e) = eventScope e"
  by (simp add: rowScope_def chainRow_def eventScope_def)

lemma chainRow_fields [simp]:
  "aw_sequence (chainRow e) = au_sequence e" "aw_previousHash (chainRow e) = au_previousHash e"
  "aw_eventHash (chainRow e) = au_eventHash e"
  by (simp_all add: chainRow_def)

lemma map_chainRow: "chainable nearest e \<Longrightarrow> mapAuditEventRow nearest other (chainRow e) = Inr e"
  by (auto simp: chainable_def mapAuditEventRow_def chainRow_def dateParse_toISOString)

lemma insert_chainRow: "chainable nearest e \<Longrightarrow> insertAuditEvent known e db = insertAuditRow known (chainRow e) db"
  by (auto simp: chainable_def insertAuditEvent_def chainRow_def)

lemma chainEvent_ok:
  assumes "chainEvent sha256 nearest e (n, h) = Inr c" "eventOk nearest e"
    "au_createdAt e \<noteq> None"
  shows "chainable nearest c" "hashAuditEvent sha256 c = Inr (au_eventHash c)" "eventScope c = eventScope e"
    "au_sequence c = n" "au_previousHash c = h"
proof -
  have p: "json_readable nearest (au_payload e)" "json_readable id (au_payload e)"
    using assms(2) readable_id by (auto simp: eventOk_def payloadOk_def)
  define q where "q = read_copy (canonical (au_payload e))"
  note q = clone_payload [OF p(1), folded q_def] and q' = clone_payload [OF p(2), folded q_def]
  have cj: "canonicalJson (au_payload e) = Inr (serializeJsonValue (canonical (au_payload e)))"
    using canonicalJson_text [OF p(1)] .
  let ?c = "append_audit_event.extend (e\<lparr>au_payload := q\<rparr>) (audit_event.fields n h [])"
  obtain x where x: "hashAuditEvent sha256 ?c = Inr x" "c = ?c\<lparr>au_eventHash := x\<rparr>"
    using assms(1) q(1) by (auto simp: chainEvent_def cj bindE_Inr Let_def)
  have "hashAuditEvent sha256 c = hashAuditEvent sha256 ?c"
    unfolding x(2) hashAuditEvent_def evidenceText_def by (simp add: evidence_def split: option.split)
  then show "hashAuditEvent sha256 c = Inr (au_eventHash c)" using x by simp
  obtain t where t: "au_createdAt e = Some t" "iso_year_ok t" using assms(2,3) by (auto simp: eventOk_def)
  obtain fs where "q = JObj PlainObj fs"
    using assms(2) by (auto simp: q_def eventOk_def payloadOk_def)
  then have "canonicalJson q = Inr (serializeJsonValue (canonical (au_payload e)))"
    "parse_json id (serializeJsonValue (canonical (au_payload e))) = Some (JObj PlainObj fs)"
    using q(2) q'(1) cj by simp_all
  then show "chainable nearest c"
    using q(1) t by (simp add: chainable_def x(2) append_audit_event.defs audit_event.defs)
  show "eventScope c = eventScope e" "au_sequence c = n" "au_previousHash c = h"
    by (simp_all add: x(2) eventScope_def append_audit_event.defs audit_event.defs)
qed

definition appendedEvents :: "audit_clients \<Rightarrow> audit_event list" where
  "appendedEvents cs = concat (map (\<lambda>c. case snd c of Appended e \<Rightarrow> [e] | _ \<Rightarrow> []) cs)"

lemma appended_update:
  assumes "i < length cs" "\<forall>e. snd (cs ! i) \<noteq> Appended e"
  shows "mset (appendedEvents (cs[i := (x, st)])) =
     (case st of Appended e \<Rightarrow> {#e#} | _ \<Rightarrow> {#}) + mset (appendedEvents cs)"
proof -
  obtain xs y ys where cs: "cs = xs @ y # ys" "length xs = i"
    using assms(1) by (metis id_take_nth_drop length_take min.absorb4)
  have "(case snd y of Appended e \<Rightarrow> [e] | _ \<Rightarrow> []) = []"
    using assms(2) cs by (cases "snd y") auto
  then show ?thesis
    unfolding appendedEvents_def using cs by (simp add: list_update_append split: append_state.split)
qed

text \<open>The chain of a scope: its rows in storage order are the rows of a verified list of events.\<close>

definition scopeChain ::
  "(string \<Rightarrow> string) \<Rightarrow> (jsnum \<Rightarrow> jsnum) \<Rightarrow> audit_scope \<Rightarrow> audit_db \<Rightarrow> bool" where
  "scopeChain sha256 nearest sc db \<longleftrightarrow>
     (\<exists>es h. filter (\<lambda>r. rowScope r = sc) (ab_rows db) = map chainRow es \<and> list_all (chainable nearest) es \<and>
        verifyLoop sha256 (length es) genesis_hash 1 es = Inr (ValidChain (length es) h) \<and>
        (case ab_heads db sc of None \<Rightarrow> es = [] | Some head \<Rightarrow> head = (Suc (length es), h)))"

lemma verifyLoop_count: "verifyLoop sha256 n p k es = Inr (ValidChain m h) \<Longrightarrow> m = n"
  by (induction es arbitrary: p k) (auto simp: bindE_Inr split: if_splits)

lemma verifyLoop_any: "verifyLoop sha256 n p k es = Inr (ValidChain n h) \<Longrightarrow> verifyLoop sha256 m p k es = Inr (ValidChain m h)"
  by (induction es arbitrary: p k) (auto simp: bindE_Inr split: if_splits)

definition clientOk :: "(string \<Rightarrow> string) \<Rightarrow> (jsnum \<Rightarrow> jsnum) \<Rightarrow> append_audit_event \<times> append_state \<Rightarrow> bool" where
  "clientOk sha256 nearest c \<longleftrightarrow>
     eventOk nearest (fst c) \<and>
     (case snd c of
        ReadingHead _ \<Rightarrow> au_createdAt (fst c) \<noteq> None
      | Inserting _ e \<Rightarrow> chainable nearest e \<and> hashAuditEvent sha256 e = Inr (au_eventHash e) \<and>
          eventScope e = eventScope (fst c) \<and> au_createdAt (fst c) \<noteq> None
      | _ \<Rightarrow> True)"

definition auditInvariant :: "(string \<Rightarrow> string) \<Rightarrow> (jsnum \<Rightarrow> jsnum) \<Rightarrow> audit_clients \<times> audit_db \<Rightarrow> bool" where
  "auditInvariant sha256 nearest s \<longleftrightarrow>
     (\<forall>sc. scopeChain sha256 nearest sc (snd s)) \<and> list_all (clientOk sha256 nearest) (fst s) \<and>
     mset (map chainRow (appendedEvents (fst s))) = mset (ab_rows (snd s))"

lemma ensureHead_chain:
  "ensureHead known sc db = Some db' \<Longrightarrow> scopeChain sha256 nearest sc' db \<Longrightarrow> scopeChain sha256 nearest sc' db'"
  by (auto simp: ensureHead_def scopeChain_def split: if_splits option.splits)

lemma insert_chain:
  assumes "insertAuditRow known (chainRow e) db = Inr db'" "chainable nearest e" "hashAuditEvent sha256 e = Inr (au_eventHash e)"
    "scopeChain sha256 nearest sc db"
  shows "scopeChain sha256 nearest sc db'"
proof -
  have head: "ab_heads db (eventScope e) = Some (au_sequence e, au_previousHash e)"
    and db': "db' = db\<lparr>ab_rows := ab_rows db @ [chainRow e], ab_heads := (ab_heads db)(eventScope e \<mapsto> (Suc (au_sequence e), au_eventHash e))\<rparr>"
    using assms(1) by (auto simp: insertAuditRow_def split: if_splits)
  show ?thesis
  proof (cases "sc = eventScope e")
    case False
    then show ?thesis using assms(4) by (auto simp: scopeChain_def db')
  next
    case True
    obtain es h where es: "filter (\<lambda>r. rowScope r = sc) (ab_rows db) = map chainRow es" "list_all (chainable nearest) es"
      "verifyLoop sha256 (length es) genesis_hash 1 es = Inr (ValidChain (length es) h)"
      "(au_sequence e, au_previousHash e) = (Suc (length es), h)"
      using assms(4) head True by (auto simp: scopeChain_def)
    have "verifyLoop sha256 (Suc (length es)) genesis_hash 1 es = Inr (ValidChain (Suc (length es)) h)"
      using verifyLoop_any [OF es(3)] .
    then have "verifyLoop sha256 (length (es @ [e])) genesis_hash 1 (es @ [e]) =
        Inr (ValidChain (length (es @ [e])) (au_eventHash e))"
      using es(4) assms(3) by (simp add: verifyLoop_snoc)
    moreover have "filter (\<lambda>r. rowScope r = sc) (ab_rows db') = map chainRow (es @ [e])"
      using es(1) True by (simp add: db')
    moreover have "list_all (chainable nearest) (es @ [e])" using es(2) assms(2) by simp
    moreover have "ab_heads db' sc = Some (Suc (length (es @ [e])), au_eventHash e)"
      using es(4) True by (simp add: db')
    ultimately show ?thesis unfolding scopeChain_def by (intro exI [of _ "es @ [e]"] exI [of _ "au_eventHash e"]) simp
  qed
qed


lemma insert_rows: "insertAuditRow known r db = Inr db' \<Longrightarrow> ab_rows db' = ab_rows db @ [r]"
  by (auto simp: insertAuditRow_def split: if_splits)

text \<open>One statement of one append.\<close>

lemma appendStep_ok:
  assumes "clientOk sha256 nearest (e, st)" "\<And>sc. scopeChain sha256 nearest sc db"
    "appendStep sha256 nearest known e st db = (st', db')" "\<forall>c. st \<noteq> Appended c"
  shows "clientOk sha256 nearest (e, st') \<and> (\<forall>sc. scopeChain sha256 nearest sc db') \<and>
    ab_rows db' = ab_rows db @ (case st' of Appended c \<Rightarrow> [chainRow c] | _ \<Rightarrow> [])"
proof (cases st)
  case Appending
  show ?thesis
  proof (cases "validateAuditEvent e")
    case (Inl m)
    then show ?thesis using assms Appending by (auto simp: clientOk_def)
  next
    case (Inr u)
    then have d: "au_createdAt e \<noteq> None"
      by (auto simp: validateAuditEvent_def split: option.splits if_splits)
    show ?thesis
    proof (cases "ensureHead known (eventScope e) db")
      case None
      then show ?thesis using assms Appending Inr by (auto simp: clientOk_def)
    next
      case (Some db2)
      moreover have "ab_rows db2 = ab_rows db"
        using Some by (auto simp: ensureHead_def split: if_splits option.splits)
      ultimately show ?thesis
        using assms Appending Inr d ensureHead_chain [OF Some] by (auto simp: clientOk_def)
    qed
  qed
next
  case (ReadingHead k)
  show ?thesis
  proof (cases "ab_heads db (eventScope e)")
    case None
    then show ?thesis using assms ReadingHead by (auto simp: clientOk_def)
  next
    case (Some head)
    have ok: "eventOk nearest e" "au_createdAt e \<noteq> None"
      using assms(1) ReadingHead by (auto simp: clientOk_def)
    show ?thesis
    proof (cases "chainEvent sha256 nearest e head")
      case (Inl m)
      then show ?thesis using assms ReadingHead Some by (auto simp: clientOk_def)
    next
      case (Inr c)
      then show ?thesis
        using assms ReadingHead Some ok chainEvent_ok [of sha256 nearest e "fst head" "snd head" c]
        by (auto simp: clientOk_def)
    qed
  qed
next
  case (Inserting k c)
  have c: "chainable nearest c" "hashAuditEvent sha256 c = Inr (au_eventHash c)"
    "eventOk nearest e" "au_createdAt e \<noteq> None"
    using assms(1) Inserting by (auto simp: clientOk_def)
  show ?thesis
  proof (cases "insertAuditRow known (chainRow c) db")
    case (Inl err)
    then show ?thesis
      using assms Inserting insert_chainRow [OF c(1), of known db] c(3,4) by (auto simp: clientOk_def split: if_splits)
  next
    case (Inr db2)
    then show ?thesis
      using assms Inserting insert_chainRow [OF c(1), of known db] c insert_chain [OF Inr c(1,2)] insert_rows [OF Inr]
      by (auto simp: clientOk_def)
  qed
qed (use assms in \<open>auto simp: clientOk_def\<close>)

lemma clientMoves_invariant:
  assumes "auditInvariant sha256 nearest s"
  shows "auditInvariant sha256 nearest (clientMoves sha256 nearest known s i)"
proof (cases "i < length (fst s) \<and> (\<forall>c. snd (fst s ! i) \<noteq> Appended c)")
  case False
  have "clientMoves sha256 nearest known s i = s"
  proof (cases "i < length (fst s)")
    case True
    then obtain e c where "fst s ! i = (e, Appended c)" using False by (cases "fst s ! i") auto
    then show ?thesis using True by (metis (mono_tags, lifting) appendStep.simps(4) case_prod_conv clientMoves_def fst_conv
          list_update_id prod.collapse snd_conv)
  qed (simp add: clientMoves_def)
  then show ?thesis using assms by simp
next
  case True
  obtain cs db where s: "s = (cs, db)" by (cases s)
  obtain e st where c: "cs ! i = (e, st)" by (cases "cs ! i")
  obtain st' db' where step: "appendStep sha256 nearest known e st db = (st', db')" by fastforce
  have inv: "\<And>sc. scopeChain sha256 nearest sc db" "list_all (clientOk sha256 nearest) cs"
    "mset (map chainRow (appendedEvents cs)) = mset (ab_rows db)"
    using assms unfolding auditInvariant_def s fst_conv snd_conv by blast+
  have i: "i < length cs" "\<forall>c. st \<noteq> Appended c" using True by (simp_all add: s c)
  have "clientOk sha256 nearest (e, st)" using inv(2) i(1) c by (metis list_all_length)
  from appendStep_ok [OF this inv(1) step i(2)]
  have ok: "clientOk sha256 nearest (e, st')" "\<forall>sc. scopeChain sha256 nearest sc db'"
    "ab_rows db' = ab_rows db @ (case st' of Appended c \<Rightarrow> [chainRow c] | _ \<Rightarrow> [])" by blast+
  have moved: "clientMoves sha256 nearest known s i = (cs[i := (e, st')], db')"
    using i(1) by (simp add: clientMoves_def s c step)
  have "list_all (clientOk sha256 nearest) (cs[i := (e, st')])"
    using inv(2) ok(1) by (auto simp: list_all_iff dest: set_update_subset_insert [THEN subsetD])
  moreover have "mset (map chainRow (appendedEvents (cs[i := (e, st')]))) = mset (ab_rows db')"
    using appended_update [of i cs e st'] i c inv(3) ok(3) by (simp split: append_state.splits)
  ultimately show ?thesis using ok(2) by (simp add: auditInvariant_def moved)
qed

lemma auditRun_invariant:
  assumes "\<forall>e \<in> set events. eventOk nearest e"
  shows "auditInvariant sha256 nearest (auditRun sha256 nearest known events schedule)"
proof -
  have "appendedEvents (map (\<lambda>e. (e, Appending)) events) = []"
    by (simp add: appendedEvents_def)
  then have start: "auditInvariant sha256 nearest (map (\<lambda>e. (e, Appending)) events, \<lparr>ab_heads = (\<lambda>_. None), ab_rows = []\<rparr>)"
    using assms by (auto simp: auditInvariant_def scopeChain_def clientOk_def list_all_iff)
  have "auditInvariant sha256 nearest s \<Longrightarrow> auditInvariant sha256 nearest (foldl (clientMoves sha256 nearest known) s schedule)" for s
    by (induction schedule arbitrary: s) (simp_all add: clientMoves_invariant)
  then show ?thesis using start by (simp add: auditRun_def)
qed

section \<open>Reading the log\<close>

lemma verifyLoop_sequences:
  "verifyLoop sha256 n p k es = Inr (ValidChain m h) \<Longrightarrow> map au_sequence es = [k..<k + length es]"
proof (induction es arbitrary: p k)
  case (Cons e es)
  then have e: "au_sequence e = k" "verifyLoop sha256 n (au_eventHash e) (Suc k) es = Inr (ValidChain m h)"
    by (simp_all add: bindE_Inr split: if_splits)
  then have "map au_sequence es = [Suc k..<Suc k + length es]" using Cons.IH by blast
  then show ?case using e(1) by (simp add: upt_conv_Cons del: upt_Suc)
qed simp

lemma scopeChain_verifies:
  assumes "scopeChain sha256 nearest sc db"
  shows "\<exists>h. verifyAuditScope sha256 nearest other sc db =
      Inr (ValidChain (length (filter (\<lambda>r. rowScope r = sc) (ab_rows db))) h)"
proof -
  obtain es h where es: "filter (\<lambda>r. rowScope r = sc) (ab_rows db) = map chainRow es" "list_all (chainable nearest) es"
    "verifyLoop sha256 (length es) genesis_hash 1 es = Inr (ValidChain (length es) h)"
    using assms by (auto simp: scopeChain_def)
  have "sorted (map aw_sequence (map chainRow es))"
    using verifyLoop_sequences [OF es(3)] by (simp add: comp_def del: upt_Suc)
  then have "sort_key aw_sequence (map chainRow es) = map chainRow es" by (rule sort_key_id_if_sorted)
  moreover have "mapE (mapAuditEventRow nearest other) (map chainRow es) = Inr es"
    using es(2) by (induction es) (simp_all add: map_chainRow)
  ultimately show ?thesis
    using es(1,3) by (simp add: verifyAuditScope_def listAuditEvents_def verifyEvents_def)
qed

lemma appended_in_scope:
  assumes "mset (map chainRow es) = mset rows"
  shows "length (filter (\<lambda>r. rowScope r = sc) rows) = length (filter (\<lambda>e. eventScope e = sc) es)"
proof -
  have "mset (filter (\<lambda>r. rowScope r = sc) rows) = mset (filter (\<lambda>r. rowScope r = sc) (map chainRow es))"
    using assms by simp
  then show ?thesis by (metis (mono_tags, lifting) comp_def filter_cong filter_map length_map mset_eq_length rowScope_chainRow)
qed


section \<open>Concrete runs\<close>

definition audit_example :: "jsval \<Rightarrow> append_audit_event" where
  "audit_example p =
     \<lparr>au_id = ''e1'', au_tenantId = ''t'', au_appId = ''a'', au_category = ''c'', au_action = ''x'', au_actor = ''u'',
      au_resourceType = ''r'', au_resourceId = ''q'', au_payload = p, au_createdAt = Some 0\<rparr>"

definition chained_example :: "string \<Rightarrow> jsval \<Rightarrow> audit_event" where
  "chained_example h p = append_audit_event.extend (audit_example p) (audit_event.fields 1 genesis_hash h)"

lemma example_fields [simp]:
  "au_payload (audit_example p) = p" "au_createdAt (audit_example p) = Some 0" "eventScope (audit_example p) = (''t'', ''a'')"
  "au_payload (chained_example h p) = p" "au_createdAt (chained_example h p) = Some 0"
  "eventScope (chained_example h p) = (''t'', ''a'')" "au_sequence (chained_example h p) = 1"
  "au_previousHash (chained_example h p) = genesis_hash" "au_eventHash (chained_example h p) = h"
  "chained_example h p\<lparr>au_eventHash := g\<rparr> = chained_example g p"
  by (simp_all add: audit_example_def chained_example_def eventScope_def append_audit_event.defs audit_event.defs)

lemma year_0: "iso_year_ok 0"
  by code_simp

lemma example_text:
  assumes "json_readable id p"
  shows "evidenceText (chained_example h p) = Inr (serializeJsonValue (canonical (evidence (chained_example [] p) 0)))"
proof -
  have "evidence (chained_example h p) 0 = evidence (chained_example [] p) 0"
    by (simp add: evidence_def chained_example_def append_audit_event.defs audit_event.defs)
  moreover have "json_readable id (evidence (chained_example [] p) 0)" using assms by (simp add: evidence_def)
  ultimately show ?thesis by (simp add: evidenceText_def canonicalJson_text)
qed

definition appended_example :: "audit_clients \<times> audit_db" where
  "appended_example = auditRun (\<lambda>_. genesis_hash) id (\<lambda>_. True) [audit_example (JObj PlainObj [])] [0, 0, 0]"

lemma appended_example: "appendedEvents (fst appended_example) = [chained_example genesis_hash (JObj PlainObj [])]"
proof -
  have v: "validateAuditEvent (audit_example (JObj PlainObj [])) = Inr ()" by code_simp
  have p: "parse_json id [CHR 0x7B, CHR 0x7D] = Some (JObj PlainObj [])" by code_simp
  have g: "length genesis_hash = 64" by (simp add: genesis_hash_def)
  have c: "append_audit_event.extend (audit_example (JObj PlainObj [])\<lparr>au_payload := JObj PlainObj []\<rparr>)
      (audit_event.fields (Suc 0) genesis_hash []) = chained_example [] (JObj PlainObj [])"
    by (simp add: chained_example_def audit_example_def)
  have ch: "chainEvent (\<lambda>_. genesis_hash) id (audit_example (JObj PlainObj [])) (Suc 0, genesis_hash) =
      Inr (chained_example genesis_hash (JObj PlainObj []))"
    by (simp add: chainEvent_def p c hashAuditEvent_def example_text)
  have scope: "aw_tenantId (chainRow (chained_example h p)) = ''t''" "aw_appId (chainRow (chained_example h p)) = ''a''"
    "aw_payloadJson (chainRow (chained_example h (JObj PlainObj []))) = [CHR 0x7B, CHR 0x7D]" for h p
    by (simp_all add: chainRow_def chained_example_def audit_example_def append_audit_event.defs audit_event.defs)
  have chainable: "chainable id (chained_example genesis_hash (JObj PlainObj []))"
    using p by (simp add: chainable_def year_0)
  show ?thesis
    by (simp add: appended_example_def auditRun_def clientMoves_def v ensureHead_def ch
        insert_chainRow [OF chainable] insertAuditRow_def rowAdmitted_def scope jsonObjectText_def p g appendedEvents_def)
qed


text \<open>The order in which the members of a payload were written is not evidence.\<close>

lemma audit_chain_tamper_evident_witness:
  "\<exists>h. list_all2 sameEvidence [chained_example h (JObj PlainObj [(''b'', JBool True), (''a'', JNull)])]
     [chained_example h (JObj PlainObj [(''a'', JNull), (''b'', JBool True)])]"
proof -
  define p q where "p = JObj PlainObj [(''b'', JBool True), (''a'', JNull)]" and "q = JObj PlainObj [(''a'', JNull), (''b'', JBool True)]"
  have r: "json_readable id p" "json_readable id q" by (simp_all add: p_def q_def)
  have "sort_key fst [(''b'', JBool True), (''a'', JNull)] = [(''a'', JNull), (''b'', JBool True)]" by code_simp
  then have "canonical p = canonical q" by (simp add: p_def q_def insort_key.simps)
  have same: "canonical (evidence (chained_example [] p) 0) = canonical (evidence (chained_example [] q) 0)"
    using \<open>canonical p = canonical q\<close>
    by (simp add: evidence_def chained_example_def append_audit_event.defs audit_event.defs audit_example_def del: sort_key_simps)
  define h where "h = serializeJsonValue (canonical (evidence (chained_example [] p) 0))"
  let ?a = "chained_example h p" and ?b = "chained_example h q"
  have t: "evidenceText ?a = Inr h" "evidenceText ?b = Inr h"
    unfolding example_text [OF r(1)] example_text [OF r(2)] h_def same by simp_all
  have v: "verifyEvents id [?a] = Inr (ValidChain 1 h)" "verifyEvents id [?b] = Inr (ValidChain 1 h)"
    by (simp_all add: verifyEvents_def hashAuditEvent_def t)
  have "hd h = CHR 0x7B" by (simp add: h_def evidence_def)
  then have "h \<noteq> genesis_hash" by (auto simp: genesis_hash_def)
  then have "genesis_hash \<notin> id ` evidenceTexts ([?a] @ [?b])" using t by (auto simp: evidenceTexts_def)
  then have "list_all2 sameEvidence [?a] [?b]"
    using v r audit_chain_tamper_evident [of id "[?a]" 1 h "[?b]" 1 id] by simp
  then show ?thesis unfolding p_def q_def by blast
qed

end
