(* ===== verification/Interleave.thy ===== *)
theory Interleave
  imports Prelude
begin

text \<open>
  An asynchronous operation as the tree of its statements against a shared state: it has returned, or
  its next statement reads and changes the state and gives the rest of the operation. One statement is
  atomic; between two statements of an operation other clients may move.
\<close>

datatype ('s, 'r) op = Ret 'r | Stmt "'s \<Rightarrow> ('s, 'r) op \<times> 's"

text \<open>A query, and a write that may be refused (and then changes nothing).\<close>

definition ask :: "('s \<Rightarrow> 'a) \<Rightarrow> ('a \<Rightarrow> ('s, 'r) op) \<Rightarrow> ('s, 'r) op" where
  "ask q k = Stmt (\<lambda>s. (k (q s), s))"

definition tell :: "('s \<Rightarrow> ('e, 's) outcome) \<Rightarrow> (('e, unit) outcome \<Rightarrow> ('s, 'r) op) \<Rightarrow> ('s, 'r) op" where
  "tell w k = Stmt (\<lambda>s. case w s of Inl e \<Rightarrow> (k (Inl e), s) | Inr s' \<Rightarrow> (k (Inr ()), s'))"

text \<open>Statements as one transaction: all of them, or none.\<close>

fun runBatch :: "('s \<Rightarrow> ('e, 's) outcome) list \<Rightarrow> 's \<Rightarrow> ('e, 's) outcome" where
  "runBatch [] s = Inr s"
| "runBatch (w # ws) s = bindE (w s) (runBatch ws)"

section \<open>Alone\<close>

primrec runOp :: "('s, 'r) op \<Rightarrow> 's \<Rightarrow> 'r \<times> 's" where
  "runOp (Ret r) = (\<lambda>s. (r, s))"
| "runOp (Stmt f) = (\<lambda>s. case (map_prod runOp id \<circ> f) s of (g, s') \<Rightarrow> g s')"

lemma runOp_ask [simp]: "runOp (ask q k) s = runOp (k (q s)) s"
  by (simp add: ask_def)

lemma runOp_tell [simp]:
  "runOp (tell w k) s = (case w s of Inl e \<Rightarrow> runOp (k (Inl e)) s | Inr s' \<Rightarrow> runOp (k (Inr ())) s')"
  by (simp add: tell_def split: sum.splits)

section \<open>Interleaved\<close>

type_synonym ('s, 'r) system = "('s, 'r) op list \<times> 's"

definition moveClient :: "('s, 'r) system \<Rightarrow> nat \<Rightarrow> ('s, 'r) system" where
  "moveClient sys i =
     (if i < length (fst sys)
      then (case fst sys ! i of
              Ret r \<Rightarrow> sys
            | Stmt f \<Rightarrow> (case f (snd sys) of (c, s) \<Rightarrow> ((fst sys)[i := c], s)))
      else sys)"

definition runSchedule :: "('s, 'r) system \<Rightarrow> nat list \<Rightarrow> ('s, 'r) system" where
  "runSchedule sys schedule = foldl moveClient sys schedule"

text \<open>
  A lawful operation, seen at a state: in every later state its next statement keeps \<open>Inv\<close>, moves the
  state along \<open>grows\<close>, leaves an operation that is lawful at the new state, and a result that it returns
  comes with its promise.
\<close>

inductive lawful ::
  "('s \<Rightarrow> bool) \<Rightarrow> ('s \<Rightarrow> 's \<Rightarrow> bool) \<Rightarrow> ('r \<Rightarrow> 's \<Rightarrow> bool) \<Rightarrow> 's \<Rightarrow> ('s, 'r) op \<Rightarrow> bool"
  for Inv grows promise where
  lawful_Ret: "promise r s0 \<Longrightarrow> lawful Inv grows promise s0 (Ret r)"
| lawful_Stmt: "(\<And>s. Inv s \<Longrightarrow> grows s0 s \<Longrightarrow>
      Inv (snd (f s)) \<and> grows s (snd (f s)) \<and> lawful Inv grows promise (snd (f s)) (fst (f s)))
    \<Longrightarrow> lawful Inv grows promise s0 (Stmt f)"

inductive_cases lawful_StmtE: "lawful Inv grows promise s0 (Stmt f)"
inductive_simps lawful_Ret_iff: "lawful Inv grows promise s0 (Ret r)"

text \<open>How a state may grow: a preorder under which promises stay true.\<close>

locale promises =
  fixes Inv :: "'s \<Rightarrow> bool" and grows :: "'s \<Rightarrow> 's \<Rightarrow> bool" and promise :: "'r \<Rightarrow> 's \<Rightarrow> bool"
  assumes stays: "grows s s"
    and goes_on: "grows s t \<Longrightarrow> grows t u \<Longrightarrow> grows s u"
    and lasts: "promise r s \<Longrightarrow> grows s t \<Longrightarrow> promise r t"
begin

lemma lawful_later: "lawful Inv grows promise s c \<Longrightarrow> grows s t \<Longrightarrow> lawful Inv grows promise t c"
proof (cases c)
  case (Ret r)
  assume "lawful Inv grows promise s c" "grows s t"
  then show ?thesis using lasts Ret by (simp add: lawful_Ret_iff)
next
  case (Stmt f)
  assume "lawful Inv grows promise s c" "grows s t"
  then show ?thesis unfolding Stmt by (auto intro!: lawful_Stmt elim!: lawful_StmtE intro: goes_on)
qed

lemma lawful_ask:
  assumes "\<And>s. Inv s \<Longrightarrow> grows s0 s \<Longrightarrow> lawful Inv grows promise s (k (q s))"
  shows "lawful Inv grows promise s0 (ask q k)"
  unfolding ask_def by (rule lawful_Stmt) (simp add: assms stays)

lemma lawful_tell:
  assumes "\<And>s t. Inv s \<Longrightarrow> grows s0 s \<Longrightarrow> w s = Inr t \<Longrightarrow> Inv t \<and> grows s t \<and> lawful Inv grows promise t (k (Inr ()))"
    and "\<And>s e. Inv s \<Longrightarrow> grows s0 s \<Longrightarrow> w s = Inl e \<Longrightarrow> lawful Inv grows promise s (k (Inl e))"
  shows "lawful Inv grows promise s0 (tell w k)"
  unfolding tell_def by (rule lawful_Stmt) (auto split: sum.split intro: assms stays dest: assms(1))

definition good :: "('s, 'r) system \<Rightarrow> bool" where
  "good sys \<longleftrightarrow> Inv (snd sys) \<and> (\<forall>c \<in> set (fst sys). lawful Inv grows promise (snd sys) c)"

lemma move_good:
  assumes "good sys"
  shows "good (moveClient sys i) \<and> grows (snd sys) (snd (moveClient sys i))"
proof (cases "\<exists>f. i < length (fst sys) \<and> fst sys ! i = Stmt f")
  case False
  then have "moveClient sys i = sys" by (cases "fst sys ! i") (auto simp: moveClient_def)
  then show ?thesis using assms stays by simp
next
  case True
  obtain cs s where sys: "sys = (cs, s)" by (cases sys)
  obtain f where f: "i < length cs" "cs ! i = Stmt f" using True sys by auto
  obtain c t where step: "f s = (c, t)" by (cases "f s")
  have inv: "Inv s" and cl: "\<And>c. c \<in> set cs \<Longrightarrow> lawful Inv grows promise s c"
    using assms by (auto simp: good_def sys)
  have "lawful Inv grows promise s (Stmt f)" using cl [OF nth_mem [OF f(1)]] f(2) by simp
  then have ok: "Inv t" "grows s t" "lawful Inv grows promise t c"
    using inv step stays by (auto elim!: lawful_StmtE)
  have "lawful Inv grows promise t d" if "d \<in> insert c (set cs)" for d
    using that ok(3) lawful_later [OF cl ok(2)] by blast
  moreover have "moveClient sys i = (cs[i := c], t)" using f step by (simp add: moveClient_def sys)
  moreover have "set (cs[i := c]) \<subseteq> insert c (set cs)" by (rule set_update_subset_insert)
  ultimately show ?thesis using ok by (auto simp: good_def sys)
qed

lemma schedule_good: "good sys \<Longrightarrow> good (runSchedule sys schedule) \<and> grows (snd sys) (snd (runSchedule sys schedule))"
  unfolding runSchedule_def
proof (induction schedule arbitrary: sys)
  case (Cons i schedule)
  have m: "good (moveClient sys i)" "grows (snd sys) (snd (moveClient sys i))"
    using move_good [OF Cons.prems] by simp_all
  then show ?case using Cons.IH [OF m(1)] goes_on [OF m(2)] by simp
qed (simp add: stays)

text \<open>What holds at the end of every schedule.\<close>

lemma schedule_promises:
  assumes "Inv s" "\<And>c. c \<in> set cs \<Longrightarrow> lawful Inv grows promise s c"
  shows "Inv (snd (runSchedule (cs, s) schedule))"
    "Ret r \<in> set (fst (runSchedule (cs, s) schedule)) \<Longrightarrow> promise r (snd (runSchedule (cs, s) schedule))"
proof -
  have "good (runSchedule (cs, s) schedule)" using assms schedule_good by (simp add: good_def)
  then show "Inv (snd (runSchedule (cs, s) schedule))"
    "Ret r \<in> set (fst (runSchedule (cs, s) schedule)) \<Longrightarrow> promise r (snd (runSchedule (cs, s) schedule))"
    by (auto simp: good_def lawful_Ret_iff dest: bspec)
qed

end

end
