(* ===== verification/CpAdminDb.thy ===== *)
theory CpAdminDb
  imports CpApi Interleave
begin

text \<open>
  The administration database: the tables of \<open>migrations/0001\<close> with the revision column and the audit,
  approval, request and idempotency tables of the migrations 0002 to 0006 and 0008 to 0010. A statement
  answers the database after it or the message of the constraint or trigger that refused it. A JSON
  column holds the value that its text denotes, an ISO column its text.
\<close>

section \<open>Tables\<close>

record version_row =
  xv_id :: string
  xv_plugin_id :: string
  xv_version :: string
  xv_manifest_json :: jsval

record admin_audit_row =
  xa_id :: string
  xa_installation_id :: string
  xa_tenant_id :: string
  xa_app_id :: string
  xa_plugin_id :: string
  xa_revision :: int
  xa_actor :: string
  xa_action :: string
  xa_before_json :: js_record
  xa_after_json :: js_record
  xa_created_at :: string

record decision_audit_row =
  xd_id :: string
  xd_approval_id :: string
  xd_tenant_id :: string
  xd_app_id :: string
  xd_plugin_id :: string
  xd_actor :: string
  xd_actor_role :: string
  xd_decision :: ApprovalDecision
  xd_reason :: "string option"
  xd_created_at :: string

record grant_request_row =
  xg_approval_id :: string
  xg_app_id :: string
  xg_tenant_id :: string
  xg_plugin_id :: string
  xg_version_id :: string
  xg_installation_id :: string
  xg_requested_by :: string
  xg_config_json :: js_record
  xg_grants_json :: js_record
  xg_capabilities_json :: "string list"
  xg_enabled :: int
  xg_priority :: jsnum
  xg_created_at :: string

record request_audit_row =
  xr_id :: string
  xr_approval_id :: string
  xr_app_id :: string
  xr_tenant_id :: string
  xr_plugin_id :: string
  xr_version_id :: string
  xr_actor :: string
  xr_capabilities_json :: "string list"
  xr_created_at :: string

record idempotency_row =
  xi_app_id :: string
  xi_tenant_id :: string
  xi_idempotency_key :: string
  xi_actor :: string
  xi_request_hash :: string
  xi_result_json :: jsval
  xi_created_at :: string
  xi_expires_at :: string

text \<open>Three idempotency tables: of installs, of rollbacks (with the installation) and of requests.\<close>

record admin_db =
  ad_apps :: "AppRecord list"
  ad_tenants :: "TenantRecord list"
  ad_plugins :: "PluginRecord list"
  ad_versions :: "version_row list"
  ad_installations :: "InstallationRow list"
  ad_approvals :: "ApprovalRow list"
  ad_audits :: "admin_audit_row list"
  ad_decisions :: "decision_audit_row list"
  ad_requests :: "grant_request_row list"
  ad_request_audits :: "request_audit_row list"
  ad_install_keys :: "idempotency_row list"
  ad_rollback_keys :: "(idempotency_row \<times> string) list"
  ad_request_keys :: "idempotency_row list"

type_synonym statement = "admin_db \<Rightarrow> (string, admin_db) outcome"

section \<open>Keys and joins\<close>

definition appKnown :: "admin_db \<Rightarrow> string \<Rightarrow> bool" where
  "appKnown db i \<longleftrightarrow> i \<in> set (map ar_id (ad_apps db))"

definition tenantRow :: "admin_db \<Rightarrow> string \<Rightarrow> TenantRecord option" where
  "tenantRow db i = List.find (\<lambda>t. te_id t = i) (ad_tenants db)"

definition pluginRow :: "admin_db \<Rightarrow> string \<Rightarrow> PluginRecord option" where
  "pluginRow db i = List.find (\<lambda>p. pl_id p = i) (ad_plugins db)"

definition versionRow :: "admin_db \<Rightarrow> string \<Rightarrow> version_row option" where
  "versionRow db i = List.find (\<lambda>v. xv_id v = i) (ad_versions db)"

definition installationRow :: "admin_db \<Rightarrow> string \<Rightarrow> InstallationRow option" where
  "installationRow db i = List.find (\<lambda>x. iw_id x = i) (ad_installations db)"

definition tenantInApp :: "admin_db \<Rightarrow> string \<Rightarrow> string \<Rightarrow> bool" where
  "tenantInApp db tenant app \<longleftrightarrow> (case tenantRow db tenant of None \<Rightarrow> False | Some t \<Rightarrow> te_appId t = app)"

definition pluginInApp :: "admin_db \<Rightarrow> string \<Rightarrow> string \<Rightarrow> bool" where
  "pluginInApp db plugin app \<longleftrightarrow> (case pluginRow db plugin of None \<Rightarrow> False | Some p \<Rightarrow> pl_appId p = app)"

definition versionOfPlugin :: "admin_db \<Rightarrow> string \<Rightarrow> string \<Rightarrow> bool" where
  "versionOfPlugin db version plugin \<longleftrightarrow>
     (case versionRow db version of None \<Rightarrow> False | Some v \<Rightarrow> xv_plugin_id v = plugin)"

text \<open>
  An installation joined with its version and plugin, where tenant and plugin belong to \<open>app\<close>.
\<close>

definition joinInstallation ::
  "admin_db \<Rightarrow> string \<Rightarrow> InstallationRow \<Rightarrow> (version_row \<times> PluginRecord) option" where
  "joinInstallation db app i =
     (if \<not> tenantInApp db (iw_tenant_id i) app then None
      else (case versionRow db (iw_plugin_version_id i) of
              None \<Rightarrow> None
            | Some v \<Rightarrow> (case pluginRow db (xv_plugin_id v) of
                          None \<Rightarrow> None
                        | Some p \<Rightarrow> if pl_appId p = app then Some (v, p) else None)))"

section \<open>Installations and their audit\<close>

text \<open>The number a member of a JSON column is for SQL, with truth values as 0 and 1.\<close>

definition sqlNumber :: "js_record \<Rightarrow> string \<Rightarrow> jsnum option" where
  "sqlNumber fs k =
     (case map_of fs k of
        Some (JBool b) \<Rightarrow> Some (NInt (if b then 1 else 0))
      | Some (JNum n) \<Rightarrow> Some n
      | _ \<Rightarrow> None)"

definition sqlText :: "js_record \<Rightarrow> string \<Rightarrow> string option" where
  "sqlText fs k = (case map_of fs k of Some (JStr s) \<Rightarrow> Some s | _ \<Rightarrow> None)"

definition insertInstallationRow :: "InstallationRow \<Rightarrow> statement" where
  "insertInstallationRow r db =
     (if installationRow db (iw_id r) \<noteq> None \<or> tenantRow db (iw_tenant_id r) = None \<or>
         versionRow db (iw_plugin_version_id r) = None \<or> iw_priority r = NaN
      then Inl (constraint_failed ''installations'')
      else Inr (db\<lparr>ad_installations := ad_installations db @ [r]\<rparr>))"

text \<open>The trigger of \<open>installation.command\<close>: what it tests, what it updates.\<close>

definition commandValid :: "admin_db \<Rightarrow> admin_audit_row \<Rightarrow> InstallationRow \<Rightarrow> bool" where
  "commandValid db r i \<longleftrightarrow>
     iw_id i = xa_installation_id r \<and> iw_tenant_id i = xa_tenant_id r \<and>
     (case joinInstallation db (xa_app_id r) i of None \<Rightarrow> False | Some (v, p) \<Rightarrow> xv_plugin_id v = xa_plugin_id r) \<and>
     iw_revision i = xa_revision r - 1 \<and>
     sqlNumber (xa_before_json r) ''enabled'' = Some (NInt (iw_enabled i)) \<and>
     sqlNumber (xa_before_json r) ''priority'' = Some (iw_priority i) \<and>
     sqlNumber (xa_before_json r) ''revision'' = Some (NInt (iw_revision i)) \<and>
     sqlNumber (xa_after_json r) ''revision'' = Some (NInt (xa_revision r))"

definition commandWhere :: "admin_db \<Rightarrow> admin_audit_row \<Rightarrow> InstallationRow \<Rightarrow> bool" where
  "commandWhere db r i \<longleftrightarrow>
     iw_id i = xa_installation_id r \<and> iw_tenant_id i = xa_tenant_id r \<and> iw_revision i = xa_revision r - 1 \<and>
     sqlNumber (xa_before_json r) ''enabled'' = Some (NInt (iw_enabled i)) \<and>
     sqlNumber (xa_before_json r) ''priority'' = Some (iw_priority i) \<and>
     (case joinInstallation db (xa_app_id r) i of None \<Rightarrow> False | Some (v, p) \<Rightarrow> xv_plugin_id v = xa_plugin_id r)"

definition applyCommand :: "admin_audit_row \<Rightarrow> statement" where
  "applyCommand r db =
     (if \<not> list_ex (commandValid db r) (ad_installations db) then Inl ''installation command conflict''
      else (case (sqlNumber (xa_after_json r) ''enabled'', sqlNumber (xa_after_json r) ''priority'') of
              (Some (NInt enabled), Some priority) \<Rightarrow>
                if length (filter (commandWhere db r) (ad_installations db)) \<noteq> 1 then Inl ''installation command conflict''
                else Inr (db\<lparr>ad_installations := updateWhere (commandWhere db r)
                  (\<lambda>i. i\<lparr>iw_enabled := enabled, iw_priority := priority, iw_revision := xa_revision r\<rparr>)
                  (ad_installations db)\<rparr>)
            | _ \<Rightarrow> Inl (constraint_failed ''installations'')))"

text \<open>The trigger of \<open>installation.rollback\<close>.\<close>

definition rollbackValid :: "admin_db \<Rightarrow> admin_audit_row \<Rightarrow> InstallationRow \<Rightarrow> bool" where
  "rollbackValid db r i \<longleftrightarrow>
     iw_id i = xa_installation_id r \<and> iw_tenant_id i = xa_tenant_id r \<and>
     (case joinInstallation db (xa_app_id r) i of
        None \<Rightarrow> False
      | Some (v, p) \<Rightarrow>
          (case sqlText (xa_after_json r) ''versionId'' of
             None \<Rightarrow> False
           | Some target \<Rightarrow>
               (case versionRow db target of
                  None \<Rightarrow> False
                | Some w \<Rightarrow>
                    xv_plugin_id w = pl_id p \<and> pl_id p = xa_plugin_id r \<and>
                    sqlText (xa_before_json r) ''versionId'' = Some (xv_id v) \<and>
                    sqlText (xa_before_json r) ''version'' = Some (xv_version v) \<and>
                    sqlText (xa_after_json r) ''version'' = Some (xv_version w) \<and> xv_id v \<noteq> xv_id w))) \<and>
     iw_revision i = xa_revision r - 1 \<and>
     sqlNumber (xa_before_json r) ''revision'' = Some (NInt (iw_revision i)) \<and>
     sqlNumber (xa_after_json r) ''revision'' = Some (NInt (xa_revision r))"

definition rollbackWhere :: "admin_audit_row \<Rightarrow> InstallationRow \<Rightarrow> bool" where
  "rollbackWhere r i \<longleftrightarrow>
     iw_id i = xa_installation_id r \<and> iw_tenant_id i = xa_tenant_id r \<and>
     sqlText (xa_before_json r) ''versionId'' = Some (iw_plugin_version_id i) \<and> iw_revision i = xa_revision r - 1"

definition applyRollback :: "admin_audit_row \<Rightarrow> statement" where
  "applyRollback r db =
     (if \<not> list_ex (rollbackValid db r) (ad_installations db) then Inl ''installation rollback conflict''
      else (case sqlText (xa_after_json r) ''versionId'' of
              None \<Rightarrow> Inl (constraint_failed ''installations'')
            | Some target \<Rightarrow>
                if length (filter (rollbackWhere r) (ad_installations db)) \<noteq> 1 then Inl ''installation rollback conflict''
                else Inr (db\<lparr>ad_installations := updateWhere (rollbackWhere r)
                  (\<lambda>i. i\<lparr>iw_plugin_version_id := target, iw_revision := xa_revision r\<rparr>) (ad_installations db)\<rparr>)))"

definition auditTriggers :: "admin_audit_row \<Rightarrow> statement" where
  "auditTriggers r =
     (if xa_action r = ''installation.command'' then applyCommand r
      else if xa_action r = ''installation.rollback'' then applyRollback r
      else Inr)"

definition insertAdminAudit :: "admin_audit_row \<Rightarrow> statement" where
  "insertAdminAudit r db =
     bindE (auditTriggers r db) (\<lambda>db.
       if xa_id r \<in> set (map xa_id (ad_audits db)) \<or>
          (xa_installation_id r, xa_revision r) \<in> set (map (\<lambda>x. (xa_installation_id x, xa_revision x)) (ad_audits db)) \<or>
          installationRow db (xa_installation_id r) = None \<or> tenantRow db (xa_tenant_id r) = None \<or>
          \<not> appKnown db (xa_app_id r) \<or> pluginRow db (xa_plugin_id r) = None
       then Inl (constraint_failed ''admin_audit_events'')
       else Inr (db\<lparr>ad_audits := ad_audits db @ [r]\<rparr>))"

section \<open>Approvals and their audit\<close>

definition approvalRowOf :: "admin_db \<Rightarrow> string \<Rightarrow> ApprovalRow option" where
  "approvalRowOf db i = List.find (\<lambda>a. aw_id a = i) (ad_approvals db)"

definition insertApproval :: "ApprovalRow \<Rightarrow> statement" where
  "insertApproval a db =
     (if approvalRowOf db (aw_id a) \<noteq> None \<or> tenantRow db (aw_tenant_id a) = None \<or>
         pluginRow db (aw_plugin_id a) = None
      then Inl (constraint_failed ''approvals'')
      else Inr (db\<lparr>ad_approvals := ad_approvals db @ [a]\<rparr>))"

text \<open>The role condition of the trigger (migration 0010).\<close>

definition sqlRole :: "string \<Rightarrow> string" where
  "sqlRole role = (if role = ''manager'' then ''admin'' else role)"

definition sqlMayDecide :: "string \<Rightarrow> string \<Rightarrow> bool" where
  "sqlMayDecide actorRole role \<longleftrightarrow>
     actorRole \<in> {''owner'', ''admin'', ''tenant-admin'', ''manager''} \<and>
     (role \<in> {''manager'', ''admin''} \<or> sqlRole actorRole = sqlRole role)"

text \<open>The test of the trigger, which is also the condition of its update.\<close>

definition decisionApplies :: "admin_db \<Rightarrow> decision_audit_row \<Rightarrow> ApprovalRow \<Rightarrow> bool" where
  "decisionApplies db r a \<longleftrightarrow>
     aw_id a = xd_approval_id r \<and> aw_tenant_id a = xd_tenant_id r \<and> aw_plugin_id a = xd_plugin_id r \<and>
     tenantInApp db (aw_tenant_id a) (xd_app_id r) \<and> pluginInApp db (aw_plugin_id a) (xd_app_id r) \<and>
     aw_state a = StatePending \<and> sqlMayDecide (xd_actor_role r) (aw_role a) \<and> xd_created_at r < aw_expires_at a"

definition insertDecision :: "decision_audit_row \<Rightarrow> statement" where
  "insertDecision r db =
     (if length (filter (decisionApplies db r) (ad_approvals db)) \<noteq> 1 then Inl ''approval decision conflict''
      else if xd_id r \<in> set (map xd_id (ad_decisions db)) \<or> xd_approval_id r \<in> set (map xd_approval_id (ad_decisions db)) \<or>
              \<not> appKnown db (xd_app_id r)
      then Inl (constraint_failed ''approval_audit_events'')
      else Inr (db\<lparr>ad_approvals := updateWhere (decisionApplies db r)
                     (\<lambda>a. a\<lparr>aw_state := decision_state (xd_decision r), aw_decided_by := Some (xd_actor r),
                            aw_decision_reason := xd_reason r, aw_decided_at := Some (xd_created_at r)\<rparr>) (ad_approvals db),
                   ad_decisions := ad_decisions db @ [r]\<rparr>))"

section \<open>Requests\<close>

definition insertGrantRequest :: "grant_request_row \<Rightarrow> statement" where
  "insertGrantRequest g db =
     (if xg_approval_id g \<in> set (map xg_approval_id (ad_requests db)) \<or>
         xg_installation_id g \<in> set (map xg_installation_id (ad_requests db)) \<or> xg_priority g = NaN \<or>
         \<not> tenantInApp db (xg_tenant_id g) (xg_app_id g) \<or> \<not> pluginInApp db (xg_plugin_id g) (xg_app_id g) \<or>
         \<not> versionOfPlugin db (xg_version_id g) (xg_plugin_id g) \<or>
         (case approvalRowOf db (xg_approval_id g) of
            None \<Rightarrow> True | Some a \<Rightarrow> aw_tenant_id a \<noteq> xg_tenant_id g \<or> aw_plugin_id a \<noteq> xg_plugin_id g)
      then Inl (constraint_failed ''installation_grant_requests'')
      else Inr (db\<lparr>ad_requests := ad_requests db @ [g]\<rparr>))"

definition insertRequestAudit :: "request_audit_row \<Rightarrow> statement" where
  "insertRequestAudit r db =
     (if xr_id r \<in> set (map xr_id (ad_request_audits db)) \<or>
         xr_approval_id r \<in> set (map xr_approval_id (ad_request_audits db)) \<or>
         xr_approval_id r \<notin> set (map xg_approval_id (ad_requests db)) \<or>
         \<not> tenantInApp db (xr_tenant_id r) (xr_app_id r) \<or> \<not> pluginInApp db (xr_plugin_id r) (xr_app_id r) \<or>
         \<not> versionOfPlugin db (xr_version_id r) (xr_plugin_id r)
      then Inl (constraint_failed ''installation_request_audit_events'')
      else Inr (db\<lparr>ad_request_audits := ad_request_audits db @ [r]\<rparr>))"

section \<open>Idempotency keys\<close>

definition keyIs :: "string \<times> string \<times> string \<Rightarrow> idempotency_row \<Rightarrow> bool" where
  "keyIs k r \<longleftrightarrow> (xi_app_id r, xi_tenant_id r, xi_idempotency_key r) = k"

definition rowKeyOf :: "idempotency_row \<Rightarrow> string \<times> string \<times> string" where
  "rowKeyOf r = (xi_app_id r, xi_tenant_id r, xi_idempotency_key r)"

definition expiredKey :: "string \<times> string \<times> string \<Rightarrow> string \<Rightarrow> idempotency_row \<Rightarrow> bool" where
  "expiredKey k at r \<longleftrightarrow> keyIs k r \<and> xi_expires_at r \<le> at"

definition deleteInstallKey :: "string \<times> string \<times> string \<Rightarrow> string \<Rightarrow> statement" where
  "deleteInstallKey k at db = Inr (db\<lparr>ad_install_keys := filter (\<lambda>r. \<not> expiredKey k at r) (ad_install_keys db)\<rparr>)"

definition insertInstallKey :: "idempotency_row \<Rightarrow> statement" where
  "insertInstallKey r db =
     (if list_ex (keyIs (rowKeyOf r)) (ad_install_keys db) \<or> tenantRow db (xi_tenant_id r) = None
      then Inl (constraint_failed ''admin_install_idempotency'')
      else Inr (db\<lparr>ad_install_keys := ad_install_keys db @ [r]\<rparr>))"

definition deleteRollbackKey :: "string \<times> string \<times> string \<Rightarrow> string \<Rightarrow> statement" where
  "deleteRollbackKey k at db =
     Inr (db\<lparr>ad_rollback_keys := filter (\<lambda>r. \<not> expiredKey k at (fst r)) (ad_rollback_keys db)\<rparr>)"

definition insertRollbackKey :: "idempotency_row \<Rightarrow> string \<Rightarrow> statement" where
  "insertRollbackKey r installation db =
     (if list_ex (\<lambda>x. keyIs (rowKeyOf r) (fst x)) (ad_rollback_keys db) \<or> tenantRow db (xi_tenant_id r) = None \<or>
         installationRow db installation = None
      then Inl (constraint_failed ''admin_rollback_idempotency'')
      else Inr (db\<lparr>ad_rollback_keys := ad_rollback_keys db @ [(r, installation)]\<rparr>))"

definition deleteRequestKey :: "string \<times> string \<times> string \<Rightarrow> string \<Rightarrow> statement" where
  "deleteRequestKey k at db = Inr (db\<lparr>ad_request_keys := filter (\<lambda>r. \<not> expiredKey k at r) (ad_request_keys db)\<rparr>)"

definition insertRequestKey :: "idempotency_row \<Rightarrow> statement" where
  "insertRequestKey r db =
     (if list_ex (keyIs (rowKeyOf r)) (ad_request_keys db) \<or> \<not> tenantInApp db (xi_tenant_id r) (xi_app_id r) \<or>
         xi_expires_at r \<le> xi_created_at r
      then Inl (constraint_failed ''installation_request_idempotency'')
      else Inr (db\<lparr>ad_request_keys := ad_request_keys db @ [r]\<rparr>))"

end
