(* ===== verification/CpAdminOps.thy ===== *)
theory CpAdminOps
  imports CpAdminDb JsonRoundtrip
begin

text \<open>
  \<open>admin-installations.ts\<close> (the command), \<open>admin-rollbacks.ts\<close>, \<open>admin-install-flow.ts\<close>,
  \<open>admin-install-requests.ts\<close> and \<open>admin-approvals.ts\<close>: the administrative mutations, each the tree of
  its statements. Arguments: the identifiers and the time a call draws (\<open>now\<close>, in milliseconds),
  \<open>sha256\<close>, \<open>sortLocale\<close> (the order of \<open>localeCompare\<close>), the manifest library and \<open>other\<close>, the reader of
  foreign date texts.
\<close>

section \<open>Replies\<close>

datatype admin_error =
    InvalidConfig
  | CapabilityConfirmationMismatch
  | IdempotencyKeyReused
  | ApprovalNotFound
  | ApprovalRoleForbidden
  | ApprovalExpired
  | ApprovalAlreadyDecided
  | Thrown string

datatype command_result =
    CommandUpdated string bool jsnum int bool
  | CommandConflict string int

record rolled_back =
  rb_installationId :: string
  rb_pluginKey :: string
  rb_fromVersion :: string
  rb_toVersion :: string
  rb_revision :: int
  rb_auditId :: string
  rb_completedAt :: string

datatype rollback_result =
    RolledBack rolled_back
  | RollbackConflict string int
  | SameVersion string int

record install_result =
  ir_id :: string
  ir_versionId :: string
  ir_pluginKey :: string
  ir_version :: string
  ir_enabled :: bool
  ir_priority :: jsnum

record request_result =
  qr_approvalId :: string
  qr_pluginKey :: string
  qr_version :: string
  qr_capabilities :: "string list"
  qr_expiresAt :: string

record decision_result =
  dr_approvalId :: string
  dr_decision :: ApprovalDecision
  dr_auditId :: string
  dr_decidedAt :: string
  dr_installation :: "install_result option"

datatype admin_reply =
    CommandReply "(admin_error, command_result option) outcome"
  | RollbackReply "(admin_error, rollback_result option) outcome"
  | InstallReply "(admin_error, install_result option) outcome"
  | RequestReply "(admin_error, request_result option) outcome"
  | DecisionReply "(admin_error, decision_result) outcome"

type_synonym admin_operation = "(admin_db, admin_reply) op"

section \<open>Idempotency\<close>

definition adminIdempotencyRetentionMs :: int where
  "adminIdempotencyRetentionMs = 24 * 60 * 60 * 1000"

definition adminIdempotencyExpiry :: "int \<Rightarrow> string" where
  "adminIdempotencyExpiry now = toISOString (now + adminIdempotencyRetentionMs)"

definition adminRequestFingerprint :: "(string \<Rightarrow> string) \<Rightarrow> jsval \<Rightarrow> (string, string) outcome" where
  "adminRequestFingerprint sha256 canonicalRequest =
     bindE (jsonValue canonicalRequest) (\<lambda>v. Inr (sha256 (case v of None \<Rightarrow> [] | Some w \<Rightarrow> serializeJsonValue w)))"

text \<open>A number as a member of a JSON text.\<close>

definition jsonNum :: "jsnum \<Rightarrow> jsval" where
  "jsonNum n = (if num_is_finite n then JNum n else JNull)"

definition findKey ::
  "(string \<Rightarrow> int option) \<Rightarrow> int \<Rightarrow> string \<times> string \<times> string \<Rightarrow> idempotency_row list \<Rightarrow> idempotency_row option" where
  "findKey other now k rows =
     (case List.find (keyIs k) rows of
        None \<Rightarrow> None
      | Some r \<Rightarrow> (case dateParse other (xi_expires_at r) of
                     None \<Rightarrow> None | Some t \<Rightarrow> if now < t then Some r else None))"

section \<open>The installation command\<close>

record command_request =
  cq_appId :: string
  cq_tenantId :: string
  cq_actor :: string
  cq_id :: string
  cq_expectedRevision :: int
  cq_enabled :: "bool option"
  cq_priority :: "jsnum option"

definition readCommandRow :: "string \<Rightarrow> string \<Rightarrow> string \<Rightarrow> admin_db \<Rightarrow> (InstallationRow \<times> string) option" where
  "readCommandRow app tenant i db =
     (case installationRow db i of
        None \<Rightarrow> None
      | Some r \<Rightarrow>
          if iw_tenant_id r \<noteq> tenant then None
          else map_option (\<lambda>(v, p). (r, xv_plugin_id v)) (joinInstallation db app r))"

fun safeNumber :: "jsnum \<Rightarrow> bool" where
  "safeNumber (NInt i) = is_safe_integer i"
| "safeNumber _ = False"

definition commandState :: "InstallationRow \<Rightarrow> (admin_error, bool \<times> jsnum \<times> int) outcome" where
  "commandState r =
     (if (iw_enabled r \<noteq> 0 \<and> iw_enabled r \<noteq> 1) \<or> \<not> safeNumber (iw_priority r) \<or> \<not> is_safe_integer (iw_revision r)
      then Inl (Thrown ''invalid installation row'')
      else Inr (iw_enabled r = 1, iw_priority r, iw_revision r))"

definition requiredText :: "string \<Rightarrow> (admin_error, string) outcome" where
  "requiredText s = (if s = [] then Inl (Thrown ''invalid installation row'') else Inr s)"

definition commandAudit ::
  "command_request \<Rightarrow> string \<Rightarrow> int \<Rightarrow> InstallationRow \<Rightarrow> string \<Rightarrow> bool \<times> jsnum \<times> int \<Rightarrow> bool \<times> jsnum \<Rightarrow> admin_audit_row" where
  "commandAudit q auditId now r pluginId before after =
     (case before of (enabled, priority, revision) \<Rightarrow>
       \<lparr>xa_id = auditId, xa_installation_id = iw_id r, xa_tenant_id = iw_tenant_id r, xa_app_id = cq_appId q,
        xa_plugin_id = pluginId, xa_revision = revision + 1, xa_actor = cq_actor q, xa_action = ''installation.command'',
        xa_before_json = [(''enabled'', JBool enabled), (''priority'', jsonNum priority), (''revision'', JNum (NInt revision))],
        xa_after_json = [(''enabled'', JBool (fst after)), (''priority'', jsonNum (snd after)),
                         (''revision'', JNum (NInt (revision + 1)))],
        xa_created_at = toISOString now\<rparr>)"

definition commandFailed :: "command_request \<Rightarrow> string \<Rightarrow> (InstallationRow \<times> string) option \<Rightarrow> admin_reply" where
  "commandFailed q err latest =
     CommandReply (case latest of
        None \<Rightarrow> Inl (Thrown err)
      | Some (r, _) \<Rightarrow> bindE (commandState r) (\<lambda>(_, _, revision).
          if revision \<noteq> cq_expectedRevision q
          then bindE (requiredText (iw_id r)) (\<lambda>i. Inr (Some (CommandConflict i revision))) else Inl (Thrown err)))"

text \<open>The write, with the texts that are required inside its \<open>try\<close>.\<close>

definition commandStatement :: "admin_audit_row \<Rightarrow> statement" where
  "commandStatement x db =
     (if xa_installation_id x = [] \<or> xa_tenant_id x = [] \<or> xa_plugin_id x = [] then Inl ''invalid installation row''
      else insertAdminAudit x db)"

definition writeCommand ::
  "string \<Rightarrow> int \<Rightarrow> command_request \<Rightarrow> InstallationRow \<Rightarrow> string \<Rightarrow> bool \<times> jsnum \<times> int \<Rightarrow> bool \<times> jsnum \<Rightarrow> admin_operation" where
  "writeCommand auditId now q r pluginId before after =
     tell (commandStatement (commandAudit q auditId now r pluginId before after)) (\<lambda>written.
       case written of
         Inr _ \<Rightarrow> Ret (CommandReply (Inr (Some (CommandUpdated (iw_id r) (fst after) (snd after) (snd (snd before) + 1) True))))
       | Inl err \<Rightarrow> ask (readCommandRow (cq_appId q) (cq_tenantId q) (cq_id q)) (\<lambda>latest. Ret (commandFailed q err latest)))"

definition updateInstallationCommand :: "string \<Rightarrow> int \<Rightarrow> command_request \<Rightarrow> admin_operation" where
  "updateInstallationCommand auditId now q =
     ask (readCommandRow (cq_appId q) (cq_tenantId q) (cq_id q)) (\<lambda>current.
       case current of
         None \<Rightarrow> Ret (CommandReply (Inr None))
       | Some (r, pluginId) \<Rightarrow>
           (case commandState r of
              Inl e \<Rightarrow> Ret (CommandReply (Inl e))
            | Inr (enabled, priority, revision) \<Rightarrow>
                if cq_expectedRevision q \<noteq> revision
                then Ret (CommandReply (bindE (requiredText (iw_id r)) (\<lambda>i. Inr (Some (CommandConflict i revision)))))
                else
                  let after = (case cq_enabled q of None \<Rightarrow> enabled | Some b \<Rightarrow> b, case cq_priority q of None \<Rightarrow> priority | Some n \<Rightarrow> n)
                  in if after = (enabled, priority)
                     then Ret (CommandReply (bindE (requiredText (iw_id r)) (\<lambda>i.
                            Inr (Some (CommandUpdated i (fst after) (snd after) revision False)))))
                     else writeCommand auditId now q r pluginId (enabled, priority, revision) after))"

section \<open>Rollbacks\<close>

record rollback_request =
  kq_appId :: string
  kq_tenantId :: string
  kq_actor :: string
  kq_idempotencyKey :: string
  kq_installationId :: string
  kq_targetVersionId :: string
  kq_expectedRevision :: int

definition rollbackRequestHash :: "(string \<Rightarrow> string) \<Rightarrow> rollback_request \<Rightarrow> (string, string) outcome" where
  "rollbackRequestHash sha256 q =
     adminRequestFingerprint sha256 (JObj PlainObj
       [(''installationId'', JStr (kq_installationId q)), (''targetVersionId'', JStr (kq_targetVersionId q)),
        (''expectedRevision'', JNum (NInt (kq_expectedRevision q)))])"

record rollback_row =
  kr_installation :: InstallationRow
  kr_plugin :: PluginRecord
  kr_current :: version_row
  kr_target :: version_row

definition readRollbackRow :: "rollback_request \<Rightarrow> admin_db \<Rightarrow> rollback_row option" where
  "readRollbackRow q db =
     (case installationRow db (kq_installationId q) of
        None \<Rightarrow> None
      | Some r \<Rightarrow>
          if iw_tenant_id r \<noteq> kq_tenantId q then None
          else (case joinInstallation db (kq_appId q) r of
                  None \<Rightarrow> None
                | Some (v, p) \<Rightarrow>
                    (case versionRow db (kq_targetVersionId q) of
                       None \<Rightarrow> None
                     | Some w \<Rightarrow> if xv_plugin_id w = pl_id p
                                 then Some \<lparr>kr_installation = r, kr_plugin = p, kr_current = v, kr_target = w\<rparr>
                                 else None)))"

definition rolledBackJson :: "rolled_back \<Rightarrow> jsval" where
  "rolledBackJson r = JObj PlainObj
     [(''outcome'', JStr ''rolled_back''), (''installationId'', JStr (rb_installationId r)),
      (''pluginKey'', JStr (rb_pluginKey r)), (''fromVersion'', JStr (rb_fromVersion r)),
      (''toVersion'', JStr (rb_toVersion r)), (''revision'', JNum (NInt (rb_revision r))),
      (''auditId'', JStr (rb_auditId r)), (''completedAt'', JStr (rb_completedAt r))]"

fun jsText :: "jsval \<Rightarrow> string option" where
  "jsText (JStr s) = Some s"
| "jsText _ = None"

definition isRolledBackResult :: "jsval \<Rightarrow> rolled_back option" where
  "isRolledBackResult v =
     (if isRecord v \<and> length (own_keys v) = 8 \<and>
         list_all (\<lambda>k. k \<in> {''outcome'', ''installationId'', ''pluginKey'', ''fromVersion'', ''toVersion'', ''revision'',
                           ''auditId'', ''completedAt''}) (own_keys v) \<and>
         js_get v ''outcome'' = JStr ''rolled_back''
      then (case (jsText (js_get v ''installationId''), jsText (js_get v ''pluginKey''), jsText (js_get v ''fromVersion''),
                  jsText (js_get v ''toVersion''), js_get v ''revision'', jsText (js_get v ''auditId''),
                  jsText (js_get v ''completedAt'')) of
              (Some i, Some p, Some f, Some t, JNum (NInt n), Some a, Some c) \<Rightarrow>
                if is_safe_integer n
                then Some \<lparr>rb_installationId = i, rb_pluginKey = p, rb_fromVersion = f, rb_toVersion = t,
                           rb_revision = n, rb_auditId = a, rb_completedAt = c\<rparr>
                else None
            | _ \<Rightarrow> None)
      else None)"

definition replayRollback :: "idempotency_row \<Rightarrow> string \<Rightarrow> (admin_error, rollback_result option) outcome" where
  "replayRollback row requestHash =
     (if xi_request_hash row \<noteq> requestHash then Inl IdempotencyKeyReused
      else (case isRolledBackResult (xi_result_json row) of
              None \<Rightarrow> Inl (Thrown ''invalid rollback idempotency record'')
            | Some r \<Rightarrow> Inr (Some (RolledBack r))))"

definition rollbackKey :: "rollback_request \<Rightarrow> string \<times> string \<times> string" where
  "rollbackKey q = (kq_appId q, kq_tenantId q, kq_idempotencyKey q)"

definition readRollbackKey ::
  "(string \<Rightarrow> int option) \<Rightarrow> int \<Rightarrow> rollback_request \<Rightarrow> admin_db \<Rightarrow> idempotency_row option" where
  "readRollbackKey other now q db = findKey other now (rollbackKey q) (map fst (ad_rollback_keys db))"

text \<open>The texts that are required before the write, and those required inside its \<open>try\<close>.\<close>

definition versionsPresent :: "rollback_row \<Rightarrow> bool" where
  "versionsPresent c \<longleftrightarrow>
     xv_id (kr_current c) \<noteq> [] \<and> xv_version (kr_current c) \<noteq> [] \<and> xv_id (kr_target c) \<noteq> [] \<and> xv_version (kr_target c) \<noteq> []"

definition ownersPresent :: "rollback_row \<Rightarrow> bool" where
  "ownersPresent c \<longleftrightarrow>
     pl_key (kr_plugin c) \<noteq> [] \<and> iw_tenant_id (kr_installation c) \<noteq> [] \<and> pl_id (kr_plugin c) \<noteq> []"

definition rollbackRevision :: "rollback_row \<Rightarrow> (admin_error, int) outcome" where
  "rollbackRevision c =
     (let n = iw_revision (kr_installation c)
      in if iw_id (kr_installation c) = [] \<or> \<not> is_safe_integer n \<or> n < 0 then Inl (Thrown ''invalid rollback row'') else Inr n)"

definition rolledBackBy :: "string \<Rightarrow> int \<Rightarrow> rollback_row \<Rightarrow> int \<Rightarrow> rolled_back" where
  "rolledBackBy auditId now c revision =
     \<lparr>rb_installationId = iw_id (kr_installation c), rb_pluginKey = pl_key (kr_plugin c),
      rb_fromVersion = xv_version (kr_current c), rb_toVersion = xv_version (kr_target c),
      rb_revision = revision + 1, rb_auditId = auditId, rb_completedAt = toISOString now\<rparr>"

definition rollbackAudit :: "string \<Rightarrow> int \<Rightarrow> rollback_request \<Rightarrow> rollback_row \<Rightarrow> int \<Rightarrow> admin_audit_row" where
  "rollbackAudit auditId now q c revision =
     \<lparr>xa_id = auditId, xa_installation_id = iw_id (kr_installation c), xa_tenant_id = iw_tenant_id (kr_installation c),
      xa_app_id = kq_appId q, xa_plugin_id = pl_id (kr_plugin c), xa_revision = revision + 1, xa_actor = kq_actor q,
      xa_action = ''installation.rollback'',
      xa_before_json = [(''versionId'', JStr (xv_id (kr_current c))), (''version'', JStr (xv_version (kr_current c))),
                        (''revision'', JNum (NInt revision))],
      xa_after_json = [(''versionId'', JStr (xv_id (kr_target c))), (''version'', JStr (xv_version (kr_target c))),
                       (''revision'', JNum (NInt (revision + 1)))],
      xa_created_at = toISOString now\<rparr>"

definition rollbackStatements ::
  "string \<Rightarrow> int \<Rightarrow> rollback_request \<Rightarrow> string \<Rightarrow> rollback_row \<Rightarrow> int \<Rightarrow> statement list" where
  "rollbackStatements auditId now q requestHash c revision =
     [deleteRollbackKey (rollbackKey q) (toISOString now),
      insertAdminAudit (rollbackAudit auditId now q c revision),
      insertRollbackKey
        \<lparr>xi_app_id = kq_appId q, xi_tenant_id = kq_tenantId q, xi_idempotency_key = kq_idempotencyKey q,
         xi_actor = kq_actor q, xi_request_hash = requestHash,
         xi_result_json = rolledBackJson (rolledBackBy auditId now c revision),
         xi_created_at = toISOString now, xi_expires_at = adminIdempotencyExpiry now\<rparr>
        (iw_id (kr_installation c))]"

definition rollbackWrite :: "string \<Rightarrow> int \<Rightarrow> rollback_request \<Rightarrow> string \<Rightarrow> rollback_row \<Rightarrow> int \<Rightarrow> statement" where
  "rollbackWrite auditId now q requestHash c revision db =
     (if ownersPresent c then runBatch (rollbackStatements auditId now q requestHash c revision) db
      else Inl ''invalid rollback row'')"

definition rollbackFailed :: "rollback_request \<Rightarrow> string \<Rightarrow> rollback_row option \<Rightarrow> admin_reply" where
  "rollbackFailed q err latest =
     RollbackReply (case latest of
        None \<Rightarrow> Inl (Thrown err)
      | Some c \<Rightarrow> bindE (rollbackRevision c) (\<lambda>revision.
          if revision \<noteq> kq_expectedRevision q
          then Inr (Some (RollbackConflict (iw_id (kr_installation c)) revision)) else Inl (Thrown err)))"

definition writeRollback ::
  "(string \<Rightarrow> int option) \<Rightarrow> string \<Rightarrow> int \<Rightarrow> rollback_request \<Rightarrow> string \<Rightarrow> rollback_row \<Rightarrow> int \<Rightarrow> admin_operation" where
  "writeRollback other auditId now q requestHash c revision =
     tell (rollbackWrite auditId now q requestHash c revision) (\<lambda>written.
       case written of
         Inr _ \<Rightarrow> Ret (RollbackReply (Inr (Some (RolledBack (rolledBackBy auditId now c revision)))))
       | Inl err \<Rightarrow>
           ask (readRollbackKey other now q) (\<lambda>winner.
             case winner of
               Some row \<Rightarrow> Ret (RollbackReply (replayRollback row requestHash))
             | None \<Rightarrow> ask (readRollbackRow q) (\<lambda>latest. Ret (rollbackFailed q err latest))))"

definition rollbackOp ::
  "(string \<Rightarrow> int option) \<Rightarrow> (string \<Rightarrow> string) \<Rightarrow> string \<Rightarrow> int \<Rightarrow> rollback_request \<Rightarrow> admin_operation" where
  "rollbackOp other sha256 auditId now q =
     (case rollbackRequestHash sha256 q of
        Inl e \<Rightarrow> Ret (RollbackReply (Inl (Thrown e)))
      | Inr requestHash \<Rightarrow>
          ask (readRollbackKey other now q) (\<lambda>replay.
            case replay of
              Some row \<Rightarrow> Ret (RollbackReply (replayRollback row requestHash))
            | None \<Rightarrow>
                ask (readRollbackRow q) (\<lambda>current.
                  case current of
                    None \<Rightarrow> Ret (RollbackReply (Inr None))
                  | Some c \<Rightarrow>
                      (case rollbackRevision c of
                         Inl e \<Rightarrow> Ret (RollbackReply (Inl e))
                       | Inr revision \<Rightarrow>
                           if kq_expectedRevision q \<noteq> revision
                           then Ret (RollbackReply (Inr (Some (RollbackConflict (iw_id (kr_installation c)) revision))))
                           else if xv_id (kr_current c) = xv_id (kr_target c)
                           then Ret (RollbackReply (Inr (Some (SameVersion (iw_id (kr_installation c)) revision))))
                           else if \<not> versionsPresent c then Ret (RollbackReply (Inl (Thrown ''invalid rollback row'')))
                           else writeRollback other auditId now q requestHash c revision))))"

end
