(* ===== verification/CpAdminInstall.thy ===== *)
theory CpAdminInstall
  imports CpAdminOps
begin

text \<open>
  \<open>admin-install-flow.ts\<close>, \<open>admin-install-requests.ts\<close> and \<open>admin-approvals.ts\<close>: installing at once,
  asking for an installation, and deciding approvals, each the tree of its statements.
\<close>

section \<open>Proposals\<close>

record admin_install_request =
  iq_appId :: string
  iq_tenantId :: string
  iq_actor :: string
  iq_idempotencyKey :: string
  iq_versionId :: string
  iq_config :: js_record
  iq_confirmedCapabilities :: "string list"
  iq_enabled :: bool
  iq_priority :: jsnum

record install_proposal =
  ip_versionId :: string
  ip_pluginId :: string
  ip_pluginKey :: string
  ip_version :: string
  ip_config :: js_record
  ip_grants :: js_record
  ip_capabilities :: "string list"

definition installRequestHash ::
  "(string \<Rightarrow> string) \<Rightarrow> (js_record \<Rightarrow> js_record) \<Rightarrow> admin_install_request \<Rightarrow> (string, string) outcome" where
  "installRequestHash sha256 sortLocale q =
     adminRequestFingerprint sha256 (JObj PlainObj
       [(''versionId'', JStr (iq_versionId q)), (''config'', JObj PlainObj (key_order (sortLocale (iq_config q)))),
        (''confirmedCapabilities'', JArr (map JStr (sort (iq_confirmedCapabilities q)))),
        (''enabled'', JBool (iq_enabled q)), (''priority'', JNum (iq_priority q))])"

definition manifestFromRow :: "manifest_lib \<Rightarrow> version_row \<Rightarrow> (admin_error, Manifest) outcome" where
  "manifestFromRow lib v =
     (case parseManifest (ml_decode lib) (ml_issues lib) (ml_validRange lib) (xv_manifest_json v) of
        Inl _ \<Rightarrow> Inl (Thrown ''invalid plugin version manifest'')
      | Inr m \<Rightarrow> Inr m)"

text \<open>The row of a version with its plugin, for an application (\<open>readVersionRow\<close>) and a tenant of it.\<close>

definition readVersionRow :: "string \<Rightarrow> string \<Rightarrow> admin_db \<Rightarrow> (version_row \<times> PluginRecord) option" where
  "readVersionRow app version db =
     (case versionRow db version of
        None \<Rightarrow> None
      | Some v \<Rightarrow> (case pluginRow db (xv_plugin_id v) of
                    None \<Rightarrow> None
                  | Some p \<Rightarrow> if pl_appId p = app then Some (v, p) else None))"

definition readProposalRow :: "admin_install_request \<Rightarrow> admin_db \<Rightarrow> (version_row \<times> PluginRecord) option" where
  "readProposalRow q db =
     (case readVersionRow (iq_appId q) (iq_versionId q) db of
        None \<Rightarrow> None
      | Some (v, p) \<Rightarrow> if tenantInApp db (iq_tenantId q) (pl_appId p) then Some (v, p) else None)"

definition resolveAdminInstallProposal ::
  "manifest_lib \<Rightarrow> admin_install_request \<Rightarrow> version_row \<times> PluginRecord \<Rightarrow> (admin_error, install_proposal) outcome" where
  "resolveAdminInstallProposal lib q row =
     bindE (manifestFromRow lib (fst row)) (\<lambda>m.
       let capabilities = sort (map fst (mf_capabilities m))
       in if capabilities \<noteq> sort (iq_confirmedCapabilities q) then Inl CapabilityConfirmationMismatch
          else (case validateConfig (\<lambda>_. ml_schemaParse lib (mf_configSchema m)) (\<lambda>_. ml_recordParse lib (iq_config q))
                  JUndef JUndef of
                  Inl _ \<Rightarrow> Inl InvalidConfig
                | Inr config \<Rightarrow>
                    (case resolveGrants (mf_capabilities m) config of
                       Inl _ \<Rightarrow> Inl InvalidConfig
                     | Inr grants \<Rightarrow>
                         Inr \<lparr>ip_versionId = xv_id (fst row), ip_pluginId = xv_plugin_id (fst row),
                              ip_pluginKey = pl_key (snd row), ip_version = xv_version (fst row), ip_config = config,
                              ip_grants = grants, ip_capabilities = capabilities\<rparr>)))"

definition newInstallation ::
  "string \<Rightarrow> string \<Rightarrow> string \<Rightarrow> bool \<Rightarrow> jsnum \<Rightarrow> js_record \<Rightarrow> js_record \<Rightarrow> InstallationRow" where
  "newInstallation i tenant version enabled priority config grants =
     \<lparr>iw_id = i, iw_tenant_id = tenant, iw_plugin_version_id = version, iw_enabled = (if enabled then 1 else 0),
      iw_priority = priority, iw_config_json = config, iw_grants_json = grants, iw_revision = 0\<rparr>"

definition installAudit ::
  "string \<Rightarrow> string \<Rightarrow> string \<Rightarrow> string \<Rightarrow> string \<Rightarrow> string \<Rightarrow> string \<Rightarrow> int \<Rightarrow> bool \<Rightarrow> jsnum \<Rightarrow> js_record \<Rightarrow> string list \<Rightarrow>
   admin_audit_row" where
  "installAudit action auditId i tenant app plugin actor now enabled priority config capabilities =
     \<lparr>xa_id = auditId, xa_installation_id = i, xa_tenant_id = tenant, xa_app_id = app, xa_plugin_id = plugin,
      xa_revision = 0, xa_actor = actor, xa_action = action, xa_before_json = [],
      xa_after_json = [(''enabled'', JBool enabled), (''priority'', jsonNum priority), (''revision'', JNum (NInt 0)),
                       (''configFields'', JArr (map JStr (sort (map fst config)))),
                       (''capabilities'', JArr (map JStr capabilities))],
      xa_created_at = toISOString now\<rparr>"

section \<open>Installing at once\<close>

definition installJson :: "install_result \<Rightarrow> jsval" where
  "installJson r = JObj PlainObj
     [(''id'', JStr (ir_id r)), (''versionId'', JStr (ir_versionId r)), (''pluginKey'', JStr (ir_pluginKey r)),
      (''version'', JStr (ir_version r)), (''enabled'', JBool (ir_enabled r)), (''priority'', jsonNum (ir_priority r)),
      (''revision'', JNum (NInt 0))]"

definition isAdminInstallResult :: "jsval \<Rightarrow> install_result option" where
  "isAdminInstallResult v =
     (if isRecord v \<and> length (own_keys v) = 7 \<and>
         list_all (\<lambda>k. k \<in> {''id'', ''versionId'', ''pluginKey'', ''version'', ''enabled'', ''priority'', ''revision''}) (own_keys v) \<and>
         js_get v ''revision'' = JNum (NInt 0)
      then (case (jsText (js_get v ''id''), jsText (js_get v ''versionId''), jsText (js_get v ''pluginKey''),
                  jsText (js_get v ''version''), js_get v ''enabled'', js_get v ''priority'') of
              (Some i, Some w, Some p, Some t, JBool b, JNum n) \<Rightarrow>
                if safeNumber n
                then Some \<lparr>ir_id = i, ir_versionId = w, ir_pluginKey = p, ir_version = t, ir_enabled = b, ir_priority = n\<rparr>
                else None
            | _ \<Rightarrow> None)
      else None)"

definition replayInstall :: "idempotency_row \<Rightarrow> string \<Rightarrow> (admin_error, install_result option) outcome" where
  "replayInstall row requestHash =
     (if xi_request_hash row \<noteq> requestHash then Inl IdempotencyKeyReused
      else (case isAdminInstallResult (xi_result_json row) of
              None \<Rightarrow> Inl (Thrown ''invalid install idempotency record'')
            | Some r \<Rightarrow> Inr (Some r)))"

definition installKey :: "admin_install_request \<Rightarrow> string \<times> string \<times> string" where
  "installKey q = (iq_appId q, iq_tenantId q, iq_idempotencyKey q)"

definition installResult :: "string \<Rightarrow> admin_install_request \<Rightarrow> install_proposal \<Rightarrow> install_result" where
  "installResult i q p =
     \<lparr>ir_id = i, ir_versionId = ip_versionId p, ir_pluginKey = ip_pluginKey p, ir_version = ip_version p,
      ir_enabled = iq_enabled q, ir_priority = iq_priority q\<rparr>"

definition newKey :: "admin_install_request \<Rightarrow> string \<Rightarrow> jsval \<Rightarrow> int \<Rightarrow> idempotency_row" where
  "newKey q requestHash result now =
     \<lparr>xi_app_id = iq_appId q, xi_tenant_id = iq_tenantId q, xi_idempotency_key = iq_idempotencyKey q,
      xi_actor = iq_actor q, xi_request_hash = requestHash, xi_result_json = result,
      xi_created_at = toISOString now, xi_expires_at = adminIdempotencyExpiry now\<rparr>"

text \<open>The members of the JSON columns of a proposal, or the error of \<open>JSON.stringify\<close>.\<close>

definition proposalColumns :: "install_proposal \<Rightarrow> (admin_error, js_record \<times> js_record) outcome" where
  "proposalColumns p =
     (case (jsonFields (ip_config p), jsonFields (ip_grants p)) of
        (Inr c, Inr g) \<Rightarrow> Inr (c, g)
      | (Inl e, _) \<Rightarrow> Inl (Thrown e)
      | (_, Inl e) \<Rightarrow> Inl (Thrown e))"

definition installStatements ::
  "string \<Rightarrow> string \<Rightarrow> int \<Rightarrow> admin_install_request \<Rightarrow> string \<Rightarrow> install_proposal \<Rightarrow> js_record \<times> js_record \<Rightarrow> statement list" where
  "installStatements i auditId now q requestHash p columns =
     [deleteInstallKey (installKey q) (toISOString now),
      insertInstallationRow (newInstallation i (iq_tenantId q) (iq_versionId q) (iq_enabled q) (iq_priority q)
        (fst columns) (snd columns)),
      insertAdminAudit (installAudit ''installation.install'' auditId i (iq_tenantId q) (iq_appId q) (ip_pluginId p)
        (iq_actor q) now (iq_enabled q) (iq_priority q) (ip_config p) (ip_capabilities p)),
      insertInstallKey (newKey q requestHash (installJson (installResult i q p)) now)]"

definition readInstallKey ::
  "(string \<Rightarrow> int option) \<Rightarrow> int \<Rightarrow> admin_install_request \<Rightarrow> admin_db \<Rightarrow> idempotency_row option" where
  "readInstallKey other now q db = findKey other now (installKey q) (ad_install_keys db)"

definition writeInstall ::
  "(string \<Rightarrow> int option) \<Rightarrow> string \<Rightarrow> string \<Rightarrow> int \<Rightarrow> admin_install_request \<Rightarrow> string \<Rightarrow>
   install_proposal \<times> js_record \<times> js_record \<Rightarrow> admin_operation" where
  "writeInstall other i auditId now q requestHash pc =
     tell (runBatch (installStatements i auditId now q requestHash (fst pc) (snd pc))) (\<lambda>written.
       case written of
         Inr _ \<Rightarrow> Ret (InstallReply (Inr (Some (installResult i q (fst pc)))))
       | Inl err \<Rightarrow>
           ask (readInstallKey other now q) (\<lambda>winner.
             Ret (InstallReply (case winner of Some row \<Rightarrow> replayInstall row requestHash | None \<Rightarrow> Inl (Thrown err)))))"

definition resolveColumns ::
  "manifest_lib \<Rightarrow> admin_install_request \<Rightarrow> version_row \<times> PluginRecord \<Rightarrow>
   (admin_error, install_proposal \<times> js_record \<times> js_record) outcome" where
  "resolveColumns lib q row =
     bindE (resolveAdminInstallProposal lib q row) (\<lambda>p. bindE (proposalColumns p) (\<lambda>c. Inr (p, c)))"

definition installOp ::
  "manifest_lib \<Rightarrow> (string \<Rightarrow> int option) \<Rightarrow> (string \<Rightarrow> string) \<Rightarrow> (js_record \<Rightarrow> js_record) \<Rightarrow> string \<Rightarrow> string \<Rightarrow> int \<Rightarrow>
   admin_install_request \<Rightarrow> admin_operation" where
  "installOp lib other sha256 sortLocale i auditId now q =
     (case installRequestHash sha256 sortLocale q of
        Inl e \<Rightarrow> Ret (InstallReply (Inl (Thrown e)))
      | Inr requestHash \<Rightarrow>
          ask (readInstallKey other now q) (\<lambda>replay.
            case replay of
              Some row \<Rightarrow> Ret (InstallReply (replayInstall row requestHash))
            | None \<Rightarrow>
                ask (readProposalRow q) (\<lambda>found.
                  case found of
                    None \<Rightarrow> Ret (InstallReply (Inr None))
                  | Some row \<Rightarrow>
                      (case resolveColumns lib q row of
                         Inl e \<Rightarrow> Ret (InstallReply (Inl e))
                       | Inr pc \<Rightarrow> writeInstall other i auditId now q requestHash pc))))"

section \<open>Asking for an installation\<close>

definition requestJson :: "request_result \<Rightarrow> jsval" where
  "requestJson r = JObj PlainObj
     [(''approvalId'', JStr (qr_approvalId r)), (''state'', JStr ''pending''), (''pluginKey'', JStr (qr_pluginKey r)),
      (''version'', JStr (qr_version r)), (''capabilities'', JArr (map JStr (qr_capabilities r))),
      (''expiresAt'', JStr (qr_expiresAt r))]"

definition isRequestResult :: "(string \<Rightarrow> int option) \<Rightarrow> jsval \<Rightarrow> request_result option" where
  "isRequestResult other v =
     (if isRecord v \<and> length (own_keys v) = 6 \<and> js_get v ''state'' = JStr ''pending''
      then (case (jsText (js_get v ''approvalId''), jsText (js_get v ''pluginKey''), jsText (js_get v ''version''),
                  js_get v ''capabilities'', jsText (js_get v ''expiresAt'')) of
              (Some a, Some p, Some t, JArr cs, Some e) \<Rightarrow>
                if list_all is_string cs \<and> dateParse other e \<noteq> None
                then Some \<lparr>qr_approvalId = a, qr_pluginKey = p, qr_version = t,
                           qr_capabilities = map (\<lambda>c. case c of JStr s \<Rightarrow> s | _ \<Rightarrow> []) cs, qr_expiresAt = e\<rparr>
                else None
            | _ \<Rightarrow> None)
      else None)"

definition replayRequest ::
  "(string \<Rightarrow> int option) \<Rightarrow> idempotency_row \<Rightarrow> string \<Rightarrow> (admin_error, request_result option) outcome" where
  "replayRequest other row requestHash =
     (if xi_request_hash row \<noteq> requestHash then Inl IdempotencyKeyReused
      else (case isRequestResult other (xi_result_json row) of
              None \<Rightarrow> Inl (Thrown ''invalid installation request idempotency record'')
            | Some r \<Rightarrow> Inr (Some r)))"

definition requestResult :: "string \<Rightarrow> int \<Rightarrow> install_proposal \<Rightarrow> request_result" where
  "requestResult approvalId now p =
     \<lparr>qr_approvalId = approvalId, qr_pluginKey = ip_pluginKey p, qr_version = ip_version p,
      qr_capabilities = ip_capabilities p, qr_expiresAt = toISOString (now + 24 * 60 * 60 * 1000)\<rparr>"

definition requestedApproval :: "string \<Rightarrow> int \<Rightarrow> admin_install_request \<Rightarrow> install_proposal \<Rightarrow> ApprovalRow" where
  "requestedApproval approvalId now q p =
     \<lparr>aw_id = approvalId, aw_tenant_id = iq_tenantId q, aw_plugin_id = ip_pluginId p, aw_role = ''admin'',
      aw_subject_json = [(''kind'', JStr ''installation''), (''versionId'', JStr (ip_versionId p)),
                         (''capabilities'', JArr (map JStr (ip_capabilities p)))],
      aw_resume_hook = ''installation.request'', aw_state = StatePending,
      aw_expires_at = toISOString (now + 24 * 60 * 60 * 1000), aw_created_at = toISOString now,
      aw_decided_by = None, aw_decision_reason = None, aw_decided_at = None\<rparr>"

definition requestStatements ::
  "string \<Rightarrow> string \<Rightarrow> string \<Rightarrow> int \<Rightarrow> admin_install_request \<Rightarrow> string \<Rightarrow> install_proposal \<Rightarrow> js_record \<times> js_record \<Rightarrow>
   statement list" where
  "requestStatements approvalId i auditId now q requestHash p columns =
     [deleteRequestKey (installKey q) (toISOString now),
      insertApproval (requestedApproval approvalId now q p),
      insertGrantRequest
        \<lparr>xg_approval_id = approvalId, xg_app_id = iq_appId q, xg_tenant_id = iq_tenantId q, xg_plugin_id = ip_pluginId p,
         xg_version_id = ip_versionId p, xg_installation_id = i, xg_requested_by = iq_actor q,
         xg_config_json = fst columns, xg_grants_json = snd columns, xg_capabilities_json = ip_capabilities p,
         xg_enabled = (if iq_enabled q then 1 else 0), xg_priority = iq_priority q, xg_created_at = toISOString now\<rparr>,
      insertRequestAudit
        \<lparr>xr_id = auditId, xr_approval_id = approvalId, xr_app_id = iq_appId q, xr_tenant_id = iq_tenantId q,
         xr_plugin_id = ip_pluginId p, xr_version_id = ip_versionId p, xr_actor = iq_actor q,
         xr_capabilities_json = ip_capabilities p, xr_created_at = toISOString now\<rparr>,
      insertRequestKey (newKey q requestHash (requestJson (requestResult approvalId now p)) now)]"

definition readRequestKey ::
  "(string \<Rightarrow> int option) \<Rightarrow> int \<Rightarrow> admin_install_request \<Rightarrow> admin_db \<Rightarrow> idempotency_row option" where
  "readRequestKey other now q db = findKey other now (installKey q) (ad_request_keys db)"

definition writeRequest ::
  "(string \<Rightarrow> int option) \<Rightarrow> string \<Rightarrow> string \<Rightarrow> string \<Rightarrow> int \<Rightarrow> admin_install_request \<Rightarrow> string \<Rightarrow>
   install_proposal \<times> js_record \<times> js_record \<Rightarrow> admin_operation" where
  "writeRequest other approvalId i auditId now q requestHash pc =
     tell (runBatch (requestStatements approvalId i auditId now q requestHash (fst pc) (snd pc))) (\<lambda>written.
       case written of
         Inr _ \<Rightarrow> Ret (RequestReply (Inr (Some (requestResult approvalId now (fst pc)))))
       | Inl err \<Rightarrow>
           ask (readRequestKey other now q) (\<lambda>winner.
             Ret (RequestReply (case winner of Some row \<Rightarrow> replayRequest other row requestHash | None \<Rightarrow> Inl (Thrown err)))))"

definition requestInstallationOp ::
  "manifest_lib \<Rightarrow> (string \<Rightarrow> int option) \<Rightarrow> (string \<Rightarrow> string) \<Rightarrow> (js_record \<Rightarrow> js_record) \<Rightarrow> string \<Rightarrow> string \<Rightarrow> string \<Rightarrow> int \<Rightarrow>
   admin_install_request \<Rightarrow> admin_operation" where
  "requestInstallationOp lib other sha256 sortLocale approvalId i auditId now q =
     (case installRequestHash sha256 sortLocale q of
        Inl e \<Rightarrow> Ret (RequestReply (Inl (Thrown e)))
      | Inr requestHash \<Rightarrow>
          ask (readRequestKey other now q) (\<lambda>replay.
            case replay of
              Some row \<Rightarrow> Ret (RequestReply (replayRequest other row requestHash))
            | None \<Rightarrow>
                ask (readProposalRow q) (\<lambda>found.
                  case found of
                    None \<Rightarrow> Ret (RequestReply (Inr None))
                  | Some row \<Rightarrow>
                      (case resolveColumns lib q row of
                         Inl e \<Rightarrow> Ret (RequestReply (Inl e))
                       | Inr pc \<Rightarrow> writeRequest other approvalId i auditId now q requestHash pc))))"

section \<open>Deciding\<close>

record decision_request =
  dq_appId :: string
  dq_tenantId :: string
  dq_actor :: string
  dq_actorRole :: string
  dq_approvalId :: string
  dq_decision :: ApprovalDecision
  dq_reason :: "string option"

definition canDecideApproval :: "string \<Rightarrow> string \<Rightarrow> bool" where
  "canDecideApproval actorRole requiredRole \<longleftrightarrow>
     canRolePerform actorRole ''approval:decide'' \<and>
     (normalizeRbacRole requiredRole = Some Admin \<or> normalizeRbacRole actorRole = normalizeRbacRole requiredRole)"

definition readApproval :: "decision_request \<Rightarrow> admin_db \<Rightarrow> ApprovalRow option" where
  "readApproval q db =
     (case approvalRowOf db (dq_approvalId q) of
        None \<Rightarrow> None
      | Some a \<Rightarrow>
          if aw_tenant_id a = dq_tenantId q \<and> tenantInApp db (dq_tenantId q) (dq_appId q) \<and>
             pluginInApp db (aw_plugin_id a) (dq_appId q)
          then Some a else None)"

definition readInstallationRequest ::
  "decision_request \<Rightarrow> admin_db \<Rightarrow> (grant_request_row \<times> version_row \<times> PluginRecord) option" where
  "readInstallationRequest q db =
     (case List.find (\<lambda>g. xg_approval_id g = dq_approvalId q) (ad_requests db) of
        None \<Rightarrow> None
      | Some g \<Rightarrow>
          if xg_app_id g \<noteq> dq_appId q \<or> xg_tenant_id g \<noteq> dq_tenantId q \<or> \<not> tenantInApp db (xg_tenant_id g) (xg_app_id g)
          then None
          else (case (pluginRow db (xg_plugin_id g), versionRow db (xg_version_id g)) of
                  (Some p, Some v) \<Rightarrow>
                    if pl_appId p = xg_app_id g \<and> xv_plugin_id v = xg_plugin_id g then Some (g, v, p) else None
                | _ \<Rightarrow> None))"

definition validGrantRequest :: "grant_request_row \<Rightarrow> bool" where
  "validGrantRequest g \<longleftrightarrow> (xg_enabled g = 0 \<or> xg_enabled g = 1) \<and> safeNumber (xg_priority g)"

definition approvalAudit :: "string \<Rightarrow> string \<Rightarrow> decision_request \<Rightarrow> ApprovalRow \<Rightarrow> decision_audit_row" where
  "approvalAudit auditId decidedAt q a =
     \<lparr>xd_id = auditId, xd_approval_id = dq_approvalId q, xd_tenant_id = dq_tenantId q, xd_app_id = dq_appId q,
      xd_plugin_id = aw_plugin_id a, xd_actor = dq_actor q, xd_actor_role = dq_actorRole q, xd_decision = dq_decision q,
      xd_reason = dq_reason q, xd_created_at = decidedAt\<rparr>"

definition approvedInstallationStatements ::
  "string \<Rightarrow> string \<Rightarrow> int \<Rightarrow> decision_request \<Rightarrow> ApprovalRow \<Rightarrow> grant_request_row \<Rightarrow> statement list" where
  "approvedInstallationStatements auditId installationAuditId now q a g =
     [insertInstallationRow (newInstallation (xg_installation_id g) (dq_tenantId q) (xg_version_id g) (xg_enabled g = 1)
        (xg_priority g) (xg_config_json g) (xg_grants_json g)),
      insertAdminAudit (installAudit ''installation.install.approved'' installationAuditId (xg_installation_id g)
        (dq_tenantId q) (dq_appId q) (xg_plugin_id g) (dq_actor q) now (xg_enabled g = 1) (xg_priority g)
        (xg_config_json g) (xg_capabilities_json g)),
      insertDecision (approvalAudit auditId (toISOString now) q a)]"

definition decidedBy ::
  "string \<Rightarrow> int \<Rightarrow> decision_request \<Rightarrow> (grant_request_row \<times> version_row \<times> PluginRecord) option \<Rightarrow> decision_result" where
  "decidedBy auditId now q installation =
     \<lparr>dr_approvalId = dq_approvalId q, dr_decision = dq_decision q, dr_auditId = auditId, dr_decidedAt = toISOString now,
      dr_installation = map_option (\<lambda>(g, v, p).
        \<lparr>ir_id = xg_installation_id g, ir_versionId = xg_version_id g, ir_pluginKey = pl_key p, ir_version = xv_version v,
         ir_enabled = (xg_enabled g = 1), ir_priority = xg_priority g\<rparr>) installation\<rparr>"

text \<open>The write of a decision with its recovery.\<close>

definition writeDecision :: "decision_request \<Rightarrow> statement list \<Rightarrow> decision_result \<Rightarrow> admin_operation" where
  "writeDecision q statements result =
     tell (runBatch statements) (\<lambda>written.
       case written of
         Inr _ \<Rightarrow> Ret (DecisionReply (Inr result))
       | Inl err \<Rightarrow> ask (readApproval q) (\<lambda>current.
           Ret (DecisionReply (Inl (case current of
             Some a \<Rightarrow> if aw_state a \<noteq> StatePending then ApprovalAlreadyDecided else Thrown err
           | None \<Rightarrow> Thrown err)))))"

definition decideOp :: "string \<Rightarrow> string \<Rightarrow> int \<Rightarrow> decision_request \<Rightarrow> admin_operation" where
  "decideOp auditId installationAuditId now q =
     ask (readApproval q) (\<lambda>found.
       case found of
         None \<Rightarrow> Ret (DecisionReply (Inl ApprovalNotFound))
       | Some a \<Rightarrow>
           if \<not> canDecideApproval (dq_actorRole q) (aw_role a) then Ret (DecisionReply (Inl ApprovalRoleForbidden))
           else if aw_state a \<noteq> StatePending then Ret (DecisionReply (Inl ApprovalAlreadyDecided))
           else if aw_expires_at a \<le> toISOString now then Ret (DecisionReply (Inl ApprovalExpired))
           else if dq_decision q = DecideApproved \<and> aw_resume_hook a = ''installation.request''
           then ask (readInstallationRequest q) (\<lambda>request.
             case request of
               None \<Rightarrow> Ret (DecisionReply (Inl (Thrown ''installation approval request unavailable'')))
             | Some (g, v, p) \<Rightarrow>
                 if \<not> validGrantRequest g then Ret (DecisionReply (Inl (Thrown ''invalid installation approval request'')))
                 else writeDecision q (approvedInstallationStatements auditId installationAuditId now q a g)
                        (decidedBy auditId now q (Some (g, v, p))))
           else writeDecision q [insertDecision (approvalAudit auditId (toISOString now) q a)] (decidedBy auditId now q None))"

end
