(* ===== verification/CpAdminInvariant.thy ===== *)
theory CpAdminInvariant
  imports CpAdminInstall
begin

text \<open>
  What every administrative mutation keeps of the administration database, however their statements
  interleave, and what a reply promises of it.
\<close>

section \<open>What the database explains\<close>

text \<open>The audit of an installation, and the state that it replays to.\<close>

definition installationHistory :: "admin_db \<Rightarrow> string \<Rightarrow> admin_audit_row list" where
  "installationHistory db i = filter (\<lambda>x. xa_installation_id x = i) (ad_audits db)"

type_synonym replayed = "jsnum option \<times> jsnum option \<times> string option"

definition replayAudit :: "replayed \<Rightarrow> admin_audit_row \<Rightarrow> replayed" where
  "replayAudit s x =
     (case s of (enabled, priority, version) \<Rightarrow>
       (case sqlNumber (xa_after_json x) ''enabled'' of None \<Rightarrow> enabled | Some n \<Rightarrow> Some n,
        case sqlNumber (xa_after_json x) ''priority'' of None \<Rightarrow> priority | Some n \<Rightarrow> Some n,
        case sqlText (xa_after_json x) ''versionId'' of None \<Rightarrow> version | Some v \<Rightarrow> Some v))"

definition replayHistory :: "admin_audit_row list \<Rightarrow> replayed" where
  "replayHistory h = foldl replayAudit (None, None, None) h"

definition explains :: "admin_audit_row list \<Rightarrow> InstallationRow \<Rightarrow> bool" where
  "explains h r \<longleftrightarrow>
     0 \<le> iw_revision r \<and> map xa_revision h = map int [0..<Suc (nat (iw_revision r))] \<and>
     (case replayHistory h of (enabled, priority, version) \<Rightarrow>
       enabled = Some (NInt (iw_enabled r)) \<and> priority = Some (iw_priority r) \<and>
       (version = None \<or> version = Some (iw_plugin_version_id r)))"

definition installationsExplained :: "admin_db \<Rightarrow> bool" where
  "installationsExplained db \<longleftrightarrow>
     distinct (map iw_id (ad_installations db)) \<and>
     (\<forall>r \<in> set (ad_installations db). explains (installationHistory db (iw_id r)) r) \<and>
     (\<forall>x \<in> set (ad_audits db). xa_installation_id x \<in> iw_id ` set (ad_installations db))"

text \<open>The decision that an approval has, if it is decided.\<close>

definition decisionOf :: "admin_db \<Rightarrow> ApprovalRow \<Rightarrow> decision_audit_row \<Rightarrow> bool" where
  "decisionOf db a d \<longleftrightarrow>
     d \<in> set (ad_decisions db) \<and> xd_approval_id d = aw_id a \<and> decision_state (xd_decision d) = aw_state a \<and>
     xd_tenant_id d = aw_tenant_id a \<and> sqlMayDecide (xd_actor_role d) (aw_role a) \<and> xd_created_at d < aw_expires_at a"

definition approvalsExplained :: "admin_db \<Rightarrow> bool" where
  "approvalsExplained db \<longleftrightarrow>
     distinct (map aw_id (ad_approvals db)) \<and> distinct (map xd_approval_id (ad_decisions db)) \<and>
     xd_approval_id ` set (ad_decisions db) \<subseteq> aw_id ` set (ad_approvals db) \<and>
     (\<forall>a \<in> set (ad_approvals db).
        if aw_state a = StatePending then aw_id a \<notin> xd_approval_id ` set (ad_decisions db) else \<exists>d. decisionOf db a d)"

text \<open>
  Requests and the installations that stand for them; \<open>reserved\<close> are the identifiers drawn for
  requested installations.
\<close>

definition requestOf :: "grant_request_row \<Rightarrow> ApprovalRow \<Rightarrow> bool" where
  "requestOf g a \<longleftrightarrow> xg_approval_id g = aw_id a \<and> aw_resume_hook a = ''installation.request'' \<and> aw_tenant_id a = xg_tenant_id g"

definition installedAs :: "grant_request_row \<Rightarrow> InstallationRow \<Rightarrow> bool" where
  "installedAs g r \<longleftrightarrow>
     iw_id r = xg_installation_id g \<and> iw_tenant_id r = xg_tenant_id g \<and>
     iw_config_json r = xg_config_json g \<and> iw_grants_json r = xg_grants_json g"

definition requestsExplained :: "string set \<Rightarrow> admin_db \<Rightarrow> bool" where
  "requestsExplained reserved db \<longleftrightarrow>
     distinct (map xg_approval_id (ad_requests db)) \<and> distinct (map xg_installation_id (ad_requests db)) \<and>
     (\<forall>g \<in> set (ad_requests db). xg_installation_id g \<in> reserved \<and>
        (\<exists>a \<in> set (ad_approvals db). requestOf g a \<and>
           (aw_state a = StateApproved \<longrightarrow> (\<exists>r \<in> set (ad_installations db). iw_id r = xg_installation_id g)))) \<and>
     (\<forall>r \<in> set (ad_installations db). iw_id r \<in> reserved \<longrightarrow>
        (\<exists>g \<in> set (ad_requests db). \<exists>a \<in> set (ad_approvals db).
           requestOf g a \<and> installedAs g r \<and> aw_state a = StateApproved))"

section \<open>What replies promise\<close>

definition audited :: "admin_db \<Rightarrow> string \<Rightarrow> int \<Rightarrow> string \<Rightarrow> admin_audit_row \<Rightarrow> bool" where
  "audited db i revision action x \<longleftrightarrow>
     x \<in> set (ad_audits db) \<and> xa_installation_id x = i \<and> xa_revision x = revision \<and> xa_action x = action"

definition rollbackPromise :: "rolled_back \<Rightarrow> admin_db \<Rightarrow> bool" where
  "rollbackPromise r db \<longleftrightarrow>
     (\<exists>x. audited db (rb_installationId r) (rb_revision r) ''installation.rollback'' x \<and> xa_id x = rb_auditId r \<and>
        sqlText (xa_before_json x) ''version'' = Some (rb_fromVersion r) \<and>
        sqlText (xa_after_json x) ''version'' = Some (rb_toVersion r))"

definition installPromise :: "install_result \<Rightarrow> admin_db \<Rightarrow> bool" where
  "installPromise r db \<longleftrightarrow> (\<exists>x. audited db (ir_id r) 0 ''installation.install'' x)"

definition requestPromise :: "request_result \<Rightarrow> admin_db \<Rightarrow> bool" where
  "requestPromise r db \<longleftrightarrow> (\<exists>g \<in> set (ad_requests db). xg_approval_id g = qr_approvalId r)"

definition decisionPromise :: "decision_result \<Rightarrow> admin_db \<Rightarrow> bool" where
  "decisionPromise r db \<longleftrightarrow>
     (\<exists>d \<in> set (ad_decisions db). xd_id d = dr_auditId r \<and> xd_approval_id d = dr_approvalId r \<and>
        xd_decision d = dr_decision r) \<and>
     (case dr_installation r of None \<Rightarrow> True | Some i \<Rightarrow> \<exists>x. audited db (ir_id i) 0 ''installation.install.approved'' x)"

fun adminPromise :: "admin_reply \<Rightarrow> admin_db \<Rightarrow> bool" where
  "adminPromise (CommandReply (Inr (Some (CommandUpdated i enabled priority revision True)))) db \<longleftrightarrow>
     (\<exists>x. audited db i revision ''installation.command'' x \<and>
        sqlNumber (xa_after_json x) ''enabled'' = Some (NInt (if enabled then 1 else 0)) \<and>
        sqlNumber (xa_after_json x) ''priority'' = Some priority)"
| "adminPromise (RollbackReply (Inr (Some (RolledBack r)))) db \<longleftrightarrow> rollbackPromise r db"
| "adminPromise (InstallReply (Inr (Some r))) db \<longleftrightarrow> installPromise r db"
| "adminPromise (RequestReply (Inr (Some r))) db \<longleftrightarrow> requestPromise r db"
| "adminPromise (DecisionReply (Inr r)) db \<longleftrightarrow> decisionPromise r db"
| "adminPromise _ db \<longleftrightarrow> True"

text \<open>The results kept for replays are true.\<close>

definition keysTruthful :: "(string \<Rightarrow> int option) \<Rightarrow> admin_db \<Rightarrow> bool" where
  "keysTruthful other db \<longleftrightarrow>
     (\<forall>k \<in> set (ad_install_keys db). \<forall>r. isAdminInstallResult (xi_result_json k) = Some r \<longrightarrow> installPromise r db) \<and>
     (\<forall>k \<in> set (ad_rollback_keys db). \<forall>r. isRolledBackResult (xi_result_json (fst k)) = Some r \<longrightarrow> rollbackPromise r db) \<and>
     (\<forall>k \<in> set (ad_request_keys db). \<forall>r. isRequestResult other (xi_result_json k) = Some r \<longrightarrow> requestPromise r db)"

definition adminInv :: "string set \<Rightarrow> (string \<Rightarrow> int option) \<Rightarrow> admin_db \<Rightarrow> bool" where
  "adminInv reserved other db \<longleftrightarrow>
     installationsExplained db \<and> approvalsExplained db \<and> requestsExplained reserved db \<and> keysTruthful other db"

text \<open>How the database grows: the catalogue stays, records stay, an approval keeps what it asks.\<close>

definition sameQuestion :: "ApprovalRow \<Rightarrow> ApprovalRow \<Rightarrow> bool" where
  "sameQuestion a b \<longleftrightarrow> aw_id b = aw_id a \<and> aw_resume_hook b = aw_resume_hook a"

definition adminGrows :: "admin_db \<Rightarrow> admin_db \<Rightarrow> bool" where
  "adminGrows s t \<longleftrightarrow>
     set (ad_audits s) \<subseteq> set (ad_audits t) \<and> set (ad_decisions s) \<subseteq> set (ad_decisions t) \<and>
     set (ad_requests s) \<subseteq> set (ad_requests t) \<and>
     (\<forall>a \<in> set (ad_approvals s). \<exists>b \<in> set (ad_approvals t). sameQuestion a b)"

lemma audited_grows: "audited s i n act x \<Longrightarrow> adminGrows s t \<Longrightarrow> audited t i n act x"
  by (auto simp: audited_def adminGrows_def)

lemma promise_grows: "adminPromise r s \<Longrightarrow> adminGrows s t \<Longrightarrow> adminPromise r t"
  by (cases "(r, s)" rule: adminPromise.cases)
    (auto simp: rollbackPromise_def installPromise_def requestPromise_def decisionPromise_def adminGrows_def
      intro: audited_grows [unfolded adminGrows_def] split: option.splits)

lemma grows_trans: "adminGrows s t \<Longrightarrow> adminGrows t u \<Longrightarrow> adminGrows s u"
  unfolding adminGrows_def sameQuestion_def by (metis (no_types, lifting) subset_trans)

interpretation admin: promises "adminInv reserved other" adminGrows adminPromise for reserved other
proof unfold_locales
  fix s t u r
  show "adminGrows s s" by (auto simp: adminGrows_def sameQuestion_def)
  show "adminGrows s t \<Longrightarrow> adminGrows t u \<Longrightarrow> adminGrows s u" by (rule grows_trans)
  show "adminPromise r s \<Longrightarrow> adminGrows s t \<Longrightarrow> adminPromise r t" by (rule promise_grows)
qed

lemma keys_grow:
  assumes "keysTruthful other s" "adminGrows s t" "set (ad_install_keys t) \<subseteq> set (ad_install_keys s)"
    "set (ad_rollback_keys t) \<subseteq> set (ad_rollback_keys s)" "set (ad_request_keys t) \<subseteq> set (ad_request_keys s)"
  shows "keysTruthful other t"
  using assms promise_grows [of "InstallReply (Inr (Some _))"] promise_grows [of "RollbackReply (Inr (Some (RolledBack _)))"]
    promise_grows [of "RequestReply (Inr (Some _))"]
  unfolding keysTruthful_def adminPromise.simps by (meson subset_eq)

section \<open>What single statements change\<close>

lemma find_by_key: "List.find (\<lambda>x. f x = k) xs = None \<longleftrightarrow> k \<notin> f ` set xs"
  by (auto simp: find_None_iff)

lemma updateWhere_one:
  assumes "length (filter P xs) = 1" "x \<in> set xs" "P x"
  shows "\<exists>ys zs. xs = ys @ x # zs \<and> updateWhere P f xs = ys @ f x # zs"
proof -
  obtain y where y: "filter P xs = [y]" using assms(1) by (auto simp: length_Suc_conv)
  moreover have "x \<in> set (filter P xs)" using assms(2,3) by simp
  ultimately have "x = y" by simp
  obtain ys zs where xs: "xs = ys @ y # zs" "filter P ys = []" "filter P zs = []"
    using filter_eq_ConsD [OF y] by (metis (no_types, lifting) filter_empty_conv)
  have "map (\<lambda>r. if P r then f r else r) us = us" if "filter P us = []" for us
    using that by (simp add: filter_empty_conv map_idI)
  then have "updateWhere P f xs = ys @ f y # zs"
    using xs assms(3) \<open>x = y\<close> by (simp add: updateWhere_def)
  then show ?thesis using xs(1) \<open>x = y\<close> by blast
qed

lemma insertInstallationRow_Inr:
  "insertInstallationRow r db = Inr db' \<Longrightarrow>
     db' = db\<lparr>ad_installations := ad_installations db @ [r]\<rparr> \<and> iw_id r \<notin> iw_id ` set (ad_installations db)"
  by (auto simp: insertInstallationRow_def installationRow_def find_by_key split: if_splits)

lemma insertAdminAudit_Inr:
  assumes "insertAdminAudit x db = Inr db'"
  obtains db1 where "auditTriggers x db = Inr db1" "db' = db1\<lparr>ad_audits := ad_audits db1 @ [x]\<rparr>"
    "xa_installation_id x \<in> iw_id ` set (ad_installations db1)"
  using assms by (auto simp: insertAdminAudit_def bindE_Inr installationRow_def find_by_key split: if_splits)

lemma applyCommand_Inr:
  assumes "applyCommand x db = Inr db'"
  obtains ys r zs n p where "ad_installations db = ys @ r # zs" "commandValid db x r"
    "sqlNumber (xa_after_json x) ''enabled'' = Some (NInt n)" "sqlNumber (xa_after_json x) ''priority'' = Some p"
    "db' = db\<lparr>ad_installations := ys @ r\<lparr>iw_enabled := n, iw_priority := p, iw_revision := xa_revision x\<rparr> # zs\<rparr>"
proof -
  obtain r where r: "r \<in> set (ad_installations db)" "commandValid db x r"
    using assms by (auto simp: applyCommand_def list_ex_iff split: if_splits)
  have w: "commandWhere db x r" using r(2) by (simp add: commandValid_def commandWhere_def)
  obtain n p where np: "sqlNumber (xa_after_json x) ''enabled'' = Some (NInt n)" "sqlNumber (xa_after_json x) ''priority'' = Some p"
    "length (filter (commandWhere db x) (ad_installations db)) = 1"
    "db' = db\<lparr>ad_installations := updateWhere (commandWhere db x)
       (\<lambda>i. i\<lparr>iw_enabled := n, iw_priority := p, iw_revision := xa_revision x\<rparr>) (ad_installations db)\<rparr>"
    using assms by (auto simp: applyCommand_def split: if_splits option.splits jsnum.splits)
  obtain ys zs where "ad_installations db = ys @ r # zs"
    "updateWhere (commandWhere db x) (\<lambda>i. i\<lparr>iw_enabled := n, iw_priority := p, iw_revision := xa_revision x\<rparr>)
       (ad_installations db) = ys @ r\<lparr>iw_enabled := n, iw_priority := p, iw_revision := xa_revision x\<rparr> # zs"
    using updateWhere_one [OF np(3) r(1) w] by blast
  then show thesis using that [of ys r zs n p] r(2) np(1,2,4) by simp
qed

lemma applyRollback_Inr:
  assumes "applyRollback x db = Inr db'"
  obtains ys r zs v where "ad_installations db = ys @ r # zs" "rollbackValid db x r"
    "sqlText (xa_after_json x) ''versionId'' = Some v"
    "db' = db\<lparr>ad_installations := ys @ r\<lparr>iw_plugin_version_id := v, iw_revision := xa_revision x\<rparr> # zs\<rparr>"
proof -
  obtain r where r: "r \<in> set (ad_installations db)" "rollbackValid db x r"
    using assms by (auto simp: applyRollback_def list_ex_iff split: if_splits)
  have "joinInstallation db (xa_app_id x) r = Some (v, p) \<Longrightarrow> xv_id v = iw_plugin_version_id r" for v p
    by (auto simp: joinInstallation_def versionRow_def dest!: find_Some_in split: if_splits option.splits)
  then have w: "rollbackWhere x r"
    using r(2) by (auto simp: rollbackValid_def rollbackWhere_def split: option.splits)
  obtain v where v: "sqlText (xa_after_json x) ''versionId'' = Some v"
    "length (filter (rollbackWhere x) (ad_installations db)) = 1"
    "db' = db\<lparr>ad_installations := updateWhere (rollbackWhere x)
       (\<lambda>i. i\<lparr>iw_plugin_version_id := v, iw_revision := xa_revision x\<rparr>) (ad_installations db)\<rparr>"
    using assms by (auto simp: applyRollback_def split: if_splits option.splits)
  obtain ys zs where "ad_installations db = ys @ r # zs"
    "updateWhere (rollbackWhere x) (\<lambda>i. i\<lparr>iw_plugin_version_id := v, iw_revision := xa_revision x\<rparr>)
       (ad_installations db) = ys @ r\<lparr>iw_plugin_version_id := v, iw_revision := xa_revision x\<rparr> # zs"
    using updateWhere_one [OF v(2) r(1) w] by blast
  then show thesis using that [of ys r zs v] r(2) v(1,3) by simp
qed

section \<open>Installations stay explained\<close>

lemma explains_step:
  assumes "explains h r" "xa_revision x = iw_revision r + 1"
    "r' = r\<lparr>iw_enabled := n, iw_priority := p, iw_plugin_version_id := v, iw_revision := xa_revision x\<rparr>"
    "replayAudit (Some (NInt (iw_enabled r)), Some (iw_priority r), None) x = (Some (NInt n), Some p, w)"
    "w = None \<longrightarrow> v = iw_plugin_version_id r" "w \<noteq> None \<longrightarrow> w = Some v"
  shows "explains (h @ [x]) r'"
proof -
  obtain u where u: "replayHistory h = (Some (NInt (iw_enabled r)), Some (iw_priority r), u)" "u = None \<or> u = Some (iw_plugin_version_id r)"
    using assms(1) by (auto simp: explains_def split: prod.splits)
  have s: "replayHistory (h @ [x]) = (Some (NInt n), Some p, case w of None \<Rightarrow> u | Some _ \<Rightarrow> w)"
    using assms(4) u(1) by (auto simp: replayHistory_def replayAudit_def split: option.splits)
  have "0 \<le> iw_revision r" "map xa_revision h = map int [0..<Suc (nat (iw_revision r))]"
    using assms(1) by (auto simp: explains_def)
  moreover from this(1) have "nat (iw_revision r + 1) = Suc (nat (iw_revision r))" by simp
  ultimately show ?thesis
    using s u(2) assms(2,3,5,6) by (auto simp: explains_def split: option.splits)
qed

text \<open>An audit record of one installation with the change it stands for.\<close>

lemma explained_change:
  assumes "installationsExplained db" "ad_installations db = ys @ r # zs" "xa_installation_id x = iw_id r" "iw_id r' = iw_id r"
    "\<And>h. explains h r \<Longrightarrow> explains (h @ [x]) r'"
    "ad_installations db' = ys @ r' # zs" "ad_audits db' = ad_audits db @ [x]"
  shows "installationsExplained db'"
proof -
  have ids: "map iw_id (ad_installations db') = map iw_id (ad_installations db)"
    using assms(2,4,6) by simp
  have "explains (installationHistory db' (iw_id q)) q" if q: "q \<in> set (ad_installations db')" for q
  proof (cases "q = r'")
    case True
    then show ?thesis
      using assms by (auto simp: installationsExplained_def installationHistory_def)
  next
    case False
    then have "q \<in> set (ad_installations db)" "iw_id q \<noteq> iw_id r"
      using q assms(1,2,6) by (auto simp: installationsExplained_def image_iff)
    then show ?thesis using assms(1,3,7) by (auto simp: installationsExplained_def installationHistory_def)
  qed
  moreover have "iw_id ` set (ad_installations db') = iw_id ` set (ad_installations db)"
    using ids by (metis set_map)
  ultimately show ?thesis
    using assms(1-3,7) ids by (auto simp: installationsExplained_def)
qed

lemma explained_new:
  assumes "installationsExplained db" "iw_id r \<notin> iw_id ` set (ad_installations db)" "xa_installation_id x = iw_id r"
    "explains [x] r" "ad_installations db' = ad_installations db @ [r]" "ad_audits db' = ad_audits db @ [x]"
  shows "installationsExplained db'"
proof -
  have "xa_installation_id a \<noteq> iw_id r" if "a \<in> set (ad_audits db)" for a
    using assms(1,2) that unfolding installationsExplained_def by metis
  then have "installationHistory db (iw_id r) = []"
    by (simp add: installationHistory_def filter_empty_conv)
  then have "installationHistory db' (iw_id r) = [x]"
    using assms(3,6) by (simp add: installationHistory_def)
  moreover have "installationHistory db' (iw_id q) = installationHistory db (iw_id q)" if "q \<in> set (ad_installations db)" for q
    using assms(2,3,6) that by (auto simp: installationHistory_def)
  ultimately show ?thesis
    using assms by (auto simp: installationsExplained_def)
qed

section \<open>Changes of one installation\<close>

lemma approvals_same:
  "ad_approvals db' = ad_approvals db \<Longrightarrow> ad_decisions db' = ad_decisions db \<Longrightarrow> approvalsExplained db' = approvalsExplained db"
  unfolding approvalsExplained_def decisionOf_def by simp

lemma requests_change:
  assumes "requestsExplained reserved db" "ad_installations db = ys @ r # zs" "ad_installations db' = ys @ r' # zs"
    "iw_id r' = iw_id r" "iw_tenant_id r' = iw_tenant_id r" "iw_config_json r' = iw_config_json r"
    "iw_grants_json r' = iw_grants_json r" "ad_approvals db' = ad_approvals db" "ad_requests db' = ad_requests db"
  shows "requestsExplained reserved db'"
proof -
  have same: "installedAs g r' = installedAs g r" for g using assms(4-7) by (simp add: installedAs_def)
  have "iw_id ` set (ad_installations db') = iw_id ` set (ad_installations db)" using assms(2-4) by auto
  then have present: "(\<exists>q \<in> set (ad_installations db'). iw_id q = i) \<longleftrightarrow> (\<exists>q \<in> set (ad_installations db). iw_id q = i)" for i
    by (metis (no_types, lifting) image_iff)
  have "(\<forall>q \<in> set (ad_installations db'). P (iw_id q) (\<lambda>g. installedAs g q)) \<longleftrightarrow>
      (\<forall>q \<in> set (ad_installations db). P (iw_id q) (\<lambda>g. installedAs g q))" for P
    using assms(2-4) same by (simp add: ball_Un)
  from this [of "\<lambda>i p. i \<in> reserved \<longrightarrow> (\<exists>g \<in> set (ad_requests db). \<exists>a \<in> set (ad_approvals db).
      requestOf g a \<and> p g \<and> aw_state a = StateApproved)"] present
  show ?thesis using assms(1,8,9) unfolding requestsExplained_def by simp
qed

text \<open>An audit record whose installation changes.\<close>

lemma changed_inv:
  assumes "adminInv reserved other db" "ad_installations db = ys @ r # zs" "xa_installation_id x = iw_id r"
    "\<And>h. explains h r \<Longrightarrow> explains (h @ [x]) r'" "iw_id r' = iw_id r" "iw_tenant_id r' = iw_tenant_id r"
    "iw_config_json r' = iw_config_json r" "iw_grants_json r' = iw_grants_json r"
    "db' = db\<lparr>ad_installations := ys @ r' # zs, ad_audits := ad_audits db @ [x]\<rparr>"
  shows "adminInv reserved other db' \<and> adminGrows db db'"
proof -
  have g: "adminGrows db db'" using assms(9) by (auto simp: adminGrows_def sameQuestion_def)
  moreover have "installationsExplained db'"
    using explained_change [OF _ assms(2,3,5,4), of db'] assms(1,9) by (simp add: adminInv_def)
  moreover have "requestsExplained reserved db'"
    using requests_change [OF _ assms(2), of reserved db' r'] assms by (simp add: adminInv_def)
  moreover have "approvalsExplained db'"
    using assms(1,9) approvals_same [of db' db] by (simp add: adminInv_def)
  moreover have "keysTruthful other db'" using keys_grow [OF _ g] assms(1,9) by (simp add: adminInv_def)
  ultimately show ?thesis by (simp add: adminInv_def)
qed

lemma command_inv:
  assumes "adminInv reserved other db" "insertAdminAudit x db = Inr db'" "xa_action x = ''installation.command''"
    "sqlText (xa_after_json x) ''versionId'' = None"
  shows "adminInv reserved other db' \<and> adminGrows db db' \<and> x \<in> set (ad_audits db')"
proof -
  obtain db1 where 1: "auditTriggers x db = Inr db1" "db' = db1\<lparr>ad_audits := ad_audits db1 @ [x]\<rparr>"
    using insertAdminAudit_Inr [OF assms(2)] by metis
  then have "applyCommand x db = Inr db1" using assms(3) by (simp add: auditTriggers_def)
  then obtain ys r zs n p where r: "ad_installations db = ys @ r # zs" "commandValid db x r"
    "sqlNumber (xa_after_json x) ''enabled'' = Some (NInt n)" "sqlNumber (xa_after_json x) ''priority'' = Some p"
    "db1 = db\<lparr>ad_installations := ys @ r\<lparr>iw_enabled := n, iw_priority := p, iw_revision := xa_revision x\<rparr> # zs\<rparr>"
    by (rule applyCommand_Inr)
  let ?r = "r\<lparr>iw_enabled := n, iw_priority := p, iw_revision := xa_revision x\<rparr>"
  have "explains (h @ [x]) ?r" if "explains h r" for h
    using r(2) by (intro explains_step [OF that, where n = n and p = p and v = "iw_plugin_version_id r" and w = None])
      (simp_all add: commandValid_def replayAudit_def r(3,4) assms(4))
  then have "adminInv reserved other db' \<and> adminGrows db db'"
    using r by (intro changed_inv [OF assms(1) r(1), of x ?r]) (simp_all add: commandValid_def 1(2))
  then show ?thesis using 1(2) by simp
qed

lemma rollback_inv:
  assumes "adminInv reserved other db" "insertAdminAudit x db = Inr db'" "xa_action x = ''installation.rollback''"
    "sqlNumber (xa_after_json x) ''enabled'' = None" "sqlNumber (xa_after_json x) ''priority'' = None"
  shows "adminInv reserved other db' \<and> adminGrows db db' \<and> x \<in> set (ad_audits db')"
proof -
  obtain db1 where 1: "auditTriggers x db = Inr db1" "db' = db1\<lparr>ad_audits := ad_audits db1 @ [x]\<rparr>"
    using insertAdminAudit_Inr [OF assms(2)] by metis
  then have "applyRollback x db = Inr db1" using assms(3) by (simp add: auditTriggers_def)
  then obtain ys r zs v where r: "ad_installations db = ys @ r # zs" "rollbackValid db x r"
    "sqlText (xa_after_json x) ''versionId'' = Some v"
    "db1 = db\<lparr>ad_installations := ys @ r\<lparr>iw_plugin_version_id := v, iw_revision := xa_revision x\<rparr> # zs\<rparr>"
    by (rule applyRollback_Inr)
  let ?r = "r\<lparr>iw_plugin_version_id := v, iw_revision := xa_revision x\<rparr>"
  have "explains (h @ [x]) ?r" if "explains h r" for h
    using r(2) by (intro explains_step [OF that, where n = "iw_enabled r" and p = "iw_priority r" and v = v and w = "Some v"])
      (simp_all add: rollbackValid_def replayAudit_def r(3) assms(4,5))
  then have "adminInv reserved other db' \<and> adminGrows db db'"
    using r by (intro changed_inv [OF assms(1) r(1), of x ?r]) (simp_all add: rollbackValid_def 1(2))
  then show ?thesis using 1(2) by simp
qed

section \<open>Keys\<close>

definition onlyKeys :: "admin_db \<Rightarrow> admin_db \<Rightarrow> bool" where
  "onlyKeys db db' \<longleftrightarrow>
     ad_installations db' = ad_installations db \<and> ad_audits db' = ad_audits db \<and> ad_approvals db' = ad_approvals db \<and>
     ad_decisions db' = ad_decisions db \<and> ad_requests db' = ad_requests db"

lemma onlyKeys_grows: "onlyKeys db db' \<Longrightarrow> adminGrows db db'"
  by (auto simp: onlyKeys_def adminGrows_def sameQuestion_def)

lemma key_change:
  assumes "adminInv reserved other db" "keysTruthful other db'" "onlyKeys db db'"
  shows "adminInv reserved other db' \<and> adminGrows db db'"
proof -
  have "installationsExplained db' = installationsExplained db"
    using assms(3) unfolding installationsExplained_def installationHistory_def onlyKeys_def by simp
  moreover have "requestsExplained reserved db' = requestsExplained reserved db"
    using assms(3) unfolding requestsExplained_def onlyKeys_def by simp
  moreover have "approvalsExplained db' = approvalsExplained db"
    using assms(3) by (intro approvals_same) (simp_all add: onlyKeys_def)
  ultimately show ?thesis using assms onlyKeys_grows by (simp add: adminInv_def)
qed

lemma key_deleted:
  assumes "adminInv reserved other db" "onlyKeys db db'" "set (ad_install_keys db') \<subseteq> set (ad_install_keys db)"
    "set (ad_rollback_keys db') \<subseteq> set (ad_rollback_keys db)" "set (ad_request_keys db') \<subseteq> set (ad_request_keys db)"
  shows "adminInv reserved other db' \<and> adminGrows db db'"
  using key_change [OF assms(1) keys_grow [OF _ onlyKeys_grows [OF assms(2)] assms(3-5)] assms(2)] assms(1)
  by (simp add: adminInv_def)

lemma install_key_deleted:
  "adminInv reserved other db \<Longrightarrow> deleteInstallKey k at db = Inr db' \<Longrightarrow> adminInv reserved other db' \<and> adminGrows db db'"
  by (rule key_deleted) (auto simp: deleteInstallKey_def onlyKeys_def)

lemma rollback_key_deleted:
  "adminInv reserved other db \<Longrightarrow> deleteRollbackKey k at db = Inr db' \<Longrightarrow> adminInv reserved other db' \<and> adminGrows db db'"
  by (rule key_deleted) (auto simp: deleteRollbackKey_def onlyKeys_def)

lemma request_key_deleted:
  "adminInv reserved other db \<Longrightarrow> deleteRequestKey k at db = Inr db' \<Longrightarrow> adminInv reserved other db' \<and> adminGrows db db'"
  by (rule key_deleted) (auto simp: deleteRequestKey_def onlyKeys_def)

lemma rolledBackJson_read: "isRolledBackResult (rolledBackJson x) = Some r \<Longrightarrow> r = x"
  by (auto simp: isRolledBackResult_def rolledBackJson_def record_get_def own_keys_def split: if_splits)

lemma installJson_read: "isAdminInstallResult (installJson x) = Some r \<Longrightarrow> ir_id r = ir_id x"
  by (auto simp: isAdminInstallResult_def installJson_def record_get_def own_keys_def jsonNum_def split: if_splits)

lemma requestJson_read: "isRequestResult other (requestJson x) = Some r \<Longrightarrow> qr_approvalId r = qr_approvalId x"
  by (auto simp: isRequestResult_def requestJson_def record_get_def own_keys_def split: if_splits)

text \<open>A key added with a result that holds.\<close>

lemma rollback_key_added:
  assumes "adminInv reserved other db" "rollbackPromise r db" "xi_result_json k = rolledBackJson r"
    "insertRollbackKey k i db = Inr db'"
  shows "adminInv reserved other db' \<and> adminGrows db db' \<and> rollbackPromise r db'"
proof -
  have db': "db' = db\<lparr>ad_rollback_keys := ad_rollback_keys db @ [(k, i)]\<rparr>"
    using assms(4) by (auto simp: insertRollbackKey_def split: if_splits)
  then have g: "adminGrows db db'" by (auto simp: adminGrows_def sameQuestion_def)
  let ?d = "db'\<lparr>ad_rollback_keys := ad_rollback_keys db\<rparr>"
  have r: "rollbackPromise r db'" using promise_grows [of "RollbackReply (Inr (Some (RolledBack r)))", OF _ g] assms(2) by simp
  have "keysTruthful other ?d" using db' assms(1) by (simp add: adminInv_def)
  then have "keysTruthful other db'"
    using r rolledBackJson_read assms(3) by (auto simp: keysTruthful_def db' installPromise_def rollbackPromise_def requestPromise_def audited_def)
  then show ?thesis
    using key_change [OF assms(1), of db'] r by (simp add: db' onlyKeys_def)
qed

lemma install_key_added:
  assumes "adminInv reserved other db" "installPromise r db" "xi_result_json k = installJson r"
    "insertInstallKey k db = Inr db'"
  shows "adminInv reserved other db' \<and> adminGrows db db' \<and> installPromise r db'"
proof -
  have db': "db' = db\<lparr>ad_install_keys := ad_install_keys db @ [k]\<rparr>"
    using assms(4) by (auto simp: insertInstallKey_def split: if_splits)
  then have g: "adminGrows db db'" by (auto simp: adminGrows_def sameQuestion_def)
  have r: "installPromise r db'" using promise_grows [of "InstallReply (Inr (Some r))", OF _ g] assms(2) by simp
  have "keysTruthful other db" using assms(1) by (simp add: adminInv_def)
  then have "keysTruthful other db'"
    using r installJson_read assms(3) by (auto simp: keysTruthful_def db' installPromise_def rollbackPromise_def requestPromise_def audited_def)
  then show ?thesis
    using key_change [OF assms(1), of db'] r by (simp add: db' onlyKeys_def)
qed

lemma request_key_added:
  assumes "adminInv reserved other db" "requestPromise r db" "xi_result_json k = requestJson r"
    "insertRequestKey k db = Inr db'"
  shows "adminInv reserved other db' \<and> adminGrows db db' \<and> requestPromise r db'"
proof -
  have db': "db' = db\<lparr>ad_request_keys := ad_request_keys db @ [k]\<rparr>"
    using assms(4) by (auto simp: insertRequestKey_def split: if_splits)
  then have g: "adminGrows db db'" by (auto simp: adminGrows_def sameQuestion_def)
  have r: "requestPromise r db'" using promise_grows [of "RequestReply (Inr (Some r))", OF _ g] assms(2) by simp
  have "keysTruthful other db" using assms(1) by (simp add: adminInv_def)
  then have "keysTruthful other db'"
    using r requestJson_read assms(3) by (auto simp: keysTruthful_def db' installPromise_def rollbackPromise_def requestPromise_def audited_def)
  then show ?thesis
    using key_change [OF assms(1), of db'] r by (simp add: db' onlyKeys_def)
qed

section \<open>New installations\<close>

lemma new_installation:
  assumes "insertInstallationRow r db = Inr db1" "insertAdminAudit x db1 = Inr db2"
    "xa_action x \<noteq> ''installation.command''" "xa_action x \<noteq> ''installation.rollback''"
  shows "iw_id r \<notin> iw_id ` set (ad_installations db) \<and>
    db2 = db\<lparr>ad_installations := ad_installations db @ [r], ad_audits := ad_audits db @ [x]\<rparr>"
  using insertInstallationRow_Inr [OF assms(1)] insertAdminAudit_Inr [OF assms(2)] assms(3,4)
  by (auto simp: auditTriggers_def)

lemma explains_new:
  assumes "num_is_finite priority"
  shows "explains [installAudit act auditId i tenant app plugin actor now enabled priority cfg caps]
    (newInstallation i tenant version enabled priority config grants)"
  using assms by (simp add: explains_def installAudit_def newInstallation_def replayHistory_def replayAudit_def
      sqlNumber_def sqlText_def jsonNum_def)

lemma requests_more:
  assumes "requestsExplained reserved db" "iw_id r \<notin> reserved" "ad_installations db' = ad_installations db @ [r]"
    "ad_approvals db' = ad_approvals db" "ad_requests db' = ad_requests db"
  shows "requestsExplained reserved db'"
  using assms unfolding requestsExplained_def by (simp add: ball_Un bex_Un) blast

lemma installed_inv:
  assumes "adminInv reserved other db" "iw_id r \<notin> iw_id ` set (ad_installations db)" "iw_id r \<notin> reserved"
    "xa_installation_id x = iw_id r" "explains [x] r"
    "db' = db\<lparr>ad_installations := ad_installations db @ [r], ad_audits := ad_audits db @ [x]\<rparr>"
  shows "adminInv reserved other db' \<and> adminGrows db db'"
proof -
  have g: "adminGrows db db'" using assms(6) by (auto simp: adminGrows_def sameQuestion_def)
  moreover have "installationsExplained db'"
    using explained_new [OF _ assms(2,4,5), of db'] assms(1,6) by (simp add: adminInv_def)
  moreover have "requestsExplained reserved db'"
    using assms(1,3) requests_more [of reserved db r db'] by (simp add: adminInv_def assms(6))
  moreover have "approvalsExplained db'"
    using assms(1,6) approvals_same [of db' db] by (simp add: adminInv_def)
  moreover have "keysTruthful other db'" using keys_grow [OF _ g] assms(1,6) by (simp add: adminInv_def)
  ultimately show ?thesis by (simp add: adminInv_def)
qed

end
