(* ===== verification/CpAdminLawful.thy ===== *)
theory CpAdminLawful
  imports CpAdminInvariant
begin

text \<open>
  Every administrative operation is lawful: each of its statements, in any later state, keeps the
  invariant, and its reply comes with its promise.
\<close>

section \<open>Decisions\<close>

definition decidedRow :: "decision_audit_row \<Rightarrow> ApprovalRow \<Rightarrow> ApprovalRow" where
  "decidedRow d a =
     a\<lparr>aw_state := decision_state (xd_decision d), aw_decided_by := Some (xd_actor d),
       aw_decision_reason := xd_reason d, aw_decided_at := Some (xd_created_at d)\<rparr>"

lemma decidedRow_simps [simp]:
  "aw_id (decidedRow d a) = aw_id a" "aw_state (decidedRow d a) = decision_state (xd_decision d)"
  "aw_resume_hook (decidedRow d a) = aw_resume_hook a" "aw_tenant_id (decidedRow d a) = aw_tenant_id a"
  "aw_role (decidedRow d a) = aw_role a" "aw_expires_at (decidedRow d a) = aw_expires_at a"
  "requestOf g (decidedRow d a) = requestOf g a"
  by (simp_all add: decidedRow_def requestOf_def)

lemma decision_state_simps [simp]:
  "decision_state x \<noteq> StatePending" "decision_state x = StateApproved \<longleftrightarrow> x = DecideApproved"
  by (cases x; simp)+

lemma insertDecision_Inr:
  assumes "insertDecision d db = Inr db'"
  obtains ys a zs where "ad_approvals db = ys @ a # zs" "decisionApplies db d a"
    "xd_approval_id d \<notin> xd_approval_id ` set (ad_decisions db)"
    "db' = db\<lparr>ad_approvals := ys @ decidedRow d a # zs, ad_decisions := ad_decisions db @ [d]\<rparr>"
proof -
  have one: "length (filter (decisionApplies db d) (ad_approvals db)) = 1"
    and new: "xd_approval_id d \<notin> xd_approval_id ` set (ad_decisions db)"
    and db': "db' = db\<lparr>ad_approvals := updateWhere (decisionApplies db d) (decidedRow d) (ad_approvals db),
        ad_decisions := ad_decisions db @ [d]\<rparr>"
    using assms unfolding decidedRow_def [abs_def] by (auto simp: insertDecision_def split: if_splits)
  obtain a where a: "a \<in> set (ad_approvals db)" "decisionApplies db d a"
    using one by (metis filter_False length_0_conv zero_neq_one)
  from updateWhere_one [OF one a, of "decidedRow d"] show thesis using that a(2) new db' by metis
qed

lemma same_approval:
  "approvalsExplained db \<Longrightarrow> a \<in> set (ad_approvals db) \<Longrightarrow> b \<in> set (ad_approvals db) \<Longrightarrow> aw_id a = aw_id b \<Longrightarrow> a = b"
  by (auto simp: approvalsExplained_def distinct_map dest: inj_onD)

lemma decided_approvals:
  assumes "approvalsExplained db" "ad_approvals db = ys @ a # zs" "decisionApplies db d a"
    "xd_approval_id d \<notin> xd_approval_id ` set (ad_decisions db)"
    "ad_approvals db' = ys @ decidedRow d a # zs" "ad_decisions db' = ad_decisions db @ [d]"
  shows "approvalsExplained db'"
proof -
  have d: "xd_approval_id d = aw_id a" "xd_tenant_id d = aw_tenant_id a" "sqlMayDecide (xd_actor_role d) (aw_role a)"
    "xd_created_at d < aw_expires_at a"
    using assms(3) by (simp_all add: decisionApplies_def)
  have "decisionOf db' (decidedRow d a) d" using d assms(6) by (simp add: decisionOf_def)
  moreover have "if aw_state b = StatePending then aw_id b \<notin> xd_approval_id ` set (ad_decisions db') else \<exists>d. decisionOf db' b d"
    if b: "b \<in> set ys \<union> set zs" for b
  proof -
    have "aw_id b \<noteq> aw_id a"
      using b assms(1,2) by (auto simp: approvalsExplained_def) (metis imageI)+
    moreover have "if aw_state b = StatePending then aw_id b \<notin> xd_approval_id ` set (ad_decisions db) else \<exists>d. decisionOf db b d"
      using b assms(1,2) by (auto simp: approvalsExplained_def)
    moreover have "decisionOf db b e \<Longrightarrow> decisionOf db' b e" for e using assms(6) by (simp add: decisionOf_def)
    ultimately show ?thesis using d(1) assms(6) by (auto split: if_splits)
  qed
  moreover have "distinct (map aw_id (ad_approvals db'))" "distinct (map xd_approval_id (ad_decisions db'))"
    "xd_approval_id ` set (ad_decisions db') \<subseteq> aw_id ` set (ad_approvals db')"
    using assms(1,2,4-6) d(1) by (auto simp: approvalsExplained_def)
  ultimately show ?thesis
    using assms(5) unfolding approvalsExplained_def by auto
qed

text \<open>A decision with the installations (none, or the requested one) that are stored with it.\<close>

lemma decided_requests:
  assumes "requestsExplained reserved db" "approvalsExplained db" "ad_approvals db = ys @ a # zs" "aw_state a = StatePending"
    "ad_approvals db' = ys @ decidedRow d a # zs" "ad_requests db' = ad_requests db"
    "ad_installations db' = ad_installations db @ new"
    "\<And>r. r \<in> set new \<Longrightarrow> xd_decision d = DecideApproved \<and> (\<exists>g \<in> set (ad_requests db). requestOf g a \<and> installedAs g r)"
    "\<And>g. xd_decision d = DecideApproved \<Longrightarrow> g \<in> set (ad_requests db) \<Longrightarrow> requestOf g a \<Longrightarrow>
       \<exists>r \<in> set new. iw_id r = xg_installation_id g"
  shows "requestsExplained reserved db'"
proof -
  have later: "b \<in> set (ad_approvals db) \<Longrightarrow> b \<noteq> a \<Longrightarrow> b \<in> set (ad_approvals db')" for b
    using assms(3,5) by auto
  have mine: "decidedRow d a \<in> set (ad_approvals db')" using assms(5) by simp
  have "\<exists>b \<in> set (ad_approvals db'). requestOf g b \<and>
      (aw_state b = StateApproved \<longrightarrow> (\<exists>r \<in> set (ad_installations db'). iw_id r = xg_installation_id g))"
    if g: "g \<in> set (ad_requests db)" for g
  proof -
    obtain b where b: "b \<in> set (ad_approvals db)" "requestOf g b"
      "aw_state b = StateApproved \<Longrightarrow> \<exists>r \<in> set (ad_installations db). iw_id r = xg_installation_id g"
      using assms(1) g unfolding requestsExplained_def by blast
    show ?thesis
    proof (cases "b = a")
      case True
      then have "decision_state (xd_decision d) = StateApproved \<Longrightarrow> \<exists>r \<in> set (ad_installations db'). iw_id r = xg_installation_id g"
        using assms(7) assms(9) [OF _ g] b(2) by auto
      then show ?thesis using b(2) True by (intro bexI [OF _ mine]) simp
    next
      case False
      then show ?thesis using b assms(7) by (intro bexI [OF _ later]) auto
    qed
  qed
  moreover have "\<exists>g \<in> set (ad_requests db). \<exists>b \<in> set (ad_approvals db'). requestOf g b \<and> installedAs g r \<and> aw_state b = StateApproved"
    if r: "r \<in> set (ad_installations db')" "iw_id r \<in> reserved" for r
  proof (cases "r \<in> set new")
    case True
    then obtain g where "g \<in> set (ad_requests db)" "requestOf g (decidedRow d a)" "installedAs g r" "xd_decision d = DecideApproved"
      using assms(8) by auto
    then show ?thesis using mine by (metis decidedRow_simps(2) decision_state_simps(2))
  next
    case False
    then obtain g b where gb: "g \<in> set (ad_requests db)" "b \<in> set (ad_approvals db)" "requestOf g b" "installedAs g r"
      "aw_state b = StateApproved"
      using assms(1,7) r unfolding requestsExplained_def by auto
    moreover have "b \<noteq> a" using gb(5) assms(4) by auto
    ultimately show ?thesis using later by blast
  qed
  ultimately show ?thesis
    using assms(1,6) unfolding requestsExplained_def by simp
qed

lemma decided_grows:
  assumes "ad_approvals db = ys @ a # zs" "ad_approvals db' = ys @ decidedRow d a # zs"
    "set (ad_audits db) \<subseteq> set (ad_audits db')" "ad_decisions db' = ad_decisions db @ [d]" "ad_requests db' = ad_requests db"
  shows "adminGrows db db'"
  using assms by (auto simp: adminGrows_def sameQuestion_def)

text \<open>A decision alone: of an approval that stands for no requested installation, or a rejection.\<close>

lemma decision_inv:
  assumes "adminInv reserved other db" "insertDecision d db = Inr db'"
    and plain: "\<And>a. a \<in> set (ad_approvals db) \<Longrightarrow> aw_id a = xd_approval_id d \<Longrightarrow>
      xd_decision d = DecideApproved \<Longrightarrow> aw_resume_hook a \<noteq> ''installation.request''"
  shows "adminInv reserved other db' \<and> adminGrows db db' \<and> d \<in> set (ad_decisions db')"
proof -
  obtain ys a zs where a: "ad_approvals db = ys @ a # zs" "decisionApplies db d a"
    "xd_approval_id d \<notin> xd_approval_id ` set (ad_decisions db)"
    "db' = db\<lparr>ad_approvals := ys @ decidedRow d a # zs, ad_decisions := ad_decisions db @ [d]\<rparr>"
    by (rule insertDecision_Inr [OF assms(2)])
  have inv: "installationsExplained db" "approvalsExplained db" "requestsExplained reserved db" "keysTruthful other db"
    using assms(1) by (simp_all add: adminInv_def)
  have "aw_id a = xd_approval_id d" "aw_state a = StatePending" using a(2) by (simp_all add: decisionApplies_def)
  then have "requestsExplained reserved db'"
    using plain [of a] a by (intro decided_requests [OF inv(3,2) a(1), where d = d and new = "[]"]) (auto simp: requestOf_def)
  moreover have "approvalsExplained db'" by (rule decided_approvals [OF inv(2) a(1-3)]) (simp_all add: a(4))
  moreover have "installationsExplained db'"
    using inv(1) unfolding a(4) installationsExplained_def installationHistory_def by simp
  moreover have g: "adminGrows db db'" by (rule decided_grows [OF a(1)]) (simp_all add: a(4))
  moreover have "keysTruthful other db'" by (rule keys_grow [OF inv(4) g]) (simp_all add: a(4))
  ultimately show ?thesis by (simp add: adminInv_def a(4))
qed

text \<open>An approval with the installation it approves.\<close>

lemma approved_inv:
  assumes "adminInv reserved other db" "insertInstallationRow r db = Inr db1" "insertAdminAudit x db1 = Inr db2"
    "insertDecision d db2 = Inr db3" "xa_action x = ''installation.install.approved''" "xa_installation_id x = iw_id r"
    "explains [x] r" "g \<in> set (ad_requests db)" "xg_approval_id g = xd_approval_id d" "installedAs g r"
    "xd_decision d = DecideApproved"
  shows "adminInv reserved other db3 \<and> adminGrows db db3 \<and> d \<in> set (ad_decisions db3) \<and> x \<in> set (ad_audits db3)"
proof -
  have new: "iw_id r \<notin> iw_id ` set (ad_installations db)"
    "db2 = db\<lparr>ad_installations := ad_installations db @ [r], ad_audits := ad_audits db @ [x]\<rparr>"
    using new_installation [OF assms(2,3)] assms(5) by simp_all
  obtain ys a zs where a: "ad_approvals db2 = ys @ a # zs" "decisionApplies db2 d a"
    "xd_approval_id d \<notin> xd_approval_id ` set (ad_decisions db2)"
    "db3 = db2\<lparr>ad_approvals := ys @ decidedRow d a # zs, ad_decisions := ad_decisions db2 @ [d]\<rparr>"
    by (rule insertDecision_Inr [OF assms(4)])
  have ap: "ad_approvals db = ys @ a # zs" using a(1) new(2) by simp
  have inv: "installationsExplained db" "approvalsExplained db" "requestsExplained reserved db" "keysTruthful other db"
    using assms(1) by (simp_all add: adminInv_def)
  have d: "aw_id a = xd_approval_id d" "aw_state a = StatePending" using a(2) by (simp_all add: decisionApplies_def)
  obtain b where b: "b \<in> set (ad_approvals db)" "requestOf g b"
    using inv(3) assms(8) unfolding requestsExplained_def by blast
  have "a \<in> set (ad_approvals db)" using ap by simp
  moreover have "aw_id b = aw_id a" using b(2) assms(9) d(1) by (simp add: requestOf_def)
  ultimately have "b = a" using same_approval [OF inv(2) b(1)] by blast
  then have ga: "requestOf g a" using b(2) by simp
  have only: "h = g" if "h \<in> set (ad_requests db)" "requestOf h a" for h
  proof -
    have "inj_on xg_approval_id (set (ad_requests db))" using inv(3) by (simp add: requestsExplained_def distinct_map)
    moreover have "xg_approval_id h = xg_approval_id g" using that(2) ga by (simp add: requestOf_def)
    ultimately show ?thesis using that(1) assms(8) by (simp add: inj_on_eq_iff)
  qed
  have "requestsExplained reserved db3"
  proof (rule decided_requests [OF inv(3,2) ap d(2)])
    show "ad_approvals db3 = ys @ decidedRow d a # zs" "ad_requests db3 = ad_requests db"
      "ad_installations db3 = ad_installations db @ [r]"
      by (simp_all add: a(4) new(2))
    show "xd_decision d = DecideApproved \<and> (\<exists>g \<in> set (ad_requests db). requestOf g a \<and> installedAs g q)"
      if "q \<in> set [r]" for q
      using that assms(8,10,11) ga by auto
    show "\<exists>q \<in> set [r]. iw_id q = xg_installation_id h" if "h \<in> set (ad_requests db)" "requestOf h a" for h
      using only [OF that] assms(10) by (simp add: installedAs_def)
  qed
  moreover have "approvalsExplained db2 = approvalsExplained db" by (rule approvals_same) (simp_all add: new(2))
  then have "approvalsExplained db2" using inv(2) by simp
  then have "approvalsExplained db3" by (rule decided_approvals [OF _ a(1-3)]) (simp_all add: a(4))
  moreover have "installationsExplained db2"
    by (rule explained_new [OF inv(1) new(1) assms(6,7)]) (simp_all add: new(2))
  then have "installationsExplained db3"
    unfolding a(4) installationsExplained_def installationHistory_def by simp
  moreover have g: "adminGrows db db3" by (rule decided_grows [OF ap]) (auto simp: a(4) new(2))
  moreover have "keysTruthful other db3" by (rule keys_grow [OF inv(4) g]) (simp_all add: a(4) new(2))
  ultimately show ?thesis by (simp add: adminInv_def a(4) new(2))
qed

section \<open>Requests\<close>

lemma insertApproval_Inr:
  "insertApproval a db = Inr db' \<Longrightarrow>
     db' = db\<lparr>ad_approvals := ad_approvals db @ [a]\<rparr> \<and> aw_id a \<notin> aw_id ` set (ad_approvals db)"
  by (auto simp: insertApproval_def approvalRowOf_def find_by_key split: if_splits)

lemma insertGrantRequest_Inr:
  "insertGrantRequest g db = Inr db' \<Longrightarrow>
     db' = db\<lparr>ad_requests := ad_requests db @ [g]\<rparr> \<and> xg_approval_id g \<notin> xg_approval_id ` set (ad_requests db) \<and>
     xg_installation_id g \<notin> xg_installation_id ` set (ad_requests db)"
  by (auto simp: insertGrantRequest_def split: if_splits)

lemma insertRequestAudit_Inr:
  "insertRequestAudit r db = Inr db' \<Longrightarrow> db' = db\<lparr>ad_request_audits := ad_request_audits db @ [r]\<rparr>"
  by (auto simp: insertRequestAudit_def split: if_splits)

lemma requested_inv:
  assumes "adminInv reserved other db" "insertApproval a db = Inr db1" "insertGrantRequest g db1 = Inr db2"
    "insertRequestAudit r db2 = Inr db3" "requestOf g a" "aw_state a = StatePending" "xg_installation_id g \<in> reserved"
  shows "adminInv reserved other db3 \<and> adminGrows db db3 \<and> g \<in> set (ad_requests db3)"
proof -
  have new: "aw_id a \<notin> aw_id ` set (ad_approvals db)" "xg_approval_id g \<notin> xg_approval_id ` set (ad_requests db)"
    "xg_installation_id g \<notin> xg_installation_id ` set (ad_requests db)"
    and db3: "db3 = db\<lparr>ad_approvals := ad_approvals db @ [a], ad_requests := ad_requests db @ [g],
      ad_request_audits := ad_request_audits db @ [r]\<rparr>"
    using insertApproval_Inr [OF assms(2)] insertGrantRequest_Inr [OF assms(3)] insertRequestAudit_Inr [OF assms(4)] by auto
  have inv: "installationsExplained db" "approvalsExplained db" "requestsExplained reserved db" "keysTruthful other db"
    using assms(1) by (simp_all add: adminInv_def)
  have "aw_id a \<notin> xd_approval_id ` set (ad_decisions db)"
    using inv(2) new(1) unfolding approvalsExplained_def by blast
  moreover have "decisionOf db3 = decisionOf db" by (intro ext) (simp add: decisionOf_def db3)
  ultimately have "approvalsExplained db3"
    using inv(2) new(1) assms(6) unfolding approvalsExplained_def by (auto simp: db3)
  moreover have "requestsExplained reserved db3"
    using inv(3) new(2,3) assms(5-7) unfolding requestsExplained_def by (simp add: db3 ball_Un bex_Un)
  moreover have "installationsExplained db3"
    using inv(1) unfolding installationsExplained_def installationHistory_def by (simp add: db3)
  moreover have g: "adminGrows db db3" by (auto simp: adminGrows_def sameQuestion_def db3)
  moreover have "keysTruthful other db3" by (rule keys_grow [OF inv(4) g]) (simp_all add: db3)
  ultimately show ?thesis by (simp add: adminInv_def db3)
qed

section \<open>The operations\<close>

abbreviation adminLawful :: "string set \<Rightarrow> (string \<Rightarrow> int option) \<Rightarrow> admin_db \<Rightarrow> admin_operation \<Rightarrow> bool" where
  "adminLawful reserved other \<equiv> lawful (adminInv reserved other) adminGrows adminPromise"

lemma commandFailed_promise: "adminPromise (commandFailed q err latest) db"
  by (auto simp: commandFailed_def bindE_def split: option.split sum.split prod.split)

lemma commandAudit_fields:
  "xa_action (commandAudit q auditId now r pluginId before after) = ''installation.command''"
  "sqlText (xa_after_json (commandAudit q auditId now r pluginId before after)) ''versionId'' = None"
  "xa_installation_id (commandAudit q auditId now r pluginId (e, p, n) after) = iw_id r"
  "xa_revision (commandAudit q auditId now r pluginId (e, p, n) after) = n + 1"
  "sqlNumber (xa_after_json (commandAudit q auditId now r pluginId before (e', p'))) ''enabled'' = Some (NInt (if e' then 1 else 0))"
  "sqlNumber (xa_after_json (commandAudit q auditId now r pluginId before (e', p'))) ''priority'' =
     (if num_is_finite p' then Some p' else None)"
  by (simp_all add: commandAudit_def sqlText_def sqlNumber_def jsonNum_def split: prod.splits)

lemma command_needs_priority:
  assumes "insertAdminAudit x db = Inr db'" "xa_action x = ''installation.command''"
  shows "sqlNumber (xa_after_json x) ''priority'' \<noteq> None"
proof -
  obtain db1 where "auditTriggers x db = Inr db1" using insertAdminAudit_Inr [OF assms(1)] by metis
  then show ?thesis
    using assms(2) by (auto simp: auditTriggers_def applyCommand_def split: if_splits option.splits jsnum.splits)
qed

lemma command_write: "adminLawful reserved other s (writeCommand auditId now q r pluginId (e, p, n) (e', p'))"
  unfolding writeCommand_def
proof (rule admin.lawful_tell)
  fix s t
  let ?x = "commandAudit q auditId now r pluginId (e, p, n) (e', p')"
  let ?r = "CommandReply (Inr (Some (CommandUpdated (iw_id r) e' p' (n + 1) True)))"
  assume inv: "adminInv reserved other s" and "commandStatement ?x s = Inr t"
  then have a: "adminInv reserved other s" "insertAdminAudit ?x s = Inr t"
    by (simp_all add: commandStatement_def split: if_splits)
  have "adminInv reserved other t \<and> adminGrows s t \<and> ?x \<in> set (ad_audits t)"
    by (rule command_inv [OF a commandAudit_fields(1,2)])
  moreover have "num_is_finite p'"
    using command_needs_priority [OF a(2)] by (simp add: commandAudit_fields split: if_splits)
  then have "?x \<in> set (ad_audits t) \<Longrightarrow> adminPromise ?r t"
    by (auto simp: audited_def commandAudit_fields intro!: exI [of _ ?x])
  ultimately show "adminInv reserved other t \<and> adminGrows s t \<and> adminLawful reserved other t (case Inr () of
      Inr _ \<Rightarrow> Ret (CommandReply (Inr (Some (CommandUpdated (iw_id r) (fst (e', p')) (snd (e', p')) (snd (snd (e, p, n)) + 1) True))))
    | Inl err \<Rightarrow> ask (readCommandRow (cq_appId q) (cq_tenantId q) (cq_id q)) (\<lambda>latest. Ret (commandFailed q err latest)))"
    by (simp add: lawful_Ret_iff)
qed (auto intro!: admin.lawful_ask simp: lawful_Ret_iff commandFailed_promise)

lemma command_lawful: "adminLawful reserved other s (updateInstallationCommand auditId now q)"
  unfolding updateInstallationCommand_def
  by (rule admin.lawful_ask)
    (auto simp: lawful_Ret_iff Let_def command_write requiredText_def split: option.split sum.split prod.split)

section \<open>Replays\<close>

lemma findKey_in: "findKey other now k rows = Some row \<Longrightarrow> row \<in> set rows"
  by (auto simp: findKey_def dest: find_Some_in split: option.splits if_splits)

lemma replayRollback_promise:
  assumes "adminInv reserved other db" "readRollbackKey other now q db = Some row"
  shows "adminPromise (RollbackReply (replayRollback row requestHash)) db"
proof -
  obtain i where "(row, i) \<in> set (ad_rollback_keys db)"
    using findKey_in [OF assms(2) [unfolded readRollbackKey_def]] by auto
  then show ?thesis
    using assms(1) by (fastforce simp: adminInv_def keysTruthful_def replayRollback_def split: option.split)
qed

lemma replayInstall_promise:
  assumes "adminInv reserved other db" "readInstallKey other now q db = Some row"
  shows "adminPromise (InstallReply (replayInstall row requestHash)) db"
  using assms(1) findKey_in [OF assms(2) [unfolded readInstallKey_def]]
  by (auto simp: adminInv_def keysTruthful_def replayInstall_def split: option.split)

lemma replayRequest_promise:
  assumes "adminInv reserved other db" "readRequestKey other now q db = Some row"
  shows "adminPromise (RequestReply (replayRequest other row requestHash)) db"
  using assms(1) findKey_in [OF assms(2) [unfolded readRequestKey_def]]
  by (auto simp: adminInv_def keysTruthful_def replayRequest_def split: option.split)

section \<open>Rollbacks\<close>

lemma rollbackFailed_promise: "adminPromise (rollbackFailed q err latest) db"
  by (auto simp: rollbackFailed_def bindE_def split: option.split sum.split)

lemma rollbackAudit_fields:
  "xa_action (rollbackAudit auditId now q c n) = ''installation.rollback''"
  "sqlNumber (xa_after_json (rollbackAudit auditId now q c n)) ''enabled'' = None"
  "sqlNumber (xa_after_json (rollbackAudit auditId now q c n)) ''priority'' = None"
  by (simp_all add: rollbackAudit_def sqlNumber_def)

lemma rollbackAudit_promise:
  "rollbackAudit auditId now q c n \<in> set (ad_audits db) \<Longrightarrow> rollbackPromise (rolledBackBy auditId now c n) db"
  unfolding rollbackPromise_def
  by (rule exI [of _ "rollbackAudit auditId now q c n"])
    (simp add: audited_def rollbackAudit_def rolledBackBy_def sqlText_def)

lemma rollback_write: "adminLawful reserved other s (writeRollback other auditId now q requestHash c n)"
  unfolding writeRollback_def
proof (rule admin.lawful_tell)
  fix s t
  let ?x = "rollbackAudit auditId now q c n" and ?r = "rolledBackBy auditId now c n"
  assume a: "adminInv reserved other s" "rollbackWrite auditId now q requestHash c n s = Inr t"
  then obtain s1 s2 k i where w: "deleteRollbackKey (rollbackKey q) (toISOString now) s = Inr s1"
    "insertAdminAudit ?x s1 = Inr s2" "insertRollbackKey k i s2 = Inr t" "xi_result_json k = rolledBackJson ?r"
    by (auto simp: rollbackWrite_def rollbackStatements_def bindE_Inr split: if_splits)
  have 1: "adminInv reserved other s1" "adminGrows s s1" using rollback_key_deleted [OF a(1) w(1)] by simp_all
  have 2: "adminInv reserved other s2" "adminGrows s1 s2" "?x \<in> set (ad_audits s2)"
    using rollback_inv [OF 1(1) w(2) rollbackAudit_fields] by simp_all
  have 3: "adminInv reserved other t" "adminGrows s2 t" "rollbackPromise ?r t"
    using rollback_key_added [OF 2(1) rollbackAudit_promise [OF 2(3)] w(4,3)] by simp_all
  show "adminInv reserved other t \<and> adminGrows s t \<and> adminLawful reserved other t (case Inr () of
      Inr _ \<Rightarrow> Ret (RollbackReply (Inr (Some (RolledBack ?r))))
    | Inl err \<Rightarrow> ask (readRollbackKey other now q) (\<lambda>winner. case winner of
        Some row \<Rightarrow> Ret (RollbackReply (replayRollback row requestHash))
      | None \<Rightarrow> ask (readRollbackRow q) (\<lambda>latest. Ret (rollbackFailed q err latest))))"
    using 1 2 3 grows_trans by (simp add: lawful_Ret_iff)
qed (auto intro!: admin.lawful_ask simp: lawful_Ret_iff rollbackFailed_promise replayRollback_promise split: option.split)

lemma rollback_lawful: "adminLawful reserved other s (rollbackOp other sha256 auditId now q)"
proof -
  have revision_error: "adminPromise (RollbackReply (Inl e)) db" for e db by simp
  show ?thesis
    unfolding rollbackOp_def
    by (auto intro!: admin.lawful_ask simp: lawful_Ret_iff replayRollback_promise rollback_write
        split: option.split sum.split)
qed

section \<open>Installing\<close>

lemma install_write:
  assumes "i \<notin> reserved" "num_is_finite (iq_priority q)"
  shows "adminLawful reserved other s (writeInstall other i auditId now q requestHash pc)"
  unfolding writeInstall_def
proof (rule admin.lawful_tell)
  fix s t
  let ?p = "fst pc"
  let ?r = "newInstallation i (iq_tenantId q) (iq_versionId q) (iq_enabled q) (iq_priority q) (fst (snd pc)) (snd (snd pc))"
  let ?x = "installAudit ''installation.install'' auditId i (iq_tenantId q) (iq_appId q) (ip_pluginId ?p)
        (iq_actor q) now (iq_enabled q) (iq_priority q) (ip_config ?p) (ip_capabilities ?p)"
  let ?k = "newKey q requestHash (installJson (installResult i q ?p)) now"
  assume a: "adminInv reserved other s" "runBatch (installStatements i auditId now q requestHash (fst pc) (snd pc)) s = Inr t"
  then obtain s1 s2 s3 where w: "deleteInstallKey (installKey q) (toISOString now) s = Inr s1"
    "insertInstallationRow ?r s1 = Inr s2" "insertAdminAudit ?x s2 = Inr s3" "insertInstallKey ?k s3 = Inr t"
    by (auto simp: installStatements_def bindE_Inr)
  have id: "iw_id ?r = i" "xa_installation_id ?x = i" "xa_action ?x = ''installation.install''"
    by (simp_all add: newInstallation_def installAudit_def)
  have 1: "adminInv reserved other s1" "adminGrows s s1" using install_key_deleted [OF a(1) w(1)] by simp_all
  have new: "iw_id ?r \<notin> iw_id ` set (ad_installations s1)"
    "s3 = s1\<lparr>ad_installations := ad_installations s1 @ [?r], ad_audits := ad_audits s1 @ [?x]\<rparr>"
    using new_installation [OF w(2,3)] id(3) by simp_all
  have 3: "adminInv reserved other s3" "adminGrows s1 s3"
    using installed_inv [OF 1(1) new(1) _ _ explains_new [OF assms(2)] new(2)] assms(1) id by simp_all
  have "installPromise (installResult i q ?p) s3"
    unfolding installPromise_def using new(2)
    by (intro exI [of _ ?x]) (simp add: audited_def installResult_def installAudit_def)
  then have 4: "adminInv reserved other t" "adminGrows s3 t" "installPromise (installResult i q ?p) t"
    using install_key_added [OF 3(1) _ _ w(4)] by (simp_all add: newKey_def)
  show "adminInv reserved other t \<and> adminGrows s t \<and> adminLawful reserved other t (case Inr () of
      Inr _ \<Rightarrow> Ret (InstallReply (Inr (Some (installResult i q (fst pc)))))
    | Inl err \<Rightarrow> ask (readInstallKey other now q) (\<lambda>winner.
        Ret (InstallReply (case winner of Some row \<Rightarrow> replayInstall row requestHash | None \<Rightarrow> Inl (Thrown err)))))"
    using 1 3 4 grows_trans by (simp add: lawful_Ret_iff)
qed (auto intro!: admin.lawful_ask simp: lawful_Ret_iff replayInstall_promise split: option.split)

lemma install_lawful:
  "i \<notin> reserved \<Longrightarrow> num_is_finite (iq_priority q) \<Longrightarrow>
     adminLawful reserved other s (installOp lib other sha256 sortLocale i auditId now q)"
  unfolding installOp_def
  by (auto intro!: admin.lawful_ask simp: lawful_Ret_iff replayInstall_promise install_write
      split: option.split sum.split)

lemma request_write:
  assumes "i \<in> reserved"
  shows "adminLawful reserved other s (writeRequest other approvalId i auditId now q requestHash pc)"
  unfolding writeRequest_def
proof (rule admin.lawful_tell)
  fix s t
  let ?p = "fst pc"
  let ?a = "requestedApproval approvalId now q ?p"
  assume a: "adminInv reserved other s"
    "runBatch (requestStatements approvalId i auditId now q requestHash (fst pc) (snd pc)) s = Inr t"
  then obtain s1 s2 s3 s4 g r where w: "deleteRequestKey (installKey q) (toISOString now) s = Inr s1"
    "insertApproval ?a s1 = Inr s2" "insertGrantRequest g s2 = Inr s3" "insertRequestAudit r s3 = Inr s4"
    "insertRequestKey (newKey q requestHash (requestJson (requestResult approvalId now ?p)) now) s4 = Inr t"
    "xg_approval_id g = approvalId" "xg_tenant_id g = iq_tenantId q" "xg_installation_id g = i"
    by (auto simp: requestStatements_def bindE_Inr)
  have 1: "adminInv reserved other s1" "adminGrows s s1" using request_key_deleted [OF a(1) w(1)] by simp_all
  have "requestOf g ?a" "aw_state ?a = StatePending" using w(6,7) by (simp_all add: requestOf_def requestedApproval_def)
  then have 4: "adminInv reserved other s4" "adminGrows s1 s4" "g \<in> set (ad_requests s4)"
    using requested_inv [OF 1(1) w(2-4)] assms w(8) by simp_all
  have "requestPromise (requestResult approvalId now ?p) s4"
    using 4(3) w(6) by (auto simp: requestPromise_def requestResult_def)
  then have 5: "adminInv reserved other t" "adminGrows s4 t" "requestPromise (requestResult approvalId now ?p) t"
    using request_key_added [OF 4(1) _ _ w(5)] by (simp_all add: newKey_def)
  show "adminInv reserved other t \<and> adminGrows s t \<and> adminLawful reserved other t (case Inr () of
      Inr _ \<Rightarrow> Ret (RequestReply (Inr (Some (requestResult approvalId now (fst pc)))))
    | Inl err \<Rightarrow> ask (readRequestKey other now q) (\<lambda>winner.
        Ret (RequestReply (case winner of Some row \<Rightarrow> replayRequest other row requestHash | None \<Rightarrow> Inl (Thrown err)))))"
    using 1 4 5 grows_trans by (simp add: lawful_Ret_iff)
qed (auto intro!: admin.lawful_ask simp: lawful_Ret_iff replayRequest_promise split: option.split)

lemma request_lawful:
  "i \<in> reserved \<Longrightarrow> adminLawful reserved other s (requestInstallationOp lib other sha256 sortLocale approvalId i auditId now q)"
  unfolding requestInstallationOp_def
  by (auto intro!: admin.lawful_ask simp: lawful_Ret_iff replayRequest_promise request_write
      split: option.split sum.split)

section \<open>Deciding\<close>

lemma write_decision:
  assumes "\<And>s t. adminInv reserved other s \<Longrightarrow> adminGrows s0 s \<Longrightarrow> runBatch statements s = Inr t \<Longrightarrow>
    adminInv reserved other t \<and> adminGrows s t \<and> decisionPromise result t"
  shows "adminLawful reserved other s0 (writeDecision q statements result)"
  unfolding writeDecision_def
proof (rule admin.lawful_tell)
  fix s t
  assume "adminInv reserved other s" "adminGrows s0 s" "runBatch statements s = Inr t"
  from assms [OF this] show "adminInv reserved other t \<and> adminGrows s t \<and> adminLawful reserved other t (case Inr () of
      Inr _ \<Rightarrow> Ret (DecisionReply (Inr result))
    | Inl err \<Rightarrow> ask (readApproval q) (\<lambda>current. Ret (DecisionReply (Inl (case current of
        Some a \<Rightarrow> if aw_state a \<noteq> StatePending then ApprovalAlreadyDecided else Thrown err
      | None \<Rightarrow> Thrown err)))))"
    by (simp add: lawful_Ret_iff)
qed (auto intro!: admin.lawful_ask simp: lawful_Ret_iff)

lemma readApproval_Some:
  "readApproval q db = Some a \<Longrightarrow> a \<in> set (ad_approvals db) \<and> aw_id a = dq_approvalId q \<and> aw_tenant_id a = dq_tenantId q"
  by (auto simp: readApproval_def approvalRowOf_def dest: find_Some_in split: option.splits if_splits)

lemma readInstallationRequest_Some:
  "readInstallationRequest q db = Some (g, v, p) \<Longrightarrow>
     g \<in> set (ad_requests db) \<and> xg_approval_id g = dq_approvalId q \<and> xg_tenant_id g = dq_tenantId q"
  by (auto simp: readInstallationRequest_def dest: find_Some_in split: option.splits if_splits)

lemma plain_decision:
  assumes "a \<in> set (ad_approvals s0)" "aw_id a = dq_approvalId q"
    "\<not> (dq_decision q = DecideApproved \<and> aw_resume_hook a = ''installation.request'')"
  shows "adminLawful reserved other s0
    (writeDecision q [insertDecision (approvalAudit auditId (toISOString now) q a)] (decidedBy auditId now q None))"
proof (rule write_decision)
  fix s t
  let ?d = "approvalAudit auditId (toISOString now) q a"
  assume s: "adminInv reserved other s" "adminGrows s0 s" "runBatch [insertDecision ?d] s = Inr t"
  obtain b where b: "b \<in> set (ad_approvals s)" "sameQuestion a b"
    using s(2) assms(1) unfolding adminGrows_def by blast
  have "c = b" if "c \<in> set (ad_approvals s)" "aw_id c = xd_approval_id ?d" for c
    using that same_approval [OF _ that(1) b(1)] s(1) b(2) assms(2)
    by (simp add: adminInv_def sameQuestion_def approvalAudit_def)
  then have "xd_decision ?d = DecideApproved \<Longrightarrow> aw_resume_hook c \<noteq> ''installation.request''"
    if "c \<in> set (ad_approvals s)" "aw_id c = xd_approval_id ?d" for c
    using that assms(3) b(2) by (auto simp: sameQuestion_def approvalAudit_def)
  moreover have "insertDecision ?d s = Inr t" using s(3) by (auto simp: bindE_Inr)
  ultimately have "adminInv reserved other t \<and> adminGrows s t \<and> ?d \<in> set (ad_decisions t)"
    using decision_inv [OF s(1)] by blast
  then show "adminInv reserved other t \<and> adminGrows s t \<and> decisionPromise (decidedBy auditId now q None) t"
    by (auto simp: decisionPromise_def decidedBy_def approvalAudit_def intro!: bexI [of _ ?d])
qed

lemma approved_decision:
  assumes "g \<in> set (ad_requests s0)" "xg_approval_id g = dq_approvalId q" "xg_tenant_id g = dq_tenantId q"
    "validGrantRequest g" "dq_decision q = DecideApproved"
  shows "adminLawful reserved other s0
    (writeDecision q (approvedInstallationStatements auditId installationAuditId now q a g)
       (decidedBy auditId now q (Some (g, v, p))))"
proof (rule write_decision)
  fix s t
  let ?d = "approvalAudit auditId (toISOString now) q a"
  let ?r = "newInstallation (xg_installation_id g) (dq_tenantId q) (xg_version_id g) (xg_enabled g = 1)
        (xg_priority g) (xg_config_json g) (xg_grants_json g)"
  let ?x = "installAudit ''installation.install.approved'' installationAuditId (xg_installation_id g)
        (dq_tenantId q) (dq_appId q) (xg_plugin_id g) (dq_actor q) now (xg_enabled g = 1) (xg_priority g)
        (xg_config_json g) (xg_capabilities_json g)"
  assume s: "adminInv reserved other s" "adminGrows s0 s"
    "runBatch (approvedInstallationStatements auditId installationAuditId now q a g) s = Inr t"
  then obtain s1 s2 where w: "insertInstallationRow ?r s = Inr s1" "insertAdminAudit ?x s1 = Inr s2" "insertDecision ?d s2 = Inr t"
    by (auto simp: approvedInstallationStatements_def bindE_Inr)
  have "num_is_finite (xg_priority g)"
    using assms(4) by (cases "xg_priority g") (simp_all add: validGrantRequest_def)
  moreover have "g \<in> set (ad_requests s)" using s(2) assms(1) by (auto simp: adminGrows_def)
  moreover have "installedAs g ?r" using assms(3) by (simp add: installedAs_def newInstallation_def)
  ultimately have ok: "adminInv reserved other t \<and> adminGrows s t \<and> ?d \<in> set (ad_decisions t) \<and> ?x \<in> set (ad_audits t)"
    using approved_inv [OF s(1) w, of g] explains_new assms(2,5)
    by (simp add: installAudit_def newInstallation_def approvalAudit_def)
  moreover have "audited t (xg_installation_id g) 0 ''installation.install.approved'' ?x"
    using ok by (simp add: audited_def installAudit_def)
  ultimately show "adminInv reserved other t \<and> adminGrows s t \<and> decisionPromise (decidedBy auditId now q (Some (g, v, p))) t"
    by (auto simp: decisionPromise_def decidedBy_def approvalAudit_def intro!: bexI [of _ ?d])
qed

lemma decide_lawful: "adminLawful reserved other s0 (decideOp auditId installationAuditId now q)"
  unfolding decideOp_def
proof (rule admin.lawful_ask)
  fix s
  have request: "adminLawful reserved other s (ask (readInstallationRequest q) (\<lambda>request.
             case request of
               None \<Rightarrow> Ret (DecisionReply (Inl (Thrown ''installation approval request unavailable'')))
             | Some (g, v, p) \<Rightarrow>
                 if \<not> validGrantRequest g then Ret (DecisionReply (Inl (Thrown ''invalid installation approval request'')))
                 else writeDecision q (approvedInstallationStatements auditId installationAuditId now q a g)
                        (decidedBy auditId now q (Some (g, v, p)))))"
    if "dq_decision q = DecideApproved" for a
    using that
    by (auto intro!: admin.lawful_ask approved_decision simp: lawful_Ret_iff split: option.split
        dest: readInstallationRequest_Some)
  show "adminLawful reserved other s (case readApproval q s of
         None \<Rightarrow> Ret (DecisionReply (Inl ApprovalNotFound))
       | Some a \<Rightarrow>
           if \<not> canDecideApproval (dq_actorRole q) (aw_role a) then Ret (DecisionReply (Inl ApprovalRoleForbidden))
           else if aw_state a \<noteq> StatePending then Ret (DecisionReply (Inl ApprovalAlreadyDecided))
           else if aw_expires_at a \<le> toISOString now then Ret (DecisionReply (Inl ApprovalExpired))
           else if dq_decision q = DecideApproved \<and> aw_resume_hook a = ''installation.request''
           then ask (readInstallationRequest q) (\<lambda>request.
             case request of
               None \<Rightarrow> Ret (DecisionReply (Inl (Thrown ''installation approval request unavailable'')))
             | Some (g, v, p) \<Rightarrow>
                 if \<not> validGrantRequest g then Ret (DecisionReply (Inl (Thrown ''invalid installation approval request'')))
                 else writeDecision q (approvedInstallationStatements auditId installationAuditId now q a g)
                        (decidedBy auditId now q (Some (g, v, p))))
           else writeDecision q [insertDecision (approvalAudit auditId (toISOString now) q a)] (decidedBy auditId now q None))"
    using request plain_decision readApproval_Some
    by (auto simp: lawful_Ret_iff split: option.split)
qed

end
