(* ===== verification/CpAdminProperties.thy ===== *)
theory CpAdminProperties
  imports CpAdminLawful
begin

text \<open>
  The administration of installations under any interleaving of commands, rollbacks, installs, requests
  and decisions: what the database explains and what the replies mean.
\<close>

section \<open>Calls and their interleavings\<close>

datatype admin_call =
    CommandCall string int command_request
  | RollbackCall string int rollback_request
  | InstallCall string string int admin_install_request
  | RequestCall string string string int admin_install_request
  | DecideCall string string int decision_request

record admin_platform =
  ap_lib :: manifest_lib
  ap_other :: "string \<Rightarrow> int option"
  ap_sha256 :: "string \<Rightarrow> string"
  ap_sortLocale :: "js_record \<Rightarrow> js_record"

fun callOp :: "admin_platform \<Rightarrow> admin_call \<Rightarrow> admin_operation" where
  "callOp pf (CommandCall auditId now q) = updateInstallationCommand auditId now q"
| "callOp pf (RollbackCall auditId now q) = rollbackOp (ap_other pf) (ap_sha256 pf) auditId now q"
| "callOp pf (InstallCall i auditId now q) =
     installOp (ap_lib pf) (ap_other pf) (ap_sha256 pf) (ap_sortLocale pf) i auditId now q"
| "callOp pf (RequestCall approvalId i auditId now q) =
     requestInstallationOp (ap_lib pf) (ap_other pf) (ap_sha256 pf) (ap_sortLocale pf) approvalId i auditId now q"
| "callOp pf (DecideCall auditId installationAuditId now q) = decideOp auditId installationAuditId now q"

text \<open>
  Identifiers drawn for requested installations are \<open>reserved\<close>: no installation at once uses one. A
  priority is a finite number.
\<close>

fun callOk :: "string set \<Rightarrow> admin_call \<Rightarrow> bool" where
  "callOk reserved (InstallCall i _ _ q) \<longleftrightarrow> i \<notin> reserved \<and> num_is_finite (iq_priority q)"
| "callOk reserved (RequestCall _ i _ _ _) \<longleftrightarrow> i \<in> reserved"
| "callOk reserved _ \<longleftrightarrow> True"

text \<open>A database before any administrative mutation: a catalogue and pending approvals.\<close>

definition freshDb :: "admin_db \<Rightarrow> bool" where
  "freshDb db \<longleftrightarrow>
     ad_installations db = [] \<and> ad_audits db = [] \<and> ad_decisions db = [] \<and> ad_requests db = [] \<and>
     ad_install_keys db = [] \<and> ad_rollback_keys db = [] \<and> ad_request_keys db = [] \<and>
     distinct (map aw_id (ad_approvals db)) \<and> list_all (\<lambda>a. aw_state a = StatePending) (ad_approvals db)"

definition adminRun :: "admin_platform \<Rightarrow> admin_call list \<Rightarrow> admin_db \<Rightarrow> nat list \<Rightarrow> (admin_db, admin_reply) system" where
  "adminRun pf calls db schedule = runSchedule (map (callOp pf) calls, db) schedule"

lemma fresh_inv: "freshDb db \<Longrightarrow> adminInv reserved other db"
  by (auto simp: freshDb_def adminInv_def installationsExplained_def approvalsExplained_def requestsExplained_def
      keysTruthful_def list_all_iff)

lemma call_lawful: "callOk reserved c \<Longrightarrow> adminLawful reserved (ap_other pf) s (callOp pf c)"
  by (cases c) (simp_all add: command_lawful rollback_lawful install_lawful request_lawful decide_lawful)

lemma run_inv:
  assumes "freshDb db" "\<forall>c \<in> set calls. callOk reserved c"
  shows "adminInv reserved (ap_other pf) (snd (adminRun pf calls db schedule))"
    "Ret r \<in> set (fst (adminRun pf calls db schedule)) \<Longrightarrow> adminPromise r (snd (adminRun pf calls db schedule))"
proof -
  have l: "c \<in> set (map (callOp pf) calls) \<Longrightarrow> adminLawful reserved (ap_other pf) db c" for c
    using assms(2) call_lawful by auto
  show "adminInv reserved (ap_other pf) (snd (adminRun pf calls db schedule))"
    unfolding adminRun_def by (rule admin.schedule_promises(1) [OF fresh_inv [OF assms(1)] l])
  show "Ret r \<in> set (fst (adminRun pf calls db schedule)) \<Longrightarrow> adminPromise r (snd (adminRun pf calls db schedule))"
    unfolding adminRun_def by (rule admin.schedule_promises(2) [OF fresh_inv [OF assms(1)] l])
qed

section \<open>The role condition\<close>

lemma normal_role_Some: "normalizeRbacRole s = Some r \<longleftrightarrow> sqlRole s = role_tag r"
proof (cases "s = ''manager''")
  case True
  then show ?thesis by (cases r) (simp_all add: normalizeRbacRole_def sqlRole_def)
next
  case False
  then show ?thesis
    by (cases r) (auto simp: normalizeRbacRole_def isRbacRole_def RBAC_ROLES_def sqlRole_def)
qed

lemma normal_role: "normalizeRbacRole s = None \<longleftrightarrow> sqlRole s \<notin> role_tag ` {Owner, Admin, Operator, Viewer, TenantAdmin}"
  by (cases "normalizeRbacRole s") (auto simp: normal_role_Some normalizeRbacRole_def isRbacRole_def RBAC_ROLES_def sqlRole_def split: if_splits)

lemma decide_role_matches: "canDecideApproval actorRole requiredRole = sqlMayDecide actorRole requiredRole"
proof (cases "normalizeRbacRole actorRole")
  case None
  then have "actorRole \<notin> {''owner'', ''admin'', ''tenant-admin'', ''manager''}"
    by (auto simp: normal_role sqlRole_def)
  then show ?thesis using None by (simp add: canDecideApproval_def sqlMayDecide_def canRolePerform_def)
next
  case (Some r)
  then have r: "sqlRole actorRole = role_tag r" by (simp add: normal_role_Some)
  then have "actorRole \<in> {''owner'', ''admin'', ''tenant-admin'', ''manager''} \<longleftrightarrow> r \<in> {Owner, Admin, TenantAdmin}"
    by (cases r) (auto simp: sqlRole_def split: if_splits)
  moreover have "canRolePerform actorRole ''approval:decide'' \<longleftrightarrow> r \<in> {Owner, Admin, TenantAdmin}"
    using Some by (cases r) (simp_all add: canRolePerform_def RBAC_OPERATIONS_def)
  moreover have "normalizeRbacRole requiredRole = Some Admin \<longleftrightarrow> requiredRole \<in> {''manager'', ''admin''}"
    by (auto simp: normal_role_Some sqlRole_def)
  moreover have "normalizeRbacRole requiredRole = Some r \<longleftrightarrow> sqlRole actorRole = sqlRole requiredRole"
    using r by (auto simp: normal_role_Some)
  ultimately show ?thesis using Some by (auto simp: canDecideApproval_def sqlMayDecide_def)
qed

text \<open>
  C1: The service and the trigger of the database agree on who may decide an approval: the check in the
  code accepts a role for a required role exactly when the SQL condition does.
\<close>

section \<open>Installations and their history\<close>

text \<open>
  C33: However administrative calls interleave, the audit of an installation explains it: its records
  carry the revisions from 0 to the current one without gap or repetition, and replaying them gives the
  enabled flag, the priority and (after a rollback) the version that the installation has.
\<close>

theorem admin_history_explains:
  assumes "freshDb db" "\<forall>c \<in> set calls. callOk reserved c"
  shows "\<forall>r \<in> set (ad_installations (snd (adminRun pf calls db schedule))).
    explains (installationHistory (snd (adminRun pf calls db schedule)) (iw_id r)) r"
  using run_inv(1) [OF assms] by (simp add: adminInv_def installationsExplained_def)

text \<open>
  What reviewers may rely on: a requested installation has an approving decision, by a role that may
  decide and before the expiry; and an approved request has its installation.
\<close>

definition requestsHonoured :: "string set \<Rightarrow> admin_db \<Rightarrow> bool" where
  "requestsHonoured reserved final \<longleftrightarrow>
    (\<forall>r \<in> set (ad_installations final). iw_id r \<in> reserved \<longrightarrow>
      (\<exists>g \<in> set (ad_requests final). \<exists>d \<in> set (ad_decisions final). installedAs g r \<and>
         xd_approval_id d = xg_approval_id g \<and> xd_decision d = DecideApproved \<and>
         (\<exists>a \<in> set (ad_approvals final). requestOf g a \<and> sqlMayDecide (xd_actor_role d) (aw_role a) \<and>
            xd_created_at d < aw_expires_at a))) \<and>
    (\<forall>g \<in> set (ad_requests final). \<forall>d \<in> set (ad_decisions final).
       xd_approval_id d = xg_approval_id g \<and> xd_decision d = DecideApproved \<longrightarrow>
       (\<exists>r \<in> set (ad_installations final). installedAs g r))"

lemma explained_honoured:
  assumes "approvalsExplained final" "requestsExplained reserved final"
  shows "requestsHonoured reserved final"
proof -
  have inv: "approvalsExplained final" "requestsExplained reserved final"
    using assms by simp_all
  have one: "d = e" if "d \<in> set (ad_decisions final)" "e \<in> set (ad_decisions final)" "xd_approval_id d = xd_approval_id e" for d e
    using inv(1) that by (auto simp: approvalsExplained_def distinct_map dest: inj_onD)
  have decided: "\<exists>d. decisionOf final a d" if "a \<in> set (ad_approvals final)" "aw_state a \<noteq> StatePending" for a
    using inv(1) that unfolding approvalsExplained_def by (auto split: if_splits)
  have approved: "\<exists>d \<in> set (ad_decisions final). xd_approval_id d = aw_id a \<and> xd_decision d = DecideApproved \<and>
      sqlMayDecide (xd_actor_role d) (aw_role a) \<and> xd_created_at d < aw_expires_at a"
    if "a \<in> set (ad_approvals final)" "aw_state a = StateApproved" for a
    using decided [OF that(1)] that(2) by (auto simp: decisionOf_def)
  have "\<exists>r \<in> set (ad_installations final). installedAs g r"
    if g: "g \<in> set (ad_requests final)" and d: "d \<in> set (ad_decisions final)"
      and gd: "xd_approval_id d = xg_approval_id g" "xd_decision d = DecideApproved" for g d
  proof -
    obtain a where a: "a \<in> set (ad_approvals final)" "requestOf g a"
      "aw_state a = StateApproved \<Longrightarrow> \<exists>r \<in> set (ad_installations final). iw_id r = xg_installation_id g"
      "xg_installation_id g \<in> reserved"
      using inv(2) g unfolding requestsExplained_def by blast
    have id: "aw_id a = xd_approval_id d" using a(2) gd(1) by (simp add: requestOf_def)
    then have "aw_state a \<noteq> StatePending"
      using inv(1) a(1) d unfolding approvalsExplained_def by auto
    from decided [OF a(1) this] obtain e where e: "decisionOf final a e" by blast
    then have "e = d" using one [of e d] d id by (simp add: decisionOf_def)
    then have "aw_state a = StateApproved"
      using e gd(2) by (auto simp: decisionOf_def)
    then obtain r where r: "r \<in> set (ad_installations final)" "iw_id r = xg_installation_id g" using a(3) by blast
    then obtain h where h: "h \<in> set (ad_requests final)" "installedAs h r"
      using inv(2) a(4) unfolding requestsExplained_def by metis
    have "inj_on xg_installation_id (set (ad_requests final))"
      using inv(2) by (simp add: requestsExplained_def distinct_map)
    then have "h = g" using h g r(2) by (auto simp: installedAs_def inj_on_eq_iff)
    then show ?thesis using r(1) h(2) by blast
  qed
  moreover have "\<exists>g \<in> set (ad_requests final). \<exists>d \<in> set (ad_decisions final). installedAs g r \<and>
      xd_approval_id d = xg_approval_id g \<and> xd_decision d = DecideApproved \<and>
      (\<exists>a \<in> set (ad_approvals final). requestOf g a \<and> sqlMayDecide (xd_actor_role d) (aw_role a) \<and> xd_created_at d < aw_expires_at a)"
    if r: "r \<in> set (ad_installations final)" "iw_id r \<in> reserved" for r
  proof -
    obtain g a where ga: "g \<in> set (ad_requests final)" "a \<in> set (ad_approvals final)" "requestOf g a" "installedAs g r"
      "aw_state a = StateApproved"
        using inv(2) r unfolding requestsExplained_def by blast
    obtain d where d: "d \<in> set (ad_decisions final)" "xd_approval_id d = aw_id a" "xd_decision d = DecideApproved"
      "sqlMayDecide (xd_actor_role d) (aw_role a)" "xd_created_at d < aw_expires_at a"
      using approved [OF ga(2,5)] by blast
    have "xd_approval_id d = xg_approval_id g" using d(2) ga(3) by (simp add: requestOf_def)
    then show ?thesis using ga(1-4) d by blast
  qed
  ultimately show ?thesis by (simp add: requestsHonoured_def)
qed

text \<open>
  C34: However administrative calls interleave, a requested installation exists exactly when its request
  was approved by a role that may decide it, before it expired, and then it has the configuration and
  the grants that were reviewed.
\<close>

theorem requested_installations_approved:
  assumes "freshDb db" "\<forall>c \<in> set calls. callOk reserved c"
  shows "requestsHonoured reserved (snd (adminRun pf calls db schedule))"
  using run_inv(1) [OF assms] by (simp add: adminInv_def explained_honoured)

section \<open>Decisions\<close>

text \<open>
  C35: An approval is decided at most once. Whatever calls run concurrently, two calls that report a
  decision of the same approval report the same audit record and the same decision, and the approval
  has that state.
\<close>

theorem approval_decided_at_most_once:
  assumes "freshDb db" "\<forall>c \<in> set calls. callOk reserved c"
    and "Ret (DecisionReply (Inr r)) \<in> set (fst (adminRun pf calls db schedule))"
    and "Ret (DecisionReply (Inr s)) \<in> set (fst (adminRun pf calls db schedule))"
    and "dr_approvalId r = dr_approvalId s"
  shows "dr_auditId r = dr_auditId s \<and> dr_decision r = dr_decision s \<and>
    (\<exists>a \<in> set (ad_approvals (snd (adminRun pf calls db schedule))).
       aw_id a = dr_approvalId r \<and> aw_state a = decision_state (dr_decision r))"
proof -
  let ?db = "snd (adminRun pf calls db schedule)"
  have inv: "approvalsExplained ?db"
    using run_inv(1) [OF assms(1,2)] by (simp add: adminInv_def)
  obtain d e where de: "d \<in> set (ad_decisions ?db)" "xd_id d = dr_auditId r" "xd_approval_id d = dr_approvalId r"
    "xd_decision d = dr_decision r" "e \<in> set (ad_decisions ?db)" "xd_id e = dr_auditId s"
    "xd_approval_id e = dr_approvalId s" "xd_decision e = dr_decision s"
    using run_inv(2) [OF assms(1-3)] run_inv(2) [OF assms(1,2,4)] by (auto simp: decisionPromise_def)
  have inj: "inj_on xd_approval_id (set (ad_decisions ?db))"
    using inv by (simp add: approvalsExplained_def distinct_map)
  then have "d = e" by (rule inj_onD) (simp_all add: de assms(5))
  obtain a where a: "a \<in> set (ad_approvals ?db)" "aw_id a = xd_approval_id d"
    using inv de(1) unfolding approvalsExplained_def by force
  then have "aw_state a \<noteq> StatePending" using inv de(1) unfolding approvalsExplained_def by auto
  then obtain f where f: "decisionOf ?db a f" using inv a(1) unfolding approvalsExplained_def by (auto split: if_splits)
  have "f = d" by (rule inj_onD [OF inj]) (use f a(2) de(1) in \<open>simp_all add: decisionOf_def\<close>)
  then show ?thesis using f a de \<open>d = e\<close> by (auto simp: decisionOf_def)
qed


section \<open>A race\<close>

text \<open>
  An installation is requested, two administrators approve the request concurrently, and then two
  commands with the same expected revision race.
\<close>

definition raceDb :: admin_db where
  "raceDb =
     \<lparr>ad_apps = [\<lparr>ar_id = ''app'', ar_name = ''App''\<rparr>], ad_tenants = [\<lparr>te_id = ''t'', te_appId = ''app'', te_name = ''T''\<rparr>],
      ad_plugins = [\<lparr>pl_id = ''p'', pl_appId = ''app'', pl_key = ''notify''\<rparr>],
      ad_versions = [\<lparr>xv_id = ''v'', xv_plugin_id = ''p'', xv_version = ''1.0.0'', xv_manifest_json = JNull\<rparr>],
      ad_installations = [], ad_approvals = [], ad_audits = [], ad_decisions = [], ad_requests = [], ad_request_audits = [],
      ad_install_keys = [], ad_rollback_keys = [], ad_request_keys = []\<rparr>"

definition racePlatform :: admin_platform where
  "racePlatform =
     \<lparr>ap_lib = \<lparr>ml_decode = (\<lambda>_. Some (example_manifest\<lparr>mf_capabilities := []\<rparr>)), ml_issues = (\<lambda>_. []),
        ml_validRange = (\<lambda>_. True), ml_schemaParse = Inr, ml_recordParse = Inr\<rparr>,
      ap_other = (\<lambda>_. None), ap_sha256 = (\<lambda>_. ''h''), ap_sortLocale = (\<lambda>r. r)\<rparr>"

definition raceRequest :: admin_install_request where
  "raceRequest =
     \<lparr>iq_appId = ''app'', iq_tenantId = ''t'', iq_actor = ''ann'', iq_idempotencyKey = ''k'', iq_versionId = ''v'',
      iq_config = [], iq_confirmedCapabilities = [], iq_enabled = True, iq_priority = NInt 0\<rparr>"

definition raceDecision :: "string \<Rightarrow> decision_request" where
  "raceDecision actor =
     \<lparr>dq_appId = ''app'', dq_tenantId = ''t'', dq_actor = actor, dq_actorRole = ''tenant-admin'', dq_approvalId = ''a'',
      dq_decision = DecideApproved, dq_reason = None\<rparr>"

definition raceCommand :: "bool option \<Rightarrow> jsnum option \<Rightarrow> command_request" where
  "raceCommand enabled priority =
     \<lparr>cq_appId = ''app'', cq_tenantId = ''t'', cq_actor = ''bob'', cq_id = ''i'', cq_expectedRevision = 0,
      cq_enabled = enabled, cq_priority = priority\<rparr>"

definition raceCalls :: "admin_call list" where
  "raceCalls =
     [RequestCall ''a'' ''i'' ''x0'' 0 raceRequest, DecideCall ''d1'' ''x1'' 0 (raceDecision ''bob''),
      DecideCall ''d2'' ''x2'' 0 (raceDecision ''eve''), CommandCall ''x3'' 0 (raceCommand (Some False) None),
      CommandCall ''x4'' 0 (raceCommand None (Some (NInt 5)))]"

lemma race_fresh: "freshDb raceDb" "\<forall>c \<in> set raceCalls. callOk {''i''} c"
  by (simp_all add: freshDb_def raceDb_def raceCalls_def)

lemma race_hash: "installRequestHash (\<lambda>_. h) (\<lambda>r. r) raceRequest = Inr h"
proof -
  have "key_order ([] :: js_record) = []" by code_simp
  then show ?thesis by (simp add: installRequestHash_def adminRequestFingerprint_def raceRequest_def)
qed

lemma race_columns:
  "resolveColumns (ap_lib racePlatform) raceRequest
     (\<lparr>xv_id = ''v'', xv_plugin_id = ''p'', xv_version = ''1.0.0'', xv_manifest_json = JNull\<rparr>,
      \<lparr>pl_id = ''p'', pl_appId = ''app'', pl_key = ''notify''\<rparr>) =
   Inr (\<lparr>ip_versionId = ''v'', ip_pluginId = ''p'', ip_pluginKey = ''notify'', ip_version = ''1.0.0'', ip_config = [],
          ip_grants = [], ip_capabilities = []\<rparr>, [], [])"
  by code_simp

lemma race_times: "\<not> toISOString 86400000 \<le> toISOString 0"
  by code_simp

text \<open>The database after the request, after the decision and after the command that wins.\<close>

definition raceProposal :: install_proposal where
  "raceProposal =
     \<lparr>ip_versionId = ''v'', ip_pluginId = ''p'', ip_pluginKey = ''notify'', ip_version = ''1.0.0'', ip_config = [],
      ip_grants = [], ip_capabilities = []\<rparr>"

definition afterBatch :: "statement list \<Rightarrow> admin_db \<Rightarrow> admin_db" where
  "afterBatch ws db = (case runBatch ws db of Inl _ \<Rightarrow> db | Inr db' \<Rightarrow> db')"

definition requestedDb :: admin_db where
  "requestedDb = afterBatch (requestStatements ''a'' ''i'' ''x0'' 0 raceRequest ''h'' raceProposal ([], [])) raceDb"

lemma requested:
  "runBatch (requestStatements ''a'' ''i'' ''x0'' 0 raceRequest ''h'' raceProposal ([], [])) raceDb = Inr requestedDb"
  "ad_apps requestedDb = ad_apps raceDb" "ad_tenants requestedDb = ad_tenants raceDb"
  "ad_plugins requestedDb = ad_plugins raceDb" "ad_versions requestedDb = ad_versions raceDb"
  "ad_installations requestedDb = []" "ad_audits requestedDb = []" "ad_decisions requestedDb = []"
  "ad_approvals requestedDb = [requestedApproval ''a'' 0 raceRequest raceProposal]"
  "ad_requests requestedDb =
     [\<lparr>xg_approval_id = ''a'', xg_app_id = ''app'', xg_tenant_id = ''t'', xg_plugin_id = ''p'', xg_version_id = ''v'',
       xg_installation_id = ''i'', xg_requested_by = ''ann'', xg_config_json = [], xg_grants_json = [],
       xg_capabilities_json = [], xg_enabled = 1, xg_priority = NInt 0, xg_created_at = toISOString 0\<rparr>]"
  by (simp_all add: requestedDb_def afterBatch_def requestStatements_def raceDb_def raceRequest_def raceProposal_def
      deleteRequestKey_def insertApproval_def insertGrantRequest_def insertRequestAudit_def insertRequestKey_def
      approvalRowOf_def tenantRow_def pluginRow_def versionRow_def tenantInApp_def pluginInApp_def versionOfPlugin_def
      requestedApproval_def newKey_def adminIdempotencyExpiry_def adminIdempotencyRetentionMs_def race_times)

lemma race_proposal:
  "readProposalRow raceRequest raceDb = Some
     (\<lparr>xv_id = ''v'', xv_plugin_id = ''p'', xv_version = ''1.0.0'', xv_manifest_json = JNull\<rparr>,
      \<lparr>pl_id = ''p'', pl_appId = ''app'', pl_key = ''notify''\<rparr>)"
  by (simp add: readProposalRow_def readVersionRow_def raceDb_def raceRequest_def versionRow_def pluginRow_def
        tenantInApp_def tenantRow_def)

lemma race_requested:
  "runSchedule (map (callOp racePlatform) raceCalls, raceDb) [0, 0, 0] =
     ((map (callOp racePlatform) raceCalls)[0 := Ret (RequestReply (Inr (Some (requestResult ''a'' 0 raceProposal))))], requestedDb)"
proof -
  have "readRequestKey (ap_other racePlatform) 0 raceRequest raceDb = None"
    by (simp add: readRequestKey_def findKey_def raceDb_def)
  moreover note race_proposal
  moreover have "installRequestHash (ap_sha256 racePlatform) (ap_sortLocale racePlatform) raceRequest = Inr ''h''"
    using race_hash by (simp add: racePlatform_def)
  ultimately show ?thesis
    using requested(1) race_columns
    by (simp add: runSchedule_def moveClient_def raceCalls_def requestInstallationOp_def writeRequest_def ask_def tell_def
        raceProposal_def [symmetric])
qed

definition raceDecided :: "admin_db" where
  "raceDecided = afterBatch (approvedInstallationStatements ''d1'' ''x1'' 0 (raceDecision ''bob'')
     (hd (ad_approvals requestedDb)) (hd (ad_requests requestedDb))) requestedDb"

lemma decided:
  "runBatch (approvedInstallationStatements ''d1'' ''x1'' 0 (raceDecision ''bob'')
     (requestedApproval ''a'' 0 raceRequest raceProposal) (hd (ad_requests requestedDb))) requestedDb = Inr raceDecided"
  "\<exists>e. runBatch (approvedInstallationStatements ''d2'' ''x2'' 0 (raceDecision ''eve'')
     (requestedApproval ''a'' 0 raceRequest raceProposal) (hd (ad_requests requestedDb))) raceDecided = Inl e"
  "ad_apps raceDecided = ad_apps raceDb" "ad_tenants raceDecided = ad_tenants raceDb"
  "ad_plugins raceDecided = ad_plugins raceDb" "ad_versions raceDecided = ad_versions raceDb"
  "ad_installations raceDecided = [newInstallation ''i'' ''t'' ''v'' True (NInt 0) [] []]"
  "map xa_id (ad_audits raceDecided) = [''x1'']"
  "map xa_installation_id (ad_audits raceDecided) = [''i'']"
  "map xa_revision (ad_audits raceDecided) = [0]"
  "map (\<lambda>d. (xd_id d, xd_approval_id d, xd_decision d)) (ad_decisions raceDecided) = [(''d1'', ''a'', DecideApproved)]"
  "map (\<lambda>a. (aw_id a, aw_tenant_id a, aw_plugin_id a, aw_role a, aw_state a)) (ad_approvals raceDecided) =
     [(''a'', ''t'', ''p'', ''admin'', StateApproved)]"
  by (simp_all add: raceDecided_def afterBatch_def approvedInstallationStatements_def requested raceDecision_def
      insertInstallationRow_def insertAdminAudit_def insertDecision_def auditTriggers_def installAudit_def approvalAudit_def
      newInstallation_def installationRow_def tenantRow_def pluginRow_def versionRow_def tenantInApp_def pluginInApp_def
      appKnown_def decisionApplies_def requestedApproval_def raceRequest_def raceProposal_def raceDb_def sqlMayDecide_def
      updateWhere_def race_times not_le [symmetric] del: not_le)

text \<open>What the two administrators read before either writes, and what the loser reads after.\<close>

lemma race_reads:
  "readApproval (raceDecision x) requestedDb = Some (requestedApproval ''a'' 0 raceRequest raceProposal)"
  "\<exists>v p. readInstallationRequest (raceDecision x) requestedDb = Some (hd (ad_requests requestedDb), v, p)"
  "validGrantRequest (hd (ad_requests requestedDb))"
  "\<exists>a. readApproval (raceDecision x) raceDecided = Some a \<and> aw_state a = StateApproved"
proof -
  show "readApproval (raceDecision x) requestedDb = Some (requestedApproval ''a'' 0 raceRequest raceProposal)"
    "\<exists>v p. readInstallationRequest (raceDecision x) requestedDb = Some (hd (ad_requests requestedDb), v, p)"
    "validGrantRequest (hd (ad_requests requestedDb))"
    by (simp_all add: readApproval_def readInstallationRequest_def validGrantRequest_def is_safe_integer_def max_safe_integer_def requested
        approvalRowOf_def raceDecision_def tenantInApp_def tenantRow_def pluginInApp_def pluginRow_def versionRow_def raceDb_def
        requestedApproval_def raceRequest_def raceProposal_def)
  obtain a where "ad_approvals raceDecided = [a]" "aw_id a = ''a''" "aw_tenant_id a = ''t''" "aw_plugin_id a = ''p''"
    "aw_state a = StateApproved"
    using decided(12) by (cases "ad_approvals raceDecided") auto
  then show "\<exists>a. readApproval (raceDecision x) raceDecided = Some a \<and> aw_state a = StateApproved"
    by (simp add: readApproval_def decided(4,5) approvalRowOf_def raceDecision_def tenantInApp_def tenantRow_def
        pluginInApp_def pluginRow_def raceDb_def)
qed

lemma race_admits:
  "canDecideApproval (dq_actorRole (raceDecision x)) (aw_role (requestedApproval ''a'' 0 raceRequest raceProposal))"
  "aw_state (requestedApproval ''a'' 0 raceRequest raceProposal) = StatePending"
  "\<not> aw_expires_at (requestedApproval ''a'' 0 raceRequest raceProposal) \<le> toISOString 0"
  "dq_decision (raceDecision x) = DecideApproved"
  "aw_resume_hook (requestedApproval ''a'' 0 raceRequest raceProposal) = ''installation.request''"
  unfolding decide_role_matches by (simp_all add: requestedApproval_def sqlMayDecide_def raceDecision_def race_times)

lemma race_decided:
  "\<exists>v p. runSchedule ([r, decideOp ''d1'' ''x1'' 0 (raceDecision ''bob''), decideOp ''d2'' ''x2'' 0 (raceDecision ''eve''), c, d],
      requestedDb) [1, 2, 1, 2, 1, 2, 2] =
    ([r, Ret (DecisionReply (Inr (decidedBy ''d1'' 0 (raceDecision ''bob'') (Some (hd (ad_requests requestedDb), v, p))))),
      Ret (DecisionReply (Inl ApprovalAlreadyDecided)), c, d], raceDecided)"
proof -
  obtain v p where a: "readInstallationRequest (raceDecision ''bob'') requestedDb = Some (hd (ad_requests requestedDb), v, p)"
    using race_reads(2) by blast
  obtain w q where b: "readInstallationRequest (raceDecision ''eve'') requestedDb = Some (hd (ad_requests requestedDb), w, q)"
    using race_reads(2) by blast
  obtain e f where c: "runBatch (approvedInstallationStatements ''d2'' ''x2'' 0 (raceDecision ''eve'')
     (requestedApproval ''a'' 0 raceRequest raceProposal) (hd (ad_requests requestedDb))) raceDecided = Inl e"
    "readApproval (raceDecision ''eve'') raceDecided = Some f" "aw_state f = StateApproved"
    using decided(2) race_reads(4) by blast
  note rules = a b c decided(1) race_reads(1,3) race_admits runSchedule_def moveClient_def decideOp_def writeDecision_def ask_def tell_def
  show ?thesis by (intro exI [of _ v] exI [of _ p]) (simp add: rules)
qed

text \<open>Both commands read revision 0; one wins, the other reports the conflict.\<close>

definition raceInstalled :: InstallationRow where
  "raceInstalled = newInstallation ''i'' ''t'' ''v'' True (NInt 0) [] []"

definition raceAudit :: "string \<Rightarrow> bool option \<Rightarrow> jsnum option \<Rightarrow> bool \<times> jsnum \<Rightarrow> admin_audit_row" where
  "raceAudit auditId enabled priority after =
     commandAudit (raceCommand enabled priority) auditId 0 raceInstalled ''p'' (True, NInt 0, 0) after"

definition raceFinal :: admin_db where
  "raceFinal = afterBatch [commandStatement (raceAudit ''x3'' (Some False) None (False, NInt 0))] raceDecided"

lemma commanded:
  "commandStatement (raceAudit ''x3'' (Some False) None (False, NInt 0)) raceDecided = Inr raceFinal"
  "\<exists>e. commandStatement (raceAudit ''x4'' None (Some (NInt 5)) (True, NInt 5)) raceFinal = Inl e"
  "readCommandRow ''app'' ''t'' ''i'' raceDecided = Some (raceInstalled, ''p'')"
  "readCommandRow ''app'' ''t'' ''i'' raceFinal = Some (raceInstalled\<lparr>iw_enabled := 0, iw_revision := 1\<rparr>, ''p'')"
  "ad_installations raceFinal = [raceInstalled\<lparr>iw_enabled := 0, iw_revision := 1\<rparr>]"
proof -
  obtain x where x: "ad_audits raceDecided = [x]" "xa_id x = ''x1''" "xa_installation_id x = ''i''" "xa_revision x = 0"
    using decided(8-10) by (cases "ad_audits raceDecided") auto
  let ?x = "raceAudit ''x3'' (Some False) None (False, NInt 0)"
  note rows = joinInstallation_def installationRow_def tenantRow_def pluginRow_def versionRow_def tenantInApp_def appKnown_def
    decided(3-7) raceInstalled_def newInstallation_def raceDb_def
  note audits = commandStatement_def insertAdminAudit_def auditTriggers_def applyCommand_def raceAudit_def commandAudit_def raceCommand_def
    commandValid_def commandWhere_def sqlNumber_def jsonNum_def updateWhere_def
  have 1: "commandStatement ?x raceDecided =
      Inr (raceDecided\<lparr>ad_installations := [raceInstalled\<lparr>iw_enabled := 0, iw_revision := 1\<rparr>], ad_audits := [x, ?x]\<rparr>)"
    by (simp add: audits rows x)
  then have f: "raceFinal = raceDecided\<lparr>ad_installations := [raceInstalled\<lparr>iw_enabled := 0, iw_revision := 1\<rparr>], ad_audits := [x, ?x]\<rparr>"
    by (simp add: raceFinal_def afterBatch_def)
  show "commandStatement ?x raceDecided = Inr raceFinal" using 1 f by simp
  show "\<exists>e. commandStatement (raceAudit ''x4'' None (Some (NInt 5)) (True, NInt 5)) raceFinal = Inl e"
    unfolding f by (simp add: audits rows)
  show "readCommandRow ''app'' ''t'' ''i'' raceDecided = Some (raceInstalled, ''p'')"
    by (simp add: readCommandRow_def rows)
  show "readCommandRow ''app'' ''t'' ''i'' raceFinal = Some (raceInstalled\<lparr>iw_enabled := 0, iw_revision := 1\<rparr>, ''p'')"
    unfolding f by (simp add: readCommandRow_def rows)
  show "ad_installations raceFinal = [raceInstalled\<lparr>iw_enabled := 0, iw_revision := 1\<rparr>]"
    by (simp add: f)
qed

lemma race_commanded:
  "runSchedule ([r, c, d, updateInstallationCommand ''x3'' 0 (raceCommand (Some False) None),
      updateInstallationCommand ''x4'' 0 (raceCommand None (Some (NInt 5)))], raceDecided) [3, 4, 3, 4, 4] =
    ([r, c, d, Ret (CommandReply (Inr (Some (CommandUpdated ''i'' False (NInt 0) 1 True)))),
      Ret (CommandReply (Inr (Some (CommandConflict ''i'' 1))))], raceFinal)"
proof -
  obtain e where e: "commandStatement (raceAudit ''x4'' None (Some (NInt 5)) (True, NInt 5)) raceFinal = Inl e"
    using commanded(2) by blast
  have state: "commandState raceInstalled = Inr (True, NInt 0, 0)"
    "commandState (raceInstalled\<lparr>iw_enabled := 0, iw_revision := 1\<rparr>) = Inr (False, NInt 0, 1)" "iw_id raceInstalled = ''i''"
    by (simp_all add: commandState_def raceInstalled_def newInstallation_def is_safe_integer_def max_safe_integer_def)
  have request: "cq_appId (raceCommand b n) = ''app''" "cq_tenantId (raceCommand b n) = ''t''" "cq_id (raceCommand b n) = ''i''"
    "cq_expectedRevision (raceCommand b n) = 0" "cq_enabled (raceCommand b n) = b" "cq_priority (raceCommand b n) = n" for b n
    by (simp_all add: raceCommand_def)
  note rules = requiredText_def commanded(1,3,4) e state request commandFailed_def raceAudit_def [symmetric] runSchedule_def moveClient_def
    updateInstallationCommand_def writeCommand_def ask_def tell_def Let_def
  show ?thesis by (simp add: rules)
qed

definition raceSchedule :: "nat list" where
  "raceSchedule = [0, 0, 0] @ [1, 2, 1, 2, 1, 2, 2] @ [3, 4, 3, 4, 4]"

lemma race_run:
  "\<exists>v p. adminRun racePlatform raceCalls raceDb raceSchedule =
    ([Ret (RequestReply (Inr (Some (requestResult ''a'' 0 raceProposal)))),
      Ret (DecisionReply (Inr (decidedBy ''d1'' 0 (raceDecision ''bob'') (Some (hd (ad_requests requestedDb), v, p))))),
      Ret (DecisionReply (Inl ApprovalAlreadyDecided)),
      Ret (CommandReply (Inr (Some (CommandUpdated ''i'' False (NInt 0) 1 True)))),
      Ret (CommandReply (Inr (Some (CommandConflict ''i'' 1))))], raceFinal)"
proof -
  have split: "runSchedule sys (xs @ ys) = runSchedule (runSchedule sys xs) ys" for sys :: "(admin_db, admin_reply) system" and xs ys
    by (simp add: runSchedule_def)
  show ?thesis
    unfolding adminRun_def raceSchedule_def split race_requested
    using race_decided race_commanded by (simp add: raceCalls_def) metis
qed

section \<open>The race, applied\<close>

theorem admin_history_explains_witness:
  "explains (installationHistory (snd (adminRun racePlatform raceCalls raceDb raceSchedule)) ''i'')
     (raceInstalled\<lparr>iw_enabled := 0, iw_revision := 1\<rparr>)"
proof -
  have "ad_installations (snd (adminRun racePlatform raceCalls raceDb raceSchedule)) =
      [raceInstalled\<lparr>iw_enabled := 0, iw_revision := 1\<rparr>]"
    using race_run commanded(5) by force
  moreover have "iw_id raceInstalled = ''i''" by (simp add: raceInstalled_def newInstallation_def)
  ultimately show ?thesis
    using admin_history_explains [OF race_fresh, of racePlatform raceSchedule] by simp
qed

theorem requested_installations_approved_witness:
  "requestsHonoured {''i''} (snd (adminRun racePlatform raceCalls raceDb raceSchedule)) \<and>
   map iw_id (ad_installations (snd (adminRun racePlatform raceCalls raceDb raceSchedule))) = [''i'']"
proof
  show "requestsHonoured {''i''} (snd (adminRun racePlatform raceCalls raceDb raceSchedule))"
    by (rule requested_installations_approved [OF race_fresh])
  have "ad_installations (snd (adminRun racePlatform raceCalls raceDb raceSchedule)) =
      [raceInstalled\<lparr>iw_enabled := 0, iw_revision := 1\<rparr>]"
    using race_run commanded(5) by force
  then show "map iw_id (ad_installations (snd (adminRun racePlatform raceCalls raceDb raceSchedule))) = [''i'']"
    by (simp add: raceInstalled_def newInstallation_def)
qed

theorem approval_decided_at_most_once_witness:
  "\<exists>r. Ret (DecisionReply (Inr r)) \<in> set (fst (adminRun racePlatform raceCalls raceDb raceSchedule)) \<and>
     dr_auditId r = ''d1'' \<and>
     (\<exists>a \<in> set (ad_approvals (snd (adminRun racePlatform raceCalls raceDb raceSchedule))).
        aw_id a = ''a'' \<and> aw_state a = StateApproved)"
proof -
  obtain v p where run: "fst (adminRun racePlatform raceCalls raceDb raceSchedule) =
    [Ret (RequestReply (Inr (Some (requestResult ''a'' 0 raceProposal)))),
      Ret (DecisionReply (Inr (decidedBy ''d1'' 0 (raceDecision ''bob'') (Some (hd (ad_requests requestedDb), v, p))))),
      Ret (DecisionReply (Inl ApprovalAlreadyDecided)),
      Ret (CommandReply (Inr (Some (CommandUpdated ''i'' False (NInt 0) 1 True)))),
      Ret (CommandReply (Inr (Some (CommandConflict ''i'' 1))))]"
    using race_run by force
  let ?r = "decidedBy ''d1'' 0 (raceDecision ''bob'') (Some (hd (ad_requests requestedDb), v, p))"
  have r: "Ret (DecisionReply (Inr ?r)) \<in> set (fst (adminRun racePlatform raceCalls raceDb raceSchedule))"
    unfolding run by simp
  have f: "dr_approvalId ?r = ''a''" "dr_decision ?r = DecideApproved" "dr_auditId ?r = ''d1''"
    by (simp_all add: decidedBy_def raceDecision_def)
  from approval_decided_at_most_once [OF race_fresh r r refl] show ?thesis
    unfolding f using r f(3) by (intro exI [of _ ?r]) simp
qed


end
