(* ===== verification/CpAdminReplay.thy ===== *)
theory CpAdminReplay
  imports CpAdminProperties
begin

text \<open>
  Idempotency keys: what an installation, a request or a rollback that is sent again with the same key
  answers, and what it changes.
\<close>

section \<open>Keys that were written\<close>

lemma findKey_last:
  assumes "\<not> list_ex (keyIs k) rows" "keyIs k r" "dateParse other (xi_expires_at r) = Some t" "now < t"
  shows "findKey other now k (rows @ [r]) = Some r"
proof -
  have "List.find (keyIs k) (rows @ [r]) = Some r"
    using assms(1,2) by (induction rows) auto
  then show ?thesis using assms(3,4) by (simp add: findKey_def)
qed

lemma expiry_parses:
  "iso_year_ok (now + adminIdempotencyRetentionMs) \<Longrightarrow>
     dateParse other (adminIdempotencyExpiry now) = Some (now + adminIdempotencyRetentionMs)"
  by (simp add: adminIdempotencyExpiry_def dateParse_toISOString)

lemma runBatch_snoc: "runBatch (ws @ [w]) s = bindE (runBatch ws s) w"
  by (induction ws arbitrary: s) (simp_all add: bindE_def split: sum.split)

section \<open>Installations\<close>

lemma installJson_replays: "safeNumber (ir_priority r) \<Longrightarrow> isAdminInstallResult (installJson r) = Some r"
  by (cases "ir_priority r") (simp_all add: isAdminInstallResult_def installJson_def record_get_def own_keys_def jsonNum_def)

lemma install_written:
  assumes "runBatch (installStatements i auditId now q requestHash p columns) db = Inr db'"
  obtains rows where "\<not> list_ex (keyIs (installKey q)) rows"
    "ad_install_keys db' = rows @ [newKey q requestHash (installJson (installResult i q p)) now]"
proof -
  let ?k = "newKey q requestHash (installJson (installResult i q p)) now"
  have "installStatements i auditId now q requestHash p columns =
      butlast (installStatements i auditId now q requestHash p columns) @ [insertInstallKey ?k]"
    by (simp add: installStatements_def)
  then obtain db1 where "insertInstallKey ?k db1 = Inr db'"
    using assms runBatch_snoc by (metis bindE_Inr)
  then show thesis using that [of "ad_install_keys db1"]
    by (auto simp: insertInstallKey_def rowKeyOf_def newKey_def installKey_def split: if_splits)
qed

lemma install_fresh:
  assumes "runOp (installOp lib other sha256 sortLocale i auditId now q) db = (InstallReply (Inr (Some r)), db')"
    "readInstallKey other now q db = None" "installRequestHash sha256 sortLocale q = Inr h"
  obtains p columns where "runBatch (installStatements i auditId now q h p columns) db = Inr db'" "r = installResult i q p"
proof -
  obtain row where row: "readProposalRow q db = Some row"
    using assms by (cases "readProposalRow q db") (simp_all add: installOp_def)
  obtain pc where pc: "resolveColumns lib q row = Inr pc"
    using assms row by (cases "resolveColumns lib q row") (simp_all add: installOp_def)
  let ?written = "runBatch (installStatements i auditId now q h (fst pc) (snd pc)) db"
  obtain t where "?written = Inr t"
  proof (cases ?written)
    case (Inl e)
    then show ?thesis using assms row pc by (simp add: installOp_def writeInstall_def)
  qed
  then show thesis using assms row pc that by (simp add: installOp_def writeInstall_def)
qed


text \<open>The request of the race, installed at once.\<close>

lemma race_installs:
  "\<exists>db'. runOp (installOp (ap_lib racePlatform) (\<lambda>_. None) (\<lambda>_. ''h'') (\<lambda>r. r) ''i'' ''x'' 0 raceRequest) raceDb =
     (InstallReply (Inr (Some (installResult ''i'' raceRequest raceProposal))), db')"
proof -
  have "readInstallKey (\<lambda>_. None) 0 raceRequest raceDb = None"
    by (simp add: readInstallKey_def findKey_def raceDb_def)
  moreover have "\<exists>db'. runBatch (installStatements ''i'' ''x'' 0 raceRequest ''h'' raceProposal ([], [])) raceDb = Inr db'"
    by (simp add: installStatements_def raceDb_def raceRequest_def raceProposal_def deleteInstallKey_def insertInstallKey_def
        insertInstallationRow_def insertAdminAudit_def auditTriggers_def installAudit_def newInstallation_def newKey_def
        installationRow_def tenantRow_def pluginRow_def versionRow_def appKnown_def)
  ultimately show ?thesis
    using race_hash race_columns race_proposal
    by (auto simp: installOp_def writeInstall_def raceProposal_def [symmetric])
qed


end
