(* ===== verification/CpOauthState.thy ===== *)
theory CpOauthState
  imports WebUrl KeyedStore JsonRoundtrip "HOL-Library.Word"
begin

text \<open>
  \<open>packages/control-plane/src/oauth-state-store.ts\<close>: the one-time states of OAuth flows, kept in
  Durable Objects. An operation of an object (\<open>blockConcurrencyWhile\<close>) is one step, in which the alarm
  calls or the transaction of the storage may fail. Bodies travel as their JSON texts. Arguments of the
  model: \<open>parseUrl\<close> (the \<open>URL\<close> class), \<open>sha256\<close> (in hexadecimal), \<open>nearest\<close> (the reading of numbers), the
  clocks (\<open>None\<close>: no safe integer) and the random bytes.
\<close>

section \<open>Constants and records\<close>

definition default_ttl_ms :: int where "default_ttl_ms = 5 * 60 * 1000"
definition min_ttl_ms :: int where "min_ttl_ms = 60000"
definition max_ttl_ms :: int where "max_ttl_ms = 10 * 60 * 1000"
definition oauth_request_bytes :: nat where "oauth_request_bytes = 16384"
definition oauth_response_bytes :: nat where "oauth_response_bytes = 16384"

datatype OAuthStateStoreErrorCode =
  OauthInvalidConfiguration | OauthInvalidRequest | OauthStateInvalid | OauthStoreUnavailable

fun oauth_code_text :: "OAuthStateStoreErrorCode \<Rightarrow> string" where
  "oauth_code_text OauthInvalidConfiguration = ''oauth_state_invalid_configuration''"
| "oauth_code_text OauthInvalidRequest = ''oauth_state_invalid_request''"
| "oauth_code_text OauthStateInvalid = ''oauth_state_invalid''"
| "oauth_code_text OauthStoreUnavailable = ''oauth_state_store_unavailable''"

record OAuthStateBinding =
  ob_provider :: string
  ob_appId :: string
  ob_tenantId :: string
  ob_actorSubject :: string
  ob_redirectUri :: string
  ob_issuedAtMs :: int
  ob_expiresAtMs :: int

text \<open>A stored record: the digest of the browser binding with the public part.\<close>

record OAuthStateRecord =
  os_browserBindingDigest :: string
  os_public :: OAuthStateBinding

section \<open>Checks\<close>

definition isExactRecord :: "jsval \<Rightarrow> string list \<Rightarrow> bool" where
  "isExactRecord v keys \<longleftrightarrow>
     isRecord v \<and> length (own_keys v) = length keys \<and> list_all (\<lambda>k. k \<in> set keys) (own_keys v)"

definition stringMember :: "(string \<Rightarrow> bool) \<Rightarrow> jsval \<Rightarrow> string \<Rightarrow> string option" where
  "stringMember P v k = (case js_get v k of JStr s \<Rightarrow> if P s then Some s else None | _ \<Rightarrow> None)"

definition base64url_char :: "char \<Rightarrow> bool" where
  "base64url_char c \<longleftrightarrow> is_digit c \<or> is_upper c \<or> is_lower c \<or> c = CHR ''_'' \<or> c = CHR ''-''"

definition statePattern :: "string \<Rightarrow> bool" where
  "statePattern s \<longleftrightarrow> length s = 43 \<and> list_all base64url_char s"

definition isBrowserBinding :: "string \<Rightarrow> bool" where
  "isBrowserBinding s \<longleftrightarrow> 32 \<le> length s \<and> length s \<le> 512 \<and> list_all base64url_char s"

definition isBoundedOpaqueIdentityField :: "string \<Rightarrow> bool" where
  "isBoundedOpaqueIdentityField s \<longleftrightarrow> s \<noteq> [] \<and> length s \<le> 256"

definition isCanonicalHttpsRedirect :: "url_parser \<Rightarrow> string \<Rightarrow> bool" where
  "isCanonicalHttpsRedirect parseUrl s \<longleftrightarrow>
     length s \<le> 2048 \<and>
     (case parseUrl s of
        None \<Rightarrow> False
      | Some u \<Rightarrow> url_protocol u = ''https:'' \<and> url_username u = [] \<and> url_password u = [] \<and> url_hash u = [] \<and>
                  url_href u = s)"

definition isDigest :: "string \<Rightarrow> bool" where
  "isDigest s \<longleftrightarrow> length s = 64 \<and> list_all (\<lambda>c. is_digit c \<or> 97 \<le> code c \<and> code c \<le> 102) s"

fun isTimestamp :: "jsval \<Rightarrow> int option" where
  "isTimestamp (JNum (NInt i)) = (if is_safe_integer i \<and> 0 \<le> i then Some i else None)"
| "isTimestamp _ = None"

definition isBoundedInteger :: "jsnum \<Rightarrow> int \<Rightarrow> int \<Rightarrow> int option" where
  "isBoundedInteger n minimum maximum =
     (case n of NInt i \<Rightarrow> if is_safe_integer i \<and> minimum \<le> i \<and> i \<le> maximum then Some i else None | _ \<Rightarrow> None)"

definition providerName :: "string \<Rightarrow> bool" where
  "providerName s \<longleftrightarrow> s = ''slack''"

definition bindingKeys :: "string list" where
  "bindingKeys = [''provider'', ''appId'', ''tenantId'', ''actorSubject'', ''redirectUri'', ''issuedAtMs'', ''expiresAtMs'']"

text \<open>The members that every check of a binding has in common.\<close>

definition readBinding :: "url_parser \<Rightarrow> jsval \<Rightarrow> OAuthStateBinding option" where
  "readBinding parseUrl v =
     (case (stringMember providerName v ''provider'', stringMember isBoundedOpaqueIdentityField v ''appId'',
            stringMember isBoundedOpaqueIdentityField v ''tenantId'',
            stringMember isBoundedOpaqueIdentityField v ''actorSubject'',
            stringMember (isCanonicalHttpsRedirect parseUrl) v ''redirectUri'',
            isTimestamp (js_get v ''issuedAtMs''), isTimestamp (js_get v ''expiresAtMs'')) of
        (Some p, Some a, Some t, Some s, Some r, Some i, Some e) \<Rightarrow>
          Some \<lparr>ob_provider = p, ob_appId = a, ob_tenantId = t, ob_actorSubject = s, ob_redirectUri = r,
                ob_issuedAtMs = i, ob_expiresAtMs = e\<rparr>
      | _ \<Rightarrow> None)"

definition isPublicRecord :: "url_parser \<Rightarrow> jsval \<Rightarrow> OAuthStateBinding option" where
  "isPublicRecord parseUrl v =
     (if \<not> isExactRecord v bindingKeys then None
      else (case readBinding parseUrl v of
              None \<Rightarrow> None
            | Some b \<Rightarrow> if ob_issuedAtMs b < ob_expiresAtMs b then Some b else None))"

definition publicRecordFromUnknown :: "jsval \<Rightarrow> jsval" where
  "publicRecordFromUnknown v = JObj PlainObj (map (\<lambda>k. (k, js_get v k)) bindingKeys)"

definition isOAuthStateRecord :: "url_parser \<Rightarrow> jsval \<Rightarrow> OAuthStateRecord option" where
  "isOAuthStateRecord parseUrl v =
     (if \<not> isExactRecord v (''browserBindingDigest'' # bindingKeys) then None
      else (case (stringMember isDigest v ''browserBindingDigest'', isPublicRecord parseUrl (publicRecordFromUnknown v)) of
              (Some d, Some b) \<Rightarrow> Some \<lparr>os_browserBindingDigest = d, os_public = b\<rparr>
            | _ \<Rightarrow> None))"

text \<open>The accepted inputs of the two operations of an object: the digest of the state with what it binds.\<close>

definition isIssueProtocolInput :: "url_parser \<Rightarrow> jsval \<Rightarrow> (string \<times> OAuthStateRecord) option" where
  "isIssueProtocolInput parseUrl v =
     (if \<not> isExactRecord v (''stateDigest'' # ''browserBindingDigest'' # bindingKeys) then None
      else (case (stringMember isDigest v ''stateDigest'', stringMember isDigest v ''browserBindingDigest'',
                  readBinding parseUrl v) of
              (Some s, Some d, Some b) \<Rightarrow> Some (s, \<lparr>os_browserBindingDigest = d, os_public = b\<rparr>)
            | _ \<Rightarrow> None))"

definition isConsumeProtocolInput :: "jsval \<Rightarrow> (string \<times> string) option" where
  "isConsumeProtocolInput v =
     (if \<not> isExactRecord v [''stateDigest'', ''browserBindingDigest''] then None
      else (case (stringMember isDigest v ''stateDigest'', stringMember isDigest v ''browserBindingDigest'') of
              (Some s, Some d) \<Rightarrow> Some (s, d)
            | _ \<Rightarrow> None))"

section \<open>Bodies\<close>

record oauth_request =
  or_isPost :: bool
  or_pathname :: string
  or_contentType :: "string option"
  or_contentLength :: "string option"
  or_body :: "string option"

record oauth_response =
  op_status :: int
  op_body :: "string option"

definition readOauthJson ::
  "(jsnum \<Rightarrow> jsnum) \<Rightarrow> string option \<Rightarrow> string option \<Rightarrow> nat \<Rightarrow> (OAuthStateStoreErrorCode, jsval) outcome" where
  "readOauthJson nearest declared body limit =
     (if (case declared of
            None \<Rightarrow> False | Some s \<Rightarrow> s = [] \<or> \<not> list_all is_digit s \<or> limit < read_nat s)
      then Inl OauthStoreUnavailable
      else (case body of
              None \<Rightarrow> Inl OauthStoreUnavailable
            | Some b \<Rightarrow>
                if limit < utf8_length b then Inl OauthStoreUnavailable
                else (case parse_json nearest b of None \<Rightarrow> Inl OauthStoreUnavailable | Some v \<Rightarrow> Inr v)))"

definition encodeBoundedJson :: "jsval \<Rightarrow> nat \<Rightarrow> (OAuthStateStoreErrorCode, string) outcome" where
  "encodeBoundedJson v limit =
     (let encoded = serializeJsonValue v
      in if limit < utf8_length encoded then Inl OauthStoreUnavailable else Inr encoded)"

definition oauthErrorResponse :: "OAuthStateStoreErrorCode \<Rightarrow> int \<Rightarrow> oauth_response" where
  "oauthErrorResponse c status =
     \<lparr>op_status = status,
      op_body = Some (serializeJsonValue (JObj PlainObj [(''error'', JObj PlainObj [(''code'', JStr (oauth_code_text c))])]))\<rparr>"

definition bindingMembers :: "OAuthStateBinding \<Rightarrow> (string \<times> jsval) list" where
  "bindingMembers b =
     [(''provider'', JStr (ob_provider b)), (''appId'', JStr (ob_appId b)), (''tenantId'', JStr (ob_tenantId b)),
      (''actorSubject'', JStr (ob_actorSubject b)), (''redirectUri'', JStr (ob_redirectUri b)),
      (''issuedAtMs'', JNum (NInt (ob_issuedAtMs b))), (''expiresAtMs'', JNum (NInt (ob_expiresAtMs b)))]"

definition publicRecord :: "OAuthStateRecord \<Rightarrow> jsval" where
  "publicRecord r = JObj PlainObj (bindingMembers (os_public r))"

definition storedRecord :: "OAuthStateRecord \<Rightarrow> jsval" where
  "storedRecord r =
     JObj PlainObj ((''browserBindingDigest'', JStr (os_browserBindingDigest r)) # bindingMembers (os_public r))"

section \<open>The object\<close>

record oauth_object =
  oo_records :: "(string \<times> jsval) list"
  oo_alarm :: "int option"

text \<open>Which calls of the storage reject during an operation.\<close>

record storage_faults =
  sf_alarm :: bool
  sf_transaction :: bool

definition stateKey :: "string \<Rightarrow> string" where
  "stateKey stateDigest = ''state:'' @ stateDigest"

definition scheduleEarlierAlarm :: "int \<Rightarrow> oauth_object \<Rightarrow> oauth_object" where
  "scheduleEarlierAlarm expiresAtMs o1 =
     (case oo_alarm o1 of
        None \<Rightarrow> o1\<lparr>oo_alarm := Some expiresAtMs\<rparr>
      | Some scheduled \<Rightarrow> if expiresAtMs < scheduled then o1\<lparr>oo_alarm := Some expiresAtMs\<rparr> else o1)"

definition recordExpiries :: "url_parser \<Rightarrow> oauth_object \<Rightarrow> int list" where
  "recordExpiries parseUrl o1 =
     List.map_filter (\<lambda>(k, v).
       if startsWith k ''state:'' then map_option (\<lambda>r. ob_expiresAtMs (os_public r)) (isOAuthStateRecord parseUrl v) else None)
     (oo_records o1)"

definition scheduleNextAlarm :: "url_parser \<Rightarrow> oauth_object \<Rightarrow> oauth_object" where
  "scheduleNextAlarm parseUrl o1 =
     (case recordExpiries parseUrl o1 of
        [] \<Rightarrow> o1\<lparr>oo_alarm := None\<rparr>
      | t # ts \<Rightarrow> o1\<lparr>oo_alarm := Some (foldl min t ts)\<rparr>)"

definition objectIssue ::
  "url_parser \<Rightarrow> storage_faults \<Rightarrow> int option \<Rightarrow> jsval \<Rightarrow> oauth_object \<Rightarrow> oauth_response \<times> oauth_object" where
  "objectIssue parseUrl faults clock input o1 =
     (case isIssueProtocolInput parseUrl input of
        None \<Rightarrow> (oauthErrorResponse OauthInvalidRequest 400, o1)
      | Some (stateDigest, r) \<Rightarrow>
          (case clock of
             None \<Rightarrow> (oauthErrorResponse OauthStoreUnavailable 503, o1)
           | Some nowMs \<Rightarrow>
               let issued = ob_issuedAtMs (os_public r); expires = ob_expiresAtMs (os_public r)
               in if 5000 < \<bar>issued - nowMs\<bar> \<or> expires - issued < min_ttl_ms \<or> max_ttl_ms < expires - issued
                  then (oauthErrorResponse OauthInvalidRequest 400, o1)
                  else if sf_alarm faults then (oauthErrorResponse OauthStoreUnavailable 503, o1)
                  else let o2 = scheduleEarlierAlarm expires o1
                       in if sf_transaction faults \<or> mem_get (oo_records o2) (stateKey stateDigest) \<noteq> None
                          then (oauthErrorResponse OauthStoreUnavailable 503, o2)
                          else (\<lparr>op_status = 204, op_body = None\<rparr>,
                                o2\<lparr>oo_records := mem_put (stateKey stateDigest) (storedRecord r) (oo_records o2)\<rparr>)))"

definition objectConsume ::
  "url_parser \<Rightarrow> storage_faults \<Rightarrow> int option \<Rightarrow> jsval \<Rightarrow> oauth_object \<Rightarrow> oauth_response \<times> oauth_object" where
  "objectConsume parseUrl faults clock input o1 =
     (case isConsumeProtocolInput input of
        None \<Rightarrow> (oauthErrorResponse OauthInvalidRequest 400, o1)
      | Some (stateDigest, browserDigest) \<Rightarrow>
          let key = stateKey stateDigest;
              deleted = o1\<lparr>oo_records := mem_delete key (oo_records o1)\<rparr>
          in if sf_transaction faults then (oauthErrorResponse OauthStoreUnavailable 503, o1)
             else (case Option.bind (mem_get (oo_records o1) key) (isOAuthStateRecord parseUrl) of
                     None \<Rightarrow> (oauthErrorResponse OauthStateInvalid 400, o1)
                   | Some r \<Rightarrow>
                       (case clock of
                          None \<Rightarrow> (oauthErrorResponse OauthStoreUnavailable 503, o1)
                        | Some nowMs \<Rightarrow>
                            if ob_expiresAtMs (os_public r) \<le> nowMs then (oauthErrorResponse OauthStateInvalid 400, deleted)
                            else if os_browserBindingDigest r \<noteq> browserDigest
                            then (oauthErrorResponse OauthStateInvalid 400, o1)
                            else (\<lparr>op_status = 200, op_body = Some (serializeJsonValue (publicRecord r))\<rparr>, deleted))))"

text \<open>
  The alarm handler. When it rejects, the platform runs it again: the alarm stays.
\<close>

definition expiredEntry :: "url_parser \<Rightarrow> int \<Rightarrow> string \<times> jsval \<Rightarrow> bool" where
  "expiredEntry parseUrl nowMs e \<longleftrightarrow>
     startsWith (fst e) ''state:'' \<and>
     (case isOAuthStateRecord parseUrl (snd e) of None \<Rightarrow> False | Some r \<Rightarrow> ob_expiresAtMs (os_public r) \<le> nowMs)"

definition objectAlarm :: "url_parser \<Rightarrow> storage_faults \<Rightarrow> int option \<Rightarrow> oauth_object \<Rightarrow> oauth_object" where
  "objectAlarm parseUrl faults clock o1 =
     (case clock of
        None \<Rightarrow> o1
      | Some nowMs \<Rightarrow>
          if sf_transaction faults then o1
          else let o2 = o1\<lparr>oo_records := filter (\<lambda>e. \<not> expiredEntry parseUrl nowMs e) (oo_records o1)\<rparr>
               in if sf_alarm faults then o2 else scheduleNextAlarm parseUrl o2)"

datatype oauth_operation = IssueState | ConsumeState

definition matchOperation :: "oauth_request \<Rightarrow> oauth_operation option" where
  "matchOperation q =
     (if \<not> or_isPost q then None
      else if or_pathname q = ''/v1/issue'' then Some IssueState
      else if or_pathname q = ''/v1/consume'' then Some ConsumeState else None)"

definition objectFetch ::
  "url_parser \<Rightarrow> (jsnum \<Rightarrow> jsnum) \<Rightarrow> storage_faults \<Rightarrow> int option \<Rightarrow> oauth_request \<Rightarrow> oauth_object \<Rightarrow>
   oauth_response \<times> oauth_object" where
  "objectFetch parseUrl nearest faults clock q o1 =
     (case matchOperation q of
        None \<Rightarrow> (\<lparr>op_status = 404, op_body = None\<rparr>, o1)
      | Some operation \<Rightarrow>
          if or_contentType q \<noteq> Some ''application/json'' then (oauthErrorResponse OauthInvalidRequest 400, o1)
          else (case readOauthJson nearest (or_contentLength q) (or_body q) oauth_request_bytes of
                  Inl _ \<Rightarrow> (oauthErrorResponse OauthInvalidRequest 400, o1)
                | Inr input \<Rightarrow>
                    (case operation of
                       IssueState \<Rightarrow> objectIssue parseUrl faults clock input o1
                     | ConsumeState \<Rightarrow> objectConsume parseUrl faults clock input o1)))"

section \<open>The client\<close>

text \<open>\<open>btoa\<close> on bytes, and its URL-safe form without padding.\<close>

definition base64_char :: "nat \<Rightarrow> char" where
  "base64_char n =
     (if n < 26 then char_of (65 + n) else if n < 52 then char_of (71 + n) else if n < 62 then char_of (n - 4)
      else if n = 62 then CHR ''+'' else CHR ''/'')"

fun btoa :: "8 word list \<Rightarrow> string" where
  "btoa [] = []"
| "btoa [a] = [base64_char (unat a div 4), base64_char (unat a mod 4 * 16), CHR ''='', CHR ''='']"
| "btoa [a, b] =
     [base64_char (unat a div 4), base64_char (unat a mod 4 * 16 + unat b div 16), base64_char (unat b mod 16 * 4), CHR ''='']"
| "btoa (a # b # c # rest) =
     [base64_char (unat a div 4), base64_char (unat a mod 4 * 16 + unat b div 16),
      base64_char (unat b mod 16 * 4 + unat c div 64), base64_char (unat c mod 64)] @ btoa rest"

definition url_safe :: "char \<Rightarrow> char" where
  "url_safe c = (if c = CHR ''+'' then CHR ''-'' else if c = CHR ''/'' then CHR ''_'' else c)"

definition encodeBase64Url :: "8 word list \<Rightarrow> string" where
  "encodeBase64Url bytes =
     rev (dropWhile (\<lambda>c. c = CHR ''='') (rev (map url_safe (btoa bytes))))"

text \<open>
  The accepted inputs: for an issue what is bound (without its times) with the browser binding, for a
  consumption the state with the browser binding.
\<close>

definition isIssueInput :: "url_parser \<Rightarrow> jsval \<Rightarrow> (OAuthStateBinding \<times> string) option" where
  "isIssueInput parseUrl v =
     (if \<not> isExactRecord v [''provider'', ''appId'', ''tenantId'', ''actorSubject'', ''browserBinding'', ''redirectUri''] then None
      else (case (stringMember providerName v ''provider'', stringMember isBoundedOpaqueIdentityField v ''appId'',
                  stringMember isBoundedOpaqueIdentityField v ''tenantId'',
                  stringMember isBoundedOpaqueIdentityField v ''actorSubject'',
                  stringMember isBrowserBinding v ''browserBinding'',
                  stringMember (isCanonicalHttpsRedirect parseUrl) v ''redirectUri'') of
              (Some p, Some a, Some t, Some s, Some b, Some r) \<Rightarrow>
                Some (\<lparr>ob_provider = p, ob_appId = a, ob_tenantId = t, ob_actorSubject = s, ob_redirectUri = r,
                       ob_issuedAtMs = 0, ob_expiresAtMs = 0\<rparr>, b)
            | _ \<Rightarrow> None))"

definition isConsumeInput :: "jsval \<Rightarrow> (string \<times> string) option" where
  "isConsumeInput v =
     (if \<not> isExactRecord v [''state'', ''browserBinding''] then None
      else (case (stringMember statePattern v ''state'', stringMember isBrowserBinding v ''browserBinding'') of
              (Some s, Some b) \<Rightarrow> Some (s, b)
            | _ \<Rightarrow> None))"

text \<open>
  What the platform does with a request to an object: its faults, the clock of the object, and whether
  the request and the response arrive.
\<close>

record delivery =
  dv_faults :: storage_faults
  dv_clock :: "int option"
  dv_arrives :: bool
  dv_returns :: bool

type_synonym oauth_system = "string \<Rightarrow> oauth_object"

definition objectName :: "string \<Rightarrow> string" where
  "objectName stateDigest = ''oauth-state-v1-'' @ take 2 stateDigest"

definition internalRequest ::
  "url_parser \<Rightarrow> (jsnum \<Rightarrow> jsnum) \<Rightarrow> delivery \<Rightarrow> string \<Rightarrow> string \<Rightarrow> jsval \<Rightarrow>
   (oauth_system, OAuthStateStoreErrorCode, oauth_response) step" where
  "internalRequest parseUrl nearest d stateDigest operation body sys =
     (case encodeBoundedJson body oauth_request_bytes of
        Inl e \<Rightarrow> (Inl e, sys)
      | Inr encoded \<Rightarrow>
          if \<not> dv_arrives d then (Inl OauthStoreUnavailable, sys)
          else (case objectFetch parseUrl nearest (dv_faults d) (dv_clock d)
                       \<lparr>or_isPost = True, or_pathname = ''/v1/'' @ operation, or_contentType = Some ''application/json'',
                        or_contentLength = None, or_body = Some encoded\<rparr> (sys (objectName stateDigest)) of
                  (response, o1) \<Rightarrow>
                    (if dv_returns d then Inr response else Inl OauthStoreUnavailable,
                     sys(objectName stateDigest := o1))))"

definition issueBody :: "string \<Rightarrow> OAuthStateRecord \<Rightarrow> jsval" where
  "issueBody stateDigest r =
     JObj PlainObj ((''stateDigest'', JStr stateDigest) # (''browserBindingDigest'', JStr (os_browserBindingDigest r)) #
       bindingMembers (os_public r))"

definition consumeBody :: "string \<Rightarrow> string \<Rightarrow> jsval" where
  "consumeBody stateDigest browserDigest =
     JObj PlainObj [(''stateDigest'', JStr stateDigest), (''browserBindingDigest'', JStr browserDigest)]"

definition issueState ::
  "url_parser \<Rightarrow> (jsnum \<Rightarrow> jsnum) \<Rightarrow> (string \<Rightarrow> string) \<Rightarrow> int \<Rightarrow> delivery \<Rightarrow> int option \<Rightarrow> 8 word list \<Rightarrow> jsval \<Rightarrow>
   (oauth_system, OAuthStateStoreErrorCode, string \<times> int) step" where
  "issueState parseUrl nearest sha256 ttlMs d clock bytes input sys =
     (case isIssueInput parseUrl input of
        None \<Rightarrow> (Inl OauthInvalidRequest, sys)
      | Some (b, browserBinding) \<Rightarrow>
          (case clock of
             None \<Rightarrow> (Inl OauthStoreUnavailable, sys)
           | Some issuedAtMs \<Rightarrow>
               let state = encodeBase64Url bytes;
                   expiresAtMs = issuedAtMs + ttlMs;
                   r = \<lparr>os_browserBindingDigest = sha256 browserBinding,
                        os_public = b\<lparr>ob_issuedAtMs := issuedAtMs, ob_expiresAtMs := expiresAtMs\<rparr>\<rparr>
               in (case internalRequest parseUrl nearest d (sha256 state) ''issue'' (issueBody (sha256 state) r) sys of
                     (Inl e, sys') \<Rightarrow> (Inl e, sys')
                   | (Inr response, sys') \<Rightarrow>
                       (if op_status response \<noteq> 204 then Inl OauthStoreUnavailable else Inr (state, expiresAtMs), sys'))))"

definition consumeState ::
  "url_parser \<Rightarrow> (jsnum \<Rightarrow> jsnum) \<Rightarrow> (string \<Rightarrow> string) \<Rightarrow> delivery \<Rightarrow> jsval \<Rightarrow>
   (oauth_system, OAuthStateStoreErrorCode, OAuthStateBinding) step" where
  "consumeState parseUrl nearest sha256 d input sys =
     (case isConsumeInput input of
        None \<Rightarrow> (Inl OauthInvalidRequest, sys)
      | Some (state, browserBinding) \<Rightarrow>
          (case internalRequest parseUrl nearest d (sha256 state) ''consume''
                  (consumeBody (sha256 state) (sha256 browserBinding)) sys of
             (Inl e, sys') \<Rightarrow> (Inl e, sys')
           | (Inr response, sys') \<Rightarrow>
               (if op_status response = 400 then Inl OauthStateInvalid
                else if op_status response \<noteq> 200 then Inl OauthStoreUnavailable
                else bindE (readOauthJson nearest None (op_body response) oauth_response_bytes) (\<lambda>v.
                  case isPublicRecord parseUrl v of None \<Rightarrow> Inl OauthStoreUnavailable | Some b \<Rightarrow> Inr b),
                sys')))"

definition createDurableObjectNamespaceOAuthStateStore :: "jsnum option \<Rightarrow> (OAuthStateStoreErrorCode, int) outcome" where
  "createDurableObjectNamespaceOAuthStateStore ttlMs =
     (case isBoundedInteger (case ttlMs of None \<Rightarrow> NInt default_ttl_ms | Some n \<Rightarrow> n) min_ttl_ms max_ttl_ms of
        None \<Rightarrow> Inl OauthInvalidConfiguration
      | Some ttl \<Rightarrow> Inr ttl)"

end
