(* ===== verification/CpOauthProperties.thy ===== *)
theory CpOauthProperties
  imports CpOauthState "HOL-Library.Multiset"
begin

text \<open>
  What a one-time OAuth state promises: a state is redeemed at most once and only by the browser session
  that asked for it, failed attempts of others do not spend it, and no record outlives its alarm.
\<close>

section \<open>Reading what was written\<close>

definition readsIntegers :: "(jsnum \<Rightarrow> jsnum) \<Rightarrow> bool" where
  "readsIntegers nearest \<longleftrightarrow> (\<forall>i. is_safe_integer i \<longrightarrow> nearest (NInt i) = NInt i)"

definition fieldsOk :: "url_parser \<Rightarrow> OAuthStateBinding \<Rightarrow> bool" where
  "fieldsOk parseUrl b \<longleftrightarrow>
     providerName (ob_provider b) \<and> isBoundedOpaqueIdentityField (ob_appId b) \<and>
     isBoundedOpaqueIdentityField (ob_tenantId b) \<and> isBoundedOpaqueIdentityField (ob_actorSubject b) \<and>
     isCanonicalHttpsRedirect parseUrl (ob_redirectUri b) \<and>
     is_safe_integer (ob_issuedAtMs b) \<and> 0 \<le> ob_issuedAtMs b \<and> is_safe_integer (ob_expiresAtMs b) \<and> 0 \<le> ob_expiresAtMs b"

definition bindingOk :: "url_parser \<Rightarrow> OAuthStateBinding \<Rightarrow> bool" where
  "bindingOk parseUrl b \<longleftrightarrow>
     fieldsOk parseUrl b \<and> min_ttl_ms \<le> ob_expiresAtMs b - ob_issuedAtMs b \<and>
     ob_expiresAtMs b - ob_issuedAtMs b \<le> max_ttl_ms"

definition recordOk :: "url_parser \<Rightarrow> OAuthStateRecord \<Rightarrow> bool" where
  "recordOk parseUrl r \<longleftrightarrow> isDigest (os_browserBindingDigest r) \<and> bindingOk parseUrl (os_public r)"

lemma key_order_named: "list_all (\<lambda>f. \<not> array_index (fst f)) fs \<Longrightarrow> key_order fs = fs"
  by (simp add: key_order_def list_all_iff filter_id_conv filter_False)

lemma stringMember_Some: "stringMember P v k = Some s \<longleftrightarrow> js_get v k = JStr s \<and> P s"
  by (auto simp: stringMember_def split: jsval.splits)

lemma isTimestamp_Some: "isTimestamp v = Some i \<longleftrightarrow> v = JNum (NInt i) \<and> is_safe_integer i \<and> 0 \<le> i"
  by (cases v rule: isTimestamp.cases) auto

lemma readBinding_Some:
  "readBinding parseUrl v = Some b \<Longrightarrow> fieldsOk parseUrl b"
  by (auto simp: readBinding_def fieldsOk_def stringMember_Some isTimestamp_Some split: option.splits)

lemma readBinding_members:
  assumes "fieldsOk parseUrl b" "\<forall>k \<in> set bindingKeys. map_of fs k = map_of (bindingMembers b) k"
  shows "readBinding parseUrl (JObj PlainObj fs) = Some b"
proof -
  have "js_get (JObj PlainObj fs) k = record_get (bindingMembers b) k" if "k \<in> set bindingKeys" for k
    using assms(2) that by (simp add: record_get_def)
  then show ?thesis
    using assms(1)
    by (simp add: readBinding_def stringMember_def fieldsOk_def bindingKeys_def bindingMembers_def record_get_def)
qed

lemma public_read: "bindingOk parseUrl (os_public r) \<Longrightarrow> isPublicRecord parseUrl (publicRecord r) = Some (os_public r)"
  using readBinding_members [of parseUrl "os_public r" "bindingMembers (os_public r)"]
  by (simp add: isPublicRecord_def publicRecord_def isExactRecord_def own_keys_def bindingKeys_def bindingMembers_def bindingOk_def
      min_ttl_ms_def)

lemma publicRecord_unknown: "publicRecordFromUnknown (storedRecord r) = publicRecord r"
  by (simp add: publicRecordFromUnknown_def storedRecord_def publicRecord_def bindingKeys_def bindingMembers_def record_get_def)

lemma stored_read: "recordOk parseUrl r \<Longrightarrow> isOAuthStateRecord parseUrl (storedRecord r) = Some r"
  using public_read [of parseUrl r]
  by (simp add: isOAuthStateRecord_def publicRecord_unknown recordOk_def)
    (simp add: isExactRecord_def own_keys_def storedRecord_def bindingKeys_def bindingMembers_def stringMember_def record_get_def)

lemma issue_read:
  assumes "isDigest s" "isDigest (os_browserBindingDigest r)" "fieldsOk parseUrl (os_public r)"
  shows "isIssueProtocolInput parseUrl (issueBody s r) = Some (s, r)"
proof -
  have "readBinding parseUrl (issueBody s r) = Some (os_public r)"
    unfolding issueBody_def by (rule readBinding_members [OF assms(3)]) (simp add: bindingKeys_def)
  then show ?thesis
    using assms(1,2)
    by (simp add: isIssueProtocolInput_def isExactRecord_def own_keys_def issueBody_def bindingKeys_def bindingMembers_def
        stringMember_def record_get_def)
qed

lemma issue_read_any:
  "isIssueProtocolInput parseUrl (issueBody s r) = Some (s', r') \<Longrightarrow> s' = s \<and> r' = r"
  by (auto simp: isIssueProtocolInput_def readBinding_def issueBody_def bindingMembers_def stringMember_Some isTimestamp_Some
      record_get_def split: option.splits if_splits)

lemma issue_input_ok:
  "isIssueProtocolInput parseUrl v = Some (s, r) \<Longrightarrow>
     isDigest s \<and> isDigest (os_browserBindingDigest r) \<and> fieldsOk parseUrl (os_public r)"
  by (auto simp: isIssueProtocolInput_def stringMember_Some readBinding_Some split: option.splits if_splits)

lemma consume_read:
  "isConsumeProtocolInput (consumeBody s d) = (if isDigest s \<and> isDigest d then Some (s, d) else None)"
  by (simp add: isConsumeProtocolInput_def isExactRecord_def own_keys_def consumeBody_def stringMember_def record_get_def)

text \<open>The texts of the bodies are read back.\<close>

definition flatMember :: "(jsnum \<Rightarrow> jsnum) \<Rightarrow> jsval \<Rightarrow> bool" where
  "flatMember nearest v \<longleftrightarrow> (case v of JStr _ \<Rightarrow> True | JNum (NInt i) \<Rightarrow> nearest (NInt i) = NInt i | _ \<Rightarrow> False)"

lemma flat_parsed:
  assumes "distinct (map fst fs)" "list_all (\<lambda>f. \<not> array_index (fst f)) fs" "list_all (\<lambda>f. flatMember nearest (snd f)) fs"
  shows "parse_json nearest (serializeJsonValue (JObj PlainObj fs)) = Some (JObj PlainObj fs)"
proof -
  have m: "json_exact nearest v \<and> plain_copy v = v" if "flatMember nearest v" for v
    using that by (auto simp: flatMember_def split: jsval.splits jsnum.splits)
  have e: "json_exact nearest (JObj PlainObj fs)"
    using assms m by (auto simp: key_order_named list_all_iff)
  have "map (\<lambda>f. (fst f, plain_copy (snd f))) fs = fs"
    using assms(3) m by (intro map_idI) (auto simp: list_all_iff)
  with parse_json_serialized [OF e] show ?thesis by (simp del: serializeJsonValue.simps)
qed

lemma named_keys:
  "list_all (\<lambda>k. \<not> array_index k)
     (''stateDigest'' # ''browserBindingDigest'' # ''state'' # ''browserBinding'' # bindingKeys)"
  by code_simp

definition safeTimes :: "OAuthStateBinding \<Rightarrow> bool" where
  "safeTimes b \<longleftrightarrow> is_safe_integer (ob_issuedAtMs b) \<and> is_safe_integer (ob_expiresAtMs b)"

lemma fields_safe: "fieldsOk parseUrl b \<Longrightarrow> safeTimes b"
  by (simp add: fieldsOk_def safeTimes_def)

lemma members_flat:
  "readsIntegers nearest \<Longrightarrow> safeTimes b \<Longrightarrow> list_all (\<lambda>f. flatMember nearest (snd f)) (bindingMembers b)"
  by (simp add: bindingMembers_def flatMember_def readsIntegers_def safeTimes_def)

lemma public_parsed:
  assumes "readsIntegers nearest" "safeTimes (os_public r)"
  shows "parse_json nearest (serializeJsonValue (publicRecord r)) = Some (publicRecord r)"
  unfolding publicRecord_def
  by (rule flat_parsed) (use named_keys members_flat [OF assms] in \<open>simp_all add: bindingMembers_def bindingKeys_def\<close>)

lemma issue_parsed:
  assumes "readsIntegers nearest" "safeTimes (os_public r)"
  shows "parse_json nearest (serializeJsonValue (issueBody s r)) = Some (issueBody s r)"
  unfolding issueBody_def
  by (rule flat_parsed)
    (use named_keys members_flat [OF assms] in \<open>simp_all add: bindingMembers_def bindingKeys_def flatMember_def\<close>)

lemma consume_parsed: "parse_json nearest (serializeJsonValue (consumeBody s d)) = Some (consumeBody s d)"
  unfolding consumeBody_def
  by (rule flat_parsed) (use named_keys in \<open>simp_all add: flatMember_def\<close>)

section \<open>The records of an object\<close>

text \<open>Every record is one that an issue wrote, and an alarm is set not after it expires.\<close>

definition entryOk :: "url_parser \<Rightarrow> int option \<Rightarrow> string \<times> jsval \<Rightarrow> bool" where
  "entryOk parseUrl alarm e \<longleftrightarrow>
     (\<exists>s r a. e = (stateKey s, storedRecord r) \<and> recordOk parseUrl r \<and> alarm = Some a \<and> a \<le> ob_expiresAtMs (os_public r))"

definition objectOk :: "url_parser \<Rightarrow> oauth_object \<Rightarrow> bool" where
  "objectOk parseUrl o1 \<longleftrightarrow>
     distinct (map fst (oo_records o1)) \<and> (\<forall>e \<in> set (oo_records o1). entryOk parseUrl (oo_alarm o1) e)"

definition emptyObject :: oauth_object where
  "emptyObject = \<lparr>oo_records = [], oo_alarm = None\<rparr>"

lemma empty_ok: "objectOk parseUrl emptyObject"
  by (simp add: objectOk_def emptyObject_def)

lemma startsWith_stateKey [simp]: "startsWith (stateKey s) ''state:''"
  by (simp add: startsWith_def stateKey_def)

lemma stateKey_inj [simp]: "stateKey s = stateKey t \<longleftrightarrow> s = t"
  by (simp add: stateKey_def)

lemma entryOk_earlier:
  "entryOk parseUrl alarm e \<Longrightarrow> (\<And>a. alarm = Some a \<Longrightarrow> \<exists>b \<le> a. alarm' = Some b) \<Longrightarrow> entryOk parseUrl alarm' e"
  unfolding entryOk_def by (metis order_trans)

lemma scheduleEarlier_ok:
  assumes "objectOk parseUrl o1"
  shows "objectOk parseUrl (scheduleEarlierAlarm t o1)"
    "\<exists>a \<le> t. oo_alarm (scheduleEarlierAlarm t o1) = Some a"
    "oo_records (scheduleEarlierAlarm t o1) = oo_records o1"
proof -
  show r: "oo_records (scheduleEarlierAlarm t o1) = oo_records o1"
    by (simp add: scheduleEarlierAlarm_def split: option.split)
  have "\<exists>b \<le> a. oo_alarm (scheduleEarlierAlarm t o1) = Some b" if "oo_alarm o1 = Some a" for a
    using that by (auto simp: scheduleEarlierAlarm_def)
  then show "objectOk parseUrl (scheduleEarlierAlarm t o1)"
    using assms unfolding objectOk_def r by (metis entryOk_earlier)
  show "\<exists>a \<le> t. oo_alarm (scheduleEarlierAlarm t o1) = Some a"
    by (auto simp: scheduleEarlierAlarm_def split: option.split)
qed

lemma scheduleEarlier_records [simp]: "oo_records (scheduleEarlierAlarm t o1) = oo_records o1"
  by (simp add: scheduleEarlierAlarm_def split: option.split)

lemma foldl_min: "foldl min (t :: int) ts \<le> t \<and> (\<forall>x \<in> set ts. foldl min t ts \<le> x)"
proof (induction ts arbitrary: t)
  case (Cons y ts)
  show ?case using Cons.IH [of "min t y"] by auto
qed simp

lemma scheduleNext_ok:
  assumes "distinct (map fst (oo_records o1))"
    "\<forall>e \<in> set (oo_records o1). \<exists>s r. e = (stateKey s, storedRecord r) \<and> recordOk parseUrl r"
  shows "objectOk parseUrl (scheduleNextAlarm parseUrl o1)"
    "oo_records (scheduleNextAlarm parseUrl o1) = oo_records o1"
proof -
  show r: "oo_records (scheduleNextAlarm parseUrl o1) = oo_records o1"
    by (simp add: scheduleNextAlarm_def split: list.split)
  have "entryOk parseUrl (oo_alarm (scheduleNextAlarm parseUrl o1)) e" if "e \<in> set (oo_records o1)" for e
  proof -
    obtain s q where e: "e = (stateKey s, storedRecord q)" "recordOk parseUrl q" using assms(2) \<open>e \<in> set (oo_records o1)\<close> by blast
    have "ob_expiresAtMs (os_public q) \<in> set (recordExpiries parseUrl o1)"
      using that e by (force simp: recordExpiries_def List.map_filter_def image_iff stored_read)
    then obtain t ts where "recordExpiries parseUrl o1 = t # ts" "ob_expiresAtMs (os_public q) \<in> set (t # ts)"
      by (cases "recordExpiries parseUrl o1") auto
    then show ?thesis using e foldl_min [of t ts] by (auto simp: entryOk_def scheduleNextAlarm_def)
  qed
  then show "objectOk parseUrl (scheduleNextAlarm parseUrl o1)" using assms(1) r by (simp add: objectOk_def)
qed

lemma put_ok:
  assumes "objectOk parseUrl o1" "entryOk parseUrl (oo_alarm o1) (k, v)"
  shows "objectOk parseUrl (o1\<lparr>oo_records := mem_put k v (oo_records o1)\<rparr>)"
proof -
  have d: "distinct (map fst (mem_put k v (oo_records o1)))"
    using assms(1) by (simp add: objectOk_def mem_put_def distinct_obj_set)
  have "e = (k, v) \<or> e \<in> set (oo_records o1)" if "e \<in> set (mem_put k v (oo_records o1))" for e
  proof -
    obtain j w where e: "e = (j, w)" by (cases e)
    then have "mem_get (mem_put k v (oo_records o1)) j = Some w" using that d by (simp add: mem_get_def)
    then show ?thesis using e by (auto simp: mem.get_put mem_get_def split: if_splits dest: map_of_SomeD)
  qed
  then show ?thesis using assms d by (auto simp: objectOk_def)
qed

lemma filter_ok: "objectOk parseUrl o1 \<Longrightarrow> objectOk parseUrl (o1\<lparr>oo_records := filter P (oo_records o1)\<rparr>)"
  by (auto simp: objectOk_def distinct_map_filter)

lemma ok_entries:
  "objectOk parseUrl o1 \<Longrightarrow> \<forall>e \<in> set (oo_records o1). \<exists>s r. e = (stateKey s, storedRecord r) \<and> recordOk parseUrl r"
  unfolding objectOk_def entryOk_def by blast

lemma issue_ok:
  assumes "objectOk parseUrl o1"
  shows "objectOk parseUrl (snd (objectIssue parseUrl faults clock input o1))"
proof (cases "isIssueProtocolInput parseUrl input")
  case (Some sr)
  obtain s r where sr: "sr = (s, r)" by (cases sr)
  let ?o = "scheduleEarlierAlarm (ob_expiresAtMs (os_public r)) o1"
  note o = scheduleEarlier_ok [OF assms, of "ob_expiresAtMs (os_public r)"]
  have "entryOk parseUrl (oo_alarm ?o) (stateKey s, storedRecord r)"
    if "min_ttl_ms \<le> ob_expiresAtMs (os_public r) - ob_issuedAtMs (os_public r)"
      "ob_expiresAtMs (os_public r) - ob_issuedAtMs (os_public r) \<le> max_ttl_ms"
    using that o(2) issue_input_ok [OF Some [unfolded sr]] by (auto simp: entryOk_def recordOk_def bindingOk_def)
  then show ?thesis
    using assms o(1) put_ok [OF o(1)] by (auto simp: objectIssue_def Some sr Let_def split: option.split)
qed (simp add: objectIssue_def assms)

lemma consume_ok: "objectOk parseUrl o1 \<Longrightarrow> objectOk parseUrl (snd (objectConsume parseUrl faults clock input o1))"
  unfolding mem_delete_def [symmetric]
  by (auto simp: objectConsume_def Let_def mem_delete_def filter_ok split: option.split prod.split)

lemma alarm_ok:
  assumes "objectOk parseUrl o1"
  shows "objectOk parseUrl (objectAlarm parseUrl faults clock o1)"
proof -
  have "objectOk parseUrl (scheduleNextAlarm parseUrl o2)" if "objectOk parseUrl o2" for o2
    by (rule scheduleNext_ok) (use that ok_entries in \<open>auto simp: objectOk_def\<close>)
  then show ?thesis
    using assms filter_ok by (auto simp: objectAlarm_def Let_def split: option.split)
qed

lemma fetch_ok: "objectOk parseUrl o1 \<Longrightarrow> objectOk parseUrl (snd (objectFetch parseUrl nearest faults clock q o1))"
  by (simp add: objectFetch_def issue_ok consume_ok split: option.split sum.split oauth_operation.split)

section \<open>Records are swept\<close>

text \<open>Whatever reaches an object, in any order and with any storage failure.\<close>

datatype object_event =
    Fetched storage_faults "int option" oauth_request
  | AlarmRang storage_faults "int option"

fun objectStep :: "url_parser \<Rightarrow> (jsnum \<Rightarrow> jsnum) \<Rightarrow> oauth_object \<Rightarrow> object_event \<Rightarrow> oauth_object" where
  "objectStep parseUrl nearest o1 (Fetched faults clock q) = snd (objectFetch parseUrl nearest faults clock q o1)"
| "objectStep parseUrl nearest o1 (AlarmRang faults clock) = objectAlarm parseUrl faults clock o1"

lemma events_ok: "objectOk parseUrl o1 \<Longrightarrow> objectOk parseUrl (foldl (objectStep parseUrl nearest) o1 events)"
proof (induction events arbitrary: o1)
  case (Cons e events)
  then show ?case by (cases e) (simp_all add: fetch_ok alarm_ok)
qed simp

text \<open>
  C40: No record outlives its alarm: whatever requests reach an object, and whatever calls of its storage
  fail, every record that it holds lives between one and ten minutes, an alarm is set not after it
  expires, and the alarm handler at any later time removes it.
\<close>

theorem oauth_records_swept:
  assumes "e \<in> set (oo_records (foldl (objectStep parseUrl nearest) emptyObject events))"
  shows "\<exists>s r a. e = (stateKey s, storedRecord r) \<and>
    ob_expiresAtMs (os_public r) - ob_issuedAtMs (os_public r) \<in> {min_ttl_ms..max_ttl_ms} \<and>
    oo_alarm (foldl (objectStep parseUrl nearest) emptyObject events) = Some a \<and> a \<le> ob_expiresAtMs (os_public r) \<and>
    (\<forall>t \<ge> ob_expiresAtMs (os_public r).
       e \<notin> set (oo_records (objectAlarm parseUrl \<lparr>sf_alarm = False, sf_transaction = False\<rparr> (Some t)
         (foldl (objectStep parseUrl nearest) emptyObject events))))"
proof -
  let ?o = "foldl (objectStep parseUrl nearest) emptyObject events"
  have ok: "objectOk parseUrl ?o" by (rule events_ok [OF empty_ok])
  then have "entryOk parseUrl (oo_alarm ?o) e" using assms by (simp add: objectOk_def)
  then obtain s r a where e: "e = (stateKey s, storedRecord r)" "recordOk parseUrl r" "oo_alarm ?o = Some a"
    "a \<le> ob_expiresAtMs (os_public r)"
    unfolding entryOk_def by blast
  have "e \<notin> set (oo_records (objectAlarm parseUrl \<lparr>sf_alarm = False, sf_transaction = False\<rparr> (Some t) ?o))"
    if "ob_expiresAtMs (os_public r) \<le> t" for t
  proof -
    have "expiredEntry parseUrl t e" using e(1,2) that by (simp add: expiredEntry_def stored_read)
    then show ?thesis by (simp add: objectAlarm_def Let_def scheduleNextAlarm_def split: list.split)
  qed
  then show ?thesis using e by (auto simp: recordOk_def bindingOk_def)
qed

section \<open>Calls\<close>

record oauth_platform =
  oa_parseUrl :: url_parser
  oa_nearest :: "jsnum \<Rightarrow> jsnum"
  oa_sha256 :: "string \<Rightarrow> string"
  oa_ttlMs :: int

datatype oauth_call =
    IssueCall delivery "int option" "8 word list" jsval
  | RedeemCall delivery jsval
  | AlarmCall string storage_faults "int option"

datatype oauth_reply =
    Issued "(OAuthStateStoreErrorCode, string \<times> int) outcome"
  | Redeemed "(OAuthStateStoreErrorCode, OAuthStateBinding) outcome"
  | Rang

fun oauthCall :: "oauth_platform \<Rightarrow> oauth_call \<Rightarrow> oauth_system \<Rightarrow> oauth_reply \<times> oauth_system" where
  "oauthCall pf (IssueCall d clock bytes input) sys =
     map_prod Issued id (issueState (oa_parseUrl pf) (oa_nearest pf) (oa_sha256 pf) (oa_ttlMs pf) d clock bytes input sys)"
| "oauthCall pf (RedeemCall d input) sys =
     map_prod Redeemed id (consumeState (oa_parseUrl pf) (oa_nearest pf) (oa_sha256 pf) d input sys)"
| "oauthCall pf (AlarmCall name faults clock) sys = (Rang, sys(name := objectAlarm (oa_parseUrl pf) faults clock (sys name)))"

primrec oauthRun :: "oauth_platform \<Rightarrow> oauth_call list \<Rightarrow> oauth_system \<Rightarrow> oauth_reply list \<times> oauth_system" where
  "oauthRun pf [] sys = ([], sys)"
| "oauthRun pf (c # cs) sys =
     (case oauthCall pf c sys of (r, sys1) \<Rightarrow> (case oauthRun pf cs sys1 of (rs, sys2) \<Rightarrow> (r # rs, sys2)))"

text \<open>
  What an issue binds: the digest of the state and of the browser binding, and the flow. What a
  successful redemption returned, with the digests of what it presented.
\<close>

type_synonym oauth_token = "string \<times> string \<times> OAuthStateBinding"

fun boundBy :: "oauth_platform \<Rightarrow> oauth_call \<Rightarrow> oauth_token list" where
  "boundBy pf (IssueCall d clock bytes input) =
     (case (isIssueInput (oa_parseUrl pf) input, clock) of
        (Some (b, browser), Some t) \<Rightarrow>
          [(oa_sha256 pf (encodeBase64Url bytes), oa_sha256 pf browser, b\<lparr>ob_issuedAtMs := t, ob_expiresAtMs := t + oa_ttlMs pf\<rparr>)]
      | _ \<Rightarrow> [])"
| "boundBy pf _ = []"

fun redeemedBy :: "oauth_platform \<Rightarrow> oauth_call \<times> oauth_reply \<Rightarrow> oauth_token list" where
  "redeemedBy pf (RedeemCall d input, Redeemed (Inr b)) =
     (case isConsumeInput input of
        None \<Rightarrow> [] | Some (state, browser) \<Rightarrow> [(oa_sha256 pf state, oa_sha256 pf browser, b)])"
| "redeemedBy pf _ = []"

text \<open>Times of \<open>Date\<close> objects.\<close>

fun issuedInTime :: "oauth_call \<Rightarrow> bool" where
  "issuedInTime (IssueCall d (Some t) bytes input) \<longleftrightarrow> \<bar>t\<bar> \<le> 8640000000000000"
| "issuedInTime _ \<longleftrightarrow> True"

definition pending :: "oauth_token \<Rightarrow> oauth_system \<Rightarrow> nat" where
  "pending token sys =
     (case token of (s, d, b) \<Rightarrow>
       if mem_get (oo_records (sys (objectName s))) (stateKey s) = Some (storedRecord \<lparr>os_browserBindingDigest = d, os_public = b\<rparr>)
       then 1 else 0)"

definition systemOk :: "url_parser \<Rightarrow> oauth_system \<Rightarrow> bool" where
  "systemOk parseUrl sys \<longleftrightarrow> (\<forall>name. objectOk parseUrl (sys name))"

lemma storedRecord_inj: "storedRecord r = storedRecord q \<longleftrightarrow> r = q"
  by (cases r; cases q; cases "os_public r"; cases "os_public q") (auto simp: storedRecord_def bindingMembers_def)

lemma internalRequest_ok:
  "systemOk parseUrl sys \<Longrightarrow> systemOk parseUrl (snd (internalRequest parseUrl nearest d s op body sys))"
  using fetch_ok [of parseUrl "sys (objectName s)" nearest]
  by (simp add: internalRequest_def systemOk_def split: sum.split prod.split) (metis snd_conv)

text \<open>The record that an issue sends.\<close>

definition sentRecord :: "oauth_platform \<Rightarrow> OAuthStateBinding \<Rightarrow> string \<Rightarrow> int \<Rightarrow> OAuthStateRecord" where
  "sentRecord pf b browser t =
     \<lparr>os_browserBindingDigest = oa_sha256 pf browser,
      os_public = b\<lparr>ob_issuedAtMs := t, ob_expiresAtMs := t + oa_ttlMs pf\<rparr>\<rparr>"

lemma issue_system:
  "snd (oauthCall pf (IssueCall d clock bytes input) sys) =
     (case (isIssueInput (oa_parseUrl pf) input, clock) of
        (Some (b, browser), Some t) \<Rightarrow>
          snd (internalRequest (oa_parseUrl pf) (oa_nearest pf) d (oa_sha256 pf (encodeBase64Url bytes)) ''issue''
            (issueBody (oa_sha256 pf (encodeBase64Url bytes)) (sentRecord pf b browser t)) sys)
      | _ \<Rightarrow> sys)"
  by (simp add: issueState_def Let_def sentRecord_def case_prod_unfold split: option.split sum.split)

lemma redeem_system:
  "snd (oauthCall pf (RedeemCall d input) sys) =
     (case isConsumeInput input of
        None \<Rightarrow> sys
      | Some (state, browser) \<Rightarrow>
          snd (internalRequest (oa_parseUrl pf) (oa_nearest pf) d (oa_sha256 pf state) ''consume''
            (consumeBody (oa_sha256 pf state) (oa_sha256 pf browser)) sys))"
  by (simp add: consumeState_def case_prod_unfold split: option.split sum.split)

lemma call_ok:
  assumes "systemOk (oa_parseUrl pf) sys"
  shows "systemOk (oa_parseUrl pf) (snd (oauthCall pf c sys))"
proof (cases c)
  case (IssueCall d clock bytes input)
  show ?thesis unfolding IssueCall issue_system
    by (auto simp: assms internalRequest_ok split: option.split)
next
  case (RedeemCall d input)
  show ?thesis unfolding RedeemCall redeem_system
    by (auto simp: assms internalRequest_ok split: option.split)
next
  case (AlarmCall name faults clock)
  then show ?thesis using assms by (simp add: systemOk_def alarm_ok)
qed

text \<open>How the records of an object change.\<close>

lemma deliver:
  "internalRequest parseUrl nearest d s op body sys =
     (if oauth_request_bytes < utf8_length (serializeJsonValue body) \<or> \<not> dv_arrives d then (Inl OauthStoreUnavailable, sys)
      else let q = \<lparr>or_isPost = True, or_pathname = ''/v1/'' @ op, or_contentType = Some ''application/json'',
                    or_contentLength = None, or_body = Some (serializeJsonValue body)\<rparr>;
               out = objectFetch parseUrl nearest (dv_faults d) (dv_clock d) q (sys (objectName s))
           in (if dv_returns d then Inr (fst out) else Inl OauthStoreUnavailable, sys(objectName s := snd out)))"
  by (simp add: internalRequest_def encodeBoundedJson_def Let_def case_prod_unfold)

lemma fetch_issue:
  assumes "parse_json nearest (serializeJsonValue body) = Some body" "utf8_length (serializeJsonValue body) \<le> oauth_request_bytes"
  shows "objectFetch parseUrl nearest faults clock
      \<lparr>or_isPost = True, or_pathname = ''/v1/issue'', or_contentType = Some ''application/json'', or_contentLength = None,
       or_body = Some (serializeJsonValue body)\<rparr> o1 = objectIssue parseUrl faults clock body o1"
  using assms by (simp add: objectFetch_def matchOperation_def readOauthJson_def)

lemma fetch_consume:
  assumes "parse_json nearest (serializeJsonValue body) = Some body" "utf8_length (serializeJsonValue body) \<le> oauth_request_bytes"
  shows "objectFetch parseUrl nearest faults clock
      \<lparr>or_isPost = True, or_pathname = ''/v1/consume'', or_contentType = Some ''application/json'', or_contentLength = None,
       or_body = Some (serializeJsonValue body)\<rparr> o1 = objectConsume parseUrl faults clock body o1"
  using assms by (simp add: objectFetch_def matchOperation_def readOauthJson_def)

lemma issue_records:
  "mem_get (oo_records (snd (objectIssue parseUrl faults clock (issueBody s r) o1))) k = Some v \<Longrightarrow>
     mem_get (oo_records o1) k = Some v \<or> (k = stateKey s \<and> v = storedRecord r \<and> mem_get (oo_records o1) k = None)"
  by (auto simp: objectIssue_def Let_def mem.get_put split: option.splits if_splits prod.splits
      dest!: issue_read_any)

lemma shrinks_filter:
  "distinct (map fst xs) \<Longrightarrow> mem_get (filter P xs) k = Some v \<Longrightarrow> mem_get xs k = Some v"
  by (simp add: mem_get_def distinct_map_filter map_of_eq_Some_iff)

lemma stored_entry:
  assumes "objectOk parseUrl o1" "mem_get (oo_records o1) k = Some v"
  obtains s r where "k = stateKey s" "v = storedRecord r" "recordOk parseUrl r"
proof -
  have "(k, v) \<in> set (oo_records o1)" using assms(2) by (simp add: mem_get_def map_of_SomeD)
  then show thesis using ok_entries [OF assms(1)] that by blast
qed

lemma consume_success:
  assumes "objectOk parseUrl o1" "objectConsume parseUrl faults clock (consumeBody s d) o1 = (response, o2)" "op_status response = 200"
  obtains r t where "mem_get (oo_records o1) (stateKey s) = Some (storedRecord r)" "recordOk parseUrl r"
    "os_browserBindingDigest r = d" "op_body response = Some (serializeJsonValue (publicRecord r))"
    "o2 = o1\<lparr>oo_records := mem_delete (stateKey s) (oo_records o1)\<rparr>" "clock = Some t" "t < ob_expiresAtMs (os_public r)"
proof -
  have digests: "isDigest s" "isDigest d"
    using assms(2,3) by (auto simp: objectConsume_def consume_read oauthErrorResponse_def split: if_splits)
  have "mem_get (oo_records o1) (stateKey s) \<noteq> None"
  proof
    assume "mem_get (oo_records o1) (stateKey s) = None"
    then show False using assms(2,3) by (auto simp: objectConsume_def consume_read digests Let_def oauthErrorResponse_def split: if_splits)
  qed
  then obtain v where v: "mem_get (oo_records o1) (stateKey s) = Some v" by blast
  obtain r where r: "v = storedRecord r" "recordOk parseUrl r" using stored_entry [OF assms(1) v] by metis
  from assms(2,3) show thesis
    by (auto simp: objectConsume_def consume_read digests Let_def v r stored_read oauthErrorResponse_def
        split: if_splits option.splits intro!: that [of r])
qed

lemma redeemed:
  assumes "readsIntegers (oa_nearest pf)" "systemOk (oa_parseUrl pf) sys"
    "oauthCall pf (RedeemCall d input) sys = (Redeemed (Inr b), sys')"
  obtains state browser r t where "isConsumeInput input = Some (state, browser)"
    "mem_get (oo_records (sys (objectName (oa_sha256 pf state)))) (stateKey (oa_sha256 pf state)) = Some (storedRecord r)"
    "os_browserBindingDigest r = oa_sha256 pf browser" "os_public r = b"
    "sys' = sys(objectName (oa_sha256 pf state) := (sys (objectName (oa_sha256 pf state)))
       \<lparr>oo_records := mem_delete (stateKey (oa_sha256 pf state)) (oo_records (sys (objectName (oa_sha256 pf state))))\<rparr>)"
    "dv_clock d = Some t" "t < ob_expiresAtMs b"
proof -
  obtain state browser where input: "isConsumeInput input = Some (state, browser)"
    using assms(3) by (cases "isConsumeInput input") (auto simp: consumeState_def)
  let ?s = "oa_sha256 pf state" and ?w = "oa_sha256 pf browser"
  let ?body = "consumeBody ?s ?w"
  let ?out = "objectConsume (oa_parseUrl pf) (dv_faults d) (dv_clock d) ?body (sys (objectName ?s))"
  have ok: "utf8_length (serializeJsonValue ?body) \<le> oauth_request_bytes" "dv_arrives d" "dv_returns d"
    using assms(3) by (auto simp: consumeState_def input deliver Let_def split: if_splits)
  have sent: "internalRequest (oa_parseUrl pf) (oa_nearest pf) d ?s ''consume'' ?body sys =
      (Inr (fst ?out), sys(objectName ?s := snd ?out))"
    using ok fetch_consume [OF consume_parsed ok(1), of "oa_parseUrl pf" "oa_nearest pf"] by (simp add: deliver Let_def)
  have status: "op_status (fst ?out) = 200"
    and read: "bindE (readOauthJson (oa_nearest pf) None (op_body (fst ?out)) oauth_response_bytes) (\<lambda>v.
        case isPublicRecord (oa_parseUrl pf) v of None \<Rightarrow> Inl OauthStoreUnavailable | Some b \<Rightarrow> Inr b) = Inr b"
    and sys': "sys' = sys(objectName ?s := snd ?out)"
    using assms(3) by (auto simp: consumeState_def input sent split: if_splits)
  have o1: "objectOk (oa_parseUrl pf) (sys (objectName ?s))" using assms(2) by (simp add: systemOk_def)
  obtain r t where r: "mem_get (oo_records (sys (objectName ?s))) (stateKey ?s) = Some (storedRecord r)" "recordOk (oa_parseUrl pf) r"
    "os_browserBindingDigest r = ?w" "op_body (fst ?out) = Some (serializeJsonValue (publicRecord r))"
    "snd ?out = (sys (objectName ?s))\<lparr>oo_records := mem_delete (stateKey ?s) (oo_records (sys (objectName ?s)))\<rparr>"
    "dv_clock d = Some t" "t < ob_expiresAtMs (os_public r)"
    using consume_success [OF o1 surjective_pairing status] by metis
  have "safeTimes (os_public r)" using r(2) by (auto simp: recordOk_def bindingOk_def dest: fields_safe)
  then have "os_public r = b"
    using read r(2) public_parsed [OF assms(1), of r] public_read [of "oa_parseUrl pf" r]
    by (auto simp: r(4) readOauthJson_def recordOk_def split: if_splits)
  then show thesis using that input r sys' by metis
qed

lemma consume_records:
  "mem_get (oo_records (snd (objectConsume parseUrl faults clock v o1))) k = Some w \<Longrightarrow> mem_get (oo_records o1) k = Some w"
  by (auto simp: objectConsume_def Let_def mem_get_delete split: option.splits prod.splits if_splits)

lemma alarm_records:
  "objectOk parseUrl o1 \<Longrightarrow> mem_get (oo_records (objectAlarm parseUrl faults clock o1)) k = Some w \<Longrightarrow>
     mem_get (oo_records o1) k = Some w"
  by (auto simp: objectAlarm_def Let_def scheduleNextAlarm_def objectOk_def dest: shrinks_filter
      split: option.splits if_splits list.splits)

lemma pending_shrinks:
  "(\<And>k v. mem_get (oo_records (sys' (objectName (fst token)))) k = Some v \<Longrightarrow> mem_get (oo_records (sys (objectName (fst token)))) k = Some v)
     \<Longrightarrow> pending token sys' \<le> pending token sys"
  by (cases token) (auto simp: pending_def)

declare oauthCall.simps(1,2) [simp del]

lemma redeem_step:
  assumes "readsIntegers (oa_nearest pf)" "systemOk (oa_parseUrl pf) sys"
  shows "count_list (redeemedBy pf (RedeemCall d input, fst (oauthCall pf (RedeemCall d input) sys))) token +
      pending token (snd (oauthCall pf (RedeemCall d input) sys)) \<le> pending token sys"
proof -
  let ?out = "oauthCall pf (RedeemCall d input) sys"
  have shrinks: "pending token (snd ?out) \<le> pending token sys"
  proof (rule pending_shrinks)
    fix k v
    assume "mem_get (oo_records (snd ?out (objectName (fst token)))) k = Some v"
    then show "mem_get (oo_records (sys (objectName (fst token)))) k = Some v"
      unfolding redeem_system
      by (auto simp: deliver Let_def fetch_consume [OF consume_parsed] split: option.splits if_splits dest: consume_records)
  qed
  show ?thesis
  proof (cases "token \<in> set (redeemedBy pf (RedeemCall d input, fst ?out))")
    case False
    then show ?thesis using shrinks by (simp add: count_notin)
  next
    case True
    obtain rep sys' where out: "?out = (rep, sys')" by (cases ?out)
    obtain b where b: "rep = Redeemed (Inr b)"
    proof (cases rep)
      case (Redeemed x)
      then show ?thesis using True that by (cases x) (simp_all add: out)
    qed (use True in \<open>simp_all add: out\<close>)
    obtain state browser r t where r: "isConsumeInput input = Some (state, browser)"
      "mem_get (oo_records (sys (objectName (oa_sha256 pf state)))) (stateKey (oa_sha256 pf state)) = Some (storedRecord r)"
      "os_browserBindingDigest r = oa_sha256 pf browser" "os_public r = b"
      "sys' = sys(objectName (oa_sha256 pf state) := (sys (objectName (oa_sha256 pf state)))
         \<lparr>oo_records := mem_delete (stateKey (oa_sha256 pf state)) (oo_records (sys (objectName (oa_sha256 pf state))))\<rparr>)"
      using redeemed [OF assms out [unfolded b]] by metis
    have token: "token = (oa_sha256 pf state, oa_sha256 pf browser, b)"
      using True by (simp add: out b r(1))
    have "r = \<lparr>os_browserBindingDigest = oa_sha256 pf browser, os_public = b\<rparr>" using r(3,4) by simp
    then show ?thesis
      using r(2) by (simp add: out b r(1,5) token pending_def mem_get_delete)
  qed
qed

lemma sent_parsed:
  assumes "readsIntegers (oa_nearest pf)" "oa_ttlMs pf \<in> {min_ttl_ms..max_ttl_ms}" "\<bar>t\<bar> \<le> 8640000000000000"
  shows "parse_json (oa_nearest pf) (serializeJsonValue (issueBody s (sentRecord pf b browser t))) =
    Some (issueBody s (sentRecord pf b browser t))"
  using assms(2,3)
  by (intro issue_parsed [OF assms(1)])
    (auto simp: safeTimes_def sentRecord_def is_safe_integer_def max_safe_integer_def min_ttl_ms_def max_ttl_ms_def)

lemma oauth_issue_step:
  assumes "readsIntegers (oa_nearest pf)" "oa_ttlMs pf \<in> {min_ttl_ms..max_ttl_ms}"
    "issuedInTime (IssueCall d clock bytes input)"
  shows "pending token (snd (oauthCall pf (IssueCall d clock bytes input) sys)) \<le>
    pending token sys + count_list (boundBy pf (IssueCall d clock bytes input)) token"
proof (cases "\<exists>b browser t. isIssueInput (oa_parseUrl pf) input = Some (b, browser) \<and> clock = Some t")
  case False
  then show ?thesis unfolding issue_system by (auto split: option.splits)
next
  case True
  then obtain b browser t where input: "isIssueInput (oa_parseUrl pf) input = Some (b, browser)" "clock = Some t" by blast
  let ?s = "oa_sha256 pf (encodeBase64Url bytes)" and ?r = "sentRecord pf b browser t"
  let ?o = "sys (objectName ?s)"
  have time: "\<bar>t\<bar> \<le> 8640000000000000" using assms(3) input(2) by simp
  let ?sys = "snd (oauthCall pf (IssueCall d clock bytes input) sys)"
  have sys: "?sys = sys \<or> ?sys = sys(objectName ?s := snd (objectIssue (oa_parseUrl pf) (dv_faults d) (dv_clock d) (issueBody ?s ?r) ?o))"
    unfolding issue_system
    by (auto simp: input deliver Let_def fetch_issue [OF sent_parsed [OF assms(1,2) time]])
  have new: "mem_get (oo_records (sys (objectName s))) (stateKey s) = Some v \<or> (s = ?s \<and> v = storedRecord ?r)"
    if v: "mem_get (oo_records (?sys (objectName s))) (stateKey s) = Some v" for s v
  proof (cases "?sys = sys \<or> objectName s \<noteq> objectName ?s")
    case True
    then show ?thesis using sys v by auto
  next
    case False
    then have "mem_get (oo_records (snd (objectIssue (oa_parseUrl pf) (dv_faults d) (dv_clock d) (issueBody ?s ?r) ?o))) (stateKey s) = Some v"
      using sys v by auto
    from issue_records [OF this] show ?thesis using False by auto
  qed
  obtain s w c where token: "token = (s, w, c)" by (cases token)
  have "token = (?s, oa_sha256 pf browser, os_public ?r)" if "pending token ?sys = 1" "pending token sys = 0"
    using that new [of s "storedRecord \<lparr>os_browserBindingDigest = w, os_public = c\<rparr>"]
    by (auto simp: pending_def token storedRecord_inj sentRecord_def split: if_splits)
  then show ?thesis
    by (cases "pending token ?sys = 1 \<and> pending token sys = 0")
      (auto simp: pending_def input sentRecord_def token split: if_splits)
qed

lemma call_step:
  assumes "readsIntegers (oa_nearest pf)" "oa_ttlMs pf \<in> {min_ttl_ms..max_ttl_ms}" "issuedInTime c" "systemOk (oa_parseUrl pf) sys"
  shows "count_list (redeemedBy pf (c, fst (oauthCall pf c sys))) token + pending token (snd (oauthCall pf c sys)) \<le>
    pending token sys + count_list (boundBy pf c) token"
proof (cases c)
  case (IssueCall d clock bytes input)
  then show ?thesis using oauth_issue_step [OF assms(1,2) assms(3) [unfolded IssueCall], of token sys] by simp
next
  case (RedeemCall d input)
  then show ?thesis using redeem_step [OF assms(1,4), of d input token] by simp
next
  case (AlarmCall name faults clock)
  have "pending token (snd (oauthCall pf c sys)) \<le> pending token sys"
    using assms(4) by (intro pending_shrinks) (auto simp: AlarmCall systemOk_def split: if_splits dest: alarm_records [rotated])
  then show ?thesis by (simp add: AlarmCall)
qed

lemma run_counts:
  assumes "readsIntegers (oa_nearest pf)" "oa_ttlMs pf \<in> {min_ttl_ms..max_ttl_ms}"
  shows "systemOk (oa_parseUrl pf) sys \<Longrightarrow> list_all issuedInTime calls \<Longrightarrow>
    count_list (concat (map (redeemedBy pf) (zip calls (fst (oauthRun pf calls sys))))) token +
      pending token (snd (oauthRun pf calls sys)) \<le>
    pending token sys + count_list (concat (map (boundBy pf) calls)) token"
proof (induction calls arbitrary: sys)
  case (Cons c calls)
  have "count_list (redeemedBy pf (c, fst (oauthCall pf c sys))) token + pending token (snd (oauthCall pf c sys)) \<le>
      pending token sys + count_list (boundBy pf c) token"
    using Cons.prems by (intro call_step [OF assms]) simp_all
  moreover note Cons.IH [OF call_ok [OF Cons.prems(1), of c]]
  ultimately show ?case using Cons.prems(2)
    by (simp add: case_prod_unfold)
qed simp

definition noObjects :: oauth_system where
  "noObjects = (\<lambda>_. emptyObject)"

lemma noObjects_ok: "systemOk parseUrl noObjects"
  by (simp add: systemOk_def noObjects_def empty_ok)

text \<open>
  C38: A state is redeemed at most once, only by the browser session that asked for it and for the flow
  that it was issued for: whatever calls, alarms and failures of storage and delivery happen, the
  redemptions that succeed are, with repetitions, among the issues.
\<close>

theorem oauth_state_single_use:
  assumes "readsIntegers (oa_nearest pf)" "oa_ttlMs pf \<in> {min_ttl_ms..max_ttl_ms}" "list_all issuedInTime calls"
  shows "mset (concat (map (redeemedBy pf) (zip calls (fst (oauthRun pf calls noObjects))))) \<subseteq>#
    mset (concat (map (boundBy pf) calls))"
proof (rule mset_subset_eqI)
  fix token
  have "pending token noObjects = 0"
    by (simp add: pending_def noObjects_def emptyObject_def mem_get_def split: prod.split)
  then show "count (mset (concat (map (redeemedBy pf) (zip calls (fst (oauthRun pf calls noObjects)))))) token \<le>
      count (mset (concat (map (boundBy pf) calls))) token"
    using run_counts [OF assms(1,2) noObjects_ok assms(3), of token] by (simp add: count_mset)
qed

end
