(* ===== verification/CpOauthRedeem.thy ===== *)
theory CpOauthRedeem
  imports CpOauthProperties
begin

text \<open>
  A state that was issued can be redeemed: nothing that other clients do, and no failed attempt on the
  state itself, spends it before it expires.
\<close>

section \<open>Sizes of bodies\<close>

lemma utf8_append [simp]: "utf8_length (s @ t) = utf8_length s + utf8_length t"
  by (simp add: utf8_length_def)

lemma utf8_Cons [simp]: "utf8_length (c # s) = (if code c < 128 then 1 else 2) + utf8_length s"
  by (simp add: utf8_length_def)

lemma utf8_Nil [simp]: "utf8_length [] = 0"
  by (simp add: utf8_length_def)

definition plainText :: "string \<Rightarrow> bool" where
  "plainText s \<longleftrightarrow> list_all (\<lambda>c. 32 \<le> code c \<and> code c < 128 \<and> code c \<noteq> 34 \<and> code c \<noteq> 92) s"

lemma plain_quote: "plainText s \<Longrightarrow> utf8_length (json_quote s) = length s + 2"
proof -
  assume p: "plainText s"
  have "concat (map json_escape s) = s"
    using p by (induction s) (auto simp: plainText_def json_escape_def)
  moreover have "utf8_length s = length s"
    using p by (induction s) (auto simp: plainText_def)
  ultimately show ?thesis by (simp add: json_quote_def)
qed

lemma digest_plain: "isDigest s \<Longrightarrow> plainText s \<and> length s = 64"
  by (auto simp: isDigest_def plainText_def list_all_iff is_digit_def)

lemma consume_fits:
  assumes "isDigest s" "isDigest d"
  shows "utf8_length (serializeJsonValue (consumeBody s d)) \<le> oauth_request_bytes"
proof -
  have "plainText ''stateDigest''" "plainText ''browserBindingDigest''" by code_simp+
  then show ?thesis
    using digest_plain [OF assms(1)] digest_plain [OF assms(2)]
    by (simp add: consumeBody_def plain_quote oauth_request_bytes_def code_def)
qed

lemma public_smaller:
  "utf8_length (serializeJsonValue (publicRecord r)) \<le> utf8_length (serializeJsonValue (issueBody s r))"
  by (simp add: publicRecord_def issueBody_def bindingMembers_def)

section \<open>States\<close>

lemma base64_alphabet: "url_safe (base64_char n) \<noteq> CHR ''='' \<and> base64url_char (url_safe (base64_char n))"
proof -
  have "list_all (\<lambda>n. url_safe (base64_char n) \<noteq> CHR ''='' \<and> base64url_char (url_safe (base64_char n))) [0..<64]"
    by code_simp
  then have small: "m < 64 \<Longrightarrow> url_safe (base64_char m) \<noteq> CHR ''='' \<and> base64url_char (url_safe (base64_char m))" for m
    by (simp add: list_all_iff)
  have "base64_char n = base64_char (min n 63)" by (simp add: base64_char_def min_def)
  then show ?thesis using small [of "min n 63"] by simp
qed

text \<open>The text of \<open>3 n + 2\<close> bytes: \<open>4 n + 3\<close> characters and one padding.\<close>

lemma btoa_two:
  "length bytes = 3 * n + 2 \<Longrightarrow> \<exists>ks. btoa bytes = map base64_char ks @ ''='' \<and> length ks = 4 * n + 3"
proof (induction n arbitrary: bytes)
  case 0
  then obtain a b where "bytes = [a, b]" by (auto simp: numeral_2_eq_2 length_Suc_conv)
  then have "btoa bytes = map base64_char [unat a div 4, unat a mod 4 * 16 + unat b div 16, unat b mod 16 * 4] @ ''=''" by simp
  then show ?case by (intro exI [of _ "[unat a div 4, unat a mod 4 * 16 + unat b div 16, unat b mod 16 * 4]"]) simp
next
  case (Suc n)
  then obtain a b c rest where "bytes = a # b # c # rest"
    by (auto simp: length_Suc_conv numeral_eq_Suc)
  then obtain ks where ks: "btoa rest = map base64_char ks @ ''=''" "length ks = 4 * n + 3" "bytes = a # b # c # rest"
    using Suc.IH [of rest] Suc.prems by auto
  let ?ks = "[unat a div 4, unat a mod 4 * 16 + unat b div 16, unat b mod 16 * 4 + unat c div 64, unat c mod 64] @ ks"
  have "btoa bytes = map base64_char ?ks @ ''=''" using ks by simp
  then show ?case using ks(2) by (intro exI [of _ ?ks]) simp
qed

lemma issued_pattern:
  assumes "length bytes = 32"
  shows "statePattern (encodeBase64Url bytes)"
proof -
  obtain ks where ks: "btoa bytes = map base64_char ks @ ''=''" "length ks = 43"
    using btoa_two [of bytes 10] assms by auto
  have "url_safe (CHR ''='') = CHR ''=''" by (simp add: url_safe_def)
  moreover have "dropWhile (\<lambda>c. c = CHR ''='') (rev (map (url_safe \<circ> base64_char) ks)) = rev (map (url_safe \<circ> base64_char) ks)"
    using ks(2) base64_alphabet [of "last ks"] by (cases ks rule: rev_cases) auto
  ultimately have "encodeBase64Url bytes = map (url_safe \<circ> base64_char) ks"
    by (simp add: encodeBase64Url_def ks(1))
  then show ?thesis using ks(2) base64_alphabet by (simp add: statePattern_def list_all_iff)
qed

section \<open>A state that is held\<close>

definition held :: "string \<Rightarrow> OAuthStateRecord \<Rightarrow> oauth_system \<Rightarrow> bool" where
  "held s r sys \<longleftrightarrow> mem_get (oo_records (sys (objectName s))) (stateKey s) = Some (storedRecord r)"

text \<open>
  Calls that leave a state alone: they do not present it with its browser binding, and the object sees
  them before the state expires.
\<close>

definition before :: "int option \<Rightarrow> int \<Rightarrow> bool" where
  "before clock expires \<longleftrightarrow> (case clock of None \<Rightarrow> True | Some t \<Rightarrow> t < expires)"

fun sparesState :: "oauth_platform \<Rightarrow> string \<Rightarrow> OAuthStateRecord \<Rightarrow> oauth_call \<Rightarrow> bool" where
  "sparesState pf s r (IssueCall d clock bytes input) \<longleftrightarrow> issuedInTime (IssueCall d clock bytes input)"
| "sparesState pf s r (RedeemCall d input) \<longleftrightarrow>
     (case isConsumeInput input of
        None \<Rightarrow> True
      | Some (state, browser) \<Rightarrow> (oa_sha256 pf state, oa_sha256 pf browser) \<noteq> (s, os_browserBindingDigest r)) \<and>
     before (dv_clock d) (ob_expiresAtMs (os_public r))"
| "sparesState pf s r (AlarmCall name faults clock) \<longleftrightarrow> before clock (ob_expiresAtMs (os_public r))"

lemma issue_keeps:
  "mem_get (oo_records o1) k = Some v \<Longrightarrow> mem_get (oo_records (snd (objectIssue parseUrl faults clock input o1))) k = Some v"
  by (auto simp: objectIssue_def Let_def mem.get_put split: option.split prod.split)

lemma consume_keeps:
  assumes "mem_get (oo_records o1) (stateKey s) = Some (storedRecord r)" "recordOk parseUrl r"
    "(s', d) \<noteq> (s, os_browserBindingDigest r)" "before clock (ob_expiresAtMs (os_public r))"
  shows "mem_get (oo_records (snd (objectConsume parseUrl faults clock (consumeBody s' d) o1))) (stateKey s) = Some (storedRecord r)"
  using assms
  by (auto simp: objectConsume_def consume_read Let_def mem_get_delete stored_read before_def split: option.splits)

lemma alarm_keeps:
  assumes "mem_get (oo_records o1) (stateKey s) = Some (storedRecord r)" "recordOk parseUrl r"
    "before clock (ob_expiresAtMs (os_public r))"
  shows "mem_get (oo_records (objectAlarm parseUrl faults clock o1)) (stateKey s) = Some (storedRecord r)"
proof -
  have "map_of (filter P xs) k = Some v" if "map_of xs k = Some v" "P (k, v)" for P k v and xs :: "(string \<times> jsval) list"
    using that by (induction xs) (auto split: if_splits)
  then have "mem_get (filter (\<lambda>e. \<not> expiredEntry parseUrl t e) (oo_records o1)) (stateKey s) = Some (storedRecord r)"
    if "t < ob_expiresAtMs (os_public r)" for t
    using assms(1,2) that by (simp add: mem_get_def expiredEntry_def stored_read)
  then show ?thesis
    using assms(1,3)
    by (simp add: objectAlarm_def Let_def before_def scheduleNextAlarm_def split: option.splits list.splits)
qed

lemma call_keeps:
  assumes "readsIntegers (oa_nearest pf)" "oa_ttlMs pf \<in> {min_ttl_ms..max_ttl_ms}"
    "held s r sys" "recordOk (oa_parseUrl pf) r" "sparesState pf s r c"
  shows "held s r (snd (oauthCall pf c sys))"
proof (cases c)
  case (IssueCall d clock bytes input)
  then have "\<bar>t\<bar> \<le> 8640000000000000" if "clock = Some t" for t using assms(5) that by simp
  then show ?thesis
    using assms(3) unfolding IssueCall issue_system
    by (auto simp: deliver Let_def fetch_issue [OF sent_parsed [OF assms(1,2)]] held_def issue_keeps split: option.split)
next
  case (RedeemCall d input)
  then show ?thesis
    using assms(3-5) unfolding RedeemCall redeem_system
    by (auto simp: deliver Let_def fetch_consume [OF consume_parsed] held_def split: option.split intro!: consume_keeps)
next
  case (AlarmCall name faults clock)
  then show ?thesis using assms(3-5) by (auto simp: held_def alarm_keeps)
qed

lemma run_keeps:
  assumes "readsIntegers (oa_nearest pf)" "oa_ttlMs pf \<in> {min_ttl_ms..max_ttl_ms}" "recordOk (oa_parseUrl pf) r"
  shows "held s r sys \<Longrightarrow> list_all (sparesState pf s r) calls \<Longrightarrow> held s r (snd (oauthRun pf calls sys))"
proof (induction calls arbitrary: sys)
  case (Cons c calls)
  then show ?case using call_keeps [OF assms(1,2) _ assms(3)] by (simp add: case_prod_unfold)
qed simp

section \<open>Issued and redeemed\<close>

lemma issued:
  assumes "readsIntegers (oa_nearest pf)" "oa_ttlMs pf \<in> {min_ttl_ms..max_ttl_ms}" "issuedInTime (IssueCall d clock bytes input)"
    "oauthCall pf (IssueCall d clock bytes input) sys = (Issued (Inr (state, expires)), sys1)"
    "isIssueInput (oa_parseUrl pf) input = Some (b, browser)"
  obtains t where "clock = Some t" "state = encodeBase64Url bytes" "expires = t + oa_ttlMs pf"
    "held (oa_sha256 pf state) (sentRecord pf b browser t) sys1" "recordOk (oa_parseUrl pf) (sentRecord pf b browser t)"
    "isDigest (oa_sha256 pf state)" "utf8_length (serializeJsonValue (issueBody (oa_sha256 pf state) (sentRecord pf b browser t))) \<le> oauth_request_bytes"
proof -
  obtain t where t: "clock = Some t"
    using assms(4,5) by (cases clock) (auto simp: issueState_def oauthCall.simps)
  have time: "\<bar>t\<bar> \<le> 8640000000000000" using assms(3) t by simp
  let ?s = "oa_sha256 pf (encodeBase64Url bytes)" and ?r = "sentRecord pf b browser t"
  let ?out = "objectIssue (oa_parseUrl pf) (dv_faults d) (dv_clock d) (issueBody ?s ?r) (sys (objectName ?s))"
  have r: "\<lparr>os_browserBindingDigest = oa_sha256 pf browser, os_public = b\<lparr>ob_issuedAtMs := t, ob_expiresAtMs := t + oa_ttlMs pf\<rparr>\<rparr> = ?r"
    by (simp add: sentRecord_def)
  have ok: "utf8_length (serializeJsonValue (issueBody ?s ?r)) \<le> oauth_request_bytes" "dv_arrives d" "dv_returns d"
    using assms(4) by (auto simp: oauthCall.simps issueState_def assms(5) t Let_def r deliver split: if_splits)
  have sent: "internalRequest (oa_parseUrl pf) (oa_nearest pf) d ?s ''issue'' (issueBody ?s ?r) sys =
      (Inr (fst ?out), sys(objectName ?s := snd ?out))"
    using ok fetch_issue [OF sent_parsed [OF assms(1,2) time] ok(1)] by (simp add: deliver Let_def)
  have status: "op_status (fst ?out) = 204" and res: "state = encodeBase64Url bytes" "expires = t + oa_ttlMs pf"
      "sys1 = sys(objectName ?s := snd ?out)"
    using assms(4) by (auto simp: oauthCall.simps issueState_def assms(5) t Let_def r sent split: if_splits)
  obtain s' r' where read: "isIssueProtocolInput (oa_parseUrl pf) (issueBody ?s ?r) = Some (s', r')"
    using status by (cases "isIssueProtocolInput (oa_parseUrl pf) (issueBody ?s ?r)") (auto simp: objectIssue_def oauthErrorResponse_def)
  have same: "s' = ?s" "r' = ?r" using issue_read_any [OF read] by simp_all
  have "recordOk (oa_parseUrl pf) ?r" "isDigest ?s"
    using issue_input_ok [OF read] assms(2) by (auto simp: same recordOk_def bindingOk_def sentRecord_def)
  moreover have "held ?s ?r sys1"
    using status by (auto simp: held_def res objectIssue_def read same Let_def mem.get_put oauthErrorResponse_def split: option.splits if_splits)
  ultimately show thesis using that [OF t] res ok(1) by simp
qed

lemma redeem_held:
  assumes "readsIntegers (oa_nearest pf)" "held (oa_sha256 pf state) r sys" "recordOk (oa_parseUrl pf) r"
    "isDigest (oa_sha256 pf state)" "os_browserBindingDigest r = oa_sha256 pf browser"
    "isConsumeInput input = Some (state, browser)" "\<not> sf_transaction (dv_faults d)" "dv_arrives d" "dv_returns d"
    "dv_clock d = Some t" "t < ob_expiresAtMs (os_public r)"
    "utf8_length (serializeJsonValue (publicRecord r)) \<le> oauth_response_bytes"
  shows "fst (oauthCall pf (RedeemCall d input) sys) = Redeemed (Inr (os_public r))"
proof -
  let ?s = "oa_sha256 pf state" and ?w = "oa_sha256 pf browser"
  have d: "isDigest ?w" using assms(3,5) by (simp add: recordOk_def)
  have "fst (objectConsume (oa_parseUrl pf) (dv_faults d) (dv_clock d) (consumeBody ?s ?w) (sys (objectName ?s))) =
      \<lparr>op_status = 200, op_body = Some (serializeJsonValue (publicRecord r))\<rparr>"
    using assms(2-5,7,10,11) d by (simp add: objectConsume_def consume_read Let_def held_def stored_read)
  then have sent: "fst (internalRequest (oa_parseUrl pf) (oa_nearest pf) d ?s ''consume'' (consumeBody ?s ?w) sys) =
      Inr \<lparr>op_status = 200, op_body = Some (serializeJsonValue (publicRecord r))\<rparr>"
    using assms(8,9) consume_fits [OF assms(4) d] by (simp add: deliver Let_def fetch_consume [OF consume_parsed])
  have "safeTimes (os_public r)" using assms(3) by (auto simp: recordOk_def bindingOk_def dest: fields_safe)
  then have "bindE (readOauthJson (oa_nearest pf) None (Some (serializeJsonValue (publicRecord r))) oauth_response_bytes) (\<lambda>v.
      case isPublicRecord (oa_parseUrl pf) v of None \<Rightarrow> Inl OauthStoreUnavailable | Some b \<Rightarrow> Inr b) = Inr (os_public r)"
    using assms(3,12) public_parsed [OF assms(1), of r] public_read [of "oa_parseUrl pf" r]
    by (simp add: readOauthJson_def recordOk_def)
  then show ?thesis
    using sent by (simp add: oauthCall.simps consumeState_def assms(6) case_prod_unfold)
qed

text \<open>
  C39: An issued state stays redeemable until it expires: whatever other issues, alarms, lost messages
  and failed redemptions come in between, its browser session redeems it and gets the flow back.
\<close>

theorem oauth_state_stays_redeemable:
  assumes "readsIntegers (oa_nearest pf)" "oa_ttlMs pf \<in> {min_ttl_ms..max_ttl_ms}" "length bytes = 32"
    "isIssueInput (oa_parseUrl pf) input = Some (b, browser)" "\<bar>t0\<bar> \<le> 8640000000000000"
    "oauthCall pf (IssueCall d (Some t0) bytes input) sys = (Issued (Inr (state, expires)), sys1)"
    "list_all (sparesState pf (oa_sha256 pf state) (sentRecord pf b browser t0)) others"
    "\<not> sf_transaction (dv_faults e)" "dv_arrives e" "dv_returns e" "dv_clock e = Some t" "t < expires"
  shows "fst (oauthCall pf (RedeemCall e (JObj PlainObj [(''state'', JStr state), (''browserBinding'', JStr browser)]))
      (snd (oauthRun pf others sys1))) =
    Redeemed (Inr (b\<lparr>ob_issuedAtMs := t0, ob_expiresAtMs := expires\<rparr>))"
proof -
  let ?r = "sentRecord pf b browser t0"
  obtain u where u: "Some t0 = Some u" "state = encodeBase64Url bytes" "expires = u + oa_ttlMs pf"
    "held (oa_sha256 pf state) (sentRecord pf b browser u) sys1" "recordOk (oa_parseUrl pf) (sentRecord pf b browser u)"
    "isDigest (oa_sha256 pf state)"
    "utf8_length (serializeJsonValue (issueBody (oa_sha256 pf state) (sentRecord pf b browser u))) \<le> oauth_request_bytes"
    using issued [OF assms(1,2) _ assms(6,4)] assms(5) by auto
  have fits: "utf8_length (serializeJsonValue (publicRecord ?r)) \<le> oauth_response_bytes"
    using public_smaller [of ?r "oa_sha256 pf state"] u(1,7) by (simp add: oauth_request_bytes_def oauth_response_bytes_def)
  have "isBrowserBinding browser" using assms(4) by (auto simp: isIssueInput_def stringMember_Some split: option.splits if_splits)
  then have input: "isConsumeInput (JObj PlainObj [(''state'', JStr state), (''browserBinding'', JStr browser)]) = Some (state, browser)"
    using issued_pattern [OF assms(3)] u(2)
    by (simp add: isConsumeInput_def isExactRecord_def own_keys_def stringMember_def record_get_def)
  have "held (oa_sha256 pf state) ?r (snd (oauthRun pf others sys1))"
    using u(1,4,5) by (intro run_keeps [OF assms(1,2) _ _ assms(7)]) simp_all
  then have "fst (oauthCall pf (RedeemCall e (JObj PlainObj [(''state'', JStr state), (''browserBinding'', JStr browser)]))
      (snd (oauthRun pf others sys1))) = Redeemed (Inr (os_public ?r))"
    using u assms(8-12) fits input by (intro redeem_held [OF assms(1)]) (simp_all add: sentRecord_def)
  then show ?thesis using u(1,3) by (simp add: sentRecord_def)
qed

end
