(* ===== verification/CpOauthExamples.thy ===== *)
theory CpOauthExamples
  imports CpOauthRedeem
begin

text \<open>A flow of one tenant, with two browser sessions.\<close>

section \<open>An issue that succeeds\<close>

lemma issue_fields:
  "isIssueInput parseUrl input = Some (b, browser) \<Longrightarrow> is_safe_integer t \<Longrightarrow> 0 \<le> t \<Longrightarrow> is_safe_integer e \<Longrightarrow> 0 \<le> e \<Longrightarrow>
     fieldsOk parseUrl (b\<lparr>ob_issuedAtMs := t, ob_expiresAtMs := e\<rparr>)"
  by (auto simp: isIssueInput_def stringMember_Some fieldsOk_def split: option.splits if_splits)

lemma issue_answers:
  assumes "readsIntegers (oa_nearest pf)" "oa_ttlMs pf \<in> {min_ttl_ms..max_ttl_ms}"
    "isIssueInput (oa_parseUrl pf) input = Some (b, browser)" "0 \<le> t" "t \<le> 8640000000000000"
    "isDigest (oa_sha256 pf (encodeBase64Url bytes))" "isDigest (oa_sha256 pf browser)"
    "utf8_length (serializeJsonValue (issueBody (oa_sha256 pf (encodeBase64Url bytes)) (sentRecord pf b browser t))) \<le> oauth_request_bytes"
    "dv_faults d = \<lparr>sf_alarm = False, sf_transaction = False\<rparr>" "dv_arrives d" "dv_returns d" "dv_clock d = Some u" "\<bar>t - u\<bar> \<le> 5000"
    "mem_get (oo_records (sys (objectName (oa_sha256 pf (encodeBase64Url bytes))))) (stateKey (oa_sha256 pf (encodeBase64Url bytes))) = None"
  shows "fst (oauthCall pf (IssueCall d (Some t) bytes input) sys) = Issued (Inr (encodeBase64Url bytes, t + oa_ttlMs pf))"
proof -
  let ?s = "oa_sha256 pf (encodeBase64Url bytes)" and ?r = "sentRecord pf b browser t"
  have time: "\<bar>t\<bar> \<le> 8640000000000000" using assms(4,5) by simp
  have r: "\<lparr>os_browserBindingDigest = oa_sha256 pf browser, os_public = b\<lparr>ob_issuedAtMs := t, ob_expiresAtMs := t + oa_ttlMs pf\<rparr>\<rparr> = ?r"
    by (simp add: sentRecord_def)
  have "fieldsOk (oa_parseUrl pf) (os_public ?r)"
    using issue_fields [OF assms(3), of t "t + oa_ttlMs pf"] assms(2,4,5)
    by (auto simp: sentRecord_def is_safe_integer_def max_safe_integer_def min_ttl_ms_def max_ttl_ms_def)
  then have "isIssueProtocolInput (oa_parseUrl pf) (issueBody ?s ?r) = Some (?s, ?r)"
    using assms(6,7) by (intro issue_read) (simp_all add: sentRecord_def)
  then have "fst (objectIssue (oa_parseUrl pf) (dv_faults d) (dv_clock d) (issueBody ?s ?r) (sys (objectName ?s))) =
      \<lparr>op_status = 204, op_body = None\<rparr>"
    using assms(2,9,12-14) by (simp add: objectIssue_def Let_def sentRecord_def)
  then have "fst (internalRequest (oa_parseUrl pf) (oa_nearest pf) d ?s ''issue'' (issueBody ?s ?r) sys) =
      Inr \<lparr>op_status = 204, op_body = None\<rparr>"
    using assms(8,10,11) by (simp add: deliver Let_def fetch_issue [OF sent_parsed [OF assms(1,2) time]])
  then show ?thesis
    by (simp add: oauthCall.simps issueState_def assms(3) Let_def r case_prod_unfold)
qed

section \<open>The flow\<close>

definition example_browser :: "nat \<Rightarrow> string" where
  "example_browser n = replicate 32 (CHR ''x'') @ replicate n (CHR ''y'')"

definition example_digest :: "string \<Rightarrow> string" where
  "example_digest s =
     replicate 64 (if length s = 43 then CHR ''a'' else if length s = 32 then CHR ''b'' else CHR ''c'')"

definition oauth_example_platform :: oauth_platform where
  "oauth_example_platform =
     \<lparr>oa_parseUrl = (\<lambda>s. Some \<lparr>url_href = s, url_protocol = ''https:'', url_username = [], url_password = [], url_hostname = ''h'',
        url_origin = ''https://h'', url_pathname = ''/'', url_search = [], url_hash = []\<rparr>),
      oa_nearest = (\<lambda>n. n), oa_sha256 = example_digest, oa_ttlMs = 300000\<rparr>"

definition example_flow :: OAuthStateBinding where
  "example_flow =
     \<lparr>ob_provider = ''slack'', ob_appId = ''app'', ob_tenantId = ''t'', ob_actorSubject = ''ann'', ob_redirectUri = ''https://h/'',
      ob_issuedAtMs = 0, ob_expiresAtMs = 0\<rparr>"

definition example_issue_input :: jsval where
  "example_issue_input =
     JObj PlainObj [(''provider'', JStr ''slack''), (''appId'', JStr ''app''), (''tenantId'', JStr ''t''), (''actorSubject'', JStr ''ann''),
       (''browserBinding'', JStr (example_browser 0)), (''redirectUri'', JStr ''https://h/'')]"

definition example_delivery :: "int \<Rightarrow> delivery" where
  "example_delivery t =
     \<lparr>dv_faults = \<lparr>sf_alarm = False, sf_transaction = False\<rparr>, dv_clock = Some t, dv_arrives = True, dv_returns = True\<rparr>"

definition example_bytes :: "8 word list" where
  "example_bytes = replicate 32 7"

definition example_redeem :: "nat \<Rightarrow> oauth_call" where
  "example_redeem n =
     RedeemCall (example_delivery 1000)
       (JObj PlainObj [(''state'', JStr (encodeBase64Url example_bytes)), (''browserBinding'', JStr (example_browser n))])"

lemma oauth_example_platform_ok:
  "readsIntegers (oa_nearest oauth_example_platform)" "oa_ttlMs oauth_example_platform \<in> {min_ttl_ms..max_ttl_ms}"
  "isDigest (oa_sha256 oauth_example_platform s)"
  by (simp_all add: readsIntegers_def oauth_example_platform_def min_ttl_ms_def max_ttl_ms_def isDigest_def example_digest_def
      list_all_iff is_digit_def code_def)

lemma example_input: "isIssueInput (oa_parseUrl oauth_example_platform) example_issue_input = Some (example_flow, example_browser 0)"
  by code_simp

lemma example_fits:
  "utf8_length (serializeJsonValue (issueBody (oa_sha256 oauth_example_platform s) (sentRecord oauth_example_platform example_flow browser 0)))
     \<le> oauth_request_bytes"
proof -
  have "list_all plainText (''stateDigest'' # ''browserBindingDigest'' # bindingKeys @ [''slack'', ''app'', ''t'', ''ann'', ''https://h/''])"
    by code_simp
  moreover have "utf8_length (num_text (NInt 0)) = 1" "utf8_length (num_text (NInt 300000)) = 6"
    by (simp_all add: show_int_def show_nat.simps code_char_of)
  ultimately show ?thesis
    using digest_plain [OF oauth_example_platform_ok(3)]
    by (simp add: issueBody_def bindingMembers_def sentRecord_def example_flow_def bindingKeys_def plain_quote code_def
        oauth_request_bytes_def, simp add: oauth_example_platform_def)
qed

lemma example_issued:
  "fst (oauthCall oauth_example_platform (IssueCall (example_delivery 0) (Some 0) example_bytes example_issue_input) noObjects) =
     Issued (Inr (encodeBase64Url example_bytes, 300000))"
proof -
  have "oa_ttlMs oauth_example_platform = 300000" by (simp add: oauth_example_platform_def)
  then show ?thesis
    using issue_answers [OF oauth_example_platform_ok(1,2) example_input _ _ oauth_example_platform_ok(3) oauth_example_platform_ok(3) example_fits,
      of "example_delivery 0" 0 noObjects]
    by (simp add: example_delivery_def noObjects_def emptyObject_def mem_get_def)
qed

section \<open>The properties on the flow\<close>

text \<open>The second redemption, and that of the other session, do not succeed.\<close>

theorem oauth_state_single_use_witness:
  "mset (concat (map (redeemedBy oauth_example_platform)
     (zip [IssueCall (example_delivery 0) (Some 0) example_bytes example_issue_input, example_redeem 1, example_redeem 0, example_redeem 0]
       (fst (oauthRun oauth_example_platform
         [IssueCall (example_delivery 0) (Some 0) example_bytes example_issue_input, example_redeem 1, example_redeem 0, example_redeem 0]
         noObjects))))) \<subseteq>#
   {# (example_digest (encodeBase64Url example_bytes), example_digest (example_browser 0),
       example_flow\<lparr>ob_issuedAtMs := 0, ob_expiresAtMs := 300000\<rparr>) #}"
proof -
  have "oa_ttlMs oauth_example_platform = 300000" "oa_sha256 oauth_example_platform = example_digest" by (simp_all add: oauth_example_platform_def)
  then show ?thesis
    using oauth_state_single_use [OF oauth_example_platform_ok(1,2),
      of "[IssueCall (example_delivery 0) (Some 0) example_bytes example_issue_input, example_redeem 1, example_redeem 0, example_redeem 0]"]
    by (simp add: example_input example_redeem_def)
qed

theorem oauth_state_stays_redeemable_witness:
  "\<exists>sys1. oauthCall oauth_example_platform (IssueCall (example_delivery 0) (Some 0) example_bytes example_issue_input) noObjects =
       (Issued (Inr (encodeBase64Url example_bytes, 300000)), sys1) \<and>
     fst (oauthCall oauth_example_platform (example_redeem 0) (snd (oauthRun oauth_example_platform [example_redeem 1] sys1))) =
       Redeemed (Inr (example_flow\<lparr>ob_issuedAtMs := 0, ob_expiresAtMs := 300000\<rparr>))"
proof -
  obtain sys1 where i: "oauthCall oauth_example_platform (IssueCall (example_delivery 0) (Some 0) example_bytes example_issue_input) noObjects =
       (Issued (Inr (encodeBase64Url example_bytes, 300000)), sys1)"
    using example_issued by (metis prod.collapse)
  have "\<not> example_digest (example_browser 1) = example_digest (example_browser 0)"
    by (simp add: example_digest_def example_browser_def)
  then have "sparesState oauth_example_platform (oa_sha256 oauth_example_platform (encodeBase64Url example_bytes))
      (sentRecord oauth_example_platform example_flow (example_browser 0) 0) (example_redeem 1)"
    by (auto simp: example_redeem_def sentRecord_def oauth_example_platform_def example_delivery_def before_def isConsumeInput_def
        stringMember_def record_get_def split: option.splits if_splits)
  then have "fst (oauthCall oauth_example_platform (example_redeem 0) (snd (oauthRun oauth_example_platform [example_redeem 1] sys1))) =
      Redeemed (Inr (example_flow\<lparr>ob_issuedAtMs := 0, ob_expiresAtMs := 300000\<rparr>))"
    unfolding example_redeem_def [of 0]
    by (intro oauth_state_stays_redeemable [OF oauth_example_platform_ok(1,2) _ example_input _ i, where t = 1000])
      (simp_all add: example_bytes_def example_delivery_def)
  then show ?thesis using i by blast
qed

definition example_events :: "object_event list" where
  "example_events =
     [Fetched \<lparr>sf_alarm = False, sf_transaction = False\<rparr> (Some 0)
        \<lparr>or_isPost = True, or_pathname = ''/v1/issue'', or_contentType = Some ''application/json'', or_contentLength = None,
         or_body = Some (serializeJsonValue (issueBody (example_digest (encodeBase64Url example_bytes))
           (sentRecord oauth_example_platform example_flow (example_browser 0) 0)))\<rparr>]"

lemma example_stored:
  "oo_records (foldl (objectStep (oa_parseUrl oauth_example_platform) (oa_nearest oauth_example_platform)) emptyObject example_events) =
     [(stateKey (example_digest (encodeBase64Url example_bytes)),
       storedRecord (sentRecord oauth_example_platform example_flow (example_browser 0) 0))]"
proof -
  let ?r = "sentRecord oauth_example_platform example_flow (example_browser 0) 0"
  have sha: "oa_sha256 oauth_example_platform = example_digest" and ttl: "oa_ttlMs oauth_example_platform = 300000"
    by (simp_all add: oauth_example_platform_def)
  have "fieldsOk (oa_parseUrl oauth_example_platform) (os_public ?r)"
    using issue_fields [OF example_input, of 0 300000] ttl
    by (simp add: sentRecord_def is_safe_integer_def max_safe_integer_def)
  then have "isIssueProtocolInput (oa_parseUrl oauth_example_platform) (issueBody (example_digest (encodeBase64Url example_bytes)) ?r) =
      Some (example_digest (encodeBase64Url example_bytes), ?r)"
    using oauth_example_platform_ok(3) by (intro issue_read) (simp_all add: sentRecord_def sha [symmetric])
  moreover have "parse_json (oa_nearest oauth_example_platform) (serializeJsonValue (issueBody s ?r)) = Some (issueBody s ?r)" for s
    by (rule sent_parsed [OF oauth_example_platform_ok(1,2)]) simp
  ultimately show ?thesis
    using fetch_issue [OF _ example_fits [unfolded sha], of "oa_nearest oauth_example_platform"]
    by (simp add: example_events_def objectIssue_def Let_def sentRecord_def ttl min_ttl_ms_def max_ttl_ms_def emptyObject_def
        mem_get_def mem_put_def)
qed

theorem oauth_records_swept_witness:
  "\<exists>a. oo_alarm (foldl (objectStep (oa_parseUrl oauth_example_platform) (oa_nearest oauth_example_platform)) emptyObject example_events) = Some a \<and>
     a \<le> 300000"
proof -
  obtain s r a where r: "(stateKey (example_digest (encodeBase64Url example_bytes)),
      storedRecord (sentRecord oauth_example_platform example_flow (example_browser 0) 0)) = (stateKey s, storedRecord r)"
    "oo_alarm (foldl (objectStep (oa_parseUrl oauth_example_platform) (oa_nearest oauth_example_platform)) emptyObject example_events) = Some a"
    "a \<le> ob_expiresAtMs (os_public r)"
    using oauth_records_swept [of _ "oa_parseUrl oauth_example_platform" "oa_nearest oauth_example_platform" example_events]
    unfolding example_stored by (metis list.set_intros(1))
  have "r = sentRecord oauth_example_platform example_flow (example_browser 0) 0" using r(1) by (simp add: storedRecord_inj)
  then have "ob_expiresAtMs (os_public r) = 300000" by (simp add: sentRecord_def oauth_example_platform_def)
  then show ?thesis using r(2,3) by auto
qed

end
