(* ===== verification/Spec2Isabelle.thy ===== *)
theory Spec2Isabelle
  imports Manifest HostSdk Proxy PluginSdk CapProviders CapHttp CapKv CapBroker CpTokenStore CpUsage CpRunaway CpMutationLimit CpApiProperties LdRuntimeProperties LdLocalProperties CpAuditProperties CpAdminReplay CpOauthExamples
begin

text \<open>
  TenantScript (\<open>packages/\<close>) is an extension platform: tenants install plugins, a host runs their
  hooks, and plugins reach the outside only through granted capabilities. This development models
  its core logic.

  Parts and theories:

  \<^item> \<open>Contracts\<close>, \<open>Manifest\<close> (\<open>packages/manifest\<close>): hook types and failure policies, the
    manifest schema, configuration validation and the substitution of configuration references in
    capability grants.
  \<^item> \<open>HostSdk\<close> (\<open>packages/host-sdk\<close>): hook definition, execution plans, payload routing by schema
    version, transform chains and retries. \<open>Proxy\<close> with \<open>WebUrl\<close> (\<open>packages/proxy\<close>): the mapping
    store and the outbound webhook. \<open>PluginSdk\<close> (\<open>packages/plugin-sdk\<close>): dispatch inside a plugin.
  \<^item> \<open>CapInput\<close>, \<open>CapWebInput\<close>, \<open>CapScope\<close>, \<open>CapLimiter\<close>, \<open>CapBroker\<close>, \<open>CapKv\<close>, \<open>CapHttp\<close>,
    \<open>CapProviders\<close> (\<open>packages/capabilities\<close>): input parsers and grant scopes, the rate limiter and
    the call journal, the broker that every capability call passes, and the providers behind it.
  \<^item> \<open>CpAccess\<close>, \<open>CpServiceTokens\<close>, \<open>CpTokenStore\<close>, \<open>CpUsage\<close>, \<open>CpRunaway\<close>, \<open>CpMutationLimit\<close>
    (\<open>packages/control-plane\<close>): roles and operations, approval decisions, machine credentials and
    their store, usage counters with the budget guard, the runaway guard with its quarantine, and
    the rate limit of administrative mutations over its Durable Object.
  \<^item> \<open>CpStore\<close> (\<open>storage.ts\<close>), \<open>CpApi\<close> (\<open>api.ts\<close>), \<open>CpApiContract\<close>, \<open>CpApiProperties\<close>: the database
    tables and statements, the API over the store interface, the contract of that interface (the
    locale \<open>control_plane_store\<close>, interpreted on the statements) and the properties of the API.
  \<^item> \<open>CpUsageMeter\<close>, \<open>CpUsageRecorder\<close> (\<open>usage-meter.ts\<close>, \<open>execution-usage-recorder.ts\<close>): daily
    summaries in memory and in the database behind the locale of a summary store, and the recorder
    that writes an execution and meters it.
  \<^item> \<open>CpAudit\<close>, \<open>CpAuditProperties\<close> (\<open>audit-log.ts\<close>, migration 0011): the hash chain of audit
    events, whose appends are machines of single statements.
  \<^item> \<open>Interleave\<close>: asynchronous operations as trees of atomic statements, their interleavings, and the
    locale \<open>promises\<close> for what all operations keep of a shared state and what their replies promise.
  \<^item> \<open>CpAdminDb\<close> (migrations 0001 to 0006, 0009, 0010), \<open>CpAdminOps\<close>, \<open>CpAdminInstall\<close>
    (\<open>admin-installations.ts\<close>, \<open>admin-rollbacks.ts\<close>, \<open>admin-install-flow.ts\<close>,
    \<open>admin-install-requests.ts\<close>, \<open>admin-approvals.ts\<close>, \<open>admin-idempotency.ts\<close>): the administration tables
    with their triggers, and commands, rollbacks, installations, requests and decisions as trees of
    statements. \<open>CpAdminInvariant\<close> interprets \<open>promises\<close> on them, \<open>CpAdminLawful\<close> shows every
    operation lawful, \<open>CpAdminProperties\<close> and \<open>CpAdminReplay\<close> state what follows for every
    interleaving of these operations (other writers of the tables are not part of it).
  \<^item> \<open>CpOauthState\<close> (\<open>oauth-state-store.ts\<close>): one-time states of OAuth flows over Durable Objects whose
    storage and messages may fail. \<open>CpOauthProperties\<close>, \<open>CpOauthRedeem\<close> and \<open>CpOauthExamples\<close> show that
    a state is redeemed at most once, stays redeemable until it expires and is swept afterwards.
  \<^item> \<open>LdCaller\<close>, \<open>LdRuntime\<close>, \<open>LdCallerProperties\<close>, \<open>LdRuntimeProperties\<close>
    (\<open>packages/loader/src/cloudflare.ts\<close>): the trusted caller of dynamic workers, the runtime source
    it hands to them, and the two composed. \<open>LdLocal\<close>, \<open>LdLocalWorker\<close>, \<open>LdLocalProperties\<close>
    (\<open>packages/loader/src/index.ts\<close>): the supervisor of a local worker thread and the program of that
    thread, as machines over messages, timers and failures.
  \<^item> \<open>Prelude\<close>, \<open>JsValue\<close>, \<open>JsNumber\<close>, \<open>JsonText\<close>, \<open>JsonParse\<close>, \<open>JsonRoundtrip\<close>, \<open>KeyedStore\<close>,
    \<open>IsoDate\<close>: results and state-passing steps, JavaScript values, numbers and strings, JSON texts with
    their parser and its round trip, the keyed storage interface, ISO time stamps.

  Correspondence. A TypeScript function is the definition of the same name; a closure returned by
  a factory is a definition named after what it does, with the captured configuration as an
  argument. A throw is \<open>Inl\<close>, a return \<open>Inr\<close>; an \<open>async\<close> function that changes state is a step
  from the state to a result and a new state, which keeps the changes made before a throw.
  Values of type \<open>unknown\<close> are \<^typ>\<open>jsval\<close>. External services (URL parsing, date parsing of foreign
  formats, transports, digests, the semver library) are arguments.

  What the lemmas show. Each theory proves the behaviour of its operations branch by branch and
  ends with the properties built on that. The interfaces are locales: the keyed storage and the
  facet storage of the capabilities, the reservation store of the mutation limiter, the usage
  summary store, the store of the control plane and the promises of interleaved operations; each is interpreted on the definitions that model
  the code behind it.

  Bounds. The redirect loop of \<open>CapHttp\<close> runs on the redirect budget itself, the retry loop of
  \<open>HostSdk\<close> on its attempt limit; both are total functions, so no fuel is added anywhere.

  Not modelled: cyclic values, accessors and proxies (trees only), strings beyond Latin-1, the
  concurrency of overlapping asynchronous calls (each call is one atomic step, except where a
  theory says that it models a machine of single statements or events), the bundler, the virtual
  machine and the URL classes of the sandbox, process and terminal input and output, the routing of
  \<open>http-api.ts\<close> and the dashboards, the browser applications, the command line and the scripts.
\<close>

end
